(* ===== verification/Prelude.thy ===== *)
theory Prelude
  imports Main "HOL-Library.Word" "HOL-Library.Multiset" "HOL-Library.Sublist"
begin

text \<open>
  The vocabulary every component shares: bytes, the error numbers the code tests, the
  exceptions it throws, the C array accesses with their bounds, and the generic lemmas on
  lists and words the component proofs use.
\<close>

section \<open>Types\<close>

text \<open>
  A C++ \<^verbatim>\<open>char\<close> is one byte, and so is HOL's \<^typ>\<open>char\<close>; a
  \<^verbatim>\<open>std::string\<close> or a run of memory is a list of them. A C++
  \<^verbatim>\<open>int\<close> is an \<^typ>\<open>int\<close> (the development proves that the code's ints
  stay in range), a \<^verbatim>\<open>size_t\<close> or \<^verbatim>\<open>ssize_t\<close> is a 64 bit
  word, a \<^verbatim>\<open>short\<close> a 16 bit word.
\<close>

type_synonym bytes = string
type_synonym size_t = "64 word"

abbreviation newline :: char where
  "newline \<equiv> CHR 0x0A"

text \<open>The values of \<^verbatim>\<open>errno\<close> the code compares with, and all the others.\<close>

datatype errno =
    EINTR | ECONNABORTED | ECONNRESET | EPROTO | EPIPE | EAGAIN | EBADF | EMFILE
  | EINVAL | EADDRINUSE | ECONNREFUSED | EAFNOSUPPORT | Other_errno nat

text \<open>
  What ends an operation without a value. All but the last are the C++ exceptions the code
  throws, with the message. \<^verbatim>\<open>Undefined\<close> is no exception: it marks an access
  outside an array or a vector, which C++ leaves undefined. The model writes every such
  access down, so that "this code has no undefined behaviour" is a theorem.
\<close>

datatype exn =
    SystemError errno string
  | RuntimeError string
  | LogicError string
  | LengthError string
  | InvalidArgument string
  | Undefined string

text \<open>How the body of a loop ends: with the next turn, or by leaving the loop.\<close>

datatype flow = Continue | Break

text \<open>
  What may leave an operation of the event loop: never an undefined access, a bounds error of
  the buffer or of its arguments, or the misuse errors of \<^verbatim>\<open>run\<close>.
\<close>

definition io_error :: "exn \<Rightarrow> bool" where
  "io_error e \<longleftrightarrow> (\<exists>c m. e = SystemError c m) \<or> (\<exists>m. e = RuntimeError m)"

lemma io_error_simps [simp]:
  "io_error (SystemError c m)" "io_error (RuntimeError m)" "\<not> io_error (Undefined m)"
  "\<not> io_error (LengthError m)" "\<not> io_error (InvalidArgument m)" "\<not> io_error (LogicError m)"
  by (simp_all add: io_error_def)

section \<open>Rule collections\<close>

named_theorems trace_simps \<open>what the observations of a trace see of an operation\<close>
named_theorems buffer_simps \<open>contents and sizes of buffers after an operation\<close>
named_theorems wf_intros \<open>operations keep the well-formedness invariants\<close>

section \<open>Memory: array reads and block copies\<close>

definition mem_get :: "bytes \<Rightarrow> int \<Rightarrow> exn + char" where
  "mem_get m i =
     (if 0 \<le> i \<and> i < int (length m) then Inr (m ! nat i)
      else Inl (Undefined ''array index out of range''))"

text \<open>
  \<^verbatim>\<open>memcpy(dst + doff, src + soff, n)\<close>, and \<^verbatim>\<open>memmove\<close>, which
  differs only when the blocks overlap: the model reads the whole source block before it
  writes, as \<^verbatim>\<open>memmove\<close> does. A negative length converts to a huge
  \<^verbatim>\<open>size_t\<close>, so it is out of bounds as well.
\<close>

definition mem_copy :: "bytes \<Rightarrow> int \<Rightarrow> bytes \<Rightarrow> int \<Rightarrow> int \<Rightarrow> exn + bytes" where
  "mem_copy dst doff src soff n =
     (if 0 \<le> n \<and> 0 \<le> doff \<and> 0 \<le> soff
         \<and> doff + n \<le> int (length dst) \<and> soff + n \<le> int (length src)
      then Inr (take (nat doff) dst @ take (nat n) (drop (nat soff) src)
                @ drop (nat (doff + n)) dst)
      else Inl (Undefined ''memory access out of bounds''))"

text \<open>The block of \<open>n\<close> bytes at the start of \<open>m\<close>, as \<^verbatim>\<open>std::string(m, n)\<close> reads it.\<close>

definition mem_block :: "bytes \<Rightarrow> int \<Rightarrow> exn + bytes" where
  "mem_block m n =
     (if 0 \<le> n \<and> n \<le> int (length m) then Inr (take (nat n) m)
      else Inl (Undefined ''memory access out of bounds''))"

lemma mem_block_ok: "0 \<le> n \<Longrightarrow> n \<le> int (length m) \<Longrightarrow> mem_block m n = Inr (take (nat n) m)"
  by (simp add: mem_block_def)

text \<open>
  \<^verbatim>\<open>v[i]\<close> on a \<^verbatim>\<open>std::vector\<close>, and the conversion of an
  \<^verbatim>\<open>int\<close> argument to \<^verbatim>\<open>size_t\<close>, which wraps.
\<close>

definition vec_get :: "'a list \<Rightarrow> nat \<Rightarrow> exn + 'a" where
  "vec_get v i =
     (if i < length v then Inr (v ! i) else Inl (Undefined ''vector index out of range''))"

definition size_of_int :: "int \<Rightarrow> nat" where
  "size_of_int i = nat (i mod 2 ^ 64)"

lemma vec_get_ok [simp]: "i < length v \<Longrightarrow> vec_get v i = Inr (v ! i)"
  by (simp add: vec_get_def)

lemma vec_get_Inr: "vec_get v i = Inr x \<longleftrightarrow> i < length v \<and> x = v ! i"
  by (auto simp: vec_get_def)

lemma size_of_int_small: "0 \<le> i \<Longrightarrow> i < 2 ^ 64 \<Longrightarrow> size_of_int i = nat i"
  by (simp add: size_of_int_def)

lemma mem_get_ok: "0 \<le> i \<Longrightarrow> i < int (length m) \<Longrightarrow> mem_get m i = Inr (m ! nat i)"
  by (simp add: mem_get_def)

lemma mem_copy_ok:
  assumes "0 \<le> n" and "0 \<le> doff" and "0 \<le> soff"
    and "doff + n \<le> int (length dst)" and "soff + n \<le> int (length src)"
  shows "mem_copy dst doff src soff n =
    Inr (take (nat doff) dst @ take (nat n) (drop (nat soff) src) @ drop (nat (doff + n)) dst)"
  using assms by (simp add: mem_copy_def)

lemma mem_copy_length: "mem_copy dst doff src soff n = Inr m \<Longrightarrow> length m = length dst"
  by (auto simp: mem_copy_def split: if_splits)

section \<open>Lists\<close>

lemma nth_eq_of_take: "i < n \<Longrightarrow> take n xs = ys \<Longrightarrow> xs ! i = ys ! i"
  by auto

lemma list_update_last_pop:
  "i < length xs - 1 \<Longrightarrow> butlast (xs[i := y]) = (butlast xs)[i := y]"
  by (metis butlast_list_update nat_less_le)

lemma map_butlast': "map f (butlast xs) = butlast (map f xs)"
  by (simp add: map_butlast)

lemma last_conv_nth': "xs \<noteq> [] \<Longrightarrow> xs ! (length xs - 1) = last xs"
  by (simp add: last_conv_nth)

lemma strict_prefix_take:
  assumes "j < n" and "n \<le> length xs"
  shows "strict_prefix (take j xs) (take n xs)"
proof -
  have "take j xs = take j (take n xs)"
    using assms(1) by (simp add: min_absorb1)
  then have "prefix (take j xs) (take n xs)"
    by (metis take_is_prefix)
  moreover have "length (take j xs) < length (take n xs)"
    using assms by simp
  then have "take j xs \<noteq> take n xs" by fastforce
  ultimately show ?thesis
    by (simp only: strict_prefix_def) simp
qed

section \<open>Induction on two measures\<close>

lemma measures_induct [case_names smaller]:
  fixes f g :: "'a \<Rightarrow> nat"
  assumes "\<And>x. (\<And>y. f y < f x \<or> f y = f x \<and> g y < g x \<Longrightarrow> P y) \<Longrightarrow> P x"
  shows "P a"
proof (induction a rule: wf_induct_rule [OF wf_measures [of "[f, g]"]])
  case (1 x)
  show ?case
  proof (rule assms)
    fix y
    assume "f y < f x \<or> f y = f x \<and> g y < g x"
    then have "(y, x) \<in> measures [f, g]" by simp
    then show "P y" by (rule 1)
  qed
qed

section \<open>Words\<close>

lemma unat_sub_of_int:
  fixes a :: "'a::len word"
  assumes "0 \<le> k" and "nat k \<le> unat a"
  shows "unat (a - word_of_int k) = unat a - nat k"
proof -
  have "word_of_int k = (of_nat (nat k) :: 'a word)"
    using assms(1) by simp
  moreover have "unat (of_nat (nat k) :: 'a word) = nat k"
    using assms(2) by (metis le_unat_uoi)
  ultimately show ?thesis
    using assms(2) by (simp add: unat_sub word_le_nat_alt)
qed

lemma unat_size_t: "n < 2 ^ 64 \<Longrightarrow> unat (of_nat n :: size_t) = n"
  by (simp add: unat_of_nat take_bit_nat_eq_self)

lemma unat_of_int_small:
  assumes "0 \<le> k" and "nat k < 2 ^ LENGTH('a)"
  shows "unat (word_of_int k :: 'a::len word) = nat k"
proof -
  have "word_of_int k = (of_nat (nat k) :: 'a word)"
    using assms(1) by simp
  then show ?thesis
    using assms(2) by (simp add: unat_of_nat take_bit_nat_eq_self)
qed

section \<open>Decimal numbers\<close>

text \<open>\<^verbatim>\<open>std::to_string\<close> of a natural number.\<close>

function decimal :: "nat \<Rightarrow> bytes" where
  "decimal n = (if n < 10 then [char_of (48 + n)] else decimal (n div 10) @ [char_of (48 + n mod 10)])"
  by pat_completeness auto
termination
  by (relation "measure id") auto

declare decimal.simps [simp del]

text \<open>Reading a number back.\<close>

definition digits_value :: "bytes \<Rightarrow> nat" where
  "digits_value ds = foldl (\<lambda>n d. 10 * n + (of_char d - 48)) 0 ds"

lemma digit_char:
  assumes "k < 10"
  shows "of_char (char_of (48 + k :: nat) :: char) = 48 + k" and "(char_of (48 + k) :: char) \<in> set ''0123456789''"
proof -
  show "of_char (char_of (48 + k :: nat) :: char) = 48 + k" using assms by (simp add: of_char_of)
  have "k \<in> {0, 1, 2, 3, 4, 5, 6, 7, 8, 9}" using assms by auto
  then show "(char_of (48 + k) :: char) \<in> set ''0123456789''"
    by (elim insertE emptyE) (simp_all add: char_of_def bit_0)
qed

lemma digits_decimal: "digits_value (decimal n) = n \<and> set (decimal n) \<subseteq> set ''0123456789''"
proof (induction n rule: decimal.induct)
  case (1 n)
  show ?case
  proof (cases "n < 10")
    case True
    then have "decimal n = [char_of (48 + n)]" by (subst decimal.simps) simp
    with digit_char [OF True] show ?thesis by (simp add: digits_value_def)
  next
    case False
    then have "decimal n = decimal (n div 10) @ [char_of (48 + n mod 10)]" by (subst decimal.simps) simp
    moreover have "n mod 10 < 10" by simp
    note digit_char [OF this]
    ultimately show ?thesis using "1.IH" [OF False] by (auto simp: digits_value_def)
  qed
qed

end
