(* ===== verification/Line_Framing.thy ===== *)
theory Line_Framing
  imports Prelude
begin

text \<open>
  What a delimiter-based protocol promises, without buffers: a byte stream splits into its
  complete part, up to and with the last delimiter, and the rest, which waits for more bytes.
  The locale \<open>framer\<close> is the interface of anything that stores incoming bytes and hands out
  complete lines; its lemma says that how the stream was cut into chunks makes no difference.
\<close>

section \<open>The split of a stream\<close>

fun complete :: "char \<Rightarrow> bytes \<Rightarrow> bytes" where
  "complete d [] = []"
| "complete d (x # xs) = (if x = d \<or> d \<in> set xs then x # complete d xs else [])"

fun rest :: "char \<Rightarrow> bytes \<Rightarrow> bytes" where
  "rest d [] = []"
| "rest d (x # xs) = (if x = d \<or> d \<in> set xs then rest d xs else x # xs)"

lemma complete_rest [simp]: "complete d xs @ rest d xs = xs"
proof (induction xs)
  case (Cons x xs)
  have "complete d xs = []" and "rest d xs = xs" if "d \<notin> set xs"
    using that by (induction xs) auto
  with Cons show ?case by auto
qed simp

lemma complete_none [simp]: "d \<notin> set xs \<Longrightarrow> complete d xs = []"
  by (cases xs) auto

lemma rest_none [simp]: "d \<notin> set xs \<Longrightarrow> rest d xs = xs"
  by (cases xs) auto

lemma rest_no_delim [simp]: "d \<notin> set (rest d xs)"
  by (induction xs) auto

lemma complete_delim_iff: "complete d xs = [] \<longleftrightarrow> d \<notin> set xs"
  by (cases xs) auto

lemma complete_last: "complete d xs = [] \<or> last (complete d xs) = d"
  by (induction xs) (auto simp: complete_delim_iff)

lemma complete_append: "complete d (xs @ ys) = (if d \<in> set ys then xs @ complete d ys else complete d xs)"
  by (induction xs) auto

lemma rest_append: "rest d (xs @ ys) = (if d \<in> set ys then rest d ys else rest d xs @ ys)"
  by (induction xs) auto

text \<open>The two parts are determined: no other split ends at a delimiter and leaves none behind.\<close>

lemma complete_unique:
  assumes "xs = as @ bs" and "as = [] \<or> last as = d" and "d \<notin> set bs"
  shows "as = complete d xs \<and> bs = rest d xs"
proof -
  have "complete d as = as"
    using assms(2)
  proof (cases as rule: rev_cases)
    case (snoc ys y)
    with assms(2) show ?thesis by (simp add: complete_append)
  qed simp
  then have "rest d as = []"
    by (metis append_self_conv complete_rest)
  with \<open>complete d as = as\<close> assms(1,3) show ?thesis
    by (auto simp: complete_append rest_append)
qed

lemma complete_chunk: "complete d xs @ complete d (rest d xs @ ys) = complete d (xs @ ys)"
proof -
  have "complete d xs @ rest d xs @ complete d ys = xs @ complete d ys"
    by (simp flip: append_assoc)
  then show ?thesis by (simp add: complete_append)
qed

lemma rest_chunk: "rest d (rest d xs @ ys) = rest d (xs @ ys)"
  by (simp add: rest_append)

lemma length_rest_le: "length (rest d xs) \<le> length xs"
  by (metis complete_rest le_add2 length_append)

lemma length_complete_le: "length (complete d xs) \<le> length xs"
  by (metis complete_rest le_add1 length_append)

section \<open>The first line\<close>

fun first_line :: "char \<Rightarrow> bytes \<Rightarrow> bytes" where
  "first_line d [] = []"
| "first_line d (x # xs) = (if x = d then [x] else x # first_line d xs)"

fun after_line :: "char \<Rightarrow> bytes \<Rightarrow> bytes" where
  "after_line d [] = []"
| "after_line d (x # xs) = (if x = d then xs else after_line d xs)"

lemma first_after [simp]: "first_line d xs @ after_line d xs = xs"
  by (induction xs) auto

lemma length_after_line_le: "length (after_line d xs) \<le> length xs"
  by (induction xs) auto

lemma complete_first: "d \<in> set xs \<Longrightarrow> complete d xs = first_line d xs @ complete d (after_line d xs)"
  by (induction xs) auto

lemma rest_after: "d \<in> set xs \<Longrightarrow> rest d (after_line d xs) = rest d xs"
  by (induction xs) auto

lemma first_line_line: "d \<notin> set l \<Longrightarrow> first_line d (l @ d # xs) = l @ [d]"
  by (induction l) auto

lemma after_line_line: "d \<notin> set l \<Longrightarrow> after_line d (l @ d # xs) = xs"
  by (induction l) auto

text \<open>In terms of the position of the first delimiter.\<close>

lemma first_line_take:
  assumes "i < length xs" and "xs ! i = d" and "\<forall>j < i. xs ! j \<noteq> d"
  shows "first_line d xs = take (Suc i) xs \<and> after_line d xs = drop (Suc i) xs"
proof -
  have xs: "xs = take i xs @ d # drop (Suc i) xs"
    using assms(1,2) id_take_nth_drop by auto
  have "d \<notin> set (take i xs)"
    using assms(3) by (auto simp: in_set_conv_nth)
  then have "first_line d xs = take i xs @ [d]" and "after_line d xs = drop (Suc i) xs"
    by (metis xs first_line_line) (metis xs after_line_line \<open>d \<notin> set (take i xs)\<close>)
  then show ?thesis
    using assms(1,2) by (simp add: take_Suc_conv_app_nth)
qed

section \<open>The interface of an incremental reader\<close>

text \<open>
  The chunks of a stream arrive one by one; after each the reader hands out the lines that
  became complete. \<open>feed\<close> is that loop over any reader, and \<open>chunks_fit\<close> says that no chunk
  is longer than the room left beside the bytes still waiting.
\<close>

fun feed :: "('q \<Rightarrow> bytes \<Rightarrow> exn + 'q) \<Rightarrow> ('q \<Rightarrow> exn + bytes \<times> 'q) \<Rightarrow> 'q \<Rightarrow> bytes list \<Rightarrow> exn + bytes \<times> 'q" where
  "feed put get q [] = Inr ([], q)"
| "feed put get q (c # cs) =
     (case put q c of Inl e \<Rightarrow> Inl e
      | Inr q1 \<Rightarrow>
     (case get q1 of Inl e \<Rightarrow> Inl e
      | Inr (out, q2) \<Rightarrow>
     (case feed put get q2 cs of Inl e \<Rightarrow> Inl e
      | Inr (out', q') \<Rightarrow> Inr (out @ out', q'))))"

fun chunks_fit :: "nat \<Rightarrow> char \<Rightarrow> bytes \<Rightarrow> bytes list \<Rightarrow> bool" where
  "chunks_fit cap d pend [] \<longleftrightarrow> True"
| "chunks_fit cap d pend (c # cs) \<longleftrightarrow>
     length pend + length c \<le> cap \<and> chunks_fit cap d (rest d (pend @ c)) cs"

locale framer =
  fixes put :: "'q \<Rightarrow> bytes \<Rightarrow> exn + 'q"
    and get :: "'q \<Rightarrow> exn + bytes \<times> 'q"
    and pending :: "'q \<Rightarrow> bytes"
    and good :: "'q \<Rightarrow> bool"
    and cap :: nat
    and d :: char
  assumes put_stores: "good q \<Longrightarrow> length (pending q) + length bs \<le> cap \<Longrightarrow>
      \<exists>q'. put q bs = Inr q' \<and> good q' \<and> pending q' = pending q @ bs"
    and get_complete: "good q \<Longrightarrow>
      \<exists>q'. get q = Inr (complete d (pending q), q') \<and> good q' \<and> pending q' = rest d (pending q)"
begin

lemma feed_chunks:
  assumes "good q" and "chunks_fit cap d (pending q) cs" and "d \<notin> set (pending q)"
  shows "\<exists>q'. feed put get q cs = Inr (complete d (pending q @ concat cs), q') \<and> good q'
    \<and> pending q' = rest d (pending q @ concat cs)"
  using assms
proof (induction cs arbitrary: q)
  case Nil
  then show ?case by simp
next
  case (Cons c cs)
  from put_stores [OF Cons.prems(1), of c] Cons.prems(2)
  obtain q1 where q1: "put q c = Inr q1" "good q1" "pending q1 = pending q @ c"
    by auto
  from get_complete [OF q1(2)] obtain q2 where q2:
    "get q1 = Inr (complete d (pending q1), q2)" "good q2" "pending q2 = rest d (pending q1)"
    by auto
  from Cons.IH [OF q2(2)] Cons.prems(2) q1(3) q2(3) obtain q' where
    "feed put get q2 cs = Inr (complete d (pending q2 @ concat cs), q')" "good q'"
    "pending q' = rest d (pending q2 @ concat cs)"
    by auto
  with q1 q2 show ?case
    using complete_chunk [of d "pending q @ c" "concat cs"] rest_chunk [of d "pending q @ c" "concat cs"]
    by simp
qed

lemma feed_same_stream:
  assumes "good q" and "d \<notin> set (pending q)" and "concat cs = concat cs'"
    and "chunks_fit cap d (pending q) cs" and "chunks_fit cap d (pending q) cs'"
  shows "map_sum id fst (feed put get q cs) = map_sum id fst (feed put get q cs')"
  using feed_chunks [OF assms(1,4,2)] feed_chunks [OF assms(1,5,2)] assms(3) by auto

end

end
