(* ===== verification/Sys_Calls.thy ===== *)
theory Sys_Calls
  imports Prelude
begin

text \<open>
  The operating system as the program sees it. The kernel is not code of the repository, so
  it is a parameter: a record \<open>os\<close> with one function per system call, from a kernel state
  \<open>'w\<close> to the call's result and the next kernel state. The functions \<open>c_read\<close>,
  \<open>c_write\<close>, ... are the C library's view of those calls: an \<^verbatim>\<open>int\<close> or
  \<^verbatim>\<open>ssize_t\<close> result, -1 on failure with \<^verbatim>\<open>errno\<close> set.

  A process state \<open>proc\<close> holds \<^verbatim>\<open>errno\<close>, the kernel state, and a ghost
  trace of what the program did to the outside: the bytes it read and wrote on each
  descriptor, the descriptors it got from the kernel and those it closed, and its standard
  output. Theorems about the program's effect are stated over that trace.
\<close>

unbundle bit_operations_syntax

section \<open>Data the calls exchange\<close>

record sockaddr_in =
  sin_family :: int
  sin_port :: "16 word"
  s_addr :: "32 word"

record pollfd =
  pfd_fd :: int
  pfd_events :: "16 word"
  pfd_revents :: "16 word"

text \<open>Linux's numbers for the constants the code names.\<close>

definition AF_INET :: int where "AF_INET = 2"
definition SOCK_STREAM :: int where "SOCK_STREAM = 1"
definition STDIN_FILENO :: int where "STDIN_FILENO = 0"
definition POLLIN :: "16 word" where "POLLIN = 0x001"
definition POLLERR :: "16 word" where "POLLERR = 0x008"
definition POLLHUP :: "16 word" where "POLLHUP = 0x010"
definition POLLNVAL :: "16 word" where "POLLNVAL = 0x020"
definition INADDR_ANY :: "64 word" where "INADDR_ANY = 0"
definition sizeof_siginfo :: nat where "sizeof_siginfo = 128"

section \<open>The kernel\<close>

text \<open>
  Each field returns \<open>Inl e\<close> when the call fails with \<^verbatim>\<open>errno\<close> \<open>e\<close>. The
  address conversions need no kernel state; \<open>os_inet_pton\<close> gives its return value and the
  \<^verbatim>\<open>in_addr\<close> it stores. The field \<open>os_mem\<close> is the content of an array
  nobody has written yet.
\<close>

record 'w os =
  os_read :: "int \<Rightarrow> nat \<Rightarrow> 'w \<Rightarrow> (errno + bytes) \<times> 'w"
  os_write :: "int \<Rightarrow> bytes \<Rightarrow> 'w \<Rightarrow> (errno + nat) \<times> 'w"
  os_close :: "int \<Rightarrow> 'w \<Rightarrow> (errno + unit) \<times> 'w"
  os_accept :: "int \<Rightarrow> 'w \<Rightarrow> (errno + nat) \<times> 'w"
  os_socket :: "int \<Rightarrow> int \<Rightarrow> int \<Rightarrow> 'w \<Rightarrow> (errno + nat) \<times> 'w"
  os_connect :: "int \<Rightarrow> sockaddr_in \<Rightarrow> 'w \<Rightarrow> (errno + unit) \<times> 'w"
  os_bind :: "int \<Rightarrow> sockaddr_in \<Rightarrow> 'w \<Rightarrow> (errno + unit) \<times> 'w"
  os_listen :: "int \<Rightarrow> int \<Rightarrow> 'w \<Rightarrow> (errno + unit) \<times> 'w"
  os_reuseaddr :: "int \<Rightarrow> 'w \<Rightarrow> (errno + unit) \<times> 'w"
  os_poll :: "pollfd list \<Rightarrow> int \<Rightarrow> 'w \<Rightarrow> (errno + nat \<times> (nat \<Rightarrow> 16 word)) \<times> 'w"
  os_block_signals :: "'w \<Rightarrow> (errno + unit) \<times> 'w"
  os_signalfd :: "'w \<Rightarrow> (errno + nat) \<times> 'w"
  os_inet_pton :: "int \<Rightarrow> bytes \<Rightarrow> int \<times> 32 word"
  os_inet_ntop :: "int \<Rightarrow> 32 word \<Rightarrow> bytes option"
  os_htons :: "16 word \<Rightarrow> 16 word"
  os_htonl :: "32 word \<Rightarrow> 32 word"
  os_mem :: "'w \<Rightarrow> nat \<Rightarrow> char"

datatype event =
    EvRead int bytes
  | EvWrite int bytes
  | EvClose int
  | EvOpen int
  | EvConnect int sockaddr_in
  | EvStdout bytes

record 'w proc =
  errno_of :: errno
  trace :: "event list"
  kern :: 'w

definition emit :: "event \<Rightarrow> 'w proc \<Rightarrow> 'w proc" where
  "emit ev p = p\<lparr>trace := trace p @ [ev]\<rparr>"

section \<open>The C view of the calls\<close>

text \<open>
  \<open>c_call\<close> is the shape they share: on failure -1, with \<^verbatim>\<open>errno\<close> set and no
  event; on success \<open>ok\<close> of the result, with the events \<open>evs\<close>.
\<close>

definition c_call ::
  "(errno + 'a) \<times> 'w \<Rightarrow> 'b \<Rightarrow> ('a \<Rightarrow> 'b) \<Rightarrow> ('a \<Rightarrow> event list) \<Rightarrow> 'w proc \<Rightarrow> 'b \<times> 'w proc" where
  "c_call res fail ok evs p =
     (case res of
        (Inl e, w) \<Rightarrow> (fail, p\<lparr>errno_of := e, kern := w\<rparr>)
      | (Inr a, w) \<Rightarrow> (ok a, p\<lparr>trace := trace p @ evs a, kern := w\<rparr>))"

definition c_read :: "'w os \<Rightarrow> int \<Rightarrow> nat \<Rightarrow> 'w proc \<Rightarrow> (int \<times> bytes) \<times> 'w proc" where
  "c_read os fd nbytes p =
     c_call (os_read os fd nbytes (kern p)) (- 1, []) (\<lambda>bs. (int (length bs), bs))
       (\<lambda>bs. [EvRead fd bs]) p"

text \<open>
  The bytes a \<^verbatim>\<open>write\<close> accepts are the first ones it was given. A failed call is
  an error return: the signal \<^verbatim>\<open>SIGPIPE\<close>, which a write to a closed connection also raises and
  whose default action ends the process, is not modelled. The program never ignores it, so where
  the model has the error \<^verbatim>\<open>EPIPE\<close> the process may end at that call instead.
\<close>

definition c_write :: "'w os \<Rightarrow> int \<Rightarrow> bytes \<Rightarrow> 'w proc \<Rightarrow> int \<times> 'w proc" where
  "c_write os fd bs p =
     c_call (os_write os fd bs (kern p)) (- 1) int (\<lambda>n. [EvWrite fd (take n bs)]) p"

text \<open>
  \<^verbatim>\<open>close\<close> releases the descriptor whether it reports success or not, as it does
  on Linux, so the trace records the call either way.
\<close>

definition c_close :: "'w os \<Rightarrow> int \<Rightarrow> 'w proc \<Rightarrow> int \<times> 'w proc" where
  "c_close os fd p =
     c_call (os_close os fd (kern p)) (- 1) (\<lambda>_. 0) (\<lambda>_. []) (emit (EvClose fd) p)"

definition c_accept :: "'w os \<Rightarrow> int \<Rightarrow> 'w proc \<Rightarrow> int \<times> 'w proc" where
  "c_accept os fd p =
     c_call (os_accept os fd (kern p)) (- 1) int (\<lambda>n. [EvOpen (int n)]) p"

definition c_socket :: "'w os \<Rightarrow> int \<Rightarrow> int \<Rightarrow> int \<Rightarrow> 'w proc \<Rightarrow> int \<times> 'w proc" where
  "c_socket os family type protocol p =
     c_call (os_socket os family type protocol (kern p)) (- 1) int (\<lambda>n. [EvOpen (int n)]) p"

definition c_signalfd :: "'w os \<Rightarrow> 'w proc \<Rightarrow> int \<times> 'w proc" where
  "c_signalfd os p = c_call (os_signalfd os (kern p)) (- 1) int (\<lambda>n. [EvOpen (int n)]) p"

definition c_connect :: "'w os \<Rightarrow> int \<Rightarrow> sockaddr_in \<Rightarrow> 'w proc \<Rightarrow> int \<times> 'w proc" where
  "c_connect os fd sa p =
     c_call (os_connect os fd sa (kern p)) (- 1) (\<lambda>_. 0) (\<lambda>_. [EvConnect fd sa]) p"

definition c_bind :: "'w os \<Rightarrow> int \<Rightarrow> sockaddr_in \<Rightarrow> 'w proc \<Rightarrow> int \<times> 'w proc" where
  "c_bind os fd sa p = c_call (os_bind os fd sa (kern p)) (- 1) (\<lambda>_. 0) (\<lambda>_. []) p"

definition c_listen :: "'w os \<Rightarrow> int \<Rightarrow> int \<Rightarrow> 'w proc \<Rightarrow> int \<times> 'w proc" where
  "c_listen os fd backlog p = c_call (os_listen os fd backlog (kern p)) (- 1) (\<lambda>_. 0) (\<lambda>_. []) p"

definition c_setsockopt_reuseaddr :: "'w os \<Rightarrow> int \<Rightarrow> 'w proc \<Rightarrow> int \<times> 'w proc" where
  "c_setsockopt_reuseaddr os fd p =
     c_call (os_reuseaddr os fd (kern p)) (- 1) (\<lambda>_. 0) (\<lambda>_. []) p"

definition c_block_signals :: "'w os \<Rightarrow> 'w proc \<Rightarrow> int \<times> 'w proc" where
  "c_block_signals os p = c_call (os_block_signals os (kern p)) (- 1) (\<lambda>_. 0) (\<lambda>_. []) p"

text \<open>\<^verbatim>\<open>poll\<close> writes the \<^verbatim>\<open>revents\<close> of the array it is given.\<close>

definition set_revents :: "pollfd list \<Rightarrow> (nat \<Rightarrow> 16 word) \<Rightarrow> pollfd list" where
  "set_revents fds r = map (\<lambda>(k, pf). pf\<lparr>pfd_revents := r k\<rparr>) (enumerate 0 fds)"

definition c_poll ::
  "'w os \<Rightarrow> pollfd list \<Rightarrow> int \<Rightarrow> 'w proc \<Rightarrow> (int \<times> pollfd list) \<times> 'w proc" where
  "c_poll os fds timeout p =
     c_call (os_poll os fds timeout (kern p)) (- 1, fds)
       (\<lambda>(n, r). (int n, set_revents fds r)) (\<lambda>_. []) p"

text \<open>
  \<^verbatim>\<open>inet_pton\<close> sets \<^verbatim>\<open>errno\<close> only when it returns -1 (an
  unsupported family); 0 means the text is no address.
\<close>

definition c_inet_pton :: "'w os \<Rightarrow> int \<Rightarrow> bytes \<Rightarrow> 'w proc \<Rightarrow> (int \<times> 32 word) \<times> 'w proc" where
  "c_inet_pton os family str p =
     (os_inet_pton os family str,
      if fst (os_inet_pton os family str) < 0 then p\<lparr>errno_of := EAFNOSUPPORT\<rparr> else p)"

section \<open>What a trace shows\<close>

definition sent_on :: "int \<Rightarrow> event list \<Rightarrow> bytes" where
  "sent_on fd evs =
     concat (map (\<lambda>ev. case ev of EvWrite f bs \<Rightarrow> if f = fd then bs else [] | _ \<Rightarrow> []) evs)"

definition received_on :: "int \<Rightarrow> event list \<Rightarrow> bytes" where
  "received_on fd evs =
     concat (map (\<lambda>ev. case ev of EvRead f bs \<Rightarrow> if f = fd then bs else [] | _ \<Rightarrow> []) evs)"

definition printed :: "event list \<Rightarrow> bytes" where
  "printed evs = concat (map (\<lambda>ev. case ev of EvStdout bs \<Rightarrow> bs | _ \<Rightarrow> []) evs)"

definition opened :: "event list \<Rightarrow> int list" where
  "opened evs = concat (map (\<lambda>ev. case ev of EvOpen fd \<Rightarrow> [fd] | _ \<Rightarrow> []) evs)"

definition closed :: "event list \<Rightarrow> int list" where
  "closed evs = concat (map (\<lambda>ev. case ev of EvClose fd \<Rightarrow> [fd] | _ \<Rightarrow> []) evs)"

lemma sent_on_simps [simp, trace_simps]:
  "sent_on fd [] = []"
  "sent_on fd (EvWrite f bs # evs) = (if f = fd then bs else []) @ sent_on fd evs"
  "sent_on fd (EvRead f bs # evs) = sent_on fd evs"
  "sent_on fd (EvClose f # evs) = sent_on fd evs"
  "sent_on fd (EvOpen f # evs) = sent_on fd evs"
  "sent_on fd (EvConnect f sa # evs) = sent_on fd evs"
  "sent_on fd (EvStdout bs # evs) = sent_on fd evs"
  "sent_on fd (evs @ evs') = sent_on fd evs @ sent_on fd evs'"
  by (simp_all add: sent_on_def)

lemma received_on_simps [simp, trace_simps]:
  "received_on fd [] = []"
  "received_on fd (EvRead f bs # evs) = (if f = fd then bs else []) @ received_on fd evs"
  "received_on fd (EvWrite f bs # evs) = received_on fd evs"
  "received_on fd (EvClose f # evs) = received_on fd evs"
  "received_on fd (EvOpen f # evs) = received_on fd evs"
  "received_on fd (EvConnect f sa # evs) = received_on fd evs"
  "received_on fd (EvStdout bs # evs) = received_on fd evs"
  "received_on fd (evs @ evs') = received_on fd evs @ received_on fd evs'"
  by (simp_all add: received_on_def)

lemma printed_simps [simp, trace_simps]:
  "printed [] = []"
  "printed (EvStdout bs # evs) = bs @ printed evs"
  "printed (EvRead f bs # evs) = printed evs"
  "printed (EvWrite f bs # evs) = printed evs"
  "printed (EvClose f # evs) = printed evs"
  "printed (EvOpen f # evs) = printed evs"
  "printed (EvConnect f sa # evs) = printed evs"
  "printed (evs @ evs') = printed evs @ printed evs'"
  by (simp_all add: printed_def)

lemma opened_simps [simp, trace_simps]:
  "opened [] = []"
  "opened (EvOpen f # evs) = f # opened evs"
  "opened (EvRead f bs # evs) = opened evs"
  "opened (EvWrite f bs # evs) = opened evs"
  "opened (EvClose f # evs) = opened evs"
  "opened (EvConnect f sa # evs) = opened evs"
  "opened (EvStdout bs # evs) = opened evs"
  "opened (evs @ evs') = opened evs @ opened evs'"
  by (simp_all add: opened_def)

lemma closed_simps [simp, trace_simps]:
  "closed [] = []"
  "closed (EvClose f # evs) = f # closed evs"
  "closed (EvRead f bs # evs) = closed evs"
  "closed (EvWrite f bs # evs) = closed evs"
  "closed (EvOpen f # evs) = closed evs"
  "closed (EvConnect f sa # evs) = closed evs"
  "closed (EvStdout bs # evs) = closed evs"
  "closed (evs @ evs') = closed evs @ closed evs'"
  by (simp_all add: closed_def)

lemma reads_simps [simp, trace_simps]:
  "sent_on fd (map (EvRead f) chunks) = []"
  "received_on fd (map (EvRead f) chunks) = (if f = fd then concat chunks else [])"
  "printed (map (EvRead f) chunks) = []" "opened (map (EvRead f) chunks) = []" "closed (map (EvRead f) chunks) = []"
  by (induction chunks) simp_all

section \<open>Documented behaviour of the kernel\<close>

text \<open>
  The facts of the manual pages some theorems rely on, as predicates over the parameter:
  \<^verbatim>\<open>read\<close> returns at most as many bytes as asked, \<^verbatim>\<open>write\<close>
  accepts at most as many as given, \<^verbatim>\<open>poll\<close> returns the number of entries whose
  \<^verbatim>\<open>revents\<close> it made non-zero, and it reports only the requested events and the
  three error events. The last three are assumptions of fairness, which no manual page promises:
  \<open>interrupts_finite os m\<close> says that a \<^verbatim>\<open>write\<close> is not
  interrupted by signals forever: \<open>m\<close> bounds the interruptions still to come;
  \<open>read_interrupts_finite os m\<close> says the same of \<^verbatim>\<open>read\<close>, and
  \<open>aborts_finite os m\<close> of connections aborted before they are accepted.
\<close>

definition reads_bounded :: "'w os \<Rightarrow> bool" where
  "reads_bounded os \<longleftrightarrow>
     (\<forall>fd n w bs w'. os_read os fd n w = (Inr bs, w') \<longrightarrow> length bs \<le> n)"

definition writes_bounded :: "'w os \<Rightarrow> bool" where
  "writes_bounded os \<longleftrightarrow>
     (\<forall>fd bs w k w'. os_write os fd bs w = (Inr k, w') \<longrightarrow> k \<le> length bs)"

definition poll_counts :: "'w os \<Rightarrow> bool" where
  "poll_counts os \<longleftrightarrow>
     (\<forall>fds t w n r w'. os_poll os fds t w = (Inr (n, r), w') \<longrightarrow>
        n = length (filter (\<lambda>k. r k \<noteq> 0) [0..<length fds]))"

definition poll_reports_requested :: "'w os \<Rightarrow> bool" where
  "poll_reports_requested os \<longleftrightarrow>
     (\<forall>fds t w n r w' k. os_poll os fds t w = (Inr (n, r), w') \<longrightarrow> k < length fds \<longrightarrow> r k \<noteq> 0 \<longrightarrow>
        (r k AND pfd_events (fds ! k)) \<noteq> 0 \<or> (r k AND (POLLERR OR POLLHUP OR POLLNVAL)) \<noteq> 0)"

definition interrupts_finite :: "'w os \<Rightarrow> ('w \<Rightarrow> nat) \<Rightarrow> bool" where
  "interrupts_finite os m \<longleftrightarrow>
     (\<forall>fd bs w w'. os_write os fd bs w = (Inl EINTR, w') \<longrightarrow> m w' < m w)"

definition read_interrupts_finite :: "'w os \<Rightarrow> ('w \<Rightarrow> nat) \<Rightarrow> bool" where
  "read_interrupts_finite os m \<longleftrightarrow>
     (\<forall>fd n w w'. os_read os fd n w = (Inl EINTR, w') \<longrightarrow> m w' < m w)"

definition aborts_finite :: "'w os \<Rightarrow> ('w \<Rightarrow> nat) \<Rightarrow> bool" where
  "aborts_finite os m \<longleftrightarrow>
     (\<forall>fd w w'. os_accept os fd w = (Inl ECONNABORTED, w') \<longrightarrow> m w' < m w)"

text \<open>
  The kernel hands out only descriptors that are not open: in a trace, before a descriptor is
  opened every earlier opening of it was followed by its close.
\<close>

fun fresh_opens :: "(int \<Rightarrow> bool) \<Rightarrow> event list \<Rightarrow> bool" where
  "fresh_opens is_open [] \<longleftrightarrow> True"
| "fresh_opens is_open (EvOpen fd # evs) \<longleftrightarrow> \<not> is_open fd \<and> fresh_opens (is_open(fd := True)) evs"
| "fresh_opens is_open (EvClose fd # evs) \<longleftrightarrow> fresh_opens (is_open(fd := False)) evs"
| "fresh_opens is_open (ev # evs) \<longleftrightarrow> fresh_opens is_open evs"

lemma fresh_opens_count:
  "fresh_opens is_open evs \<Longrightarrow>
   count (mset (opened evs)) fd + (if is_open fd then 1 else 0) \<le> count (mset (closed evs)) fd + 1"
proof (induction evs arbitrary: is_open)
  case (Cons ev evs)
  show ?case
  proof (cases ev)
    case (EvOpen f)
    with Cons.prems have "\<not> is_open f" and fresh: "fresh_opens (is_open(f := True)) evs" by simp_all
    with Cons.IH [OF fresh] EvOpen show ?thesis by (auto split: if_splits)
  next
    case (EvClose f)
    with Cons.prems have fresh: "fresh_opens (is_open(f := False)) evs" by simp
    from Cons.IH [OF fresh] EvClose show ?thesis by (auto split: if_splits)
  qed (use Cons in auto)
qed simp

lemma fresh_opens_append:
  "fresh_opens is_open (evs @ evs') \<Longrightarrow> fresh_opens is_open evs"
proof (induction evs arbitrary: is_open)
  case (Cons ev evs)
  then show ?case by (cases ev) auto
qed simp

text \<open>The descriptors a process starts with.\<close>

definition std_open :: "int \<Rightarrow> bool" where
  "std_open fd \<longleftrightarrow> fd \<in> {0, 1, 2}"

lemma reads_boundedD: "reads_bounded os \<Longrightarrow> os_read os fd n w = (Inr bs, w') \<Longrightarrow> length bs \<le> n"
  unfolding reads_bounded_def by blast

lemma writes_boundedD: "writes_bounded os \<Longrightarrow> os_write os fd bs w = (Inr k, w') \<Longrightarrow> k \<le> length bs"
  unfolding writes_bounded_def by blast

lemma interrupts_finiteD: "interrupts_finite os m \<Longrightarrow> os_write os fd bs w = (Inl EINTR, w') \<Longrightarrow> m w' < m w"
  unfolding interrupts_finite_def by blast

lemma read_interrupts_finiteD: "read_interrupts_finite os m \<Longrightarrow> os_read os fd n w = (Inl EINTR, w') \<Longrightarrow> m w' < m w"
  unfolding read_interrupts_finite_def by blast

lemma poll_countsD:
  "poll_counts os \<Longrightarrow> os_poll os fds t w = (Inr (n, r), w') \<Longrightarrow>
   n = length (filter (\<lambda>k. r k \<noteq> 0) [0..<length fds])"
  unfolding poll_counts_def by blast

end
