(* ===== verification/Effects.thy ===== *)
theory Effects
  imports Sys_Calls
begin

text \<open>
  A contract for facts that hold "across" an operation whatever it does in between: a
  relation \<open>R\<close> between the process before and after that is reflexive, transitive and
  kept by each system call. The locale \<open>data_effect\<close> asks it of the calls that move bytes,
  \<open>control_effect\<close> of the calls that make and destroy descriptors too. Every component
  extends the locales with the lemma that its own operations keep \<open>R\<close>, and the
  interpretations below turn each into a frame fact of the program.
\<close>

locale data_effect =
  fixes os :: "'w os"
    and R :: "'w proc \<Rightarrow> 'w proc \<Rightarrow> bool"
  assumes R_refl: "R p p"
    and R_trans: "R p q \<Longrightarrow> R q r \<Longrightarrow> R p r"
    and R_read: "R p (snd (c_read os fd n p))"
    and R_write: "R p (snd (c_write os fd bs p))"
    and R_poll: "R p (snd (c_poll os fds t p))"
    and R_stdout: "R p (emit (EvStdout bs) p)"
begin

lemma R_readD: "c_read os fd n p = (x, q) \<Longrightarrow> R p q"
  by (metis R_read snd_conv)

lemma R_writeD: "c_write os fd bs p = (k, q) \<Longrightarrow> R p q"
  by (metis R_write snd_conv)

lemma R_pollD: "c_poll os fds t p = (x, q) \<Longrightarrow> R p q"
  by (metis R_poll snd_conv)

end

locale control_effect = data_effect +
  assumes R_close: "R p (snd (c_close os fd p))"
    and R_accept: "R p (snd (c_accept os fd p))"
    and R_socket: "R p (snd (c_socket os f t pr p))"
    and R_signalfd: "R p (snd (c_signalfd os p))"
    and R_connect: "R p (snd (c_connect os fd sa p))"
    and R_bind: "R p (snd (c_bind os fd sa p))"
    and R_listen: "R p (snd (c_listen os fd n p))"
    and R_setsockopt: "R p (snd (c_setsockopt_reuseaddr os fd p))"
    and R_block: "R p (snd (c_block_signals os p))"

text \<open>The trace only grows.\<close>

definition trace_grows :: "'w proc \<Rightarrow> 'w proc \<Rightarrow> bool" where
  "trace_grows p q \<longleftrightarrow> prefix (trace p) (trace q)"

text \<open>No descriptor was opened or closed.\<close>

definition same_fds :: "'w proc \<Rightarrow> 'w proc \<Rightarrow> bool" where
  "same_fds p q \<longleftrightarrow> opened (trace q) = opened (trace p) \<and> closed (trace q) = closed (trace p)"

lemmas c_call_defs =
  c_call_def c_read_def c_write_def c_close_def c_accept_def c_socket_def c_signalfd_def
  c_connect_def c_bind_def c_listen_def c_setsockopt_reuseaddr_def c_block_signals_def
  c_poll_def emit_def

interpretation grows: control_effect os trace_grows for os :: "'w os"
  by unfold_locales
    (auto simp: trace_grows_def c_call_defs dest: prefix_order.trans split: prod.splits sum.splits)

interpretation fds: data_effect os same_fds for os :: "'w os"
  by unfold_locales
    (auto simp: same_fds_def c_call_defs split: prod.splits sum.splits)

section \<open>The calls one by one\<close>

lemma c_read_cases:
  obtains (error) e w where "os_read os fd n (kern p) = (Inl e, w)"
      and "c_read os fd n p = ((- 1, []), p\<lparr>errno_of := e, kern := w\<rparr>)"
  | (ok) bs w where "os_read os fd n (kern p) = (Inr bs, w)"
      and "c_read os fd n p =
        ((int (length bs), bs), p\<lparr>trace := trace p @ [EvRead fd bs], kern := w\<rparr>)"
  by (cases "os_read os fd n (kern p)"; cases "fst (os_read os fd n (kern p))")
    (auto simp: c_read_def c_call_def)

lemma c_write_cases:
  obtains (error) e w where "os_write os fd bs (kern p) = (Inl e, w)"
      and "c_write os fd bs p = (- 1, p\<lparr>errno_of := e, kern := w\<rparr>)"
  | (ok) k w where "os_write os fd bs (kern p) = (Inr k, w)"
      and "c_write os fd bs p =
        (int k, p\<lparr>trace := trace p @ [EvWrite fd (take k bs)], kern := w\<rparr>)"
  by (cases "os_write os fd bs (kern p)"; cases "fst (os_write os fd bs (kern p))")
    (auto simp: c_write_def c_call_def)

text \<open>A call that gets a descriptor opens the one it returns, or returns -1 and opens none.\<close>

definition opens :: "'w proc \<Rightarrow> int \<times> 'w proc \<Rightarrow> bool" where
  "opens p res \<longleftrightarrow>
     closed (trace (snd res)) = closed (trace p) \<and>
     (if fst res < 0 then fst res = - 1 \<and> opened (trace (snd res)) = opened (trace p)
      else opened (trace (snd res)) = opened (trace p) @ [fst res])"

lemma c_opens [trace_simps]:
  "opens p (c_accept os fd p)"
  "opens p (c_socket os f t pr p)"
  "opens p (c_signalfd os p)"
  by (auto simp: opens_def c_call_defs split: prod.splits sum.splits)

lemma c_close_fds [trace_simps]:
  "opened (trace (snd (c_close os fd p))) = opened (trace p)"
  "closed (trace (snd (c_close os fd p))) = closed (trace p) @ [fd]"
  by (auto simp: c_call_defs split: prod.splits sum.splits)

lemma c_quiet_fds [trace_simps]:
  "same_fds p (snd (c_connect os fd sa p))"
  "same_fds p (snd (c_bind os fd sa p))"
  "same_fds p (snd (c_listen os fd n p))"
  "same_fds p (snd (c_setsockopt_reuseaddr os fd p))"
  "same_fds p (snd (c_block_signals os p))"
  by (auto simp: same_fds_def c_call_defs split: prod.splits sum.splits)

lemma c_status_values:
  "fst (c_connect os fd sa p) \<in> {- 1, 0}"
  "fst (c_bind os fd sa p) \<in> {- 1, 0}"
  "fst (c_listen os fd n p) \<in> {- 1, 0}"
  "fst (c_setsockopt_reuseaddr os fd p) \<in> {- 1, 0}"
  "fst (c_block_signals os p) \<in> {- 1, 0}"
  "fst (c_close os fd p) \<in> {- 1, 0}"
  by (auto simp: c_call_defs split: prod.splits sum.splits)

lemma length_set_revents [simp]: "length (set_revents fds r) = length fds"
  by (simp add: set_revents_def)

lemma nth_set_revents [simp]:
  "k < length fds \<Longrightarrow> set_revents fds r ! k = (fds ! k)\<lparr>pfd_revents := r k\<rparr>"
  by (simp add: set_revents_def nth_enumerate_eq)

lemma map_fd_set_revents [simp]: "map pfd_fd (set_revents fds r) = map pfd_fd fds"
  by (rule nth_equalityI) simp_all

lemma c_poll_length [simp]: "length (snd (fst (c_poll os fds t p))) = length fds"
  by (auto simp: c_call_defs split: prod.splits sum.splits)

lemma c_poll_fds [simp]: "map pfd_fd (snd (fst (c_poll os fds t p))) = map pfd_fd fds"
  by (auto simp: c_call_defs split: prod.splits sum.splits)

section \<open>Writing to one descriptor\<close>

text \<open>
  \<open>wrote fd bs p q\<close>: between \<open>p\<close> and \<open>q\<close> the program did nothing but write, only to
  \<open>fd\<close>, and the bytes that descriptor accepted are \<open>bs\<close>.
\<close>

definition wrote :: "int \<Rightarrow> bytes \<Rightarrow> 'w proc \<Rightarrow> 'w proc \<Rightarrow> bool" where
  "wrote fd bs p q \<longleftrightarrow>
     (\<exists>evs. trace q = trace p @ evs \<and> (\<forall>ev \<in> set evs. \<exists>b. ev = EvWrite fd b) \<and> sent_on fd evs = bs)"

lemma wrote_same [simp, intro]: "trace q = trace p \<Longrightarrow> wrote fd [] p q"
  by (auto simp: wrote_def)

lemma wrote_event: "trace q = trace p @ [EvWrite fd bs] \<Longrightarrow> wrote fd bs p q"
  by (auto simp: wrote_def)

lemma wrote_append: "wrote fd as p q \<Longrightarrow> wrote fd bs q r \<Longrightarrow> wrote fd (as @ bs) p r"
proof -
  assume "wrote fd as p q" and "wrote fd bs q r"
  then obtain e1 e2 where e1: "trace q = trace p @ e1" "\<forall>ev \<in> set e1. \<exists>b. ev = EvWrite fd b" "sent_on fd e1 = as"
    and e2: "trace r = trace q @ e2" "\<forall>ev \<in> set e2. \<exists>b. ev = EvWrite fd b" "sent_on fd e2 = bs"
    unfolding wrote_def by blast
  then have "trace r = trace p @ (e1 @ e2)" and "sent_on fd (e1 @ e2) = as @ bs"
    by simp_all
  moreover have "\<forall>ev \<in> set (e1 @ e2). \<exists>b. ev = EvWrite fd b"
    using e1(2) e2(2) by (simp add: ball_Un)
  ultimately show "wrote fd (as @ bs) p r"
    unfolding wrote_def by blast
qed

lemma wrote_trans_same: "trace q = trace p \<Longrightarrow> wrote fd bs q r \<Longrightarrow> wrote fd bs p r"
  using wrote_append [of fd "[]" p q bs r] by auto

lemma writes_only_others:
  "\<forall>ev \<in> set evs. \<exists>b. ev = EvWrite fd b \<Longrightarrow>
   (fd' \<noteq> fd \<longrightarrow> sent_on fd' evs = []) \<and> received_on fd'' evs = [] \<and> printed evs = []
   \<and> opened evs = [] \<and> closed evs = []"
proof (induction evs)
  case (Cons ev evs)
  then obtain b where "ev = EvWrite fd b" by auto
  with Cons show ?case by simp
qed simp

lemma wrote_sent: "wrote fd bs p q \<Longrightarrow> sent_on fd (trace q) = sent_on fd (trace p) @ bs"
  by (auto simp: wrote_def)

lemma wrote_observed:
  assumes "wrote fd bs p q"
  shows "(fd' \<noteq> fd \<longrightarrow> sent_on fd' (trace q) = sent_on fd' (trace p))
    \<and> received_on fd'' (trace q) = received_on fd'' (trace p)
    \<and> printed (trace q) = printed (trace p)
    \<and> opened (trace q) = opened (trace p) \<and> closed (trace q) = closed (trace p)"
proof -
  obtain evs where "trace q = trace p @ evs" and "\<forall>ev \<in> set evs. \<exists>b. ev = EvWrite fd b"
    using assms unfolding wrote_def by blast
  with writes_only_others [OF this(2), of fd' fd''] show ?thesis by simp
qed

lemma wrote_elsewhere: "wrote fd bs p q \<Longrightarrow> fd' \<noteq> fd \<Longrightarrow> sent_on fd' (trace q) = sent_on fd' (trace p)"
  using wrote_observed by blast

lemma wrote_frame:
  assumes "wrote fd bs p q"
  shows "received_on fd' (trace q) = received_on fd' (trace p)"
    and "printed (trace q) = printed (trace p)"
    and "opened (trace q) = opened (trace p)"
    and "closed (trace q) = closed (trace p)"
  using wrote_observed [OF assms] by blast+

text \<open>\<open>took fd bs p q\<close>: the program did nothing but read from \<open>fd\<close>, and got \<open>bs\<close>.\<close>

definition took :: "int \<Rightarrow> bytes \<Rightarrow> 'w proc \<Rightarrow> 'w proc \<Rightarrow> bool" where
  "took fd bs p q \<longleftrightarrow>
     (\<exists>evs. trace q = trace p @ evs \<and> (\<forall>ev \<in> set evs. \<exists>b. ev = EvRead fd b) \<and> received_on fd evs = bs)"

lemma took_same [simp, intro]: "trace q = trace p \<Longrightarrow> took fd [] p q"
  by (auto simp: took_def)

lemma took_event: "trace q = trace p @ [EvRead fd bs] \<Longrightarrow> took fd bs p q"
  by (auto simp: took_def)

lemma took_append:
  assumes "took fd as p q" and "took fd bs q r"
  shows "took fd (as @ bs) p r"
proof -
  from assms obtain e1 e2
    where e1: "trace q = trace p @ e1" "\<forall>ev \<in> set e1. \<exists>b. ev = EvRead fd b" "received_on fd e1 = as"
      and e2: "trace r = trace q @ e2" "\<forall>ev \<in> set e2. \<exists>b. ev = EvRead fd b" "received_on fd e2 = bs"
    unfolding took_def by blast
  then have "trace r = trace p @ (e1 @ e2)" and "received_on fd (e1 @ e2) = as @ bs"
    by simp_all
  moreover have "\<forall>ev \<in> set (e1 @ e2). \<exists>b. ev = EvRead fd b"
    using e1(2) e2(2) by (simp add: ball_Un)
  ultimately show ?thesis
    unfolding took_def by blast
qed

lemma took_received: "took fd bs p q \<Longrightarrow> received_on fd (trace q) = received_on fd (trace p) @ bs"
  by (auto simp: took_def)

end
