(* ===== verification/Net_Unix.thy ===== *)
theory Net_Unix
  imports Effects
begin

text \<open>
  \<^verbatim>\<open>src/net_unix.cpp\<close>: the three wrappers that turn a failed call into a
  \<^verbatim>\<open>std::system_error\<close>. A wrapper returns the exception or its value, and the
  process after it.
\<close>

definition close_fd :: "'w os \<Rightarrow> int \<Rightarrow> 'w proc \<Rightarrow> (exn + unit) \<times> 'w proc" where
  "close_fd os fd p =
     (case c_close os fd p of (r, p') \<Rightarrow>
        if r = - 1 then (Inl (SystemError (errno_of p') ''close() failed''), p')
        else (Inr (), p'))"

text \<open>\<^verbatim>\<open>read_fd\<close> gives the count it returns and the bytes it stored at \<^verbatim>\<open>ptr\<close>.\<close>

definition read_fd :: "'w os \<Rightarrow> int \<Rightarrow> nat \<Rightarrow> 'w proc \<Rightarrow> (exn + int \<times> bytes) \<times> 'w proc" where
  "read_fd os fd nbytes p =
     (case c_read os fd nbytes p of ((n, bs), p') \<Rightarrow>
        if n = - 1 then (Inl (SystemError (errno_of p') ''read() failed''), p')
        else (Inr (n, bs), p'))"

text \<open>
  The comparison \<^verbatim>\<open>write(...) != nbytes\<close> converts the signed result to
  \<^verbatim>\<open>size_t\<close>.
\<close>

definition write_fd :: "'w os \<Rightarrow> int \<Rightarrow> bytes \<Rightarrow> size_t \<Rightarrow> 'w proc \<Rightarrow> (exn + unit) \<times> 'w proc" where
  "write_fd os fd ptr nbytes p =
     (case c_write os fd (take (unat nbytes) ptr) p of (r, p') \<Rightarrow>
        if (word_of_int r :: size_t) \<noteq> nbytes
        then (Inl (SystemError (errno_of p') ''write() failed''), p')
        else (Inr (), p'))"

lemma read_fd_cases:
  obtains (error) e w where "os_read os fd n (kern p) = (Inl e, w)"
      and "read_fd os fd n p =
        (Inl (SystemError e ''read() failed''), p\<lparr>errno_of := e, kern := w\<rparr>)"
  | (ok) bs w where "os_read os fd n (kern p) = (Inr bs, w)"
      and "read_fd os fd n p =
        (Inr (int (length bs), bs), p\<lparr>trace := trace p @ [EvRead fd bs], kern := w\<rparr>)"
  by (rule c_read_cases [of os fd n p]) (auto simp: read_fd_def)

lemma read_fd_count: "read_fd os fd n p = (Inr (k, bs), p') \<Longrightarrow> k = int (length bs)"
  by (rule read_fd_cases [of os fd n p]) auto

lemma read_fd_trace:
  "read_fd os fd n p = (Inr (k, bs), p') \<Longrightarrow> trace p' = trace p @ [EvRead fd bs]"
  by (rule read_fd_cases [of os fd n p]) auto

lemma read_fd_error_trace: "read_fd os fd n p = (Inl e, p') \<Longrightarrow> trace p' = trace p"
  by (rule read_fd_cases [of os fd n p]) auto

lemma read_fd_bounded:
  assumes "reads_bounded os" and "read_fd os fd n p = (Inr (k, bs), p')"
  shows "length bs \<le> n"
  using assms by (cases rule: read_fd_cases [of os fd n p]) (auto dest: reads_boundedD)

lemma close_fd_fds [trace_simps]:
  "opened (trace (snd (close_fd os fd p))) = opened (trace p)"
  "closed (trace (snd (close_fd os fd p))) = closed (trace p) @ [fd]"
  by (simp_all add: close_fd_def case_prod_beta trace_simps)

context data_effect begin

lemma R_read_fd: "R p (snd (read_fd os fd n p))"
  using R_read [of p fd n] by (auto simp: read_fd_def case_prod_beta)

lemma R_readfdD: "read_fd os fd n p = (x, q) \<Longrightarrow> R p q"
  by (metis R_read_fd snd_conv)

lemma R_write_fd: "R p (snd (write_fd os fd ptr n p))"
  using R_write [of p fd] by (auto simp: write_fd_def case_prod_beta)

end

context control_effect begin

lemma R_close_fd: "R p (snd (close_fd os fd p))"
  using R_close [of p fd] by (auto simp: close_fd_def case_prod_beta)

end

end
