(* ===== verification/Net_Io.thy ===== *)
theory Net_Io
  imports Net_Unix
begin

text \<open>
  \<^verbatim>\<open>src/net_io.cpp\<close>: the loops that write or read a whole block, over as many
  system calls as it takes. Whether they end depends on the kernel, so they are partial:
  \<open>None\<close> is a loop that never returns.
\<close>

section \<open>Definitions\<close>

text \<open>
  The loop of \<^verbatim>\<open>writen\<close>: \<open>ptr\<close> is what is left of the block from the moving pointer
  on, \<open>nleft\<close> the bytes left to write. Interrupted calls are repeated; any other failure, and
  a call that accepts nothing, returns -1.
\<close>

partial_function (option) writen_loop ::
  "'w os \<Rightarrow> int \<Rightarrow> size_t \<Rightarrow> bytes \<Rightarrow> size_t \<Rightarrow> 'w proc \<Rightarrow> (size_t \<times> 'w proc) option" where
  "writen_loop os fd n ptr nleft p =
     (if nleft = 0 then Some (n, p)
      else (case c_write os fd (take (unat nleft) ptr) p of (nwritten, p') \<Rightarrow>
        if nwritten \<le> 0 then
          (if nwritten < 0 \<and> errno_of p' = EINTR then writen_loop os fd n ptr nleft p'
           else Some (- 1, p'))
        else writen_loop os fd n (drop (nat nwritten) ptr) (nleft - word_of_int nwritten) p'))"

definition writen ::
  "'w os \<Rightarrow> int \<Rightarrow> bytes \<Rightarrow> size_t \<Rightarrow> 'w proc \<Rightarrow> (size_t \<times> 'w proc) option" where
  "writen os fd vptr n p = writen_loop os fd n vptr n p"

definition write_full ::
  "'w os \<Rightarrow> int \<Rightarrow> bytes \<Rightarrow> size_t \<Rightarrow> 'w proc \<Rightarrow> ((exn + unit) \<times> 'w proc) option" where
  "write_full os fd ptr nbytes p =
     (case writen os fd ptr nbytes p of
        None \<Rightarrow> None
      | Some (r, p') \<Rightarrow>
          Some (if r \<noteq> nbytes then (Inl (SystemError (errno_of p') ''write() failed''), p')
                else (Inr (), p')))"

text \<open>
  The loop of \<^verbatim>\<open>readn\<close> also collects the bytes stored so far. It gives the
  \<^verbatim>\<open>ssize_t\<close> result and those bytes.
\<close>

partial_function (option) readn_loop ::
  "'w os \<Rightarrow> int \<Rightarrow> size_t \<Rightarrow> bytes \<Rightarrow> size_t \<Rightarrow> 'w proc \<Rightarrow> (size_t \<times> bytes \<times> 'w proc) option" where
  "readn_loop os fd n acc nleft p =
     (if nleft = 0 then Some (n - nleft, acc, p)
      else (case c_read os fd (unat nleft) p of ((nread, bs), p') \<Rightarrow>
        if nread < 0 then
          (if errno_of p' = EINTR then readn_loop os fd n acc nleft p'
           else Some (- 1, acc, p'))
        else if nread = 0 then Some (n - nleft, acc, p')
        else readn_loop os fd n (acc @ bs) (nleft - word_of_int nread) p'))"

definition readn ::
  "'w os \<Rightarrow> int \<Rightarrow> size_t \<Rightarrow> 'w proc \<Rightarrow> (size_t \<times> bytes \<times> 'w proc) option" where
  "readn os fd n p = readn_loop os fd n [] n p"

definition read_full ::
  "'w os \<Rightarrow> int \<Rightarrow> size_t \<Rightarrow> 'w proc \<Rightarrow> ((exn + size_t \<times> bytes) \<times> 'w proc) option" where
  "read_full os fd nbytes p =
     (case readn os fd nbytes p of
        None \<Rightarrow> None
      | Some (r, bs, p') \<Rightarrow>
          Some (if sint r < 0 then (Inl (SystemError (errno_of p') ''read() failed''), p')
                else (Inr (r, bs), p')))"

declare writen_loop.simps [code] readn_loop.simps [code]

section \<open>Induction over the loops\<close>

text \<open>
  What holds of every run that returns, by the four ways one turn of the loop can go. (The
  same shape serves \<open>readn\<close>, with the collected bytes.)
\<close>

lemma writen_loop_induct [consumes 1, case_names finished interrupted failed progress]:
  assumes run: "writen_loop os fd n ptr nleft p = Some res"
    and finished: "\<And>ptr p. Q ptr 0 p (n, p)"
    and interrupted: "\<And>ptr nleft p k q res. nleft \<noteq> 0 \<Longrightarrow>
      c_write os fd (take (unat nleft) ptr) p = (k, q) \<Longrightarrow> k < 0 \<Longrightarrow> errno_of q = EINTR \<Longrightarrow>
      Q ptr nleft q res \<Longrightarrow> Q ptr nleft p res"
    and failed: "\<And>ptr nleft p k q. nleft \<noteq> 0 \<Longrightarrow>
      c_write os fd (take (unat nleft) ptr) p = (k, q) \<Longrightarrow> k \<le> 0 \<Longrightarrow>
      \<not> (k < 0 \<and> errno_of q = EINTR) \<Longrightarrow> Q ptr nleft p (- 1, q)"
    and progress: "\<And>ptr nleft p k q res. nleft \<noteq> 0 \<Longrightarrow>
      c_write os fd (take (unat nleft) ptr) p = (k, q) \<Longrightarrow> 0 < k \<Longrightarrow>
      Q (drop (nat k) ptr) (nleft - word_of_int k) q res \<Longrightarrow> Q ptr nleft p res"
  shows "Q ptr nleft p res"
proof -
  have "os' = os \<longrightarrow> fd' = fd \<longrightarrow> n' = n \<longrightarrow> Q ptr' nleft' p' res'"
    if "writen_loop os' fd' n' ptr' nleft' p' = Some res'" for os' fd' n' ptr' nleft' p' res'
    using that
  proof (rule writen_loop.raw_induct [rotated])
    fix f :: "'a os \<Rightarrow> int \<Rightarrow> size_t \<Rightarrow> bytes \<Rightarrow> size_t \<Rightarrow> 'a proc \<Rightarrow> (size_t \<times> 'a proc) option"
      and os' fd' n' ptr' nleft' p' res'
    assume IH: "\<And>os' fd' n' ptr' nleft' p' res'. f os' fd' n' ptr' nleft' p' = Some res' \<Longrightarrow>
        os' = os \<longrightarrow> fd' = fd \<longrightarrow> n' = n \<longrightarrow> Q ptr' nleft' p' res'"
      and eq: "(if nleft' = 0 then Some (n', p')
        else case c_write os' fd' (take (unat nleft') ptr') p' of (nwritten, q) \<Rightarrow>
          if nwritten \<le> 0 then
            if nwritten < 0 \<and> errno_of q = EINTR then f os' fd' n' ptr' nleft' q
            else Some (- 1, q)
          else f os' fd' n' (drop (nat nwritten) ptr') (nleft' - word_of_int nwritten) q) = Some res'"
    obtain k q where c: "c_write os' fd' (take (unat nleft') ptr') p' = (k, q)"
      by fastforce
    show "os' = os \<longrightarrow> fd' = fd \<longrightarrow> n' = n \<longrightarrow> Q ptr' nleft' p' res'"
      using eq c
      by (auto split: if_splits
        intro: finished interrupted [OF _ _ _ _ IH [rule_format]] failed progress [OF _ _ _ IH [rule_format]])
  qed
  with run show ?thesis by blast
qed

lemma readn_loop_induct [consumes 1, case_names finished interrupted failed eof progress]:
  assumes run: "readn_loop os fd n acc nleft p = Some res"
    and finished: "\<And>acc p. Q acc 0 p (n, acc, p)"
    and interrupted: "\<And>acc nleft p k bs q res. nleft \<noteq> 0 \<Longrightarrow>
      c_read os fd (unat nleft) p = ((k, bs), q) \<Longrightarrow> k < 0 \<Longrightarrow> errno_of q = EINTR \<Longrightarrow>
      Q acc nleft q res \<Longrightarrow> Q acc nleft p res"
    and failed: "\<And>acc nleft p k bs q. nleft \<noteq> 0 \<Longrightarrow>
      c_read os fd (unat nleft) p = ((k, bs), q) \<Longrightarrow> k < 0 \<Longrightarrow> errno_of q \<noteq> EINTR \<Longrightarrow>
      Q acc nleft p (- 1, acc, q)"
    and eof: "\<And>acc nleft p bs q. nleft \<noteq> 0 \<Longrightarrow>
      c_read os fd (unat nleft) p = ((0, bs), q) \<Longrightarrow> Q acc nleft p (n - nleft, acc, q)"
    and progress: "\<And>acc nleft p k bs q res. nleft \<noteq> 0 \<Longrightarrow>
      c_read os fd (unat nleft) p = ((k, bs), q) \<Longrightarrow> 0 < k \<Longrightarrow>
      Q (acc @ bs) (nleft - word_of_int k) q res \<Longrightarrow> Q acc nleft p res"
  shows "Q acc nleft p res"
proof -
  have "os' = os \<longrightarrow> fd' = fd \<longrightarrow> n' = n \<longrightarrow> Q acc' nleft' p' res'"
    if "readn_loop os' fd' n' acc' nleft' p' = Some res'" for os' fd' n' acc' nleft' p' res'
    using that
  proof (rule readn_loop.raw_induct [rotated])
    fix f :: "'a os \<Rightarrow> int \<Rightarrow> size_t \<Rightarrow> bytes \<Rightarrow> size_t \<Rightarrow> 'a proc \<Rightarrow> (size_t \<times> bytes \<times> 'a proc) option"
      and os' fd' n' acc' nleft' p' res'
    assume IH: "\<And>os' fd' n' acc' nleft' p' res'. f os' fd' n' acc' nleft' p' = Some res' \<Longrightarrow>
        os' = os \<longrightarrow> fd' = fd \<longrightarrow> n' = n \<longrightarrow> Q acc' nleft' p' res'"
      and eq: "(if nleft' = 0 then Some (n' - nleft', acc', p')
        else case c_read os' fd' (unat nleft') p' of ((nread, bs), q) \<Rightarrow>
          if nread < 0 then
            if errno_of q = EINTR then f os' fd' n' acc' nleft' q else Some (- 1, acc', q)
          else if nread = 0 then Some (n' - nleft', acc', q)
          else f os' fd' n' (acc' @ bs) (nleft' - word_of_int nread) q) = Some res'"
    obtain k bs q where c: "c_read os' fd' (unat nleft') p' = ((k, bs), q)"
      by (metis surj_pair)
    show "os' = os \<longrightarrow> fd' = fd \<longrightarrow> n' = n \<longrightarrow> Q acc' nleft' p' res'"
      using eq c
      by (auto split: if_splits
        intro: finished interrupted [OF _ _ _ _ IH [rule_format]] failed eof
          progress [OF _ _ _ IH [rule_format]])
  qed
  with run show ?thesis by blast
qed

section \<open>Frame facts\<close>

context data_effect begin

lemma R_writen_loop: "writen_loop os fd n ptr nleft p = Some res \<Longrightarrow> R p (snd res)"
  by (induction rule: writen_loop_induct) (auto intro: R_refl R_trans dest!: R_writeD)

lemma R_readn_loop: "readn_loop os fd n acc nleft p = Some res \<Longrightarrow> R p (snd (snd res))"
  by (induction rule: readn_loop_induct) (auto intro: R_refl R_trans dest!: R_readD)

lemma R_write_full: "write_full os fd ptr n p = Some (r, q) \<Longrightarrow> R p q"
  by (auto simp: write_full_def writen_def split: option.splits if_splits dest: R_writen_loop)

lemma R_read_full: "read_full os fd n p = Some (r, q) \<Longrightarrow> R p q"
  by (auto simp: read_full_def readn_def split: option.splits if_splits dest: R_readn_loop)

end

section \<open>What the loops do\<close>

lemma writen_loop_writes:
  assumes "writen_loop os fd n ptr nleft p = Some res"
    and lawful: "writes_bounded os"
    and "unat nleft \<le> length ptr"
  shows "(fst res = n \<and> wrote fd (take (unat nleft) ptr) p (snd res))
    \<or> (fst res = - 1 \<and> (\<exists>k < unat nleft. wrote fd (take k ptr) p (snd res)))"
  using assms(1,3)
proof (induction rule: writen_loop_induct)
  case (finished ptr p)
  show ?case by simp
next
  case (interrupted ptr nleft p k q res)
  then have "trace q = trace p"
    by (cases rule: c_write_cases [of os fd "take (unat nleft) ptr" p]) auto
  with interrupted show ?case
    by (auto intro: wrote_trans_same)
next
  case (failed ptr nleft p k q)
  then have "wrote fd [] p q"
    by (cases rule: c_write_cases [of os fd "take (unat nleft) ptr" p]) (auto intro: wrote_event)
  moreover have "0 < unat nleft"
    using failed.hyps(1) by (simp add: unat_gt_0)
  ultimately show ?case
    by (intro disjI2) auto
next
  case (progress ptr nleft p k q res)
  from progress.hyps(2,3) have ev: "trace q = trace p @ [EvWrite fd (take (nat k) (take (unat nleft) ptr))]"
    and kle: "nat k \<le> unat nleft"
    using progress.prems
    by (cases rule: c_write_cases [of os fd "take (unat nleft) ptr" p];
        auto dest: writes_boundedD [OF lawful])+
  have left: "unat (nleft - word_of_int k) = unat nleft - nat k"
    using progress.hyps(3) kle by (simp add: unat_sub_of_int)
  have first: "wrote fd (take (nat k) ptr) p q"
    using ev kle by (intro wrote_event) (simp add: min_absorb1)
  have join: "wrote fd (take (nat k + j) ptr) p r" if "wrote fd (take j (drop (nat k) ptr)) q r" for j r
    using wrote_append [OF first that] by (simp add: take_add)
  have all: "nat k + (unat nleft - nat k) = unat nleft"
    using kle by simp
  from progress.IH diff_le_mono [OF progress.prems, of "nat k"] left
  consider "fst res = n" "wrote fd (take (unat nleft - nat k) (drop (nat k) ptr)) q (snd res)"
    | j where "fst res = - 1" "j < unat nleft - nat k" "wrote fd (take j (drop (nat k) ptr)) q (snd res)"
    by auto
  then show ?case
  proof cases
    case 1
    with join [OF 1(2)] all show ?thesis by simp
  next
    case (2 j)
    then show ?thesis
      by (intro disjI2) (auto intro!: exI [of _ "nat k + j"] join)
  qed
qed

lemma writen_loop_returns:
  assumes lawful: "writes_bounded os" and prompt: "interrupts_finite os m"
  shows "unat nleft \<le> length ptr \<Longrightarrow> \<exists>res. writen_loop os fd n ptr nleft p = Some res"
proof (induction "(ptr, nleft, p)" arbitrary: ptr nleft p
    rule: measures_induct [where f = "\<lambda>(ptr, nleft, p). unat nleft" and g = "\<lambda>(ptr, nleft, p). m (kern p)"])
  case smaller
  note IH = smaller(1) [simplified]
  show ?case
  proof (cases "nleft = 0")
    case True
    then show ?thesis by (simp add: writen_loop.simps)
  next
    case nonzero: False
    show ?thesis
    proof (cases rule: c_write_cases [of os fd "take (unat nleft) ptr" p])
      case (error e w)
      then have "e = EINTR \<Longrightarrow> m w < m (kern p)"
        using interrupts_finiteD [OF prompt] by blast
      with error nonzero smaller(2)
        IH [where ?p = "p\<lparr>errno_of := e, kern := w\<rparr>"]
      show ?thesis by (subst writen_loop.simps) auto
    next
      case (ok k w)
      have k: "k \<le> unat nleft"
        using writes_boundedD [OF lawful ok(1)] by simp
      then have left: "unat (nleft - word_of_int (int k)) = unat nleft - k"
        using unat_sub_of_int [of "int k" nleft] by simp
      with k nonzero ok smaller(2) IH show ?thesis
        by (subst writen_loop.simps) (auto simp: unat_gt_0)
    qed
  qed
qed

text \<open>
  The reads of a loop that asked for \<open>n\<close> bytes: either they delivered all of them and none
  was empty, or they delivered fewer and exactly the last was empty, the end of the file.
\<close>

definition all_or_eof :: "nat \<Rightarrow> bytes list \<Rightarrow> bool" where
  "all_or_eof n chunks \<longleftrightarrow>
     (if length (concat chunks) = n then [] \<notin> set chunks
      else length (concat chunks) < n \<and> (\<exists>before. chunks = before @ [[]] \<and> [] \<notin> set before))"

lemma all_or_eof_cons:
  assumes "all_or_eof (n - length bs) chunks" and "bs \<noteq> []" and "length bs \<le> n"
  shows "all_or_eof n (bs # chunks)"
proof (cases "length (concat chunks) = n - length bs")
  case True
  with assms show ?thesis by (auto simp: all_or_eof_def)
next
  case False
  with assms obtain before where "chunks = before @ [[]]" "[] \<notin> set before" "length (concat chunks) < n - length bs"
    by (auto simp: all_or_eof_def)
  with assms(2,3) False show ?thesis
    by (auto simp: all_or_eof_def intro!: exI [of _ "bs # before"])
qed

lemma readn_loop_reads:
  assumes "readn_loop os fd n acc nleft p = Some res"
    and lawful: "reads_bounded os"
    and "nleft \<le> n" and "length acc = unat (n - nleft)"
  shows "\<exists>chunks. trace (snd (snd res)) = trace p @ map (EvRead fd) chunks
    \<and> fst (snd res) = acc @ concat chunks \<and> length (concat chunks) \<le> unat nleft
    \<and> (fst res = of_nat (length (fst (snd res))) \<and> all_or_eof (unat nleft) chunks
       \<or> fst res = - 1 \<and> errno_of (snd (snd res)) \<noteq> EINTR \<and> [] \<notin> set chunks
           \<and> length (concat chunks) < unat nleft)"
  using assms(1,3,4)
proof (induction rule: readn_loop_induct)
  case (finished acc p)
  then show ?case by (auto simp: all_or_eof_def intro!: exI [of _ "[]"])
next
  case (interrupted acc nleft p k bs q res)
  then have "trace q = trace p"
    by (cases rule: c_read_cases [of os fd "unat nleft" p]) auto
  with interrupted.IH [OF interrupted.prems] show ?case by simp
next
  case (failed acc nleft p k bs q)
  then have "trace q = trace p"
    by (cases rule: c_read_cases [of os fd "unat nleft" p]) auto
  with failed.hyps show ?case by (auto simp: unat_gt_0 intro!: exI [of _ "[]"])
next
  case (eof acc nleft p bs q)
  then have ev: "trace q = trace p @ [EvRead fd []]"
    by (cases rule: c_read_cases [of os fd "unat nleft" p]) auto
  have "n - nleft = of_nat (length acc)" using eof.prems(2) by simp
  moreover have "0 < unat nleft" using eof.hyps(1) by (simp add: unat_gt_0)
  ultimately show ?case using ev by (intro exI [of _ "[[]]"]) (simp add: all_or_eof_def)
next
  case (progress acc nleft p k bs q res)
  then have ev: "trace q = trace p @ [EvRead fd bs]" and k: "k = int (length bs)"
    and le: "length bs \<le> unat nleft"
    by (cases rule: c_read_cases [of os fd "unat nleft" p];
        auto dest: reads_boundedD [OF lawful])+
  have some: "bs \<noteq> []" using k progress.hyps(3) by auto
  have left: "unat (nleft - word_of_int k) = unat nleft - length bs"
    using k le unat_sub_of_int [of k nleft] by simp
  have le_n: "nleft - word_of_int k \<le> n"
    using left progress.prems(1) by (simp add: word_le_nat_alt)
  have len: "length (acc @ bs) = unat (n - (nleft - word_of_int k))"
    using progress.prems le left le_n by (simp add: unat_sub word_le_nat_alt)
  from progress.IH [OF le_n len] left obtain chunks where new: "trace (snd (snd res)) = trace q @ map (EvRead fd) chunks"
    "fst (snd res) = acc @ concat (bs # chunks)" "length (concat chunks) \<le> unat nleft - length bs"
    "fst res = of_nat (length (fst (snd res))) \<and> all_or_eof (unat nleft - length bs) chunks
     \<or> fst res = - 1 \<and> errno_of (snd (snd res)) \<noteq> EINTR \<and> [] \<notin> set chunks
         \<and> length (concat chunks) < unat nleft - length bs"
    by auto
  from new(4) have "fst res = of_nat (length (fst (snd res))) \<and> all_or_eof (unat nleft) (bs # chunks)
     \<or> fst res = - 1 \<and> errno_of (snd (snd res)) \<noteq> EINTR \<and> [] \<notin> set (bs # chunks)
         \<and> length (concat (bs # chunks)) < unat nleft"
    using all_or_eof_cons [OF _ some le] some by auto
  with new(1-3) ev le show ?case by (intro exI [of _ "bs # chunks"]) auto
qed

lemma readn_loop_returns:
  assumes lawful: "reads_bounded os" and prompt: "read_interrupts_finite os m"
  shows "\<exists>res. readn_loop os fd n acc nleft p = Some res"
proof (induction "(acc, nleft, p)" arbitrary: acc nleft p
    rule: measures_induct [where f = "\<lambda>(acc, nleft, p). unat nleft" and g = "\<lambda>(acc, nleft, p). m (kern p)"])
  case smaller
  note IH = smaller(1) [simplified]
  show ?case
  proof (cases "nleft = 0")
    case True
    then show ?thesis by (simp add: readn_loop.simps)
  next
    case nonzero: False
    show ?thesis
    proof (cases rule: c_read_cases [of os fd "unat nleft" p])
      case (error e w)
      then have "e = EINTR \<Longrightarrow> m w < m (kern p)"
        using read_interrupts_finiteD [OF prompt] by blast
      with error nonzero IH [where ?p = "p\<lparr>errno_of := e, kern := w\<rparr>"] show ?thesis
        by (subst readn_loop.simps) auto
    next
      case (ok bs w)
      have k: "length bs \<le> unat nleft" using reads_boundedD [OF lawful ok(1)] .
      then have "unat (nleft - word_of_int (int (length bs))) = unat nleft - length bs"
        using unat_sub_of_int [of "int (length bs)" nleft] by simp
      with k nonzero ok IH show ?thesis
        by (subst readn_loop.simps) (auto simp: unat_gt_0)
    qed
  qed
qed

text \<open>\<^verbatim>\<open>read_full\<close> as a whole.\<close>

lemma read_full_reads:
  assumes lawful: "reads_bounded os" and prompt: "read_interrupts_finite os m" and short: "unat n < 2 ^ 63"
  shows "\<exists>r q chunks. read_full os fd n p = Some (r, q) \<and> trace q = trace p @ map (EvRead fd) chunks
    \<and> (case r of
         Inr (k, bs) \<Rightarrow> bs = concat chunks \<and> unat k = length bs \<and> all_or_eof (unat n) chunks
       | Inl e \<Rightarrow> e = SystemError (errno_of q) ''read() failed'' \<and> errno_of q \<noteq> EINTR
           \<and> [] \<notin> set chunks \<and> length (concat chunks) < unat n)"
proof -
  obtain k bs q where run: "readn_loop os fd n [] n p = Some (k, bs, q)"
    using readn_loop_returns [OF lawful prompt] by (metis prod_cases3)
  from readn_loop_reads [OF run lawful] obtain chunks where
    tr: "trace q = trace p @ map (EvRead fd) chunks" and bs: "bs = concat chunks" "length bs \<le> unat n"
    and k: "k = of_nat (length bs) \<and> all_or_eof (unat n) chunks
      \<or> k = - 1 \<and> errno_of q \<noteq> EINTR \<and> [] \<notin> set chunks \<and> length (concat chunks) < unat n"
    by auto
  have "0 \<le> sint (of_nat (length bs) :: size_t)" "unat (of_nat (length bs) :: size_t) = length bs"
    using bs(2) short by (simp_all add: signed_of_nat signed_take_bit_int_eq_self unat_size_t)
  with run tr bs k show ?thesis
    by (intro exI [of _ "if sint k < 0 then Inl (SystemError (errno_of q) ''read() failed'') else Inr (k, bs)"]
        exI [of _ q] exI [of _ chunks]) (auto simp: read_full_def readn_def)
qed

section \<open>The contract of a block writer\<close>

text \<open>
  What the components above rely on when they hand a block to \<^verbatim>\<open>write_full\<close>: on
  success exactly the block was written, on an exception a proper prefix of it, and the call
  returns. \<open>lawful\<close> and \<open>prompt\<close> are the assumptions about the kernel the two laws need.
\<close>

locale block_writer =
  fixes wr :: "int \<Rightarrow> bytes \<Rightarrow> size_t \<Rightarrow> 'w proc \<Rightarrow> ((exn + unit) \<times> 'w proc) option"
    and lawful :: bool
    and prompt :: bool
  assumes wr_ok: "lawful \<Longrightarrow> unat n \<le> length ptr \<Longrightarrow> unat n < 2 ^ 63 \<Longrightarrow>
      wr fd ptr n p = Some (Inr u, q) \<Longrightarrow> wrote fd (take (unat n) ptr) p q"
    and wr_cut: "lawful \<Longrightarrow> unat n \<le> length ptr \<Longrightarrow> unat n < 2 ^ 63 \<Longrightarrow>
      wr fd ptr n p = Some (Inl e, q) \<Longrightarrow>
      (\<exists>k < unat n. wrote fd (take k ptr) p q) \<and> (\<exists>c. e = SystemError c ''write() failed'')"
    and wr_returns: "prompt \<Longrightarrow> unat n \<le> length ptr \<Longrightarrow> wr fd ptr n p \<noteq> None"
begin

lemma wr_prefix:
  assumes "lawful" and "unat n \<le> length ptr" and "unat n < 2 ^ 63" and "wr fd ptr n p = Some (r, q)"
  shows "\<exists>k \<le> unat n. wrote fd (take k ptr) p q \<and> (isl r \<longrightarrow> k < unat n) \<and> (\<not> isl r \<longrightarrow> k = unat n)"
  using assms wr_ok [of n ptr fd p _ q] wr_cut [of n ptr fd p _ q]
  by (cases r) (auto intro: less_imp_le)

end

lemma write_full_ok:
  assumes "writes_bounded os" and "unat n \<le> length ptr" and "unat n < 2 ^ 63"
    and "write_full os fd ptr n p = Some (Inr u, q)"
  shows "wrote fd (take (unat n) ptr) p q"
proof -
  from assms(4) have run: "writen_loop os fd n ptr n p = Some (n, q)"
    by (auto simp: write_full_def writen_def split: option.splits if_splits)
  have "unat (- 1 :: size_t) = 2 ^ 64 - 1"
    by (simp add: unsigned_minus_1_eq_mask mask_eq_exp_minus_1)
  with assms(3) have "n \<noteq> - 1" by auto
  with writen_loop_writes [OF run assms(1,2)] show ?thesis by simp
qed

lemma write_full_cut:
  assumes "writes_bounded os" and "unat n \<le> length ptr"
    and "write_full os fd ptr n p = Some (Inl e, q)"
  shows "\<exists>k < unat n. wrote fd (take k ptr) p q" and "e = SystemError (errno_of q) ''write() failed''"
proof -
  from assms(3) obtain r where run: "writen_loop os fd n ptr n p = Some (r, q)" and "r \<noteq> n"
    and "e = SystemError (errno_of q) ''write() failed''"
    by (auto simp: write_full_def writen_def split: option.splits if_splits)
  then show "e = SystemError (errno_of q) ''write() failed''" by simp
  from writen_loop_writes [OF run assms(1,2)] \<open>r \<noteq> n\<close>
  show "\<exists>k < unat n. wrote fd (take k ptr) p q" by auto
qed

interpretation full: block_writer "write_full os" "writes_bounded os"
    "writes_bounded os \<and> (\<exists>m. interrupts_finite os m)" for os :: "'w os"
proof (unfold_locales, goal_cases)
  case 1
  then show ?case by (rule write_full_ok)
next
  case (2 n ptr fd p e q)
  with write_full_cut [OF 2(1,2,4)] show ?case by blast
next
  case (3 n ptr fd p)
  then obtain m where "interrupts_finite os m" and "writes_bounded os" by blast
  from writen_loop_returns [OF this(2,1) 3(2), of fd n p]
  obtain r where "writen_loop os fd n ptr n p = Some r" by blast
  then show ?case by (simp add: write_full_def writen_def case_prod_beta)
qed

end
