(* ===== verification/Protocol_Buffer.thy ===== *)
theory Protocol_Buffer
  imports Line_Framing Net_Io
begin

text \<open>
  \<^verbatim>\<open>include/protocol_buffer.hpp\<close> and \<^verbatim>\<open>src/protocol_buffer.cpp\<close>: the
  fixed array of bytes that collects what arrives on a descriptor and hands out whole lines.
  An operation returns the exception or its value and the new buffer; the code changes no
  field before it throws, so after an exception the object is the one it was.
\<close>

section \<open>The class\<close>

definition buffer_size :: int where
  "buffer_size = 1024"

record buffer =
  bf_mem :: bytes
  bf_capacity :: int
  bf_size :: int

text \<open>\<^verbatim>\<open>Buffer b {}\<close> value-initializes: the array is zeroed.\<close>

definition buf_default :: buffer where
  "buf_default = \<lparr>bf_mem = replicate (nat buffer_size) (CHR 0x00), bf_capacity = buffer_size, bf_size = 0\<rparr>"

text \<open>
  The copy and move constructors leave the new array uninitialized but for the bytes they
  copy; \<open>mem\<close> is what happens to lie there.
\<close>

definition buf_copy_init :: "(nat \<Rightarrow> char) \<Rightarrow> buffer \<Rightarrow> exn + buffer" where
  "buf_copy_init mem other =
     (case mem_copy (map mem [0..<nat buffer_size]) 0 (bf_mem other) 0 (bf_size other) of
        Inl e \<Rightarrow> Inl e
      | Inr m \<Rightarrow> Inr \<lparr>bf_mem = m, bf_capacity = buffer_size, bf_size = bf_size other\<rparr>)"

definition buf_copy_assign :: "bool \<Rightarrow> buffer \<Rightarrow> buffer \<Rightarrow> exn + buffer" where
  "buf_copy_assign same this other =
     (if \<not> same then
        (case mem_copy (bf_mem this) 0 (bf_mem other) 0 (bf_size other) of
           Inl e \<Rightarrow> Inl e
         | Inr m \<Rightarrow> Inr (this\<lparr>bf_mem := m, bf_size := bf_size other\<rparr>))
      else Inr this)"

text \<open>Moving gives the new object and what is left of \<^verbatim>\<open>other\<close>.\<close>

definition buf_move_init :: "(nat \<Rightarrow> char) \<Rightarrow> buffer \<Rightarrow> exn + buffer \<times> buffer" where
  "buf_move_init mem other =
     (case mem_copy (map mem [0..<nat buffer_size]) 0 (bf_mem other) 0 (bf_size other) of
        Inl e \<Rightarrow> Inl e
      | Inr m \<Rightarrow> Inr (\<lparr>bf_mem = m, bf_capacity = buffer_size, bf_size = bf_size other\<rparr>,
                       other\<lparr>bf_size := 0\<rparr>))"

definition buf_move_assign :: "bool \<Rightarrow> buffer \<Rightarrow> buffer \<Rightarrow> exn + buffer \<times> buffer" where
  "buf_move_assign same this other =
     (if \<not> same then
        (case mem_copy (bf_mem this) 0 (bf_mem other) 0 (bf_size other) of
           Inl e \<Rightarrow> Inl e
         | Inr m \<Rightarrow> Inr (this\<lparr>bf_mem := m, bf_size := bf_size other\<rparr>, other\<lparr>bf_size := 0\<rparr>))
      else Inr (this, other))"

definition buf_clear :: "buffer \<Rightarrow> buffer" where
  "buf_clear b = b\<lparr>bf_size := 0\<rparr>"

definition buf_capacity :: "buffer \<Rightarrow> int" where
  "buf_capacity b = bf_capacity b"

definition buf_size :: "buffer \<Rightarrow> int" where
  "buf_size b = bf_size b"

definition buf_free_space :: "buffer \<Rightarrow> int" where
  "buf_free_space b = bf_capacity b - bf_size b"

definition buf_is_empty :: "buffer \<Rightarrow> bool" where
  "buf_is_empty b \<longleftrightarrow> bf_size b = 0"

definition buf_is_full :: "buffer \<Rightarrow> bool" where
  "buf_is_full b \<longleftrightarrow> bf_size b = bf_capacity b"

definition buf_increase_size :: "int \<Rightarrow> buffer \<Rightarrow> exn + buffer" where
  "buf_increase_size n b =
     (if n > buf_free_space b
      then Inl (LengthError ''Buffer::increase_size(): not enough free space'')
      else Inr (b\<lparr>bf_size := bf_size b + n\<rparr>))"

text \<open>
  A caller that got \<^verbatim>\<open>data()\<close> may store bytes through the pointer:
  \<open>buf_store off bs\<close> is a \<^verbatim>\<open>read\<close> that put \<open>bs\<close> at \<^verbatim>\<open>data() + off\<close>.
\<close>

definition buf_store :: "int \<Rightarrow> bytes \<Rightarrow> buffer \<Rightarrow> exn + buffer" where
  "buf_store off bs b =
     (case mem_copy (bf_mem b) off bs 0 (int (length bs)) of
        Inl e \<Rightarrow> Inl e
      | Inr m \<Rightarrow> Inr (b\<lparr>bf_mem := m\<rparr>))"

definition buf_append :: "bytes \<Rightarrow> int \<Rightarrow> buffer \<Rightarrow> exn + buffer" where
  "buf_append other len b =
     (if len < 0 then Inl (InvalidArgument ''Buffer::append(): len must be non-negative'')
      else if len > buf_free_space b
      then Inl (LengthError ''Buffer::append(): not enough free space'')
      else (case mem_copy (bf_mem b) (bf_size b) other 0 len of
              Inl e \<Rightarrow> Inl e
            | Inr m \<Rightarrow> Inr (b\<lparr>bf_mem := m, bf_size := bf_size b + len\<rparr>)))"

definition buf_compact :: "int \<Rightarrow> buffer \<Rightarrow> exn + buffer" where
  "buf_compact len b =
     (if len < 0 then Inl (InvalidArgument ''Buffer::compact(): len must be non-negative'')
      else if len > bf_size b then Inr (b\<lparr>bf_size := 0\<rparr>)
      else (case mem_copy (bf_mem b) 0 (bf_mem b) len (bf_size b - len) of
              Inl e \<Rightarrow> Inl e
            | Inr m \<Rightarrow> Inr (b\<lparr>bf_mem := m, bf_size := bf_size b - len\<rparr>)))"

function find_delim_from :: "char \<Rightarrow> buffer \<Rightarrow> int \<Rightarrow> exn + int" where
  "find_delim_from d b i =
     (if i < bf_size b then
        (case mem_get (bf_mem b) i of
           Inl e \<Rightarrow> Inl e
         | Inr c \<Rightarrow> if c = d then Inr i else find_delim_from d b (i + 1))
      else Inr (- 1))"
  by pat_completeness auto
termination
  by (relation "measure (\<lambda>(d, b, i). nat (bf_size b - i))") auto

declare find_delim_from.simps [simp del]

definition buf_find_delim :: "char \<Rightarrow> buffer \<Rightarrow> exn + int" where
  "buf_find_delim d b = find_delim_from d b 0"

definition buf_consume_once :: "char \<Rightarrow> buffer \<Rightarrow> exn + bytes \<times> buffer" where
  "buf_consume_once d b =
     (case buf_find_delim d b of
        Inl e \<Rightarrow> Inl e
      | Inr delim_idx \<Rightarrow>
          if delim_idx < 0 then Inr ([], b)
          else
            (case mem_block (bf_mem b) (delim_idx + 1) of
               Inl e \<Rightarrow> Inl e
             | Inr result \<Rightarrow>
                 (case buf_compact (delim_idx + 1) b of
                    Inl e \<Rightarrow> Inl e
                  | Inr b' \<Rightarrow> Inr (result, b'))))"

section \<open>Termination of the consuming loops\<close>

lemma find_delim_from_range:
  "0 \<le> i \<Longrightarrow> find_delim_from d b i = Inr k \<Longrightarrow> k = - 1 \<or> i \<le> k \<and> k < bf_size b"
proof (induction d b i rule: find_delim_from.induct)
  case (1 d b i)
  then show ?case
    by (subst (asm) (2) find_delim_from.simps)
      (fastforce split: if_splits sum.splits simp: mem_get_def)
qed

lemma buf_compact_shrinks:
  "buf_find_delim d b = Inr k \<Longrightarrow> 0 \<le> k \<Longrightarrow> buf_compact (k + 1) b = Inr b' \<Longrightarrow>
   0 < bf_size b \<and> bf_size b' < bf_size b"
  using find_delim_from_range [of 0 d b k]
  by (auto simp: buf_find_delim_def buf_compact_def split: if_splits sum.splits)

lemma buf_consume_once_shrinks:
  "buf_consume_once d b = Inr (chunk, b') \<Longrightarrow> chunk \<noteq> [] \<Longrightarrow>
   0 < bf_size b \<and> bf_size b' < bf_size b"
  by (auto simp: buf_consume_once_def not_less split: sum.splits if_splits dest: buf_compact_shrinks)

function consume_full_loop :: "char \<Rightarrow> bytes \<Rightarrow> buffer \<Rightarrow> exn + bytes \<times> buffer" where
  "consume_full_loop d result b =
     (case buf_consume_once d b of
        Inl e \<Rightarrow> Inl e
      | Inr (chunk, b') \<Rightarrow>
          if chunk = [] then Inr (result, b') else consume_full_loop d (result @ chunk) b')"
  by pat_completeness auto
termination
  by (relation "measure (\<lambda>(d, result, b). nat (bf_size b))") (auto dest: buf_consume_once_shrinks)

declare consume_full_loop.simps [simp del]

definition buf_consume_full :: "char \<Rightarrow> buffer \<Rightarrow> exn + bytes \<times> buffer" where
  "buf_consume_full d b = consume_full_loop d [] b"

text \<open>The overloads without a delimiter use the newline.\<close>

definition buf_consume_once_nl :: "buffer \<Rightarrow> exn + bytes \<times> buffer" where
  "buf_consume_once_nl b = buf_consume_once newline b"

definition buf_consume_full_nl :: "buffer \<Rightarrow> exn + bytes \<times> buffer" where
  "buf_consume_full_nl b = buf_consume_full newline b"

text \<open>
  The overloads that write to a descriptor. The block writer they call,
  \<^verbatim>\<open>net::write_full\<close>, is the argument \<open>wr\<close>; it may never return.
\<close>

definition buf_consume_once_fd ::
  "(int \<Rightarrow> bytes \<Rightarrow> size_t \<Rightarrow> 'w proc \<Rightarrow> ((exn + unit) \<times> 'w proc) option) \<Rightarrow>
   int \<Rightarrow> char \<Rightarrow> buffer \<Rightarrow> 'w proc \<Rightarrow> ((exn + unit) \<times> buffer \<times> 'w proc) option" where
  "buf_consume_once_fd wr fd d b p =
     (case buf_find_delim d b of
        Inl e \<Rightarrow> Some (Inl e, b, p)
      | Inr delim_idx \<Rightarrow>
          if delim_idx \<ge> 0 then
            (case wr fd (bf_mem b) (word_of_int (delim_idx + 1)) p of
               None \<Rightarrow> None
             | Some (Inl e, p') \<Rightarrow> Some (Inl e, b, p')
             | Some (Inr _, p') \<Rightarrow>
                 (case buf_compact (delim_idx + 1) b of
                    Inl e \<Rightarrow> Some (Inl e, b, p')
                  | Inr b' \<Rightarrow> Some (Inr (), b', p')))
          else Some (Inr (), b, p))"

function buf_consume_full_fd ::
  "(int \<Rightarrow> bytes \<Rightarrow> size_t \<Rightarrow> 'w proc \<Rightarrow> ((exn + unit) \<times> 'w proc) option) \<Rightarrow>
   int \<Rightarrow> char \<Rightarrow> buffer \<Rightarrow> 'w proc \<Rightarrow> ((exn + unit) \<times> buffer \<times> 'w proc) option" where
  "buf_consume_full_fd wr fd d b p =
     (case buf_find_delim d b of
        Inl e \<Rightarrow> Some (Inl e, b, p)
      | Inr delim_idx \<Rightarrow>
          if delim_idx \<ge> 0 then
            (case wr fd (bf_mem b) (word_of_int (delim_idx + 1)) p of
               None \<Rightarrow> None
             | Some (Inl e, p') \<Rightarrow> Some (Inl e, b, p')
             | Some (Inr _, p') \<Rightarrow>
                 (case buf_compact (delim_idx + 1) b of
                    Inl e \<Rightarrow> Some (Inl e, b, p')
                  | Inr b' \<Rightarrow> buf_consume_full_fd wr fd d b' p'))
          else Some (Inr (), b, p))"
  by pat_completeness auto
termination
  by (relation "measure (\<lambda>(wr, fd, d, b, p). nat (bf_size b))") (auto dest: buf_compact_shrinks)

declare buf_consume_full_fd.simps [simp del]

definition buf_consume_once_fd_nl ::
  "(int \<Rightarrow> bytes \<Rightarrow> size_t \<Rightarrow> 'w proc \<Rightarrow> ((exn + unit) \<times> 'w proc) option) \<Rightarrow>
   int \<Rightarrow> buffer \<Rightarrow> 'w proc \<Rightarrow> ((exn + unit) \<times> buffer \<times> 'w proc) option" where
  "buf_consume_once_fd_nl wr fd b p = buf_consume_once_fd wr fd newline b p"

definition buf_consume_full_fd_nl ::
  "(int \<Rightarrow> bytes \<Rightarrow> size_t \<Rightarrow> 'w proc \<Rightarrow> ((exn + unit) \<times> 'w proc) option) \<Rightarrow>
   int \<Rightarrow> buffer \<Rightarrow> 'w proc \<Rightarrow> ((exn + unit) \<times> buffer \<times> 'w proc) option" where
  "buf_consume_full_fd_nl wr fd b p = buf_consume_full_fd wr fd newline b p"

end
