(* ===== verification/Buffer_Correct.thy ===== *)
theory Buffer_Correct
  imports Protocol_Buffer
begin

text \<open>
  What \<^verbatim>\<open>protocol::Buffer\<close> guarantees: its fields stay in range, no operation of a
  well-formed buffer touches memory outside the array, and seen through \<open>content\<close>, the bytes it
  stores, the consuming operations are the stream split of \<open>Line_Framing\<close>.
\<close>

section \<open>Invariant and abstraction\<close>

definition buf_wf :: "buffer \<Rightarrow> bool" where
  "buf_wf b \<longleftrightarrow> length (bf_mem b) = nat buffer_size \<and> bf_capacity b = buffer_size
     \<and> 0 \<le> bf_size b \<and> bf_size b \<le> buffer_size"

definition content :: "buffer \<Rightarrow> bytes" where
  "content b = take (nat (bf_size b)) (bf_mem b)"

lemma buffer_size_value [simp]: "buffer_size = 1024"
  by (simp add: buffer_size_def)

lemma buf_wfE:
  assumes "buf_wf b"
  obtains n where "bf_size b = int n" and "n \<le> 1024" and "length (bf_mem b) = 1024"
    and "bf_capacity b = 1024"
  using assms by (intro that [of "nat (bf_size b)"]) (auto simp: buf_wf_def)

lemma length_content [simp, buffer_simps]: "buf_wf b \<Longrightarrow> length (content b) = nat (bf_size b)"
  by (erule buf_wfE) (simp add: content_def)

lemma content_bound: "buf_wf b \<Longrightarrow> length (content b) \<le> 1024"
  by (auto elim: buf_wfE)

lemma buf_free_space_content [buffer_simps]:
  "buf_wf b \<Longrightarrow> buf_free_space b = 1024 - int (length (content b))"
  by (simp add: buf_free_space_def buf_wf_def)

lemma buf_wf_default [simp, wf_intros]: "buf_wf buf_default"
  by (simp add: buf_wf_def buf_default_def)

lemma content_default [simp, buffer_simps]: "content buf_default = []"
  by (simp add: content_def buf_default_def)

lemma mem_content: "buf_wf b \<Longrightarrow> i < nat (bf_size b) \<Longrightarrow> bf_mem b ! i = content b ! i"
  by (simp add: content_def)

section \<open>Construction, copies and moves\<close>

lemma buf_copy_init_content:
  assumes "buf_wf other"
  shows "\<exists>b. buf_copy_init mem other = Inr b \<and> buf_wf b \<and> content b = content other"
  using assms by (simp add: buf_copy_init_def mem_copy_ok buf_wf_def content_def min_def)

lemma buf_copy_assign_content:
  assumes "buf_wf this" and "buf_wf other"
  shows "\<exists>b. buf_copy_assign same this other = Inr b \<and> buf_wf b
    \<and> content b = (if same then content this else content other)"
  using assms by (simp add: buf_copy_assign_def mem_copy_ok buf_wf_def content_def min_def)

lemma buf_move_init_content:
  assumes "buf_wf other"
  shows "\<exists>b other'. buf_move_init mem other = Inr (b, other') \<and> buf_wf b \<and> buf_wf other'
    \<and> content b = content other \<and> content other' = []"
  using assms by (simp add: buf_move_init_def mem_copy_ok buf_wf_def content_def min_def)

lemma buf_move_assign_content:
  assumes "buf_wf this" and "buf_wf other"
  shows "\<exists>b other'. buf_move_assign same this other = Inr (b, other') \<and> buf_wf b \<and> buf_wf other'
    \<and> content b = (if same then content this else content other)
    \<and> content other' = (if same then content other else [])"
  using assms by (simp add: buf_move_assign_def mem_copy_ok buf_wf_def content_def min_def)

section \<open>Storing bytes\<close>

lemma buf_append_ok:
  assumes "buf_wf b" and "0 \<le> len" and "len \<le> buf_free_space b" and "len \<le> int (length other)"
  shows "\<exists>b'. buf_append other len b = Inr b' \<and> buf_wf b' \<and> content b' = content b @ take (nat len) other"
proof -
  obtain n where n: "bf_size b = int n" "n \<le> 1024" "length (bf_mem b) = 1024" "bf_capacity b = 1024"
    using assms(1) by (rule buf_wfE)
  obtain l where l: "len = int l" using assms(2) nonneg_int_cases by blast
  with assms n have fits: "n + l \<le> 1024" "l \<le> length other"
    by (auto simp: buf_free_space_def)
  have "mem_copy (bf_mem b) (int n) other 0 (int l)
      = Inr (take n (bf_mem b) @ take l other @ drop (n + l) (bf_mem b))"
    using n fits by (simp add: mem_copy_ok nat_int_add)
  then show ?thesis
    using n l fits
    by (simp add: buf_append_def buf_free_space_def buf_wf_def content_def nat_int_add min_absorb2)
qed

text \<open>The client's way in: a read stored behind the content, then \<^verbatim>\<open>increase_size\<close>.\<close>

lemma buf_store_ok:
  assumes "buf_wf b" and "0 \<le> off" and "off + int (length bs) \<le> 1024"
  shows "buf_store off bs b =
    Inr (b\<lparr>bf_mem := take (nat off) (bf_mem b) @ bs @ drop (nat (off + int (length bs))) (bf_mem b)\<rparr>)"
  using assms by (simp add: buf_store_def mem_copy_ok buf_wf_def)

lemma buf_store_wf [wf_intros]: "buf_store off bs b = Inr b' \<Longrightarrow> buf_wf b \<Longrightarrow> buf_wf b'"
  by (auto simp: buf_store_def buf_wf_def mem_copy_length split: sum.splits)

lemma buf_increase_wf [wf_intros]:
  "buf_increase_size n b = Inr b' \<Longrightarrow> buf_wf b \<Longrightarrow> 0 \<le> n \<Longrightarrow> buf_wf b'"
  by (auto simp: buf_increase_size_def buf_wf_def buf_free_space_def split: if_splits)

lemma buf_receive_ok:
  assumes "buf_wf b" and "length (content b) + length bs \<le> 1024"
  shows "\<exists>b1 b2. buf_store (bf_size b) bs b = Inr b1 \<and> buf_increase_size (int (length bs)) b1 = Inr b2
    \<and> buf_wf b2 \<and> content b2 = content b @ bs"
proof -
  obtain n where n: "bf_size b = int n" "n \<le> 1024" "length (bf_mem b) = 1024" "bf_capacity b = 1024"
    using assms(1) by (rule buf_wfE)
  with assms have fits: "n + length bs \<le> 1024" by simp
  let ?m = "take n (bf_mem b) @ bs @ drop (n + length bs) (bf_mem b)"
  have "buf_store (bf_size b) bs b = Inr (b\<lparr>bf_mem := ?m\<rparr>)"
    using buf_store_ok [of b "int n" bs] assms(1) n fits by (simp add: nat_int_add)
  then show ?thesis
    using n fits by (simp add: buf_increase_size_def buf_free_space_def buf_wf_def content_def nat_int_add)
qed

section \<open>Finding and consuming\<close>

lemma find_delim_from_none:
  assumes "buf_wf b" and "0 \<le> i" and "\<forall>j. nat i \<le> j \<and> j < nat (bf_size b) \<longrightarrow> content b ! j \<noteq> d"
  shows "find_delim_from d b i = Inr (- 1)"
  using assms
proof (induction d b i rule: find_delim_from.induct)
  case (1 d b i)
  show ?case
  proof (cases "i < bf_size b")
    case True
    then have get: "mem_get (bf_mem b) i = Inr (content b ! nat i)" and "nat i < nat (bf_size b)"
      using "1.prems" by (auto simp: mem_get_def mem_content buf_wf_def)
    with "1.prems" have "content b ! nat i \<noteq> d" by blast
    moreover have "\<forall>j. nat (i + 1) \<le> j \<and> j < nat (bf_size b) \<longrightarrow> content b ! j \<noteq> d"
      using "1.prems"(2,3) by (auto simp: nat_add_distrib)
    ultimately show ?thesis
      using "1.IH" [OF True get] "1.prems"(1,2) get True
      by (subst find_delim_from.simps) simp
  next
    case False
    then show ?thesis by (subst find_delim_from.simps) simp
  qed
qed

lemma find_delim_from_some:
  assumes "buf_wf b" and "0 \<le> i" and "nat i \<le> k" and "k < nat (bf_size b)" and "content b ! k = d"
    and "\<forall>j. nat i \<le> j \<and> j < k \<longrightarrow> content b ! j \<noteq> d"
  shows "find_delim_from d b i = Inr (int k)"
  using assms
proof (induction d b i rule: find_delim_from.induct)
  case (1 d b i)
  from "1.prems" have lt: "i < bf_size b" by linarith
  then have get: "mem_get (bf_mem b) i = Inr (content b ! nat i)"
    using "1.prems" by (auto simp: mem_get_def mem_content buf_wf_def)
  show ?case
  proof (cases "content b ! nat i = d")
    case True
    with "1.prems" have "\<not> nat i < k" by blast
    with "1.prems"(2,3) have "i = int k" by linarith
    with True get lt show ?thesis
      by (subst find_delim_from.simps) simp
  next
    case False
    with "1.prems" have "nat (i + 1) \<le> k"
      by (metis Suc_nat_eq_nat_zadd1 Suc_leI add.commute le_neq_implies_less)
    moreover have "\<forall>j. nat (i + 1) \<le> j \<and> j < k \<longrightarrow> content b ! j \<noteq> d"
      using "1.prems"(2,6) by (auto simp: nat_add_distrib)
    ultimately show ?thesis
      using "1.IH" [OF lt get False] "1.prems"(1,2,4,5) get lt False
      by (subst find_delim_from.simps) simp
  qed
qed

text \<open>The index returned is that of the first delimiter of the content, or -1.\<close>

lemma buf_find_delim_cases:
  assumes "buf_wf b"
  obtains (none) "d \<notin> set (content b)" and "buf_find_delim d b = Inr (- 1)"
  | (found) k where "k < length (content b)" and "content b ! k = d" and "\<forall>j < k. content b ! j \<noteq> d"
      and "buf_find_delim d b = Inr (int k)"
proof (cases "d \<in> set (content b)")
  case True
  define k where "k = (LEAST k. k < length (content b) \<and> content b ! k = d)"
  from True obtain j where "j < length (content b) \<and> content b ! j = d"
    by (auto simp: in_set_conv_nth)
  then have k: "k < length (content b) \<and> content b ! k = d"
    unfolding k_def by (rule LeastI)
  moreover have "content b ! i \<noteq> d" if "i < k" for i
    using not_less_Least [OF that [unfolded k_def]] that k by simp
  ultimately show ?thesis
    using find_delim_from_some [OF assms, of 0 k d] assms
    by (intro found [of k]) (auto simp: buf_find_delim_def)
next
  case False
  with assms have "buf_find_delim d b = Inr (- 1)"
    unfolding buf_find_delim_def by (intro find_delim_from_none) (auto simp: in_set_conv_nth)
  with False show ?thesis by (rule none)
qed

lemma buf_compact_ok:
  assumes "buf_wf b" and "0 \<le> len" and "len \<le> bf_size b"
  shows "\<exists>b'. buf_compact len b = Inr b' \<and> buf_wf b' \<and> content b' = drop (nat len) (content b)"
proof -
  obtain n where n: "bf_size b = int n" "n \<le> 1024" "length (bf_mem b) = 1024" "bf_capacity b = 1024"
    using assms(1) by (rule buf_wfE)
  obtain l where l: "len = int l" using assms(2) nonneg_int_cases by blast
  with assms n have fits: "l \<le> n" by simp
  have "mem_copy (bf_mem b) 0 (bf_mem b) (int l) (int n - int l)
      = Inr (take (n - l) (drop l (bf_mem b)) @ drop (n - l) (bf_mem b))"
    using n fits by (simp add: mem_copy_ok nat_diff_distrib flip: of_nat_diff)
  then show ?thesis
    using n l fits by (simp add: buf_compact_def buf_wf_def content_def drop_take nat_diff_distrib)
qed

lemma buf_compact_wf [wf_intros]: "buf_compact len b = Inr b' \<Longrightarrow> buf_wf b \<Longrightarrow> buf_wf b'"
  by (auto simp: buf_compact_def buf_wf_def mem_copy_length split: if_splits sum.splits)

lemma buf_consume_once_some:
  assumes "buf_wf b" and "d \<in> set (content b)"
  shows "\<exists>b'. buf_consume_once d b = Inr (first_line d (content b), b') \<and> buf_wf b'
    \<and> content b' = after_line d (content b)"
proof -
  obtain k where found: "k < length (content b)" "content b ! k = d" "\<forall>j < k. content b ! j \<noteq> d"
    "buf_find_delim d b = Inr (int k)"
    using assms(2) by (rule_tac buf_find_delim_cases [OF assms(1), of d]) auto
  have line: "first_line d (content b) = take (Suc k) (content b)"
    "after_line d (content b) = drop (Suc k) (content b)"
    using first_line_take [OF found(1,2,3)] by simp_all
  have block: "mem_block (bf_mem b) (int k + 1) = Inr (take (Suc k) (content b))"
    using found(1) assms(1) by (auto elim!: buf_wfE simp: mem_block_def content_def nat_add_distrib)
  have "int k + 1 \<le> bf_size b"
    using found(1) assms(1) by simp
  with buf_compact_ok [OF assms(1), of "int k + 1"]
  obtain b' where "buf_compact (int k + 1) b = Inr b'" "buf_wf b'" "content b' = drop (Suc k) (content b)"
    by (auto simp: nat_add_distrib)
  with found(4) line block show ?thesis
    by (simp add: buf_consume_once_def)
qed

lemma buf_consume_once_none:
  assumes "buf_wf b" and "d \<notin> set (content b)"
  shows "buf_consume_once d b = Inr ([], b)"
  by (rule buf_find_delim_cases [OF assms(1), of d])
    (use assms in \<open>auto simp: buf_consume_once_def\<close>)

lemma first_line_nonempty: "d \<in> set xs \<Longrightarrow> first_line d xs \<noteq> []"
  by (cases xs) auto

lemma consume_full_loop_content:
  assumes "buf_wf b"
  shows "\<exists>b'. consume_full_loop d result b = Inr (result @ complete d (content b), b') \<and> buf_wf b'
    \<and> content b' = rest d (content b)"
  using assms
proof (induction d result b rule: consume_full_loop.induct)
  case (1 d result b)
  show ?case
  proof (cases "d \<in> set (content b)")
    case True
    with buf_consume_once_some [OF "1.prems"] obtain b1 where
      b1: "buf_consume_once d b = Inr (first_line d (content b), b1)" "buf_wf b1"
        "content b1 = after_line d (content b)" by blast
    note ne = first_line_nonempty [OF True]
    from "1.IH" [OF b1(1) refl ne b1(2)] obtain b' where
      "consume_full_loop d (result @ first_line d (content b)) b1
        = Inr ((result @ first_line d (content b)) @ complete d (content b1), b')"
      "buf_wf b'" "content b' = rest d (content b1)" by blast
    with b1 ne show ?thesis
      by (subst consume_full_loop.simps) (simp add: complete_first [OF True] rest_after [OF True])
  next
    case False
    with buf_consume_once_none [OF "1.prems"] "1.prems" show ?thesis
      by (subst consume_full_loop.simps) simp
  qed
qed

lemma buf_consume_full_content:
  assumes "buf_wf b"
  shows "\<exists>b'. buf_consume_full d b = Inr (complete d (content b), b') \<and> buf_wf b'
    \<and> content b' = rest d (content b)"
  using consume_full_loop_content [OF assms, of d "[]"] by (simp add: buf_consume_full_def)

section \<open>Consuming to a descriptor\<close>

text \<open>
  The lines go out one block write each. Written here over any block writer: on success the
  descriptor got the complete part of the content, on an exception a prefix of it; either way
  what is still stored follows what was written, except the line the failing write was given,
  which stays in the buffer although part of it may be out.
\<close>

text \<open>One turn of the loop, when a delimiter is stored.\<close>

lemma consume_full_fd_found:
  fixes wr :: "int \<Rightarrow> bytes \<Rightarrow> size_t \<Rightarrow> 'w proc \<Rightarrow> ((exn + unit) \<times> 'w proc) option"
  assumes "buf_wf b" and "d \<in> set (content b)"
  obtains n b1 where "unat n = length (first_line d (content b))" and "unat n \<le> length (bf_mem b)"
    and "unat n < 2 ^ 63" and "take (unat n) (bf_mem b) = first_line d (content b)"
    and "buf_wf b1" and "content b1 = after_line d (content b)" and "bf_size b1 < bf_size b"
    and "\<forall>fd p. buf_consume_full_fd wr fd d b p =
      (case wr fd (bf_mem b) n p of
         None \<Rightarrow> None
       | Some (Inl e, p') \<Rightarrow> Some (Inl e, b, p')
       | Some (Inr _, p') \<Rightarrow> buf_consume_full_fd wr fd d b1 p')"
proof -
  obtain k where k: "k < length (content b)" "content b ! k = d" "\<forall>j < k. content b ! j \<noteq> d"
    and find: "buf_find_delim d b = Inr (int k)"
    using assms(2) by (rule_tac buf_find_delim_cases [OF assms(1), of d]) auto
  have line: "first_line d (content b) = take (Suc k) (content b)"
    "after_line d (content b) = drop (Suc k) (content b)"
    using first_line_take [OF k] by simp_all
  have kle: "k < 1024" using k(1) content_bound [OF assms(1)] by simp
  define n where "n = (word_of_int (int k + 1) :: size_t)"
  have n: "unat n = Suc k"
    unfolding n_def using kle by (subst unat_of_int_small) (auto simp: nat_add_distrib)
  have mem: "take (Suc k) (bf_mem b) = take (Suc k) (content b)" "Suc k \<le> length (bf_mem b)"
    using k(1) assms(1) by (auto elim!: buf_wfE simp: content_def)
  have "int k + 1 \<le> bf_size b" using k(1) assms(1) by simp
  from buf_compact_ok [OF assms(1) _ this]
  obtain b1 where b1: "buf_compact (int k + 1) b = Inr b1" "buf_wf b1"
    "content b1 = drop (Suc k) (content b)"
    by (auto simp: nat_add_distrib)
  show ?thesis
  proof (rule that [of n b1])
    show "unat n = length (first_line d (content b))" and "unat n < 2 ^ 63"
      and "take (unat n) (bf_mem b) = first_line d (content b)" and "unat n \<le> length (bf_mem b)"
      using n line k(1) kle mem by simp_all
    show "buf_wf b1" and "content b1 = after_line d (content b)"
      using b1 line by simp_all
    show "bf_size b1 < bf_size b"
      using buf_compact_shrinks [OF find _ b1(1)] by simp
    show "\<forall>fd p. buf_consume_full_fd wr fd d b p =
      (case wr fd (bf_mem b) n p of
         None \<Rightarrow> None
       | Some (Inl e, p') \<Rightarrow> Some (Inl e, b, p')
       | Some (Inr _, p') \<Rightarrow> buf_consume_full_fd wr fd d b1 p')"
      by (intro allI, subst buf_consume_full_fd.simps)
        (simp only: find sum.case b1(1) n_def of_nat_0_le_iff if_True)
  qed
qed

lemma consume_full_fd_none:
  assumes "buf_wf b" and "d \<notin> set (content b)"
  shows "buf_consume_full_fd wr fd d b p = Some (Inr (), b, p)"
  by (rule buf_find_delim_cases [OF assms(1), of d])
    (use assms(2) in \<open>auto simp: buf_consume_full_fd.simps [of wr fd d b p]\<close>)

context block_writer begin

lemma consume_full_fd_writes:
  assumes lawful and "buf_wf b" and "buf_consume_full_fd wr fd d b p = Some (r, b', q)"
  shows "\<exists>lines part. wrote fd (lines @ part) p q \<and> buf_wf b' \<and> lines @ content b' = content b \<and>
    (case r of
       Inr _ \<Rightarrow> lines = complete d (content b) \<and> part = [] \<and> content b' = rest d (content b)
     | Inl e \<Rightarrow> (\<exists>c. e = SystemError c ''write() failed'') \<and>
         strict_prefix part (first_line d (content b')) \<and> d \<in> set (content b'))"
  using assms(2,3)
proof (induction "nat (bf_size b)" arbitrary: b p rule: less_induct)
  case less
  show ?case
  proof (cases "d \<in> set (content b)")
    case False
    with less.prems consume_full_fd_none [OF less.prems(1) False, of wr fd p] show ?thesis
      by (intro exI [of _ "[]"]) auto
  next
    case True
    obtain n b1 where n: "unat n = length (first_line d (content b))" "unat n \<le> length (bf_mem b)"
        "unat n < 2 ^ 63" "take (unat n) (bf_mem b) = first_line d (content b)"
      and b1: "buf_wf b1" "content b1 = after_line d (content b)" "bf_size b1 < bf_size b"
      and turn: "\<forall>fd p. buf_consume_full_fd wr fd d b p =
        (case wr fd (bf_mem b) n p of
           None \<Rightarrow> None
         | Some (Inl e, p') \<Rightarrow> Some (Inl e, b, p')
         | Some (Inr _, p') \<Rightarrow> buf_consume_full_fd wr fd d b1 p')"
      by (rule consume_full_fd_found [OF less.prems(1) True, of wr])
    from less.prems(2) turn [rule_format, of fd p] consider
      e where "wr fd (bf_mem b) n p = Some (Inl e, q)" "r = Inl e" "b' = b"
    | u p' where "wr fd (bf_mem b) n p = Some (Inr u, p')"
        "buf_consume_full_fd wr fd d b1 p' = Some (r, b', q)"
      by (auto split: option.splits sum.splits)
    then show ?thesis
    proof cases
      case (1 e)
      from wr_cut [OF assms(1) n(2,3) 1(1)] obtain j c where
        j: "j < unat n" "wrote fd (take j (bf_mem b)) p q" and "e = SystemError c ''write() failed''"
        by blast
      have "strict_prefix (take j (bf_mem b)) (take (unat n) (bf_mem b))"
        using j(1) n(2) by (rule strict_prefix_take)
      with j 1 n(4) True less.prems(1) \<open>e = SystemError c ''write() failed''\<close> show ?thesis
        by (intro exI [of _ "[]"] exI [of _ "take j (bf_mem b)"]) auto
    next
      case (2 u p')
      have first: "wrote fd (first_line d (content b)) p p'"
        using wr_ok [OF assms(1) n(2,3) 2(1)] n(4) by simp
      have size: "0 \<le> bf_size b1" using b1(1) by (auto elim: buf_wfE)
      then have "nat (bf_size b1) < nat (bf_size b)" using b1(3) by simp
      from less.hyps [OF this b1(1) 2(2)] obtain lines part where
        ih: "wrote fd (lines @ part) p' q" "buf_wf b'" "lines @ content b' = content b1"
        "case r of
           Inr _ \<Rightarrow> lines = complete d (content b1) \<and> part = [] \<and> content b' = rest d (content b1)
         | Inl e \<Rightarrow> (\<exists>c. e = SystemError c ''write() failed'') \<and>
             strict_prefix part (first_line d (content b')) \<and> d \<in> set (content b')"
        by blast
      show ?thesis
        using wrote_append [OF first ih(1)] ih(2,3,4) b1(2) complete_first [OF True] rest_after [OF True]
        by (intro exI [of _ "first_line d (content b) @ lines"] exI [of _ part])
          (auto split: sum.splits)
    qed
  qed
qed

lemma consume_full_fd_returns:
  assumes prompt and "buf_wf b"
  shows "buf_consume_full_fd wr fd d b p \<noteq> None"
  using assms(2)
proof (induction "nat (bf_size b)" arbitrary: b p rule: less_induct)
  case less
  show ?case
  proof (cases "d \<in> set (content b)")
    case False
    with consume_full_fd_none [OF less.prems False, of wr fd p] show ?thesis by simp
  next
    case True
    obtain n b1 where n: "unat n = length (first_line d (content b))" "unat n \<le> length (bf_mem b)"
        "unat n < 2 ^ 63" "take (unat n) (bf_mem b) = first_line d (content b)"
      and b1: "buf_wf b1" "content b1 = after_line d (content b)" "bf_size b1 < bf_size b"
      and turn: "\<forall>fd p. buf_consume_full_fd wr fd d b p =
        (case wr fd (bf_mem b) n p of
           None \<Rightarrow> None
         | Some (Inl e, p') \<Rightarrow> Some (Inl e, b, p')
         | Some (Inr _, p') \<Rightarrow> buf_consume_full_fd wr fd d b1 p')"
      by (rule consume_full_fd_found [OF less.prems True, of wr])
    have "0 \<le> bf_size b1" using b1(1) by (auto elim: buf_wfE)
    with b1(3) have "nat (bf_size b1) < nat (bf_size b)" by simp
    from less.hyps [OF this b1(1)] wr_returns [OF assms(1) n(2), of fd p] turn [rule_format, of fd p] show ?thesis
      by (auto split: option.splits sum.splits)
  qed
qed

end

section \<open>The buffer as an incremental reader\<close>

text \<open>
  The two ways the code fills a buffer: \<^verbatim>\<open>append\<close>, and a read stored behind the
  content followed by \<^verbatim>\<open>increase_size\<close>, as the client does it.
\<close>

definition put_append :: "buffer \<Rightarrow> bytes \<Rightarrow> exn + buffer" where
  "put_append b bs = buf_append bs (int (length bs)) b"

definition put_receive :: "buffer \<Rightarrow> bytes \<Rightarrow> exn + buffer" where
  "put_receive b bs =
     (case buf_store (buf_size b) bs b of
        Inl e \<Rightarrow> Inl e
      | Inr b1 \<Rightarrow> buf_increase_size (int (length bs)) b1)"

interpretation appended: framer put_append "buf_consume_full d" content buf_wf 1024 d for d
proof (unfold_locales, goal_cases)
  case (1 q bs)
  then have "int (length bs) \<le> buf_free_space q"
    by (simp only: buf_free_space_content)
  with buf_append_ok [OF 1(1), of "int (length bs)" bs] show ?case
    by (simp add: put_append_def)
next
  case (2 q)
  then show ?case by (rule buf_consume_full_content)
qed

interpretation received: framer put_receive "buf_consume_full d" content buf_wf 1024 d for d
proof (unfold_locales, goal_cases)
  case (1 q bs)
  with buf_receive_ok [OF 1(1,2)] show ?case
    by (auto simp: put_receive_def buf_size_def)
next
  case (2 q)
  then show ?case by (rule buf_consume_full_content)
qed

end
