(* ===== verification/Net_Socket.thy ===== *)
theory Net_Socket
  imports Net_Unix
begin

text \<open>
  \<^verbatim>\<open>src/net_socket.cpp\<close>: the socket calls, each turned into an exception when it
  fails. All but \<open>accept_socket\<close> are straight line.
\<close>

section \<open>Definitions\<close>

text \<open>
  The retry loop of \<^verbatim>\<open>accept_socket\<close>. The macro \<^verbatim>\<open>ERPROTO\<close> the code
  tests with \<^verbatim>\<open>#ifdef\<close> is not one of Linux's, so the branch compiled is the one
  that retries \<^verbatim>\<open>ECONNABORTED\<close> only.
\<close>

partial_function (option) accept_socket ::
  "'w os \<Rightarrow> int \<Rightarrow> 'w proc \<Rightarrow> ((exn + int) \<times> 'w proc) option" where
  "accept_socket os fd p =
     (case c_accept os fd p of (n, p') \<Rightarrow>
        if n \<ge> 0 then Some (Inr n, p')
        else if errno_of p' = ECONNABORTED then accept_socket os fd p'
        else Some (Inl (SystemError (errno_of p') ''accept() failed''), p'))"

declare accept_socket.simps [code]

definition create_socket :: "'w os \<Rightarrow> int \<Rightarrow> int \<Rightarrow> int \<Rightarrow> 'w proc \<Rightarrow> (exn + int) \<times> 'w proc" where
  "create_socket os family type protocol p =
     (case c_socket os family type protocol p of (fd, p') \<Rightarrow>
        if fd < 0 then (Inl (SystemError (errno_of p') ''socket() failed''), p')
        else (Inr fd, p'))"

definition connect_socket :: "'w os \<Rightarrow> int \<Rightarrow> sockaddr_in \<Rightarrow> 'w proc \<Rightarrow> (exn + unit) \<times> 'w proc" where
  "connect_socket os fd sa p =
     (case c_connect os fd sa p of (r, p') \<Rightarrow>
        if r < 0 then (Inl (SystemError (errno_of p') ''connect() failed''), p')
        else (Inr (), p'))"

definition bind_socket :: "'w os \<Rightarrow> int \<Rightarrow> sockaddr_in \<Rightarrow> 'w proc \<Rightarrow> (exn + unit) \<times> 'w proc" where
  "bind_socket os fd sa p =
     (case c_bind os fd sa p of (r, p') \<Rightarrow>
        if r < 0 then (Inl (SystemError (errno_of p') ''bind() failed''), p')
        else (Inr (), p'))"

definition listen_socket :: "'w os \<Rightarrow> int \<Rightarrow> int \<Rightarrow> 'w proc \<Rightarrow> (exn + unit) \<times> 'w proc" where
  "listen_socket os fd backlog p =
     (case c_listen os fd backlog p of (r, p') \<Rightarrow>
        if r < 0 then (Inl (SystemError (errno_of p') ''listen() failed''), p')
        else (Inr (), p'))"

definition poll_socket ::
  "'w os \<Rightarrow> pollfd list \<Rightarrow> int \<Rightarrow> 'w proc \<Rightarrow> (exn + int \<times> pollfd list) \<times> 'w proc" where
  "poll_socket os fdarray timeout p =
     (case c_poll os fdarray timeout p of ((n, fds), p') \<Rightarrow>
        if n < 0 then (Inl (SystemError (errno_of p') ''poll() failed''), p')
        else (Inr (n, fds), p'))"

text \<open>The value is the \<^verbatim>\<open>in_addr\<close> stored at \<^verbatim>\<open>addrptr\<close>.\<close>

definition inet_pton_socket :: "'w os \<Rightarrow> int \<Rightarrow> bytes \<Rightarrow> 'w proc \<Rightarrow> (exn + 32 word) \<times> 'w proc" where
  "inet_pton_socket os family strptr p =
     (case c_inet_pton os family strptr p of ((n, addr), p') \<Rightarrow>
        if n \<le> 0 then (Inl (SystemError (errno_of p') ''inet_pton() failed''), p')
        else (Inr addr, p'))"

definition is_valid_ip4 :: "'w os \<Rightarrow> bytes \<Rightarrow> bool" where
  "is_valid_ip4 os ip \<longleftrightarrow> fst (os_inet_pton os AF_INET ip) = 1"

section \<open>Facts\<close>

lemma accept_socket_induct [consumes 1, case_names accepted aborted failed]:
  assumes run: "accept_socket os fd p = Some res"
    and accepted: "\<And>p n q. c_accept os fd p = (n, q) \<Longrightarrow> 0 \<le> n \<Longrightarrow> Q p (Inr n, q)"
    and aborted: "\<And>p n q res. c_accept os fd p = (n, q) \<Longrightarrow> n < 0 \<Longrightarrow> errno_of q = ECONNABORTED \<Longrightarrow>
      Q q res \<Longrightarrow> Q p res"
    and failed: "\<And>p n q. c_accept os fd p = (n, q) \<Longrightarrow> n < 0 \<Longrightarrow> errno_of q \<noteq> ECONNABORTED \<Longrightarrow>
      Q p (Inl (SystemError (errno_of q) ''accept() failed''), q)"
  shows "Q p res"
proof -
  have "os' = os \<longrightarrow> fd' = fd \<longrightarrow> Q p' res'"
    if "accept_socket os' fd' p' = Some res'" for os' fd' p' res'
    using that
  proof (rule accept_socket.raw_induct [rotated])
    fix f :: "'a os \<Rightarrow> int \<Rightarrow> 'a proc \<Rightarrow> ((exn + int) \<times> 'a proc) option" and os' fd' p' res'
    assume IH: "\<And>os' fd' p' res'. f os' fd' p' = Some res' \<Longrightarrow> os' = os \<longrightarrow> fd' = fd \<longrightarrow> Q p' res'"
      and eq: "(case c_accept os' fd' p' of (n, q) \<Rightarrow>
        if n \<ge> 0 then Some (Inr n, q)
        else if errno_of q = ECONNABORTED then f os' fd' q
        else Some (Inl (SystemError (errno_of q) ''accept() failed''), q)) = Some res'"
    obtain n q where c: "c_accept os' fd' p' = (n, q)" by fastforce
    show "os' = os \<longrightarrow> fd' = fd \<longrightarrow> Q p' res'"
      using eq c
      by (auto split: if_splits intro: accepted aborted [OF _ _ _ IH [rule_format]] failed)
  qed
  with run show ?thesis by blast
qed

lemma accept_socket_returns:
  assumes "aborts_finite os m"
  shows "accept_socket os fd p \<noteq> None"
proof (induction "m (kern p)" arbitrary: p rule: less_induct)
  case less
  show ?case
  proof (cases "os_accept os fd (kern p)")
    case (Pair res w)
    show ?thesis
    proof (cases res)
      case (Inl e)
      with Pair assms have "e = ECONNABORTED \<Longrightarrow> m w < m (kern p)" by (auto simp: aborts_finite_def)
      with less [of "p\<lparr>errno_of := e, kern := w\<rparr>"] Pair Inl show ?thesis
        by (subst accept_socket.simps) (auto simp: c_accept_def c_call_def)
    next
      case (Inr n)
      with Pair show ?thesis by (subst accept_socket.simps) (simp add: c_accept_def c_call_def)
    qed
  qed
qed

lemma accept_first:
  assumes "os_accept os fd (kern p) = (Inr n, w)"
  shows "accept_socket os fd p = Some (Inr (int n), p\<lparr>trace := trace p @ [EvOpen (int n)], kern := w\<rparr>)"
  using assms by (simp add: accept_socket.simps [of os fd p] c_accept_def c_call_def)

text \<open>A successful accept opens the descriptor it returns; a failed one opens none.\<close>

lemma accept_socket_opens:
  "accept_socket os fd p = Some (r, q) \<Longrightarrow>
   opens p (case r of Inl _ \<Rightarrow> - 1 | Inr n \<Rightarrow> n, q) \<and> (\<forall>n. r = Inr n \<longrightarrow> 0 \<le> n)"
proof (induction "(r, q)" arbitrary: r q rule: accept_socket_induct)
  case (accepted p n q')
  then show ?case using c_opens(1) [of p os fd] by auto
next
  case (aborted p n q')
  then show ?case using c_opens(1) [of p os fd] by (cases r) (auto simp: opens_def)
next
  case (failed p n q')
  then show ?case using c_opens(1) [of p os fd] by (simp add: opens_def)
qed

lemma create_socket_opens:
  "create_socket os f t pr p = (r, q) \<Longrightarrow>
   opens p (case r of Inl _ \<Rightarrow> - 1 | Inr n \<Rightarrow> n, q) \<and> (\<forall>n. r = Inr n \<longrightarrow> 0 \<le> n)"
  using c_opens(2) [of p os f t pr]
  by (auto simp: create_socket_def opens_def split: prod.splits if_splits)

lemma socket_calls_same_fds [trace_simps]:
  "connect_socket os fd sa p = (r1, q1) \<Longrightarrow> same_fds p q1"
  "bind_socket os fd sa p = (r2, q2) \<Longrightarrow> same_fds p q2"
  "listen_socket os fd n p = (r3, q3) \<Longrightarrow> same_fds p q3"
  using c_quiet_fds(1) [of p os fd sa] c_quiet_fds(2) [of p os fd sa] c_quiet_fds(3) [of p os fd n]
  by (auto simp: connect_socket_def bind_socket_def listen_socket_def split: prod.splits if_splits)

context control_effect begin

lemma R_acceptD: "c_accept os fd p = (n, q) \<Longrightarrow> R p q"
  by (metis R_accept snd_conv)

lemma R_accept_socket: "accept_socket os fd p = Some res \<Longrightarrow> R p (snd res)"
  by (induction rule: accept_socket_induct) (auto intro: R_trans dest!: R_acceptD)

lemma R_create_socket: "R p (snd (create_socket os f t pr p))"
  using R_socket [of p f t pr] by (simp add: create_socket_def case_prod_beta)

lemma R_connect_socket: "R p (snd (connect_socket os fd sa p))"
  using R_connect [of p fd sa] by (simp add: connect_socket_def case_prod_beta)

lemma R_bind_socket: "R p (snd (bind_socket os fd sa p))"
  using R_bind [of p fd sa] by (simp add: bind_socket_def case_prod_beta)

lemma R_listen_socket: "R p (snd (listen_socket os fd n p))"
  using R_listen [of p fd n] by (simp add: listen_socket_def case_prod_beta)

end

end
