(* ===== verification/Net_Utils.thy ===== *)
theory Net_Utils
  imports Net_Socket
begin

text \<open>
  \<^verbatim>\<open>include/net_utils.hpp\<close>: the owning wrapper around a descriptor,
  \<^verbatim>\<open>ScopedFileDescriptor\<close>, and \<^verbatim>\<open>SocketAddress\<close>. The lemmas are
  about ownership: at any time the descriptors opened are those closed together with those
  held, so none leaks and none is closed twice.
\<close>

section \<open>ScopedFileDescriptor\<close>

datatype scoped_fd = ScopedFd (fd_get: int)

definition scoped_fd_default :: scoped_fd where
  "scoped_fd_default = ScopedFd (- 1)"

definition fd_valid :: "scoped_fd \<Rightarrow> bool" where
  "fd_valid s \<longleftrightarrow> fd_get s \<ge> 0"

definition fd_reset :: "'w os \<Rightarrow> scoped_fd \<Rightarrow> int \<Rightarrow> 'w proc \<Rightarrow> scoped_fd \<times> 'w proc" where
  "fd_reset os s fd p =
     (let p' = (if fd_get s \<ge> 0 then snd (c_close os (fd_get s) p) else p)
      in (ScopedFd fd, p'))"

text \<open>\<^verbatim>\<open>release\<close> gives the descriptor away: the value, and what the wrapper holds now.\<close>

definition fd_release :: "scoped_fd \<Rightarrow> int \<times> scoped_fd" where
  "fd_release s = (fd_get s, ScopedFd (- 1))"

text \<open>Move construction: the new object, and what is left in \<^verbatim>\<open>other\<close>.\<close>

definition fd_move_init :: "scoped_fd \<Rightarrow> scoped_fd \<times> scoped_fd" where
  "fd_move_init other = (case fd_release other of (fd, other') \<Rightarrow> (ScopedFd fd, other'))"

text \<open>
  Move assignment. \<open>same\<close> is the test \<^verbatim>\<open>this == &other\<close>, which is about addresses;
  when it holds \<open>this\<close> and \<open>other\<close> are one object and the results agree.
\<close>

definition fd_move_assign ::
  "'w os \<Rightarrow> bool \<Rightarrow> scoped_fd \<Rightarrow> scoped_fd \<Rightarrow> 'w proc \<Rightarrow> (scoped_fd \<times> scoped_fd) \<times> 'w proc" where
  "fd_move_assign os same this other p =
     (if \<not> same then
        (case fd_reset os this (- 1) p of (_, p') \<Rightarrow>
           (case fd_release other of (fd, other') \<Rightarrow> ((ScopedFd fd, other'), p')))
      else ((this, other), p))"

definition fd_destroy :: "'w os \<Rightarrow> scoped_fd \<Rightarrow> 'w proc \<Rightarrow> 'w proc" where
  "fd_destroy os s p = snd (fd_reset os s (- 1) p)"

section \<open>SocketAddress\<close>

record socket_address =
  family :: int
  ip_address :: "64 word"
  port :: "16 word"

definition default_address :: socket_address where
  "default_address = \<lparr>family = AF_INET, ip_address = INADDR_ANY, port = 9877\<rparr>"

text \<open>\<^verbatim>\<open>htonl\<close> takes 32 bits, so the \<^verbatim>\<open>unsigned long\<close> address is truncated.\<close>

definition to_sockaddr :: "'w os \<Rightarrow> socket_address \<Rightarrow> sockaddr_in" where
  "to_sockaddr os a =
     \<lparr>sin_family = family a, sin_port = os_htons os (port a),
      s_addr = os_htonl os (ucast (ip_address a))\<rparr>"

section \<open>Ownership\<close>

definition fds_of :: "scoped_fd \<Rightarrow> int multiset" where
  "fds_of s = (if fd_get s \<ge> 0 then {#fd_get s#} else {#})"

text \<open>\<open>accounts p held\<close>: every descriptor got so far was closed once or is in \<open>held\<close>.\<close>

definition accounts :: "'w proc \<Rightarrow> int multiset \<Rightarrow> bool" where
  "accounts p held \<longleftrightarrow> mset (opened (trace p)) = mset (closed (trace p)) + held"

lemma fds_of_simps [simp]:
  "fds_of (ScopedFd (- 1)) = {#}"
  "0 \<le> n \<Longrightarrow> fds_of (ScopedFd n) = {#n#}"
  "fds_of scoped_fd_default = {#}"
  by (simp_all add: fds_of_def scoped_fd_default_def)

lemma accounts_same_fds: "same_fds p q \<Longrightarrow> accounts q h = accounts p h"
  by (simp add: accounts_def same_fds_def)

lemma accounts_opens:
  "opens p (n, q) \<Longrightarrow> accounts p h \<Longrightarrow> accounts q (h + fds_of (ScopedFd n))"
  by (auto simp: accounts_def opens_def fds_of_def split: if_splits)

lemma accounts_close: "accounts p (h + {#fd#}) \<Longrightarrow> accounts (snd (c_close os fd p)) h"
  by (simp add: accounts_def trace_simps)

lemma fd_get_reset [simp]: "fst (fd_reset os s n p) = ScopedFd n"
  by (simp add: fd_reset_def)

lemma accounts_reset: "accounts p (h + fds_of s) \<Longrightarrow> accounts (snd (fd_reset os s n p)) h"
  by (auto simp: fd_reset_def fds_of_def accounts_close split: if_splits)

lemma accounts_destroy: "accounts p (h + fds_of s) \<Longrightarrow> accounts (fd_destroy os s p) h"
  by (simp add: fd_destroy_def accounts_reset)

lemma fd_move_init_owned: "fd_move_init other = (s, other') \<Longrightarrow> fds_of s = fds_of other \<and> fds_of other' = {#}"
  by (auto simp: fd_move_init_def fd_release_def)

text \<open>
  Move assignment closes what the target held and nothing else; assigning a wrapper to itself
  closes nothing.
\<close>

lemma fd_move_assign_owned:
  assumes "fd_move_assign os same this other p = ((this', other'), p')"
    and "accounts p (h + fds_of this + (if same then {#} else fds_of other))"
  shows "accounts p' (h + fds_of this' + (if same then {#} else fds_of other'))"
proof (cases same)
  case True
  with assms show ?thesis by (simp add: fd_move_assign_def)
next
  case False
  with assms(2) have "accounts p ((h + fds_of other) + fds_of this)"
    by (simp add: ac_simps)
  from accounts_reset [OF this, of os "- 1"] assms(1) False show ?thesis
    by (auto simp: fd_move_assign_def fd_release_def case_prod_beta)
qed

lemma fd_move_assign_other:
  "fd_move_assign os False this other p = ((other, ScopedFd (- 1)), fd_destroy os this p)"
  by (cases other) (simp add: fd_move_assign_def fd_release_def fd_destroy_def case_prod_beta)

lemma fd_destroy_none [simp]: "fd_destroy os (ScopedFd (- 1)) p = p"
  by (simp add: fd_destroy_def fd_reset_def)

lemma accounts_quiet: "same_fds p q \<Longrightarrow> accounts p h \<Longrightarrow> accounts q h"
  by (simp add: accounts_same_fds)

lemma accounts_opened:
  assumes "opens p (n, q)" and "accounts p h" and "n \<noteq> - 1"
  shows "0 \<le> n \<and> accounts q (h + {#n#})"
proof -
  have "0 \<le> n" using assms(1,3) by (auto simp: opens_def split: if_splits)
  with accounts_opens [OF assms(1,2)] show ?thesis by simp
qed

lemma accounts_not_opened: "opens p (- 1, q) \<Longrightarrow> accounts p h \<Longrightarrow> accounts q h"
  using accounts_opens [of p "- 1" q h] by simp

text \<open>No descriptor is held twice, and none that was open from the start is held.\<close>

lemma held_once:
  assumes "accounts p h" and "fresh_opens is_open (trace p)"
  shows "count h fd \<le> (if is_open fd then 0 else 1)"
  using fresh_opens_count [OF assms(2), of fd] assms(1) by (simp add: accounts_def split: if_splits)

context control_effect begin

lemma R_fd_reset: "R p (snd (fd_reset os s n p))"
  using R_close [of p "fd_get s"] by (simp add: fd_reset_def R_refl)

lemma R_fd_destroy: "R p (fd_destroy os s p)"
  by (simp add: fd_destroy_def R_fd_reset)

end

end
