(* ===== verification/Chat_Server.thy ===== *)
theory Chat_Server
  imports Buffer_Correct Net_Utils
begin

text \<open>
  \<^verbatim>\<open>include/chat_server.hpp\<close> and the operations of
  \<^verbatim>\<open>src/chat_server.cpp\<close> outside the event loop: construction, start and stop, the
  broadcast of a client's lines, the name handshake and the removal of a client.
\<close>

section \<open>State\<close>

record client_info =
  ci_fd :: scoped_fd
  ci_name :: bytes
  ci_buffer :: buffer
  ci_connected :: bool

record server =
  sv_running :: bool
  sv_listenfd :: scoped_fd
  sv_signalfd :: scoped_fd
  sv_clients :: "client_info list"
  sv_address :: socket_address
  sv_backlog :: int
  sv_max_clients :: int

definition client_info_init :: "int \<Rightarrow> bytes \<Rightarrow> client_info" where
  "client_info_init fd name =
     \<lparr>ci_fd = ScopedFd fd, ci_name = name, ci_buffer = buf_default, ci_connected = False\<rparr>"

text \<open>
  The implicit move constructor, member by member: \<^verbatim>\<open>push_back\<close> of a temporary uses
  it. Gives the new object and the descriptor wrapper left in the old one.
\<close>

definition client_info_move :: "(nat \<Rightarrow> char) \<Rightarrow> client_info \<Rightarrow> exn + client_info \<times> scoped_fd" where
  "client_info_move mem c =
     (case fd_move_init (ci_fd c) of (f, f') \<Rightarrow>
        (case buf_move_init mem (ci_buffer c) of
           Inl e \<Rightarrow> Inl e
         | Inr (b, _) \<Rightarrow>
             Inr (\<lparr>ci_fd = f, ci_name = ci_name c, ci_buffer = b, ci_connected = ci_connected c\<rparr>, f')))"

definition server_default :: server where
  "server_default =
     \<lparr>sv_running = False, sv_listenfd = scoped_fd_default, sv_signalfd = scoped_fd_default,
      sv_clients = [], sv_address = default_address, sv_backlog = 64, sv_max_clients = 62\<rparr>"

definition server_with_port :: "16 word \<Rightarrow> server" where
  "server_with_port p = server_default\<lparr>sv_address := default_address\<lparr>port := p\<rparr>\<rparr>"

section \<open>Information\<close>

definition server_endpoint :: "'w os \<Rightarrow> server \<Rightarrow> exn + bytes" where
  "server_endpoint os sv =
     (case os_inet_ntop os (family (sv_address sv)) (os_htonl os (ucast (ip_address (sv_address sv)))) of
        None \<Rightarrow> Inl (RuntimeError ''int_ntop() failed'')
      | Some buf \<Rightarrow> Inr (buf @ '':'' @ decimal (unat (port (sv_address sv)))))"

definition server_is_running :: "server \<Rightarrow> bool" where
  "server_is_running sv = sv_running sv"

definition server_get_port :: "server \<Rightarrow> 16 word" where
  "server_get_port sv = port (sv_address sv)"

section \<open>Start and stop\<close>

definition server_setup_signal_fd ::
  "'w os \<Rightarrow> server \<Rightarrow> 'w proc \<Rightarrow> (exn + unit) \<times> server \<times> 'w proc" where
  "server_setup_signal_fd os sv p =
     (case c_block_signals os p of (r, p1) \<Rightarrow>
        if r = - 1
        then (Inl (SystemError (errno_of p1) ''failed to block signals using sigprocmask''), sv, p1)
        else
          (case c_signalfd os p1 of (fd, p2) \<Rightarrow>
             if fd = - 1 then (Inl (SystemError (errno_of p2) ''failed to create signalfd''), sv, p2)
             else
               (case fd_move_assign os False (sv_signalfd sv) (ScopedFd fd) p2 of ((s, tmp), p3) \<Rightarrow>
                  (Inr (), sv\<lparr>sv_signalfd := s\<rparr>, fd_destroy os tmp p3))))"

text \<open>
  Whatever throws after the socket exists unwinds through \<^verbatim>\<open>temp_socket\<close>, whose
  destructor closes it.
\<close>

definition server_run :: "'w os \<Rightarrow> server \<Rightarrow> 'w proc \<Rightarrow> (exn + unit) \<times> server \<times> 'w proc" where
  "server_run os sv p =
     (if sv_running sv then (Inl (LogicError ''server is already running''), sv, p)
      else
        (let servaddr = to_sockaddr os (sv_address sv) in
        (case create_socket os AF_INET SOCK_STREAM 0 p of
           (Inl e, p1) \<Rightarrow> (Inl e, sv, p1)
         | (Inr fd, p1) \<Rightarrow>
        (let temp_socket = ScopedFd fd in
        (case c_setsockopt_reuseaddr os (fd_get temp_socket) p1 of (r, p2) \<Rightarrow>
           if r < 0
           then (Inl (RuntimeError ''setsockopt(SO_REUSEADDR) failed''), sv, fd_destroy os temp_socket p2)
           else
        (case bind_socket os (fd_get temp_socket) servaddr p2 of
           (Inl e, p3) \<Rightarrow> (Inl e, sv, fd_destroy os temp_socket p3)
         | (Inr _, p3) \<Rightarrow>
        (case listen_socket os (fd_get temp_socket) (sv_backlog sv) p3 of
           (Inl e, p4) \<Rightarrow> (Inl e, sv, fd_destroy os temp_socket p4)
         | (Inr _, p4) \<Rightarrow>
        (case server_setup_signal_fd os sv p4 of
           (Inl e, sv1, p5) \<Rightarrow> (Inl e, sv1, fd_destroy os temp_socket p5)
         | (Inr _, sv1, p5) \<Rightarrow>
        (case fd_move_assign os False (sv_listenfd sv1) temp_socket p5 of ((l, tmp), p6) \<Rightarrow>
           (Inr (), sv1\<lparr>sv_listenfd := l, sv_running := True\<rparr>, fd_destroy os tmp p6))))))))))"

text \<open>\<^verbatim>\<open>clients.clear()\<close> destroys the elements, and with them their descriptors.\<close>

fun destroy_clients :: "'w os \<Rightarrow> client_info list \<Rightarrow> 'w proc \<Rightarrow> 'w proc" where
  "destroy_clients os [] p = p"
| "destroy_clients os (c # cs) p = destroy_clients os cs (fd_destroy os (ci_fd c) p)"

definition server_stop :: "'w os \<Rightarrow> server \<Rightarrow> 'w proc \<Rightarrow> server \<times> 'w proc" where
  "server_stop os sv p =
     (let p1 = destroy_clients os (sv_clients sv) p in
      (case fd_reset os (sv_signalfd sv) (- 1) p1 of (s, p2) \<Rightarrow>
      (case fd_reset os (sv_listenfd sv) (- 1) p2 of (l, p3) \<Rightarrow>
        (sv\<lparr>sv_clients := [], sv_signalfd := s, sv_listenfd := l, sv_running := False\<rparr>, p3))))"

text \<open>The defaulted destructor destroys the members in the reverse order of their declaration.\<close>

definition server_destroy :: "'w os \<Rightarrow> server \<Rightarrow> 'w proc \<Rightarrow> 'w proc" where
  "server_destroy os sv p =
     fd_destroy os (sv_listenfd sv) (fd_destroy os (sv_signalfd sv) (destroy_clients os (sv_clients sv) p))"

section \<open>Messages\<close>

text \<open>
  The loop of \<^verbatim>\<open>respond_to_client\<close> over the clients' descriptors, \<open>i\<close> the index of
  the first in the list. It calls the block writer \<open>wr\<close> for everybody but the sender.
\<close>

fun broadcast ::
  "(int \<Rightarrow> bytes \<Rightarrow> size_t \<Rightarrow> 'w proc \<Rightarrow> ((exn + unit) \<times> 'w proc) option) \<Rightarrow>
   int list \<Rightarrow> nat \<Rightarrow> nat \<Rightarrow> bytes \<Rightarrow> 'w proc \<Rightarrow> ((exn + unit) \<times> 'w proc) option" where
  "broadcast wr [] i sender_index messages p = Some (Inr (), p)"
| "broadcast wr (fd # fds) i sender_index messages p =
     (if i \<noteq> sender_index then
        (case wr fd messages (of_nat (length messages)) p of
           None \<Rightarrow> None
         | Some (Inl e, p') \<Rightarrow> Some (Inl e, p')
         | Some (Inr _, p') \<Rightarrow> broadcast wr fds (Suc i) sender_index messages p')
      else broadcast wr fds (Suc i) sender_index messages p)"

definition client_fds :: "client_info list \<Rightarrow> int list" where
  "client_fds cs = map (\<lambda>c. fd_get (ci_fd c)) cs"

definition respond_to_client ::
  "(int \<Rightarrow> bytes \<Rightarrow> size_t \<Rightarrow> 'w proc \<Rightarrow> ((exn + unit) \<times> 'w proc) option) \<Rightarrow>
   nat \<Rightarrow> client_info list \<Rightarrow> 'w proc \<Rightarrow> ((exn + unit) \<times> client_info list \<times> 'w proc) option" where
  "respond_to_client wr sender_index cs p =
     (case vec_get cs sender_index of
        Inl e \<Rightarrow> Some (Inl e, cs, p)
      | Inr c \<Rightarrow>
     (case buf_consume_full_nl (ci_buffer c) of
        Inl e \<Rightarrow> Some (Inl e, cs, p)
      | Inr (messages, b) \<Rightarrow>
     (let cs' = cs[sender_index := c\<lparr>ci_buffer := b\<rparr>] in
        if messages = [] then Some (Inr (), cs', p)
        else
          (let messages' = ''['' @ ci_name c @ '']: '' @ messages in
          (case broadcast wr (client_fds cs') 0 sender_index messages' p of
             None \<Rightarrow> None
           | Some (r, p') \<Rightarrow> Some (r, cs', p'))))))"

definition get_client_name :: "nat \<Rightarrow> client_info list \<Rightarrow> exn + client_info list" where
  "get_client_name sender_index cs =
     (case vec_get cs sender_index of
        Inl e \<Rightarrow> Inl e
      | Inr c \<Rightarrow>
     (case buf_consume_once_nl (ci_buffer c) of
        Inl e \<Rightarrow> Inl e
      | Inr (str, b) \<Rightarrow>
          if str = [] then Inr (cs[sender_index := c\<lparr>ci_buffer := b\<rparr>])
          else Inr (cs[sender_index :=
                      c\<lparr>ci_buffer := b, ci_name := butlast str, ci_connected := True\<rparr>])))"

section \<open>Removing a client\<close>

text \<open>
  The four statements the event loop repeats when a client is gone:
  \<^verbatim>\<open>clients[i].fd = std::move(clients.back().fd); clients.pop_back();
  pollfds[i + 2] = pollfds.back(); pollfds.pop_back();\<close> Only the descriptor is moved into
  slot \<open>i\<close>. When \<open>i\<close> is the last index the assignment is one to itself, and
  \<^verbatim>\<open>pop_back\<close> closes the descriptor.
\<close>

definition drop_client ::
  "'w os \<Rightarrow> nat \<Rightarrow> client_info list \<Rightarrow> pollfd list \<Rightarrow> 'w proc \<Rightarrow>
   (exn + client_info list \<times> pollfd list) \<times> 'w proc" where
  "drop_client os i cs pfs p =
     (case vec_get cs i of
        Inl e \<Rightarrow> (Inl e, p)
      | Inr c \<Rightarrow>
     (let k = length cs - 1; back = cs ! k in
     (case fd_move_assign os (i = k) (ci_fd c) (ci_fd back) p of ((f, f'), p1) \<Rightarrow>
     (let cs1 = cs[k := back\<lparr>ci_fd := f'\<rparr>, i := c\<lparr>ci_fd := f\<rparr>];
          p2 = fd_destroy os (ci_fd (cs1 ! k)) p1 in
     (case vec_get pfs (i + 2) of
        Inl e \<Rightarrow> (Inl e, p2)
      | Inr _ \<Rightarrow> (Inr (butlast cs1, butlast (pfs[i + 2 := last pfs])), p2))))))"

end
