(* ===== verification/Server_Loop.thy ===== *)
theory Server_Loop
  imports Chat_Server
begin

unbundle bit_operations_syntax

text \<open>
  \<^verbatim>\<open>ChatServer::event_loop\<close> (\<^verbatim>\<open>src/chat_server.cpp\<close>): one
  \<^verbatim>\<open>poll\<close>, then the listening socket, the signal descriptor and the clients, in
  that order. The state of the client loop is the index \<^verbatim>\<open>i\<close>, the count
  \<^verbatim>\<open>nready\<close>, the vectors \<^verbatim>\<open>clients\<close> and \<^verbatim>\<open>pollfds\<close>
  and the process. \<open>None\<close> is a call that never returns.
\<close>

section \<open>One client\<close>

text \<open>
  The branch for a readable client. The bytes go to \<^verbatim>\<open>buffer.data()\<close>, the start of
  the array, with room for \<^verbatim>\<open>free_space()\<close>. The result is the next index.
\<close>

definition client_readable ::
  "'w os \<Rightarrow> nat \<Rightarrow> client_info list \<Rightarrow> pollfd list \<Rightarrow> 'w proc \<Rightarrow>
   ((exn + nat) \<times> client_info list \<times> pollfd list \<times> 'w proc) option" where
  "client_readable os i cs pfs p =
     (case vec_get cs i of
        Inl e \<Rightarrow> Some (Inl e, cs, pfs, p)
      | Inr c \<Rightarrow>
     (case read_fd os (fd_get (ci_fd c)) (size_of_int (buf_free_space (ci_buffer c))) p of
        (Inl e, p1) \<Rightarrow> Some (Inl e, cs, pfs, p1)
      | (Inr (n, bs), p1) \<Rightarrow>
     (case buf_store 0 bs (ci_buffer c) of
        Inl e \<Rightarrow> Some (Inl e, cs, pfs, p1)
      | Inr b1 \<Rightarrow>
     (let cs1 = cs[i := c\<lparr>ci_buffer := b1\<rparr>] in
      if n < 0 then
        (if errno_of p1 = ECONNRESET then
           (case drop_client os i cs1 pfs p1 of
              (Inl e, p2) \<Rightarrow> Some (Inl e, cs1, pfs, p2)
            | (Inr (cs2, pfs2), p2) \<Rightarrow> Some (Inr i, cs2, pfs2, p2))
         else Some (Inl (RuntimeError ''failed to read from client''), cs1, pfs, p1))
      else if n = 0 then
        (case drop_client os i cs1 pfs p1 of
           (Inl e, p2) \<Rightarrow> Some (Inl e, cs1, pfs, p2)
         | (Inr (cs2, pfs2), p2) \<Rightarrow> Some (Inr i, cs2, pfs2, p2))
      else
        (case buf_increase_size n b1 of
           Inl e \<Rightarrow> Some (Inl e, cs1, pfs, p1)
         | Inr b2 \<Rightarrow>
        (let cs2 = cs[i := c\<lparr>ci_buffer := b2\<rparr>] in
        (case (if \<not> ci_connected c then get_client_name i cs2 else Inr cs2) of
           Inl e \<Rightarrow> Some (Inl e, cs2, pfs, p1)
         | Inr cs3 \<Rightarrow>
        (case vec_get cs3 i of
           Inl e \<Rightarrow> Some (Inl e, cs3, pfs, p1)
         | Inr c3 \<Rightarrow>
        (case (if ci_connected c3 then respond_to_client (write_full os) i cs3 p1
               else Some (Inr (), cs3, p1)) of
           None \<Rightarrow> None
         | Some (Inl e, cs4, p2) \<Rightarrow> Some (Inl e, cs4, pfs, p2)
         | Some (Inr _, cs4, p2) \<Rightarrow> Some (Inr (i + 1), cs4, pfs, p2))))))))))"

text \<open>
  One turn of the client loop: whether to leave it (\<^verbatim>\<open>break\<close>), the next index and
  the next \<^verbatim>\<open>nready\<close>.
\<close>

definition client_turn ::
  "'w os \<Rightarrow> nat \<Rightarrow> int \<Rightarrow> client_info list \<Rightarrow> pollfd list \<Rightarrow> 'w proc \<Rightarrow>
   ((exn + bool \<times> nat \<times> int) \<times> client_info list \<times> pollfd list \<times> 'w proc) option" where
  "client_turn os i nready cs pfs p =
     (case vec_get pfs (i + 2) of
        Inl e \<Rightarrow> Some (Inl e, cs, pfs, p)
      | Inr pf \<Rightarrow>
     (let revents = pfd_revents pf in
      if revents AND (POLLERR OR POLLHUP OR POLLNVAL) \<noteq> 0 then
        (case drop_client os i cs pfs p of
           (Inl e, p1) \<Rightarrow> Some (Inl e, cs, pfs, p1)
         | (Inr (cs1, pfs1), p1) \<Rightarrow>
             Some (Inr (nready - 1 \<le> 0, i, nready - 1), cs1, pfs1, p1))
      else if revents AND POLLIN \<noteq> 0 then
        (case client_readable os i cs pfs p of
           None \<Rightarrow> None
         | Some (Inl e, cs1, pfs1, p1) \<Rightarrow> Some (Inl e, cs1, pfs1, p1)
         | Some (Inr i', cs1, pfs1, p1) \<Rightarrow>
             Some (Inr (nready - 1 \<le> 0, i', nready - 1), cs1, pfs1, p1))
      else Some (Inr (False, i + 1, nready), cs, pfs, p)))"

section \<open>The client loop ends\<close>

lemma drop_client_length:
  "drop_client os i cs pfs p = (Inr (cs', pfs'), q) \<Longrightarrow>
   i < length cs \<and> length cs' = length cs - 1 \<and> length pfs' = length pfs - 1"
  by (auto simp: drop_client_def vec_get_def Let_def split: prod.splits if_splits sum.splits)

lemma respond_length: "respond_to_client wr i cs p = Some (r, cs', q) \<Longrightarrow> length cs' = length cs"
  by (auto simp: respond_to_client_def Let_def split: sum.splits option.splits if_splits)

lemma get_client_name_length: "get_client_name i cs = Inr cs' \<Longrightarrow> length cs' = length cs"
  by (auto simp: get_client_name_def split: sum.splits if_splits)

lemma client_readable_progress:
  assumes "client_readable os i cs pfs p = Some (Inr i', cs', pfs', q)"
  shows "i < length cs \<and> (i' = i + 1 \<and> length cs' = length cs \<and> pfs' = pfs
    \<or> i' = i \<and> length cs' = length cs - 1 \<and> length pfs' = length pfs - 1)"
  using assms unfolding client_readable_def Let_def
  by (auto split: sum.splits prod.splits option.splits if_splits simp: vec_get_Inr
      dest!: drop_client_length respond_length get_client_name_length)

lemma client_turn_progress:
  assumes "client_turn os i nready cs pfs p = Some (Inr (stop, i', nready'), cs', pfs', q)"
    and "i < length cs"
  shows "length cs' - i' < length cs - i"
  using assms unfolding client_turn_def Let_def
  by (auto split: sum.splits prod.splits option.splits if_splits
      dest!: drop_client_length client_readable_progress)

function client_loop ::
  "'w os \<Rightarrow> nat \<Rightarrow> int \<Rightarrow> client_info list \<Rightarrow> pollfd list \<Rightarrow> 'w proc \<Rightarrow>
   ((exn + nat \<times> int) \<times> client_info list \<times> pollfd list \<times> 'w proc) option" where
  "client_loop os i nready cs pfs p =
     (if i < length cs then
        (case client_turn os i nready cs pfs p of
           None \<Rightarrow> None
         | Some (Inl e, cs1, pfs1, p1) \<Rightarrow> Some (Inl e, cs1, pfs1, p1)
         | Some (Inr (stop, i', nready'), cs1, pfs1, p1) \<Rightarrow>
             if stop then Some (Inr (i', nready'), cs1, pfs1, p1)
             else client_loop os i' nready' cs1 pfs1 p1)
      else Some (Inr (i, nready), cs, pfs, p))"
  by pat_completeness auto
termination
  by (relation "measure (\<lambda>(os, i, nready, cs, pfs, p). length cs - i)")
    (auto dest: client_turn_progress)

declare client_loop.simps [simp del]

section \<open>One iteration\<close>

definition poll_set :: "server \<Rightarrow> pollfd list" where
  "poll_set sv =
     [\<lparr>pfd_fd = fd_get (sv_listenfd sv), pfd_events = POLLIN, pfd_revents = 0\<rparr>,
      \<lparr>pfd_fd = fd_get (sv_signalfd sv), pfd_events = POLLIN, pfd_revents = 0\<rparr>]
     @ map (\<lambda>c. \<lparr>pfd_fd = fd_get (ci_fd c), pfd_events = POLLIN, pfd_revents = 0\<rparr>) (sv_clients sv)"

text \<open>
  A new connection: refused by closing it when the server is full, else appended to
  \<^verbatim>\<open>clients\<close> and \<^verbatim>\<open>pollfds\<close>.
\<close>

definition accept_client ::
  "'w os \<Rightarrow> server \<Rightarrow> pollfd list \<Rightarrow> 'w proc \<Rightarrow>
   ((exn + unit) \<times> server \<times> pollfd list \<times> 'w proc) option" where
  "accept_client os sv pfs p =
     (case accept_socket os (fd_get (sv_listenfd sv)) p of
        None \<Rightarrow> None
      | Some (Inl e, p1) \<Rightarrow> Some (Inl e, sv, pfs, p1)
      | Some (Inr connfd, p1) \<Rightarrow>
          if int (length (sv_clients sv)) \<ge> sv_max_clients sv then
            (case close_fd os connfd p1 of
               (Inl e, p2) \<Rightarrow> Some (Inl e, sv, pfs, p2)
             | (Inr _, p2) \<Rightarrow> Some (Inr (), sv, pfs, p2))
          else
            (case client_info_move (os_mem os (kern p1)) (client_info_init connfd ''NoName'') of
               Inl e \<Rightarrow> Some (Inl e, sv, pfs, p1)
             | Inr (c, f') \<Rightarrow>
                 Some (Inr (), sv\<lparr>sv_clients := sv_clients sv @ [c]\<rparr>,
                   pfs @ [\<lparr>pfd_fd = connfd, pfd_events = POLLIN, pfd_revents = 0\<rparr>],
                   fd_destroy os f' p1)))"

definition handle_signal :: "'w os \<Rightarrow> server \<Rightarrow> 'w proc \<Rightarrow> (exn + flow) \<times> server \<times> 'w proc" where
  "handle_signal os sv p =
     (case read_fd os (fd_get (sv_signalfd sv)) sizeof_siginfo p of
        (Inl e, p1) \<Rightarrow> (Inl e, sv, p1)
      | (Inr (n, _), p1) \<Rightarrow>
          if n \<noteq> int sizeof_siginfo then (Inl (RuntimeError ''failed to read signalfd''), sv, p1)
          else (case server_stop os sv p1 of (sv1, p2) \<Rightarrow> (Inr Break, sv1, p2)))"

definition handle_clients ::
  "'w os \<Rightarrow> server \<Rightarrow> int \<Rightarrow> pollfd list \<Rightarrow> 'w proc \<Rightarrow> ((exn + flow) \<times> server \<times> 'w proc) option" where
  "handle_clients os sv nready pfs p =
     (case client_loop os 0 nready (sv_clients sv) pfs p of
        None \<Rightarrow> None
      | Some (Inl e, cs, _, p1) \<Rightarrow> Some (Inl e, sv\<lparr>sv_clients := cs\<rparr>, p1)
      | Some (Inr _, cs, _, p1) \<Rightarrow> Some (Inr Continue, sv\<lparr>sv_clients := cs\<rparr>, p1))"

text \<open>After \<^verbatim>\<open>poll\<close> and the listening socket: signals first, then the clients.\<close>

definition handle_ready ::
  "'w os \<Rightarrow> server \<Rightarrow> int \<Rightarrow> pollfd list \<Rightarrow> 'w proc \<Rightarrow> ((exn + flow) \<times> server \<times> 'w proc) option" where
  "handle_ready os sv nready pfs p =
     (case vec_get pfs 1 of
        Inl e \<Rightarrow> Some (Inl e, sv, p)
      | Inr pf \<Rightarrow>
          if pfd_revents pf AND POLLIN \<noteq> 0 then Some (handle_signal os sv p)
          else handle_clients os sv nready pfs p)"

definition server_iter ::
  "'w os \<Rightarrow> server \<Rightarrow> 'w proc \<Rightarrow> ((exn + flow) \<times> server \<times> 'w proc) option" where
  "server_iter os sv p =
     (case c_poll os (poll_set sv) (- 1) p of ((nready, pfs), p1) \<Rightarrow>
        if nready < 0 then
          (if errno_of p1 = EINTR then Some (Inr Continue, sv, p1)
           else Some (Inl (RuntimeError ''poll failed''), sv, p1))
        else
          (case vec_get pfs 0 of
             Inl e \<Rightarrow> Some (Inl e, sv, p1)
           | Inr pf \<Rightarrow>
               if pfd_revents pf AND POLLIN \<noteq> 0 then
                 (case accept_client os sv pfs p1 of
                    None \<Rightarrow> None
                  | Some (Inl e, sv1, _, p2) \<Rightarrow> Some (Inl e, sv1, p2)
                  | Some (Inr _, sv1, pfs1, p2) \<Rightarrow>
                      if nready - 1 \<le> 0 then Some (Inr Continue, sv1, p2)
                      else handle_ready os sv1 (nready - 1) pfs1 p2)
               else handle_ready os sv nready pfs p1))"

section \<open>The event loop\<close>

partial_function (option) server_loop ::
  "'w os \<Rightarrow> server \<Rightarrow> 'w proc \<Rightarrow> ((exn + unit) \<times> server \<times> 'w proc) option" where
  "server_loop os sv p =
     (if \<not> sv_running sv then Some (Inr (), sv, p)
      else
        (case server_iter os sv p of
           None \<Rightarrow> None
         | Some (r, sv1, p1) \<Rightarrow>
             (case r of
                Inl e \<Rightarrow> Some (Inl e, sv1, p1)
              | Inr Break \<Rightarrow> Some (Inr (), sv1, p1)
              | Inr Continue \<Rightarrow> server_loop os sv1 p1)))"

declare server_loop.simps [code]

definition server_event_loop ::
  "'w os \<Rightarrow> server \<Rightarrow> 'w proc \<Rightarrow> ((exn + unit) \<times> server \<times> 'w proc) option" where
  "server_event_loop os sv p =
     (if \<not> sv_running sv then Some (Inl (LogicError ''server is not running''), sv, p)
      else server_loop os sv p)"

end
