(* ===== verification/Server_Ops_Correct.thy ===== *)
theory Server_Ops_Correct
  imports Server_Loop
begin

text \<open>
  What the server's operations do to well-formed clients: exact results of the removal of a
  client, of the name handshake and of the broadcast, with what the broadcast sends to whom.
\<close>

section \<open>Well-formed clients\<close>

definition client_wf :: "client_info \<Rightarrow> bool" where
  "client_wf c \<longleftrightarrow> buf_wf (ci_buffer c) \<and> fd_get (ci_fd c) \<ge> 0 \<and> length (ci_name c) < 1024"

definition clients_wf :: "client_info list \<Rightarrow> bool" where
  "clients_wf cs \<longleftrightarrow> (\<forall>c \<in> set cs. client_wf c)"

lemma clients_wf_nth [wf_intros]: "clients_wf cs \<Longrightarrow> i < length cs \<Longrightarrow> client_wf (cs ! i)"
  by (simp add: clients_wf_def)

lemma clients_wf_update [wf_intros]: "clients_wf cs \<Longrightarrow> client_wf c \<Longrightarrow> clients_wf (cs[i := c])"
  using set_update_subset_insert [of cs i c] by (auto simp: clients_wf_def)

lemma clients_wf_butlast [wf_intros]: "clients_wf cs \<Longrightarrow> clients_wf (butlast cs)"
  by (auto simp: clients_wf_def dest: in_set_butlastD)

lemma clients_wf_append [simp]: "clients_wf (cs @ ds) \<longleftrightarrow> clients_wf cs \<and> clients_wf ds"
  by (auto simp: clients_wf_def)

text \<open>Entry \<open>j + 2\<close> of \<^verbatim>\<open>pollfds\<close> belongs to client \<open>j\<close>.\<close>

definition aligned :: "client_info list \<Rightarrow> pollfd list \<Rightarrow> bool" where
  "aligned cs pfs \<longleftrightarrow> length pfs = length cs + 2 \<and> map pfd_fd (drop 2 pfs) = client_fds cs"

lemma client_fds_update_same [simp]:
  "i < length cs \<Longrightarrow> fd_get (ci_fd c) = fd_get (ci_fd (cs ! i)) \<Longrightarrow> client_fds (cs[i := c]) = client_fds cs"
  by (metis (mono_tags, lifting) client_fds_def list_update_id map_update)

lemma length_client_fds [simp]: "length (client_fds cs) = length cs"
  by (simp add: client_fds_def)

section \<open>Removing a client\<close>

text \<open>
  The removed client's descriptor is closed, once. In its slot stands afterwards the last
  client's descriptor, with everything else the removed client's.
\<close>

definition after_drop :: "nat \<Rightarrow> client_info list \<Rightarrow> client_info list" where
  "after_drop i cs = (butlast cs)[i := (cs ! i)\<lparr>ci_fd := ci_fd (last cs)\<rparr>]"

lemma drop_client_ok:
  assumes "i < length cs" and "length pfs = length cs + 2"
  shows "drop_client os i cs pfs p =
    (Inr (after_drop i cs, (butlast pfs)[i + 2 := last pfs]), fd_destroy os (ci_fd (cs ! i)) p)"
proof (cases "i = length cs - 1")
  case True
  with assms show ?thesis
    by (auto simp: drop_client_def after_drop_def fd_move_assign_def Let_def butlast_list_update
        list_update_beyond)
next
  case False
  with assms have "i < length cs - 1" by simp
  moreover from this have "cs \<noteq> []" by auto
  ultimately show ?thesis
    using assms
    by (auto simp: drop_client_def after_drop_def fd_move_assign_def fd_release_def fd_destroy_def
        fd_reset_def Let_def butlast_list_update last_conv_nth)
qed

lemma length_after_drop [simp]: "length (after_drop i cs) = length cs - 1"
  by (simp add: after_drop_def)

lemma after_drop_wf [wf_intros]: "clients_wf cs \<Longrightarrow> i < length cs \<Longrightarrow> clients_wf (after_drop i cs)"
proof -
  assume wf: "clients_wf cs" and i: "i < length cs"
  from i have "cs \<noteq> []" by auto
  with i have "last cs \<in> set cs" and "cs ! i \<in> set cs" by simp_all
  with wf have "client_wf ((cs ! i)\<lparr>ci_fd := ci_fd (last cs)\<rparr>)"
    by (auto simp: clients_wf_def client_wf_def)
  with wf show ?thesis
    unfolding after_drop_def by (intro clients_wf_update clients_wf_butlast)
qed

lemma client_fds_after_drop:
  "i < length cs \<Longrightarrow> client_fds (after_drop i cs) = (butlast (client_fds cs))[i := last (client_fds cs)]"
  by (cases cs rule: rev_cases)
    (auto simp: after_drop_def client_fds_def map_update map_butlast last_map)

lemma mset_swap_remove:
  "i < length xs \<Longrightarrow> mset ((butlast xs)[i := last xs]) + {#xs ! i#} = mset xs"
  by (cases xs rule: rev_cases)
    (auto simp: mset_update nth_append list_update_beyond less_Suc_eq)

lemma aligned_drop:
  assumes "aligned cs pfs" and "i < length cs"
  shows "aligned (after_drop i cs) ((butlast pfs)[i + 2 := last pfs])"
proof -
  have len: "length pfs = length cs + 2" and fds: "map pfd_fd (drop 2 pfs) = client_fds cs"
    using assms(1) by (simp_all add: aligned_def)
  have "last (drop 2 pfs) = last pfs"
    using len assms(2) by (intro last_drop) auto
  then have "drop 2 ((butlast pfs)[i + 2 := last pfs]) = (butlast (drop 2 pfs))[i := last (drop 2 pfs)]"
    using len assms(2) by (simp add: drop_update_swap butlast_drop)
  moreover have "drop 2 pfs \<noteq> []"
    using len assms(2) by auto
  then have "pfd_fd (last (drop 2 pfs)) = last (client_fds cs)"
    by (simp flip: fds add: last_map)
  ultimately show ?thesis
    using len assms(2) fds
    by (auto simp: aligned_def client_fds_after_drop map_update map_butlast)
qed

section \<open>The name handshake\<close>

lemma get_client_name_line:
  assumes "i < length cs" and "buf_wf (ci_buffer (cs ! i))"
    and "newline \<in> set (content (ci_buffer (cs ! i)))"
  shows "\<exists>b. buf_wf b \<and> content b = after_line newline (content (ci_buffer (cs ! i)))
    \<and> get_client_name i cs = Inr (cs[i := (cs ! i)\<lparr>ci_buffer := b,
        ci_name := butlast (first_line newline (content (ci_buffer (cs ! i)))), ci_connected := True\<rparr>])"
proof -
  obtain b where "buf_consume_once newline (ci_buffer (cs ! i))
      = Inr (first_line newline (content (ci_buffer (cs ! i))), b)"
    and "buf_wf b" and "content b = after_line newline (content (ci_buffer (cs ! i)))"
    using buf_consume_once_some [OF assms(2,3)] by blast
  then show ?thesis
    using assms(1) first_line_nonempty [OF assms(3)]
    by (intro exI [of _ b]) (simp add: get_client_name_def buf_consume_once_nl_def)
qed

lemma get_client_name_no_line:
  assumes "i < length cs" and "buf_wf (ci_buffer (cs ! i))"
    and "newline \<notin> set (content (ci_buffer (cs ! i)))"
  shows "get_client_name i cs = Inr cs"
  using assms(1) buf_consume_once_none [OF assms(2,3)]
  by (simp add: get_client_name_def buf_consume_once_nl_def)

section \<open>The broadcast\<close>

lemma respond_to_client_ok:
  assumes "i < length cs" and "buf_wf (ci_buffer (cs ! i))"
  shows "\<exists>b. buf_wf b \<and> content b = rest newline (content (ci_buffer (cs ! i)))
    \<and> respond_to_client wr i cs p =
      (if newline \<notin> set (content (ci_buffer (cs ! i)))
       then Some (Inr (), cs[i := (cs ! i)\<lparr>ci_buffer := b\<rparr>], p)
       else
         (case broadcast wr (client_fds cs) 0 i
             (''['' @ ci_name (cs ! i) @ '']: '' @ complete newline (content (ci_buffer (cs ! i)))) p of
            None \<Rightarrow> None
          | Some (r, p') \<Rightarrow> Some (r, cs[i := (cs ! i)\<lparr>ci_buffer := b\<rparr>], p')))"
proof -
  obtain b where "buf_consume_full newline (ci_buffer (cs ! i))
      = Inr (complete newline (content (ci_buffer (cs ! i))), b)"
    and "buf_wf b" and "content b = rest newline (content (ci_buffer (cs ! i)))"
    using buf_consume_full_content [OF assms(2)] by blast
  then show ?thesis
    using assms(1)
    by (intro exI [of _ b]) (simp add: respond_to_client_def buf_consume_full_nl_def Let_def complete_delim_iff)
qed

text \<open>Who receives: every index but the sender's.\<close>

definition receivers :: "int list \<Rightarrow> nat \<Rightarrow> nat \<Rightarrow> int list" where
  "receivers fds i sender = map fst (filter (\<lambda>(fd, j). j \<noteq> sender) (zip fds [i..<i + length fds]))"

lemma receivers_simps [simp]:
  "receivers [] i sender = []"
  "receivers (fd # fds) i sender = (if i \<noteq> sender then [fd] else []) @ receivers fds (Suc i) sender"
  by (simp_all add: receivers_def upt_conv_Cons del: upt_Suc)

lemma receivers_subset: "set (receivers fds i sender) \<subseteq> set fds"
  by (induction fds arbitrary: i) auto

lemma set_receivers:
  "distinct fds \<Longrightarrow> fd \<in> set (receivers fds i sender) \<longleftrightarrow>
   (\<exists>j < length fds. fds ! j = fd \<and> i + j \<noteq> sender)"
proof (induction fds arbitrary: i)
  case (Cons f fds)
  have "(\<exists>j < length (f # fds). (f # fds) ! j = fd \<and> i + j \<noteq> sender) \<longleftrightarrow>
      (f = fd \<and> i \<noteq> sender) \<or> (\<exists>j < length fds. fds ! j = fd \<and> Suc i + j \<noteq> sender)"
    by (auto simp: less_Suc_eq_0_disj nth_Cons')
  with Cons show ?case by auto
qed simp

text \<open>What a sequence of writes to several descriptors adds to the trace.\<close>

definition quiet_but_writes :: "'w proc \<Rightarrow> 'w proc \<Rightarrow> bool" where
  "quiet_but_writes p q \<longleftrightarrow>
     (\<forall>fd. received_on fd (trace q) = received_on fd (trace p)) \<and> printed (trace q) = printed (trace p)
     \<and> same_fds p q"

lemma quiet_refl [simp]: "quiet_but_writes p p"
  by (simp add: quiet_but_writes_def same_fds_def)

lemma quiet_trans: "quiet_but_writes p q \<Longrightarrow> quiet_but_writes q r \<Longrightarrow> quiet_but_writes p r"
  by (simp add: quiet_but_writes_def same_fds_def)

lemma wrote_quiet: "wrote fd bs p q \<Longrightarrow> quiet_but_writes p q"
  by (simp add: quiet_but_writes_def same_fds_def wrote_frame)

context block_writer begin

lemma broadcast_sends:
  assumes lawful and "length msg < 2 ^ 63" and "distinct fds"
    and "broadcast wr fds i sender msg p = Some (Inr u, q)"
  shows "(\<forall>fd. sent_on fd (trace q) =
      sent_on fd (trace p) @ (if fd \<in> set (receivers fds i sender) then msg else [])) \<and> quiet_but_writes p q"
  using assms(3,4)
proof (induction fds arbitrary: i p)
  case Nil
  then show ?case by simp
next
  case (Cons f fds)
  have n: "unat (of_nat (length msg) :: size_t) = length msg"
    using assms(2) by (intro unat_size_t) simp
  show ?case
  proof (cases "i = sender")
    case True
    with Cons show ?thesis by simp
  next
    case False
    with Cons.prems(2) obtain v p' where w: "wr f msg (of_nat (length msg)) p = Some (Inr v, p')"
      and b: "broadcast wr fds (Suc i) sender msg p' = Some (Inr u, q)"
      by (auto split: option.splits sum.splits)
    have wrote: "wrote f msg p p'"
      using wr_ok [OF assms(1) _ _ w] n assms(2) by simp
    note ih = Cons.IH [OF _ b]
    have "f \<notin> set (receivers fds (Suc i) sender)"
      using Cons.prems(1) receivers_subset by fastforce
    moreover have "sent_on fd (trace p') = sent_on fd (trace p) @ (if fd = f then msg else [])" for fd
      using wrote_sent [OF wrote] wrote_elsewhere [OF wrote, of fd] by auto
    ultimately show ?thesis
      using ih Cons.prems(1) False quiet_trans [OF wrote_quiet [OF wrote]] by auto
  qed
qed

text \<open>
  When a write fails the loop is left: the clients before the failing one have the whole
  message, that one a part of it, the ones behind it nothing.
\<close>

lemma broadcast_cut:
  assumes lawful and "length msg < 2 ^ 63" and "distinct fds"
    and "broadcast wr fds i sender msg p = Some (Inl e, q)"
  shows "\<exists>k < length fds. i + k \<noteq> sender \<and> (\<exists>c. e = SystemError c ''write() failed'') \<and>
    (\<exists>n < length msg. \<forall>fd. sent_on fd (trace q) = sent_on fd (trace p) @
      (if fd \<in> set (receivers (take k fds) i sender) then msg
       else if fd = fds ! k then take n msg else [])) \<and> quiet_but_writes p q"
  using assms(3,4)
proof (induction fds arbitrary: i p)
  case Nil
  then show ?case by simp
next
  case (Cons f fds)
  have n: "unat (of_nat (length msg) :: size_t) = length msg"
    using assms(2) by (intro unat_size_t) simp
  have later: "\<exists>k < length (f # fds). i + k \<noteq> sender \<and> (\<exists>c. e = SystemError c ''write() failed'') \<and>
      (\<exists>n < length msg. \<forall>fd. sent_on fd (trace q) = sent_on fd (trace p) @
        (if fd \<in> set (receivers (take k (f # fds)) i sender) then msg
         else if fd = (f # fds) ! k then take n msg else [])) \<and> quiet_but_writes p q"
    if b: "broadcast wr fds (Suc i) sender msg p' = Some (Inl e, q)"
      and first: "\<forall>fd. sent_on fd (trace p') = sent_on fd (trace p) @ (if fd = f \<and> i \<noteq> sender then msg else [])"
      and quiet: "quiet_but_writes p p'" for p'
  proof -
    obtain k n where k: "k < length fds" "Suc i + k \<noteq> sender" "\<exists>c. e = SystemError c ''write() failed''"
      "n < length msg" "quiet_but_writes p' q"
      and sent: "\<forall>fd. sent_on fd (trace q) = sent_on fd (trace p') @
        (if fd \<in> set (receivers (take k fds) (Suc i) sender) then msg
         else if fd = fds ! k then take n msg else [])"
      using Cons.IH [OF _ b] Cons.prems(1) by auto
    have "f \<notin> set (receivers (take k fds) (Suc i) sender)" and "f \<noteq> fds ! k"
      using Cons.prems(1) k(1) receivers_subset [of "take k fds"] by (auto dest: in_set_takeD)
    then have "\<forall>fd. sent_on fd (trace q) = sent_on fd (trace p) @
        (if fd \<in> set (receivers (take (Suc k) (f # fds)) i sender) then msg
         else if fd = (f # fds) ! Suc k then take n msg else [])"
      using sent first by auto
    with k quiet_trans [OF quiet k(5)] show ?thesis
      by (intro exI [of _ "Suc k"]) auto
  qed
  show ?case
  proof (cases "i = sender")
    case True
    with Cons.prems(2) later [of p] show ?thesis by simp
  next
    case False
    show ?thesis
    proof (cases "wr f msg (of_nat (length msg)) p")
      case None
      with False Cons.prems(2) show ?thesis by simp
    next
      case (Some res)
      obtain r p' where res: "res = (r, p')" by fastforce
      show ?thesis
      proof (cases r)
        case (Inl e')
        with Some res False Cons.prems(2) have w: "wr f msg (of_nat (length msg)) p = Some (Inl e, q)"
          by simp
        obtain m where m: "m < length msg" "wrote f (take m msg) p q" "\<exists>c. e = SystemError c ''write() failed''"
          using wr_cut [OF assms(1) _ _ w] n assms(2) by auto
        then show ?thesis
          using False wrote_sent [OF m(2)] wrote_elsewhere [OF m(2)] wrote_quiet [OF m(2)]
          by (intro exI [of _ 0]) auto
      next
        case (Inr v)
        with Some res have w: "wr f msg (of_nat (length msg)) p = Some (Inr v, p')" by simp
        have wrote: "wrote f msg p p'"
          using wr_ok [OF assms(1) _ _ w] n assms(2) by simp
        from w Cons.prems(2) False have "broadcast wr fds (Suc i) sender msg p' = Some (Inl e, q)"
          by simp
        from later [OF this] show ?thesis
          using False wrote_sent [OF wrote] wrote_elsewhere [OF wrote] wrote_quiet [OF wrote] by simp
      qed
    qed
  qed
qed

lemma broadcast_returns:
  assumes prompt and "length msg < 2 ^ 64"
  shows "broadcast wr fds i sender msg p \<noteq> None"
proof (induction fds arbitrary: i p)
  case (Cons f fds)
  have "unat (of_nat (length msg) :: size_t) = length msg"
    using assms(2) by (intro unat_size_t) simp
  then have "wr f msg (of_nat (length msg)) p \<noteq> None"
    using wr_returns [OF assms(1)] by simp
  with Cons show ?case by (auto split: option.splits sum.splits)
qed simp

end

end
