(* ===== verification/Server_Turn_Correct.thy ===== *)
theory Server_Turn_Correct
  imports Server_Ops_Correct
begin

unbundle bit_operations_syntax

text \<open>
  One turn of the server's client loop. The branch for a readable client refines a small
  protocol machine, \<open>absorb\<close>: what a client's session looks like after some bytes, and what is
  broadcast. The turn and the whole loop keep the invariants of the vectors and touch no
  element outside them.
\<close>

section \<open>The session as a protocol machine\<close>

text \<open>
  A session is whether the name is known, the name, and the bytes waiting. \<open>absorb\<close> gives the
  session after the waiting bytes were looked at, and the message to broadcast, empty if none.
\<close>

fun absorb :: "bool \<times> bytes \<times> bytes \<Rightarrow> (bool \<times> bytes \<times> bytes) \<times> bytes" where
  "absorb (connected, name, waiting) =
     (if \<not> connected \<and> newline \<notin> set waiting then ((False, name, waiting), [])
      else
        (let name' = (if connected then name else butlast (first_line newline waiting));
             waiting' = (if connected then waiting else after_line newline waiting)
         in if newline \<in> set waiting'
            then ((True, name', rest newline waiting'), ''['' @ name' @ '']: '' @ complete newline waiting')
            else ((True, name', waiting'), [])))"

definition session :: "client_info \<Rightarrow> bool \<times> bytes \<times> bytes" where
  "session c = (ci_connected c, ci_name c, content (ci_buffer c))"

text \<open>What the server's buffer holds after a read: the new bytes lie over the old ones.\<close>

definition recv_at_start :: "buffer \<Rightarrow> bytes \<Rightarrow> buffer" where
  "recv_at_start b bs =
     b\<lparr>bf_mem := bs @ drop (length bs) (bf_mem b), bf_size := bf_size b + int (length bs)\<rparr>"

lemma recv_at_start_wf [wf_intros]:
  "buf_wf b \<Longrightarrow> length (content b) + length bs \<le> 1024 \<Longrightarrow> buf_wf (recv_at_start b bs)"
  by (elim buf_wfE) (auto simp: recv_at_start_def buf_wf_def content_def)

lemma content_recv_at_start [buffer_simps]:
  assumes "buf_wf b"
  shows "content (recv_at_start b bs) = bs @ take (length (content b)) (drop (length bs) (bf_mem b))"
  using assms by (elim buf_wfE) (simp add: recv_at_start_def content_def nat_int_add)

lemma content_recv_empty: "buf_wf b \<Longrightarrow> content b = [] \<Longrightarrow> content (recv_at_start b bs) = bs"
  by (simp add: content_recv_at_start)

lemma recv_at_start_code:
  assumes "buf_wf b" and "length (content b) + length bs \<le> 1024"
  shows "\<exists>b1. buf_store 0 bs b = Inr b1 \<and> buf_increase_size (int (length bs)) b1 = Inr (recv_at_start b bs)"
proof -
  have "buf_store 0 bs b = Inr (b\<lparr>bf_mem := bs @ drop (length bs) (bf_mem b)\<rparr>)"
    using assms buf_store_ok [of b 0 bs] by simp
  moreover have "buf_increase_size (int (length bs)) (b\<lparr>bf_mem := bs @ drop (length bs) (bf_mem b)\<rparr>)
      = Inr (recv_at_start b bs)"
    using assms
    by (auto elim!: buf_wfE simp: buf_increase_size_def buf_free_space_def recv_at_start_def content_def)
  ultimately show ?thesis by blast
qed

section \<open>A readable client\<close>

text \<open>The client after the read: same descriptor, and the session \<open>absorb\<close> says.\<close>

definition absorbed :: "client_info \<Rightarrow> bytes \<Rightarrow> client_info \<Rightarrow> bytes \<Rightarrow> bool" where
  "absorbed c bs c' out \<longleftrightarrow> client_wf c' \<and> ci_fd c' = ci_fd c \<and>
     absorb (ci_connected c, ci_name c, content (recv_at_start (ci_buffer c) bs)) = (session c', out)"

lemma name_step:
  assumes "client_wf c" and "i < length cs"
  shows "\<exists>c'. (if \<not> ci_connected c then get_client_name i (cs[i := c]) else Inr (cs[i := c])) = Inr (cs[i := c'])
    \<and> client_wf c' \<and> ci_fd c' = ci_fd c \<and>
    session c' =
      (if ci_connected c \<or> newline \<notin> set (content (ci_buffer c)) then session c
       else (True, butlast (first_line newline (content (ci_buffer c))), after_line newline (content (ci_buffer c))))"
proof (cases "\<not> ci_connected c \<and> newline \<in> set (content (ci_buffer c))")
  case True
  with get_client_name_line [of i "cs[i := c]"] assms
  obtain b where b: "buf_wf b" "content b = after_line newline (content (ci_buffer c))"
    and g: "get_client_name i (cs[i := c]) = Inr (cs[i := c\<lparr>ci_buffer := b,
        ci_name := butlast (first_line newline (content (ci_buffer c))), ci_connected := True\<rparr>])"
    by (auto simp: client_wf_def)
  have "length (first_line newline (content (ci_buffer c))) \<le> length (content (ci_buffer c))"
    by (metis first_after le_add1 length_append)
  also have "\<dots> \<le> 1024" using assms(1) by (intro content_bound) (simp add: client_wf_def)
  finally have "length (butlast (first_line newline (content (ci_buffer c)))) < 1024" by simp
  with True b g assms(1) show ?thesis
    by (intro exI [of _ "c\<lparr>ci_buffer := b,
        ci_name := butlast (first_line newline (content (ci_buffer c))), ci_connected := True\<rparr>"])
      (simp add: client_wf_def session_def)
next
  case False
  with assms show ?thesis
    using get_client_name_no_line [of i "cs[i := c]"]
    by (intro exI [of _ c]) (auto simp: client_wf_def)
qed

lemma respond_step:
  assumes "client_wf c" and "ci_connected c" and "i < length cs" and "fd_get (ci_fd c) = fd_get (ci_fd (cs ! i))"
  shows "\<exists>c'. client_wf c' \<and> ci_fd c' = ci_fd c
    \<and> session c' = (True, ci_name c, rest newline (content (ci_buffer c)))
    \<and> respond_to_client wr i (cs[i := c]) p =
      (if newline \<notin> set (content (ci_buffer c)) then Some (Inr (), cs[i := c'], p)
       else
         (case broadcast wr (client_fds cs) 0 i
             (''['' @ ci_name c @ '']: '' @ complete newline (content (ci_buffer c))) p of
            None \<Rightarrow> None
          | Some (r, p') \<Rightarrow> Some (r, cs[i := c'], p')))"
proof -
  have at: "cs[i := c] ! i = c" and fds: "client_fds (cs[i := c]) = client_fds cs"
    using assms(3,4) by simp_all
  obtain b where "buf_wf b" "content b = rest newline (content (ci_buffer c))"
    and "respond_to_client wr i (cs[i := c]) p =
      (if newline \<notin> set (content (ci_buffer c)) then Some (Inr (), cs[i := c\<lparr>ci_buffer := b\<rparr>], p)
       else
         (case broadcast wr (client_fds cs) 0 i
             (''['' @ ci_name c @ '']: '' @ complete newline (content (ci_buffer c))) p of
            None \<Rightarrow> None
          | Some (r, p') \<Rightarrow> Some (r, cs[i := c\<lparr>ci_buffer := b\<rparr>], p')))"
    using respond_to_client_ok [of i "cs[i := c]" wr p] assms(1,3)
    unfolding at fds client_wf_def list_update_overwrite length_list_update by blast
  with assms show ?thesis
    by (intro exI [of _ "c\<lparr>ci_buffer := b\<rparr>"]) (simp add: client_wf_def session_def)
qed

text \<open>
  The readable branch, for well-formed clients: the read fails and the exception leaves the
  event loop, or it returns no bytes and the client is removed, or the bytes go through
  \<open>absorb\<close> and the message, if there is one, is broadcast.
\<close>

definition readable_data ::
  "'w os \<Rightarrow> nat \<Rightarrow> client_info list \<Rightarrow> pollfd list \<Rightarrow> client_info \<Rightarrow> bytes \<Rightarrow> 'w proc \<Rightarrow>
   ((exn + nat) \<times> client_info list \<times> pollfd list \<times> 'w proc) option" where
  "readable_data os i cs pfs c' out p =
     (if out = [] then Some (Inr (i + 1), cs[i := c'], pfs, p)
      else
        (case broadcast (write_full os) (client_fds cs) 0 i out p of
           None \<Rightarrow> None
         | Some (Inl e, p') \<Rightarrow> Some (Inl e, cs[i := c'], pfs, p')
         | Some (Inr _, p') \<Rightarrow> Some (Inr (i + 1), cs[i := c'], pfs, p')))"

lemma read_room:
  assumes "client_wf c"
  shows "size_of_int (buf_free_space (ci_buffer c)) = 1024 - length (content (ci_buffer c))"
  using assms content_bound [of "ci_buffer c"]
  by (simp only: client_wf_def buf_free_space_content) (auto simp: size_of_int_small nat_diff_distrib)

lemma client_readable_data:
  assumes wf: "clients_wf cs" and i: "i < length cs" and lawful: "reads_bounded os"
    and read: "read_fd os (fd_get (ci_fd (cs ! i))) (1024 - length (content (ci_buffer (cs ! i)))) p
        = (Inr (k, bs), p1)"
    and data: "bs \<noteq> []"
  shows "\<exists>c' out. absorbed (cs ! i) bs c' out
    \<and> client_readable os i cs pfs p = readable_data os i cs pfs c' out p1"
proof -
  let ?c = "cs ! i"
  have cwf: "client_wf ?c" using wf i by (rule clients_wf_nth)
  then have bwf: "buf_wf (ci_buffer ?c)" by (simp add: client_wf_def)
  have k: "k = int (length bs)" using read by (rule read_fd_count)
  have fits: "length (content (ci_buffer ?c)) + length bs \<le> 1024"
    using read_fd_bounded [OF lawful read] content_bound [OF bwf] by linarith
  define c2 where "c2 = ?c\<lparr>ci_buffer := recv_at_start (ci_buffer ?c) bs\<rparr>"
  have c2: "client_wf c2" "ci_fd c2 = ci_fd ?c"
    using cwf recv_at_start_wf [OF bwf fits] by (simp_all add: c2_def client_wf_def)
  obtain b1 where b1: "buf_store 0 bs (ci_buffer ?c) = Inr b1"
    "buf_increase_size (int (length bs)) b1 = Inr (recv_at_start (ci_buffer ?c) bs)"
    using recv_at_start_code [OF bwf fits] by blast
  obtain c3 where named: "(if \<not> ci_connected c2 then get_client_name i (cs[i := c2]) else Inr (cs[i := c2]))
      = Inr (cs[i := c3])" and c3: "client_wf c3" "ci_fd c3 = ci_fd ?c"
    and ses: "session c3 =
      (if ci_connected c2 \<or> newline \<notin> set (content (ci_buffer c2)) then session c2
       else (True, butlast (first_line newline (content (ci_buffer c2))),
             after_line newline (content (ci_buffer c2))))"
    using name_step [OF c2(1) i] c2(2) by auto
  have turn: "client_readable os i cs pfs p =
      (case (if ci_connected c3 then respond_to_client (write_full os) i (cs[i := c3]) p1
             else Some (Inr (), cs[i := c3], p1)) of
         None \<Rightarrow> None
       | Some (Inl e, cs4, p2) \<Rightarrow> Some (Inl e, cs4, pfs, p2)
       | Some (Inr _, cs4, p2) \<Rightarrow> Some (Inr (i + 1), cs4, pfs, p2))"
    using i data k b1 read named [unfolded c2_def]
    by (cases "ci_connected ?c") (simp_all add: client_readable_def read_room [OF cwf] Let_def)
  show ?thesis
  proof (cases "ci_connected c3")
    case False
    with ses have "absorbed ?c bs c3 []"
      using c3 by (auto simp: absorbed_def session_def c2_def split: if_splits)
    with turn False show ?thesis
      by (intro exI [of _ c3] exI [of _ "[]"]) (simp add: readable_data_def)
  next
    case True
    obtain c' where c': "client_wf c'" "ci_fd c' = ci_fd c3"
      "session c' = (True, ci_name c3, rest newline (content (ci_buffer c3)))"
      and r: "respond_to_client (write_full os) i (cs[i := c3]) p1 =
        (if newline \<notin> set (content (ci_buffer c3)) then Some (Inr (), cs[i := c'], p1)
         else
           (case broadcast (write_full os) (client_fds cs) 0 i
               (''['' @ ci_name c3 @ '']: '' @ complete newline (content (ci_buffer c3))) p1 of
              None \<Rightarrow> None
            | Some (r, p') \<Rightarrow> Some (r, cs[i := c'], p')))"
      using respond_step [OF c3(1) True i, of "write_full os" p1] c3(2) by auto
    define out where "out = (if newline \<notin> set (content (ci_buffer c3)) then []
      else ''['' @ ci_name c3 @ '']: '' @ complete newline (content (ci_buffer c3)))"
    have "absorbed ?c bs c' out"
      using c' c3 ses True
      by (auto simp: absorbed_def session_def c2_def out_def Let_def split: if_splits)
    moreover have "client_readable os i cs pfs p = readable_data os i cs pfs c' out p1"
      using turn r True
      by (auto simp: readable_data_def out_def split: option.splits sum.splits)
    ultimately show ?thesis by blast
  qed
qed

lemma client_readable_error:
  assumes "clients_wf cs" and "i < length cs"
    and "read_fd os (fd_get (ci_fd (cs ! i))) (1024 - length (content (ci_buffer (cs ! i)))) p = (Inl e, p1)"
  shows "client_readable os i cs pfs p = Some (Inl e, cs, pfs, p1)"
  using assms read_room [OF clients_wf_nth [OF assms(1,2)]] by (simp add: client_readable_def)

lemma client_readable_eof:
  assumes wf: "clients_wf cs" and i: "i < length cs" and len: "length pfs = length cs + 2"
    and read: "read_fd os (fd_get (ci_fd (cs ! i))) (1024 - length (content (ci_buffer (cs ! i)))) p
        = (Inr (k, []), p1)"
  shows "client_readable os i cs pfs p =
    Some (Inr i, after_drop i cs, (butlast pfs)[i + 2 := last pfs], fd_destroy os (ci_fd (cs ! i)) p1)"
proof -
  have bwf: "buf_wf (ci_buffer (cs ! i))"
    using clients_wf_nth [OF wf i] by (simp add: client_wf_def)
  have "buf_store 0 [] (ci_buffer (cs ! i)) = Inr (ci_buffer (cs ! i))"
    using buf_store_ok [OF bwf, of 0 "[]"] by simp
  then show ?thesis
    using read read_fd_count [OF read] read_room [OF clients_wf_nth [OF wf i]] drop_client_ok [OF i len, of os p1] i
    by (simp add: client_readable_def Let_def)
qed

end
