(* ===== verification/Server_Invariants.thy ===== *)
theory Server_Invariants
  imports Server_Turn_Correct
begin

unbundle bit_operations_syntax

text \<open>
  The invariants of the server through the client loop, one iteration of the event loop and
  the whole life of a server: the vectors stay aligned and well formed, no access leaves
  them, every descriptor is accounted for, and no ready client is passed over.
\<close>

section \<open>The turns of the client loop\<close>

abbreviation swap_out :: "nat \<Rightarrow> pollfd list \<Rightarrow> pollfd list" where
  "swap_out i pfs \<equiv> (butlast pfs)[i + 2 := last pfs]"

lemma client_turn_cases [consumes 4, case_names removed idle read_error eof data]:
  assumes wf: "clients_wf cs" and al: "aligned cs pfs" and i: "i < length cs" and lawful: "reads_bounded os"
  obtains (removed) "pfd_revents (pfs ! (i + 2)) AND (POLLERR OR POLLHUP OR POLLNVAL) \<noteq> 0"
      and "client_turn os i nready cs pfs p =
        Some (Inr (nready - 1 \<le> 0, i, nready - 1), after_drop i cs, swap_out i pfs,
              fd_destroy os (ci_fd (cs ! i)) p)"
  | (idle) "pfd_revents (pfs ! (i + 2)) AND (POLLERR OR POLLHUP OR POLLNVAL) = 0"
      and "pfd_revents (pfs ! (i + 2)) AND POLLIN = 0"
      and "client_turn os i nready cs pfs p = Some (Inr (False, i + 1, nready), cs, pfs, p)"
  | (read_error) e p1 where "pfd_revents (pfs ! (i + 2)) AND POLLIN \<noteq> 0"
      and "read_fd os (fd_get (ci_fd (cs ! i))) (1024 - length (content (ci_buffer (cs ! i)))) p
        = (Inl (SystemError e ''read() failed''), p1)"
      and "client_turn os i nready cs pfs p = Some (Inl (SystemError e ''read() failed''), cs, pfs, p1)"
  | (eof) k p1 where "pfd_revents (pfs ! (i + 2)) AND POLLIN \<noteq> 0"
      and "read_fd os (fd_get (ci_fd (cs ! i))) (1024 - length (content (ci_buffer (cs ! i)))) p
        = (Inr (k, []), p1)"
      and "client_turn os i nready cs pfs p =
        Some (Inr (nready - 1 \<le> 0, i, nready - 1), after_drop i cs, swap_out i pfs,
              fd_destroy os (ci_fd (cs ! i)) p1)"
  | (data) k bs p1 c' out where "pfd_revents (pfs ! (i + 2)) AND POLLIN \<noteq> 0"
      and "read_fd os (fd_get (ci_fd (cs ! i))) (1024 - length (content (ci_buffer (cs ! i)))) p
        = (Inr (k, bs), p1)" and "bs \<noteq> []"
      and "absorbed (cs ! i) bs c' out"
      and "client_turn os i nready cs pfs p =
        (if out = [] then Some (Inr (nready - 1 \<le> 0, i + 1, nready - 1), cs[i := c'], pfs, p1)
         else
           (case broadcast (write_full os) (client_fds cs) 0 i out p1 of
              None \<Rightarrow> None
            | Some (Inl e, p') \<Rightarrow> Some (Inl e, cs[i := c'], pfs, p')
            | Some (Inr _, p') \<Rightarrow> Some (Inr (nready - 1 \<le> 0, i + 1, nready - 1), cs[i := c'], pfs, p')))"
proof -
  have len: "length pfs = length cs + 2" using al by (simp add: aligned_def)
  let ?rev = "pfd_revents (pfs ! (i + 2))"
  have get: "vec_get pfs (i + 2) = Inr (pfs ! (i + 2))" using len i by simp
  show ?thesis
  proof (cases "?rev AND (POLLERR OR POLLHUP OR POLLNVAL) = 0")
    case False
    with get drop_client_ok [OF i len, of os p] show ?thesis
      by (intro removed) (simp_all add: client_turn_def Let_def)
  next
    case noerr: True
    show ?thesis
    proof (cases "?rev AND POLLIN = 0")
      case True
      with get noerr show ?thesis by (intro idle) (simp_all add: client_turn_def Let_def)
    next
      case inn: False
      have turn: "client_turn os i nready cs pfs p =
        (case client_readable os i cs pfs p of
           None \<Rightarrow> None
         | Some (Inl e, cs1, pfs1, p1) \<Rightarrow> Some (Inl e, cs1, pfs1, p1)
         | Some (Inr i', cs1, pfs1, p1) \<Rightarrow> Some (Inr (nready - 1 \<le> 0, i', nready - 1), cs1, pfs1, p1))"
        using get noerr inn by (simp add: client_turn_def Let_def)
      let ?read = "read_fd os (fd_get (ci_fd (cs ! i))) (1024 - length (content (ci_buffer (cs ! i)))) p"
      show ?thesis
      proof (cases rule: read_fd_cases [of os "fd_get (ci_fd (cs ! i))"
            "1024 - length (content (ci_buffer (cs ! i)))" p])
        case (error e w)
        with inn turn client_readable_error [OF wf i error(2)] show ?thesis
          by (intro read_error) simp_all
      next
        case (ok bs w)
        define p1 where "p1 = p\<lparr>trace := trace p @ [EvRead (fd_get (ci_fd (cs ! i))) bs], kern := w\<rparr>"
        have read: "?read = (Inr (int (length bs), bs), p1)" using ok(2) by (simp add: p1_def)
        show ?thesis
        proof (cases "bs = []")
          case True
          with inn turn read client_readable_eof [OF wf i len, of os p "int (length bs)" p1] show ?thesis
            by (intro eof) simp_all
        next
          case False
          from client_readable_data [OF wf i lawful read False] obtain c' out
            where a: "absorbed (cs ! i) bs c' out"
              and r: "client_readable os i cs pfs p = readable_data os i cs pfs c' out p1" by blast
          show ?thesis
            using r turn
            by (intro data [OF inn read False a])
              (auto simp: readable_data_def split: option.splits sum.splits)
        qed
      qed
    qed
  qed
qed

lemma client_turn_stop:
  "client_turn os i nready cs pfs p = Some (Inr (stop, i', nready'), cs1, pfs1, p1) \<Longrightarrow> stop \<Longrightarrow> nready' \<le> 0"
  by (auto simp: client_turn_def Let_def split: sum.splits prod.splits if_splits option.splits)

lemma client_loop_rule:
  assumes run: "client_loop os i nready cs pfs p = Some (r, cs', pfs', q)"
    and init: "P i nready cs pfs p"
    and step: "\<And>i nready cs pfs p stop i' nready' cs1 pfs1 p1. i < length cs \<Longrightarrow> P i nready cs pfs p \<Longrightarrow>
      client_turn os i nready cs pfs p = Some (Inr (stop, i', nready'), cs1, pfs1, p1) \<Longrightarrow>
      P i' nready' cs1 pfs1 p1"
    and fail: "\<And>i nready cs pfs p e cs1 pfs1 p1. i < length cs \<Longrightarrow> P i nready cs pfs p \<Longrightarrow>
      client_turn os i nready cs pfs p = Some (Inl e, cs1, pfs1, p1) \<Longrightarrow> E e cs1 pfs1 p1"
  shows "case r of Inl e \<Rightarrow> E e cs' pfs' q
    | Inr (i', nready') \<Rightarrow> P i' nready' cs' pfs' q \<and> (i' < length cs' \<longrightarrow> nready' \<le> 0)"
  using run init
proof (induction "length cs - i" arbitrary: i nready cs pfs p rule: less_induct)
  case less
  show ?case
  proof (cases "i < length cs")
    case False
    with less.prems show ?thesis by (auto simp: client_loop.simps [of os i nready cs pfs p])
  next
    case True
    from less.prems(1) True obtain r1 cs1 pfs1 p1 where
      turn: "client_turn os i nready cs pfs p = Some (r1, cs1, pfs1, p1)"
      by (subst (asm) client_loop.simps) (auto split: option.splits)
    show ?thesis
    proof (cases r1)
      case (Inl e)
      with less.prems(1) True turn have "r = Inl e \<and> cs' = cs1 \<and> pfs' = pfs1 \<and> q = p1"
        by (subst (asm) client_loop.simps) simp
      with fail [OF True less.prems(2)] turn Inl show ?thesis by simp
    next
      case (Inr n)
      then obtain stop i' nready' where n: "r1 = Inr (stop, i', nready')" by (metis prod_cases3)
      note turn' = turn [unfolded n]
      note P = step [OF True less.prems(2) turn']
      have "client_loop os i nready cs pfs p =
          (if stop then Some (Inr (i', nready'), cs1, pfs1, p1) else client_loop os i' nready' cs1 pfs1 p1)"
        using True turn' by (subst client_loop.simps) simp
      with less.prems(1) less.hyps [OF client_turn_progress [OF turn' True] _ P] P client_turn_stop [OF turn']
      show ?thesis by (cases stop) auto
    qed
  qed
qed

section \<open>Descriptors of the clients\<close>

lemma client_fds_update [simp]: "ci_fd c' = ci_fd (cs ! i) \<Longrightarrow> i < length cs \<Longrightarrow> client_fds (cs[i := c']) = client_fds cs"
  by simp

lemma held_after_drop:
  assumes "clients_wf cs" and "i < length cs"
  shows "mset (client_fds (after_drop i cs)) + fds_of (ci_fd (cs ! i)) = mset (client_fds cs)"
proof -
  have "fds_of (ci_fd (cs ! i)) = {#client_fds cs ! i#}"
    using clients_wf_nth [OF assms] assms(2) by (simp add: client_wf_def fds_of_def client_fds_def)
  then show ?thesis
    using mset_swap_remove [of i "client_fds cs"] assms(2) by (simp add: client_fds_after_drop)
qed

lemma aligned_update: "aligned cs pfs \<Longrightarrow> i < length cs \<Longrightarrow> ci_fd c' = ci_fd (cs ! i) \<Longrightarrow> aligned (cs[i := c']) pfs"
  by (simp add: aligned_def)

lemma aligned_fd:
  assumes "aligned cs pfs" and "i < length cs"
  shows "pfd_fd (pfs ! (i + 2)) = fd_get (ci_fd (cs ! i))"
proof -
  have "map pfd_fd (drop 2 pfs) ! i = client_fds cs ! i" and "length pfs = length cs + 2"
    using assms(1) by (simp_all add: aligned_def)
  then show ?thesis
    using assms(2) by (simp add: client_fds_def)
qed

context data_effect begin

lemma R_broadcast: "broadcast (write_full os) fds i s msg p = Some (r, q) \<Longrightarrow> R p q"
proof (induction fds arbitrary: i p)
  case Nil
  then show ?case by (simp add: R_refl)
next
  case (Cons f fds)
  from Cons.prems consider "broadcast (write_full os) fds (Suc i) s msg p = Some (r, q)"
    | e where "write_full os f msg (of_nat (length msg)) p = Some (Inl e, q)"
    | u p' where "write_full os f msg (of_nat (length msg)) p = Some (Inr u, p')"
        "broadcast (write_full os) fds (Suc i) s msg p' = Some (r, q)"
    by (auto split: if_splits option.splits sum.splits)
  then show ?case
    using Cons.IH R_write_full R_trans by cases blast+
qed

end

lemma broadcast_error:
  "broadcast (write_full os) fds i s msg p = Some (Inl e, q) \<Longrightarrow> \<exists>c. e = SystemError c ''write() failed''"
proof (induction fds arbitrary: i p)
  case (Cons f fds)
  then show ?case
    by (auto split: if_splits option.splits sum.splits
        simp: write_full_def split: prod.splits)
qed simp

section \<open>The loop keeps the vectors and accounts for the descriptors\<close>

definition loop_inv :: "int multiset \<Rightarrow> nat \<Rightarrow> client_info list \<Rightarrow> pollfd list \<Rightarrow> 'w proc \<Rightarrow> bool" where
  "loop_inv h k cs pfs p \<longleftrightarrow>
     clients_wf cs \<and> aligned cs pfs \<and> length cs \<le> k \<and> accounts p (h + mset (client_fds cs))"

lemma loop_inv_read:
  "read_fd os fd n p = (x, q) \<Longrightarrow> loop_inv h k cs pfs p \<Longrightarrow> loop_inv h k cs pfs q"
  using fds.R_readfdD [of os fd n p x q] by (auto simp: loop_inv_def accounts_same_fds)

lemma loop_inv_drop:
  assumes "loop_inv h k cs pfs p" and "i < length cs"
  shows "loop_inv h k (after_drop i cs) (swap_out i pfs) (fd_destroy os (ci_fd (cs ! i)) p)"
proof -
  have "accounts p ((h + mset (client_fds (after_drop i cs))) + fds_of (ci_fd (cs ! i)))"
    using assms held_after_drop [of cs i] by (simp add: loop_inv_def add.assoc)
  with assms show ?thesis
    using aligned_drop [of cs pfs i] by (auto simp: loop_inv_def after_drop_wf accounts_destroy)
qed

lemma loop_inv_absorbed:
  "loop_inv h k cs pfs p \<Longrightarrow> i < length cs \<Longrightarrow> absorbed (cs ! i) bs c' out \<Longrightarrow> loop_inv h k (cs[i := c']) pfs p"
  by (auto simp: loop_inv_def absorbed_def aligned_update clients_wf_update)

lemma loop_inv_broadcast:
  "broadcast (write_full os) fds i s msg p = Some (r, q) \<Longrightarrow> loop_inv h k cs pfs p \<Longrightarrow> loop_inv h k cs pfs q"
  using fds.R_broadcast [of os fds i s msg p r q] by (auto simp: loop_inv_def accounts_same_fds)

text \<open>
  A turn keeps it whatever the turn's result, and the only exceptions are those of a failed
  read or write: no bounds error, no undefined access.
\<close>

lemma client_turn_inv:
  assumes "client_turn os i nready cs pfs p = Some (r, cs', pfs', q)" and "i < length cs"
    and inv: "loop_inv h k cs pfs p" and lawful: "reads_bounded os"
  shows "loop_inv h k cs' pfs' q \<and> (\<forall>e. r = Inl e \<longrightarrow> (\<exists>c m. e = SystemError c m))"
proof -
  from inv have wf: "clients_wf cs" and al: "aligned cs pfs" by (simp_all add: loop_inv_def)
  from wf al assms(2) lawful show ?thesis
  proof (cases rule: client_turn_cases [where nready = nready and p = p])
    case removed
    with assms(1) loop_inv_drop [OF inv assms(2), of os] show ?thesis by auto
  next
    case idle
    with assms(1) inv show ?thesis by auto
  next
    case (read_error e p1)
    with assms(1) loop_inv_read [OF read_error(2) inv] show ?thesis by auto
  next
    case (eof n p1)
    with assms(1) loop_inv_drop [OF loop_inv_read [OF eof(2) inv] assms(2), of os] show ?thesis by auto
  next
    case (data n bs p1 c' out)
    note inv1 = loop_inv_absorbed [OF loop_inv_read [OF data(2) inv] assms(2) data(4)]
    show ?thesis
    proof (cases "out = []")
      case True
      with assms(1) data(5) inv1 show ?thesis by auto
    next
      case False
      with assms(1) data(5) obtain r' where b: "broadcast (write_full os) (client_fds cs) 0 i out p1 = Some (r', q)"
        and eq: "cs' = cs[i := c']" "pfs' = pfs" "\<forall>e. r = Inl e \<longrightarrow> r' = Inl e"
        by (auto split: option.splits sum.splits)
      have "\<exists>c m. e = SystemError c m" if "r = Inl e" for e
        using that eq(3) b by (auto dest: broadcast_error)
      with loop_inv_broadcast [OF b inv1] eq show ?thesis by simp
    qed
  qed
qed

lemma client_turn_wf:
  assumes "client_turn os i nready cs pfs p = Some (r, cs', pfs', q)" and "i < length cs"
    and "clients_wf cs" and "aligned cs pfs" and "reads_bounded os"
  shows "clients_wf cs' \<and> aligned cs' pfs'"
  using assms(3,4,2,5)
proof (cases rule: client_turn_cases [where nready = nready and p = p])
  case removed
  with assms aligned_drop [OF assms(4,2)] after_drop_wf [OF assms(3,2)] show ?thesis by auto
next
  case (eof n p1)
  with assms aligned_drop [OF assms(4,2)] after_drop_wf [OF assms(3,2)] show ?thesis by auto
next
  case (data n bs p1 c' out)
  then have "clients_wf (cs[i := c'])" and "aligned (cs[i := c']) pfs"
    using assms by (simp_all add: absorbed_def aligned_update clients_wf_update)
  with assms(1) data(5) show ?thesis by (auto split: if_splits option.splits sum.splits)
qed (use assms in auto)

lemma client_loop_inv:
  assumes "client_loop os i nready cs pfs p = Some (r, cs', pfs', q)"
    and "loop_inv h k cs pfs p" and "reads_bounded os"
  shows "loop_inv h k cs' pfs' q \<and> (\<forall>e. r = Inl e \<longrightarrow> (\<exists>c m. e = SystemError c m))"
proof -
  from assms(1,2) have "case r of Inl e \<Rightarrow> loop_inv h k cs' pfs' q \<and> (\<exists>c m. e = SystemError c m)
    | Inr (i', nready') \<Rightarrow> loop_inv h k cs' pfs' q \<and> (i' < length cs' \<longrightarrow> nready' \<le> 0)"
    by (rule client_loop_rule) (use client_turn_inv assms(3) in blast)+
  then show ?thesis by (auto split: sum.splits prod.splits)
qed

section \<open>No ready client is passed over\<close>

text \<open>
  \<open>waiting i pfs\<close>: the entries from client \<open>i\<close> on that \<^verbatim>\<open>poll\<close> reported.
  \<open>served_since p fd q\<close>: between \<open>p\<close> and \<open>q\<close> the program read from \<open>fd\<close>, or closed it.
\<close>

definition waiting :: "nat \<Rightarrow> pollfd list \<Rightarrow> pollfd multiset" where
  "waiting i pfs = filter_mset (\<lambda>pf. pfd_revents pf \<noteq> 0) (mset (drop (i + 2) pfs))"

definition served_since :: "'w proc \<Rightarrow> int \<Rightarrow> 'w proc \<Rightarrow> bool" where
  "served_since p fd q \<longleftrightarrow>
     (\<exists>evs. trace q = trace p @ evs \<and> (EvClose fd \<in> set evs \<or> (\<exists>bs. EvRead fd bs \<in> set evs)))"

text \<open>What \<^verbatim>\<open>poll\<close> may report for an entry that asks for input.\<close>

definition reported :: "pollfd \<Rightarrow> bool" where
  "reported pf \<longleftrightarrow> (pfd_revents pf \<noteq> 0 \<longrightarrow>
     pfd_revents pf AND (POLLERR OR POLLHUP OR POLLNVAL) \<noteq> 0 \<or> pfd_revents pf AND POLLIN \<noteq> 0)"

lemma served_later: "served_since p fd q \<Longrightarrow> trace_grows q r \<Longrightarrow> served_since p fd r"
  by (fastforce simp: served_since_def trace_grows_def prefix_def)

lemma served_now: "trace_grows p q \<Longrightarrow> served_since q fd r \<Longrightarrow> served_since p fd r"
  by (fastforce simp: served_since_def trace_grows_def prefix_def)

lemma served_read: "read_fd os fd n p = (Inr (k, bs), q) \<Longrightarrow> served_since p fd q"
  using read_fd_trace [of os fd n p k bs q] by (simp add: served_since_def)

lemma served_destroy: "0 \<le> fd_get s \<Longrightarrow> served_since p (fd_get s) (fd_destroy os s p)"
  by (auto simp: served_since_def fd_destroy_def fd_reset_def c_call_defs split: prod.splits sum.splits)

lemma waiting_Suc:
  assumes "i + 2 < length pfs"
  shows "waiting i pfs = (if pfd_revents (pfs ! (i + 2)) \<noteq> 0 then {#pfs ! (i + 2)#} else {#}) + waiting (i + 1) pfs"
  using assms by (simp add: waiting_def flip: Cons_nth_drop_Suc)

lemma waiting_swap:
  assumes "i + 2 < length pfs"
  shows "waiting i pfs = (if pfd_revents (pfs ! (i + 2)) \<noteq> 0 then {#pfs ! (i + 2)#} else {#}) + waiting i (swap_out i pfs)"
proof -
  let ?xs = "drop (i + 2) pfs"
  have "last ?xs = last pfs" using assms by simp
  then have "drop (i + 2) (swap_out i pfs) = (butlast ?xs)[0 := last ?xs]"
    using assms by (simp add: drop_update_swap butlast_drop)
  moreover have "?xs ! 0 = pfs ! (i + 2)" using assms by simp
  ultimately have "mset ?xs = mset (drop (i + 2) (swap_out i pfs)) + {#pfs ! (i + 2)#}"
    using mset_swap_remove [of 0 ?xs] assms by simp
  then show ?thesis by (simp add: waiting_def)
qed

lemma in_waiting:
  assumes "j + 2 < length pfs" and "pfd_revents (pfs ! (j + 2)) \<noteq> 0"
  shows "pfs ! (j + 2) \<in># waiting 0 pfs"
proof -
  have "drop 2 pfs ! j = pfs ! (j + 2)" and "j < length (drop 2 pfs)" using assms(1) by simp_all
  then have "pfs ! (j + 2) \<in> set (drop 2 pfs)" by (metis nth_mem)
  with assms(2) show ?thesis unfolding waiting_def add_0 by simp
qed

lemma set_swap_out: "i + 2 < length pfs \<Longrightarrow> set (swap_out i pfs) \<subseteq> set pfs"
proof -
  assume "i + 2 < length pfs"
  then have "last pfs \<in> set pfs" by (intro last_in_set) auto
  then show ?thesis
    using set_update_subset_insert [of "butlast pfs" "i + 2" "last pfs"]
    by (auto dest: in_set_butlastD)
qed

text \<open>
  The invariant: whoever was reported was served or still waits, and the count covers those
  who wait. It needs that \<^verbatim>\<open>poll\<close> reports nothing the code does not test for.
\<close>

definition fair_inv ::
  "'w proc \<Rightarrow> int set \<Rightarrow> nat \<Rightarrow> int \<Rightarrow> client_info list \<Rightarrow> pollfd list \<Rightarrow> 'w proc \<Rightarrow> bool" where
  "fair_inv p0 ready i nready cs pfs p \<longleftrightarrow>
     clients_wf cs \<and> aligned cs pfs \<and> (\<forall>pf \<in> set pfs. reported pf) \<and> trace_grows p0 p
     \<and> int (size (waiting i pfs)) \<le> nready
     \<and> (\<forall>fd \<in> ready. served_since p0 fd p \<or> fd \<in> pfd_fd ` set_mset (waiting i pfs))"

lemma fair_serve:
  assumes "fair_inv p0 ready i nready cs pfs p" and i: "i < length cs"
    and took: "waiting i pfs = (if pfd_revents (pfs ! (i + 2)) \<noteq> 0 then {#pfs ! (i + 2)#} else {#}) + waiting i' pfs'"
    and ready: "pfd_revents (pfs ! (i + 2)) \<noteq> 0"
    and new: "clients_wf cs'" "aligned cs' pfs'" "set pfs' \<subseteq> set pfs"
    and served: "served_since p (fd_get (ci_fd (cs ! i))) q" and grows: "trace_grows p q"
  shows "fair_inv p0 ready i' (nready - 1) cs' pfs' q"
proof -
  have al: "aligned cs pfs" and old: "\<forall>fd \<in> ready. served_since p0 fd p \<or> fd \<in> pfd_fd ` set_mset (waiting i pfs)"
    and g: "trace_grows p0 p" and count: "int (size (waiting i pfs)) \<le> nready"
    using assms(1) by (simp_all add: fair_inv_def)
  have this_one: "served_since p0 (pfd_fd (pfs ! (i + 2))) q"
    using aligned_fd [OF al i] served served_now [OF g] by simp
  have "\<forall>fd \<in> ready. served_since p0 fd q \<or> fd \<in> pfd_fd ` set_mset (waiting i' pfs')"
    using old took this_one ready served_later [OF _ grows] by auto
  moreover have "trace_grows p0 q" using grows.R_trans [OF g grows] .
  moreover have "int (size (waiting i' pfs')) \<le> nready - 1" using count took ready by simp
  moreover have "\<forall>pf \<in> set pfs'. reported pf" using assms(1) new(3) by (auto simp: fair_inv_def)
  ultimately show ?thesis using new by (simp add: fair_inv_def)
qed

lemma fair_skip:
  assumes "fair_inv p0 ready i nready cs pfs p" and "i < length cs"
    and "pfd_revents (pfs ! (i + 2)) AND (POLLERR OR POLLHUP OR POLLNVAL) = 0"
    and "pfd_revents (pfs ! (i + 2)) AND POLLIN = 0"
  shows "fair_inv p0 ready (i + 1) nready cs pfs p"
proof -
  have len: "i + 2 < length pfs" and "\<forall>pf \<in> set pfs. reported pf"
    using assms(1,2) by (simp_all add: fair_inv_def aligned_def)
  then have "reported (pfs ! (i + 2))" by (metis nth_mem)
  with assms(3,4) have "pfd_revents (pfs ! (i + 2)) = 0" unfolding reported_def by blast
  then have "waiting (i + 1) pfs = waiting i pfs" using waiting_Suc [OF len] by simp
  with assms(1) show ?thesis by (simp add: fair_inv_def del: add_2_eq_Suc' add_Suc_right)
qed

lemma and_zero_nonzero: "(w :: 'a::len word) AND x \<noteq> 0 \<Longrightarrow> w \<noteq> 0"
  by auto

lemma client_turn_fair:
  assumes "client_turn os i nready cs pfs p = Some (Inr (stop, i', nready'), cs', pfs', q)" and i: "i < length cs"
    and inv: "fair_inv p0 ready i nready cs pfs p" and lawful: "reads_bounded os"
  shows "fair_inv p0 ready i' nready' cs' pfs' q"
proof -
  from inv have wf: "clients_wf cs" and al: "aligned cs pfs" by (simp_all add: fair_inv_def)
  have len: "i + 2 < length pfs" using al i by (simp add: aligned_def)
  have valid: "0 \<le> fd_get (ci_fd (cs ! i))" using clients_wf_nth [OF wf i] by (simp add: client_wf_def)
  note drop = fair_serve [OF inv i waiting_swap [OF len] _ after_drop_wf [OF wf i] aligned_drop [OF al i]
      set_swap_out [OF len]]
  note keep = fair_serve [OF inv i waiting_Suc [OF len] _ _ _ subset_refl]
  from wf al i lawful show ?thesis
  proof (cases rule: client_turn_cases [where nready = nready and p = p])
    case removed
    from assms(1) removed(2) have "i' = i" "nready' = nready - 1" "cs' = after_drop i cs"
      "pfs' = swap_out i pfs" "q = fd_destroy os (ci_fd (cs ! i)) p" by auto
    then show ?thesis
      using drop [OF and_zero_nonzero [OF removed(1)] served_destroy [OF valid] grows.R_fd_destroy] by blast
  next
    case idle
    with assms(1) fair_skip [OF inv i idle(1,2)] show ?thesis by simp
  next
    case (read_error e p1)
    with assms(1) show ?thesis by simp
  next
    case (eof n p1)
    note g = grows.R_readfdD [OF eof(2)]
    from assms(1) eof(3) have "i' = i" "nready' = nready - 1" "cs' = after_drop i cs"
      "pfs' = swap_out i pfs" "q = fd_destroy os (ci_fd (cs ! i)) p1" by auto
    then show ?thesis
      using drop [OF and_zero_nonzero [OF eof(1)] served_now [OF g served_destroy [OF valid]]
        grows.R_trans [OF g grows.R_fd_destroy]] by blast
  next
    case (data n bs p1 c' out)
    have c': "client_wf c'" "ci_fd c' = ci_fd (cs ! i)" using data(4) by (simp_all add: absorbed_def)
    have new: "clients_wf (cs[i := c'])" "aligned (cs[i := c']) pfs"
      using wf al i c' by (simp_all add: clients_wf_update aligned_update)
    note g = grows.R_readfdD [OF data(2)]
    from assms(1) data(5) have "i' = i + 1" "nready' = nready - 1" "cs' = cs[i := c']" "pfs' = pfs"
      and "q = p1 \<or> (\<exists>u. broadcast (write_full os) (client_fds cs) 0 i out p1 = Some (Inr u, q))"
      by (auto split: if_splits option.splits sum.splits)
    moreover from this(5) have "trace_grows p1 q"
      using grows.R_refl grows.R_broadcast by metis
    ultimately show ?thesis
      using keep [OF and_zero_nonzero [OF data(1)] new served_later [OF served_read [OF data(2)]] grows.R_trans [OF g]]
      by blast
  qed
qed

lemma client_loop_fair:
  assumes run: "client_loop os 0 nready cs pfs p = Some (Inr (i', nready'), cs', pfs', q)"
    and "clients_wf cs" and "aligned cs pfs" and "\<forall>pf \<in> set pfs. reported pf"
    and "int (size (waiting 0 pfs)) \<le> nready" and "reads_bounded os"
    and j: "j < length cs" "pfd_revents (pfs ! (j + 2)) \<noteq> 0"
  shows "served_since p (fd_get (ci_fd (cs ! j))) q"
proof -
  define ready where "ready = pfd_fd ` set_mset (waiting 0 pfs)"
  have "fair_inv p ready 0 nready cs pfs p"
    using assms grows.R_refl by (auto simp: fair_inv_def ready_def)
  then have end_: "fair_inv p ready i' nready' cs' pfs' q \<and> (i' < length cs' \<longrightarrow> nready' \<le> 0)"
    using client_loop_rule [OF run, of "fair_inv p ready" "\<lambda>_ _ _ _. True"] client_turn_fair assms(6)
    by simp blast
  have "waiting i' pfs' = {#}"
  proof (cases "i' < length cs'")
    case True
    with end_ have "int (size (waiting i' pfs')) \<le> nready'" and "nready' \<le> 0"
      by (simp_all add: fair_inv_def)
    then have "size (waiting i' pfs') = 0" by linarith
    then show ?thesis by simp
  next
    case False
    with end_ show ?thesis by (auto simp: fair_inv_def aligned_def waiting_def)
  qed
  moreover have "fd_get (ci_fd (cs ! j)) \<in> ready"
  proof -
    have "j + 2 < length pfs" using assms(3) j(1) by (simp add: aligned_def)
    from in_waiting [OF this j(2)] have "pfs ! (j + 2) \<in># waiting 0 pfs" .
    with aligned_fd [OF assms(3) j(1)] show ?thesis unfolding ready_def by (metis imageI)
  qed
  ultimately show ?thesis using end_ by (auto simp: fair_inv_def)
qed

section \<open>The loop returns\<close>

lemma absorbed_out_bound:
  assumes "absorbed c bs c' out" and "client_wf c" and "length (content (ci_buffer c)) + length bs \<le> 1024"
  shows "length out < 2 ^ 12"
proof -
  have "length (content (recv_at_start (ci_buffer c) bs)) \<le> 1024"
    using assms(2,3) by (intro content_bound recv_at_start_wf) (simp_all add: client_wf_def)
  moreover obtain waiting' where w: "length waiting' \<le> length (content (recv_at_start (ci_buffer c) bs))"
    and "out = [] \<or> out = ''['' @ ci_name c' @ '']: '' @ complete newline waiting'"
  proof (cases "ci_connected c")
    case True
    with assms(1) show ?thesis
      by (intro that [of "content (recv_at_start (ci_buffer c) bs)"])
        (auto simp: absorbed_def session_def Let_def split: if_splits)
  next
    case False
    with assms(1) show ?thesis
      by (intro that [of "after_line newline (content (recv_at_start (ci_buffer c) bs))"])
        (auto simp: absorbed_def session_def Let_def length_after_line_le split: if_splits)
  qed
  moreover have "length (ci_name c') < 1024" using assms(1) by (simp add: absorbed_def client_wf_def)
  ultimately show ?thesis
    using length_complete_le [of newline waiting'] by auto
qed

lemma client_turn_returns:
  assumes "clients_wf cs" and "aligned cs pfs" and "i < length cs" and lawful: "reads_bounded os"
    and prompt: "writes_bounded os" "interrupts_finite os m"
  shows "client_turn os i nready cs pfs p \<noteq> None"
  using assms(1-4)
proof (cases rule: client_turn_cases [where nready = nready and p = p])
  case (data k bs p1 c' out)
  have c: "client_wf (cs ! i)" using assms(1,3) by (rule clients_wf_nth)
  then have "length (content (ci_buffer (cs ! i))) + length bs \<le> 1024"
    using read_fd_bounded [OF lawful data(2)] content_bound [of "ci_buffer (cs ! i)"]
    by (simp add: client_wf_def)
  from absorbed_out_bound [OF data(4) c this] have "length out < 2 ^ 64" by simp
  then have "broadcast (write_full os) (client_fds cs) 0 i out p1 \<noteq> None"
    using prompt by (intro full.broadcast_returns) blast+
  with data(5) show ?thesis by (auto split: sum.splits)
qed auto

lemma client_loop_returns:
  assumes "clients_wf cs" and "aligned cs pfs" and lawful: "reads_bounded os"
    and prompt: "writes_bounded os" "interrupts_finite os m"
  shows "client_loop os i nready cs pfs p \<noteq> None"
  using assms(1,2)
proof (induction "length cs - i" arbitrary: i nready cs pfs p rule: less_induct)
  case less
  show ?case
  proof (cases "i < length cs")
    case False
    then show ?thesis by (subst client_loop.simps) simp
  next
    case True
    obtain r cs1 pfs1 p1 where turn: "client_turn os i nready cs pfs p = Some (r, cs1, pfs1, p1)"
      using client_turn_returns [OF less.prems True lawful prompt, of nready p] by fastforce
    show ?thesis
    proof (cases r)
      case (Inl e)
      with True turn show ?thesis by (subst client_loop.simps) simp
    next
      case (Inr n)
      then obtain stop i' nready' where n: "r = Inr (stop, i', nready')" by (metis prod_cases3)
      note turn' = turn [unfolded n]
      have "clients_wf cs1 \<and> aligned cs1 pfs1"
        using client_turn_wf [OF turn' True less.prems lawful] .
      with less.hyps [OF client_turn_progress [OF turn' True]] True turn' show ?thesis
        by (subst client_loop.simps) simp
    qed
  qed
qed

end
