(* ===== verification/Server_Life.thy ===== *)
theory Server_Life
  imports Server_Invariants
begin

unbundle bit_operations_syntax

text \<open>
  The whole life of a server: start, iterations of the event loop, stop and destruction. In
  every state it can reach, the server is well formed and each descriptor the process got is
  either held by exactly one of its members or was closed exactly once.
\<close>

section \<open>The invariant of the class\<close>

definition server_wf :: "server \<Rightarrow> bool" where
  "server_wf sv \<longleftrightarrow> sv_max_clients sv = 62 \<and> sv_backlog sv = 64
     \<and> length (sv_clients sv) \<le> 62 \<and> clients_wf (sv_clients sv)
     \<and> (if sv_running sv then fd_valid (sv_listenfd sv) \<and> fd_valid (sv_signalfd sv)
        else sv_listenfd sv = ScopedFd (- 1) \<and> sv_signalfd sv = ScopedFd (- 1) \<and> sv_clients sv = [])"

definition server_held :: "server \<Rightarrow> int multiset" where
  "server_held sv =
     fds_of (sv_listenfd sv) + fds_of (sv_signalfd sv) + mset (client_fds (sv_clients sv))"

lemma server_wf_init [simp, wf_intros]: "server_wf server_default" "server_wf (server_with_port n)"
  by (simp_all add: server_wf_def server_default_def server_with_port_def scoped_fd_default_def clients_wf_def)

lemma server_held_init [simp]: "server_held server_default = {#}" "server_held (server_with_port n) = {#}"
  by (simp_all add: server_held_def server_default_def server_with_port_def client_fds_def)

lemma server_held_off: "server_wf sv \<Longrightarrow> \<not> sv_running sv \<Longrightarrow> server_held sv = {#}"
  by (simp add: server_wf_def server_held_def client_fds_def)

lemma fds_of_valid: "fd_valid s \<Longrightarrow> fds_of s = {#fd_get s#}"
  by (simp add: fd_valid_def fds_of_def)

section \<open>Start\<close>

lemma setup_signal_fd_owned:
  assumes "server_setup_signal_fd os sv p = (r, sv', q)"
    and "accounts p (h + fds_of (sv_signalfd sv))"
  shows "case r of
      Inl e \<Rightarrow> sv' = sv \<and> accounts q (h + fds_of (sv_signalfd sv)) \<and> (\<exists>c m. e = SystemError c m)
    | Inr _ \<Rightarrow> \<exists>n \<ge> 0. sv' = sv\<lparr>sv_signalfd := ScopedFd n\<rparr> \<and> accounts q (h + {#n#})"
proof -
  obtain b p1 where b: "c_block_signals os p = (b, p1)" by fastforce
  have a1: "accounts p1 (h + fds_of (sv_signalfd sv))"
    using accounts_quiet [OF c_quiet_fds(5) assms(2), of os] b by simp
  obtain n p2 where n: "c_signalfd os p1 = (n, p2)" by fastforce
  have o: "opens p1 (n, p2)" using c_opens(3) [of p1 os] n by simp
  show ?thesis
  proof (cases "b = - 1 \<or> n = - 1")
    case True
    with assms(1) b n a1 accounts_not_opened [of p1 p2] o show ?thesis
      by (auto simp: server_setup_signal_fd_def split: if_splits)
  next
    case False
    from accounts_opened [OF o a1] False
    have "0 \<le> n" and "accounts p2 ((h + {#n#}) + fds_of (sv_signalfd sv))" by (simp_all add: ac_simps)
    with accounts_destroy [OF this(2), of os] False assms(1) b n show ?thesis
      by (auto simp: server_setup_signal_fd_def fd_move_assign_other)
  qed
qed

text \<open>
  A run that fails leaves the server as it was and closes the socket it made; one that
  succeeds holds two descriptors more.
\<close>

lemma server_run_owned:
  assumes run: "server_run os sv p = (r, sv', q)" and stopped: "\<not> sv_running sv" and wf: "server_wf sv"
    and acc: "accounts p h"
  shows "case r of
      Inl e \<Rightarrow> sv' = sv \<and> accounts q h \<and> ((\<exists>c m. e = SystemError c m) \<or> (\<exists>m. e = RuntimeError m))
    | Inr _ \<Rightarrow> \<exists>l s. l \<ge> 0 \<and> s \<ge> 0 \<and> accounts q (h + {#l, s#})
        \<and> sv' = sv\<lparr>sv_signalfd := ScopedFd s, sv_listenfd := ScopedFd l, sv_running := True\<rparr>"
proof -
  have closed: "sv_signalfd sv = ScopedFd (- 1)" "sv_listenfd sv = ScopedFd (- 1)"
    using wf stopped by (simp_all add: server_wf_def)
  obtain r1 p1 where s: "create_socket os AF_INET SOCK_STREAM 0 p = (r1, p1)" by fastforce
  note o = create_socket_opens [OF s]
  show ?thesis
  proof (cases r1)
    case (Inl e)
    with s run stopped o acc accounts_not_opened [of p p1 h] show ?thesis
      by (auto simp: server_run_def Let_def create_socket_def split: prod.splits if_splits)
  next
    case fd: (Inr fd)
    with o have pos: "0 \<le> fd" and op: "opens p (fd, p1)" by simp_all
    from accounts_opened [OF op acc] pos have a1: "accounts p1 (h + {#fd#})" by simp
    have close: "accounts p' (h + {#fd#}) \<Longrightarrow> accounts (fd_destroy os (ScopedFd fd) p') h" for p' :: "'a proc"
      using accounts_destroy [of p' h "ScopedFd fd" os] pos by simp
    obtain k2 p2 where k2: "c_setsockopt_reuseaddr os fd p1 = (k2, p2)" by fastforce
    have a2: "accounts p2 (h + {#fd#})" using accounts_quiet [OF c_quiet_fds(4) a1, of os fd] k2 by simp
    obtain r3 p3 where r3: "bind_socket os fd (to_sockaddr os (sv_address sv)) p2 = (r3, p3)" by fastforce
    have a3: "accounts p3 (h + {#fd#})" using accounts_quiet [OF socket_calls_same_fds(2) [OF r3] a2] .
    obtain r4 p4 where r4: "listen_socket os fd (sv_backlog sv) p3 = (r4, p4)" by fastforce
    have a4: "accounts p4 (h + {#fd#})" using accounts_quiet [OF socket_calls_same_fds(3) [OF r4] a3] .
    obtain r5 sv5 p5 where r5: "server_setup_signal_fd os sv p4 = (r5, sv5, p5)" by (metis prod_cases3)
    have a5: "case r5 of
        Inl e \<Rightarrow> sv5 = sv \<and> accounts p5 (h + {#fd#}) \<and> (\<exists>c m. e = SystemError c m)
      | Inr _ \<Rightarrow> \<exists>n \<ge> 0. sv5 = sv\<lparr>sv_signalfd := ScopedFd n\<rparr> \<and> accounts p5 (h + {#fd#} + {#n#})"
      using setup_signal_fd_owned [OF r5, of "h + {#fd#}"] a4 closed by (auto split: sum.splits)
    have errs: "r3 = Inl e \<Longrightarrow> \<exists>c m. e = SystemError c m" "r4 = Inl e \<Longrightarrow> \<exists>c m. e = SystemError c m" for e
      using r3 r4 by (auto simp: bind_socket_def listen_socket_def split: prod.splits if_splits)
    show ?thesis
    proof (cases "k2 < 0 \<or> isl r3 \<or> isl r4 \<or> isl r5")
      case True
      then show ?thesis
        using run stopped s fd k2 r3 r4 r5 a2 a3 a4 a5 close errs
        by (auto simp: server_run_def Let_def split: if_splits sum.splits)
    next
      case False
      have unit: "\<not> isl x \<Longrightarrow> x = Inr ()" for x :: "exn + unit" by (cases x) simp_all
      from False have "r3 = Inr ()" "r4 = Inr ()" and u5: "r5 = Inr ()" by (simp_all add: unit)
      moreover from a5 u5 obtain n where "0 \<le> n" "sv5 = sv\<lparr>sv_signalfd := ScopedFd n\<rparr>"
        "accounts p5 (h + {#fd, n#})" by (auto simp: add_mset_commute)
      ultimately have "r = Inr ()" and "q = p5"
        and "sv' = sv\<lparr>sv_signalfd := ScopedFd n, sv_listenfd := ScopedFd fd, sv_running := True\<rparr>"
        using run stopped s fd k2 r3 r4 r5 closed False
        by (simp_all add: server_run_def Let_def fd_move_assign_other)
      with \<open>0 \<le> n\<close> pos \<open>accounts p5 (h + {#fd, n#})\<close> show ?thesis
        by (simp only: sum.case) blast
    qed
  qed
qed

section \<open>Stop\<close>

lemma destroy_clients_owned:
  "clients_wf cs \<Longrightarrow> accounts p (h + mset (client_fds cs)) \<Longrightarrow> accounts (destroy_clients os cs p) h"
proof (induction cs arbitrary: p)
  case Nil
  then show ?case by (simp add: client_fds_def)
next
  case (Cons c cs)
  then have "fds_of (ci_fd c) = {#fd_get (ci_fd c)#}" and wf: "clients_wf cs"
    by (simp_all add: clients_wf_def client_wf_def fds_of_def)
  with Cons.prems(2) have "accounts p ((h + mset (client_fds cs)) + fds_of (ci_fd c))"
    by (simp add: client_fds_def ac_simps)
  from Cons.IH [OF wf accounts_destroy [OF this]] show ?case by simp
qed

lemma server_stop_owned:
  assumes "clients_wf (sv_clients sv)" and "accounts p (h + server_held sv)"
  shows "\<exists>q. server_stop os sv p =
      (sv\<lparr>sv_clients := [], sv_signalfd := ScopedFd (- 1), sv_listenfd := ScopedFd (- 1),
          sv_running := False\<rparr>, q) \<and> accounts q h"
proof -
  have "accounts p ((h + fds_of (sv_listenfd sv) + fds_of (sv_signalfd sv)) + mset (client_fds (sv_clients sv)))"
    using assms(2) by (simp add: server_held_def ac_simps)
  from destroy_clients_owned [OF assms(1) this]
  have "accounts (destroy_clients os (sv_clients sv) p) (h + fds_of (sv_listenfd sv) + fds_of (sv_signalfd sv))" .
  from accounts_reset [OF accounts_reset [OF this]] show ?thesis
    by (auto simp: server_stop_def Let_def case_prod_beta)
qed

lemma server_destroy_owned:
  assumes "clients_wf (sv_clients sv)" and "accounts p (h + server_held sv)"
  shows "accounts (server_destroy os sv p) h"
proof -
  have "accounts p ((h + fds_of (sv_listenfd sv) + fds_of (sv_signalfd sv)) + mset (client_fds (sv_clients sv)))"
    using assms(2) by (simp add: server_held_def ac_simps)
  from accounts_destroy [OF accounts_destroy [OF destroy_clients_owned [OF assms(1) this]]] show ?thesis
    by (simp add: server_destroy_def)
qed

section \<open>The poll\<close>

lemma length_poll_set [simp]: "length (poll_set sv) = length (sv_clients sv) + 2"
  by (simp add: poll_set_def)

lemma poll_set_clients: "map pfd_fd (drop 2 (poll_set sv)) = client_fds (sv_clients sv)"
  by (simp add: poll_set_def client_fds_def)

lemma poll_set_events: "k < length (sv_clients sv) + 2 \<Longrightarrow> pfd_events (poll_set sv ! k) = POLLIN"
  by (auto simp: poll_set_def nth_Cons split: nat.splits)

lemma c_poll_cases:
  obtains (error) e w where "os_poll os fds t (kern p) = (Inl e, w)"
      and "c_poll os fds t p = ((- 1, fds), p\<lparr>errno_of := e, kern := w\<rparr>)"
  | (ok) n r w where "os_poll os fds t (kern p) = (Inr (n, r), w)"
      and "c_poll os fds t p = ((int n, set_revents fds r), p\<lparr>kern := w\<rparr>)"
  by (cases "os_poll os fds t (kern p)"; cases "fst (os_poll os fds t (kern p))")
    (auto simp: c_poll_def c_call_def)

lemma aligned_polled: "aligned (sv_clients sv) (set_revents (poll_set sv) r)"
proof -
  have "map pfd_fd (drop 2 (set_revents (poll_set sv) r)) = drop 2 (map pfd_fd (poll_set sv))"
    by (simp flip: drop_map)
  then show ?thesis by (simp add: aligned_def drop_map poll_set_clients)
qed

lemma reported_polled:
  assumes "poll_reports_requested os" and "os_poll os (poll_set sv) t w = (Inr (n, r), w')"
  shows "\<forall>pf \<in> set (set_revents (poll_set sv) r). reported pf"
proof
  fix pf
  assume "pf \<in> set (set_revents (poll_set sv) r)"
  then obtain k where k: "k < length (poll_set sv)" "pf = (poll_set sv ! k)\<lparr>pfd_revents := r k\<rparr>"
    by (auto simp: in_set_conv_nth)
  with assms(1,2) have "r k \<noteq> 0 \<longrightarrow>
      r k AND pfd_events (poll_set sv ! k) \<noteq> 0 \<or> r k AND (POLLERR OR POLLHUP OR POLLNVAL) \<noteq> 0"
    unfolding poll_reports_requested_def by blast
  with k poll_set_events [of k sv] show "reported pf" by (auto simp: reported_def)
qed

text \<open>The count \<^verbatim>\<open>poll\<close> returns, split over the two fixed entries and the clients.\<close>

lemma size_waiting:
  assumes "length pfs = length cs + 2"
  shows "size (waiting 0 pfs) = length (filter (\<lambda>k. pfd_revents (pfs ! k) \<noteq> 0) [2..<length pfs])"
proof -
  have "drop 2 pfs = map (\<lambda>k. pfs ! k) [2..<length pfs]"
    by (intro nth_equalityI) (simp_all del: upt_Suc)
  then have "size (waiting 0 pfs) = length (filter (\<lambda>pf. pfd_revents pf \<noteq> 0) (map (\<lambda>k. pfs ! k) [2..<length pfs]))"
    unfolding waiting_def add_0 mset_filter [symmetric] size_mset by (rule arg_cong)
  then show ?thesis by (simp add: filter_map comp_def)
qed

lemma polled_count:
  assumes "poll_counts os" and "os_poll os (poll_set sv) t w = (Inr (n, r), w')"
  shows "n = (if r 0 \<noteq> 0 then 1 else 0) + (if r 1 \<noteq> 0 then 1 else 0)
    + size (waiting 0 (set_revents (poll_set sv) r))"
proof -
  let ?pfs = "set_revents (poll_set sv) r" and ?k = "length (sv_clients sv) + 2"
  have "filter (\<lambda>k. pfd_revents (?pfs ! k) \<noteq> 0) [2..<?k] = filter (\<lambda>k. r k \<noteq> 0) [2..<?k]"
    by (rule filter_cong) (simp_all del: upt_Suc)
  moreover have "[0..<?k] = 0 # 1 # [2..<?k]"
    by (simp add: upt_conv_Cons numeral_2_eq_2 del: upt_Suc)
  ultimately show ?thesis
    using poll_countsD [OF assms] size_waiting [of ?pfs "sv_clients sv"] by simp
qed

section \<open>A new connection\<close>

lemma client_info_move_init:
  "\<exists>b. client_info_move mem (client_info_init fd name)
      = Inr (\<lparr>ci_fd = ScopedFd fd, ci_name = name, ci_buffer = b, ci_connected = False\<rparr>, ScopedFd (- 1))
    \<and> buf_wf b \<and> content b = []"
  using buf_move_init_content [of buf_default mem]
  by (auto simp: client_info_move_def client_info_init_def fd_move_init_def fd_release_def)

text \<open>
  Three ways to return: the accept or the close of a refused connection failed, the server was
  full and the connection was closed, or there is one client and one poll entry more.
\<close>

lemma accept_client_cases:
  assumes "accept_client os sv pfs p = Some (r, sv', pfs', q)"
  obtains (failed) c m where "r = Inl (SystemError c m)" and "sv' = sv" and "pfs' = pfs"
      and "\<And>h. accounts p h \<Longrightarrow> accounts q h"
  | (refused) "r = Inr ()" and "int (length (sv_clients sv)) \<ge> sv_max_clients sv" and "sv' = sv" and "pfs' = pfs"
      and "\<And>h. accounts p h \<Longrightarrow> accounts q h"
  | (accepted) fd b where "r = Inr ()" and "0 \<le> fd" and "buf_wf b" and "content b = []"
      and "int (length (sv_clients sv)) < sv_max_clients sv"
      and "sv' = sv\<lparr>sv_clients := sv_clients sv @
        [\<lparr>ci_fd = ScopedFd fd, ci_name = ''NoName'', ci_buffer = b, ci_connected = False\<rparr>]\<rparr>"
      and "pfs' = pfs @ [\<lparr>pfd_fd = fd, pfd_events = POLLIN, pfd_revents = 0\<rparr>]"
      and "\<And>h. accounts p h \<Longrightarrow> accounts q (h + {#fd#})"
proof -
  from assms obtain ra p1 where a: "accept_socket os (fd_get (sv_listenfd sv)) p = Some (ra, p1)"
    by (auto simp: accept_client_def split: option.splits)
  note o = accept_socket_opens [OF a]
  show thesis
  proof (cases ra)
    case (Inl e)
    moreover from a Inl obtain c m where "e = SystemError c m"
      by (induction "(ra, p1)" rule: accept_socket_induct) auto
    ultimately show thesis
      using assms a o accounts_not_opened by (intro failed [of c m]) (auto simp: accept_client_def)
  next
    case fd: (Inr fd)
    with o have op: "opens p (fd, p1)" and pos: "0 \<le> fd" by simp_all
    have acc: "accounts p1 (h + {#fd#})" if "accounts p h" for h
      using accounts_opened [OF op that] pos by simp
    show thesis
    proof (cases "int (length (sv_clients sv)) \<ge> sv_max_clients sv")
      case full: True
      obtain rc p2 where c: "close_fd os fd p1 = (rc, p2)" by fastforce
      then have closed: "accounts p2 h" if "accounts p h" for h
        using acc [OF that] close_fd_fds [of os fd p1] by (simp add: accounts_def)
      show thesis
      proof (cases rc)
        case (Inl e)
        moreover from c Inl obtain ec m where "e = SystemError ec m"
          by (auto simp: close_fd_def split: prod.splits if_splits)
        ultimately show thesis
          using assms a fd full c closed by (intro failed [of ec m]) (auto simp: accept_client_def)
      next
        case (Inr u)
        with assms a fd full c closed show thesis
          by (intro refused) (auto simp: accept_client_def)
      qed
    next
      case False
      obtain b where "client_info_move (os_mem os (kern p1)) (client_info_init fd ''NoName'')
          = Inr (\<lparr>ci_fd = ScopedFd fd, ci_name = ''NoName'', ci_buffer = b, ci_connected = False\<rparr>, ScopedFd (- 1))"
        and "buf_wf b" "content b = []"
        using client_info_move_init by blast
      with assms a fd False acc pos show thesis
        by (intro accepted [of fd b]) (auto simp: accept_client_def)
    qed
  qed
qed

section \<open>One iteration\<close>

lemma server_wf_accepted:
  assumes "server_wf sv" and "sv_running sv" and "int (length (sv_clients sv)) < sv_max_clients sv"
    and "0 \<le> fd" and "buf_wf b"
  shows "server_wf (sv\<lparr>sv_clients := sv_clients sv @
    [\<lparr>ci_fd = ScopedFd fd, ci_name = ''NoName'', ci_buffer = b, ci_connected = False\<rparr>]\<rparr>)"
  using assms by (simp add: server_wf_def clients_wf_def client_wf_def)

definition iter_ok :: "int multiset \<Rightarrow> exn + flow \<Rightarrow> server \<Rightarrow> 'w proc \<Rightarrow> bool" where
  "iter_ok h r sv q \<longleftrightarrow> server_wf sv \<and> accounts q (h + server_held sv) \<and>
     (case r of Inl e \<Rightarrow> io_error e \<and> sv_running sv
      | Inr Continue \<Rightarrow> sv_running sv
      | Inr Break \<Rightarrow> \<not> sv_running sv)"

lemma handle_clients_ok:
  assumes "handle_clients os sv nready pfs p = Some (r, sv', q)"
    and wf: "server_wf sv" "sv_running sv" and "aligned (sv_clients sv) pfs"
    and acc: "accounts p (h + server_held sv)" and "reads_bounded os"
  shows "iter_ok h r sv' q"
proof -
  let ?h = "h + fds_of (sv_listenfd sv) + fds_of (sv_signalfd sv)"
  from assms(1) obtain r1 cs pfs1 where l: "client_loop os 0 nready (sv_clients sv) pfs p = Some (r1, cs, pfs1, q)"
    and sv': "sv' = sv\<lparr>sv_clients := cs\<rparr>" and r: "r = (case r1 of Inl e \<Rightarrow> Inl e | Inr _ \<Rightarrow> Inr Continue)"
    by (auto simp: handle_clients_def split: option.splits sum.splits)
  have "loop_inv ?h 62 (sv_clients sv) pfs p"
    using wf assms(4) acc by (simp add: loop_inv_def server_wf_def server_held_def ac_simps)
  from client_loop_inv [OF l this assms(6)] have "loop_inv ?h 62 cs pfs1 q"
    and "\<forall>e. r1 = Inl e \<longrightarrow> (\<exists>c m. e = SystemError c m)" by blast+
  with wf sv' r show ?thesis
    by (auto simp: iter_ok_def server_wf_def loop_inv_def server_held_def io_error_def ac_simps
        split: sum.splits)
qed

lemma handle_signal_ok:
  assumes "handle_signal os sv p = (r, sv', q)"
    and wf: "server_wf sv" "sv_running sv" and acc: "accounts p (h + server_held sv)"
  shows "iter_ok h r sv' q"
proof -
  obtain x p1 where x: "read_fd os (fd_get (sv_signalfd sv)) sizeof_siginfo p = (x, p1)" by fastforce
  have a1: "accounts p1 (h + server_held sv)"
    using accounts_quiet [OF fds.R_readfdD [OF x] acc] .
  have e: "x = Inl e \<Longrightarrow> \<exists>c m. e = SystemError c m" for e
    using x by (auto simp: read_fd_def split: prod.splits if_splits)
  obtain q1 where stop: "server_stop os sv p1 = (sv\<lparr>sv_clients := [], sv_signalfd := ScopedFd (- 1),
      sv_listenfd := ScopedFd (- 1), sv_running := False\<rparr>, q1)" "accounts q1 h"
    using server_stop_owned [OF _ a1] wf(1) by (auto simp: server_wf_def)
  show ?thesis
    using assms(1) x e stop a1 wf
    by (auto simp: handle_signal_def iter_ok_def io_error_def server_wf_def server_held_def clients_wf_def
        client_fds_def split: sum.splits if_splits)
qed

lemma handle_ready_ok:
  assumes "handle_ready os sv nready pfs p = Some (r, sv', q)"
    and wf: "server_wf sv" "sv_running sv" and al: "aligned (sv_clients sv) pfs"
    and acc: "accounts p (h + server_held sv)" and "reads_bounded os"
  shows "iter_ok h r sv' q"
proof -
  have "vec_get pfs 1 = Inr (pfs ! 1)" using al by (simp add: aligned_def)
  with assms handle_clients_ok [OF _ wf al acc] handle_signal_ok [OF _ wf acc] show ?thesis
    by (auto simp: handle_ready_def split: if_splits)
qed

lemma accept_client_ok:
  assumes "accept_client os sv pfs p = Some (r, sv', pfs', q)"
    and wf: "server_wf sv" "sv_running sv" and al: "aligned (sv_clients sv) pfs"
    and acc: "accounts p (h + server_held sv)"
  shows "server_wf sv' \<and> sv_running sv' \<and> aligned (sv_clients sv') pfs' \<and> accounts q (h + server_held sv')
    \<and> (\<forall>e. r = Inl e \<longrightarrow> io_error e)"
  using assms(1)
proof (cases rule: accept_client_cases)
  case (accepted fd b)
  have "accounts q (h + server_held sv + {#fd#})" using accepted(8) [OF acc] .
  moreover have "aligned (sv_clients sv') pfs'"
    using al accepted(6,7) by (simp add: aligned_def client_fds_def)
  moreover have "server_wf sv'"
    using server_wf_accepted [OF wf accepted(5,2,3)] accepted(6) by simp
  ultimately show ?thesis
    using accepted wf(2) by (simp add: server_held_def client_fds_def ac_simps)
qed (use wf al acc in \<open>auto simp: io_error_def\<close>)

lemma server_iter_polled:
  assumes "os_poll os (poll_set sv) (- 1) (kern p) = (Inr (n, rv), w)"
  shows "server_iter os sv p =
    (if rv 0 AND POLLIN \<noteq> 0 then
       (case accept_client os sv (set_revents (poll_set sv) rv) (p\<lparr>kern := w\<rparr>) of
          None \<Rightarrow> None
        | Some (Inl e, sv1, _, p2) \<Rightarrow> Some (Inl e, sv1, p2)
        | Some (Inr _, sv1, pfs1, p2) \<Rightarrow>
            if int n - 1 \<le> 0 then Some (Inr Continue, sv1, p2) else handle_ready os sv1 (int n - 1) pfs1 p2)
     else handle_ready os sv (int n) (set_revents (poll_set sv) rv) (p\<lparr>kern := w\<rparr>))"
  using assms by (cases rule: c_poll_cases [of os "poll_set sv" "- 1" p]) (simp_all add: server_iter_def)

lemma server_iter_ok:
  assumes it: "server_iter os sv p = Some (r, sv', q)"
    and wf: "server_wf sv" "sv_running sv"
    and acc: "accounts p (h + server_held sv)" and lawful: "reads_bounded os"
  shows "iter_ok h r sv' q"
proof (cases rule: c_poll_cases [of os "poll_set sv" "- 1" p])
  case (error e w)
  with it wf acc show ?thesis
    by (auto simp: server_iter_def iter_ok_def io_error_def accounts_def split: if_splits)
next
  case (ok n rv w)
  let ?pfs = "set_revents (poll_set sv) rv" and ?p1 = "p\<lparr>kern := w\<rparr>"
  have al: "aligned (sv_clients sv) ?pfs" by (rule aligned_polled)
  have acc1: "accounts ?p1 (h + server_held sv)" using acc by (simp add: accounts_def)
  note iter = server_iter_polled [OF ok(1)]
  show ?thesis
  proof (cases "rv 0 AND POLLIN \<noteq> 0")
    case False
    with it iter handle_ready_ok [OF _ wf al acc1 lawful] show ?thesis by simp
  next
    case True
    with it iter obtain ra sv1 pfs1 p2 where a: "accept_client os sv ?pfs ?p1 = Some (ra, sv1, pfs1, p2)"
      by (auto split: option.splits)
    note ok1 = accept_client_ok [OF a wf al acc1]
    show ?thesis
    proof (cases ra)
      case (Inl e)
      with it iter a True ok1 show ?thesis by (auto simp: iter_ok_def)
    next
      case (Inr u)
      with it iter a True ok1 handle_ready_ok [of os sv1 "int n - 1" pfs1 p2 r sv' q h] lawful show ?thesis
        by (auto simp: iter_ok_def split: if_splits)
    qed
  qed
qed

section \<open>Every reported client is served\<close>

context control_effect begin

lemma R_destroy_clients: "R p (destroy_clients os cs p)"
proof (induction cs arbitrary: p)
  case Nil
  then show ?case by (simp add: R_refl)
next
  case (Cons c cs)
  show ?case using R_trans [OF R_fd_destroy Cons] by simp
qed

lemma R_server_stop: "server_stop os sv p = (sv', q) \<Longrightarrow> R (destroy_clients os (sv_clients sv) p) q"
  using R_trans [OF R_fd_reset R_fd_reset]
  by (auto simp: server_stop_def Let_def case_prod_beta)

lemma R_accept_client: "accept_client os sv pfs p = Some (r, sv', pfs', q) \<Longrightarrow> R p q"
  using R_accept_socket [of "fd_get (sv_listenfd sv)" p] R_close_fd R_fd_destroy
  by (auto simp: accept_client_def split: option.splits sum.splits prod.splits if_splits
      intro: R_trans) (metis R_trans snd_conv)+

end

lemma served_destroyed:
  "clients_wf cs \<Longrightarrow> fd \<in> set (client_fds cs) \<Longrightarrow> served_since p fd (destroy_clients os cs p)"
proof (induction cs arbitrary: p)
  case (Cons c cs)
  have valid: "0 \<le> fd_get (ci_fd c)" and wf: "clients_wf cs"
    using Cons.prems(1) by (simp_all add: clients_wf_def client_wf_def)
  show ?case
  proof (cases "fd = fd_get (ci_fd c)")
    case True
    with served_later [OF served_destroy [OF valid] grows.R_destroy_clients] show ?thesis by simp
  next
    case False
    with Cons.prems(2) have "fd \<in> set (client_fds cs)" by (simp add: client_fds_def)
    with served_now [OF grows.R_fd_destroy Cons.IH [OF wf]] show ?thesis by simp
  qed
qed (simp add: client_fds_def)

lemma handle_ready_fair:
  assumes "handle_ready os sv nready pfs p = Some (Inr fl, sv', q)"
    and wf: "clients_wf (sv_clients sv)" and al: "aligned (sv_clients sv) pfs"
    and rep: "\<forall>pf \<in> set pfs. reported pf" and count: "int (size (waiting 0 pfs)) \<le> nready"
    and lawful: "reads_bounded os"
    and j: "j < length (sv_clients sv)" "pfd_revents (pfs ! (j + 2)) \<noteq> 0"
  shows "served_since p (fd_get (ci_fd (sv_clients sv ! j))) q"
proof -
  have get: "vec_get pfs 1 = Inr (pfs ! 1)" using al by (simp add: aligned_def)
  show ?thesis
  proof (cases "pfd_revents (pfs ! 1) AND POLLIN = 0")
    case True
    with assms(1) get obtain ri cs pfs1 where "client_loop os 0 nready (sv_clients sv) pfs p = Some (Inr ri, cs, pfs1, q)"
      by (auto simp: handle_ready_def handle_clients_def split: option.splits sum.splits)
    then show ?thesis
      using client_loop_fair [of os nready "sv_clients sv" pfs p "fst ri" "snd ri"] wf al rep count lawful j
      by simp
  next
    case False
    with assms(1) get obtain k bs p1 where r: "read_fd os (fd_get (sv_signalfd sv)) sizeof_siginfo p = (Inr (k, bs), p1)"
      and s: "server_stop os sv p1 = (sv', q)"
      by (auto simp: handle_ready_def handle_signal_def split: sum.splits prod.splits if_splits)
    have "fd_get (ci_fd (sv_clients sv ! j)) \<in> set (client_fds (sv_clients sv))"
      using j(1) by (simp add: client_fds_def)
    from served_destroyed [OF wf this] have "served_since p1 (fd_get (ci_fd (sv_clients sv ! j))) q"
      using served_later grows.R_server_stop [OF s] by blast
    then show ?thesis by (rule served_now [OF grows.R_readfdD [OF r]])
  qed
qed

lemma server_iter_fair:
  assumes it: "server_iter os sv p = Some (Inr fl, sv', q)"
    and poll: "os_poll os (poll_set sv) (- 1) (kern p) = (Inr (n, rv), w)"
    and wf: "server_wf sv" and lawful: "reads_bounded os" "poll_counts os" "poll_reports_requested os"
    and j: "j < length (sv_clients sv)" "rv (j + 2) \<noteq> 0"
  shows "served_since p (fd_get (ci_fd (sv_clients sv ! j))) q"
proof -
  let ?pfs = "set_revents (poll_set sv) rv" and ?p1 = "p\<lparr>kern := w\<rparr>"
  have al: "aligned (sv_clients sv) ?pfs" by (rule aligned_polled)
  have rep: "\<forall>pf \<in> set ?pfs. reported pf" using reported_polled [OF lawful(3) poll] .
  have n: "n = (if rv 0 \<noteq> 0 then 1 else 0) + (if rv 1 \<noteq> 0 then 1 else 0) + size (waiting 0 ?pfs)"
    using polled_count [OF lawful(2) poll] .
  have cw: "clients_wf (sv_clients sv)" using wf by (simp add: server_wf_def)
  have jrev: "pfd_revents (?pfs ! (j + 2)) \<noteq> 0" using j by simp
  have same: "served_since p fd q \<longleftrightarrow> served_since ?p1 fd q" for fd by (simp add: served_since_def)
  show ?thesis
  proof (cases "rv 0 AND POLLIN = 0")
    case True
    then have "handle_ready os sv (int n) ?pfs ?p1 = Some (Inr fl, sv', q)"
      using it server_iter_polled [OF poll] by simp
    from handle_ready_fair [OF this cw al rep _ lawful(1) j(1) jrev] n show ?thesis by (simp add: same)
  next
    case False
    with it server_iter_polled [OF poll] obtain sv1 pfs1 p2
      where a: "accept_client os sv ?pfs ?p1 = Some (Inr (), sv1, pfs1, p2)"
        and rest: "if int n - 1 \<le> 0 then sv' = sv1 \<and> q = p2 else handle_ready os sv1 (int n - 1) pfs1 p2 = Some (Inr fl, sv', q)"
      by (auto split: option.splits sum.splits if_splits)
    have count: "int (size (waiting 0 ?pfs)) \<le> int n - 1" using n False by (auto split: if_splits)
    have "?pfs ! (j + 2) \<in># waiting 0 ?pfs" using j(1) by (intro in_waiting [OF _ jrev]) simp
    then have "0 < size (waiting 0 ?pfs)" using nonempty_has_size by force
    with count have "\<not> int n - 1 \<le> 0" by linarith
    with rest have ready: "handle_ready os sv1 (int n - 1) pfs1 p2 = Some (Inr fl, sv', q)" by simp
    have new: "sv_clients sv1 ! j = sv_clients sv ! j \<and> j < length (sv_clients sv1) \<and> clients_wf (sv_clients sv1)
        \<and> aligned (sv_clients sv1) pfs1 \<and> (\<forall>pf \<in> set pfs1. reported pf)
        \<and> waiting 0 pfs1 = waiting 0 ?pfs \<and> pfs1 ! (j + 2) = ?pfs ! (j + 2)"
      using a
    proof (cases rule: accept_client_cases)
      case (accepted fd b)
      moreover have "aligned (sv_clients sv1) pfs1"
        using al accepted(6,7) by (simp add: aligned_def client_fds_def)
      ultimately show ?thesis
        using j(1) cw rep
        by (simp add: nth_append clients_wf_def client_wf_def reported_def waiting_def)
    qed (use j(1) cw al rep in simp_all)
    have "served_since p2 (fd_get (ci_fd (sv_clients sv ! j))) q"
      using handle_ready_fair [OF ready _ _ _ _ lawful(1), of j] new count jrev by simp
    from served_now [OF grows.R_accept_client [OF a] this] show ?thesis by (simp add: same)
  qed
qed

section \<open>An iteration returns\<close>

lemma accept_client_returns: "aborts_finite os a \<Longrightarrow> accept_client os sv pfs p \<noteq> None"
  using accept_socket_returns [of os a "fd_get (sv_listenfd sv)" p] client_info_move_init
  by (auto simp: accept_client_def split: option.splits sum.splits prod.splits)

lemma handle_ready_returns:
  assumes "clients_wf (sv_clients sv)" and "aligned (sv_clients sv) pfs" and "reads_bounded os"
    and "writes_bounded os" and "interrupts_finite os m"
  shows "handle_ready os sv nready pfs p \<noteq> None"
proof -
  have "vec_get pfs 1 = Inr (pfs ! 1)" using assms(2) by (simp add: aligned_def)
  with client_loop_returns [OF assms, of 0 nready p] show ?thesis
    by (auto simp: handle_ready_def handle_clients_def split: sum.splits) (metis prod_cases3)
qed

lemma server_iter_returns:
  assumes wf: "server_wf sv" "sv_running sv" and lawful: "reads_bounded os" "writes_bounded os"
    and prompt: "interrupts_finite os m" "aborts_finite os a"
  shows "server_iter os sv p \<noteq> None"
proof (cases rule: c_poll_cases [of os "poll_set sv" "- 1" p])
  case (error e w)
  then show ?thesis by (simp add: server_iter_def)
next
  case (ok n r w)
  let ?pfs = "set_revents (poll_set sv) r"
  have cw: "clients_wf (sv_clients sv)" using wf by (simp add: server_wf_def)
  obtain ra sv1 pfs1 p2 where a: "accept_client os sv ?pfs (p\<lparr>kern := w\<rparr>) = Some (ra, sv1, pfs1, p2)"
    using accept_client_returns [OF prompt(2), of sv ?pfs "p\<lparr>kern := w\<rparr>"] by auto
  have "clients_wf (sv_clients sv1) \<and> aligned (sv_clients sv1) pfs1"
    using a
  proof (cases rule: accept_client_cases)
    case (accepted fd b)
    with cw aligned_polled [of sv r] show ?thesis
      by (simp add: aligned_def client_fds_def clients_wf_def client_wf_def)
  qed (use cw aligned_polled [of sv r] in simp_all)
  then have "handle_ready os sv1 (int n - 1) pfs1 p2 \<noteq> None"
    using handle_ready_returns lawful prompt(1) by blast
  moreover have "handle_ready os sv (int n) ?pfs (p\<lparr>kern := w\<rparr>) \<noteq> None"
    using handle_ready_returns [OF cw aligned_polled] lawful prompt(1) by blast
  ultimately show ?thesis
    using server_iter_polled [OF ok(1)] a by (auto split: sum.splits)
qed

section \<open>The life of a server\<close>

text \<open>
  The states a \<^verbatim>\<open>ChatServer\<close> can be in, from a process that has done nothing yet:
  constructed, and after any sequence of runs, iterations of the event loop and stops, with
  whatever results.
\<close>

inductive server_reach :: "'w os \<Rightarrow> server \<Rightarrow> 'w proc \<Rightarrow> bool" for os where
  constructed: "trace p = [] \<Longrightarrow> server_reach os server_default p"
| constructed_port: "trace p = [] \<Longrightarrow> server_reach os (server_with_port n) p"
| ran: "server_reach os sv p \<Longrightarrow> server_run os sv p = (r, sv', q) \<Longrightarrow> server_reach os sv' q"
| iterated: "server_reach os sv p \<Longrightarrow> sv_running sv \<Longrightarrow> server_iter os sv p = Some (r, sv', q) \<Longrightarrow>
    server_reach os sv' q"
| stopped: "server_reach os sv p \<Longrightarrow> server_stop os sv p = (sv', q) \<Longrightarrow> server_reach os sv' q"

lemma accounts_init: "trace p = [] \<Longrightarrow> accounts p {#}"
  by (simp add: accounts_def)

lemma server_run_ok:
  assumes "server_run os sv p = (r, sv', q)" and "server_wf sv" and "accounts p (h + server_held sv)"
  shows "server_wf sv' \<and> accounts q (h + server_held sv')"
proof (cases "sv_running sv")
  case True
  with assms show ?thesis by (simp add: server_run_def)
next
  case False
  with assms(2) have off: "server_held sv = {#}" "sv_clients sv = []"
    by (simp_all add: server_held_def server_wf_def client_fds_def)
  show ?thesis
    using server_run_owned [OF assms(1) False assms(2), of h] assms(2,3) off
    by (auto simp: server_wf_def server_held_def fd_valid_def client_fds_def clients_wf_def add_mset_commute
        split: sum.splits)
qed

lemma server_reach_ok:
  assumes "server_reach os sv p" and lawful: "reads_bounded os"
  shows "server_wf sv \<and> accounts p (server_held sv)"
  using assms(1)
proof induction
  case (ran sv p r sv' q)
  with server_run_ok [of os sv p r sv' q "{#}"] show ?case by simp
next
  case (iterated sv p r sv' q)
  with server_iter_ok [of os sv p r sv' q "{#}"] lawful show ?case by (simp add: iter_ok_def)
next
  case (stopped sv p sv' q)
  then have "clients_wf (sv_clients sv)" and "accounts p ({#} + server_held sv)" by (simp_all add: server_wf_def)
  from server_stop_owned [OF this, of os] stopped show ?case
    by (auto simp: server_wf_def server_held_def clients_wf_def client_fds_def)
qed (simp_all add: accounts_init)

text \<open>The event loop is a sequence of iterations.\<close>

lemma server_loop_rule:
  assumes run: "server_loop os sv p = Some res" and init: "P sv p"
    and step: "\<And>sv p r sv1 p1. P sv p \<Longrightarrow> sv_running sv \<Longrightarrow> server_iter os sv p = Some (r, sv1, p1) \<Longrightarrow> P sv1 p1"
  shows "P (fst (snd res)) (snd (snd res)) \<and>
    (case fst res of
       Inl e \<Rightarrow> \<exists>sv0 p0. P sv0 p0 \<and> sv_running sv0 \<and> server_iter os sv0 p0 = Some (Inl e, snd res)
     | Inr _ \<Rightarrow> \<not> sv_running (fst (snd res)) \<or>
         (\<exists>sv0 p0. P sv0 p0 \<and> sv_running sv0 \<and> server_iter os sv0 p0 = Some (Inr Break, snd res)))"
    (is "?good res")
proof -
  have "os' = os \<longrightarrow> P sv' p' \<longrightarrow> ?good res'" if "server_loop os' sv' p' = Some res'" for os' sv' p' res'
    using that
  proof (rule server_loop.raw_induct [rotated])
    fix f :: "'a os \<Rightarrow> server \<Rightarrow> 'a proc \<Rightarrow> ((exn + unit) \<times> server \<times> 'a proc) option" and os' sv' p' res'
    assume IH: "\<And>os' sv' p' res'. f os' sv' p' = Some res' \<Longrightarrow> os' = os \<longrightarrow> P sv' p' \<longrightarrow> ?good res'"
      and eq: "(if \<not> sv_running sv' then Some (Inr (), sv', p')
        else case server_iter os' sv' p' of None \<Rightarrow> None
          | Some (r, sv1, p1) \<Rightarrow> case r of Inl e \<Rightarrow> Some (Inl e, sv1, p1)
              | Inr Continue \<Rightarrow> f os' sv1 p1 | Inr Break \<Rightarrow> Some (Inr (), sv1, p1)) = Some res'"
    show "os' = os \<longrightarrow> P sv' p' \<longrightarrow> ?good res'"
    proof (intro impI)
      assume os: "os' = os" and P: "P sv' p'"
      show "?good res'"
      proof (cases "sv_running sv'")
        case False
        with eq P show ?thesis by auto
      next
        case True
        with eq os obtain r sv1 p1 where it: "server_iter os sv' p' = Some (r, sv1, p1)"
          by (auto split: option.splits)
        note P1 = step [OF P True it]
        consider e where "r = Inl e" | "r = Inr Break" | "r = Inr Continue"
          by (metis flow.exhaust sum.exhaust)
        then show ?thesis
        proof cases
          case (1 e)
          with eq os it True have "res' = (Inl e, sv1, p1)" by simp
          with 1 it True P P1 show ?thesis by simp blast
        next
          case 2
          with eq os it True have "res' = (Inr (), sv1, p1)" by simp
          with 2 it True P P1 show ?thesis by simp blast
        next
          case 3
          with eq os it True have "f os sv1 p1 = Some res'" by simp
          with IH P1 show ?thesis by blast
        qed
      qed
    qed
  qed
  with run init show ?thesis by blast
qed

text \<open>
  When the event loop ends, either an exception left it, from a state that still accounts for
  every descriptor, or a signal did, and then everything is closed.
\<close>

lemma server_event_loop_ok:
  assumes run: "server_event_loop os sv p = Some (r, sv', q)" and "server_reach os sv p" and "sv_running sv"
    and lawful: "reads_bounded os"
  shows "server_reach os sv' q \<and>
    (case r of Inl e \<Rightarrow> io_error e \<and> sv_running sv' | Inr _ \<Rightarrow> \<not> sv_running sv' \<and> accounts q {#})"
proof -
  have l: "server_loop os sv p = Some (r, sv', q)" using run assms(3) by (simp add: server_event_loop_def)
  have end_: "server_reach os sv' q \<and>
    (case r of
       Inl e \<Rightarrow> \<exists>sv0 p0. server_reach os sv0 p0 \<and> sv_running sv0 \<and> server_iter os sv0 p0 = Some (Inl e, sv', q)
     | Inr _ \<Rightarrow> \<not> sv_running sv' \<or> (\<exists>sv0 p0. server_reach os sv0 p0 \<and> sv_running sv0 \<and>
         server_iter os sv0 p0 = Some (Inr Break, sv', q)))"
    using server_loop_rule [where P = "server_reach os", OF l assms(2)] server_reach.iterated
    by (simp cong: sum.case_cong) blast
  then have reach: "server_reach os sv' q" by blast
  have iter: "iter_ok {#} r0 sv' q" if "server_reach os sv0 p0" "sv_running sv0" "server_iter os sv0 p0 = Some (r0, sv', q)" for r0 sv0 p0
    using server_iter_ok [OF that(3) _ that(2) _ lawful, of "{#}"] server_reach_ok [OF that(1) lawful] by simp
  show ?thesis
  proof (cases r)
    case (Inl e)
    with end_ iter reach show ?thesis by (fastforce simp: iter_ok_def)
  next
    case (Inr u)
    with end_ have "\<not> sv_running sv' \<or> (\<exists>sv0 p0. server_reach os sv0 p0 \<and> sv_running sv0 \<and>
        server_iter os sv0 p0 = Some (Inr Break, sv', q))" by simp
    then have "\<not> sv_running sv'" using iter by (fastforce simp: iter_ok_def)
    moreover from this server_reach_ok [OF reach lawful] have "accounts q {#}"
      using server_held_off [of sv'] by auto
    ultimately show ?thesis using Inr reach by simp
  qed
qed

text \<open>No descriptor is held twice, so no two clients share one.\<close>

lemma distinct_mset_le: "(\<And>x. count (mset xs) x \<le> 1) \<Longrightarrow> distinct xs"
proof (induction xs)
  case (Cons x xs)
  from Cons.prems [of x] have "x \<notin> set xs" by (simp add: count_eq_zero_iff flip: set_mset_mset)
  moreover have "count (mset xs) y \<le> 1" for y
    by (rule order_trans [OF _ Cons.prems [of y]]) simp
  ultimately show ?case using Cons.IH by simp
qed simp

lemma server_reach_distinct:
  assumes "server_reach os sv p" and "reads_bounded os" and "fresh_opens is_open (trace p)"
  shows "distinct (client_fds (sv_clients sv))"
proof (rule distinct_mset_le)
  fix fd
  have "accounts p (server_held sv)" using server_reach_ok [OF assms(1,2)] by simp
  from held_once [OF this assms(3), of fd] have "count (server_held sv) fd \<le> 1" by (simp split: if_splits)
  then show "count (mset (client_fds (sv_clients sv))) fd \<le> 1"
    by (simp add: server_held_def)
qed

end
