(* ===== verification/Chat_Client.thy ===== *)
theory Chat_Client
  imports Buffer_Correct Net_Utils
begin

unbundle bit_operations_syntax

text \<open>
  \<^verbatim>\<open>include/chat_client.hpp\<close> and \<^verbatim>\<open>src/chat_client.cpp\<close>: the
  client's connection, its name, and the event loop that copies lines from the standard input
  to the server and from the server to the standard output.
\<close>

section \<open>State\<close>

record client =
  cl_connected :: bool
  cl_fd :: scoped_fd
  cl_signalfd :: scoped_fd
  cl_address :: socket_address
  cl_name :: bytes
  cl_read_buffer :: buffer
  cl_write_buffer :: buffer

definition max_name_len :: nat where
  "max_name_len = 32"

definition client_default :: client where
  "client_default =
     \<lparr>cl_connected = False, cl_fd = scoped_fd_default, cl_signalfd = scoped_fd_default,
      cl_address = default_address, cl_name = ''No Name'',
      cl_read_buffer = buf_default, cl_write_buffer = buf_default\<rparr>"

text \<open>
  \<^verbatim>\<open>inet_pton\<close> stores the four bytes of an \<^verbatim>\<open>in_addr\<close> at the
  address of the \<^verbatim>\<open>unsigned long\<close> member: on a little-endian machine its low
  half.
\<close>

definition store_in_addr :: "32 word \<Rightarrow> 64 word \<Rightarrow> 64 word" where
  "store_in_addr addr ip = (ip AND 0xFFFFFFFF00000000) OR ucast addr"

definition client_with_ip :: "'w os \<Rightarrow> bytes \<Rightarrow> 'w proc \<Rightarrow> (exn + client) \<times> 'w proc" where
  "client_with_ip os ip p =
     (case inet_pton_socket os AF_INET ip p of
        (Inl e, p1) \<Rightarrow> (Inl e, p1)
      | (Inr addr, p1) \<Rightarrow>
          (Inr (client_default\<lparr>cl_address :=
             default_address\<lparr>ip_address := store_in_addr addr (ip_address default_address)\<rparr>\<rparr>), p1))"

definition client_set_name :: "bytes \<Rightarrow> client \<Rightarrow> exn + client" where
  "client_set_name name cl =
     (if name = [] then Inl (InvalidArgument ''client name cannot be empty'')
      else if length name > max_name_len then Inl (LengthError ''client name exceeds maximum length'')
      else Inr (cl\<lparr>cl_name := name\<rparr>))"

definition client_with_ip_name :: "'w os \<Rightarrow> bytes \<Rightarrow> bytes \<Rightarrow> 'w proc \<Rightarrow> (exn + client) \<times> 'w proc" where
  "client_with_ip_name os ip name p =
     (case client_with_ip os ip p of
        (Inl e, p1) \<Rightarrow> (Inl e, p1)
      | (Inr cl, p1) \<Rightarrow> (client_set_name name cl, p1))"

definition client_is_connected :: "client \<Rightarrow> bool" where
  "client_is_connected cl = cl_connected cl"

definition client_get_name :: "client \<Rightarrow> bytes" where
  "client_get_name cl = cl_name cl"

section \<open>Start and stop\<close>

definition client_setup_signal_fd ::
  "'w os \<Rightarrow> client \<Rightarrow> 'w proc \<Rightarrow> (exn + unit) \<times> client \<times> 'w proc" where
  "client_setup_signal_fd os cl p =
     (case c_block_signals os p of (r, p1) \<Rightarrow>
        if r = - 1
        then (Inl (SystemError (errno_of p1) ''failed to block signals using sigprocmask''), cl, p1)
        else
          (case c_signalfd os p1 of (fd, p2) \<Rightarrow>
             if fd = - 1 then (Inl (SystemError (errno_of p2) ''failed to create signalfd''), cl, p2)
             else
               (case fd_move_assign os False (cl_signalfd cl) (ScopedFd fd) p2 of ((s, tmp), p3) \<Rightarrow>
                  (Inr (), cl\<lparr>cl_signalfd := s\<rparr>, fd_destroy os tmp p3))))"

text \<open>
  An exception after \<^verbatim>\<open>setup_signal_fd\<close> closes the socket through
  \<^verbatim>\<open>temp_socket\<close>; the signal descriptor stays in the member.
\<close>

definition client_run ::
  "'w os \<Rightarrow> client \<Rightarrow> 'w proc \<Rightarrow> ((exn + unit) \<times> client \<times> 'w proc) option" where
  "client_run os cl p =
     (if cl_connected cl then Some (Inl (LogicError ''client is already connected''), cl, p)
      else
        (let servaddr = to_sockaddr os (cl_address cl) in
        (case create_socket os AF_INET SOCK_STREAM 0 p of
           (Inl e, p1) \<Rightarrow> Some (Inl e, cl, p1)
         | (Inr fd, p1) \<Rightarrow>
        (let temp_socket = ScopedFd fd in
        (case connect_socket os (fd_get temp_socket) servaddr p1 of
           (Inl e, p2) \<Rightarrow> Some (Inl e, cl, fd_destroy os temp_socket p2)
         | (Inr _, p2) \<Rightarrow>
        (case client_setup_signal_fd os cl p2 of
           (Inl e, cl1, p3) \<Rightarrow> Some (Inl e, cl1, fd_destroy os temp_socket p3)
         | (Inr _, cl1, p3) \<Rightarrow>
        (let name = cl_name cl1 @ [newline] in
        (case write_full os (fd_get temp_socket) name (of_nat (length name)) p3 of
           None \<Rightarrow> None
         | Some (Inl e, p4) \<Rightarrow> Some (Inl e, cl1, fd_destroy os temp_socket p4)
         | Some (Inr _, p4) \<Rightarrow>
        (case fd_move_assign os False (cl_fd cl1) temp_socket p4 of ((f, tmp), p5) \<Rightarrow>
           Some (Inr (), cl1\<lparr>cl_fd := f, cl_connected := True\<rparr>, fd_destroy os tmp p5))))))))))"

definition client_stop :: "'w os \<Rightarrow> client \<Rightarrow> 'w proc \<Rightarrow> client \<times> 'w proc" where
  "client_stop os cl p =
     (case fd_reset os (cl_signalfd cl) (- 1) p of (s, p1) \<Rightarrow>
     (case fd_reset os (cl_fd cl) (- 1) p1 of (f, p2) \<Rightarrow>
        (cl\<lparr>cl_signalfd := s, cl_fd := f, cl_connected := False\<rparr>, p2)))"

definition client_destroy :: "'w os \<Rightarrow> client \<Rightarrow> 'w proc \<Rightarrow> 'w proc" where
  "client_destroy os cl p = fd_destroy os (cl_fd cl) (fd_destroy os (cl_signalfd cl) p)"

section \<open>The event loop\<close>

definition client_poll_set :: "client \<Rightarrow> pollfd list" where
  "client_poll_set cl =
     [\<lparr>pfd_fd = STDIN_FILENO, pfd_events = POLLIN, pfd_revents = 0\<rparr>,
      \<lparr>pfd_fd = fd_get (cl_fd cl), pfd_events = POLLIN, pfd_revents = 0\<rparr>,
      \<lparr>pfd_fd = fd_get (cl_signalfd cl), pfd_events = POLLIN, pfd_revents = 0\<rparr>]"

text \<open>The standard input is ready: a read of no bytes is taken for its end.\<close>

definition client_stdin :: "'w os \<Rightarrow> client \<Rightarrow> 'w proc \<Rightarrow> ((exn + flow) \<times> client \<times> 'w proc) option" where
  "client_stdin os cl p =
     (case read_fd os STDIN_FILENO (size_of_int (buf_free_space (cl_write_buffer cl))) p of
        (Inl e, p1) \<Rightarrow> Some (Inl e, cl, p1)
      | (Inr (n, bs), p1) \<Rightarrow>
     (case buf_store (buf_size (cl_write_buffer cl)) bs (cl_write_buffer cl) of
        Inl e \<Rightarrow> Some (Inl e, cl, p1)
      | Inr b1 \<Rightarrow>
     (let cl1 = cl\<lparr>cl_write_buffer := b1\<rparr> in
      if n = 0 then (case client_stop os cl1 p1 of (cl2, p2) \<Rightarrow> Some (Inr Break, cl2, p2))
      else
        (case buf_increase_size n b1 of
           Inl e \<Rightarrow> Some (Inl e, cl1, p1)
         | Inr b2 \<Rightarrow>
        (case buf_consume_full_fd_nl (write_full os) (fd_get (cl_fd cl1)) b2 p1 of
           None \<Rightarrow> None
         | Some (Inl e, b3, p2) \<Rightarrow> Some (Inl e, cl1\<lparr>cl_write_buffer := b3\<rparr>, p2)
         | Some (Inr _, b3, p2) \<Rightarrow> Some (Inr Continue, cl1\<lparr>cl_write_buffer := b3\<rparr>, p2))))))"

text \<open>The server's socket is ready.\<close>

definition client_server :: "'w os \<Rightarrow> client \<Rightarrow> 'w proc \<Rightarrow> (exn + unit) \<times> client \<times> 'w proc" where
  "client_server os cl p =
     (case read_fd os (fd_get (cl_fd cl)) (size_of_int (buf_free_space (cl_read_buffer cl))) p of
        (Inl e, p1) \<Rightarrow> (Inl e, cl, p1)
      | (Inr (n, bs), p1) \<Rightarrow>
     (case buf_store (buf_size (cl_read_buffer cl)) bs (cl_read_buffer cl) of
        Inl e \<Rightarrow> (Inl e, cl, p1)
      | Inr b1 \<Rightarrow>
     (let cl1 = cl\<lparr>cl_read_buffer := b1\<rparr> in
     (case buf_increase_size n b1 of
        Inl e \<Rightarrow> (Inl e, cl1, p1)
      | Inr b2 \<Rightarrow>
     (case buf_consume_full_nl b2 of
        Inl e \<Rightarrow> (Inl e, cl\<lparr>cl_read_buffer := b2\<rparr>, p1)
      | Inr (server_messages, b3) \<Rightarrow>
          (Inr (), cl\<lparr>cl_read_buffer := b3\<rparr>,
           if length server_messages > 0 then emit (EvStdout server_messages) p1 else p1))))))"

definition client_signal :: "'w os \<Rightarrow> client \<Rightarrow> 'w proc \<Rightarrow> (exn + flow) \<times> client \<times> 'w proc" where
  "client_signal os cl p =
     (case read_fd os (fd_get (cl_signalfd cl)) sizeof_siginfo p of
        (Inl e, p1) \<Rightarrow> (Inl e, cl, p1)
      | (Inr (n, _), p1) \<Rightarrow>
          if n \<noteq> int sizeof_siginfo then (Inl (RuntimeError ''failed to read signalfd''), cl, p1)
          else (case client_stop os cl p1 of (cl1, p2) \<Rightarrow> (Inr Break, cl1, p2)))"

text \<open>The three checks after a \<^verbatim>\<open>poll\<close>, in the code's order.\<close>

definition ready_at :: "nat \<Rightarrow> pollfd list \<Rightarrow> exn + bool" where
  "ready_at k pfs =
     (case vec_get pfs k of Inl e \<Rightarrow> Inl e | Inr pf \<Rightarrow> Inr (pfd_revents pf AND POLLIN \<noteq> 0))"

definition client_check_stdin ::
  "'w os \<Rightarrow> client \<Rightarrow> pollfd list \<Rightarrow> 'w proc \<Rightarrow> ((exn + flow) \<times> client \<times> 'w proc) option" where
  "client_check_stdin os cl pfs p =
     (case ready_at 0 pfs of
        Inl e \<Rightarrow> Some (Inl e, cl, p)
      | Inr ready \<Rightarrow> if ready then client_stdin os cl p else Some (Inr Continue, cl, p))"

definition client_check_server ::
  "'w os \<Rightarrow> client \<Rightarrow> pollfd list \<Rightarrow> 'w proc \<Rightarrow> (exn + unit) \<times> client \<times> 'w proc" where
  "client_check_server os cl pfs p =
     (case ready_at 1 pfs of
        Inl e \<Rightarrow> (Inl e, cl, p)
      | Inr ready \<Rightarrow> if ready then client_server os cl p else (Inr (), cl, p))"

definition client_check_signal ::
  "'w os \<Rightarrow> client \<Rightarrow> pollfd list \<Rightarrow> 'w proc \<Rightarrow> (exn + flow) \<times> client \<times> 'w proc" where
  "client_check_signal os cl pfs p =
     (case ready_at 2 pfs of
        Inl e \<Rightarrow> (Inl e, cl, p)
      | Inr ready \<Rightarrow> if ready then client_signal os cl p else (Inr Continue, cl, p))"

definition client_handle_ready ::
  "'w os \<Rightarrow> client \<Rightarrow> pollfd list \<Rightarrow> 'w proc \<Rightarrow> ((exn + flow) \<times> client \<times> 'w proc) option" where
  "client_handle_ready os cl pfs p =
     (case client_check_stdin os cl pfs p of
        None \<Rightarrow> None
      | Some (Inl e, cl1, p1) \<Rightarrow> Some (Inl e, cl1, p1)
      | Some (Inr Break, cl1, p1) \<Rightarrow> Some (Inr Break, cl1, p1)
      | Some (Inr Continue, cl1, p1) \<Rightarrow>
          (case client_check_server os cl1 pfs p1 of
             (Inl e, cl2, p2) \<Rightarrow> Some (Inl e, cl2, p2)
           | (Inr _, cl2, p2) \<Rightarrow> Some (client_check_signal os cl2 pfs p2)))"

text \<open>
  The array of \<^verbatim>\<open>pollfd\<close>s is built once, before the loop; every iteration gives
  the same array to \<^verbatim>\<open>poll\<close> again.
\<close>

definition client_iter ::
  "'w os \<Rightarrow> client \<Rightarrow> pollfd list \<Rightarrow> 'w proc \<Rightarrow>
   ((exn + flow) \<times> client \<times> pollfd list \<times> 'w proc) option" where
  "client_iter os cl pfs p =
     (case c_poll os pfs (- 1) p of ((nready, pfs1), p1) \<Rightarrow>
        if nready < 0 then
          (if errno_of p1 = EINTR then Some (Inr Continue, cl, pfs1, p1)
           else Some (Inl (RuntimeError ''poll failed''), cl, pfs1, p1))
        else
          (case client_handle_ready os cl pfs1 p1 of
             None \<Rightarrow> None
           | Some (r, cl1, p2) \<Rightarrow> Some (r, cl1, pfs1, p2)))"

partial_function (option) client_event_iterations ::
  "'w os \<Rightarrow> client \<Rightarrow> pollfd list \<Rightarrow> 'w proc \<Rightarrow> ((exn + unit) \<times> client \<times> 'w proc) option" where
  "client_event_iterations os cl pfs p =
     (if \<not> cl_connected cl then Some (Inr (), cl, p)
      else
        (case client_iter os cl pfs p of
           None \<Rightarrow> None
         | Some (r, cl1, pfs1, p1) \<Rightarrow>
             (case r of
                Inl e \<Rightarrow> Some (Inl e, cl1, p1)
              | Inr Break \<Rightarrow> Some (Inr (), cl1, p1)
              | Inr Continue \<Rightarrow> client_event_iterations os cl1 pfs1 p1)))"

declare client_event_iterations.simps [code]

definition client_event_loop ::
  "'w os \<Rightarrow> client \<Rightarrow> 'w proc \<Rightarrow> ((exn + unit) \<times> client \<times> 'w proc) option" where
  "client_event_loop os cl p =
     (if \<not> cl_connected cl then Some (Inl (LogicError ''client is not running''), cl, p)
      else client_event_iterations os cl (client_poll_set cl) p)"

end
