(* ===== verification/Client_Correct.thy ===== *)
theory Client_Correct
  imports Chat_Client
begin

unbundle bit_operations_syntax

text \<open>
  What the client does with the bytes: the complete lines of the standard input reach the
  server, the complete lines of the server reach the standard output, each in order, once and
  unchanged, however the reads cut the streams. Its members stay well formed and account for
  its descriptors.
\<close>

section \<open>The invariant of the class\<close>

definition cl_wf :: "client \<Rightarrow> bool" where
  "cl_wf cl \<longleftrightarrow> buf_wf (cl_read_buffer cl) \<and> buf_wf (cl_write_buffer cl)
     \<and> 0 < length (cl_name cl) \<and> length (cl_name cl) \<le> max_name_len
     \<and> (if cl_connected cl then fd_valid (cl_fd cl) \<and> fd_valid (cl_signalfd cl)
        else cl_fd cl = ScopedFd (- 1))"

text \<open>Between iterations no complete line waits in either buffer.\<close>

definition cl_idle :: "client \<Rightarrow> bool" where
  "cl_idle cl \<longleftrightarrow> newline \<notin> set (content (cl_read_buffer cl)) \<and> newline \<notin> set (content (cl_write_buffer cl))"

definition client_held :: "client \<Rightarrow> int multiset" where
  "client_held cl = fds_of (cl_fd cl) + fds_of (cl_signalfd cl)"

lemma cl_wf_default [simp, wf_intros]: "cl_wf client_default"
  by (simp add: cl_wf_def client_default_def max_name_len_def scoped_fd_default_def)

lemma client_held_default [simp]: "client_held client_default = {#}"
  by (simp add: client_held_def client_default_def)

section \<open>What moves between the outside and the buffers\<close>

text \<open>
  \<open>client_io fd I S R P p q\<close>: between \<open>p\<close> and \<open>q\<close> the program read \<open>I\<close> from the standard
  input, sent \<open>S\<close> on \<open>fd\<close>, received \<open>R\<close> from it and printed \<open>P\<close>.
\<close>

definition client_io :: "int \<Rightarrow> bytes \<Rightarrow> bytes \<Rightarrow> bytes \<Rightarrow> bytes \<Rightarrow> 'w proc \<Rightarrow> 'w proc \<Rightarrow> bool" where
  "client_io fd I S R P p q \<longleftrightarrow>
     received_on STDIN_FILENO (trace q) = received_on STDIN_FILENO (trace p) @ I
     \<and> sent_on fd (trace q) = sent_on fd (trace p) @ S
     \<and> received_on fd (trace q) = received_on fd (trace p) @ R
     \<and> printed (trace q) = printed (trace p) @ P"

lemma client_io_refl [simp]: "trace q = trace p \<Longrightarrow> client_io fd [] [] [] [] p q"
  by (simp add: client_io_def)

lemma client_io_trans:
  "client_io fd I S R P p q \<Longrightarrow> client_io fd I' S' R' P' q r \<Longrightarrow>
   client_io fd (I @ I') (S @ S') (R @ R') (P @ P') p r"
  by (simp add: client_io_def)

lemma client_io_stdin:
  "read_fd os STDIN_FILENO n p = (Inr (k, bs), q) \<Longrightarrow> fd \<noteq> STDIN_FILENO \<Longrightarrow> client_io fd bs [] [] [] p q"
  using read_fd_trace [of os STDIN_FILENO n p k bs q] by (simp add: client_io_def)

lemma client_io_read:
  "read_fd os fd n p = (Inr (k, bs), q) \<Longrightarrow> fd \<noteq> STDIN_FILENO \<Longrightarrow> client_io fd [] [] bs [] p q"
  using read_fd_trace [of os fd n p k bs q] by (simp add: client_io_def)

lemma client_io_elsewhere:
  "read_fd os f n p = (x, q) \<Longrightarrow> f \<noteq> STDIN_FILENO \<Longrightarrow> f \<noteq> fd \<Longrightarrow> client_io fd [] [] [] [] p q"
  by (cases rule: read_fd_cases [of os f n p]) (auto simp: client_io_def)

lemma client_io_wrote: "wrote fd bs p q \<Longrightarrow> client_io fd [] bs [] [] p q"
  by (simp add: client_io_def wrote_sent wrote_frame)

lemma client_io_print: "client_io fd [] [] [] bs p (emit (EvStdout bs) p)"
  by (simp add: client_io_def emit_def)

lemma client_io_reset: "client_io fd [] [] [] [] p (snd (fd_reset os s n p))"
  by (auto simp: client_io_def fd_reset_def c_call_defs split: prod.splits sum.splits)

text \<open>
  The relay: complete lines went through, the rest waits. \<open>relayed_to\<close> is the form the output
  side has after a failed write: whole lines, then part of the next.
\<close>

definition relayed :: "bytes \<Rightarrow> bytes \<Rightarrow> bytes \<Rightarrow> bytes \<Rightarrow> bool" where
  "relayed before input output after \<longleftrightarrow>
     output = complete newline (before @ input) \<and> after = rest newline (before @ input)"

definition cut_short :: "bytes \<Rightarrow> bytes \<Rightarrow> bytes \<Rightarrow> bytes \<Rightarrow> bool" where
  "cut_short before input output after \<longleftrightarrow>
     (\<exists>lines part. output = lines @ part \<and> lines @ after = before @ input \<and>
        (part = [] \<or> strict_prefix part (first_line newline after)))"

lemma relayed_nothing [simp]: "newline \<notin> set w \<Longrightarrow> relayed w [] [] w"
  by (simp add: relayed_def)

lemma relayed_trans: "relayed a I Z b \<Longrightarrow> relayed b I' Z' c \<Longrightarrow> relayed a (I @ I') (Z @ Z') c"
  using complete_chunk [of newline "a @ I" I'] rest_chunk [of newline "a @ I" I']
  by (simp add: relayed_def)

lemma relayed_idle: "relayed a I Z b \<Longrightarrow> newline \<notin> set b"
  by (simp add: relayed_def)

lemma relayed_cut: "relayed a I Z b \<Longrightarrow> cut_short a I Z b"
  unfolding relayed_def cut_short_def
  by (intro exI [of _ "complete newline (a @ I)"] exI [of _ "[]"]) simp

definition client_relay :: "int \<Rightarrow> client \<Rightarrow> 'w proc \<Rightarrow> client \<Rightarrow> 'w proc \<Rightarrow> bool" where
  "client_relay fd cl p cl' q \<longleftrightarrow>
     (\<exists>I S R P. client_io fd I S R P p q
        \<and> relayed (content (cl_write_buffer cl)) I S (content (cl_write_buffer cl'))
        \<and> relayed (content (cl_read_buffer cl)) R P (content (cl_read_buffer cl')))"

definition client_relay_cut :: "int \<Rightarrow> client \<Rightarrow> 'w proc \<Rightarrow> client \<Rightarrow> 'w proc \<Rightarrow> bool" where
  "client_relay_cut fd cl p cl' q \<longleftrightarrow>
     (\<exists>I S R P. client_io fd I S R P p q
        \<and> cut_short (content (cl_write_buffer cl)) I S (content (cl_write_buffer cl'))
        \<and> relayed (content (cl_read_buffer cl)) R P (content (cl_read_buffer cl')))"

lemma client_relay_same:
  "cl_idle cl \<Longrightarrow> client_io fd [] [] [] [] p q \<Longrightarrow>
   cl_write_buffer cl' = cl_write_buffer cl \<Longrightarrow> cl_read_buffer cl' = cl_read_buffer cl \<Longrightarrow>
   client_relay fd cl p cl' q"
  unfolding client_relay_def cl_idle_def by (intro exI [of _ "[]"]) simp

lemma client_relay_trans:
  "client_relay fd c1 p c2 q \<Longrightarrow> client_relay fd c2 q c3 r \<Longrightarrow> client_relay fd c1 p c3 r"
  unfolding client_relay_def by (meson client_io_trans relayed_trans)

lemma cut_short_after: "relayed a I Z b \<Longrightarrow> cut_short b I' Z' c \<Longrightarrow> cut_short a (I @ I') (Z @ Z') c"
proof -
  assume r: "relayed a I Z b" and "cut_short b I' Z' c"
  then obtain lines part where out: "Z' = lines @ part" and eq: "lines @ c = b @ I'"
    and part: "part = [] \<or> strict_prefix part (first_line newline c)" by (auto simp: cut_short_def)
  have "Z @ b = a @ I" using r by (simp add: relayed_def)
  then have "Z @ (b @ I') = a @ (I @ I')" by simp
  then have "(Z @ lines) @ c = a @ (I @ I')" by (simp flip: eq)
  with out part show "cut_short a (I @ I') (Z @ Z') c"
    unfolding cut_short_def by (intro exI [of _ "Z @ lines"] exI [of _ part]) simp
qed

lemma client_relay_cut_after:
  "client_relay fd c1 p c2 q \<Longrightarrow> client_relay_cut fd c2 q c3 r \<Longrightarrow> client_relay_cut fd c1 p c3 r"
  unfolding client_relay_def client_relay_cut_def by (meson client_io_trans relayed_trans cut_short_after)

lemma client_relay_cut: "client_relay fd c1 p c2 q \<Longrightarrow> client_relay_cut fd c1 p c2 q"
  unfolding client_relay_def client_relay_cut_def by (meson relayed_cut)

lemma client_relay_idle: "client_relay fd c1 p c2 q \<Longrightarrow> cl_idle c2"
  by (auto simp: client_relay_def cl_idle_def dest: relayed_idle)

section \<open>The parts of an iteration\<close>

text \<open>
  What each part leaves behind: a well-formed object that holds the same descriptors or, when
  the loop is to be left, none; descriptors accounted for; lines relayed, up to an exception.
\<close>

definition client_post :: "int \<Rightarrow> client \<Rightarrow> 'w proc \<Rightarrow> exn + flow \<Rightarrow> client \<Rightarrow> 'w proc \<Rightarrow> bool" where
  "client_post fd cl p r cl' q \<longleftrightarrow> cl_wf cl'
     \<and> (cl_connected cl' \<longrightarrow> cl_fd cl' = cl_fd cl \<and> cl_signalfd cl' = cl_signalfd cl)
     \<and> (\<forall>h. accounts p (h + client_held cl) \<longrightarrow> accounts q (h + client_held cl'))
     \<and> (case r of
          Inl e \<Rightarrow> io_error e \<and> cl_connected cl' \<and> client_relay_cut fd cl p cl' q
        | Inr fl \<Rightarrow> client_relay fd cl p cl' q \<and> (cl_connected cl' \<longleftrightarrow> fl = Continue))"

lemma client_post_trans:
  "client_post fd c1 p (Inr Continue) c2 q \<Longrightarrow> client_post fd c2 q r c3 s \<Longrightarrow> client_post fd c1 p r c3 s"
  by (auto simp: client_post_def split: sum.splits intro: client_relay_trans client_relay_cut_after)

lemma client_stop_ok:
  assumes "cl_wf cl" and "client_stop os cl p = (cl', q)"
  shows "cl' = cl\<lparr>cl_signalfd := ScopedFd (- 1), cl_fd := ScopedFd (- 1), cl_connected := False\<rparr>
    \<and> cl_wf cl' \<and> (\<forall>h. accounts p (h + client_held cl) \<longrightarrow> accounts q h) \<and> client_io fd [] [] [] [] p q"
proof -
  obtain p1 where p1: "fd_reset os (cl_signalfd cl) (- 1) p = (ScopedFd (- 1), p1)"
    using fd_get_reset [of os "cl_signalfd cl" "- 1" p] by (metis prod.collapse)
  have q: "fd_reset os (cl_fd cl) (- 1) p1 = (ScopedFd (- 1), q)"
    using fd_get_reset [of os "cl_fd cl" "- 1" p1] assms(2) p1
    by (cases "fd_reset os (cl_fd cl) (- 1) p1") (simp add: client_stop_def)
  have "accounts q h" if "accounts p (h + client_held cl)" for h
    using accounts_reset [of p1 h "cl_fd cl" os "- 1"] accounts_reset [of p "h + fds_of (cl_fd cl)" "cl_signalfd cl" os "- 1"]
      that p1 q by (simp add: client_held_def ac_simps)
  moreover have "client_io fd [] [] [] [] p q"
    using client_io_trans [of fd "[]" "[]" "[]" "[]" p p1 "[]" "[]" "[]" "[]" q] p1 q
      client_io_reset [of fd p os "cl_signalfd cl" "- 1"] client_io_reset [of fd p1 os "cl_fd cl" "- 1"]
    by simp
  ultimately show ?thesis
    using assms p1 q by (auto simp: client_stop_def cl_wf_def)
qed

lemma client_stopped:
  assumes "cl_wf cl" and "cl_idle cl" and "client_stop os cl p = (cl', q)"
  shows "client_post fd cl p (Inr Break) cl' q"
  using client_stop_ok [OF assms(1,3), of fd] assms(2)
  by (auto simp: client_post_def client_held_def intro: client_relay_same)

lemma client_read_failed:
  assumes "cl_wf cl" and "cl_idle cl" and "cl_connected cl" and "read_fd os f n p = (Inl e, q)"
  shows "client_post fd cl p (Inl e) cl q"
proof -
  have "trace q = trace p" and "io_error e"
    using assms(4) by (cases rule: read_fd_cases [of os f n p], auto)+
  moreover from this have "client_relay_cut fd cl p cl q"
    using assms(2) by (intro client_relay_cut client_relay_same) simp_all
  ultimately show ?thesis
    using assms(1,3) by (simp add: client_post_def accounts_def)
qed

text \<open>The room asked for is what is free behind the content.\<close>

lemma room_behind: "buf_wf b \<Longrightarrow> size_of_int (buf_free_space b) = 1024 - length (content b)"
  using content_bound [of b] by (simp add: buf_free_space_content size_of_int_small nat_diff_distrib)

lemma read_behind:
  assumes "buf_wf b" and "reads_bounded os"
    and "read_fd os f (size_of_int (buf_free_space b)) p = (Inr (n, bs), q)"
  shows "n = int (length bs) \<and> (\<exists>b1 b2. buf_store (buf_size b) bs b = Inr b1
    \<and> buf_increase_size n b1 = Inr b2 \<and> buf_wf b2 \<and> content b2 = content b @ bs
    \<and> buf_wf b1 \<and> (bs = [] \<longrightarrow> b1 = b \<and> b2 = b))"
proof -
  have n: "n = int (length bs)" using read_fd_count [OF assms(3)] .
  have "length (content b) + length bs \<le> 1024"
    using read_fd_bounded [OF assms(2,3)] room_behind [OF assms(1)] content_bound [OF assms(1)] by simp
  from buf_receive_ok [OF assms(1) this] obtain b1 b2 where b: "buf_store (bf_size b) bs b = Inr b1"
    "buf_increase_size (int (length bs)) b1 = Inr b2" "buf_wf b2" "content b2 = content b @ bs" by blast
  moreover have "b1 = b \<and> b2 = b" if "bs = []"
  proof -
    have "0 \<le> bf_size b" and "bf_size b \<le> 1024" using assms(1) by (auto simp: buf_wf_def)
    then have "buf_store (bf_size b) [] b = Inr b" using buf_store_ok [OF assms(1), of "bf_size b" "[]"] by simp
    with b(1,2) that assms(1) show ?thesis by (auto simp: buf_increase_size_def buf_free_space_def buf_wf_def split: if_splits)
  qed
  ultimately show ?thesis
    using n buf_store_wf [OF b(1) assms(1)] by (simp add: buf_size_def)
qed

lemma accounts_kept_read:
  "read_fd os f n p = (x, q) \<Longrightarrow> accounts p h \<Longrightarrow> accounts q h"
  using accounts_quiet [OF fds.R_readfdD] .

lemma client_stdin_ok:
  assumes wf: "cl_wf cl" "cl_idle cl" "cl_connected cl" and fd: "fd = fd_get (cl_fd cl)" "fd \<noteq> STDIN_FILENO"
    and lawful: "reads_bounded os" "writes_bounded os"
    and run: "client_stdin os cl p = Some (r, cl', q)"
  shows "client_post fd cl p r cl' q"
proof -
  let ?wb = "cl_write_buffer cl"
  have bwf: "buf_wf ?wb" using wf(1) by (simp add: cl_wf_def)
  obtain x p1 where x: "read_fd os STDIN_FILENO (size_of_int (buf_free_space ?wb)) p = (x, p1)" by fastforce
  show ?thesis
  proof (cases x)
    case (Inl e)
    with run x client_read_failed [OF wf] show ?thesis by (auto simp: client_stdin_def)
  next
    case (Inr nbs)
    obtain n bs where "nbs = (n, bs)" by fastforce
    with Inr x have read: "read_fd os STDIN_FILENO (size_of_int (buf_free_space ?wb)) p = (Inr (n, bs), p1)" by simp
    from read_behind [OF bwf lawful(1) read] obtain b1 b2 where n: "n = int (length bs)"
      and b: "buf_store (buf_size ?wb) bs ?wb = Inr b1" "buf_increase_size n b1 = Inr b2" "buf_wf b2"
        "content b2 = content ?wb @ bs" "bs = [] \<longrightarrow> b1 = ?wb" by blast
    have acc: "accounts p h \<Longrightarrow> accounts p1 h" for h by (rule accounts_kept_read [OF read])
    show ?thesis
    proof (cases "bs = []")
      case True
      with run read n b have stop: "client_stop os cl p1 = (cl', q)" and r: "r = Inr Break"
        by (auto simp: client_stdin_def Let_def split: prod.splits)
      have "client_io fd [] [] [] [] p p1" using client_io_stdin [OF read fd(2)] True by simp
      then have "client_post fd cl p (Inr Continue) cl p1"
        using wf acc client_relay_same [OF wf(2), of fd p p1 cl] by (simp add: client_post_def)
      from client_post_trans [OF this client_stopped [OF wf(1,2) stop]] r show ?thesis by simp
    next
      case False
      with run read n b obtain rc b3 where c: "buf_consume_full_fd (write_full os) fd newline b2 p1 = Some (rc, b3, q)"
        and cl': "cl' = cl\<lparr>cl_write_buffer := b3\<rparr>" and r: "r = (case rc of Inl e \<Rightarrow> Inl e | Inr _ \<Rightarrow> Inr Continue)"
        by (auto simp: client_stdin_def buf_consume_full_fd_nl_def fd Let_def split: option.splits sum.splits)
      from full.consume_full_fd_writes [OF lawful(2) b(3) c] obtain lines part where
        w: "wrote fd (lines @ part) p1 q" "buf_wf b3" "lines @ content b3 = content b2"
          "case rc of Inr _ \<Rightarrow> lines = complete newline (content b2) \<and> part = [] \<and> content b3 = rest newline (content b2)
           | Inl e \<Rightarrow> (\<exists>c. e = SystemError c ''write() failed'') \<and>
               strict_prefix part (first_line newline (content b3)) \<and> newline \<in> set (content b3)"
        by blast
      have io: "client_io fd bs (lines @ part) [] [] p q"
        using client_io_trans [OF client_io_stdin [OF read fd(2)] client_io_wrote [OF w(1)]] by simp
      have rel: "relayed (content (cl_read_buffer cl)) [] [] (content (cl_read_buffer cl'))"
        using wf(2) cl' by (simp add: cl_idle_def)
      have acc': "accounts p h \<Longrightarrow> accounts q h" for h
        using accounts_quiet [of p1 q h] acc w(1) by (simp add: same_fds_def wrote_frame)
      have held: "cl_wf cl'" "client_held cl' = client_held cl" "cl_connected cl'" "cl_fd cl' = cl_fd cl"
        "cl_signalfd cl' = cl_signalfd cl"
        using wf cl' w(2) by (auto simp: cl_wf_def client_held_def)
      show ?thesis
      proof (cases rc)
        case (Inl e)
        with w b(4) cl' have "cut_short (content ?wb) bs (lines @ part) (content (cl_write_buffer cl'))"
          by (auto simp: cut_short_def)
        with io rel Inl r held acc' w(4) show ?thesis
          by (auto simp: client_post_def client_relay_cut_def)
      next
        case (Inr u)
        with w b(4) cl' have "relayed (content ?wb) bs (lines @ part) (content (cl_write_buffer cl'))"
          by (simp add: relayed_def)
        with io rel Inr r held acc' show ?thesis
          by (auto simp: client_post_def client_relay_def)
      qed
    qed
  qed
qed

lemma client_server_ok:
  assumes wf: "cl_wf cl" "cl_idle cl" "cl_connected cl" and fd: "fd = fd_get (cl_fd cl)" "fd \<noteq> STDIN_FILENO"
    and lawful: "reads_bounded os"
    and run: "client_server os cl p = (r, cl', q)"
  shows "client_post fd cl p (map_sum id (\<lambda>_. Continue) r) cl' q"
proof -
  let ?rb = "cl_read_buffer cl"
  have bwf: "buf_wf ?rb" using wf(1) by (simp add: cl_wf_def)
  obtain x p1 where x: "read_fd os fd (size_of_int (buf_free_space ?rb)) p = (x, p1)" by fastforce
  show ?thesis
  proof (cases x)
    case (Inl e)
    with run x fd client_read_failed [OF wf] show ?thesis by (auto simp: client_server_def)
  next
    case (Inr nbs)
    obtain n bs where "nbs = (n, bs)" by fastforce
    with Inr x have read: "read_fd os fd (size_of_int (buf_free_space ?rb)) p = (Inr (n, bs), p1)" by simp
    from read_behind [OF bwf lawful read] obtain b1 b2 where n: "n = int (length bs)"
      and b: "buf_store (buf_size ?rb) bs ?rb = Inr b1" "buf_increase_size n b1 = Inr b2" "buf_wf b2"
        "content b2 = content ?rb @ bs" by blast
    from buf_consume_full_content [OF b(3), of newline] obtain b3 where
      b3: "buf_consume_full newline b2 = Inr (complete newline (content ?rb @ bs), b3)" "buf_wf b3"
        "content b3 = rest newline (content ?rb @ bs)" using b(4) by auto
    let ?out = "complete newline (content ?rb @ bs)"
    have res: "r = Inr ()" "cl' = cl\<lparr>cl_read_buffer := b3\<rparr>"
      "q = (if length ?out > 0 then emit (EvStdout ?out) p1 else p1)"
      using run read fd(1) b(1,2) b3(1) by (auto simp: client_server_def buf_consume_full_nl_def Let_def)
    have "client_io fd [] [] [] ?out p1 q"
      using res(3) client_io_print [of fd ?out p1] by (cases "?out = []") simp_all
    from client_io_trans [OF client_io_read [OF read fd(2)] this]
    have io: "client_io fd [] [] bs ?out p q" by simp
    have acc: "accounts q h" if "accounts p h" for h
      using accounts_kept_read [OF read that] res(3) by (simp add: accounts_def emit_def)
    have "client_relay fd cl p cl' q"
      using io b3(3) res(2) wf(2) unfolding client_relay_def cl_idle_def relayed_def
      by (intro exI [of _ "[]"] exI [of _ bs] exI [of _ ?out]) simp
    with acc res(1,2) wf b3(2) show ?thesis
      by (auto simp: client_post_def cl_wf_def client_held_def)
  qed
qed

lemma client_signal_ok:
  assumes wf: "cl_wf cl" "cl_idle cl" "cl_connected cl"
    and other: "fd_get (cl_signalfd cl) \<noteq> STDIN_FILENO" "fd_get (cl_signalfd cl) \<noteq> fd"
    and run: "client_signal os cl p = (r, cl', q)"
  shows "client_post fd cl p r cl' q"
proof -
  obtain x p1 where x: "read_fd os (fd_get (cl_signalfd cl)) sizeof_siginfo p = (x, p1)" by fastforce
  have io: "client_io fd [] [] [] [] p p1" by (rule client_io_elsewhere [OF x other])
  have acc: "accounts p h \<Longrightarrow> accounts p1 h" for h by (rule accounts_kept_read [OF x])
  have still: "client_relay fd cl p cl p1" by (rule client_relay_same [OF wf(2) io]) simp_all
  show ?thesis
  proof (cases "\<exists>n bs. x = Inr (n, bs) \<and> n = int sizeof_siginfo")
    case True
    with run x have "client_stop os cl p1 = (cl', q)" and r: "r = Inr Break"
      by (auto simp: client_signal_def split: prod.splits)
    moreover have "client_post fd cl p (Inr Continue) cl p1"
      using wf still acc by (simp add: client_post_def)
    ultimately show ?thesis using client_post_trans client_stopped [OF wf(1,2)] by blast
  next
    case False
    have "x = Inl e \<Longrightarrow> io_error e" for e using x by (auto simp: read_fd_def split: prod.splits if_splits)
    with False run x wf acc client_relay_cut [OF still] show ?thesis
      by (auto simp: client_signal_def client_post_def split: sum.splits if_splits)
  qed
qed

section \<open>One iteration and the loop\<close>

text \<open>
  The three descriptors the loop reads from are different: the kernel never hands out an open
  one, and the standard input is open.
\<close>

definition apart :: "client \<Rightarrow> bool" where
  "apart cl \<longleftrightarrow> fd_get (cl_fd cl) \<noteq> STDIN_FILENO \<and> fd_get (cl_signalfd cl) \<noteq> STDIN_FILENO
     \<and> fd_get (cl_signalfd cl) \<noteq> fd_get (cl_fd cl)"

definition cl_ready :: "int \<Rightarrow> client \<Rightarrow> bool" where
  "cl_ready fd cl \<longleftrightarrow> cl_wf cl \<and> cl_idle cl \<and> cl_connected cl \<and> fd_get (cl_fd cl) = fd \<and> apart cl"

lemma client_post_ready:
  "cl_ready fd cl \<Longrightarrow> client_post fd cl p (Inr Continue) cl' q \<Longrightarrow> cl_ready fd cl'"
  by (auto simp: cl_ready_def client_post_def apart_def dest: client_relay_idle)

lemma client_post_same: "cl_ready fd cl \<Longrightarrow> trace q = trace p \<Longrightarrow> client_post fd cl p (Inr Continue) cl q"
  by (simp add: cl_ready_def client_post_def client_relay_same accounts_def)

lemma ready_at_ok: "k < length pfs \<Longrightarrow> ready_at k pfs = Inr (pfd_revents (pfs ! k) AND POLLIN \<noteq> 0)"
  by (simp add: ready_at_def)

lemma client_handle_ready_ok:
  assumes run: "client_handle_ready os cl pfs p = Some (r, cl', q)" and ready: "cl_ready fd cl"
    and len: "length pfs = 3" and lawful: "reads_bounded os" "writes_bounded os"
  shows "client_post fd cl p r cl' q"
proof -
  from run obtain r1 cl1 p1 where s1: "client_check_stdin os cl pfs p = Some (r1, cl1, p1)"
    by (auto simp: client_handle_ready_def split: option.splits)
  have post1: "client_post fd cl p r1 cl1 p1"
    using s1 ready client_post_same [OF ready, of p p] client_stdin_ok [of cl fd os p r1 cl1 p1] lawful len
    by (auto simp: client_check_stdin_def ready_at_ok cl_ready_def apart_def split: if_splits)
  show ?thesis
  proof (cases "r1 = Inr Continue")
    case False
    with run s1 post1 show ?thesis
      by (auto simp: client_handle_ready_def split: sum.splits flow.splits)
  next
    case True
    note ready1 = client_post_ready [OF ready post1 [unfolded True]]
    obtain r2 cl2 p2 where s2: "client_check_server os cl1 pfs p1 = (r2, cl2, p2)" by (metis prod_cases3)
    have "client_post fd cl1 p1 (map_sum id (\<lambda>_. Continue) r2) cl2 p2"
      using s2 client_post_same [OF ready1, of p1 p1] client_server_ok [of cl1 fd os p1 r2 cl2 p2] lawful len ready1
      by (auto simp: client_check_server_def ready_at_ok cl_ready_def apart_def split: if_splits)
    note post2 = client_post_trans [OF post1 [unfolded True] this]
    show ?thesis
    proof (cases r2)
      case (Inl e)
      with run s1 s2 True post2 show ?thesis by (simp add: client_handle_ready_def)
    next
      case (Inr u)
      note post2' = post2 [unfolded Inr, simplified]
      note ready2 = client_post_ready [OF ready post2']
      from run s1 s2 True Inr have "client_check_signal os cl2 pfs p2 = (r, cl', q)"
        by (simp add: client_handle_ready_def)
      then have "client_post fd cl2 p2 r cl' q"
        using client_post_same [OF ready2, of p2 p2] client_signal_ok [of cl2 fd os p2 r cl' q] len ready2
        by (auto simp: client_check_signal_def ready_at_ok cl_ready_def apart_def split: if_splits)
      from client_post_trans [OF post2' this] show ?thesis .
    qed
  qed
qed

lemma client_iter_ok:
  assumes run: "client_iter os cl pfs p = Some (r, cl', pfs', q)" and ready: "cl_ready fd cl"
    and len: "length pfs = 3" and lawful: "reads_bounded os" "writes_bounded os"
  shows "client_post fd cl p r cl' q \<and> length pfs' = 3"
proof -
  obtain n pfs1 p1 where c: "c_poll os pfs (- 1) p = ((n, pfs1), p1)" by (metis prod.exhaust)
  then have tr: "trace p1 = trace p" and len1: "length pfs1 = 3"
    using len c_poll_length [of os pfs "- 1" p] by (auto simp: c_poll_def c_call_def split: prod.splits sum.splits)
  note same = client_post_same [OF ready tr]
  show ?thesis
  proof (cases "n < 0")
    case True
    have "client_post fd cl p (Inl (RuntimeError ''poll failed'')) cl p1"
      using same ready by (simp add: client_post_def cl_ready_def client_relay_cut)
    with True run c same len1 show ?thesis by (auto simp: client_iter_def split: if_splits)
  next
    case False
    with run c obtain "client_handle_ready os cl pfs1 p1 = Some (r, cl', q)" and "pfs' = pfs1"
      by (auto simp: client_iter_def split: option.splits)
    with client_post_trans [OF same client_handle_ready_ok [OF _ ready len1 lawful]] len1 show ?thesis
      by blast
  qed
qed

text \<open>The loop: the relay over all its iterations.\<close>

lemma client_iterations_ok:
  assumes run: "client_event_iterations os cl pfs p = Some res" and "cl_ready fd cl" and "length pfs = 3"
    and lawful: "reads_bounded os" "writes_bounded os"
  shows "client_post fd cl p (map_sum id (\<lambda>_. Break) (fst res)) (fst (snd res)) (snd (snd res))"
proof -
  let ?good = "\<lambda>cl p res. client_post fd cl p (map_sum id (\<lambda>_. Break) (fst res)) (fst (snd res)) (snd (snd res))"
  have "os' = os \<longrightarrow> cl_ready fd cl' \<longrightarrow> length pfs' = 3 \<longrightarrow> ?good cl' p' res'"
    if "client_event_iterations os' cl' pfs' p' = Some res'" for os' cl' pfs' p' res'
    using that
  proof (rule client_event_iterations.raw_induct [rotated])
    fix f :: "'a os \<Rightarrow> client \<Rightarrow> pollfd list \<Rightarrow> 'a proc \<Rightarrow> ((exn + unit) \<times> client \<times> 'a proc) option"
      and os' cl' pfs' p' res'
    assume IH: "\<And>os' cl' pfs' p' res'. f os' cl' pfs' p' = Some res' \<Longrightarrow>
        os' = os \<longrightarrow> cl_ready fd cl' \<longrightarrow> length pfs' = 3 \<longrightarrow> ?good cl' p' res'"
      and eq: "(if \<not> cl_connected cl' then Some (Inr (), cl', p')
        else case client_iter os' cl' pfs' p' of None \<Rightarrow> None
          | Some (r, cl1, pfs1, p1) \<Rightarrow> case r of Inl e \<Rightarrow> Some (Inl e, cl1, p1)
              | Inr Continue \<Rightarrow> f os' cl1 pfs1 p1 | Inr Break \<Rightarrow> Some (Inr (), cl1, p1)) = Some res'"
    show "os' = os \<longrightarrow> cl_ready fd cl' \<longrightarrow> length pfs' = 3 \<longrightarrow> ?good cl' p' res'"
    proof (intro impI)
      assume os: "os' = os" and ready: "cl_ready fd cl'" and len: "length pfs' = 3"
      then have "cl_connected cl'" by (simp add: cl_ready_def)
      with eq os obtain r cl1 pfs1 p1 where it: "client_iter os cl' pfs' p' = Some (r, cl1, pfs1, p1)"
        by (auto split: option.splits)
      from client_iter_ok [OF it ready len lawful] have post: "client_post fd cl' p' r cl1 p1"
        and len1: "length pfs1 = 3" by simp_all
      consider e where "r = Inl e" | "r = Inr Break" | "r = Inr Continue"
        by (metis flow.exhaust sum.exhaust)
      then show "?good cl' p' res'"
      proof cases
        case 3
        with eq os it \<open>cl_connected cl'\<close> have "f os cl1 pfs1 p1 = Some res'" by simp
        with IH client_post_ready [OF ready] post 3 len1 have "?good cl1 p1 res'" by blast
        with client_post_trans post 3 show ?thesis by blast
      qed (use eq os it \<open>cl_connected cl'\<close> post in auto)
    qed
  qed
  with assms show ?thesis by blast
qed

lemma client_event_loop_ok:
  assumes run: "client_event_loop os cl p = Some (r, cl', q)" and ready: "cl_ready fd cl"
    and lawful: "reads_bounded os" "writes_bounded os"
  shows "client_post fd cl p (map_sum id (\<lambda>_. Break) r) cl' q"
proof -
  have "client_event_iterations os cl (client_poll_set cl) p = Some (r, cl', q)"
    using run ready by (simp add: client_event_loop_def cl_ready_def)
  from client_iterations_ok [OF this ready _ lawful] show ?thesis by (simp add: client_poll_set_def)
qed

end
