(* ===== verification/Client_Life.thy ===== *)
theory Client_Life
  imports Client_Correct
begin

unbundle bit_operations_syntax

text \<open>
  The life of a client: construction, its name, the connection with its handshake, the event
  loop, stop and destruction; the address it connects to; and that its loop body returns.
\<close>

section \<open>Names\<close>

lemma client_set_name_ok:
  "client_set_name name cl =
    (if name = [] then Inl (InvalidArgument ''client name cannot be empty'')
     else if 32 < length name then Inl (LengthError ''client name exceeds maximum length'')
     else Inr (cl\<lparr>cl_name := name\<rparr>))"
  by (simp add: client_set_name_def max_name_len_def)

lemma client_set_name_wf: "client_set_name name cl = Inr cl' \<Longrightarrow> cl_wf cl \<Longrightarrow> cl_wf cl' \<and> client_held cl' = client_held cl"
  by (auto simp: client_set_name_def cl_wf_def client_held_def split: if_splits)

lemma client_with_ip_wf:
  "client_with_ip os ip p = (Inr cl, q) \<Longrightarrow> cl_wf cl \<and> client_held cl = {#} \<and> q = p"
  by (auto simp: client_with_ip_def inet_pton_socket_def c_inet_pton_def cl_wf_def client_default_def
      client_held_def max_name_len_def scoped_fd_default_def split: sum.splits prod.splits if_splits)

lemma names_kept:
  "foldl (\<lambda>cl n. case client_set_name n cl of Inl _ \<Rightarrow> cl | Inr cl' \<Rightarrow> cl') cl names
    = cl\<lparr>cl_name := last (cl_name cl # filter (\<lambda>n. length n \<in> {1..32}) names)\<rparr>"
  by (induction names arbitrary: cl) (auto simp: client_set_name_ok Suc_le_eq)

lemma client_with_ip_name_ok:
  "(\<exists>cl. fst (client_with_ip_name os ip name p) = Inr cl \<and> client_get_name cl = name)
    \<longleftrightarrow> 0 < fst (os_inet_pton os AF_INET ip) \<and> length name \<in> {1..32}"
  by (auto simp: client_with_ip_name_def client_with_ip_def inet_pton_socket_def c_inet_pton_def client_set_name_ok
      client_get_name_def Suc_le_eq split: sum.splits prod.splits if_splits)

section \<open>Connecting\<close>

lemma client_signal_fd_owned:
  assumes "client_setup_signal_fd os cl p = (r, cl', q)" and "accounts p (h + fds_of (cl_signalfd cl))"
  shows "case r of
      Inl e \<Rightarrow> cl' = cl \<and> accounts q (h + fds_of (cl_signalfd cl)) \<and> io_error e
    | Inr _ \<Rightarrow> \<exists>n \<ge> 0. cl' = cl\<lparr>cl_signalfd := ScopedFd n\<rparr> \<and> accounts q (h + {#n#})"
proof -
  obtain b p1 where b: "c_block_signals os p = (b, p1)" by fastforce
  have a1: "accounts p1 (h + fds_of (cl_signalfd cl))"
    using accounts_quiet [OF c_quiet_fds(5) assms(2), of os] b by simp
  obtain n p2 where n: "c_signalfd os p1 = (n, p2)" by fastforce
  have o: "opens p1 (n, p2)" using c_opens(3) [of p1 os] n by simp
  show ?thesis
  proof (cases "b = - 1 \<or> n = - 1")
    case True
    with assms(1) b n a1 accounts_not_opened [of p1 p2] o show ?thesis
      by (auto simp: client_setup_signal_fd_def split: if_splits)
  next
    case False
    from accounts_opened [OF o a1] False
    have "0 \<le> n" and "accounts p2 ((h + {#n#}) + fds_of (cl_signalfd cl))" by (simp_all add: ac_simps)
    with accounts_destroy [OF this(2), of os] False assms(1) b n show ?thesis
      by (auto simp: client_setup_signal_fd_def fd_move_assign_other)
  qed
qed

text \<open>Calls that make, connect and close descriptors move no bytes.\<close>

definition moves_nothing :: "'w proc \<Rightarrow> 'w proc \<Rightarrow> bool" where
  "moves_nothing p q \<longleftrightarrow>
     (\<forall>fd. sent_on fd (trace q) = sent_on fd (trace p) \<and> received_on fd (trace q) = received_on fd (trace p))
     \<and> printed (trace q) = printed (trace p)"

lemma moves_nothing_control [trace_simps]:
  "moves_nothing p (snd (c_close os fd p))" "moves_nothing p (snd (c_socket os f t pr p))"
  "moves_nothing p (snd (c_signalfd os p))" "moves_nothing p (snd (c_connect os fd sa p))"
  "moves_nothing p (snd (c_block_signals os p))"
  by (auto simp: moves_nothing_def c_call_defs split: prod.splits sum.splits)

lemma moves_nothing_trans: "moves_nothing p q \<Longrightarrow> moves_nothing q r \<Longrightarrow> moves_nothing p r"
  by (simp add: moves_nothing_def)

lemma moves_nothing_destroy: "moves_nothing p (fd_destroy os s p)"
  using moves_nothing_control(1) [of p os "fd_get s"]
  by (auto simp: fd_destroy_def fd_reset_def moves_nothing_def)

lemma moves_nothing_create: "create_socket os f t pr p = (r, q) \<Longrightarrow> moves_nothing p q"
  using moves_nothing_control(2) [of p os f t pr]
  by (auto simp: create_socket_def split: prod.splits if_splits)

lemma moves_nothing_connect: "connect_socket os fd sa p = (r, q) \<Longrightarrow> moves_nothing p q"
  using moves_nothing_control(4) [of p os fd sa]
  by (auto simp: connect_socket_def split: prod.splits if_splits)

lemma moves_nothing_setup: "client_setup_signal_fd os cl p = (r, cl', q) \<Longrightarrow> moves_nothing p q"
proof -
  assume run: "client_setup_signal_fd os cl p = (r, cl', q)"
  obtain b p1 where b: "c_block_signals os p = (b, p1)" by fastforce
  obtain n p2 where n: "c_signalfd os p1 = (n, p2)" by fastforce
  have "moves_nothing p p1" and "moves_nothing p1 p2"
    using moves_nothing_control(5) [of p os] moves_nothing_control(3) [of p1 os] b n by simp_all
  moreover have "q = p1 \<or> q = p2 \<or> (\<exists>s. q = fd_destroy os s p2)"
    using run b n by (auto simp: client_setup_signal_fd_def fd_move_assign_other split: if_splits)
  ultimately show ?thesis
    using moves_nothing_destroy moves_nothing_trans by metis
qed

text \<open>
  A run that succeeds leaves a connected client whose peer got the name and a newline; one
  that fails leaves it unconnected, with the socket closed.
\<close>

lemma client_run_ok:
  assumes run: "client_run os cl p = Some (r, cl', q)" and off: "\<not> cl_connected cl" and wf: "cl_wf cl"
    and acc: "accounts p (h + client_held cl)" and lawful: "writes_bounded os"
  shows "cl_wf cl' \<and> accounts q (h + client_held cl') \<and>
    cl_read_buffer cl' = cl_read_buffer cl \<and> cl_write_buffer cl' = cl_write_buffer cl \<and>
    (case r of
       Inl e \<Rightarrow> io_error e \<and> \<not> cl_connected cl'
     | Inr _ \<Rightarrow> cl_connected cl' \<and> (\<forall>fd. sent_on fd (trace q) = sent_on fd (trace p) @
         (if fd = fd_get (cl_fd cl') then cl_name cl @ [newline] else [])
         \<and> received_on fd (trace q) = received_on fd (trace p)) \<and> printed (trace q) = printed (trace p))"
proof -
  let ?name = "cl_name cl @ [newline]"
  have cfd: "cl_fd cl = ScopedFd (- 1)" using wf off by (simp add: cl_wf_def)
  then have held: "client_held cl = fds_of (cl_signalfd cl)" by (simp add: client_held_def)
  obtain r1 p1 where s: "create_socket os AF_INET SOCK_STREAM 0 p = (r1, p1)" by fastforce
  note o = create_socket_opens [OF s]
  show ?thesis
  proof (cases r1)
    case (Inl e)
    with s run off o wf acc accounts_not_opened [of p p1] show ?thesis
      by (auto simp: client_run_def Let_def create_socket_def split: prod.splits if_splits)
  next
    case fd: (Inr fd)
    with o have pos: "0 \<le> fd" and op: "opens p (fd, p1)" by simp_all
    from accounts_opened [OF op acc] pos have a1: "accounts p1 (h + {#fd#} + fds_of (cl_signalfd cl))"
      by (simp add: held ac_simps)
    obtain r2 p2 where c: "connect_socket os fd (to_sockaddr os (cl_address cl)) p1 = (r2, p2)" by fastforce
    have a2: "accounts p2 (h + {#fd#} + fds_of (cl_signalfd cl))"
      using accounts_quiet [OF socket_calls_same_fds(1) [OF c] a1] .
    have close: "accounts p' (h + {#fd#} + h') \<Longrightarrow> accounts (fd_destroy os (ScopedFd fd) p') (h + h')"
      for p' :: "'a proc" and h'
      using accounts_destroy [of p' "h + h'" "ScopedFd fd" os] pos by (simp add: ac_simps)
    show ?thesis
    proof (cases r2)
      case (Inl e)
      moreover from c Inl have "io_error e" by (auto simp: connect_socket_def split: prod.splits if_splits)
      ultimately show ?thesis
        using s fd c run off wf close [OF a2] held by (auto simp: client_run_def Let_def)
    next
      case conn: (Inr u)
      obtain r3 cl1 p3 where g: "client_setup_signal_fd os cl p2 = (r3, cl1, p3)" by (metis prod_cases3)
      note sig = client_signal_fd_owned [OF g a2]
      show ?thesis
      proof (cases r3)
        case (Inl e)
        with s fd c conn g run off wf sig close held show ?thesis
          by (auto simp: client_run_def Let_def)
      next
        case (Inr v)
        with sig obtain n where n: "0 \<le> n" "cl1 = cl\<lparr>cl_signalfd := ScopedFd n\<rparr>"
          "accounts p3 (h + {#fd#} + {#n#})" by auto
        obtain r4 p4 where w: "write_full os fd ?name (of_nat (length ?name)) p3 = Some (r4, p4)"
          using run off s fd c conn g Inr n(2)
          by (auto simp: client_run_def Let_def split: option.splits)
        have short: "length ?name < 2 ^ 63" using wf by (simp add: cl_wf_def max_name_len_def)
        then have len: "unat (of_nat (length ?name) :: size_t) = length ?name"
          by (intro unat_size_t) simp
        have a4: "accounts p4 (h + {#fd#} + {#n#})"
          using accounts_quiet [OF fds.R_write_full [OF w] n(3)] .
        show ?thesis
        proof (cases r4)
          case (Inl e)
          moreover have "io_error e" using w Inl by (auto simp: write_full_def split: option.splits if_splits)
          ultimately show ?thesis
            using run off wf s fd c conn g \<open>r3 = Inr v\<close> w n close [OF a4] cfd
            by (auto simp: client_run_def Let_def cl_wf_def client_held_def)
        next
          case ok: (Inr x)
          from full.wr_ok [OF lawful _ _ w [unfolded ok]] len short
          have wrote: "wrote fd ?name p3 p4" by simp
          have silent: "moves_nothing p p3"
            using moves_nothing_create [OF s] moves_nothing_connect [OF c] moves_nothing_setup [OF g]
            by (simp add: moves_nothing_def)
          from run off s fd c conn g \<open>r3 = Inr v\<close> w n ok cfd
          have res: "r = Inr ()" "q = p4"
            "cl' = cl\<lparr>cl_signalfd := ScopedFd n, cl_fd := ScopedFd fd, cl_connected := True\<rparr>"
            by (auto simp: client_run_def Let_def fd_move_assign_other)
          have "sent_on f (trace q) = sent_on f (trace p) @ (if f = fd then ?name else [])
              \<and> received_on f (trace q) = received_on f (trace p) \<and> printed (trace q) = printed (trace p)" for f
            using wrote_sent [OF wrote] wrote_elsewhere [OF wrote] wrote_frame [OF wrote] silent res(2)
            by (simp add: moves_nothing_def)
          with res n(1) pos wf a4 show ?thesis
            by (auto simp: cl_wf_def fd_valid_def client_held_def ac_simps)
        qed
      qed
    qed
  qed
qed

lemma client_run_twice: "cl_connected cl \<Longrightarrow>
  client_run os cl p = Some (Inl (LogicError ''client is already connected''), cl, p)"
  by (simp add: client_run_def)

section \<open>An iteration returns\<close>

lemma client_stdin_returns:
  assumes "cl_wf cl" and lawful: "reads_bounded os" "writes_bounded os" and "interrupts_finite os m"
  shows "client_stdin os cl p \<noteq> None"
proof -
  let ?wb = "cl_write_buffer cl"
  have bwf: "buf_wf ?wb" using assms(1) by (simp add: cl_wf_def)
  obtain x p1 where x: "read_fd os STDIN_FILENO (size_of_int (buf_free_space ?wb)) p = (x, p1)" by fastforce
  show ?thesis
  proof (cases x)
    case (Inl e)
    with x show ?thesis by (simp add: client_stdin_def)
  next
    case (Inr nbs)
    obtain n bs where "nbs = (n, bs)" by fastforce
    with Inr x have read: "read_fd os STDIN_FILENO (size_of_int (buf_free_space ?wb)) p = (Inr (n, bs), p1)" by simp
    from read_behind [OF bwf lawful(1) read] obtain b1 b2 where
      b: "buf_store (buf_size ?wb) bs ?wb = Inr b1" "buf_increase_size n b1 = Inr b2" "buf_wf b2" by blast
    have "buf_consume_full_fd (write_full os) (fd_get (cl_fd cl)) newline b2 p1 \<noteq> None"
      using assms(3,4) by (intro full.consume_full_fd_returns [OF _ b(3)]) blast
    with read b show ?thesis
      by (auto simp: client_stdin_def buf_consume_full_fd_nl_def Let_def split: prod.splits sum.splits)
  qed
qed

lemma client_iter_returns:
  assumes "cl_wf cl" and lawful: "reads_bounded os" "writes_bounded os" and "interrupts_finite os m"
  shows "client_iter os cl pfs p \<noteq> None"
proof -
  have "client_check_stdin os cl pfs' p' \<noteq> None" for pfs' p'
    using client_stdin_returns [OF assms, of p'] by (simp add: client_check_stdin_def split: sum.split)
  then have "client_handle_ready os cl pfs' p' \<noteq> None" for pfs' p'
    by (auto simp: client_handle_ready_def split: option.splits sum.splits flow.splits prod.splits) (metis prod_cases3)
  then show ?thesis
    by (auto simp: client_iter_def split: option.splits prod.splits) (metis option.distinct(1))
qed

lemma client_run_returns:
  assumes "cl_wf cl" and "writes_bounded os" and "interrupts_finite os m"
  shows "client_run os cl p \<noteq> None"
proof -
  have "unat (of_nat (length (cl_name cl @ [newline])) :: size_t) \<le> length (cl_name cl @ [newline])"
    using assms(1) by (subst unat_size_t) (simp_all add: cl_wf_def max_name_len_def)
  then have w: "write_full os fd (cl_name cl @ [newline]) (of_nat (length (cl_name cl @ [newline]))) p' \<noteq> None" for fd p'
    using assms(2,3) by (intro full.wr_returns) blast+
  have same: "client_setup_signal_fd os cl p' = (r, cl1, q) \<Longrightarrow> cl_name cl1 = cl_name cl" for p' r cl1 q
    by (auto simp: client_setup_signal_fd_def split: prod.splits if_splits)
  show ?thesis
    using w by (auto simp: client_run_def Let_def dest!: same split: option.splits sum.splits prod.splits)
      (metis option.distinct(1))
qed

section \<open>The trace only grows\<close>

context control_effect begin

lemma R_consume_full_fd:
  "buf_consume_full_fd (write_full os) fd d b p = Some (r, b', q) \<Longrightarrow> R p q"
proof (induction "write_full os" fd d b p rule: buf_consume_full_fd.induct)
  case (1 fd d b p)
  from "1.prems" consider "q = p"
    | r' n where "write_full os fd (bf_mem b) n p = Some (r', q)"
    | k u p' b1 where "buf_find_delim d b = Inr k" "k \<ge> 0"
        "write_full os fd (bf_mem b) (word_of_int (k + 1)) p = Some (Inr u, p')"
        "buf_compact (k + 1) b = Inr b1" "buf_consume_full_fd (write_full os) fd d b1 p' = Some (r, b', q)"
    by (subst (asm) buf_consume_full_fd.simps) (auto split: sum.splits option.splits if_splits)
  then show ?case
  proof cases
    case (3 k u p' b1)
    with "1.hyps" [OF 3(1,2,3) refl refl 3(4,5)] R_write_full R_trans show ?thesis by blast
  qed (auto intro: R_refl R_write_full)
qed

lemma R_resetD: "fd_reset os s n p = (s', q) \<Longrightarrow> R p q"
  by (metis R_fd_reset snd_conv)

lemma R_client_setup: "client_setup_signal_fd os cl p = (r, cl', q) \<Longrightarrow> R p q"
proof -
  assume run: "client_setup_signal_fd os cl p = (r, cl', q)"
  obtain b p1 where b: "c_block_signals os p = (b, p1)" by fastforce
  obtain n p2 where n: "c_signalfd os p1 = (n, p2)" by fastforce
  have 1: "R p p1" and 2: "R p1 p2" using R_block [of p] R_signalfd [of p1] b n by simp_all
  have "q = p1 \<or> q = p2 \<or> (\<exists>s. q = fd_destroy os s p2)"
    using run b n by (auto simp: client_setup_signal_fd_def fd_move_assign_other split: if_splits)
  then show ?thesis using 1 R_trans [OF 1 2] R_trans [OF R_trans [OF 1 2] R_fd_destroy] by auto
qed

lemma R_client_stop: "client_stop os cl p = (cl', q) \<Longrightarrow> R p q"
  by (auto simp: client_stop_def split: prod.splits dest!: R_resetD intro: R_trans)

lemma R_client_stdin: "client_stdin os cl p = Some (r, cl', q) \<Longrightarrow> R p q"
  by (auto simp: client_stdin_def buf_consume_full_fd_nl_def Let_def
      split: sum.splits prod.splits option.splits if_splits
      dest!: R_readfdD R_client_stop R_consume_full_fd intro: R_trans)

lemma R_client_server: "client_server os cl p = (r, cl', q) \<Longrightarrow> R p q"
  by (auto simp: client_server_def Let_def split: sum.splits prod.splits if_splits
      dest!: R_readfdD intro: R_trans R_stdout)

lemma R_client_signal: "client_signal os cl p = (r, cl', q) \<Longrightarrow> R p q"
  by (auto simp: client_signal_def split: sum.splits prod.splits if_splits
      dest!: R_readfdD R_client_stop intro: R_trans)

lemma R_client_handle_ready: "client_handle_ready os cl pfs p = Some (r, cl', q) \<Longrightarrow> R p q"
proof -
  have s1: "client_check_stdin os cl pfs p = Some (r, cl', q) \<Longrightarrow> R p q" for cl p r cl' q
    by (auto simp: client_check_stdin_def split: sum.splits if_splits intro: R_refl R_client_stdin)
  have s2: "client_check_server os cl pfs p = (r, cl', q) \<Longrightarrow> R p q" for cl p r cl' q
    by (auto simp: client_check_server_def split: sum.splits if_splits intro: R_refl R_client_server)
  have s3: "client_check_signal os cl pfs p = (r, cl', q) \<Longrightarrow> R p q" for cl p r cl' q
    by (auto simp: client_check_signal_def split: sum.splits if_splits intro: R_refl R_client_signal)
  assume "client_handle_ready os cl pfs p = Some (r, cl', q)"
  then show ?thesis
    by (auto simp: client_handle_ready_def split: option.splits sum.splits flow.splits prod.splits
        dest!: s1 s2 s3 intro: R_trans)
qed

lemma R_client_iter: "client_iter os cl pfs p = Some (r, cl', pfs', q) \<Longrightarrow> R p q"
  by (auto simp: client_iter_def split: prod.splits option.splits if_splits
      dest!: R_pollD R_client_handle_ready intro: R_trans)

lemma R_client_iterations: "client_event_iterations os cl pfs p = Some res \<Longrightarrow> R p (snd (snd res))"
proof -
  have "os' = os \<longrightarrow> R p' (snd (snd res'))" if "client_event_iterations os' cl' pfs' p' = Some res'" for os' cl' pfs' p' res'
    using that
  proof (rule client_event_iterations.raw_induct [rotated])
    fix f :: "'a os \<Rightarrow> client \<Rightarrow> pollfd list \<Rightarrow> 'a proc \<Rightarrow> ((exn + unit) \<times> client \<times> 'a proc) option"
      and os' cl' pfs' p' res'
    assume IH: "\<And>os' cl' pfs' p' res'. f os' cl' pfs' p' = Some res' \<Longrightarrow> os' = os \<longrightarrow> R p' (snd (snd res'))"
      and eq: "(if \<not> cl_connected cl' then Some (Inr (), cl', p')
        else case client_iter os' cl' pfs' p' of None \<Rightarrow> None
          | Some (r, cl1, pfs1, p1) \<Rightarrow> case r of Inl e \<Rightarrow> Some (Inl e, cl1, p1)
              | Inr Continue \<Rightarrow> f os' cl1 pfs1 p1 | Inr Break \<Rightarrow> Some (Inr (), cl1, p1)) = Some res'"
    show "os' = os \<longrightarrow> R p' (snd (snd res'))"
      using eq
      by (auto split: if_splits option.splits sum.splits flow.splits dest!: R_client_iter IH
          intro: R_refl R_trans)
  qed
  then show "client_event_iterations os cl pfs p = Some res \<Longrightarrow> R p (snd (snd res))" by blast
qed

lemma R_client_event_loop: "client_event_loop os cl p = Some (r, cl', q) \<Longrightarrow> R p q"
  by (auto simp: client_event_loop_def split: if_splits intro: R_refl dest: R_client_iterations)

lemma R_client_destroy: "R p (client_destroy os cl p)"
  using R_trans [OF R_fd_destroy R_fd_destroy] by (simp add: client_destroy_def)

end

section \<open>Destruction\<close>

lemma client_destroy_owned:
  assumes "accounts p (h + client_held cl)"
  shows "accounts (client_destroy os cl p) h"
proof -
  have "accounts p (h + fds_of (cl_fd cl) + fds_of (cl_signalfd cl))"
    using assms by (simp add: client_held_def ac_simps)
  from accounts_destroy [OF accounts_destroy [OF this]] show ?thesis by (simp add: client_destroy_def)
qed

section \<open>The peer\<close>

text \<open>
  A run that succeeds begins with the socket it opens and the connection it makes on it.
\<close>

lemma client_run_connects:
  assumes "client_run os cl p = Some (Inr u, cl', q)" and "cl_wf cl"
  shows "\<exists>evs. trace q = trace p @
    [EvOpen (fd_get (cl_fd cl')), EvConnect (fd_get (cl_fd cl')) (to_sockaddr os (cl_address cl))] @ evs"
proof -
  have off: "\<not> cl_connected cl" using assms(1) by (auto simp: client_run_def)
  then have cfd: "cl_fd cl = ScopedFd (- 1)" using assms(2) by (simp add: cl_wf_def)
  from assms(1) off obtain fd p1 p2 cl1 p3 p4 where
    s: "create_socket os AF_INET SOCK_STREAM 0 p = (Inr fd, p1)"
    and c: "connect_socket os fd (to_sockaddr os (cl_address cl)) p1 = (Inr (), p2)"
    and g: "client_setup_signal_fd os cl p2 = (Inr (), cl1, p3)"
    and w: "write_full os fd (cl_name cl1 @ [newline]) (of_nat (length (cl_name cl1 @ [newline]))) p3 = Some (Inr (), p4)"
    and q: "cl' = cl1\<lparr>cl_fd := ScopedFd fd, cl_connected := True\<rparr>" "q = fd_destroy os (cl_fd cl1) p4"
    by (auto simp: client_run_def Let_def fd_move_assign_other split: sum.splits prod.splits option.splits)
  have "trace p1 = trace p @ [EvOpen fd]"
    using s by (auto simp: create_socket_def c_call_defs split: prod.splits if_splits sum.splits)
  moreover have "trace p2 = trace p1 @ [EvConnect fd (to_sockaddr os (cl_address cl))]"
    using c by (auto simp: connect_socket_def c_call_defs split: prod.splits if_splits sum.splits)
  moreover have "trace_grows p2 p3"
    by (rule grows.R_client_setup [OF g])
  moreover have "trace_grows p3 q" using grows.R_trans [OF grows.R_write_full [OF w] grows.R_fd_destroy] q(2) by simp
  ultimately show ?thesis using q(1) by (auto simp: trace_grows_def prefix_def)
qed

end
