(* ===== verification/Tcpchat_Main.thy ===== *)
theory Tcpchat_Main
  imports Server_Life Client_Life
begin

text \<open>
  The two programs \<^verbatim>\<open>main\<close> of \<^verbatim>\<open>src/src/tcpchat.cpp\<close> ends in, once the command line is parsed:
  the server on a port, and the client, which first asks for a name. What the standard
  library reads from the standard input for \<^verbatim>\<open>std::cin >> name\<close>, often more than the name, is a
  parameter; the name is the first word of it. The command line is in
  \<open>Tcpchat_App\<close> and \<open>Tcpchat_Cli\<close>.
\<close>

section \<open>Definitions\<close>

text \<open>An exception nobody catches ends in \<^verbatim>\<open>std::terminate\<close>.\<close>

datatype main_result = Exited int | Terminated exn

definition main_server :: "'w os \<Rightarrow> 16 word \<Rightarrow> 'w proc \<Rightarrow> (main_result \<times> 'w proc) option" where
  "main_server os server_port p =
     (case server_run os (server_with_port server_port) p of
        (Inl e, _, p1) \<Rightarrow> Some (Terminated e, p1)
      | (Inr _, srv, p1) \<Rightarrow>
     (case server_event_loop os srv p1 of
        None \<Rightarrow> None
      | Some (Inl e, _, p2) \<Rightarrow> Some (Terminated e, p2)
      | Some (Inr _, srv2, p2) \<Rightarrow> Some (Exited 0, server_destroy os srv2 p2)))"

text \<open>
  The parameter \<open>cin\<close> gives the blocks of bytes that \<^verbatim>\<open>std::cin\<close> reads from the
  standard input until it has a word; what follows the word in them stays in its buffer. The
  name is the first word, or empty when there is none.
\<close>

definition white_space :: "char \<Rightarrow> bool" where
  "white_space c \<longleftrightarrow> c \<in> {CHR 0x20, CHR 0x09, CHR 0x0A, CHR 0x0B, CHR 0x0C, CHR 0x0D}"

definition first_word :: "bytes \<Rightarrow> bytes" where
  "first_word bs = takeWhile (\<lambda>c. \<not> white_space c) (dropWhile white_space bs)"

definition main_client :: "'w os \<Rightarrow> ('w \<Rightarrow> bytes list \<times> 'w) \<Rightarrow> 'w proc \<Rightarrow> (main_result \<times> 'w proc) option" where
  "main_client os cin p =
     (let p1 = emit (EvStdout (''Enter your name: '' @ [newline])) p in
     (case cin (kern p1) of (taken, w) \<Rightarrow>
     (let p2 = p1\<lparr>trace := trace p1 @ map (EvRead STDIN_FILENO) taken, kern := w\<rparr>;
          name = first_word (concat taken)
      in
     (case client_set_name name client_default of
        Inl e \<Rightarrow> Some (Terminated e, p2)
      | Inr cli \<Rightarrow>
     (case client_run os cli p2 of
        None \<Rightarrow> None
      | Some (Inl e, _, p3) \<Rightarrow> Some (Terminated e, p3)
      | Some (Inr _, cli1, p3) \<Rightarrow>
     (case client_event_loop os cli1 p3 of
        None \<Rightarrow> None
      | Some (Inl e, _, p4) \<Rightarrow> Some (Terminated e, p4)
      | Some (Inr _, cli2, p4) \<Rightarrow> Some (Exited 0, client_destroy os cli2 p4)))))))"

section \<open>The server program\<close>

lemma main_server_exit:
  assumes "main_server os n p = Some (res, q)" and "trace p = []" and lawful: "reads_bounded os"
  shows "case res of Exited c \<Rightarrow> c = 0 \<and> accounts q {#} | Terminated e \<Rightarrow> io_error e"
proof -
  have reach: "server_reach os (server_with_port n) p" using assms(2) by (rule server_reach.constructed_port)
  have off: "\<not> sv_running (server_with_port n)" by (simp add: server_with_port_def server_default_def)
  obtain r sv1 p1 where run: "server_run os (server_with_port n) p = (r, sv1, p1)" by (metis prod_cases3)
  note ran = server_run_owned [OF run off _ accounts_init [OF assms(2)]]
  show ?thesis
  proof (cases r)
    case (Inl e)
    with assms(1) run ran show ?thesis by (auto simp: main_server_def io_error_def)
  next
    case (Inr u)
    with ran have on: "sv_running sv1" by auto
    note reach1 = server_reach.ran [OF reach run]
    from assms(1) run Inr obtain r2 sv2 p2 where loop: "server_event_loop os sv1 p1 = Some (r2, sv2, p2)"
      and res: "(res, q) = (case r2 of Inl e \<Rightarrow> (Terminated e, p2) | Inr _ \<Rightarrow> (Exited 0, server_destroy os sv2 p2))"
      by (auto simp: main_server_def split: option.splits sum.splits)
    from server_event_loop_ok [OF loop reach1 on lawful] have reach2: "server_reach os sv2 p2"
      and err: "\<forall>e. r2 = Inl e \<longrightarrow> io_error e" by auto
    from server_reach_ok [OF reach2 lawful] have "accounts (server_destroy os sv2 p2) {#}"
      by (intro server_destroy_owned) (simp_all add: server_wf_def)
    with res err show ?thesis by (cases r2) simp_all
  qed
qed

section \<open>The client program\<close>

lemma apart_held:
  assumes "accounts p (client_held cl)" and "cl_wf cl" and "cl_connected cl" and "fresh_opens std_open (trace p)"
  shows "apart cl"
proof -
  have valid: "0 \<le> fd_get (cl_fd cl)" "0 \<le> fd_get (cl_signalfd cl)"
    using assms(2,3) by (simp_all add: cl_wf_def fd_valid_def)
  then have held: "client_held cl = {#fd_get (cl_fd cl), fd_get (cl_signalfd cl)#}"
    by (simp add: client_held_def fds_of_def)
  have "count (client_held cl) fd \<le> (if std_open fd then 0 else 1)" for fd
    using held_once [OF assms(1,4)] .
  from this [of "fd_get (cl_fd cl)"] this [of "fd_get (cl_signalfd cl)"] show ?thesis
    by (auto simp: held apart_def std_open_def STDIN_FILENO_def split: if_splits)
qed

text \<open>
  The whole client program, when it ends by itself: after the prompt and the reading of the
  name it opened a socket and connected it, and on that socket the server got the name and then
  the complete lines read from the standard input, the screen the complete lines of the server,
  and every descriptor is closed. What \<^verbatim>\<open>std::cin\<close> had read past the name is in none of these.
\<close>

lemma main_client_exit:
  assumes run: "main_client os cin p = Some (Exited c, q)" and start: "trace p = []"
    and lawful: "reads_bounded os" "writes_bounded os" and fresh: "fresh_opens std_open (trace q)"
  shows "c = 0 \<and> accounts q {#} \<and> (\<exists>fd evs.
    trace q = [EvStdout (''Enter your name: '' @ [newline])] @ map (EvRead STDIN_FILENO) (fst (cin (kern p)))
      @ [EvOpen fd, EvConnect fd (to_sockaddr os default_address)] @ evs \<and>
    sent_on fd evs = first_word (concat (fst (cin (kern p)))) @ [newline] @ complete newline (received_on STDIN_FILENO evs) \<and>
    printed evs = complete newline (received_on fd evs))"
proof -
  define taken where "taken = fst (cin (kern p))"
  define name where "name = first_word (concat taken)"
  define prompt where "prompt = ''Enter your name: '' @ [newline]"
  define p2 where "p2 = (emit (EvStdout prompt) p)\<lparr>trace := trace (emit (EvStdout prompt) p) @ map (EvRead STDIN_FILENO) taken,
      kern := snd (cin (kern p))\<rparr>"
  have tr2: "trace p2 = [EvStdout prompt] @ map (EvRead STDIN_FILENO) taken" using start by (simp add: p2_def emit_def)
  from run obtain cli cli1 p3 cli2 p4 where
    cli: "client_set_name name client_default = Inr cli"
    and conn: "client_run os cli p2 = Some (Inr (), cli1, p3)"
    and loop: "client_event_loop os cli1 p3 = Some (Inr (), cli2, p4)"
    and q: "q = client_destroy os cli2 p4" and c: "c = 0"
    by (auto simp: main_client_def Let_def name_def taken_def p2_def prompt_def emit_def case_prod_beta
        split: sum.splits option.splits)
  have named: "cli = client_default\<lparr>cl_name := name\<rparr>"
    using cli by (auto simp: client_set_name_def split: if_splits)
  have wf: "cl_wf cli" "client_held cli = {#}" and off: "\<not> cl_connected cli"
    using client_set_name_wf [OF cli] by simp_all (simp add: named client_default_def)
  have acc2: "accounts p2 ({#} + client_held cli)" using tr2 wf(2) by (simp add: accounts_def)
  note ran = client_run_ok [OF conn off wf(1) acc2 lawful(2), simplified]
  have idle: "cl_idle cli1" using ran named by (simp add: cl_idle_def client_default_def)
  have grown: "prefix (trace p3) (trace q)"
    using grows.R_trans [OF grows.R_client_event_loop [OF loop] grows.R_client_destroy [of p4 os cli2]] q
    by (simp add: trace_grows_def)
  then have "fresh_opens std_open (trace p3)" using fresh fresh_opens_append by (auto simp: prefix_def)
  with ran have "apart cli1" by (intro apart_held) simp_all
  define fd where "fd = fd_get (cl_fd cli1)"
  have ready: "cl_ready fd cli1" using ran idle \<open>apart cli1\<close> by (simp add: cl_ready_def fd_def)
  note looped = client_event_loop_ok [OF loop ready lawful, simplified]
  then have relay: "client_relay fd cli1 p3 cli2 p4" and "accounts p4 ({#} + client_held cli2)"
    using ran by (auto simp: client_post_def dest: spec [where x = "{#}"])
  then have closed: "accounts q {#}" using q client_destroy_owned by blast
  obtain evs where evs: "trace q = trace p2 @ [EvOpen fd, EvConnect fd (to_sockaddr os default_address)] @ evs"
    using client_run_connects [OF conn wf(1)] grown named
    by (auto simp: fd_def client_default_def prefix_def)
  have same: "received_on f (trace q) = received_on f (trace p4) \<and> sent_on f (trace q) = sent_on f (trace p4)
      \<and> printed (trace q) = printed (trace p4)" for f
    unfolding q by (auto simp: client_destroy_def fd_destroy_def fd_reset_def c_call_defs split: prod.splits sum.splits)
  have before: "received_on f (trace p3) = received_on f (trace p2)" "printed (trace p3) = printed (trace p2)" for f
    using ran by simp_all
  have sent3: "sent_on fd (trace p3) = sent_on fd (trace p2) @ name @ [newline]"
    using ran named by (simp add: fd_def)
  have "content (cl_write_buffer cli1) = []" "content (cl_read_buffer cli1) = []"
    using ran named by (simp_all add: client_default_def)
  with relay before sent3 obtain I R where
    "received_on STDIN_FILENO (trace q) = received_on STDIN_FILENO (trace p2) @ I"
    "sent_on fd (trace q) = sent_on fd (trace p2) @ name @ [newline] @ complete newline I"
    "received_on fd (trace q) = received_on fd (trace p2) @ R"
    "printed (trace q) = printed (trace p2) @ complete newline R"
    using same by (auto simp: client_relay_def client_io_def relayed_def)
  then have "sent_on fd evs = name @ [newline] @ complete newline (received_on STDIN_FILENO evs)"
    "printed evs = complete newline (received_on fd evs)"
    using evs by simp_all
  with c closed evs tr2 show ?thesis by (auto simp: name_def taken_def prompt_def)
qed

end
