(* ===== verification/Server_Delivery.thy ===== *)
theory Server_Delivery
  imports Server_Invariants
begin

unbundle bit_operations_syntax

text \<open>
  Who gets what: a turn of the client loop whose client sent bytes, from the read to the last
  write of the broadcast, on success and on a failed write.
\<close>

section \<open>Receivers\<close>

definition receives :: "client_info list \<Rightarrow> nat \<Rightarrow> int \<Rightarrow> bool" where
  "receives cs i fd \<longleftrightarrow> fd \<in> set (client_fds cs) \<and> fd \<noteq> client_fds cs ! i"

lemma receives_iff:
  assumes "distinct (client_fds cs)" and "i < length cs"
  shows "fd \<in> set (receivers (client_fds cs) 0 i) \<longleftrightarrow> receives cs i fd"
proof -
  have "(\<exists>j < length (client_fds cs). client_fds cs ! j = fd \<and> 0 + j \<noteq> i) \<longleftrightarrow> receives cs i fd"
    using assms nth_eq_iff_index_eq [OF assms(1)] by (auto simp: receives_def in_set_conv_nth)
  then show ?thesis by (simp add: set_receivers [OF assms(1)])
qed

text \<open>
  \<open>delivered msg cs i p q\<close>: the message is out to everybody but client \<open>i\<close>;
  \<open>delivered_part\<close>: a prefix of it, of some length for each, and nothing to anybody else.
\<close>

definition delivered :: "bytes \<Rightarrow> client_info list \<Rightarrow> nat \<Rightarrow> 'w proc \<Rightarrow> 'w proc \<Rightarrow> bool" where
  "delivered msg cs i p q \<longleftrightarrow>
     (\<forall>fd. sent_on fd (trace q) = sent_on fd (trace p) @ (if receives cs i fd then msg else []))"

definition delivered_part :: "bytes \<Rightarrow> client_info list \<Rightarrow> nat \<Rightarrow> 'w proc \<Rightarrow> 'w proc \<Rightarrow> bool" where
  "delivered_part msg cs i p q \<longleftrightarrow>
     (\<forall>fd. \<exists>n. sent_on fd (trace q) = sent_on fd (trace p) @ (if receives cs i fd then take n msg else []))"

lemma broadcast_delivers:
  assumes "broadcast (write_full os) (client_fds cs) 0 i msg p = Some (r, q)"
    and "distinct (client_fds cs)" and "i < length cs" and "length msg < 2 ^ 63" and "writes_bounded os"
  shows "case r of Inr _ \<Rightarrow> delivered msg cs i p q
    | Inl e \<Rightarrow> (\<exists>c. e = SystemError c ''write() failed'') \<and> delivered_part msg cs i p q"
proof (cases r)
  case (Inr u)
  with full.broadcast_sends [OF assms(5,4,2), of 0 i p u q] assms(1) receives_iff [OF assms(2,3)] show ?thesis
    by (simp add: delivered_def)
next
  case (Inl e)
  with full.broadcast_cut [OF assms(5,4,2), of 0 i p e q] assms(1) obtain k n where
    k: "k < length cs" "k \<noteq> i" and e: "\<exists>c. e = SystemError c ''write() failed''"
    and sent: "\<forall>fd. sent_on fd (trace q) = sent_on fd (trace p) @
      (if fd \<in> set (receivers (take k (client_fds cs)) 0 i) then msg
       else if fd = client_fds cs ! k then take n msg else [])"
    by auto
  have to_k: "receives cs i (client_fds cs ! k)"
    using k assms(2,3) nth_eq_iff_index_eq [OF assms(2)] by (simp add: receives_def)
  have to_earlier: "receives cs i fd" if "fd \<in> set (receivers (take k (client_fds cs)) 0 i)" for fd
  proof -
    have "distinct (take k (client_fds cs))" using assms(2) by simp
    from that obtain j where "j < k" "client_fds cs ! j = fd" "j \<noteq> i"
      unfolding set_receivers [OF \<open>distinct (take k (client_fds cs))\<close>] by auto
    then show ?thesis
      using k assms(2,3) nth_eq_iff_index_eq [OF assms(2)] by (auto simp: receives_def)
  qed
  have "\<exists>n'. sent_on fd (trace q) = sent_on fd (trace p) @ (if receives cs i fd then take n' msg else [])" for fd
  proof (cases "fd \<in> set (receivers (take k (client_fds cs)) 0 i)")
    case True
    with sent to_earlier [OF True] show ?thesis by (intro exI [of _ "length msg"]) simp
  next
    case False
    with sent to_k show ?thesis
      by (cases "fd = client_fds cs ! k") (auto intro: exI [of _ n] exI [of _ 0])
  qed
  with e Inl show ?thesis by (simp add: delivered_part_def)
qed

text \<open>A turn for a client whose input arrives, with all that can come of it.\<close>

lemma client_turn_input:
  assumes wf: "clients_wf cs" and al: "aligned cs pfs" and i: "i < length cs" and dist: "distinct (client_fds cs)"
    and lawful: "reads_bounded os" "writes_bounded os" and prompt: "interrupts_finite os m"
    and ready: "pfd_revents (pfs ! (i + 2)) AND (POLLERR OR POLLHUP OR POLLNVAL) = 0"
      "pfd_revents (pfs ! (i + 2)) AND POLLIN \<noteq> 0"
    and input: "os_read os (client_fds cs ! i) (1024 - length (content (ci_buffer (cs ! i)))) (kern p) = (Inr bs, w)"
      "bs \<noteq> []"
  shows "\<exists>c' out r q. absorbed (cs ! i) bs c' out
    \<and> client_turn os i nready cs pfs p = Some (r, cs[i := c'], pfs, q)
    \<and> (case r of
         Inr x \<Rightarrow> x = (nready - 1 \<le> 0, i + 1, nready - 1) \<and> delivered out cs i p q
       | Inl e \<Rightarrow> io_error e \<and> delivered_part out cs i p q)"
proof -
  let ?fd = "client_fds cs ! i"
  have fd: "?fd = fd_get (ci_fd (cs ! i))" using i by (simp add: client_fds_def)
  define p1 where "p1 = p\<lparr>trace := trace p @ [EvRead ?fd bs], kern := w\<rparr>"
  have read: "read_fd os ?fd (1024 - length (content (ci_buffer (cs ! i)))) p = (Inr (int (length bs), bs), p1)"
    using input(1) by (cases rule: read_fd_cases [of os ?fd "1024 - length (content (ci_buffer (cs ! i)))" p])
      (auto simp: p1_def)
  have sent: "sent_on f (trace p1) = sent_on f (trace p)" for f by (simp add: p1_def)
  from wf al i lawful(1) show ?thesis
  proof (cases rule: client_turn_cases [where nready = nready and p = p])
    case (data k bs' p1' c' out)
    with read fd have [simp]: "bs' = bs" "p1' = p1" by simp_all
    have c: "client_wf (cs ! i)" using wf i by (rule clients_wf_nth)
    have "length (content (ci_buffer (cs ! i))) + length bs \<le> 1024"
      using read_fd_bounded [OF lawful(1) read] c content_bound [of "ci_buffer (cs ! i)"] by (simp add: client_wf_def)
    from absorbed_out_bound [OF data(4) c] this have short: "length out < 2 ^ 63" by simp
    show ?thesis
    proof (cases "out = []")
      case True
      with data sent show ?thesis
        by (intro exI [of _ c'] exI [of _ out] exI conjI; (rule data(4))?) (auto simp: delivered_def)
    next
      case False
      have "broadcast (write_full os) (client_fds cs) 0 i out p1 \<noteq> None"
        using lawful prompt short by (intro full.broadcast_returns) auto
      then obtain r q where b: "broadcast (write_full os) (client_fds cs) 0 i out p1 = Some (r, q)" by auto
      note d = broadcast_delivers [OF b dist i short lawful(2)]
      show ?thesis
      proof (cases r)
        case (Inl e)
        with False data(5) b have "client_turn os i nready cs pfs p = Some (Inl e, cs[i := c'], pfs, q)" by simp
        with data(4) d sent Inl show ?thesis
          by (intro exI [of _ c'] exI [of _ out] exI [of _ "Inl e"] exI [of _ q]) (auto simp: delivered_part_def)
      next
        case (Inr u)
        with False data(5) b have "client_turn os i nready cs pfs p =
          Some (Inr (nready - 1 \<le> 0, i + 1, nready - 1), cs[i := c'], pfs, q)" by simp
        with data(4) d sent Inr show ?thesis
          by (intro exI [of _ c'] exI [of _ out] exI [of _ "Inr (nready - 1 \<le> 0, i + 1, nready - 1)"] exI [of _ q])
            (auto simp: delivered_def)
      qed
    qed
  qed (use ready read input(2) fd in auto)
qed
end
