(* ===== verification/Chat_Protocol.thy ===== *)
theory Chat_Protocol
  imports Tcpchat_Main Server_Delivery
begin

unbundle bit_operations_syntax

text \<open>
  The protocol the two programs speak, end to end: what one client's lines become on the
  others' screens, and where the implementation departs from it.
\<close>

section \<open>Whole lines go through\<close>

text \<open>The message the server makes of a connected client's complete lines.\<close>

definition tagged :: "bytes \<Rightarrow> bytes \<Rightarrow> bytes" where
  "tagged name lines = ''['' @ name @ '']: '' @ lines"

lemma complete_whole: "lines \<noteq> [] \<Longrightarrow> last lines = d \<Longrightarrow> complete d lines = lines \<and> rest d lines = []"
  using complete_unique [of lines lines "[]" d] by simp

lemma absorbed_lines:
  assumes "absorbed c bs c' out" and "client_wf c" and "content (ci_buffer c) = []"
    and "ci_connected c" and "bs \<noteq> []" and "last bs = newline"
  shows "out = tagged (ci_name c) bs \<and> session c' = (True, ci_name c, [])"
proof -
  have now: "content (recv_at_start (ci_buffer c) bs) = bs"
    using assms(2,3) by (intro content_recv_empty) (simp_all add: client_wf_def)
  have "newline \<in> set bs" using assms(5,6) last_in_set by metis
  then show ?thesis
    using assms(1,4) now complete_whole [OF assms(5,6)] by (simp add: absorbed_def tagged_def Let_def)
qed

lemma absorbed_name:
  assumes "absorbed c (name @ newline # bs) c' out" and "client_wf c" and "content (ci_buffer c) = []"
    and "\<not> ci_connected c" and "newline \<notin> set name" and "bs = [] \<or> last bs = newline"
  shows "out = (if bs = [] then [] else tagged name bs) \<and> session c' = (True, name, [])"
proof -
  have now: "content (recv_at_start (ci_buffer c) (name @ newline # bs)) = name @ newline # bs"
    using assms(2,3) by (intro content_recv_empty) (simp_all add: client_wf_def)
  have first: "butlast (first_line newline (name @ newline # bs)) = name"
    "after_line newline (name @ newline # bs) = bs"
    using first_line_line [OF assms(5)] after_line_line [OF assms(5)] by simp_all
  have "bs \<noteq> [] \<Longrightarrow> newline \<in> set bs" using assms(6) last_in_set by metis
  then show ?thesis
    using assms(1,4,6) now first complete_whole [of bs newline]
    by (cases "bs = []") (simp_all add: absorbed_def tagged_def Let_def)
qed

text \<open>
  The bytes of a message, cut into chunks in any way that fits the receiver's buffer, come out
  of it as they went in.
\<close>

lemma message_printed:
  assumes "msg \<noteq> []" and "last msg = newline" and "concat chunks = msg" and "chunks_fit 1024 newline [] chunks"
  shows "\<exists>b. feed put_receive (buf_consume_full newline) buf_default chunks = Inr (msg, b) \<and> content b = []"
  using received.feed_chunks [of buf_default newline chunks] assms complete_whole [OF assms(1,2)] by auto

section \<open>Partial lines are overwritten\<close>

lemma complete_begins:
  assumes "d \<in> set xs"
  shows "prefix (first_line d xs) (complete d (xs @ ys))"
proof -
  have "first_line d (xs @ ys) = first_line d xs" using assms by (induction xs) auto
  with assms complete_first [of d "xs @ ys"] show ?thesis by simp
qed

text \<open>
  The server stores a read at the start of the array: what is looked at then are the new bytes
  and, after them, as many bytes of the array as were waiting.
\<close>

lemma absorbed_connected:
  assumes "absorbed c bs c' out" and "client_wf c" and "session c = (True, name, old)"
    and "now = bs @ take (length old) (drop (length bs) (bf_mem (ci_buffer c)))"
  shows "session c' = (True, name, rest newline now) \<and> out = (if newline \<in> set now then tagged name (complete newline now) else [])"
proof -
  have c: "ci_connected c" "ci_name c = name" "content (ci_buffer c) = old"
    using assms(3) by (simp_all add: session_def)
  have "content (recv_at_start (ci_buffer c) bs) = now"
    using assms(2,4) c(3) by (simp add: content_recv_at_start client_wf_def)
  with assms(1) c show ?thesis by (auto simp: absorbed_def tagged_def Let_def)
qed

section \<open>A removed client's name\<close>

lemma after_drop_slot:
  assumes "i < length cs - 1"
  shows "ci_fd (after_drop i cs ! i) = ci_fd (last cs) \<and> ci_name (after_drop i cs ! i) = ci_name (cs ! i)
    \<and> ci_buffer (after_drop i cs ! i) = ci_buffer (cs ! i) \<and> ci_connected (after_drop i cs ! i) = ci_connected (cs ! i)"
  using assms by (simp add: after_drop_def)

section \<open>Read errors\<close>

text \<open>The branch for a reset connection comes after a call that throws on every error.\<close>

lemma client_turn_read_error:
  assumes wf: "clients_wf cs" and al: "aligned cs pfs" and i: "i < length cs"
    and ready: "pfd_revents (pfs ! (i + 2)) AND (POLLERR OR POLLHUP OR POLLNVAL) = 0"
      "pfd_revents (pfs ! (i + 2)) AND POLLIN \<noteq> 0"
    and err: "os_read os (fd_get (ci_fd (cs ! i))) (1024 - length (content (ci_buffer (cs ! i)))) (kern p) = (Inl e, w)"
  shows "client_turn os i nready cs pfs p =
    Some (Inl (SystemError e ''read() failed''), cs, pfs, p\<lparr>errno_of := e, kern := w\<rparr>)"
proof -
  have get: "vec_get pfs (i + 2) = Inr (pfs ! (i + 2))" using al i by (simp add: aligned_def)
  have "read_fd os (fd_get (ci_fd (cs ! i))) (1024 - length (content (ci_buffer (cs ! i)))) p
      = (Inl (SystemError e ''read() failed''), p\<lparr>errno_of := e, kern := w\<rparr>)"
    using err by (cases rule: read_fd_cases [of os "fd_get (ci_fd (cs ! i))"
        "1024 - length (content (ci_buffer (cs ! i)))" p]) auto
  with get ready client_readable_error [OF wf i, of os p] show ?thesis
    by (simp add: client_turn_def Let_def)
qed

lemma client_loop_skips:
  assumes "aligned cs pfs" and "j \<le> length cs" and "\<forall>k < j. pfd_revents (pfs ! (k + 2)) = 0"
  shows "i \<le> j \<Longrightarrow> client_loop os i nready cs pfs p = client_loop os j nready cs pfs p"
proof (induction i rule: inc_induct)
  case (step k)
  then have "client_turn os k nready cs pfs p = Some (Inr (False, k + 1, nready), cs, pfs, p)"
    using assms by (simp add: client_turn_def aligned_def)
  with step assms(2) show ?case by (simp add: client_loop.simps [of os k])
qed simp

lemma server_iter_read_error:
  assumes wf: "server_wf sv" and poll: "os_poll os (poll_set sv) (- 1) (kern p) = (Inr (n, rv), w)"
    and "rv 0 AND POLLIN = 0" and "rv 1 AND POLLIN = 0"
    and j: "j < length (sv_clients sv)" and before: "\<forall>k < j. rv (k + 2) = 0"
    and ready: "rv (j + 2) AND (POLLERR OR POLLHUP OR POLLNVAL) = 0" "rv (j + 2) AND POLLIN \<noteq> 0"
    and err: "os_read os (fd_get (ci_fd (sv_clients sv ! j)))
      (1024 - length (content (ci_buffer (sv_clients sv ! j)))) w = (Inl e, w')"
  shows "server_iter os sv p = Some (Inl (SystemError e ''read() failed''), sv, p\<lparr>errno_of := e, kern := w'\<rparr>)"
proof -
  define cs where "cs = sv_clients sv"
  define pfs where "pfs = set_revents (poll_set sv) rv"
  have al: "aligned cs pfs" unfolding cs_def pfs_def by (rule aligned_polled)
  have len: "length pfs = length cs + 2" using al by (simp add: aligned_def)
  have rev: "pfd_revents (pfs ! k) = rv k" if "k < length cs + 2" for k
    using that len by (simp add: pfs_def)
  have polled: "c_poll os (poll_set sv) (- 1) p = ((int n, pfs), p\<lparr>kern := w\<rparr>)"
    using poll by (simp add: c_poll_def c_call_def pfs_def)
  have "clients_wf cs" using wf by (simp add: server_wf_def cs_def)
  from client_turn_read_error [OF this al, of j os "p\<lparr>kern := w\<rparr>" e w' "int n"] j ready err rev
  have "client_turn os j (int n) cs pfs (p\<lparr>kern := w\<rparr>) =
      Some (Inl (SystemError e ''read() failed''), cs, pfs, p\<lparr>errno_of := e, kern := w'\<rparr>)"
    by (simp add: cs_def)
  then have "client_loop os j (int n) cs pfs (p\<lparr>kern := w\<rparr>) =
      Some (Inl (SystemError e ''read() failed''), cs, pfs, p\<lparr>errno_of := e, kern := w'\<rparr>)"
    using j by (simp add: client_loop.simps [of os j] cs_def)
  moreover have "client_loop os 0 (int n) cs pfs (p\<lparr>kern := w\<rparr>) = client_loop os j (int n) cs pfs (p\<lparr>kern := w\<rparr>)"
    using client_loop_skips [OF al, of j 0] j before rev by (simp add: cs_def)
  ultimately show ?thesis
    using polled assms(3,4) rev [of 0] rev [of 1] len
    by (cases pfs) (simp_all add: server_iter_def handle_ready_def handle_clients_def cs_def)
qed

lemma server_event_loop_read_error:
  assumes "server_iter os sv p = Some (Inl e, sv', q)" and "sv_running sv"
  shows "server_event_loop os sv p = Some (Inl e, sv', q)"
  using assms by (simp add: server_event_loop_def server_loop.simps [of os sv p])

section \<open>A full buffer without a line\<close>

lemma full_no_room: "buf_wf b \<Longrightarrow> length (content b) = 1024 \<Longrightarrow> size_of_int (buf_free_space b) = 0"
  by (simp add: room_behind)

text \<open>A read of no bytes from the server, which is how its end looks, changes nothing.\<close>

lemma client_server_nothing:
  assumes "cl_wf cl" and "cl_idle cl" and "reads_bounded os"
    and "os_read os (fd_get (cl_fd cl)) (1024 - length (content (cl_read_buffer cl))) (kern p) = (Inr [], w)"
  shows "client_server os cl p =
    (Inr (), cl, p\<lparr>trace := trace p @ [EvRead (fd_get (cl_fd cl)) []], kern := w\<rparr>)"
proof -
  let ?rb = "cl_read_buffer cl" and ?q = "p\<lparr>trace := trace p @ [EvRead (fd_get (cl_fd cl)) []], kern := w\<rparr>"
  have bwf: "buf_wf ?rb" and idle: "newline \<notin> set (content ?rb)"
    using assms(1,2) by (simp_all add: cl_wf_def cl_idle_def)
  have read: "read_fd os (fd_get (cl_fd cl)) (size_of_int (buf_free_space ?rb)) p = (Inr (0, []), ?q)"
    using assms(4) room_behind [OF bwf]
    by (cases rule: read_fd_cases [of os "fd_get (cl_fd cl)" "1024 - length (content ?rb)" p]) auto
  from read_behind [OF bwf assms(3) read] have b: "buf_store (buf_size ?rb) [] ?rb = Inr ?rb"
    "buf_increase_size 0 ?rb = Inr ?rb" by auto
  have "buf_consume_full newline ?rb = Inr ([], ?rb)"
    using buf_consume_once_none [OF bwf idle]
    by (simp add: buf_consume_full_def consume_full_loop.simps [of newline "[]" ?rb])
  with read b show ?thesis by (simp add: client_server_def buf_consume_full_nl_def)
qed

text \<open>
  The server has ended, or a line from it has filled the buffer, and nothing else happens:
  every \<^verbatim>\<open>poll\<close> reports the server's socket alone, and a read from it gives no bytes. \<open>S\<close> are
  the states of the kernel for which that is so from now on.
\<close>

definition server_silent :: "'w os \<Rightarrow> client \<Rightarrow> 'w set \<Rightarrow> bool" where
  "server_silent os cl S \<longleftrightarrow>
     (\<forall>w \<in> S. \<forall>fds. map pfd_fd fds = map pfd_fd (client_poll_set cl) \<longrightarrow>
        (\<exists>n r w1 w2. os_poll os fds (- 1) w = (Inr (n, r), w1)
          \<and> r 0 AND POLLIN = 0 \<and> r 1 AND POLLIN \<noteq> 0 \<and> r 2 AND POLLIN = 0
          \<and> os_read os (fd_get (cl_fd cl)) (1024 - length (content (cl_read_buffer cl))) w1 = (Inr [], w2) \<and> w2 \<in> S))"

lemma silent_iteration:
  assumes cl: "cl_wf cl" "cl_idle cl" and "reads_bounded os" and silent: "server_silent os cl S"
    and "kern p \<in> S" and fds: "map pfd_fd pfs = map pfd_fd (client_poll_set cl)"
  shows "\<exists>pfs' q. client_iter os cl pfs p = Some (Inr Continue, cl, pfs', q)
    \<and> map pfd_fd pfs' = map pfd_fd (client_poll_set cl) \<and> kern q \<in> S
    \<and> trace q = trace p @ [EvRead (fd_get (cl_fd cl)) []]"
proof -
  have len: "length pfs = 3" using arg_cong [OF fds, of length] by (simp add: client_poll_set_def)
  obtain n r w1 w2 where poll: "os_poll os pfs (- 1) (kern p) = (Inr (n, r), w1)"
    and r: "r 0 AND POLLIN = 0" "r 1 AND POLLIN \<noteq> 0" "r 2 AND POLLIN = 0"
    and read: "os_read os (fd_get (cl_fd cl)) (1024 - length (content (cl_read_buffer cl))) w1 = (Inr [], w2)" "w2 \<in> S"
    using silent assms(5) fds unfolding server_silent_def by meson
  define pfs' where "pfs' = set_revents pfs r"
  have revs: "ready_at k pfs' = Inr (r k AND POLLIN \<noteq> 0)" if "k < 3" for k
    using that len by (simp add: ready_at_def pfs'_def)
  have polled: "c_poll os pfs (- 1) p = ((int n, pfs'), p\<lparr>kern := w1\<rparr>)"
    using poll by (simp add: c_poll_def c_call_def pfs'_def)
  from client_server_nothing [OF cl assms(3), of "p\<lparr>kern := w1\<rparr>" w2] read(1)
  have "client_server os cl (p\<lparr>kern := w1\<rparr>) =
      (Inr (), cl, p\<lparr>trace := trace p @ [EvRead (fd_get (cl_fd cl)) []], kern := w2\<rparr>)" by simp
  then have "client_iter os cl pfs p =
      Some (Inr Continue, cl, pfs', p\<lparr>trace := trace p @ [EvRead (fd_get (cl_fd cl)) []], kern := w2\<rparr>)"
    using polled r revs
    by (simp add: client_iter_def client_handle_ready_def client_check_stdin_def client_check_server_def
        client_check_signal_def)
  with fds read(2) show ?thesis by (simp add: pfs'_def)
qed

lemma silent_iterations:
  assumes "cl_wf cl" "cl_idle cl" "cl_connected cl" and "reads_bounded os" and "server_silent os cl S"
    and "kern p \<in> S" and "map pfd_fd pfs = map pfd_fd (client_poll_set cl)"
  shows "client_event_iterations os cl pfs p = None"
proof -
  have "\<not> (os' = os \<and> cl' = cl \<and> kern p' \<in> S \<and> map pfd_fd pfs' = map pfd_fd (client_poll_set cl))"
    if "client_event_iterations os' cl' pfs' p' = Some res" for os' cl' pfs' p' res
    using that
  proof (rule client_event_iterations.raw_induct [rotated])
    fix f :: "'a os \<Rightarrow> client \<Rightarrow> pollfd list \<Rightarrow> 'a proc \<Rightarrow> ((exn + unit) \<times> client \<times> 'a proc) option"
      and os' cl' pfs' p' res'
    assume IH: "\<And>os' cl' pfs' p' res'. f os' cl' pfs' p' = Some res' \<Longrightarrow>
        \<not> (os' = os \<and> cl' = cl \<and> kern p' \<in> S \<and> map pfd_fd pfs' = map pfd_fd (client_poll_set cl))"
      and eq: "(if \<not> cl_connected cl' then Some (Inr (), cl', p')
        else case client_iter os' cl' pfs' p' of None \<Rightarrow> None
          | Some (r, cl1, pfs1, p1) \<Rightarrow> case r of Inl e \<Rightarrow> Some (Inl e, cl1, p1)
              | Inr Continue \<Rightarrow> f os' cl1 pfs1 p1 | Inr Break \<Rightarrow> Some (Inr (), cl1, p1)) = Some res'"
    show "\<not> (os' = os \<and> cl' = cl \<and> kern p' \<in> S \<and> map pfd_fd pfs' = map pfd_fd (client_poll_set cl))"
    proof
      assume now: "os' = os \<and> cl' = cl \<and> kern p' \<in> S \<and> map pfd_fd pfs' = map pfd_fd (client_poll_set cl)"
      with silent_iteration [OF assms(1,2,4,5), of p' pfs'] obtain pfs1 p1 where
        "client_iter os cl pfs' p' = Some (Inr Continue, cl, pfs1, p1)"
        "map pfd_fd pfs1 = map pfd_fd (client_poll_set cl)" "kern p1 \<in> S" by blast
      with eq now assms(3) IH show False by auto
    qed
  qed
  with assms(6,7) show ?thesis by (cases "client_event_iterations os cl pfs p") auto
qed

text \<open>A standard input line that fills the buffer looks like the end of the input.\<close>

lemma client_stdin_overlong:
  assumes "cl_wf cl" and "reads_bounded os" and "length (content (cl_write_buffer cl)) = 1024"
    and "client_stdin os cl p = Some (r, cl', q)" and "\<forall>e w. os_read os STDIN_FILENO 0 (kern p) \<noteq> (Inl e, w)"
  shows "r = Inr Break \<and> \<not> cl_connected cl'"
proof -
  let ?wb = "cl_write_buffer cl"
  have bwf: "buf_wf ?wb" using assms(1) by (simp add: cl_wf_def)
  have room: "size_of_int (buf_free_space ?wb) = 0" using full_no_room [OF bwf assms(3)] .
  obtain bs w where read: "read_fd os STDIN_FILENO (size_of_int (buf_free_space ?wb)) p =
      (Inr (int (length bs), bs), p\<lparr>trace := trace p @ [EvRead STDIN_FILENO bs], kern := w\<rparr>)"
    using assms(5) room by (cases rule: read_fd_cases [of os STDIN_FILENO 0 p]) auto
  from read_fd_bounded [OF assms(2) read] room have "bs = []" by simp
  with read_behind [OF bwf assms(2) read] have "buf_store (buf_size ?wb) [] ?wb = Inr ?wb" by auto
  with assms(4) read \<open>bs = []\<close> show ?thesis
    by (auto simp: client_stdin_def client_stop_def Let_def split: prod.splits)
qed

end
