(* ===== verification/Scripted_Kernel.thy ===== *)
theory Scripted_Kernel
  imports Chat_Protocol
begin

unbundle bit_operations_syntax

text \<open>
  One concrete kernel, on which the hypotheses about the kernel hold. Its state is a script:
  the bytes each successful read will deliver, in order, what each poll will report, and the
  next descriptor number. The theorems about the program are applied to it to show that what
  they assume can be met.
\<close>

record script =
  sc_reads :: "bytes list"
  sc_polls :: "(nat \<Rightarrow> 16 word) list"
  sc_next :: nat

definition swap16 :: "16 word \<Rightarrow> 16 word" where
  "swap16 w = push_bit 8 w OR drop_bit 8 w"

definition swap32 :: "32 word \<Rightarrow> 32 word" where
  "swap32 w = push_bit 24 w OR (push_bit 8 w AND 0x00FF0000) OR (drop_bit 8 w AND 0x0000FF00) OR drop_bit 24 w"

definition new_fd :: "script \<Rightarrow> (errno + nat) \<times> script" where
  "new_fd s = (Inr (sc_next s), s\<lparr>sc_next := sc_next s + 1\<rparr>)"

definition script_read :: "int \<Rightarrow> nat \<Rightarrow> script \<Rightarrow> (errno + bytes) \<times> script" where
  "script_read fd n s =
     (case sc_reads s of
        [] \<Rightarrow> (Inl ECONNRESET, s)
      | bs # rs \<Rightarrow> (Inr (take n bs), s\<lparr>sc_reads := rs\<rparr>))"

definition seen :: "pollfd list \<Rightarrow> (nat \<Rightarrow> 16 word) \<Rightarrow> nat \<Rightarrow> 16 word" where
  "seen fds r k = (if k < length fds then r k AND (pfd_events (fds ! k) OR (POLLERR OR POLLHUP OR POLLNVAL)) else 0)"

definition script_poll :: "pollfd list \<Rightarrow> int \<Rightarrow> script \<Rightarrow> (errno + nat \<times> (nat \<Rightarrow> 16 word)) \<times> script" where
  "script_poll fds t s =
     (case sc_polls s of
        [] \<Rightarrow> (Inl EBADF, s)
      | r # rs \<Rightarrow>
          (Inr (length (filter (\<lambda>k. seen fds r k \<noteq> 0) [0..<length fds]), seen fds r), s\<lparr>sc_polls := rs\<rparr>))"

definition script_os :: "script os" where
  "script_os =
     \<lparr>os_read = script_read, os_write = (\<lambda>fd bs s. (Inr (length bs), s)), os_close = (\<lambda>fd s. (Inr (), s)),
      os_accept = (\<lambda>fd. new_fd), os_socket = (\<lambda>f t pr. new_fd), os_connect = (\<lambda>fd sa s. (Inr (), s)),
      os_bind = (\<lambda>fd sa s. (Inr (), s)), os_listen = (\<lambda>fd n s. (Inr (), s)), os_reuseaddr = (\<lambda>fd s. (Inr (), s)),
      os_poll = script_poll, os_block_signals = (\<lambda>s. (Inr (), s)), os_signalfd = new_fd,
      os_inet_pton = (\<lambda>f str. if str = ''127.0.0.1'' then (1, 0x0100007F) else (0, 0)),
      os_inet_ntop = (\<lambda>f a. if a = 0 then Some ''0.0.0.0'' else None),
      os_htons = swap16, os_htonl = swap32, os_mem = (\<lambda>s k. CHR 0x00)\<rparr>"

lemma script_lawful [simp]:
  "reads_bounded script_os" "writes_bounded script_os" "interrupts_finite script_os m" "aborts_finite script_os a"
  "read_interrupts_finite script_os m"
  by (auto simp: reads_bounded_def writes_bounded_def interrupts_finite_def aborts_finite_def read_interrupts_finite_def script_os_def
      script_read_def new_fd_def split: list.splits)

lemma script_poll_counts [simp]: "poll_counts script_os"
  by (auto simp: poll_counts_def script_os_def script_poll_def split: list.splits)

lemma script_poll_requested [simp]: "poll_reports_requested script_os"
proof -
  have "w AND a \<noteq> 0 \<or> w AND b \<noteq> 0" if "w = v AND (a OR b)" "w \<noteq> 0" for v w a b :: "16 word"
  proof (rule ccontr)
    assume "\<not> ?thesis"
    then have "w AND a = 0" "w AND b = 0" by simp_all
    moreover have "w = (w AND a) OR (w AND b)"
      by (rule bit_word_eqI) (auto simp: that(1) bit_simps)
    ultimately show False using that(2) by simp
  qed
  then show ?thesis
    unfolding poll_reports_requested_def
    by (auto simp: script_os_def script_poll_def seen_def split: list.splits)
qed

definition script_start :: "bytes list \<Rightarrow> (nat \<Rightarrow> 16 word) list \<Rightarrow> script proc" where
  "script_start reads polls =
     \<lparr>errno_of = EINTR, trace = [], kern = \<lparr>sc_reads = reads, sc_polls = polls, sc_next = 3\<rparr>\<rparr>"

lemma script_start_trace [simp]: "trace (script_start reads polls) = []"
  by (simp add: script_start_def)

text \<open>
  A server with two named clients, amy on descriptor 5 and bob on 6, in the process that
  opened all this; and a client connected on 3, with the signal descriptor 4.
\<close>

definition only :: "nat \<Rightarrow> 16 word \<Rightarrow> nat \<Rightarrow> 16 word" where
  "only k ev = (\<lambda>j. if j = k then ev else 0)"

definition demo_info :: "int \<Rightarrow> bytes \<Rightarrow> client_info" where
  "demo_info fd name = \<lparr>ci_fd = ScopedFd fd, ci_name = name, ci_buffer = buf_default, ci_connected = True\<rparr>"

definition demo_clients :: "client_info list" where
  "demo_clients = [demo_info 5 ''amy'', demo_info 6 ''bob'']"

definition demo_server :: server where
  "demo_server = server_default\<lparr>sv_running := True, sv_listenfd := ScopedFd 3, sv_signalfd := ScopedFd 4,
     sv_clients := demo_clients\<rparr>"

definition demo_pollfds :: "pollfd list" where
  "demo_pollfds = set_revents (poll_set demo_server) (only 2 POLLIN)"

definition demo_proc :: "bytes list \<Rightarrow> (nat \<Rightarrow> 16 word) list \<Rightarrow> script proc" where
  "demo_proc reads polls =
     \<lparr>errno_of = EINTR, trace = [EvOpen 3, EvOpen 4, EvOpen 5, EvOpen 6],
      kern = \<lparr>sc_reads = reads, sc_polls = polls, sc_next = 7\<rparr>\<rparr>"

definition demo_client :: client where
  "demo_client = client_default\<lparr>cl_connected := True, cl_fd := ScopedFd 3, cl_signalfd := ScopedFd 4\<rparr>"

lemma poll_values [simp]: "POLLIN \<noteq> 0" "POLLIN AND POLLIN = POLLIN" "POLLIN AND (POLLERR OR POLLHUP OR POLLNVAL) = 0"
  by (simp_all add: POLLIN_def POLLERR_def POLLHUP_def POLLNVAL_def)

lemma demo_info_simps [simp]:
  "ci_fd (demo_info fd name) = ScopedFd fd" "ci_name (demo_info fd name) = name"
  "ci_buffer (demo_info fd name) = buf_default" "ci_connected (demo_info fd name) = True"
  "session (demo_info fd name) = (True, name, [])"
  by (simp_all add: demo_info_def session_def)

lemma demo_clients_facts [simp]:
  "clients_wf demo_clients" "client_fds demo_clients = [5, 6]" "length demo_clients = 2"
  "demo_clients ! 0 = demo_info 5 ''amy''" "demo_clients ! Suc 0 = demo_info 6 ''bob''"
  by (simp_all add: demo_clients_def clients_wf_def client_wf_def client_fds_def)

lemma demo_server_facts [simp]:
  "server_wf demo_server" "sv_running demo_server" "server_held demo_server = {#3, 4, 5, 6#}"
  "sv_clients demo_server = demo_clients"
  by (simp_all add: demo_server_def server_default_def server_wf_def fd_valid_def server_held_def fds_of_def)

lemma demo_proc_facts [simp]:
  "accounts (demo_proc reads polls) {#3, 4, 5, 6#}"
  "trace (demo_proc reads polls) = [EvOpen 3, EvOpen 4, EvOpen 5, EvOpen 6]"
  "kern (demo_proc reads polls) = \<lparr>sc_reads = reads, sc_polls = polls, sc_next = 7\<rparr>"
  by (simp_all add: demo_proc_def accounts_def)

lemma demo_aligned [simp]: "aligned demo_clients demo_pollfds"
  using aligned_polled [of demo_server "only 2 POLLIN"] by (simp add: demo_pollfds_def)

lemma demo_revents [simp]: "k < 4 \<Longrightarrow> pfd_revents (demo_pollfds ! k) = only 2 POLLIN k"
  by (simp add: demo_pollfds_def)

lemma demo_client_facts [simp]:
  "cl_wf demo_client" "cl_idle demo_client" "cl_connected demo_client" "apart demo_client" "cl_ready 3 demo_client"
  "content (cl_read_buffer demo_client) = []" "content (cl_write_buffer demo_client) = []"
  "fd_get (cl_fd demo_client) = 3" "client_held demo_client = {#3, 4#}"
  by (simp_all add: demo_client_def client_default_def cl_wf_def cl_idle_def apart_def cl_ready_def fd_valid_def
      max_name_len_def STDIN_FILENO_def client_held_def fds_of_def)

lemma script_reads [simp]:
  "os_read script_os fd n \<lparr>sc_reads = bs # rs, sc_polls = ps, sc_next = k\<rparr> =
    (Inr (take n bs), \<lparr>sc_reads = rs, sc_polls = ps, sc_next = k\<rparr>)"
  "os_read script_os fd n \<lparr>sc_reads = [], sc_polls = ps, sc_next = k\<rparr> =
    (Inl ECONNRESET, \<lparr>sc_reads = [], sc_polls = ps, sc_next = k\<rparr>)"
  by (simp_all add: script_os_def script_read_def)

lemma script_polls:
  "s = \<lparr>sc_reads = rs, sc_polls = r # ps, sc_next = k\<rparr> \<Longrightarrow> os_poll script_os fds t s =
    (Inr (length (filter (\<lambda>k. seen fds r k \<noteq> 0) [0..<length fds]), seen fds r),
     \<lparr>sc_reads = rs, sc_polls = ps, sc_next = k\<rparr>)"
  by (simp add: script_os_def script_poll_def)

lemma seen_poll_set:
  "k < length (sv_clients sv) + 2 \<Longrightarrow> seen (poll_set sv) (only j POLLIN) k = only j POLLIN k"
  by (simp add: seen_def poll_set_events only_def POLLIN_def POLLERR_def POLLHUP_def POLLNVAL_def)

lemma server_reach_run:
  "server_reach os sv p \<Longrightarrow> server_reach os (fst (snd (server_run os sv p))) (snd (snd (server_run os sv p)))"
  by (cases "server_run os sv p") (auto intro: server_reach.ran)
end
