(* ===== verification/Cli_Text.thy ===== *)
theory Cli_Text
  imports Prelude
begin

text \<open>
  The string helpers of \<^verbatim>\<open>CLI::detail\<close> (\<^verbatim>\<open>CLI11.hpp\<close>): splitting and
  joining, trimming, the tests on names, searching and replacing. A
  \<^verbatim>\<open>std::string\<close> is a list of characters, a position a natural number and
  \<^verbatim>\<open>npos\<close> is \<^term>\<open>None\<close>. The character classes are those of the C locale,
  which is the global one of the program: it never sets another.
\<close>

section \<open>The standard library on strings\<close>

text \<open>
  \<^verbatim>\<open>find_if\<close> as a position, the \<^verbatim>\<open>find\<close> and \<^verbatim>\<open>find_first_of\<close>
  members from a position on, \<^verbatim>\<open>find_last_of\<close> up to a position.
\<close>

primrec find_pos :: "('a \<Rightarrow> bool) \<Rightarrow> 'a list \<Rightarrow> nat option" where
  "find_pos P [] = None"
| "find_pos P (x # xs) = (if P x then Some 0 else map_option Suc (find_pos P xs))"

definition find_from :: "('a \<Rightarrow> bool) \<Rightarrow> 'a list \<Rightarrow> nat \<Rightarrow> nat option" where
  "find_from P s pos = map_option ((+) pos) (find_pos P (drop pos s))"

definition find_first_of :: "string \<Rightarrow> string \<Rightarrow> nat option" where
  "find_first_of s cs = find_pos (\<lambda>c. c \<in> set cs) s"

definition find_last_of :: "string \<Rightarrow> string \<Rightarrow> nat option" where
  "find_last_of s cs =
     map_option (\<lambda>i. length s - 1 - i) (find_pos (\<lambda>c. c \<in> set cs) (rev s))"

primrec find_str :: "string \<Rightarrow> string \<Rightarrow> nat option" where
  "find_str [] t = (if t = [] then Some 0 else None)"
| "find_str (c # cs) t = (if prefix t (c # cs) then Some 0 else map_option Suc (find_str cs t))"

definition find_str_from :: "string \<Rightarrow> string \<Rightarrow> nat \<Rightarrow> nat option" where
  "find_str_from s t pos =
     (if pos \<le> length s then map_option ((+) pos) (find_str (drop pos s) t) else None)"

text \<open>\<^verbatim>\<open>isspace\<close>, \<^verbatim>\<open>isalpha\<close>, \<^verbatim>\<open>isprint\<close> and \<^verbatim>\<open>tolower\<close>.\<close>

definition isspace :: "char \<Rightarrow> bool" where
  "isspace c \<longleftrightarrow> (let n = of_char c :: nat in n = 32 \<or> 9 \<le> n \<and> n \<le> 13)"

definition isalpha_char :: "char \<Rightarrow> bool" where
  "isalpha_char c \<longleftrightarrow> (let n = of_char c :: nat in 65 \<le> n \<and> n \<le> 90 \<or> 97 \<le> n \<and> n \<le> 122)"

definition isprint :: "char \<Rightarrow> bool" where
  "isprint c \<longleftrightarrow> (let n = of_char c :: nat in 32 \<le> n \<and> n \<le> 126)"

definition tolower :: "char \<Rightarrow> char" where
  "tolower c = (let n = of_char c :: nat in if 65 \<le> n \<and> n \<le> 90 then char_of (n + 32) else c)"

section \<open>Splitting and joining\<close>

text \<open>
  \<^verbatim>\<open>split\<close> reads with \<^verbatim>\<open>std::getline\<close>: every piece ends at a delimiter, the last
  one at the end of the string, and an empty last piece is not read.
\<close>

fun getlines :: "string \<Rightarrow> char \<Rightarrow> string \<Rightarrow> string list" where
  "getlines [] d acc = (if acc = [] then [] else [acc])"
| "getlines (c # cs) d acc = (if c = d then acc # getlines cs d [] else getlines cs d (acc @ [c]))"

definition split_at :: "string \<Rightarrow> char \<Rightarrow> string list" where
  "split_at s delim = (if s = [] then [[]] else getlines s delim [])"

fun join_parts :: "string list \<Rightarrow> string \<Rightarrow> string" where
  "join_parts [] delim = []"
| "join_parts [x] delim = x"
| "join_parts (x # y # xs) delim = x @ delim @ join_parts (y # xs) delim"

definition join :: "string list \<Rightarrow> string \<Rightarrow> string" where
  "join v delim =
     (let rval = join_parts v delim in
      if rval \<noteq> [] \<and> length delim = 1 \<and> last rval = hd delim then butlast rval else rval)"

text \<open>
  The second \<^verbatim>\<open>join\<close> applies a function to the elements and compares stream positions to
  see whether anything was printed since the last delimiter.
\<close>

fun join_with_loop :: "('a \<Rightarrow> string) \<Rightarrow> string \<Rightarrow> 'a list \<Rightarrow> string \<Rightarrow> nat \<Rightarrow> string" where
  "join_with_loop func delim [] s loc = s"
| "join_with_loop func delim (x # xs) s loc =
     (let nloc = length s in
      if nloc > loc then join_with_loop func delim xs (s @ delim @ func x) nloc
      else join_with_loop func delim xs (s @ func x) loc)"

definition join_with :: "'a list \<Rightarrow> ('a \<Rightarrow> string) \<Rightarrow> string \<Rightarrow> string" where
  "join_with v func delim = join_with_loop func delim v [] 0"

definition rjoin :: "string list \<Rightarrow> string \<Rightarrow> string" where
  "rjoin v delim =
     foldl (\<lambda>s start. s @ (if start > 0 then delim else []) @ v ! (length v - start - 1)) [] [0..<length v]"

section \<open>Trimming\<close>

definition ltrim :: "string \<Rightarrow> string" where
  "ltrim str = dropWhile isspace str"

definition ltrim_filter :: "string \<Rightarrow> string \<Rightarrow> string" where
  "ltrim_filter str flt = dropWhile (\<lambda>ch. ch \<in> set flt) str"

definition rtrim :: "string \<Rightarrow> string" where
  "rtrim str = rev (dropWhile isspace (rev str))"

definition rtrim_filter :: "string \<Rightarrow> string \<Rightarrow> string" where
  "rtrim_filter str flt = rev (dropWhile (\<lambda>ch. ch \<in> set flt) (rev str))"

definition trim :: "string \<Rightarrow> string" where
  "trim str = ltrim (rtrim str)"

definition trim_filter :: "string \<Rightarrow> string \<Rightarrow> string" where
  "trim_filter str flt = ltrim_filter (rtrim_filter str flt) flt"

definition trim_copy :: "string \<Rightarrow> string" where
  "trim_copy str = trim str"

definition remove_outer :: "string \<Rightarrow> char \<Rightarrow> string" where
  "remove_outer str key =
     (if length str > 1 \<and> hd str = key \<and> hd str = last str then tl (butlast str) else str)"

definition remove_quotes :: "string \<Rightarrow> string" where
  "remove_quotes str =
     (if length str > 1 \<and> (hd str = CHR 0x22 \<or> hd str = CHR 0x27 \<or> hd str = CHR 0x60)
         \<and> hd str = last str then tl (butlast str) else str)"

section \<open>Names\<close>

definition valid_first_char :: "char \<Rightarrow> bool" where
  "valid_first_char c \<longleftrightarrow> c \<noteq> CHR ''-'' \<and> (of_char c :: nat) > 33"

definition valid_later_char :: "char \<Rightarrow> bool" where
  "valid_later_char c \<longleftrightarrow>
     c \<noteq> CHR ''='' \<and> c \<noteq> CHR '':'' \<and> c \<noteq> CHR ''{'' \<and> ((of_char c :: nat) > 32 \<or> c = CHR 0x09)"

definition valid_name_string :: "string \<Rightarrow> bool" where
  "valid_name_string str \<longleftrightarrow>
     (if str = [] \<or> \<not> valid_first_char (hd str) then False else list_all valid_later_char (tl str))"

definition valid_alias_name_string :: "string \<Rightarrow> bool" where
  "valid_alias_name_string str \<longleftrightarrow>
     find_first_of str [CHR 0x0A] = None \<and> find_first_of str [CHR 0x00] = None"

definition is_separator :: "string \<Rightarrow> bool" where
  "is_separator str \<longleftrightarrow>
     str = [] \<or> length str = 2 \<and> str ! 0 = CHR ''%'' \<and> str ! 1 = CHR ''%''"

definition isalpha :: "string \<Rightarrow> bool" where
  "isalpha str \<longleftrightarrow> list_all isalpha_char str"

definition to_lower :: "string \<Rightarrow> string" where
  "to_lower str = map tolower str"

definition remove_underscore :: "string \<Rightarrow> string" where
  "remove_underscore str = filter (\<lambda>c. c \<noteq> CHR ''_'') str"

text \<open>The thousands separator of the C locale is a comma.\<close>

definition get_group_separators :: string where
  "get_group_separators = [CHR ''_'', CHR 0x27] @ '',''"

definition has_default_flag_values :: "string \<Rightarrow> bool" where
  "has_default_flag_values flags \<longleftrightarrow> find_first_of flags ''{!'' \<noteq> None"

text \<open>
  The position of a name in a list of names; the code returns -1 for none. The comparison
  may ignore the case and the underscores.
\<close>

definition find_member :: "string \<Rightarrow> string list \<Rightarrow> bool \<Rightarrow> bool \<Rightarrow> nat option" where
  "find_member name names ignore_case ignore_underscore =
     (if ignore_case then
        if ignore_underscore then
          (let name = to_lower (remove_underscore name) in
           find_pos (\<lambda>local_name. to_lower (remove_underscore local_name) = name) names)
        else
          (let name = to_lower name in find_pos (\<lambda>local_name. to_lower local_name = name) names)
      else if ignore_underscore then
        (let name = remove_underscore name in
         find_pos (\<lambda>local_name. remove_underscore local_name = name) names)
      else find_pos (\<lambda>local_name. local_name = name) names)"

section \<open>Searching and replacing\<close>

lemma find_pos_less: "find_pos P xs = Some i \<Longrightarrow> i < length xs"
  by (induction xs arbitrary: i) (auto split: if_splits)

lemma find_from_ge: "find_from P s pos = Some i \<Longrightarrow> pos \<le> i \<and> i < length s"
  by (auto simp: find_from_def dest: find_pos_less)

lemma find_str_le: "find_str s t = Some i \<Longrightarrow> i + length t \<le> length s"
  by (induction s arbitrary: i) (auto split: if_splits dest: prefix_length_le)

lemma find_str_from_le: "find_str_from s t pos = Some i \<Longrightarrow> pos \<le> i \<and> i + length t \<le> length s"
  by (auto simp: find_str_from_def split: if_splits dest: find_str_le)

text \<open>
  \<^verbatim>\<open>fix_newlines\<close> inserts the leader behind every line end. The search resumes at the
  last character of the inserted leader, so with an empty leader, or one that itself ends with
  a line end, the loop would find the same place for ever; the model returns \<^term>\<open>None\<close>
  there.
\<close>

abbreviation line_end :: "char \<Rightarrow> bool" where
  "line_end c \<equiv> c = CHR 0x0D \<or> c = CHR 0x0A"

function fix_newlines_loop :: "string \<Rightarrow> string \<Rightarrow> nat \<Rightarrow> string option" where
  "fix_newlines_loop leader inp n =
     (if n < length inp then
        (case find_from line_end inp n of
           None \<Rightarrow> Some inp
         | Some m \<Rightarrow>
             if leader = [] \<or> line_end (last leader) then None
             else fix_newlines_loop leader (take (m + 1) inp @ leader @ drop (m + 1) inp) (m + length leader))
      else Some inp)"
  by pat_completeness auto

lemma find_from_split:
  assumes "find_from P s pos = Some i"
  shows "drop pos s = take (i - pos) (drop pos s) @ s ! i # drop (i + 1) s
    \<and> P (s ! i) \<and> (\<forall>c \<in> set (take (i - pos) (drop pos s)). \<not> P c)"
proof -
  have split: "find_pos P xs = Some k \<Longrightarrow>
      xs = take k xs @ xs ! k # drop (Suc k) xs \<and> P (xs ! k) \<and> (\<forall>c \<in> set (take k xs). \<not> P c)" for xs k
    by (induction xs arbitrary: k) (auto split: if_splits)
  from assms obtain k where "find_pos P (drop pos s) = Some k" and i: "i = pos + k"
    by (auto simp: find_from_def)
  from split [OF this(1)] find_from_ge [OF assms] show ?thesis
    unfolding i by (simp add: add.commute)
qed

termination fix_newlines_loop
proof (relation "measure (\<lambda>(leader, inp, n). length (filter line_end (drop n inp)))")
  fix leader inp :: string and n m
  assume found: "find_from line_end inp n = Some m" and ok: "\<not> (leader = [] \<or> line_end (last leader))"
  from find_from_ge [OF found] have m: "n \<le> m" "m < length inp" by auto
  obtain bs z where z: "leader = bs @ [z]" using ok by (cases leader rule: rev_exhaust) auto
  have "length (take (m + 1) inp @ bs) = m + length leader" using m z by simp
  then have "drop (m + length leader) ((take (m + 1) inp @ bs) @ z # drop (m + 1) inp) = z # drop (m + 1) inp"
    by (metis append_eq_conv_conj)
  then have "drop (m + length leader) (take (m + 1) inp @ leader @ drop (m + 1) inp) = z # drop (m + 1) inp"
    using z by simp
  then show "((leader, take (m + 1) inp @ leader @ drop (m + 1) inp, m + length leader), leader, inp, n)
      \<in> measure (\<lambda>(leader, inp, n). length (filter line_end (drop n inp)))"
    using ok z arg_cong [OF conjunct1 [OF find_from_split [OF found]], of "filter line_end"]
      conjunct2 [OF find_from_split [OF found]]
    by (simp add: filter_empty_conv)
qed simp

definition fix_newlines :: "string \<Rightarrow> string \<Rightarrow> string option" where
  "fix_newlines leader inp = fix_newlines_loop leader inp 0"

text \<open>
  \<^verbatim>\<open>find_and_replace\<close>. An empty pattern is found at every position, so the loop would
  not end: \<^term>\<open>None\<close>.
\<close>

function find_and_replace_loop :: "string \<Rightarrow> string \<Rightarrow> string \<Rightarrow> nat \<Rightarrow> string option" where
  "find_and_replace_loop str frm to start_pos =
     (case find_str_from str frm start_pos of
        None \<Rightarrow> Some str
      | Some i \<Rightarrow>
          if frm = [] then None
          else find_and_replace_loop (take i str @ to @ drop (i + length frm) str) frm to (i + length to))"
  by pat_completeness auto
termination
proof (relation "measure (\<lambda>(str, frm, to, start_pos). length str - start_pos)")
  fix str frm to :: string and start_pos i
  assume "find_str_from str frm start_pos = Some i" and "frm \<noteq> []"
  with find_str_from_le [of str frm start_pos i]
  have "start_pos \<le> i" "i + length frm \<le> length str" "1 \<le> length frm" by (auto simp: Suc_le_eq)
  then have "length str - (i + length frm) < length str - start_pos" by linarith
  then show "((take i str @ to @ drop (i + length frm) str, frm, to, i + length to), str, frm, to, start_pos)
      \<in> measure (\<lambda>(str, frm, to, start_pos). length str - start_pos)"
    by simp
qed simp

definition find_and_replace :: "string \<Rightarrow> string \<Rightarrow> string \<Rightarrow> string option" where
  "find_and_replace str frm to = find_and_replace_loop str frm to 0"

text \<open>
  The definition of a flag may hold default values, as in \<^verbatim>\<open>--on{1},!--off\<close>; here they are
  removed from it.
\<close>

function remove_default_loop :: "string \<Rightarrow> nat option \<Rightarrow> string" where
  "remove_default_loop flags None = flags"
| "remove_default_loop flags (Some loc) =
     (let flags' =
        (case find_from (\<lambda>c. c \<in> set ''},'') flags (loc + 1) of
           None \<Rightarrow> flags
         | Some finish \<Rightarrow>
             if flags ! finish = CHR ''}'' then take loc flags @ drop (finish + 1) flags else flags)
      in remove_default_loop flags' (find_from (\<lambda>c. c = CHR ''{'') flags' (loc + 1)))"
  by pat_completeness auto
termination
proof (relation "measure (\<lambda>(flags, loc). case loc of None \<Rightarrow> 0 | Some l \<Rightarrow> Suc (length flags - l))")
  fix flags flags' :: string and loc
  assume "flags' = (case find_from (\<lambda>c. c \<in> set ''},'') flags (loc + 1) of
           None \<Rightarrow> flags
         | Some finish \<Rightarrow>
             if flags ! finish = CHR ''}'' then take loc flags @ drop (finish + 1) flags else flags)"
  then have "length flags' \<le> length flags" by (auto split: option.splits dest!: find_from_ge)
  then show "((flags', find_from (\<lambda>c. c = CHR ''{'') flags' (loc + 1)), flags, Some loc)
      \<in> measure (\<lambda>(flags, loc). case loc of None \<Rightarrow> 0 | Some l \<Rightarrow> Suc (length flags - l))"
    by (auto split: option.split dest!: find_from_ge)
qed simp

definition remove_default_flag_values :: "string \<Rightarrow> string" where
  "remove_default_flag_values flags =
     filter (\<lambda>c. c \<noteq> CHR ''!'')
       (remove_default_loop flags (find_from (\<lambda>c. c = CHR ''{'') flags 2))"

section \<open>Formatted output\<close>

text \<open>\<^verbatim>\<open>std::setw\<close>: fill with blanks up to a width, on the left unless told otherwise.\<close>

definition setw :: "nat \<Rightarrow> string \<Rightarrow> string" where
  "setw wid s = replicate (wid - length s) (CHR '' '') @ s"

definition setw_left :: "nat \<Rightarrow> string \<Rightarrow> string" where
  "setw_left wid s = s @ replicate (wid - length s) (CHR '' '')"

definition format_aliases :: "string list \<Rightarrow> nat \<Rightarrow> string" where
  "format_aliases aliases wid =
     (if aliases \<noteq> [] then
        setw wid ''     aliases: ''
        @ join_parts (map (\<lambda>alias. the (fix_newlines ''              '' alias)) aliases) '', ''
        @ [CHR 0x0A]
      else [])"

text \<open>
  \<^verbatim>\<open>streamOutAsParagraph\<close>: the lines of the text (each with the flag whether its
  reading hit the end of the stream), the words of a line, and a line break before a word
  that would pass the width.
\<close>

fun stream_lines :: "string \<Rightarrow> string \<Rightarrow> (string \<times> bool) list" where
  "stream_lines [] acc = (if acc = [] then [] else [(acc, True)])"
| "stream_lines (c # cs) acc =
     (if c = CHR 0x0A then (acc, False) # stream_lines cs [] else stream_lines cs (acc @ [c]))"

fun stream_words :: "string \<Rightarrow> string \<Rightarrow> string list" where
  "stream_words [] acc = (if acc = [] then [] else [acc])"
| "stream_words (c # cs) acc =
     (if isspace c then (if acc = [] then stream_words cs [] else acc # stream_words cs [])
      else stream_words cs (acc @ [c]))"

fun paragraph_words :: "nat \<Rightarrow> string \<Rightarrow> string list \<Rightarrow> nat \<Rightarrow> string" where
  "paragraph_words width linePrefix [] charsWritten = []"
| "paragraph_words width linePrefix (word # ws) charsWritten =
     (let brk = charsWritten > 0 \<and> length word + 1 + charsWritten > width;
          written = (if brk then 0 else charsWritten)
      in (if brk then [CHR 0x0A] @ linePrefix else [])
         @ (if written = 0 then word @ paragraph_words width linePrefix ws (written + length word)
            else [CHR '' ''] @ word @ paragraph_words width linePrefix ws (written + length word + 1)))"

definition streamOutAsParagraph :: "string \<Rightarrow> nat \<Rightarrow> string \<Rightarrow> bool \<Rightarrow> string" where
  "streamOutAsParagraph txt paragraphWidth linePrefix skipPrefixOnFirstLine =
     (if skipPrefixOnFirstLine then [] else linePrefix)
     @ concat (map (\<lambda>(line, eof). paragraph_words paragraphWidth linePrefix (stream_words line []) 0
                     @ (if eof then [] else [CHR 0x0A] @ linePrefix))
          (stream_lines txt []))"

end
