(* ===== verification/Cli_Escape.thy ===== *)
theory Cli_Escape
  imports Cli_Text
begin

text \<open>
  Escape sequences, quotes and brackets of \<^verbatim>\<open>CLI::detail\<close>: escaping and unescaping a
  string, the binary form for strings with unprintable bytes, and the splitting of a command
  line into arguments with quotes and brackets.
\<close>

unbundle bit_operations_syntax

section \<open>Escape sequences\<close>

definition escapedChars :: string where
  "escapedChars = [CHR 0x08, CHR 0x09, CHR 0x0A, CHR 0x0C, CHR 0x0D, CHR 0x22, CHR 0x5C]"

definition escapedCharsCode :: string where
  "escapedCharsCode = [CHR ''b'', CHR ''t'', CHR ''n'', CHR ''f'', CHR ''r'', CHR 0x22, CHR 0x5C]"

definition bracketChars :: string where
  "bracketChars = [CHR 0x22, CHR 0x27, CHR 0x60, CHR ''['', CHR ''('', CHR 0x3C, CHR ''{'']"

definition matchBracketChars :: string where
  "matchBracketChars = [CHR 0x22, CHR 0x27, CHR 0x60, CHR '']'', CHR '')'', CHR 0x3E, CHR ''}'']"

definition char_pos :: "string \<Rightarrow> char \<Rightarrow> nat option" where
  "char_pos s c = find_pos (\<lambda>x. x = c) s"

definition has_escapable_character :: "string \<Rightarrow> bool" where
  "has_escapable_character str \<longleftrightarrow> find_first_of str escapedChars \<noteq> None"

definition add_escaped_characters :: "string \<Rightarrow> string" where
  "add_escaped_characters str =
     concat (map (\<lambda>s. case char_pos escapedChars s of
                        Some sloc \<Rightarrow> [CHR 0x5C, escapedCharsCode ! sloc]
                      | None \<Rightarrow> [s]) str)"

text \<open>A hexadecimal digit; any other character gives -1 converted to 32 bits.\<close>

definition hexConvert :: "char \<Rightarrow> 32 word" where
  "hexConvert hc =
     (let n = of_char hc :: int in
      if 48 \<le> n \<and> n \<le> 57 then word_of_int (n - 48)
      else if 65 \<le> n \<and> n \<le> 70 then word_of_int (n - 65 + 10)
      else if 97 \<le> n \<and> n \<le> 102 then word_of_int (n - 97 + 10)
      else word_of_int (- 1))"

definition make_char :: "32 word \<Rightarrow> char" where
  "make_char code = char_of (unat code mod 256)"

text \<open>The UTF-8 encoding of a code point. A code above the last plane appends nothing.\<close>

definition append_codepoint :: "string \<Rightarrow> 32 word \<Rightarrow> exn + string" where
  "append_codepoint str code =
     (if code < 0x80 then Inr (str @ [make_char code])
      else if code < 0x800 then
        Inr (str @ [make_char (0xC0 OR drop_bit 6 code), make_char (0x80 OR (code AND 0x3F))])
      else if code < 0x10000 then
        if 0xD800 \<le> code \<and> code \<le> 0xDFFF then
          Inl (InvalidArgument ''[0xD800, 0xDFFF] are not valid UTF-8.'')
        else
          Inr (str @ [make_char (0xE0 OR drop_bit 12 code),
                      make_char (0x80 OR (drop_bit 6 code AND 0x3F)),
                      make_char (0x80 OR (code AND 0x3F))])
      else if code < 0x110000 then
        Inr (str @ [make_char (0xF0 OR drop_bit 18 code),
                    make_char (0x80 OR (drop_bit 12 code AND 0x3F)),
                    make_char (0x80 OR (drop_bit 6 code AND 0x3F)),
                    make_char (0x80 OR (code AND 0x3F))])
      else Inr str)"

text \<open>
  The loops that read the four or eight digits of a code point: the value so far, the weight
  of the next digit, which shrinks by a factor of 16, and \<^term>\<open>None\<close> at a character that
  is no digit.
\<close>

fun hex_code :: "string \<Rightarrow> 32 word \<Rightarrow> 32 word \<Rightarrow> 32 word option" where
  "hex_code [] code mplier = Some code"
| "hex_code (hc # hcs) code mplier =
     (let res = hexConvert hc in
      if res > 0x0F then None else hex_code hcs (code + res * mplier) (mplier div 16))"

function unescape_loop :: "string \<Rightarrow> string \<Rightarrow> string \<Rightarrow> exn + string" where
  "unescape_loop str loc out =
     (case loc of
        [] \<Rightarrow> Inr out
      | c # rest \<Rightarrow>
          if c = CHR 0x5C then
            (case rest of
               [] \<Rightarrow> Inl (InvalidArgument (''invalid escape sequence '' @ str))
             | e # rest' \<Rightarrow>
                 (case char_pos escapedCharsCode e of
                    Some ecloc \<Rightarrow> unescape_loop str rest' (out @ [escapedChars ! ecloc])
                  | None \<Rightarrow>
                    if e = CHR ''u'' then
                      (if length loc < 6 then
                         Inl (InvalidArgument (''unicode sequence must have 4 hex codes '' @ str))
                       else
                         (case hex_code (take 4 rest') 0 (16 * 16 * 16) of
                            None \<Rightarrow> Inl (InvalidArgument (''unicode sequence must have 4 hex codes '' @ str))
                          | Some code \<Rightarrow>
                              (case append_codepoint out code of
                                 Inl ex \<Rightarrow> Inl ex
                               | Inr out' \<Rightarrow> unescape_loop str (drop 4 rest') out')))
                    else if e = CHR ''U'' then
                      (if length loc < 10 then
                         Inl (InvalidArgument (''unicode sequence must have 8 hex codes '' @ str))
                       else
                         (case hex_code (take 8 rest') 0 (16 * 16 * 16 * 16 * 16 * 16 * 16) of
                            None \<Rightarrow> Inl (InvalidArgument (''unicode sequence must have 8 hex codes '' @ str))
                          | Some code \<Rightarrow>
                              (case append_codepoint out code of
                                 Inl ex \<Rightarrow> Inl ex
                               | Inr out' \<Rightarrow> unescape_loop str (drop 8 rest') out')))
                    else if e = CHR ''0'' then unescape_loop str rest' (out @ [CHR 0x00])
                    else Inl (InvalidArgument
                           (''unrecognized escape sequence '' @ [CHR 0x5C, e] @ '' in '' @ str))))
          else unescape_loop str rest (out @ [c]))"
  by pat_completeness auto
termination
  by (relation "measure (\<lambda>(str, loc, out). length loc)") auto

declare unescape_loop.simps [simp del]

definition remove_escaped_characters :: "string \<Rightarrow> exn + string" where
  "remove_escaped_characters str = unescape_loop str str []"

section \<open>Binary strings\<close>

text \<open>The hexadecimal digits of a byte, lower case, always two of them.\<close>

definition hex_digit :: "nat \<Rightarrow> char" where
  "hex_digit n = (if n < 10 then char_of (48 + n) else char_of (87 + n))"

definition hex_byte :: "char \<Rightarrow> string" where
  "hex_byte c = [hex_digit (of_char c div 16), hex_digit (of_char c mod 16)]"

fun binary_escape_chars :: "string \<Rightarrow> string \<Rightarrow> string" where
  "binary_escape_chars [] escaped_string = escaped_string"
| "binary_escape_chars (c # cs) escaped_string =
     binary_escape_chars cs
       (if \<not> isprint c then escaped_string @ [CHR 0x5C, CHR ''x''] @ hex_byte c
        else if c = CHR ''x'' \<or> c = CHR ''X'' then
          if escaped_string \<noteq> [] \<and> last escaped_string = CHR 0x5C then
            escaped_string @ [CHR 0x5C, CHR ''x''] @ (if c = CHR ''x'' then ''78'' else ''58'')
          else escaped_string @ [c]
        else escaped_string @ [c])"

text \<open>The loop that replaces the single quotes, by which the inserted text is not affected.\<close>

fun quote_escape :: "string \<Rightarrow> string" where
  "quote_escape [] = []"
| "quote_escape (c # cs) = (if c = CHR 0x27 then [CHR 0x5C] @ ''x27'' @ quote_escape cs else c # quote_escape cs)"

definition binary_escape_string :: "string \<Rightarrow> bool \<Rightarrow> string" where
  "binary_escape_string string_to_escape force =
     (let escaped_string = binary_escape_chars string_to_escape [] in
      if escaped_string \<noteq> string_to_escape \<or> force then
        [CHR 0x27, CHR ''B'', CHR 0x22, CHR ''(''] @ quote_escape escaped_string
          @ [CHR '')'', CHR 0x22, CHR 0x27]
      else escaped_string)"

text \<open>
  \<^verbatim>\<open>compare(pos, len, t) == 0\<close>. The code only asks for a suffix once the prefix test has
  shown that the string is long enough.
\<close>

definition compare_at :: "string \<Rightarrow> nat \<Rightarrow> nat \<Rightarrow> string \<Rightarrow> bool" where
  "compare_at s pos len t \<longleftrightarrow> take len (drop pos s) = t"

definition is_binary_escaped_string :: "string \<Rightarrow> bool" where
  "is_binary_escaped_string s \<longleftrightarrow>
     (let ssize = length s in
      compare_at s 0 3 [CHR ''B'', CHR 0x22, CHR ''(''] \<and> compare_at s (ssize - 2) 2 [CHR '')'', CHR 0x22]
      \<or> compare_at s 0 4 [CHR 0x27, CHR ''B'', CHR 0x22, CHR ''('']
        \<and> compare_at s (ssize - 3) 3 [CHR '')'', CHR 0x22, CHR 0x27])"

text \<open>
  The loop of \<^verbatim>\<open>extract_binary_string\<close> from a position to the end mark. The characters it
  looks at after a backslash may lie behind the end mark, but not behind the string.
\<close>

function extract_loop :: "string \<Rightarrow> nat \<Rightarrow> nat \<Rightarrow> string \<Rightarrow> string" where
  "extract_loop s end_loc loc outstring =
     (if loc < end_loc then
        if s ! loc = CHR 0x5C \<and> (s ! (loc + 1) = CHR ''x'' \<or> s ! (loc + 1) = CHR ''X'')
            \<and> hexConvert (s ! (loc + 2)) \<le> 0x0F \<and> hexConvert (s ! (loc + 3)) \<le> 0x0F then
          extract_loop s end_loc (loc + 4)
            (outstring @ [make_char (hexConvert (s ! (loc + 2)) * 16 + hexConvert (s ! (loc + 3)))])
        else extract_loop s end_loc (loc + 1) (outstring @ [s ! loc])
      else outstring)"
  by pat_completeness auto
termination
  by (relation "measure (\<lambda>(s, end_loc, loc, outstring). end_loc - loc)") auto

declare extract_loop.simps [simp del]

definition extract_binary_string :: "string \<Rightarrow> string" where
  "extract_binary_string s =
     (let ssize = length s;
          (start, tail) =
            (if compare_at s 0 3 [CHR ''B'', CHR 0x22, CHR ''(''] \<and> compare_at s (ssize - 2) 2 [CHR '')'', CHR 0x22]
             then (3, 2)
             else if compare_at s 0 4 [CHR 0x27, CHR ''B'', CHR 0x22, CHR ''('']
                 \<and> compare_at s (ssize - 3) 3 [CHR '')'', CHR 0x22, CHR 0x27]
             then (4, 3) else (0, 0))
      in if start = 0 then s else extract_loop s (ssize - tail) start [])"

end
