(* ===== verification/Cli_Quotes.thy ===== *)
theory Cli_Quotes
  imports Cli_Escape
begin

text \<open>
  Quoted strings and brackets of \<^verbatim>\<open>CLI::detail\<close>: the position where a quote or a bracket
  closes, the splitting of a command line at blanks outside quotes and brackets, and the
  removal of the quotes.
\<close>

section \<open>Where a quote or a bracket closes\<close>

text \<open>
  From the position behind the opening quote; a backslash hides the next character. The
  result may lie one behind the end, when the string ends with a backslash.
\<close>

function close_string_from :: "string \<Rightarrow> char \<Rightarrow> nat \<Rightarrow> nat" where
  "close_string_from str closure_char loc =
     (if loc < length str then
        if str ! loc = closure_char then loc
        else if str ! loc = CHR 0x5C then close_string_from str closure_char (loc + 2)
        else close_string_from str closure_char (loc + 1)
      else loc)"
  by pat_completeness auto
termination
  by (relation "measure (\<lambda>(str, closure_char, loc). length str - loc)") auto

declare close_string_from.simps [simp del]

definition close_string_quote :: "string \<Rightarrow> nat \<Rightarrow> char \<Rightarrow> nat" where
  "close_string_quote str start closure_char = close_string_from str closure_char (start + 1)"

definition close_literal_quote :: "string \<Rightarrow> nat \<Rightarrow> char \<Rightarrow> nat" where
  "close_literal_quote str start closure_char =
     (case find_from (\<lambda>c. c = closure_char) str (start + 1) of Some loc \<Rightarrow> loc | None \<Rightarrow> length str)"

lemma close_string_from_ge: "loc \<le> close_string_from str c loc"
  by (induction str c loc rule: close_string_from.induct) (subst close_string_from.simps, auto)

lemma close_string_quote_gt: "start < close_string_quote str start c"
  using close_string_from_ge [of "start + 1" str c] by (simp add: close_string_quote_def)

lemma close_literal_quote_gt: "start < length str \<Longrightarrow> start < close_literal_quote str start c"
  by (auto simp: close_literal_quote_def split: option.split dest: find_from_ge)

text \<open>
  The loop of \<^verbatim>\<open>close_sequence\<close> for the other brackets, with the stack of the closing
  characters still expected. A quote inside is skipped as a whole.
\<close>

function close_sequence_loop :: "string \<Rightarrow> nat \<Rightarrow> string \<Rightarrow> nat" where
  "close_sequence_loop str loc closures =
     (if loc < length str then
        (let closing = (str ! loc = last closures);
             closures = (if closing then butlast closures else closures)
         in if closing \<and> closures = [] then loc
            else
              (case char_pos bracketChars (str ! loc) of
                 None \<Rightarrow> close_sequence_loop str (loc + 1) closures
               | Some b \<Rightarrow>
                   if b = 0 then close_sequence_loop str (close_string_quote str loc (str ! loc) + 1) closures
                   else if b = 1 \<or> b = 2 then
                     close_sequence_loop str (close_literal_quote str loc (str ! loc) + 1) closures
                   else close_sequence_loop str (loc + 1) (closures @ [matchBracketChars ! b])))
      else length str)"
  by pat_completeness auto
termination
proof (relation "measure (\<lambda>(str, loc, closures). length str - loc)", goal_cases)
  case (3 str loc closures)
  then show ?case using close_string_quote_gt [of loc str "str ! loc"] by simp
next
  case (4 str loc closures)
  then show ?case using close_literal_quote_gt [of loc str "str ! loc"] by simp
qed auto

declare close_sequence_loop.simps [simp del]

definition close_sequence :: "string \<Rightarrow> nat \<Rightarrow> char \<Rightarrow> nat" where
  "close_sequence str start closure_char =
     (case char_pos matchBracketChars closure_char of
        None \<Rightarrow> close_literal_quote str start closure_char
      | Some b \<Rightarrow>
          if b = 0 then close_string_quote str start closure_char
          else if b = 1 \<or> b = 2 then close_literal_quote str start closure_char
          else close_sequence_loop str (start + 1) [closure_char])"

section \<open>Splitting a command line\<close>

lemma length_ltrim_le: "length (ltrim s) \<le> length s"
  by (simp add: ltrim_def length_dropWhile_le)

lemma length_rtrim_le: "length (rtrim s) \<le> length s"
  by (metis rtrim_def length_rev length_dropWhile_le)

lemma length_trim_le: "length (trim s) \<le> length s"
  unfolding trim_def using length_ltrim_le length_rtrim_le by (rule order_trans)

text \<open>
  \<^verbatim>\<open>split_up\<close>: a bracketed or quoted argument up to its closing character, and one more
  character behind it is dropped; any other argument up to the next blank (or delimiter, when
  it is not the null character).
\<close>

function split_up_loop :: "string \<Rightarrow> char \<Rightarrow> string list" where
  "split_up_loop str delimiter =
     (if str = [] then []
      else
        (case char_pos bracketChars (hd str) of
           Some b \<Rightarrow>
             (let end_loc = close_sequence str 0 (matchBracketChars ! b) in
              if end_loc \<ge> length str then [str]
              else take (end_loc + 1) str
                   # split_up_loop (trim (if end_loc + 2 < length str then drop (end_loc + 2) str else [])) delimiter)
         | None \<Rightarrow>
             (case find_pos (\<lambda>ch. if delimiter = CHR 0x00 then isspace ch else ch = delimiter) str of
                Some it \<Rightarrow> take it str # split_up_loop (trim (drop (it + 1) str)) delimiter
              | None \<Rightarrow> [str])))"
  by pat_completeness auto
termination
proof (relation "measure (\<lambda>(str, delimiter). length str)", goal_cases)
  case (3 str delimiter b end_loc)
  have "length (trim (drop (end_loc + 2) str)) < length str"
    using length_trim_le [of "drop (end_loc + 2) str"] 3 by (cases str) auto
  with 3 show ?case by (auto simp: trim_def ltrim_def rtrim_def)
next
  case (2 str delimiter it)
  then show ?case using length_trim_le [of "drop (it + 1) str"] by (cases str) auto
qed simp

declare split_up_loop.simps [simp del]

definition split_up :: "string \<Rightarrow> char \<Rightarrow> string list" where
  "split_up str delimiter = split_up_loop (trim str) delimiter"

text \<open>
  \<^verbatim>\<open>escape_detect\<close> replaces an equals sign (or a colon) before a quote by a blank when it
  belongs to an option; \<^verbatim>\<open>find_and_modify\<close> does it at every place the trigger is found. With
  \<open>offset = 0\<close> the code searches back from \<^verbatim>\<open>npos\<close>, that is, from the end.
\<close>

definition escape_detect :: "string \<Rightarrow> nat \<Rightarrow> string" where
  "escape_detect str offset =
     (let next_char = (if offset + 1 < length str then str ! (offset + 1) else CHR 0x00) in
      if next_char = CHR 0x22 \<or> next_char = CHR 0x27 \<or> next_char = CHR 0x60 then
        (case find_last_of (if offset = 0 then str else take offset str)
                [CHR ''-'', CHR ''/'', CHR '' '', CHR 0x22, CHR 0x27, CHR 0x60] of
           Some astart \<Rightarrow>
             if str ! astart = (if str ! offset = CHR ''='' then CHR ''-'' else CHR ''/'')
             then str[offset := CHR '' ''] else str
         | None \<Rightarrow> str)
      else str)"

lemma length_escape_detect [simp]: "length (escape_detect str offset) = length str"
  by (simp add: escape_detect_def Let_def split: option.split)

function find_and_modify :: "string \<Rightarrow> char \<Rightarrow> nat \<Rightarrow> string" where
  "find_and_modify str trigger start_pos =
     (case find_from (\<lambda>c. c = trigger) str start_pos of
        None \<Rightarrow> str
      | Some i \<Rightarrow> find_and_modify (escape_detect str i) trigger (i + 1))"
  by pat_completeness auto
termination
  by (relation "measure (\<lambda>(str, trigger, start_pos). length str - start_pos)")
    (auto dest!: find_from_ge)

declare find_and_modify.simps [simp del]

section \<open>Removing quotes\<close>

text \<open>
  On the arguments of a command line. An empty argument would make the code read
  \<^verbatim>\<open>front()\<close> of an empty string; the only caller has removed those before.
\<close>

primrec remove_quotes_all :: "string list \<Rightarrow> exn + string list" where
  "remove_quotes_all [] = Inr []"
| "remove_quotes_all (arg # args) =
     (if arg = [] then Inl (Undefined ''front of an empty string'')
      else if hd arg = CHR 0x22 \<and> last arg = CHR 0x22 then
        (case remove_escaped_characters (remove_quotes arg) of
           Inl e \<Rightarrow> Inl e
         | Inr arg' \<Rightarrow> map_sum id ((#) arg') (remove_quotes_all args))
      else map_sum id ((#) (remove_quotes arg)) (remove_quotes_all args))"

definition handle_secondary_array :: "string \<Rightarrow> string" where
  "handle_secondary_array str =
     (if length str \<ge> 2 \<and> hd str = CHR ''['' \<and> last str = CHR '']'' then
        ''[['' @ concat (map (\<lambda>c. [c, c]) (tl str))
      else str)"

text \<open>The flag tells whether the string was quoted; the string is the new value.\<close>

definition process_quoted_string :: "string \<Rightarrow> char \<Rightarrow> char \<Rightarrow> bool \<Rightarrow> exn + (bool \<times> string)" where
  "process_quoted_string str string_char literal_char disable_secondary_array_processing =
     (let secondary = (\<lambda>s. if disable_secondary_array_processing then s else handle_secondary_array s) in
      if length str \<le> 1 then Inr (False, str)
      else if is_binary_escaped_string str then Inr (True, secondary (extract_binary_string str))
      else if hd str = string_char \<and> last str = string_char then
        (let str1 = remove_outer str string_char in
         (case (if find_first_of str1 [CHR 0x5C] \<noteq> None then remove_escaped_characters str1 else Inr str1) of
            Inl e \<Rightarrow> Inl e
          | Inr str2 \<Rightarrow> Inr (True, secondary str2)))
      else if (hd str = literal_char \<or> hd str = CHR 0x60) \<and> last str = hd str then
        Inr (True, secondary (remove_outer str (hd str)))
      else Inr (False, str))"

end
