(* ===== verification/Cli_Error.thy ===== *)
theory Cli_Error
  imports Cli_Text
begin

text \<open>
  The error classes of \<^verbatim>\<open>CLI11.hpp\<close>. An exception object is a record: its class, the
  name \<^verbatim>\<open>get_name()\<close> reports, the message \<^verbatim>\<open>what()\<close> and the exit code. The name
  is usually that of the class, but a constructor may set another.
\<close>

section \<open>Exit codes and classes\<close>

datatype ExitCodes =
    EC_Success | EC_IncorrectConstruction | EC_BadNameString | EC_OptionAlreadyAdded
  | EC_FileError | EC_ConversionError | EC_ValidationError | EC_RequiredError
  | EC_RequiresError | EC_ExcludesError | EC_ExtrasError | EC_ConfigError | EC_InvalidError
  | EC_HorribleError | EC_OptionNotFound | EC_ArgumentMismatch | EC_BaseClass

fun exit_code :: "ExitCodes \<Rightarrow> int" where
  "exit_code EC_Success = 0"
| "exit_code EC_IncorrectConstruction = 100"
| "exit_code EC_BadNameString = 101"
| "exit_code EC_OptionAlreadyAdded = 102"
| "exit_code EC_FileError = 103"
| "exit_code EC_ConversionError = 104"
| "exit_code EC_ValidationError = 105"
| "exit_code EC_RequiredError = 106"
| "exit_code EC_RequiresError = 107"
| "exit_code EC_ExcludesError = 108"
| "exit_code EC_ExtrasError = 109"
| "exit_code EC_ConfigError = 110"
| "exit_code EC_InvalidError = 111"
| "exit_code EC_HorribleError = 112"
| "exit_code EC_OptionNotFound = 113"
| "exit_code EC_ArgumentMismatch = 114"
| "exit_code EC_BaseClass = 127"

text \<open>The classes a handler distinguishes, and the base class of each.\<close>

datatype error_class =
    C_Error | C_ConstructionError | C_IncorrectConstruction | C_BadNameString | C_OptionAlreadyAdded
  | C_ParseError | C_Success | C_CallForHelp | C_CallForAllHelp | C_CallForVersion | C_RuntimeError
  | C_FileError | C_ConversionError | C_ValidationError | C_RequiredError | C_ArgumentMismatch
  | C_RequiresError | C_ExcludesError | C_ExtrasError | C_ConfigError | C_InvalidError
  | C_HorribleError | C_OptionNotFound

fun base_class :: "error_class \<Rightarrow> error_class" where
  "base_class C_IncorrectConstruction = C_ConstructionError"
| "base_class C_BadNameString = C_ConstructionError"
| "base_class C_OptionAlreadyAdded = C_ConstructionError"
| "base_class C_Success = C_ParseError"
| "base_class C_CallForHelp = C_Success"
| "base_class C_CallForAllHelp = C_Success"
| "base_class C_CallForVersion = C_Success"
| "base_class C_Error = C_Error"
| "base_class C_ConstructionError = C_Error"
| "base_class C_ParseError = C_Error"
| "base_class C_OptionNotFound = C_Error"
| "base_class _ = C_ParseError"

record cli_error =
  error_class :: error_class
  error_name :: string
  what_msg :: string
  actual_exit_code :: int

text \<open>
  What may leave an operation of the library: one of its own errors, an exception of the
  standard library, or, in the model only, the end of the fuel of a recursion.
\<close>

datatype cli_exn = Cli cli_error | Std exn | No_fuel

text \<open>\<^verbatim>\<open>catch(const CLI::ParseError &)\<close>: the class or a class above it.\<close>

definition is_parse_error :: "cli_error \<Rightarrow> bool" where
  "is_parse_error e \<longleftrightarrow>
     (let c = error_class e in c = C_ParseError \<or> base_class c = C_ParseError \<or> base_class (base_class c) = C_ParseError)"

text \<open>
  The constructors the macros \<^verbatim>\<open>CLI11_ERROR_DEF\<close> and \<^verbatim>\<open>CLI11_ERROR_SIMPLE\<close> give every
  class: with a name of its own, and with the name of the class.
\<close>

definition error_named :: "error_class \<Rightarrow> string \<Rightarrow> string \<Rightarrow> ExitCodes \<Rightarrow> cli_exn" where
  "error_named c ename msg code =
     Cli \<lparr>error_class = c, error_name = ename, what_msg = msg, actual_exit_code = exit_code code\<rparr>"

definition int_string :: "int \<Rightarrow> string" where
  "int_string i = (if i < 0 then ''-'' @ decimal (nat (- i)) else decimal (nat i))"

section \<open>Errors of the construction\<close>

definition IncorrectConstruction :: "string \<Rightarrow> cli_exn" where
  "IncorrectConstruction msg =
     error_named C_IncorrectConstruction ''IncorrectConstruction'' msg EC_IncorrectConstruction"

definition PositionalFlag :: "string \<Rightarrow> cli_exn" where
  "PositionalFlag name =
     IncorrectConstruction (name @ '': Flags cannot be positional'')"

definition Set0Opt :: "string \<Rightarrow> cli_exn" where
  "Set0Opt name =
     IncorrectConstruction (name @ '': Cannot set 0 expected, use a flag instead'')"

definition SetFlag :: "string \<Rightarrow> cli_exn" where
  "SetFlag name =
     IncorrectConstruction (name @ '': Cannot set an expected number for flags'')"

definition ChangeNotVector :: "string \<Rightarrow> cli_exn" where
  "ChangeNotVector name =
     IncorrectConstruction (name @ '': You can only change the expected arguments for vectors'')"

definition AfterMultiOpt :: "string \<Rightarrow> cli_exn" where
  "AfterMultiOpt name =
     IncorrectConstruction
       (name @ '': You can'' @ [CHR 0x27]
        @ ''t change expected arguments after you'' @ [CHR 0x27] @ ''ve changed the multi option policy!'')"

definition MissingOption :: "string \<Rightarrow> cli_exn" where
  "MissingOption name =
     IncorrectConstruction (''Option '' @ name @ '' is not defined'')"

definition MultiOptionPolicy_error :: "string \<Rightarrow> cli_exn" where
  "MultiOptionPolicy_error name =
     IncorrectConstruction (name @ '': multi_option_policy only works for flags and exact value options'')"

definition BadNameString :: "string \<Rightarrow> cli_exn" where
  "BadNameString msg =
     error_named C_BadNameString ''BadNameString'' msg EC_BadNameString"

definition OneCharName :: "string \<Rightarrow> cli_exn" where
  "OneCharName name =
     BadNameString (''Invalid one char name: '' @ name)"

definition MissingDash :: "string \<Rightarrow> cli_exn" where
  "MissingDash name =
     BadNameString (''Long names strings require 2 dashes '' @ name)"

definition BadLongName :: "string \<Rightarrow> cli_exn" where
  "BadLongName name =
     BadNameString (''Bad long name: '' @ name)"

definition BadPositionalName :: "string \<Rightarrow> cli_exn" where
  "BadPositionalName name =
     BadNameString (''Invalid positional Name: '' @ name)"

definition ReservedName :: "string \<Rightarrow> cli_exn" where
  "ReservedName name =
     BadNameString
       (''Names '' @ [CHR 0x27] @ ''-'' @ [CHR 0x27] @ '','' @ [CHR 0x27] @ ''--'' @ [CHR 0x27] @ '','' @ [CHR 0x27] @ ''++'' @ [CHR 0x27]
        @ '' are reserved and not allowed as option names '' @ name)"

definition MultiPositionalNames :: "string \<Rightarrow> cli_exn" where
  "MultiPositionalNames name =
     BadNameString (''Only one positional name allowed, remove: '' @ name)"

text \<open>\<^verbatim>\<open>OptionAlreadyAdded(name)\<close> completes the message; the two static members give all of it.\<close>

definition OptionAlreadyAdded :: "string \<Rightarrow> cli_exn" where
  "OptionAlreadyAdded name =
     error_named C_OptionAlreadyAdded ''OptionAlreadyAdded'' (name @ '' is already added'') EC_OptionAlreadyAdded"

definition OptionAlreadyAdded_Requires :: "string \<Rightarrow> string \<Rightarrow> cli_exn" where
  "OptionAlreadyAdded_Requires name other =
     error_named C_OptionAlreadyAdded ''OptionAlreadyAdded'' (name @ '' requires '' @ other) EC_OptionAlreadyAdded"

definition OptionAlreadyAdded_Excludes :: "string \<Rightarrow> string \<Rightarrow> cli_exn" where
  "OptionAlreadyAdded_Excludes name other =
     error_named C_OptionAlreadyAdded ''OptionAlreadyAdded'' (name @ '' excludes '' @ other) EC_OptionAlreadyAdded"

section \<open>Errors of the parsing\<close>

text \<open>Some of them are no errors: they end the parsing with a success.\<close>

definition CallForHelp :: "cli_exn" where
  "CallForHelp =
     error_named C_CallForHelp ''CallForHelp''
       ''This should be caught in your main function, see examples'' EC_Success"

definition CallForAllHelp :: "cli_exn" where
  "CallForAllHelp =
     error_named C_CallForAllHelp ''CallForAllHelp''
       ''This should be caught in your main function, see examples'' EC_Success"

definition CallForVersion :: "string \<Rightarrow> cli_exn" where
  "CallForVersion msg =
     error_named C_CallForVersion ''CallForVersion'' msg EC_Success"

definition Success :: "cli_exn" where
  "Success =
     error_named C_Success ''Success'' ''Successfully completed, should be caught and quit'' EC_Success"

definition RuntimeError_code :: "int \<Rightarrow> cli_exn" where
  "RuntimeError_code code =
     Cli \<lparr>error_class = C_RuntimeError, error_name = ''RuntimeError'', what_msg = ''Runtime error'',
          actual_exit_code = code\<rparr>"

definition FileError :: "string \<Rightarrow> cli_exn" where
  "FileError msg =
     error_named C_FileError ''FileError'' msg EC_FileError"

definition FileError_Missing :: "string \<Rightarrow> cli_exn" where
  "FileError_Missing name =
     FileError (name @ '' was not readable (missing?)'')"

definition ConversionError :: "string \<Rightarrow> cli_exn" where
  "ConversionError msg =
     error_named C_ConversionError ''ConversionError'' msg EC_ConversionError"

definition ConversionError_value :: "string \<Rightarrow> string \<Rightarrow> cli_exn" where
  "ConversionError_value member name =
     ConversionError (''The value '' @ member @ '' is not an allowed value for '' @ name)"

definition ConversionError_results :: "string \<Rightarrow> string list \<Rightarrow> cli_exn" where
  "ConversionError_results name results =
     ConversionError (''Could not convert: '' @ name @ '' = '' @ join results '','')"

definition TooManyInputsFlag :: "string \<Rightarrow> cli_exn" where
  "TooManyInputsFlag name =
     ConversionError (name @ '': too many inputs for a flag'')"

definition TrueFalse :: "string \<Rightarrow> cli_exn" where
  "TrueFalse name =
     ConversionError (name @ '': Should be true/false or a number'')"

definition ValidationError :: "string \<Rightarrow> cli_exn" where
  "ValidationError msg =
     error_named C_ValidationError ''ValidationError'' msg EC_ValidationError"

definition ValidationError_of :: "string \<Rightarrow> string \<Rightarrow> cli_exn" where
  "ValidationError_of name msg =
     ValidationError (name @ '': '' @ msg)"

text \<open>\<^verbatim>\<open>RequiredError(name)\<close> completes the message, the static members mostly give all of it.\<close>

definition RequiredError_msg :: "string \<Rightarrow> cli_exn" where
  "RequiredError_msg msg =
     error_named C_RequiredError ''RequiredError'' msg EC_RequiredError"

definition RequiredError :: "string \<Rightarrow> cli_exn" where
  "RequiredError name =
     RequiredError_msg (name @ '' is required'')"

definition RequiredError_Subcommand :: "nat \<Rightarrow> cli_exn" where
  "RequiredError_Subcommand min_subcom =
     (if min_subcom = 1 then RequiredError ''A subcommand''
      else RequiredError_msg (''Requires at least '' @ decimal min_subcom @ '' subcommands''))"

definition RequiredError_Option :: "nat \<Rightarrow> nat \<Rightarrow> nat \<Rightarrow> string \<Rightarrow> cli_exn" where
  "RequiredError_Option min_option max_option used option_list =
     (if min_option = 1 \<and> max_option = 1 \<and> used = 0 then
        RequiredError (''Exactly 1 option from ['' @ option_list @ '']'')
      else if min_option = 1 \<and> max_option = 1 \<and> used > 1 then
        RequiredError_msg (''Exactly 1 option from ['' @ option_list @ ''] is required but '' @ decimal used
          @ '' were given'')
      else if min_option = 1 \<and> used = 0 then
        RequiredError (''At least 1 option from ['' @ option_list @ '']'')
      else if used < min_option then
        RequiredError_msg (''Requires at least '' @ decimal min_option @ '' options used but only '' @ decimal used
          @ '' were given from ['' @ option_list @ '']'')
      else if max_option = 1 then
        RequiredError_msg (''Requires at most 1 options be given from ['' @ option_list @ '']'')
      else
        RequiredError_msg (''Requires at most '' @ decimal max_option @ '' options be used but '' @ decimal used
          @ '' were given from ['' @ option_list @ '']''))"

definition ArgumentMismatch :: "string \<Rightarrow> cli_exn" where
  "ArgumentMismatch msg =
     error_named C_ArgumentMismatch ''ArgumentMismatch'' msg EC_ArgumentMismatch"

definition ArgumentMismatch_count :: "string \<Rightarrow> int \<Rightarrow> nat \<Rightarrow> cli_exn" where
  "ArgumentMismatch_count name expected received =
     ArgumentMismatch
       (if expected > 0
        then ''Expected exactly '' @ int_string expected @ '' arguments to '' @ name @ '', got '' @ decimal received
        else ''Expected at least '' @ int_string (- expected) @ '' arguments to '' @ name @ '', got '' @ decimal received)"

definition AtLeast :: "string \<Rightarrow> int \<Rightarrow> nat \<Rightarrow> cli_exn" where
  "AtLeast name num received =
     ArgumentMismatch (name @ '': At least '' @ int_string num @ '' required but received '' @ decimal received)"

definition AtMost :: "string \<Rightarrow> int \<Rightarrow> nat \<Rightarrow> cli_exn" where
  "AtMost name num received =
     ArgumentMismatch (name @ '': At most '' @ int_string num @ '' required but received '' @ decimal received)"

definition TypedAtLeast :: "string \<Rightarrow> int \<Rightarrow> string \<Rightarrow> cli_exn" where
  "TypedAtLeast name num typ =
     ArgumentMismatch (name @ '': '' @ int_string num @ '' required '' @ typ @ '' missing'')"

definition FlagOverride :: "string \<Rightarrow> cli_exn" where
  "FlagOverride name =
     ArgumentMismatch (name @ '' was given a disallowed flag override'')"

definition PartialType :: "string \<Rightarrow> int \<Rightarrow> string \<Rightarrow> cli_exn" where
  "PartialType name num typ =
     ArgumentMismatch (name @ '': '' @ typ @ '' only partially specified: '' @ int_string num
       @ '' required for each element'')"

definition RequiresError :: "string \<Rightarrow> string \<Rightarrow> cli_exn" where
  "RequiresError curname subname =
     error_named C_RequiresError ''RequiresError'' (curname @ '' requires '' @ subname) EC_RequiresError"

definition ExcludesError :: "string \<Rightarrow> string \<Rightarrow> cli_exn" where
  "ExcludesError curname subname =
     error_named C_ExcludesError ''ExcludesError'' (curname @ '' excludes '' @ subname) EC_ExcludesError"

text \<open>
  The second constructor of \<^verbatim>\<open>ExtrasError\<close>, the one the parser uses, passes the name of the
  application where the name of the error belongs.
\<close>

definition ExtrasError :: "string list \<Rightarrow> cli_exn" where
  "ExtrasError args =
     error_named C_ExtrasError ''ExtrasError''
       ((if length args > 1 then ''The following arguments were not expected: ''
         else ''The following argument was not expected: '') @ join args '' '') EC_ExtrasError"

definition ExtrasError_in :: "string \<Rightarrow> string list \<Rightarrow> cli_exn" where
  "ExtrasError_in name args =
     error_named C_ExtrasError name
       ((if length args > 1 then ''The following arguments were not expected: ''
         else ''The following argument was not expected: '') @ join args '' '') EC_ExtrasError"

definition ConfigError :: "string \<Rightarrow> cli_exn" where
  "ConfigError msg =
     error_named C_ConfigError ''ConfigError'' msg EC_ConfigError"

definition ConfigError_Extras :: "string \<Rightarrow> cli_exn" where
  "ConfigError_Extras item =
     ConfigError (''INI was not able to parse '' @ item)"

definition NotConfigurable :: "string \<Rightarrow> cli_exn" where
  "NotConfigurable item =
     ConfigError (item @ '': This option is not allowed in a configuration file'')"

definition InvalidError_msg :: "string \<Rightarrow> cli_exn" where
  "InvalidError_msg msg =
     error_named C_InvalidError ''InvalidError'' msg EC_InvalidError"

definition InvalidError :: "string \<Rightarrow> cli_exn" where
  "InvalidError name =
     InvalidError_msg (name @ '': Too many positional arguments with unlimited expected args'')"

definition HorribleError :: "string \<Rightarrow> cli_exn" where
  "HorribleError msg =
     error_named C_HorribleError ''HorribleError'' msg EC_HorribleError"

definition OptionNotFound :: "string \<Rightarrow> cli_exn" where
  "OptionNotFound name =
     error_named C_OptionNotFound ''OptionNotFound'' (name @ '' not found'') EC_OptionNotFound"

end
