(* ===== verification/Cli_Convert.thy ===== *)
theory Cli_Convert
  imports Cli_Text
begin

text \<open>
  The conversions of strings to values (\<^verbatim>\<open>integral_conversion\<close>, \<^verbatim>\<open>to_flag_value\<close>, the
  \<^verbatim>\<open>lexical_cast\<close>, \<^verbatim>\<open>lexical_assign\<close> and \<^verbatim>\<open>lexical_conversion\<close> overloads for
  integers, booleans, characters, strings and containers). The templates are functions of the
  width of the integer: an \<^typ>\<open>'a::len word\<close> stands for the type \<^verbatim>\<open>T\<close>, a conversion to
  it keeps the low bits as \<^verbatim>\<open>static_cast\<close> does. Floating point is not modelled.
\<close>

section \<open>The C library: \<open>strtoull\<close> and \<open>strtoll\<close>\<close>

text \<open>The value of a digit in bases up to 16.\<close>

definition digit_of :: "nat \<Rightarrow> char \<Rightarrow> nat option" where
  "digit_of base c =
     (let n = of_char c :: nat;
          v = (if 48 \<le> n \<and> n \<le> 57 then n - 48
               else if 97 \<le> n \<and> n \<le> 102 then n - 87
               else if 65 \<le> n \<and> n \<le> 70 then n - 55 else 99)
      in if v < base then Some v else None)"

text \<open>The digits at the front: their value and their number.\<close>

fun scan_digits :: "nat \<Rightarrow> string \<Rightarrow> nat \<Rightarrow> nat \<Rightarrow> nat \<times> nat" where
  "scan_digits base [] value cnt = (value, cnt)"
| "scan_digits base (c # cs) value cnt =
     (case digit_of base c of
        None \<Rightarrow> (value, cnt)
      | Some d \<Rightarrow> scan_digits base cs (value * base + d) (cnt + 1))"

text \<open>
  The common part: blanks, a sign, the prefix of the base (base 0 takes it from the prefix).
  The result is the sign, the magnitude and the number of characters read, none of them when
  there is no digit.
\<close>

definition strto :: "string \<Rightarrow> nat \<Rightarrow> bool \<times> nat \<times> nat" where
  "strto s base =
     (let blanks = length (takeWhile isspace s);
          s1 = drop blanks s;
          sign = (if s1 \<noteq> [] \<and> (hd s1 = CHR ''+'' \<or> hd s1 = CHR ''-'') then 1 else 0);
          neg = (s1 \<noteq> [] \<and> hd s1 = CHR ''-'');
          s2 = drop sign s1;
          hex = (base = 0 \<or> base = 16) \<and> length s2 \<ge> 3 \<and> s2 ! 0 = CHR ''0''
                \<and> (s2 ! 1 = CHR ''x'' \<or> s2 ! 1 = CHR ''X'') \<and> digit_of 16 (s2 ! 2) \<noteq> None;
          base' = (if base \<noteq> 0 then base
                   else if hex then 16
                   else if s2 \<noteq> [] \<and> hd s2 = CHR ''0'' then 8 else 10);
          pre = (if hex then 2 else 0);
          (value, cnt) = scan_digits base' (drop pre s2) 0 0
      in if cnt = 0 then (neg, 0, 0) else (neg, value, blanks + sign + pre + cnt))"

text \<open>
  The value, the number of characters read, and whether \<^verbatim>\<open>errno\<close> became
  \<^verbatim>\<open>ERANGE\<close>. A minus sign negates the unsigned value modulo $2^{64}$.
\<close>

definition strtoull :: "string \<Rightarrow> nat \<Rightarrow> 64 word \<times> nat \<times> bool" where
  "strtoull s base =
     (let (neg, value, n) = strto s base in
      if value \<ge> 2 ^ 64 then (- 1, n, True)
      else (if neg then - of_nat value else of_nat value, n, False))"

definition strtoll :: "string \<Rightarrow> nat \<Rightarrow> 64 word \<times> nat \<times> bool" where
  "strtoll s base =
     (let (neg, value, n) = strto s base in
      if neg then
        if value > 2 ^ 63 then (word_of_int (- (2 ^ 63)), n, True) else (- of_nat value, n, False)
      else
        if value \<ge> 2 ^ 63 then (word_of_int (2 ^ 63 - 1), n, True) else (of_nat value, n, False))"

section \<open>Integers\<close>

text \<open>
  Both return whether the conversion succeeded and the value the output variable has then;
  a failed conversion may have changed it. The first is the template for unsigned types, the
  second for signed ones. Group separators are removed and the conversion is tried again.
\<close>

definition without :: "char \<Rightarrow> string \<Rightarrow> string" where
  "without separator s = filter (\<lambda>c. c \<noteq> separator) s"

lemma length_without: "c \<in> set s \<Longrightarrow> length (without c s) < length s"
  by (auto simp: without_def intro: length_filter_less)

lemma find_pos_None: "find_pos P s = None \<longleftrightarrow> (\<forall>c \<in> set s. \<not> P c)"
  by (induction s) auto

lemma find_first_of_None: "find_first_of s cs = None \<longleftrightarrow> set s \<inter> set cs = {}"
  by (auto simp: find_first_of_def find_pos_None)

lemma length_filter_some: "find_first_of s cs \<noteq> None \<Longrightarrow> length (filter (\<lambda>c. c \<notin> set cs) s) < length s"
  by (auto simp: find_first_of_None intro: length_filter_less)

lemma length_trim_blank: "s \<noteq> [] \<Longrightarrow> isspace (last s) \<Longrightarrow> length (trim_copy s) < length s"
proof (cases s rule: rev_cases)
  case (snoc ys y)
  assume "isspace (last s)"
  then have "length (rtrim s) \<le> length ys"
    using snoc by (simp add: rtrim_def length_dropWhile_le [where xs = "rev ys", simplified])
  moreover have "length (trim_copy s) \<le> length (rtrim s)"
    by (simp add: trim_copy_def trim_def ltrim_def length_dropWhile_le)
  ultimately show ?thesis using snoc by simp
qed simp

function integral_conversion_unsigned :: "string \<Rightarrow> 'a::len word \<Rightarrow> bool \<times> 'a word" where
  "integral_conversion_unsigned inp out =
     (if inp = [] \<or> hd inp = CHR ''-'' then (False, out)
      else
     (case strtoull inp 0 of (output_ll, val, erange) \<Rightarrow>
      if erange then (False, out)
      else
     (let out1 = ucast output_ll in
      if val = length inp \<and> ucast out1 = output_ll then (True, out1)
      else
     (case strtoll inp 0 of (output_sll, val', _) \<Rightarrow>
      if val' = length inp then
        (let out2 = (if sint output_sll < 0 then 0 else ucast output_sll) in (ucast out2 = output_sll, out2))
      else if find_first_of inp get_group_separators \<noteq> None then
        integral_conversion_unsigned (filter (\<lambda>c. c \<notin> set get_group_separators) inp) out1
      else if isspace (last inp) then integral_conversion_unsigned (trim_copy inp) out1
      else if take 2 inp = ''0o'' \<or> take 2 inp = ''0O'' then
        (case strtoull (drop 2 inp) 8 of (output_ll, val, erange) \<Rightarrow>
           if erange then (False, out1)
           else (val + 2 = length inp \<and> ucast (ucast output_ll :: 'a word) = output_ll, ucast output_ll))
      else if take 2 inp = ''0b'' \<or> take 2 inp = ''0B'' then
        (case strtoull (drop 2 inp) 2 of (output_ll, val, erange) \<Rightarrow>
           if erange then (False, out1)
           else (val + 2 = length inp \<and> ucast (ucast output_ll :: 'a word) = output_ll, ucast output_ll))
      else (False, out1)))))"
  by pat_completeness auto
termination
proof (relation "measure (\<lambda>(inp, out). length inp)", goal_cases)
  case (2 inp out) then show ?case using length_filter_some by auto
next
  case (3 inp out) then show ?case using length_trim_blank by auto
qed simp

declare integral_conversion_unsigned.simps [simp del]

text \<open>The first group separator, in the order of the list, that occurs in the input.\<close>

definition first_separator :: "string \<Rightarrow> char option" where
  "first_separator inp = find (\<lambda>separator. separator \<in> set inp) get_group_separators"

function integral_conversion_signed :: "string \<Rightarrow> 'a::len word \<Rightarrow> bool \<times> 'a word" where
  "integral_conversion_signed inp out =
     (if inp = [] then (False, out)
      else
     (case strtoll inp 0 of (output_ll, val, erange) \<Rightarrow>
      if erange then (False, out)
      else
     (let out1 = ucast output_ll in
      if val = length inp \<and> scast out1 = output_ll then (True, out1)
      else if inp = ''true'' then (True, 1)
      else
     (case first_separator inp of
        Some separator \<Rightarrow> integral_conversion_signed (without separator inp) out1
      | None \<Rightarrow>
      if isspace (last inp) then integral_conversion_signed (trim_copy inp) out1
      else if take 2 inp = ''0o'' \<or> take 2 inp = ''0O'' then
        (case strtoll (drop 2 inp) 8 of (output_ll, val, erange) \<Rightarrow>
           if erange then (False, out1)
           else (val + 2 = length inp \<and> scast (ucast output_ll :: 'a word) = output_ll, ucast output_ll))
      else if take 2 inp = ''0b'' \<or> take 2 inp = ''0B'' then
        (case strtoll (drop 2 inp) 2 of (output_ll, val, erange) \<Rightarrow>
           if erange then (False, out1)
           else (val + 2 = length inp \<and> scast (ucast output_ll :: 'a word) = output_ll, ucast output_ll))
      else (False, out1)))))"
  by pat_completeness auto
termination
proof (relation "measure (\<lambda>(inp, out). length inp)", goal_cases)
  case (2 inp out) then show ?case using length_trim_blank by auto
next
  case (3 inp out) then show ?case using length_without by (auto simp: first_separator_def find_Some_iff)
qed simp

declare integral_conversion_signed.simps [simp del]

section \<open>Flags\<close>

text \<open>
  \<^verbatim>\<open>to_flag_value\<close>: the 64 bit result and the \<^verbatim>\<open>errno\<close> it leaves, when that was 0
  before (every caller that reads it has reset it).
\<close>

abbreviation ERANGE :: errno where
  "ERANGE \<equiv> Other_errno 34"

definition to_flag_value :: "string \<Rightarrow> 64 word \<times> errno option" where
  "to_flag_value val0 =
     (if val0 = ''true'' then (1, None)
      else if val0 = ''false'' then (- 1, None)
      else
     (let val = to_lower val0 in
      if length val = 1 then
        (let c = hd val; n = of_char c :: nat in
         if 49 \<le> n \<and> n \<le> 57 then (of_nat (n - 48), None)
         else if c \<in> set ''0fn-'' then (- 1, None)
         else if c \<in> set ''ty+'' then (1, None)
         else (- 1, Some EINVAL))
      else if val = ''true'' \<or> val = ''on'' \<or> val = ''yes'' \<or> val = ''enable'' then (1, None)
      else if val = ''false'' \<or> val = ''off'' \<or> val = ''no'' \<or> val = ''disable'' then (- 1, None)
      else
        (case strtoll val 0 of (ret, loc, erange) \<Rightarrow>
           (ret, if erange then Some ERANGE else if loc \<noteq> length val then Some EINVAL else None))))"

section \<open>Lexical casts\<close>

definition lexical_cast_char :: "string \<Rightarrow> char \<Rightarrow> bool \<times> char" where
  "lexical_cast_char inp out =
     (if length inp = 1 then (True, hd inp)
      else
        (case integral_conversion_signed inp (0 :: 8 word) of (result, res) \<Rightarrow>
           if result then (True, char_of (unat res)) else (False, out)))"

definition lexical_cast_bool :: "string \<Rightarrow> bool \<Rightarrow> bool \<times> bool" where
  "lexical_cast_bool inp out =
     (case to_flag_value inp of (val, err) \<Rightarrow>
        if err = None then (True, sint val > 0)
        else if err = Some ERANGE then (True, hd inp \<noteq> CHR ''-'')
        else (False, out))"

definition lexical_cast_string :: "string \<Rightarrow> string \<Rightarrow> bool \<times> string" where
  "lexical_cast_string inp out = (True, inp)"

text \<open>
  \<^verbatim>\<open>lexical_assign\<close> for assignable types: an empty string gives the default value, here 0.
\<close>

definition lexical_assign :: "(string \<Rightarrow> 'b \<Rightarrow> bool \<times> 'b) \<Rightarrow> 'b \<Rightarrow> string \<Rightarrow> 'b \<Rightarrow> bool \<times> 'b" where
  "lexical_assign cast zero inp out = (if inp = [] then (True, zero) else cast inp out)"

text \<open>
  \<^verbatim>\<open>lexical_conversion\<close> of one string to one value; no string at all would be an access
  outside the vector, so callers pass at least one.
\<close>

definition lexical_conversion :: "(string \<Rightarrow> 'b \<Rightarrow> bool \<times> 'b) \<Rightarrow> string list \<Rightarrow> 'b \<Rightarrow> exn + (bool \<times> 'b)" where
  "lexical_conversion assign strings out =
     (case strings of
        [] \<Rightarrow> Inl (Undefined ''element of an empty vector'')
      | s # _ \<Rightarrow> Inr (assign s out))"

text \<open>The conversion to a container of single values.\<close>

fun container_loop :: "(string \<Rightarrow> bool \<times> 'b) \<Rightarrow> bool \<Rightarrow> string list \<Rightarrow> 'b list \<Rightarrow> bool \<times> 'b list" where
  "container_loop assign skip_remaining [] output = (output \<noteq> [], output)"
| "container_loop assign skip_remaining (elem # strings) output =
     (case assign elem of (retval, out) \<Rightarrow>
        if \<not> retval then (False, output)
        else if skip_remaining then (True, output @ [out])
        else container_loop assign skip_remaining strings (output @ [out]))"

definition lexical_conversion_container ::
  "(string \<Rightarrow> bool \<times> 'b) \<Rightarrow> string list \<Rightarrow> bool \<times> 'b list" where
  "lexical_conversion_container assign strings =
     (if strings = [] then (True, [])
      else if length strings = 1 \<and> strings ! 0 = ''{}'' then (True, [])
      else container_loop assign
             (length strings = 2 \<and> strings ! 0 = ''{}'' \<and> is_separator (strings ! 1)) strings [])"

end
