(* ===== verification/Cli_Validators.thy ===== *)
theory Cli_Validators
  imports Cli_Quotes Cli_Error Cli_Convert
begin

text \<open>
  The validators of \<^verbatim>\<open>CLI11.hpp\<close>: the class \<^verbatim>\<open>Validator\<close> with its combinations, the
  checks of paths, ranges, addresses and sets, the transformations, and the overflow checks of
  the multiplication they use. The file system is a parameter: \<open>check_path\<close> maps a name to
  what is there.
\<close>

section \<open>Checked multiplication\<close>

text \<open>
  \<^verbatim>\<open>overflowCheck\<close> and \<^verbatim>\<open>checked_multiply\<close> at type \<^verbatim>\<open>int\<close> of 32 bits, and at an
  unsigned type of the width of the word. The first component tells whether the product fits,
  the second is the new value of the first factor. C divides towards zero.
\<close>

definition int_max :: int where "int_max = 2 ^ 31 - 1"
definition int_min :: int where "int_min = - (2 ^ 31)"

definition overflowCheck :: "int \<Rightarrow> int \<Rightarrow> bool" where
  "overflowCheck a b \<longleftrightarrow>
     (if (a > 0) = (b > 0) then int_max div \<bar>a\<bar> < \<bar>b\<bar>
      else - ((- int_min) div \<bar>a\<bar>) > - \<bar>b\<bar>)"

definition checked_multiply :: "int \<Rightarrow> int \<Rightarrow> bool \<times> int" where
  "checked_multiply a b =
     (if a = 0 \<or> b = 0 \<or> a = 1 \<or> b = 1 then (True, a * b)
      else if a = int_min \<or> b = int_min then (False, a)
      else if overflowCheck a b then (False, a)
      else (True, a * b))"

definition overflowCheck_unsigned :: "'a::len word \<Rightarrow> 'a word \<Rightarrow> bool" where
  "overflowCheck_unsigned a b \<longleftrightarrow> (- 1) div a < b"

definition checked_multiply_unsigned :: "'a::len word \<Rightarrow> 'a word \<Rightarrow> bool \<times> 'a word" where
  "checked_multiply_unsigned a b =
     (if a = 0 \<or> b = 0 \<or> a = 1 \<or> b = 1 then (True, a * b)
      else if a = 0 \<or> b = 0 then (False, a)
      else if overflowCheck_unsigned a b then (False, a)
      else (True, a * b))"

section \<open>The class\<close>

text \<open>
  The functions a validator captures are values here: its description, and the operation,
  which returns an error message (empty for success) and the new value of the string, or
  throws. The two call operators differ in what they do with the string.
\<close>

record validator =
  v_desc :: string
  v_func :: "string \<Rightarrow> cli_exn + (string \<times> string)"
  v_name :: string
  v_application_index :: int
  v_active :: bool
  v_non_modifying :: bool

definition validator_default :: validator where
  "validator_default =
     \<lparr>v_desc = [], v_func = (\<lambda>s. Inr ([], s)), v_name = [], v_application_index = - 1,
      v_active = True, v_non_modifying = False\<rparr>"

definition validator_of :: "(string \<Rightarrow> cli_exn + (string \<times> string)) \<Rightarrow> string \<Rightarrow> string \<Rightarrow> validator" where
  "validator_of opn validator_desc validator_name =
     validator_default\<lparr>v_func := opn, v_desc := validator_desc, v_name := validator_name\<rparr>"

definition validator_run :: "validator \<Rightarrow> string \<Rightarrow> cli_exn + (string \<times> string)" where
  "validator_run v str =
     (if v_active v then
        if v_non_modifying v then map_sum id (\<lambda>(retstring, value). (retstring, str)) (v_func v str)
        else v_func v str
      else Inr ([], str))"

definition validator_check :: "validator \<Rightarrow> string \<Rightarrow> cli_exn + string" where
  "validator_check v str = (if v_active v then map_sum id fst (v_func v str) else Inr [])"

definition validator_description :: "validator \<Rightarrow> string" where
  "validator_description v = (if v_active v then v_desc v else [])"

definition merge_description :: "validator \<Rightarrow> validator \<Rightarrow> string \<Rightarrow> string" where
  "merge_description val1 val2 merger =
     (let f1 = v_desc val1; f2 = v_desc val2 in
      if f1 = [] \<or> f2 = [] then f1 @ f2 else ''('' @ f1 @ '')'' @ merger @ ''('' @ f2 @ '')'')"

definition validator_and :: "validator \<Rightarrow> validator \<Rightarrow> validator" where
  "validator_and v other =
     validator_default\<lparr>
       v_desc := merge_description v other '' AND '',
       v_func := (\<lambda>inp. case v_func v inp of Inl e \<Rightarrow> Inl e | Inr (s1, inp1) \<Rightarrow>
                   (case v_func other inp1 of Inl e \<Rightarrow> Inl e | Inr (s2, inp2) \<Rightarrow>
                      Inr (if s1 \<noteq> [] \<and> s2 \<noteq> [] then ''('' @ s1 @ '') AND ('' @ s2 @ '')'' else s1 @ s2, inp2))),
       v_active := v_active v \<and> v_active other,
       v_application_index := v_application_index v\<rparr>"

definition validator_or :: "validator \<Rightarrow> validator \<Rightarrow> validator" where
  "validator_or v other =
     validator_default\<lparr>
       v_desc := merge_description v other '' OR '',
       v_func := (\<lambda>inp. case v_func v inp of Inl e \<Rightarrow> Inl e | Inr (s1, inp1) \<Rightarrow>
                   (case v_func other inp1 of Inl e \<Rightarrow> Inl e | Inr (s2, inp2) \<Rightarrow>
                      Inr (if s1 = [] \<or> s2 = [] then [] else ''('' @ s1 @ '') OR ('' @ s2 @ '')'', inp2))),
       v_active := v_active v \<and> v_active other,
       v_application_index := v_application_index v\<rparr>"

definition validator_not :: "validator \<Rightarrow> validator" where
  "validator_not v =
     validator_default\<lparr>
       v_desc := (if v_desc v \<noteq> [] then ''NOT '' @ v_desc v else []),
       v_func := (\<lambda>test. case v_func v test of Inl e \<Rightarrow> Inl e | Inr (s1, test1) \<Rightarrow>
                   Inr (if s1 = [] then ''check '' @ v_desc v @ '' succeeded improperly'' else [], test1)),
       v_active := v_active v,
       v_application_index := v_application_index v\<rparr>"

section \<open>Paths\<close>

datatype path_type = Path_nonexistent | Path_file | Path_directory

definition ExistingFile :: "(string \<Rightarrow> path_type) \<Rightarrow> validator" where
  "ExistingFile check_path =
     validator_default\<lparr>v_desc := ''FILE'',
       v_func := (\<lambda>filename. Inr (case check_path filename of
           Path_nonexistent \<Rightarrow> ''File does not exist: '' @ filename
         | Path_directory \<Rightarrow> ''File is actually a directory: '' @ filename
         | Path_file \<Rightarrow> [], filename))\<rparr>"

definition ExistingDirectory :: "(string \<Rightarrow> path_type) \<Rightarrow> validator" where
  "ExistingDirectory check_path =
     validator_default\<lparr>v_desc := ''DIR'',
       v_func := (\<lambda>filename. Inr (case check_path filename of
           Path_nonexistent \<Rightarrow> ''Directory does not exist: '' @ filename
         | Path_file \<Rightarrow> ''Directory is actually a file: '' @ filename
         | Path_directory \<Rightarrow> [], filename))\<rparr>"

definition ExistingPath :: "(string \<Rightarrow> path_type) \<Rightarrow> validator" where
  "ExistingPath check_path =
     validator_default\<lparr>v_desc := ''PATH(existing)'',
       v_func := (\<lambda>filename. Inr (if check_path filename = Path_nonexistent
                   then ''Path does not exist: '' @ filename else [], filename))\<rparr>"

definition NonexistentPath :: "(string \<Rightarrow> path_type) \<Rightarrow> validator" where
  "NonexistentPath check_path =
     validator_default\<lparr>v_desc := ''PATH(non-existing)'',
       v_func := (\<lambda>filename. Inr (if check_path filename \<noteq> Path_nonexistent
                   then ''Path already exists: '' @ filename else [], filename))\<rparr>"

definition EscapedString :: validator where
  "EscapedString =
     validator_default\<lparr>v_func := (\<lambda>str.
       (case
          (if length str > 1 \<and> (hd str = CHR 0x22 \<or> hd str = CHR 0x27 \<or> hd str = CHR 0x60) \<and> hd str = last str
           then map_sum id snd (process_quoted_string str (CHR 0x22) (CHR 0x27) False)
           else if find_first_of str [CHR 0x5C] \<noteq> None then
             if is_binary_escaped_string str then Inr (extract_binary_string str)
             else remove_escaped_characters str
           else Inr str) of
          Inr str' \<Rightarrow> Inr ([], str')
        | Inl (InvalidArgument msg) \<Rightarrow> Inr (msg, str)
        | Inl e \<Rightarrow> Inl (Std e)))\<rparr>"

definition FileOnDefaultPath :: "(string \<Rightarrow> path_type) \<Rightarrow> string \<Rightarrow> bool \<Rightarrow> validator" where
  "FileOnDefaultPath check_path default_path enableErrorReturn =
     validator_default\<lparr>v_desc := ''FILE'',
       v_func := (\<lambda>filename.
         if check_path filename = Path_nonexistent then
           (let test_file_path = default_path
                  @ (if last default_path \<noteq> CHR ''/'' \<and> last default_path \<noteq> CHR 0x5C then ''/'' else [])
                  @ filename
            in if check_path test_file_path = Path_file then Inr ([], test_file_path)
               else Inr (if enableErrorReturn then ''File does not exist: '' @ filename else [], filename))
         else Inr ([], filename))\<rparr>"

section \<open>The name of the program in a command line\<close>

text \<open>
  \<^verbatim>\<open>split_program_name\<close>: the longest-first search is over the blanks; \<^term>\<open>None\<close> is
  \<^verbatim>\<open>npos\<close>, whose successor is position 0.
\<close>

definition find_char_from :: "string \<Rightarrow> char \<Rightarrow> nat option \<Rightarrow> nat option" where
  "find_char_from s c pos = find_from (\<lambda>x. x = c) s (case pos of None \<Rightarrow> 0 | Some p \<Rightarrow> p + 1)"

definition upto :: "string \<Rightarrow> nat option \<Rightarrow> string" where
  "upto s pos = (case pos of None \<Rightarrow> s | Some p \<Rightarrow> take p s)"

function closing_quote :: "string \<Rightarrow> char \<Rightarrow> nat option \<Rightarrow> bool \<Rightarrow> nat option \<times> bool" where
  "closing_quote s keyChar None embeddedQuote = (None, embeddedQuote)"
| "closing_quote s keyChar (Some e) embeddedQuote =
     (if e \<noteq> 0 \<and> e < length s \<and> s ! (e - 1) = CHR 0x5C then
        closing_quote s keyChar (find_from (\<lambda>x. x = keyChar) s (e + 1)) True
      else (Some e, embeddedQuote))"
  by pat_completeness auto
termination
  by (relation "measure (\<lambda>(s, k, e, q). case e of None \<Rightarrow> 0 | Some p \<Rightarrow> Suc (length s - p))")
    (auto split: option.split dest!: find_from_ge)

text \<open>What the search falls back to: a quoted name, or the text before the first blank.\<close>

definition quoted_program_name :: "string \<Rightarrow> string \<times> nat option" where
  "quoted_program_name commandline =
     (if commandline \<noteq> [] \<and> (hd commandline = CHR 0x22 \<or> hd commandline = CHR 0x27 \<or> hd commandline = CHR 0x60)
      then
        (let keyChar = hd commandline in
         (case closing_quote commandline keyChar (find_from (\<lambda>x. x = keyChar) commandline 1) False of
            (Some e, embeddedQuote) \<Rightarrow>
              (let name = take (e - 1) (drop 1 commandline) in
               (if embeddedQuote then the (find_and_replace name [CHR 0x5C, keyChar] [keyChar]) else name,
                Some (e + 1)))
          | (None, _) \<Rightarrow> ([], find_char_from commandline (CHR '' '') (Some 0))))
      else ([], find_char_from commandline (CHR '' '') (Some 0)))"

function program_name_loop :: "(string \<Rightarrow> path_type) \<Rightarrow> string \<Rightarrow> nat option \<Rightarrow> string \<times> nat option" where
  "program_name_loop check_path commandline esp =
     (if check_path (upto commandline esp) = Path_file then ([], esp)
      else
        (case find_char_from commandline (CHR '' '') esp of
           None \<Rightarrow> quoted_program_name commandline
         | Some esp' \<Rightarrow> program_name_loop check_path commandline (Some esp')))"
  by pat_completeness auto
termination
  by (relation "measure (\<lambda>(c, s, e). case e of None \<Rightarrow> Suc (length s) | Some p \<Rightarrow> length s - p)")
    (auto simp: find_char_from_def split: option.splits dest!: find_from_ge)

declare program_name_loop.simps [simp del]

definition split_program_name :: "(string \<Rightarrow> path_type) \<Rightarrow> string \<Rightarrow> string \<times> string" where
  "split_program_name check_path commandline0 =
     (let commandline = trim commandline0;
          (name, esp) = program_name_loop check_path commandline (find_char_from commandline (CHR '' '') (Some 0));
          name' = (if name = [] then rtrim (upto commandline esp) else name);
          args = (case esp of
                    Some e \<Rightarrow> if commandline = [] \<or> e < length commandline - 1 then drop (e + 1) commandline else []
                  | None \<Rightarrow> [])
      in (name', ltrim args))"

section \<open>Ranges and addresses\<close>

text \<open>\<^verbatim>\<open>Range\<close> and \<^verbatim>\<open>Bound\<close> at a signed type; the texts are those of \<^verbatim>\<open>operator<<\<close>.\<close>

definition range_text :: "int \<Rightarrow> int \<Rightarrow> string" where
  "range_text min_val max_val = ''['' @ int_string min_val @ '' - '' @ int_string max_val @ '']''"

definition Range :: "'a::len word \<Rightarrow> 'a word \<Rightarrow> string \<Rightarrow> validator" where
  "Range min_val max_val validator_name =
     validator_default\<lparr>
       v_desc := (if validator_name = [] then ''INT in '' @ range_text (sint min_val) (sint max_val)
                          else validator_name),
       v_func := (\<lambda>inp.
         (case integral_conversion_signed inp (0 :: 'a word) of (converted, val) \<Rightarrow>
            Inr (if \<not> converted \<or> (sint val < sint min_val \<or> sint val > sint max_val)
                 then ''Value '' @ inp @ '' not in range '' @ range_text (sint min_val) (sint max_val)
                 else [], inp)))\<rparr>"

definition Bound :: "'a::len word \<Rightarrow> 'a word \<Rightarrow> validator" where
  "Bound min_val max_val =
     validator_default\<lparr>
       v_desc := ''INT bounded to '' @ range_text (sint min_val) (sint max_val),
       v_func := (\<lambda>inp.
         (case integral_conversion_signed inp (0 :: 'a word) of (converted, val) \<Rightarrow>
            if \<not> converted then Inr (''Value '' @ inp @ '' could not be converted'', inp)
            else Inr ([], if sint val < sint min_val then int_string (sint min_val)
                          else if sint val > sint max_val then int_string (sint max_val)
                          else inp)))\<rparr>"

fun ipv4_parts :: "string list \<Rightarrow> 32 word \<Rightarrow> string" where
  "ipv4_parts [] num = []"
| "ipv4_parts (var # vars) num =
     (case integral_conversion_signed var num of (retval, num') \<Rightarrow>
        if \<not> retval then ''Failed parsing number ('' @ var @ '')''
        else if sint num' < 0 \<or> sint num' > 255 then ''Each IP number must be between 0 and 255 '' @ var
        else ipv4_parts vars num')"

definition ValidIPV4 :: validator where
  "ValidIPV4 =
     validator_default\<lparr>v_desc := ''IPV4'',
       v_func := (\<lambda>ip_addr.
         (if length (filter (\<lambda>c. c = CHR ''.'') ip_addr) \<noteq> 3 then
            Inr (''Invalid IPV4 address: must have 3 separators'', ip_addr)
          else
            (let result = split_at ip_addr (CHR ''.'') in
             if length result \<noteq> 4 then
               Inr (''Invalid IPV4 address: must have four parts ('' @ ip_addr @ '')'', ip_addr)
             else Inr (ipv4_parts result 0, ip_addr))))\<rparr>"

section \<open>Sets and mappings\<close>

text \<open>
  \<^verbatim>\<open>IsMember\<close>, \<^verbatim>\<open>Transformer\<close> and \<^verbatim>\<open>CheckedTransformer\<close> over a vector of strings, or of
  pairs of strings, with an optional filter function; \<open>search\<close> is the search with the filter.
\<close>

definition search :: "string list \<Rightarrow> string \<Rightarrow> (string \<Rightarrow> string) option \<Rightarrow> nat option" where
  "search keys val filter_function =
     (case find_pos (\<lambda>v. v = val) keys of
        Some i \<Rightarrow> Some i
      | None \<Rightarrow>
          (case filter_function of
             None \<Rightarrow> None
           | Some f \<Rightarrow> find_pos (\<lambda>v. f v = val) keys))"

definition generate_set :: "string list \<Rightarrow> string" where
  "generate_set elems = ''{'' @ join_with elems id '','' @ ''}''"

definition generate_map :: "(string \<times> string) list \<Rightarrow> bool \<Rightarrow> string" where
  "generate_map m key_only =
     ''{'' @ join_with m (\<lambda>(k, v). if key_only then k else k @ ''->'' @ v) '','' @ ''}''"

abbreviation apply_filter :: "(string \<Rightarrow> string) option \<Rightarrow> string \<Rightarrow> string" where
  "apply_filter filter_fn b \<equiv> (case filter_fn of None \<Rightarrow> b | Some f \<Rightarrow> f b)"

definition IsMember :: "string list \<Rightarrow> (string \<Rightarrow> string) option \<Rightarrow> validator" where
  "IsMember elems filter_fn =
     validator_default\<lparr>v_desc := generate_set elems,
       v_func := (\<lambda>inp.
         (case search elems (apply_filter filter_fn inp) filter_fn of
            Some i \<Rightarrow> Inr ([], if filter_fn \<noteq> None then elems ! i else inp)
          | None \<Rightarrow> Inr (inp @ '' not in '' @ generate_set elems, inp)))\<rparr>"

definition Transformer :: "(string \<times> string) list \<Rightarrow> (string \<Rightarrow> string) option \<Rightarrow> validator" where
  "Transformer mapping filter_fn =
     validator_default\<lparr>v_desc := generate_map mapping False,
       v_func := (\<lambda>inp.
         (case search (map fst mapping) (apply_filter filter_fn inp) filter_fn of
            Some i \<Rightarrow> Inr ([], snd (mapping ! i))
          | None \<Rightarrow> Inr ([], inp)))\<rparr>"

definition CheckedTransformer :: "(string \<times> string) list \<Rightarrow> (string \<Rightarrow> string) option \<Rightarrow> validator" where
  "CheckedTransformer mapping filter_fn =
     (let tfunc = ''value in '' @ generate_map mapping False @ '' OR {'' @ join_with mapping snd '','' @ ''}'' in
      validator_default\<lparr>v_desc := tfunc,
        v_func := (\<lambda>inp.
          (case search (map fst mapping) (apply_filter filter_fn inp) filter_fn of
             Some i \<Rightarrow> Inr ([], snd (mapping ! i))
           | None \<Rightarrow>
               if inp \<in> set (map snd mapping) then Inr ([], inp)
               else Inr (''Check '' @ inp @ '' '' @ tfunc @ '' FAILED'', inp)))\<rparr>)"

definition ignore_case :: "string \<Rightarrow> string" where
  "ignore_case item = to_lower item"

definition ignore_underscore :: "string \<Rightarrow> string" where
  "ignore_underscore item = remove_underscore item"

definition ignore_space :: "string \<Rightarrow> string" where
  "ignore_space item = filter (\<lambda>c. c \<noteq> CHR 0x09) (filter (\<lambda>c. c \<noteq> CHR '' '') item)"

section \<open>Numbers with units\<close>

text \<open>
  \<^verbatim>\<open>std::map<std::string, Number>\<close> as a list sorted by the keys, compared byte by byte.
\<close>

fun str_less :: "string \<Rightarrow> string \<Rightarrow> bool" where
  "str_less _ [] = False"
| "str_less [] _ = True"
| "str_less (a # as) (b # bs) =
     ((of_char a :: nat) < of_char b \<or> a = b \<and> str_less as bs)"

primrec map_put :: "string \<Rightarrow> 'n \<Rightarrow> (string \<times> 'n) list \<Rightarrow> (string \<times> 'n) list" where
  "map_put k v [] = [(k, v)]"
| "map_put k v (kv # m) =
     (if fst kv = k then (k, v) # m
      else if str_less k (fst kv) then (k, v) # kv # m
      else kv # map_put k v m)"

text \<open>The two options, and the checks and the lowering of the units in the constructor.\<close>

record unit_options =
  case_insensitive :: bool
  unit_required :: bool

fun lower_mapping :: "(string \<times> 'n) list \<Rightarrow> (string \<times> 'n) list \<Rightarrow> cli_exn + (string \<times> 'n) list" where
  "lower_mapping [] lower = Inr lower"
| "lower_mapping (kv # m) lower =
     (let s = to_lower (fst kv) in
      if map_of lower s \<noteq> None then
        Inl (ValidationError (''Several matching lowercase unit representations are found: '' @ s))
      else lower_mapping m (map_put s (snd kv) lower))"

definition validate_mapping :: "(string \<times> 'n) list \<Rightarrow> unit_options \<Rightarrow> cli_exn + (string \<times> 'n) list" where
  "validate_mapping mapping opts =
     (case find (\<lambda>kv. fst kv = [] \<or> \<not> isalpha (fst kv)) mapping of
        Some kv \<Rightarrow>
          Inl (ValidationError (if fst kv = [] then ''Unit must not be empty.''
                                else ''Unit must contain only letters.''))
      | None \<Rightarrow> if case_insensitive opts then lower_mapping mapping [] else Inr mapping)"

text \<open>
  The transformation at an unsigned type: the number, blanks, the unit of letters. The result
  is the product as a decimal number; without a unit the input only loses its blanks.
\<close>

definition number_with_unit ::
  "(string \<times> 'a::len word) list \<Rightarrow> unit_options \<Rightarrow> string \<Rightarrow> cli_exn + (string \<times> string)" where
  "number_with_unit mapping opts input0 =
     (let inp = rtrim input0 in
      if inp = [] then Inl (ValidationError ''Input is empty'')
      else
     (let letters = length (takeWhile isalpha_char (rev inp));
          unit0 = drop (length inp - letters) inp;
          number = trim (take (length inp - letters) inp) in
      if unit_required opts \<and> unit0 = [] then Inl (ValidationError ''Missing mandatory unit'')
      else
     (let unit = (if case_insensitive opts then to_lower unit0 else unit0);
          unconverted = Inl (ValidationError (''Value '' @ number @ '' could not be converted to UINT'')) in
      if unit = [] then
        (case integral_conversion_unsigned number (0 :: 'a word) of (converted, _) \<Rightarrow>
           if converted then Inr ([], number) else unconverted)
      else
        (case map_of mapping unit of
           None \<Rightarrow> Inl (ValidationError (unit @ '' unit not recognized. Allowed values: ''
                        @ generate_map (map (\<lambda>(k, _). (k, [])) mapping) True))
         | Some factor \<Rightarrow>
             if number \<noteq> [] then
               (case integral_conversion_unsigned number (0 :: 'a word) of (converted, num) \<Rightarrow>
                  if \<not> converted then unconverted
                  else
                    (case checked_multiply_unsigned num factor of (ok, product) \<Rightarrow>
                       if \<not> ok then
                         Inl (ValidationError (decimal (unat product) @ '' multiplied by '' @ unit
                              @ '' factor would cause number overflow. Use smaller value.''))
                       else Inr ([], decimal (unat product))))
             else Inr ([], decimal (unat factor))))))"

definition AsNumberWithUnit ::
  "(string \<times> 'a::len word) list \<Rightarrow> unit_options \<Rightarrow> string \<Rightarrow> cli_exn + validator" where
  "AsNumberWithUnit mapping opts unit_name =
     (case validate_mapping mapping opts of
        Inl e \<Rightarrow> Inl e
      | Inr mapping' \<Rightarrow>
          Inr (validator_default\<lparr>
            v_desc := ''UINT '' @ (if unit_required opts then unit_name else ''['' @ unit_name @ '']''),
            v_func := number_with_unit mapping' opts\<rparr>))"

definition size_mapping :: "bool \<Rightarrow> (string \<times> 64 word) list" where
  "size_mapping kb_is_1000 =
     (let k_factor = (if kb_is_1000 then 1000 else 1024) :: 64 word in
      fst (foldl
        (\<lambda>(m, k, ki) p.
           (let k' = k * k_factor; ki' = ki * 1024 in
            (map_put (p @ ''ib'') ki' (map_put (p @ ''i'') ki' (map_put (p @ ''b'') k' (map_put p k' m))), k', ki')))
        ([(''b'', 1)], 1, 1) [''k'', ''m'', ''g'', ''t'', ''p'', ''e'']))"

definition AsSizeValue :: "bool \<Rightarrow> cli_exn + validator" where
  "AsSizeValue kb_is_1000 =
     map_sum id
       (\<lambda>v. v\<lparr>v_desc := if kb_is_1000 then ''SIZE [b, kb(=1000b), kib(=1024b), ...]''
                         else ''SIZE [b, kb(=1024b), ...]''\<rparr>)
       (AsNumberWithUnit (size_mapping kb_is_1000) \<lparr>case_insensitive = True, unit_required = False\<rparr> ''UNIT'')"

end
