(* ===== verification/Cli_Names.thy ===== *)
theory Cli_Names
  imports Cli_Error
begin

text \<open>
  How \<^verbatim>\<open>CLI::detail\<close> takes arguments and option definitions apart: the name and the value of
  a short, long or Windows style argument, the names in the definition of an option, the
  default values in the definition of a flag.
\<close>

section \<open>Arguments\<close>

text \<open>
  The code returns whether the argument has the form and, in two reference parameters, its
  parts; here \<^term>\<open>None\<close> is false.
\<close>

definition split_short :: "string \<Rightarrow> (string \<times> string) option" where
  "split_short current =
     (if length current > 1 \<and> current ! 0 = CHR ''-'' \<and> valid_first_char (current ! 1)
      then Some ([current ! 1], drop 2 current) else None)"

definition split_long :: "string \<Rightarrow> (string \<times> string) option" where
  "split_long current =
     (if length current > 2 \<and> take 2 current = ''--'' \<and> valid_first_char (current ! 2) then
        (case find_first_of current ''='' of
           Some loc \<Rightarrow> Some (take (loc - 2) (drop 2 current), drop (loc + 1) current)
         | None \<Rightarrow> Some (drop 2 current, []))
      else None)"

definition split_windows_style :: "string \<Rightarrow> (string \<times> string) option" where
  "split_windows_style current =
     (if length current > 1 \<and> current ! 0 = CHR ''/'' \<and> valid_first_char (current ! 1) then
        (case find_first_of current '':'' of
           Some loc \<Rightarrow> Some (take (loc - 1) (drop 1 current), drop (loc + 1) current)
         | None \<Rightarrow> Some (drop 1 current, []))
      else None)"

section \<open>Definitions of options\<close>

function split_names :: "string \<Rightarrow> string list" where
  "split_names current =
     (case find_pos (\<lambda>c. c = CHR '','') current of
        Some val \<Rightarrow> trim_copy (take val current) # split_names (drop (val + 1) current)
      | None \<Rightarrow> [trim_copy current])"
  by pat_completeness auto
termination
  by (relation "measure length") (auto dest: find_pos_less)

declare split_names.simps [simp del]

text \<open>\<^verbatim>\<open>find_first_not_of("-!")\<close>, erasing up to there.\<close>

definition strip_flag_marks :: "string \<Rightarrow> string" where
  "strip_flag_marks flag = dropWhile (\<lambda>c. c \<in> set ''-!'') flag"

definition get_default_flag_values :: "string \<Rightarrow> (string \<times> string) list" where
  "get_default_flag_values str =
     map (\<lambda>flag.
        (case find_first_of flag ''{'' of
           Some def_start \<Rightarrow>
             if last flag = CHR ''}''
             then (strip_flag_marks (take def_start flag), butlast (drop (def_start + 1) flag))
             else (strip_flag_marks flag, ''false'')
         | None \<Rightarrow> (strip_flag_marks flag, ''false'')))
       (filter (\<lambda>name. name \<noteq> [] \<and>
            (find_first_of name ''{'' \<noteq> None \<and> last name = CHR ''}'' \<or> hd name = CHR ''!''))
         (split_names str))"

text \<open>
  \<^verbatim>\<open>get_names\<close>: the short names, the long names and the positional name. The loop stops at
  the first name it does not accept.
\<close>

type_synonym names = "string list \<times> string list \<times> string"

definition get_name_step :: "bool \<Rightarrow> string \<Rightarrow> names \<Rightarrow> cli_exn + names" where
  "get_name_step allow_non_standard name acc =
     (case acc of (short_names, long_names, pos_name) \<Rightarrow>
        if name = [] then Inr acc
        else if length name > 1 \<and> name ! 0 = CHR ''-'' \<and> name ! 1 \<noteq> CHR ''-'' then
          if length name = 2 \<and> valid_first_char (name ! 1) then
            Inr (short_names @ [[name ! 1]], long_names, pos_name)
          else if length name > 2 then
            if allow_non_standard then
              (let name = drop 1 name in
               if valid_name_string name then Inr (short_names @ [name], long_names, pos_name)
               else Inl (BadLongName name))
            else Inl (MissingDash name)
          else Inl (OneCharName name)
        else if length name > 2 \<and> take 2 name = ''--'' then
          (let name = drop 2 name in
           if valid_name_string name then Inr (short_names, long_names @ [name], pos_name)
           else Inl (BadLongName name))
        else if name = ''-'' \<or> name = ''--'' \<or> name = ''++'' then Inl (ReservedName name)
        else if pos_name \<noteq> [] then Inl (MultiPositionalNames name)
        else if valid_name_string name then Inr (short_names, long_names, name)
        else Inl (BadPositionalName name))"

fun get_names_loop :: "string list \<Rightarrow> bool \<Rightarrow> names \<Rightarrow> cli_exn + names" where
  "get_names_loop [] allow_non_standard acc = Inr acc"
| "get_names_loop (name # inp) allow_non_standard acc =
     (case get_name_step allow_non_standard name acc of
        Inl e \<Rightarrow> Inl e
      | Inr acc' \<Rightarrow> get_names_loop inp allow_non_standard acc')"

definition get_names :: "string list \<Rightarrow> bool \<Rightarrow> cli_exn + names" where
  "get_names inp allow_non_standard = get_names_loop inp allow_non_standard ([], [], [])"

end
