(* ===== verification/Cli_Monad.thy ===== *)
theory Cli_Monad
  imports Cli_Error
begin

text \<open>
  Computations of the library: functions of a state that return a value or an exception, and
  the state as it is then. A C++ statement sequence is \<open>m_bind\<close>, an exception skips the rest
  but keeps the changes made so far.
\<close>

type_synonym ('s, 'a) comp = "'s \<Rightarrow> (cli_exn + 'a) \<times> 's"

definition m_return :: "'a \<Rightarrow> ('s, 'a) comp" where
  "m_return x = (\<lambda>s. (Inr x, s))"

definition m_throw :: "cli_exn \<Rightarrow> ('s, 'a) comp" where
  "m_throw e = (\<lambda>s. (Inl e, s))"

definition m_bind :: "('s, 'a) comp \<Rightarrow> ('a \<Rightarrow> ('s, 'b) comp) \<Rightarrow> ('s, 'b) comp" where
  "m_bind m f = (\<lambda>s. case m s of (Inl e, s') \<Rightarrow> (Inl e, s') | (Inr x, s') \<Rightarrow> f x s')"

definition m_seq :: "('s, unit) comp \<Rightarrow> ('s, 'b) comp \<Rightarrow> ('s, 'b) comp" where
  "m_seq m n = m_bind m (\<lambda>_. n)"

definition m_gets :: "('s \<Rightarrow> 'a) \<Rightarrow> ('s, 'a) comp" where
  "m_gets f = (\<lambda>s. (Inr (f s), s))"

definition m_modify :: "('s \<Rightarrow> 's) \<Rightarrow> ('s, unit) comp" where
  "m_modify f = (\<lambda>s. (Inr (), f s))"

definition m_when :: "bool \<Rightarrow> ('s, unit) comp \<Rightarrow> ('s, unit) comp" where
  "m_when b m = (if b then m else m_return ())"

definition m_lift :: "cli_exn + 'a \<Rightarrow> ('s, 'a) comp" where
  "m_lift r = (\<lambda>s. (r, s))"

primrec m_each :: "('a \<Rightarrow> ('s, unit) comp) \<Rightarrow> 'a list \<Rightarrow> ('s, unit) comp" where
  "m_each f [] = m_return ()"
| "m_each f (x # xs) = m_seq (f x) (m_each f xs)"

text \<open>The values of a computation at all elements, and the first of them that is one.\<close>

primrec m_map :: "('a \<Rightarrow> ('s, 'b) comp) \<Rightarrow> 'a list \<Rightarrow> ('s, 'b list) comp" where
  "m_map f [] = m_return []"
| "m_map f (x # xs) = m_bind (f x) (\<lambda>y. m_bind (m_map f xs) (\<lambda>ys. m_return (y # ys)))"

primrec m_first :: "('a \<Rightarrow> ('s, 'b option) comp) \<Rightarrow> 'a list \<Rightarrow> ('s, 'b option) comp" where
  "m_first f [] = m_return None"
| "m_first f (x # xs) =
     m_bind (f x) (\<lambda>r. case r of Some y \<Rightarrow> m_return (Some y) | None \<Rightarrow> m_first f xs)"

text \<open>\<^verbatim>\<open>try\<close> and \<^verbatim>\<open>catch\<close>: the handler may rethrow.\<close>

definition m_catch :: "('s, 'a) comp \<Rightarrow> (cli_exn \<Rightarrow> ('s, 'a) comp) \<Rightarrow> ('s, 'a) comp" where
  "m_catch m h = (\<lambda>s. case m s of (Inl e, s') \<Rightarrow> h e s' | (Inr x, s') \<Rightarrow> (Inr x, s'))"

named_theorems comp_simps \<open>what a computation does to a state\<close>

lemma comp_run [comp_simps]:
  "m_return x s = (Inr x, s)"
  "m_throw e s = (Inl e, s)"
  "m_gets f s = (Inr (f s), s)"
  "m_modify g s = (Inr (), g s)"
  "m_lift r s = (r, s)"
  by (simp_all add: m_return_def m_throw_def m_gets_def m_modify_def m_lift_def)

lemma comp_bind [comp_simps]:
  "m_bind m f s = (case m s of (Inl e, s') \<Rightarrow> (Inl e, s') | (Inr x, s') \<Rightarrow> f x s')"
  "m_seq m' n s = (case m' s of (Inl e, s') \<Rightarrow> (Inl e, s') | (Inr x, s') \<Rightarrow> n s')"
  "m_when b m'' s = (if b then m'' s else (Inr (), s))"
  by (simp_all add: m_bind_def m_seq_def m_when_def m_return_def)

lemma m_bind_return [simp]: "m_bind (m_return x) f = f x" "m_seq (m_return u) n = n"
  by (auto simp: m_bind_def m_seq_def m_return_def)

lemma m_bind_throw [simp]: "m_bind (m_throw e) f = m_throw e"
  by (auto simp: m_bind_def m_throw_def)

lemma m_bind_assoc: "m_bind (m_bind m f) g = m_bind m (\<lambda>x. m_bind (f x) g)"
  by (auto simp: m_bind_def split: prod.split sum.split)

end
