(* ===== verification/Cli_Option.thy ===== *)
theory Cli_Option
  imports Cli_Validators Cli_Names Cli_Monad
begin

text \<open>
  The classes \<^verbatim>\<open>OptionBase\<close>, \<^verbatim>\<open>OptionDefaults\<close> and \<^verbatim>\<open>Option\<close>: one option or flag of an
  application with its names, its limits and validators, and the state of its results. The
  variables of the user, which callbacks write, are the type \<open>'v\<close>; a pointer to an option or an
  application is a number, the place of the object in the store.
\<close>

section \<open>Data\<close>

type_synonym opt_ptr = nat
type_synonym app_ptr = nat
type_synonym results_t = "string list"

datatype MultiOptionPolicy = Throw | TakeLast | TakeFirst | Join | TakeAll | Sum | Reverse

datatype CallbackPriority =
    FirstPreHelp | First | PreRequirementsCheckPreHelp | PreRequirementsCheck
  | NormalPreHelp | Normal | LastPreHelp | Last

text \<open>\<^verbatim>\<open>OptionBase\<close>, which \<^verbatim>\<open>OptionDefaults\<close> shares.\<close>

record option_base =
  o_group :: string
  o_required :: bool
  o_ignore_case :: bool
  o_ignore_underscore :: bool
  o_configurable :: bool
  o_disable_flag_override :: bool
  o_delimiter :: char
  o_always_capture_default :: bool
  o_multi_option_policy :: MultiOptionPolicy
  o_callback_priority :: CallbackPriority

definition option_base_default :: option_base where
  "option_base_default =
     \<lparr>o_group = ''OPTIONS'', o_required = False, o_ignore_case = False, o_ignore_underscore = False,
      o_configurable = True, o_disable_flag_override = False, o_delimiter = CHR 0x00,
      o_always_capture_default = False, o_multi_option_policy = Throw, o_callback_priority = Normal\<rparr>"

datatype option_state = Opt_parsing | Opt_validated | Opt_reduced | Opt_callback_run

fun state_rank :: "option_state \<Rightarrow> nat" where
  "state_rank Opt_parsing = 0"
| "state_rank Opt_validated = 2"
| "state_rank Opt_reduced = 4"
| "state_rank Opt_callback_run = 6"

text \<open>
  \<^verbatim>\<open>Option\<close>. A callback gets the results and returns whether it accepted them; it may throw.
  The sets of pointers are lists without repetition.
\<close>

record 'v opt = option_base +
  o_snames :: "string list"
  o_lnames :: "string list"
  o_default_flag_values :: "(string \<times> string) list"
  o_fnames :: "string list"
  o_pname :: string
  o_envname :: string
  o_description :: string
  o_default_str :: string
  o_option_text :: string
  o_type_name :: "'v \<Rightarrow> string"
  o_default_function :: "('v \<Rightarrow> string) option"
  o_type_size_max :: int
  o_type_size_min :: int
  o_expected_min :: int
  o_expected_max :: int
  o_validators :: "validator list"
  o_needs :: "opt_ptr list"
  o_excludes :: "opt_ptr list"
  o_parent :: "app_ptr option"
  o_callback :: "(results_t \<Rightarrow> 'v \<Rightarrow> (cli_exn + bool) \<times> 'v) option"
  o_results :: results_t
  o_proc_results :: results_t
  o_state :: option_state
  o_allow_extra_args :: bool
  o_flag_like :: bool
  o_run_callback_for_default :: bool
  o_inject_separator :: bool
  o_trigger_on_result :: bool
  o_force_callback :: bool

definition expected_max_vector_size :: int where
  "expected_max_vector_size = 2 ^ 29"

text \<open>The constructor: it takes the names apart, which may throw.\<close>

definition option_new ::
  "string \<Rightarrow> string \<Rightarrow> (results_t \<Rightarrow> 'v \<Rightarrow> (cli_exn + bool) \<times> 'v) option \<Rightarrow> app_ptr \<Rightarrow> bool \<Rightarrow> cli_exn + 'v opt" where
  "option_new option_name option_description callback parent allow_non_standard =
     (case get_names (split_names option_name) allow_non_standard of
        Inl e \<Rightarrow> Inl e
      | Inr (snames, lnames, pname) \<Rightarrow>
          Inr (option_base.extend option_base_default
            \<lparr>o_snames = snames, o_lnames = lnames, o_default_flag_values = [], o_fnames = [], o_pname = pname,
             o_envname = [], o_description = option_description, o_default_str = [], o_option_text = [],
             o_type_name = (\<lambda>_. []), o_default_function = None,
             o_type_size_max = 1, o_type_size_min = 1, o_expected_min = 1, o_expected_max = 1,
             o_validators = [], o_needs = [], o_excludes = [], o_parent = Some parent, o_callback = callback,
             o_results = [], o_proc_results = [], o_state = Opt_parsing, o_allow_extra_args = False,
             o_flag_like = False, o_run_callback_for_default = False, o_inject_separator = False,
             o_trigger_on_result = False, o_force_callback = False\<rparr>))"

section \<open>Settings\<close>

text \<open>The group name is checked, everything else is only stored.\<close>

definition set_group :: "string \<Rightarrow> 'v opt \<Rightarrow> cli_exn + 'v opt" where
  "set_group name opt =
     (if \<not> valid_alias_name_string name
      then Inl (IncorrectConstruction ''Group names may not contain newlines or null characters'')
      else Inr (opt\<lparr>o_group := name\<rparr>))"

definition option_expected :: "int \<Rightarrow> 'v opt \<Rightarrow> 'v opt" where
  "option_expected value opt =
     (if value < 0 then
        opt\<lparr>o_expected_min := - value,
            o_expected_max := (if o_expected_max opt < - value then - value else o_expected_max opt),
            o_allow_extra_args := True, o_flag_like := False\<rparr>
      else if value = expected_max_vector_size then
        opt\<lparr>o_expected_min := 1, o_expected_max := expected_max_vector_size,
            o_allow_extra_args := True, o_flag_like := False\<rparr>
      else opt\<lparr>o_expected_min := value, o_expected_max := value, o_flag_like := (value = 0)\<rparr>)"

definition option_expected_range :: "int \<Rightarrow> int \<Rightarrow> 'v opt \<Rightarrow> 'v opt" where
  "option_expected_range value_min0 value_max0 opt =
     (let value_min = (if value_min0 < 0 then - value_min0 else value_min0);
          value_max = (if value_max0 < 0 then expected_max_vector_size else value_max0)
      in if value_max < value_min
         then opt\<lparr>o_expected_min := value_max, o_expected_max := value_min\<rparr>
         else opt\<lparr>o_expected_max := value_max, o_expected_min := value_min\<rparr>)"

definition option_check :: "validator \<Rightarrow> string \<Rightarrow> 'v opt \<Rightarrow> 'v opt" where
  "option_check v validator_name opt =
     (let v = v\<lparr>v_non_modifying := True\<rparr>;
          v = (if validator_name \<noteq> [] then v\<lparr>v_name := validator_name\<rparr> else v)
      in opt\<lparr>o_validators := o_validators opt @ [v]\<rparr>)"

definition option_transform :: "validator \<Rightarrow> string \<Rightarrow> 'v opt \<Rightarrow> 'v opt" where
  "option_transform v transform_name opt =
     (let v = (if transform_name \<noteq> [] then v\<lparr>v_name := transform_name\<rparr> else v)
      in opt\<lparr>o_validators := v # o_validators opt\<rparr>)"

definition option_transform_fn :: "(string \<Rightarrow> string) \<Rightarrow> string \<Rightarrow> string \<Rightarrow> 'v opt \<Rightarrow> 'v opt" where
  "option_transform_fn transform_func transform_description transform_name opt =
     opt\<lparr>o_validators :=
       validator_of (\<lambda>val. Inr ([], transform_func val)) transform_description transform_name # o_validators opt\<rparr>"

definition get_validator :: "string \<Rightarrow> 'v opt \<Rightarrow> cli_exn + validator" where
  "get_validator validator_name opt =
     (case find (\<lambda>v. validator_name = v_name v) (o_validators opt) of
        Some v \<Rightarrow> Inr v
      | None \<Rightarrow>
          if validator_name = [] \<and> o_validators opt \<noteq> [] then Inr (hd (o_validators opt))
          else Inl (OptionNotFound (''Validator '' @ validator_name @ '' Not Found'')))"

definition get_validator_at :: "int \<Rightarrow> 'v opt \<Rightarrow> cli_exn + validator" where
  "get_validator_at index opt =
     (if index \<ge> 0 \<and> index < int (length (o_validators opt)) then Inr (o_validators opt ! nat index)
      else Inl (OptionNotFound ''Validator index is not valid''))"

definition option_needs :: "opt_ptr \<Rightarrow> opt_ptr \<Rightarrow> 'v opt \<Rightarrow> 'v opt" where
  "option_needs this other opt = (if other \<noteq> this then opt\<lparr>o_needs := List.insert other (o_needs opt)\<rparr> else opt)"

definition option_remove_needs :: "opt_ptr \<Rightarrow> 'v opt \<Rightarrow> bool \<times> 'v opt" where
  "option_remove_needs other opt =
     (if other \<in> set (o_needs opt) then (True, opt\<lparr>o_needs := remove1 other (o_needs opt)\<rparr>) else (False, opt))"

definition option_remove_excludes :: "opt_ptr \<Rightarrow> 'v opt \<Rightarrow> bool \<times> 'v opt" where
  "option_remove_excludes other opt =
     (if other \<in> set (o_excludes opt) then (True, opt\<lparr>o_excludes := remove1 other (o_excludes opt)\<rparr>)
      else (False, opt))"

definition set_multi_option_policy :: "MultiOptionPolicy \<Rightarrow> 'v opt \<Rightarrow> 'v opt" where
  "set_multi_option_policy value opt =
     (if value \<noteq> o_multi_option_policy opt then
        (let opt = (if o_multi_option_policy opt = Throw \<and> o_expected_max opt = expected_max_vector_size
                        \<and> o_expected_min opt > 1
                    then opt\<lparr>o_expected_max := o_expected_min opt\<rparr> else opt)
         in opt\<lparr>o_multi_option_policy := value, o_state := Opt_parsing\<rparr>)
      else opt)"

definition set_type_size :: "int \<Rightarrow> 'v opt \<Rightarrow> 'v opt" where
  "set_type_size option_type_size opt =
     (if option_type_size < 0 then
        opt\<lparr>o_type_size_max := - option_type_size, o_type_size_min := - option_type_size,
            o_expected_max := expected_max_vector_size\<rparr>
      else
        (let opt = opt\<lparr>o_type_size_max := option_type_size\<rparr>;
             opt = (if option_type_size < expected_max_vector_size
                    then opt\<lparr>o_type_size_min := option_type_size\<rparr> else opt\<lparr>o_inject_separator := True\<rparr>)
         in if option_type_size = 0 then opt\<lparr>o_required := False\<rparr> else opt))"

definition set_type_size_range :: "int \<Rightarrow> int \<Rightarrow> 'v opt \<Rightarrow> 'v opt" where
  "set_type_size_range size_min0 size_max0 opt0 =
     (let negative = (size_min0 < 0 \<or> size_max0 < 0);
          opt1 = (if negative then opt0\<lparr>o_expected_max := expected_max_vector_size\<rparr> else opt0);
          size_min = (if negative then \<bar>size_min0\<bar> else size_min0);
          size_max = (if negative then \<bar>size_max0\<bar> else size_max0);
          opt2 = (if size_min > size_max then opt1\<lparr>o_type_size_max := size_min, o_type_size_min := size_max\<rparr>
                  else opt1\<lparr>o_type_size_min := size_min, o_type_size_max := size_max\<rparr>);
          opt3 = (if o_type_size_max opt2 = 0 then opt2\<lparr>o_required := False\<rparr> else opt2)
      in if o_type_size_max opt3 \<ge> expected_max_vector_size then opt3\<lparr>o_inject_separator := True\<rparr> else opt3)"

section \<open>Queries\<close>

definition option_count :: "'v opt \<Rightarrow> nat" where
  "option_count opt = length (o_results opt)"

definition option_true :: "'v opt \<Rightarrow> bool" where
  "option_true opt \<longleftrightarrow> o_results opt \<noteq> [] \<or> o_force_callback opt"

definition option_clear :: "'v opt \<Rightarrow> 'v opt" where
  "option_clear opt = opt\<lparr>o_results := [], o_state := Opt_parsing\<rparr>"

definition get_single_name :: "'v opt \<Rightarrow> string" where
  "get_single_name opt =
     (if o_lnames opt \<noteq> [] then hd (o_lnames opt)
      else if o_snames opt \<noteq> [] then hd (o_snames opt)
      else if o_pname opt \<noteq> [] then o_pname opt else o_envname opt)"

text \<open>
  The product for the minimum is that of unbounded integers: the \<^verbatim>\<open>int\<close> of the code overflows
  only for sizes whose product passes \<^verbatim>\<open>2^31\<close>, which is not modelled; the maximum is checked.
\<close>

definition get_items_expected_min :: "'v opt \<Rightarrow> int" where
  "get_items_expected_min opt = o_type_size_min opt * o_expected_min opt"

definition get_items_expected_max :: "'v opt \<Rightarrow> int" where
  "get_items_expected_max opt =
     (case checked_multiply (o_type_size_max opt) (o_expected_max opt) of
        (ok, t) \<Rightarrow> if ok then t else expected_max_vector_size)"

definition get_positional :: "'v opt \<Rightarrow> bool" where
  "get_positional opt \<longleftrightarrow> o_pname opt \<noteq> []"

definition nonpositional :: "'v opt \<Rightarrow> bool" where
  "nonpositional opt \<longleftrightarrow> o_lnames opt \<noteq> [] \<or> o_snames opt \<noteq> []"

definition check_sname :: "'v opt \<Rightarrow> string \<Rightarrow> bool" where
  "check_sname opt name \<longleftrightarrow> find_member name (o_snames opt) (o_ignore_case opt) False \<noteq> None"

definition check_lname :: "'v opt \<Rightarrow> string \<Rightarrow> bool" where
  "check_lname opt name \<longleftrightarrow>
     find_member name (o_lnames opt) (o_ignore_case opt) (o_ignore_underscore opt) \<noteq> None"

definition check_fname :: "'v opt \<Rightarrow> string \<Rightarrow> bool" where
  "check_fname opt name \<longleftrightarrow>
     (if o_fnames opt = [] then False
      else find_member name (o_fnames opt) (o_ignore_case opt) (o_ignore_underscore opt) \<noteq> None)"

definition check_name :: "'v opt \<Rightarrow> string \<Rightarrow> bool" where
  "check_name opt name \<longleftrightarrow>
     (if length name > 2 \<and> name ! 0 = CHR ''-'' \<and> name ! 1 = CHR ''-'' then check_lname opt (drop 2 name)
      else if length name > 1 \<and> hd name = CHR ''-'' then check_sname opt (drop 1 name)
      else if o_pname opt \<noteq> []
          \<and> (let underscore = (\<lambda>s. if o_ignore_underscore opt then remove_underscore s else s);
                  lower = (\<lambda>s. if o_ignore_case opt then to_lower s else s)
              in lower (underscore name) = lower (underscore (o_pname opt)))
      then True
      else if o_envname opt \<noteq> [] then name = o_envname opt
      else False)"

text \<open>
  \<^verbatim>\<open>matching_name\<close>: a name the two options share, the empty string when there is none. The
  tests are made in order, the first that succeeds gives the result.
\<close>

primrec first_some :: "'a option list \<Rightarrow> 'a option" where
  "first_some [] = None"
| "first_some (x # xs) = (case x of Some y \<Rightarrow> Some y | None \<Rightarrow> first_some xs)"

definition matching_name :: "'v opt \<Rightarrow> 'v opt \<Rightarrow> string" where
  "matching_name opt other =
     (let bothConfigurable = o_configurable opt \<and> o_configurable other in
      case first_some
        [find (\<lambda>sname. check_sname other sname \<or> bothConfigurable \<and> check_lname other sname) (o_snames opt),
         find (\<lambda>lname. check_lname other lname
                 \<or> length lname = 1 \<and> bothConfigurable \<and> check_sname other lname) (o_lnames opt),
         (if bothConfigurable \<and> o_snames opt = [] \<and> o_lnames opt = [] \<and> o_pname opt \<noteq> []
             \<and> (check_sname other (o_pname opt) \<or> check_lname other (o_pname opt) \<or> o_pname opt = o_pname other)
          then Some (o_pname opt) else None),
         (if bothConfigurable \<and> o_snames other = [] \<and> o_fnames other = [] \<and> o_pname other \<noteq> []
             \<and> (check_sname opt (o_pname other) \<or> check_lname opt (o_pname other) \<or> o_pname opt = o_pname other)
          then Some (o_pname other) else None),
         (if o_ignore_case opt \<or> o_ignore_underscore opt
          then first_some [find (check_sname opt) (o_snames other), find (check_lname opt) (o_lnames other)]
          else None)]
      of Some name \<Rightarrow> name | None \<Rightarrow> [])"

definition get_type_name :: "'v \<Rightarrow> 'v opt \<Rightarrow> string" where
  "get_type_name vars opt =
     o_type_name opt vars
     @ concat (map (\<lambda>v. let vtype = validator_description v in if vtype \<noteq> [] then '':'' @ vtype else [])
         (o_validators opt))"

section \<open>Values of flags and names\<close>

definition get_flag_value :: "'v opt \<Rightarrow> string \<Rightarrow> string \<Rightarrow> cli_exn + string" where
  "get_flag_value opt name input_value =
     (let no_input = (input_value = [] \<or> input_value = ''{}'');
          ind = find_member name (o_fnames opt) (o_ignore_case opt) (o_ignore_underscore opt);
          override =
            (if o_disable_flag_override opt \<and> \<not> no_input then
               (case ind of
                  Some i \<Rightarrow>
                    if snd (o_default_flag_values opt ! i) \<noteq> input_value then
                      if input_value = o_default_str opt \<and> o_force_callback opt then Inr True
                      else Inl (FlagOverride name)
                    else Inr False
                | None \<Rightarrow> if input_value \<noteq> ''true'' then Inl (FlagOverride name) else Inr False)
             else Inr False)
      in
      case override of
        Inl e \<Rightarrow> Inl e
      | Inr True \<Rightarrow> Inr input_value
      | Inr False \<Rightarrow>
          if no_input then
            Inr (case ind of
                   Some i \<Rightarrow> snd (o_default_flag_values opt ! i)
                 | None \<Rightarrow> if o_flag_like opt then ''true'' else o_default_str opt)
          else
            (case ind of
               None \<Rightarrow> Inr input_value
             | Some i \<Rightarrow>
                 if snd (o_default_flag_values opt ! i) = ''false'' then
                   (case to_flag_value input_value of
                      (val, Some err) \<Rightarrow> Inr input_value
                    | (val, None) \<Rightarrow>
                        Inr (if val = 1 then ''false'' else if val = - 1 then ''true''
                             else int_string (sint (- val))))
                 else Inr input_value))"

text \<open>
  \<^verbatim>\<open>get_name\<close>. With an empty input the value of a flag never throws, so the name list needs
  no error case.
\<close>

definition flag_suffix :: "'v opt \<Rightarrow> bool \<Rightarrow> string \<Rightarrow> string" where
  "flag_suffix opt disable_default_flag_values name =
     (if \<not> disable_default_flag_values \<and> check_fname opt name then
        ''{'' @ (case get_flag_value opt name [] of Inr v \<Rightarrow> v | Inl _ \<Rightarrow> []) @ ''}''
      else [])"

definition get_name :: "'v opt \<Rightarrow> bool \<Rightarrow> bool \<Rightarrow> bool \<Rightarrow> string" where
  "get_name opt positional all_options disable_default_flag_values =
     (if o_group opt = [] then []
      else if all_options then
        (let pos = (if positional \<and> o_pname opt \<noteq> [] \<or> o_snames opt = [] \<and> o_lnames opt = []
                    then [o_pname opt] else []);
             suffix = (if get_items_expected_min opt = 0 \<and> o_fnames opt \<noteq> []
                       then flag_suffix opt disable_default_flag_values else (\<lambda>_. []))
         in join (pos @ map (\<lambda>sname. ''-'' @ sname @ suffix sname) (o_snames opt)
                      @ map (\<lambda>lname. ''--'' @ lname @ suffix lname) (o_lnames opt)) '','')
      else if positional then o_pname opt
      else if o_lnames opt \<noteq> [] then ''--'' @ hd (o_lnames opt)
      else if o_snames opt \<noteq> [] then ''-'' @ hd (o_snames opt)
      else o_pname opt)"

abbreviation opt_name :: "'v opt \<Rightarrow> string" where
  "opt_name opt \<equiv> get_name opt False False False"

end
