(* ===== verification/Cli_Results.thy ===== *)
theory Cli_Results
  imports Cli_Option
begin

text \<open>
  The results of an option: how a string from the command line is added to them, how the
  validators run over them, how the policy for multiple values reduces them, and how the
  callback gets them.
\<close>

section \<open>Adding a result\<close>

text \<open>
  \<^verbatim>\<open>_add_result\<close> first undoes the doubling of \<^verbatim>\<open>handle_secondary_array\<close>: the characters
  between the double brackets in pairs. With an odd number of them the last one is compared
  with the first closing bracket.
\<close>

fun undouble :: "string \<Rightarrow> string option" where
  "undouble [] = Some []"
| "undouble [c] = (if c = CHR '']'' then Some [c] else None)"
| "undouble (c # d # cs) = (if c = d then map_option ((#) c) (undouble cs) else None)"

lemma length_split_up_loop: "v \<in> set (split_up_loop str d) \<Longrightarrow> length v \<le> length str"
proof (induction str d arbitrary: v rule: split_up_loop.induct)
  case (1 str d)
  have rest: "length (trim (drop n str)) \<le> length str" for n
    using length_trim_le [of "drop n str"] by simp
  have empty: "split_up_loop (trim []) d = []"
    by (subst split_up_loop.simps) (simp add: trim_def rtrim_def ltrim_def)
  show ?case
  proof (cases "str = []")
    case False
    show ?thesis
    proof (cases "char_pos bracketChars (hd str)")
      case None
      from 1(3) False None consider it where
          "find_pos (\<lambda>ch. if d = CHR 0x00 then isspace ch else ch = d) str = Some it"
          "v = take it str \<or> v \<in> set (split_up_loop (trim (drop (it + 1) str)) d)" | "v = str"
        by (subst (asm) split_up_loop.simps) (auto split: option.splits)
      then show ?thesis
        using 1(1) [OF False None] rest by cases (auto intro: order_trans)
    next
      case (Some b)
      define e where "e = close_sequence str 0 (matchBracketChars ! b)"
      from 1(3) False Some consider "v = str" | "v = take (e + 1) str"
          | "length str > e" "v \<in> set (split_up_loop (trim (if e + 2 < length str then drop (e + 2) str else [])) d)"
        by (subst (asm) split_up_loop.simps) (auto simp: e_def Let_def split: if_splits)
      then show ?thesis
      proof cases
        case 3
        show ?thesis
        proof (cases "e + 2 < length str")
          case True
          with 3 1(2) [OF False Some e_def] rest show ?thesis by (auto simp: e_def intro: order_trans)
        next
          case False
          with 3 empty show ?thesis by simp
        qed
      qed auto
    qed
  qed (use 1(3) in \<open>subst (asm) split_up_loop.simps, simp\<close>)
qed

lemma length_split_up: "v \<in> set (split_up str d) \<Longrightarrow> length v \<le> length str"
  using length_split_up_loop [of v "trim str" d] length_trim_le [of str] by (simp add: split_up_def)

text \<open>
  The number of results added, and the results. A string in brackets is a list for an option
  that takes several values, and its elements are added one by one.
\<close>

function add_result_to :: "'v opt \<Rightarrow> string \<Rightarrow> results_t \<Rightarrow> int \<times> results_t" where
  "add_result_to opt result res =
     (let n = length result;
          duplicated =
            (if n \<ge> 4 \<and> result ! 0 = CHR ''['' \<and> result ! 1 = CHR ''[''
                \<and> last result = CHR '']'' \<and> result ! (n - 2) = CHR '']''
             then undouble (take (n - 4) (drop 2 result)) else None)
      in
      case duplicated of
        Some nstrs \<Rightarrow> (1, res @ [''['' @ nstrs @ '']''])
      | None \<Rightarrow>
          if (o_allow_extra_args opt \<or> o_expected_max opt > 1 \<or> o_type_size_min opt > 1) \<and> result \<noteq> []
              \<and> hd result = CHR ''['' \<and> last result = CHR '']'' then
            fold (\<lambda>var (result_count, res).
                if var = [] then (result_count, res)
                else (case add_result_to opt var res of (k, res') \<Rightarrow> (result_count + k, res')))
              (split_up (tl (butlast result)) (CHR '','')) (0, res)
          else if o_delimiter opt = CHR 0x00 then (1, res @ [result])
          else if find_first_of result [o_delimiter opt] \<noteq> None then
            (let vars = filter (\<lambda>var. var \<noteq> []) (split_at result (o_delimiter opt))
             in (int (length vars), res @ vars))
          else (1, res @ [result]))"
  by pat_completeness auto
termination
proof (relation "measure (\<lambda>(opt, result, res). length result)")
  fix opt :: "'v opt" and result res res' var n dup and k :: int
  assume "(o_allow_extra_args opt \<or> o_expected_max opt > 1 \<or> o_type_size_min opt > 1) \<and> result \<noteq> []
      \<and> hd result = CHR ''['' \<and> last result = CHR '']''"
    and var: "var \<in> set (split_up (tl (butlast result)) (CHR '',''))"
  then have "length (tl (butlast result)) < length result" by (cases result) auto
  with length_split_up [OF var] show "((opt, var, res'), opt, result, res) \<in> measure (\<lambda>(opt, result, res). length result)"
    by simp
qed simp

declare add_result_to.simps [simp del]

definition add_result_count :: "string \<Rightarrow> 'v opt \<Rightarrow> int \<times> 'v opt" where
  "add_result_count s opt =
     (case add_result_to opt s (o_results opt) of
        (results_added, res) \<Rightarrow> (results_added, opt\<lparr>o_results := res, o_state := Opt_parsing\<rparr>))"

definition add_result :: "string \<Rightarrow> 'v opt \<Rightarrow> 'v opt" where
  "add_result s opt = snd (add_result_count s opt)"

definition add_results :: "string list \<Rightarrow> 'v opt \<Rightarrow> 'v opt" where
  "add_results s opt =
     (let opt = opt\<lparr>o_state := Opt_parsing\<rparr> in
      fold (\<lambda>str opt. opt\<lparr>o_results := snd (add_result_to opt str (o_results opt))\<rparr>) s opt)"

section \<open>Validation\<close>

text \<open>
  \<^verbatim>\<open>_validate\<close> runs the validators that apply to the index, up to the first message; a
  \<^verbatim>\<open>ValidationError\<close> they throw counts as a message, and leaves the string as it was.
\<close>

fun run_validators :: "validator list \<Rightarrow> string \<Rightarrow> int \<Rightarrow> cli_exn + (string \<times> string)" where
  "run_validators [] result index = Inr ([], result)"
| "run_validators (vali # validators) result index =
     (let v = v_application_index vali in
      if v = - 1 \<or> v = index then
        (case (case validator_run vali result of
                 Inl (Cli err) \<Rightarrow> if error_class err = C_ValidationError then Inr (what_msg err, result) else Inl (Cli err)
               | r \<Rightarrow> r) of
           Inl e \<Rightarrow> Inl e
         | Inr (err_msg, result') \<Rightarrow>
             if err_msg \<noteq> [] then Inr (err_msg, result') else run_validators validators result' index)
      else run_validators validators result index)"

definition option_validate :: "'v opt \<Rightarrow> string \<Rightarrow> int \<Rightarrow> cli_exn + (string \<times> string)" where
  "option_validate opt result index =
     (if result = [] \<and> o_expected_min opt = 0 then Inr ([], result)
      else run_validators (o_validators opt) result index)"

text \<open>
  \<^verbatim>\<open>_validate_results\<close> changes the results in place, up to the first that fails. The index
  counts within a value of several strings, and is negative for the results a policy will drop
  from the front. C's remainder is only taken of indices that are not negative.
\<close>

fun validate_each :: "'v opt \<Rightarrow> bool \<Rightarrow> int \<Rightarrow> results_t \<Rightarrow> results_t \<Rightarrow> (cli_exn + unit) \<times> results_t" where
  "validate_each opt sized index done [] = (Inr (), done)"
| "validate_each opt sized index done (result # res) =
     (if sized \<and> is_separator result \<and> o_type_size_max opt \<noteq> o_type_size_min opt \<and> index \<ge> 0
      then validate_each opt sized 0 (done @ [result]) res
      else
        (case option_validate opt result
                (if sized \<and> index \<ge> 0 then index mod o_type_size_max opt else index) of
           Inl e \<Rightarrow> (Inl e, done @ result # res)
         | Inr (err_msg, result') \<Rightarrow>
             if err_msg \<noteq> [] then (Inl (ValidationError_of (opt_name opt) err_msg), done @ result' # res)
             else validate_each opt sized (index + 1) (done @ [result']) res))"

definition validate_results :: "'v opt \<Rightarrow> results_t \<Rightarrow> (cli_exn + unit) \<times> results_t" where
  "validate_results opt res =
     (if o_validators opt = [] then (Inr (), res)
      else
        (let sized = o_type_size_max opt > 1;
             limit = (if sized then get_items_expected_max opt else o_expected_max opt);
             trims = (o_multi_option_policy opt = TakeLast \<or> o_multi_option_policy opt = Reverse);
             index = (if limit < int (length res) \<and> trims then limit - int (length res) else 0)
         in validate_each opt sized index [] res))"

section \<open>Reduction\<close>

text \<open>
  \<^verbatim>\<open>_reduce_results\<close>: the reduced results, empty when the original ones are kept. The sum of
  strings as floating-point numbers is a parameter.
\<close>

definition trim_size :: "'v opt \<Rightarrow> results_t \<Rightarrow> nat" where
  "trim_size opt original = min (nat (max (get_items_expected_max opt) 1)) (length original)"

definition empty_marker :: "'v opt \<Rightarrow> results_t \<Rightarrow> results_t \<Rightarrow> results_t" where
  "empty_marker opt original out =
     (if out = [] then
        if length original = 1 \<and> original ! 0 = ''{}'' \<and> get_items_expected_min opt > 0
        then [''{}'', ''%%''] else []
      else if length out = 1 \<and> out ! 0 = ''{}'' \<and> get_items_expected_min opt > 0 then out @ [''%%'']
      else out)"

definition reduce_results :: "(string list \<Rightarrow> string) \<Rightarrow> 'v opt \<Rightarrow> results_t \<Rightarrow> cli_exn + results_t" where
  "reduce_results sum_string_vector opt original =
     map_sum id (empty_marker opt original)
       (case o_multi_option_policy opt of
          TakeAll \<Rightarrow> Inr []
        | TakeLast \<Rightarrow>
            (let trim_size = trim_size opt original in
             Inr (if length original \<noteq> trim_size then drop (length original - trim_size) original else []))
        | Reverse \<Rightarrow>
            (let trim_size = trim_size opt original in
             Inr (rev (if length original \<noteq> trim_size \<or> trim_size > 1
                       then drop (length original - trim_size) original else [])))
        | TakeFirst \<Rightarrow>
            (let trim_size = trim_size opt original in
             Inr (if length original \<noteq> trim_size then take trim_size original else []))
        | Join \<Rightarrow>
            Inr (if length (o_results opt) > 1 then
                   [join original [if o_delimiter opt = CHR 0x00 then CHR 0x0A else o_delimiter opt]]
                 else [])
        | Sum \<Rightarrow> Inr [sum_string_vector original]
        | Throw \<Rightarrow>
            (let num_min = (if get_items_expected_min opt = 0 then 1 else get_items_expected_min opt);
                 num_max = (if get_items_expected_max opt = 0 then 1 else get_items_expected_max opt);
                 n = int (length original)
             in if n < num_min then Inl (AtLeast (opt_name opt) num_min (length original))
                else if n > num_max then
                  if n = 2 \<and> num_max = 1 \<and> original ! 1 = ''%%'' \<and> original ! 0 = ''{}'' then Inr original
                  else Inl (AtMost (opt_name opt) num_max (length original))
                else Inr []))"

section \<open>The callback\<close>

text \<open>
  \<^verbatim>\<open>run_callback\<close> on the option and the variables of the user: the default as a result when
  the callback is forced, validation, reduction, and the callback itself, which gets the reduced
  results or else all of them.
\<close>

definition force_default :: "'v opt \<Rightarrow> 'v opt" where
  "force_default opt = (if o_force_callback opt \<and> o_results opt = [] then add_result (o_default_str opt) opt else opt)"

definition validate_stage :: "'v opt \<Rightarrow> (cli_exn + unit) \<times> 'v opt" where
  "validate_stage opt =
     (if o_state opt = Opt_parsing then
        (case validate_results opt (o_results opt) of
           (Inl e, res) \<Rightarrow> (Inl e, opt\<lparr>o_results := res\<rparr>)
         | (Inr _, res) \<Rightarrow> (Inr (), opt\<lparr>o_results := res, o_state := Opt_validated\<rparr>))
      else (Inr (), opt))"

definition reduce_stage :: "(string list \<Rightarrow> string) \<Rightarrow> 'v opt \<Rightarrow> (cli_exn + unit) \<times> 'v opt" where
  "reduce_stage sum_string_vector opt =
     (if state_rank (o_state opt) < state_rank Opt_reduced then
        (case reduce_results sum_string_vector opt (o_results opt) of
           Inl e \<Rightarrow> (Inl e, opt\<lparr>o_proc_results := []\<rparr>)
         | Inr out \<Rightarrow> (Inr (), opt\<lparr>o_proc_results := out\<rparr>))
      else (Inr (), opt))"

definition callback_stage :: "bool \<Rightarrow> ('v opt \<times> 'v, unit) comp" where
  "callback_stage used_default_str = (\<lambda>(opt0, vars).
     (let opt = opt0\<lparr>o_state := Opt_callback_run\<rparr> in
      case o_callback opt of
        None \<Rightarrow> (Inr (), (opt, vars))
      | Some callback \<Rightarrow>
          (let send_results = (if o_proc_results opt = [] then o_results opt else o_proc_results opt) in
           if send_results = [] then (Inr (), (opt, vars))
           else
             (case callback send_results vars of
                (Inl e, vars') \<Rightarrow> (Inl e, (opt, vars'))
              | (Inr local_result, vars') \<Rightarrow>
                  (let opt' = (if used_default_str then opt\<lparr>o_results := [], o_proc_results := []\<rparr> else opt) in
                   if \<not> local_result then (Inl (ConversionError_results (opt_name opt') (o_results opt')), (opt', vars'))
                   else (Inr (), (opt', vars')))))))"

definition option_run_callback :: "(string list \<Rightarrow> string) \<Rightarrow> ('v opt \<times> 'v, unit) comp" where
  "option_run_callback sum_string_vector = (\<lambda>(opt, vars).
     (let used_default_str = (o_force_callback opt \<and> o_results opt = []) in
      case validate_stage (force_default opt) of
        (Inl e, opt1) \<Rightarrow> (Inl e, (opt1, vars))
      | (Inr _, opt1) \<Rightarrow>
     (case reduce_stage sum_string_vector opt1 of
        (Inl e, opt2) \<Rightarrow> (Inl e, (opt2, vars))
      | (Inr _, opt2) \<Rightarrow> callback_stage used_default_str (opt2, vars))))"

definition reduced_results :: "(string list \<Rightarrow> string) \<Rightarrow> 'v opt \<Rightarrow> cli_exn + results_t" where
  "reduced_results sum_string_vector opt =
     (let res = (if o_proc_results opt = [] then o_results opt else o_proc_results opt) in
      if state_rank (o_state opt) < state_rank Opt_reduced then
        (case (if o_state opt = Opt_parsing then
                 (case validate_results opt (o_results opt) of (Inl e, _) \<Rightarrow> Inl e | (Inr _, res) \<Rightarrow> Inr res)
               else Inr res) of
           Inl e \<Rightarrow> Inl e
         | Inr res \<Rightarrow>
             if res \<noteq> [] then
               map_sum id (\<lambda>extra. if extra \<noteq> [] then extra else res) (reduce_results sum_string_vector opt res)
             else Inr res)
      else Inr res)"

text \<open>\<^verbatim>\<open>results<T>\<close>: the results at a type, given by its conversion.\<close>

definition results_as ::
  "(string list \<Rightarrow> string) \<Rightarrow> (results_t \<Rightarrow> bool \<times> 'b) \<Rightarrow> 'v opt \<Rightarrow> cli_exn + ('b \<times> 'v opt)" where
  "results_as sum_string_vector conversion opt =
     (case
        (if state_rank (o_state opt) \<ge> state_rank Opt_reduced
            \<or> length (o_results opt) = 1 \<and> o_validators opt = [] then
           (let res = (if o_proc_results opt = [] then o_results opt else o_proc_results opt) in
            if res \<noteq> [] then Inr (res, opt) else Inr ([[]], opt\<lparr>o_proc_results := [[]]\<rparr>))
         else
           (case
              (if o_results opt = [] then
                 if o_default_str opt \<noteq> [] then
                   (case validate_results opt (snd (add_result_to opt (o_default_str opt) [])) of
                      (Inl e, _) \<Rightarrow> Inl e
                    | (Inr _, res) \<Rightarrow>
                        map_sum id (\<lambda>extra. if extra \<noteq> [] then extra else res)
                          (reduce_results sum_string_vector opt res))
                 else Inr [[]]
               else reduced_results sum_string_vector opt) of
              Inl e \<Rightarrow> Inl e
            | Inr res \<Rightarrow> Inr (res, opt\<lparr>o_proc_results := res\<rparr>))) of
        Inl e \<Rightarrow> Inl e
      | Inr (res, opt') \<Rightarrow>
          (case conversion res of (retval, output) \<Rightarrow>
             if retval then Inr (output, opt')
             else Inl (ConversionError_results (opt_name opt') (o_results opt'))))"

end
