(* ===== verification/Cli_Config.thy ===== *)
theory Cli_Config
  imports Cli_Quotes Cli_Convert Cli_Error
begin

text \<open>
  Configuration files of \<^verbatim>\<open>CLI11.hpp\<close>: the items, the settings of \<^verbatim>\<open>ConfigBase\<close>, the
  reader \<^verbatim>\<open>from_config\<close> with its helpers, and how the writer quotes a value. A stream is
  the list of its lines, and every \<^verbatim>\<open>getline\<close> takes the first of those that are left. The
  accesses \<^verbatim>\<open>front()\<close> and \<^verbatim>\<open>back()\<close> of an empty container are the exception
  \<^term>\<open>Undefined\<close>.
\<close>

section \<open>Items and settings\<close>

record config_item =
  cfg_parents :: "string list"
  cfg_name :: string
  cfg_inputs :: "string list"
  cfg_multiline :: bool

record config_format =
  cf_commentChar :: char
  cf_arrayStart :: char
  cf_arrayEnd :: char
  cf_arraySeparator :: char
  cf_valueDelimiter :: char
  cf_stringQuote :: char
  cf_literalQuote :: char
  cf_maximumLayers :: nat
  cf_parentSeparatorChar :: char
  cf_commentDefaultsBool :: bool
  cf_allowMultipleDuplicateFields :: bool
  cf_configIndex :: int
  cf_configSection :: string

definition config_toml :: config_format where
  "config_toml =
     \<lparr>cf_commentChar = CHR 0x23, cf_arrayStart = CHR ''['', cf_arrayEnd = CHR '']'', cf_arraySeparator = CHR '','',
      cf_valueDelimiter = CHR ''='', cf_stringQuote = CHR 0x22, cf_literalQuote = CHR 0x27,
      cf_maximumLayers = 255, cf_parentSeparatorChar = CHR ''.'', cf_commentDefaultsBool = False,
      cf_allowMultipleDuplicateFields = False, cf_configIndex = - 1, cf_configSection = []\<rparr>"

definition config_ini :: config_format where
  "config_ini =
     config_toml\<lparr>cf_commentChar := CHR '';'', cf_arrayStart := CHR 0x00, cf_arrayEnd := CHR 0x00,
       cf_arraySeparator := CHR '' '', cf_valueDelimiter := CHR ''=''\<rparr>"

definition fullname :: "config_item \<Rightarrow> string" where
  "fullname item = join (cfg_parents item @ [cfg_name item]) ''.''"

definition to_flag :: "config_item \<Rightarrow> cli_exn + string" where
  "to_flag item =
     (if length (cfg_inputs item) = 1 then Inr (hd (cfg_inputs item))
      else if cfg_inputs item = [] then Inr ''{}''
      else Inl (TooManyInputsFlag (fullname item)))"

definition item_of :: "string list \<Rightarrow> string \<Rightarrow> string list \<Rightarrow> config_item" where
  "item_of parents name inputs =
     \<lparr>cfg_parents = parents, cfg_name = name, cfg_inputs = inputs, cfg_multiline = False\<rparr>"

text \<open>\<^verbatim>\<open>catch(const std::invalid_argument &)\<close> in the reader.\<close>

fun as_parse_error :: "exn \<Rightarrow> cli_exn" where
  "as_parse_error (InvalidArgument msg) = error_named C_ParseError ''ParseError'' msg EC_InvalidError"
| "as_parse_error e = Std e"

section \<open>Quoting a value\<close>

definition is_printable :: "string \<Rightarrow> bool" where
  "is_printable test_string \<longleftrightarrow> list_all (\<lambda>x. isprint x \<or> x = CHR 0x0A \<or> x = CHR 0x09) test_string"

text \<open>
  \<^verbatim>\<open>strtold\<close> on a string of the characters \<^verbatim>\<open>0123456789.-+eE\<close>: the number of characters
  it reads. With these characters only the decimal form is possible, and
  \<^verbatim>\<open>lexical_cast\<close> to a floating point number, which has no blank or separator to skip then,
  succeeds if all of the string was read.
\<close>

definition decimal_char :: "char \<Rightarrow> bool" where
  "decimal_char c \<longleftrightarrow> (let n = of_char c :: nat in 48 \<le> n \<and> n \<le> 57)"

definition float_char :: "char \<Rightarrow> bool" where
  "float_char c \<longleftrightarrow> decimal_char c \<or> c \<in> set ''.-+eE''"

definition sign_length :: "string \<Rightarrow> nat" where
  "sign_length s = (if s \<noteq> [] \<and> (hd s = CHR ''+'' \<or> hd s = CHR ''-'') then 1 else 0)"

definition exponent_length :: "string \<Rightarrow> nat" where
  "exponent_length s =
     (if s \<noteq> [] \<and> (hd s = CHR ''e'' \<or> hd s = CHR ''E'') then
        (let sg = sign_length (tl s); digits = length (takeWhile decimal_char (drop sg (tl s)))
         in if digits = 0 then 0 else 1 + sg + digits)
      else 0)"

definition strtold_length :: "string \<Rightarrow> nat" where
  "strtold_length s =
     (let sg = sign_length s; s1 = drop sg s;
          whole = length (takeWhile decimal_char s1); s2 = drop whole s1;
          point = (s2 \<noteq> [] \<and> hd s2 = CHR ''.'');
          fraction = (if point then length (takeWhile decimal_char (tl s2)) else 0);
          mantissa = whole + (if point then 1 + fraction else 0)
      in if whole + fraction = 0 then 0
         else sg + mantissa + exponent_length (drop mantissa s1))"

definition is_number_text :: "string \<Rightarrow> bool" where
  "is_number_text arg \<longleftrightarrow> list_all float_char arg \<and> strtold_length arg = length arg"

definition multiline_literal_quote :: string where
  "multiline_literal_quote = replicate 3 (CHR 0x27)"

definition multiline_string_quote :: string where
  "multiline_string_quote = replicate 3 (CHR 0x22)"

definition line_end_char :: "char \<Rightarrow> bool" where
  "line_end_char c \<longleftrightarrow> c = CHR 0x0A \<or> c = CHR 0x0D"

text \<open>The numbers in other bases that need no quotes.\<close>

definition is_based_number :: "string \<Rightarrow> bool" where
  "is_based_number arg \<longleftrightarrow>
     hd arg = CHR ''0''
     \<and> (arg ! 1 = CHR ''x'' \<and> list_all (\<lambda>x. digit_of 16 x \<noteq> None) (drop 2 arg)
        \<or> arg ! 1 = CHR ''o'' \<and> list_all (\<lambda>x. digit_of 8 x \<noteq> None) (drop 2 arg)
        \<or> arg ! 1 = CHR ''b'' \<and> list_all (\<lambda>x. digit_of 2 x \<noteq> None) (drop 2 arg))"

definition convert_arg_for_ini :: "string \<Rightarrow> char \<Rightarrow> char \<Rightarrow> bool \<Rightarrow> string" where
  "convert_arg_for_ini arg stringQuote literalQuote disable_multi_line =
     (if arg = [] then [stringQuote, stringQuote]
      else if arg = ''true'' \<or> arg = ''false'' \<or> arg = ''nan'' \<or> arg = ''inf'' then arg
      else if take 2 arg \<noteq> ''0x'' \<and> take 2 arg \<noteq> ''0X'' \<and> is_number_text arg then arg
      else if length arg = 1 then
        if \<not> isprint (hd arg) then binary_escape_string arg False
        else if arg = [CHR 0x27] then [stringQuote, CHR 0x27, stringQuote]
        else [literalQuote] @ arg @ [literalQuote]
      else if is_based_number arg then arg
      else if \<not> is_printable arg then binary_escape_string arg False
      else if has_escapable_character arg then
        if length arg > 100 \<and> \<not> disable_multi_line then
          if find_str arg multiline_literal_quote \<noteq> None then binary_escape_string arg True
          else multiline_literal_quote @ (if line_end_char (hd arg) then [CHR 0x0A] else [])
                 @ arg @ (if line_end_char (last arg) then [CHR 0x0A] else []) @ multiline_literal_quote
        else [stringQuote] @ add_escaped_characters arg @ [stringQuote]
      else [stringQuote] @ arg @ [stringQuote])"

text \<open>The loop of \<^verbatim>\<open>ini_join\<close>: every element but the first is preceded by the separator.\<close>

definition ini_separator :: "char \<Rightarrow> string" where
  "ini_separator sepChar = (if isspace sepChar then [sepChar] else [sepChar, CHR '' ''])"

definition ini_join :: "string list \<Rightarrow> char \<Rightarrow> char \<Rightarrow> char \<Rightarrow> char \<Rightarrow> char \<Rightarrow> string" where
  "ini_join args sepChar arrayStart arrayEnd stringQuote literalQuote =
     (let opening = (length args > 1 \<and> arrayStart \<noteq> CHR 0x00);
          texts = map (\<lambda>arg. convert_arg_for_ini arg stringQuote literalQuote opening) args
      in (if opening then [arrayStart] else []) @ join_parts texts (ini_separator sepChar)
         @ (if length args > 1 \<and> arrayEnd \<noteq> CHR 0x00 then [arrayEnd] else []))"

text \<open>
  An empty name has no \<^verbatim>\<open>front()\<close>; the test for characters of \<open>keyChars\<close> comes first but never
  finds one in it.
\<close>

definition clean_name_string :: "string \<Rightarrow> string \<Rightarrow> cli_exn + string" where
  "clean_name_string name keyChars =
     (if name = [] then Inl (Std (Undefined ''front of an empty string''))
      else if find_first_of name keyChars \<noteq> None \<or> hd name = CHR ''['' \<and> last name = CHR '']''
         \<or> find_first_of name [CHR 0x27, CHR 0x60, CHR 0x22, CHR 0x5C] \<noteq> None then
        if CHR 0x27 \<notin> set name then Inr ([CHR 0x27] @ name @ [CHR 0x27])
        else
          Inr ([CHR 0x22] @ (if has_escapable_character name then add_escaped_characters name else name) @ [CHR 0x22])
      else Inr name)"

section \<open>Sections\<close>

text \<open>The parents of an item, and its name without them.\<close>

definition generate_parents :: "string \<Rightarrow> string \<Rightarrow> char \<Rightarrow> cli_exn + (string list \<times> string)" where
  "generate_parents sec name parentSeparator =
     (let parents =
            (if to_lower sec = ''default'' then []
             else if parentSeparator \<in> set sec then split_up sec parentSeparator else [sec]);
          plist = (if parentSeparator \<in> set name then split_up name parentSeparator else [name])
      in if plist = [] then Inl (Std (Undefined ''back of an empty vector''))
         else
           (case remove_quotes_all (parents @ butlast plist) of
              Inl e \<Rightarrow> Inl (as_parse_error e)
            | Inr parents' \<Rightarrow> Inr (parents', last plist)))"

text \<open>The copies of an item with one parent less each, down to fewer parents than the bound.\<close>

function (sequential) closings :: "nat \<Rightarrow> config_item \<Rightarrow> config_item list" where
  "closings msize item =
     (if length (cfg_parents item) \<ge> msize \<and> cfg_parents item \<noteq> [] then
        (let item' = item\<lparr>cfg_parents := butlast (cfg_parents item)\<rparr> in item' # closings msize item')
      else [])"
  by pat_completeness auto
termination by (relation "measure (\<lambda>(msize, item). length (cfg_parents item))") auto

declare closings.simps [simp del]

definition openings :: "nat \<Rightarrow> string list \<Rightarrow> config_item list" where
  "openings start parents = map (\<lambda>ii. item_of (take (ii + 1) parents) ''++'' []) [start..<length parents - 1]"

fun common_prefix :: "string list \<Rightarrow> string list \<Rightarrow> nat" where
  "common_prefix (x # xs) (y # ys) = (if x = y then Suc (common_prefix xs ys) else 0)"
| "common_prefix xs ys = 0"

definition checkParentSegments :: "config_item list \<Rightarrow> string \<Rightarrow> char \<Rightarrow> cli_exn + config_item list" where
  "checkParentSegments output currentSection parentSeparator =
     (case generate_parents currentSection [] parentSeparator of
        Inl e \<Rightarrow> Inl e
      | Inr (parents, _) \<Rightarrow>
          Inr
            ((if output \<noteq> [] \<and> cfg_name (last output) = ''--'' then
                (let msize = (if length parents > 1 then length parents else 2);
                     output1 = output @ closings msize (last output)
                 in if length parents > 1 then
                      (let mpair = min (length (cfg_parents (last output1))) (length parents - 1);
                           common = common_prefix (take mpair (cfg_parents (last output1))) (take mpair parents);
                           output2 = (if common = mpair then butlast output1
                                      else output1 @ closings (common + 2) (last output1))
                       in output2 @ openings common parents)
                    else output1)
              else output @ openings 0 parents)
             @ [item_of parents ''++'' []]))"

definition hasMLString :: "string \<Rightarrow> char \<Rightarrow> bool" where
  "hasMLString fullString check \<longleftrightarrow>
     length fullString \<ge> 3 \<and> take 3 (List.rev fullString) = replicate 3 check"

text \<open>The position of the item: the last one that matches, or the last item only.\<close>

definition find_matching_config :: "config_item list \<Rightarrow> string list \<Rightarrow> string \<Rightarrow> bool \<Rightarrow> nat option" where
  "find_matching_config items parents name fullSearch =
     (let matches = (\<lambda>item. cfg_parents item = parents \<and> cfg_name item = name);
          searched = (if fullSearch then List.rev items else take 1 (List.rev items))
      in map_option (\<lambda>i. length items - 1 - i) (find_pos matches searched))"

section \<open>Reading a file\<close>

text \<open>
  What the loop of \<^verbatim>\<open>from_config\<close> keeps: the lines still to read, the items so far, the
  section it is in and the one before, the index of the section among equal ones, and whether
  an item of the section was taken.
\<close>

record reader =
  rd_lines :: "string list"
  rd_output :: "config_item list"
  rd_currentSection :: string
  rd_previousSection :: string
  rd_currentSectionIndex :: int
  rd_inSection :: bool

text \<open>The brackets of an array, which the format for INI files reads too.\<close>

definition isDefaultArray :: "config_format \<Rightarrow> bool" where
  "isDefaultArray cf \<longleftrightarrow>
     cf_arrayStart cf = CHR ''['' \<and> cf_arrayEnd cf = CHR '']'' \<and> cf_arraySeparator cf = CHR '',''"

definition isINIArray :: "config_format \<Rightarrow> bool" where
  "isINIArray cf \<longleftrightarrow>
     (cf_arrayStart cf = CHR 0x00 \<or> cf_arrayStart cf = CHR '' '') \<and> cf_arrayStart cf = cf_arrayEnd cf"

definition aStart :: "config_format \<Rightarrow> char" where
  "aStart cf = (if isINIArray cf then CHR ''['' else cf_arrayStart cf)"

definition aEnd :: "config_format \<Rightarrow> char" where
  "aEnd cf = (if isINIArray cf then CHR '']'' else cf_arrayEnd cf)"

definition aSep :: "config_format \<Rightarrow> char" where
  "aSep cf = (if isINIArray cf \<and> cf_arraySeparator cf = CHR '' '' then CHR '','' else cf_arraySeparator cf)"

text \<open>The lines behind a comment of several lines.\<close>

fun skip_comment :: "char \<Rightarrow> string list \<Rightarrow> string list" where
  "skip_comment cchar [] = []"
| "skip_comment cchar (line # lines) =
     (if hasMLString (trim line) cchar then lines else skip_comment cchar lines)"

text \<open>
  The position in a line from which the delimiter is looked for: behind the quotes of a name.
  \<^term>\<open>None\<close> is \<^verbatim>\<open>npos\<close>, which a search without result and \<^verbatim>\<open>--search_start\<close> at 0 give.
\<close>

lemma close_quote_gt:
  "start < length str \<Longrightarrow> c \<in> set [CHR 0x22, CHR 0x27, CHR 0x60] \<Longrightarrow> start < close_sequence str start c"
  using close_string_quote_gt [of start str c] close_literal_quote_gt [of start str c]
  by (auto simp: close_sequence_def char_pos_def matchBracketChars_def)

function key_scan :: "config_format \<Rightarrow> string \<Rightarrow> nat \<Rightarrow> nat option" where
  "key_scan cf line search_start =
     (if search_start < length line then
        (let test_char = line ! search_start in
         if test_char \<in> set [CHR 0x22, CHR 0x27, CHR 0x60] then
           key_scan cf line (close_sequence line search_start test_char + 1)
         else if test_char = cf_valueDelimiter cf \<or> test_char = cf_commentChar cf then
           (if search_start = 0 then None else Some (search_start - 1))
         else if test_char = CHR '' '' \<or> test_char = CHR 0x09 \<or> test_char = cf_parentSeparatorChar cf then
           key_scan cf line (search_start + 1)
         else
           (case find_from (\<lambda>c. c \<in> set [cf_parentSeparatorChar cf, cf_commentChar cf, cf_valueDelimiter cf])
                   line search_start of
              None \<Rightarrow> None
            | Some pos \<Rightarrow> key_scan cf line pos))
      else Some search_start)"
  by pat_completeness auto
termination
proof (relation "measure (\<lambda>(cf, line, search_start). length line - search_start)", goal_cases)
  case (2 cf line search_start test_char)
  then show ?case using close_quote_gt [of search_start line test_char] by simp
next
  case (4 cf line search_start test_char pos)
  from find_from_ge [OF 4(6)] have "search_start \<le> pos" "pos < length line" by auto
  moreover have "pos \<noteq> search_start"
  proof
    assume "pos = search_start"
    with find_from_split [OF 4(6)] have "test_char = cf_parentSeparatorChar cf \<or> test_char = cf_commentChar cf
        \<or> test_char = cf_valueDelimiter cf"
      using 4(2) by simp
    with 4(4,5) show False by blast
  qed
  ultimately show ?case using 4(1) by simp
qed auto

declare key_scan.simps [simp del]

definition key_start :: "config_format \<Rightarrow> string \<Rightarrow> nat option" where
  "key_start cf line =
     (if find_first_of line [CHR 0x22, CHR 0x27, CHR 0x60] \<noteq> None then key_scan cf line 0 else Some 0)"

text \<open>The positions of the delimiter, unless a comment starts before it, and of a comment.\<close>

definition key_delimiter :: "config_format \<Rightarrow> string \<Rightarrow> nat option \<times> nat option" where
  "key_delimiter cf line =
     (let search_start = key_start cf line;
          delimiter_pos = find_from (\<lambda>c. c = cf_valueDelimiter cf) line
                            (case search_start of None \<Rightarrow> 0 | Some pos \<Rightarrow> pos + 1);
          comment_pos = (case search_start of
                           None \<Rightarrow> None
                         | Some pos \<Rightarrow> find_from (\<lambda>c. c = cf_commentChar cf) line pos)
      in (case (delimiter_pos, comment_pos) of
            (Some d, Some c) \<Rightarrow> (if c < d then None else Some d, comment_pos)
          | _ \<Rightarrow> (delimiter_pos, comment_pos)))"

text \<open>A string of several lines: its value, and the lines behind it.\<close>

definition ml_finish :: "char \<Rightarrow> string \<Rightarrow> cli_exn + string" where
  "ml_finish keyChar item =
     (if keyChar = CHR 0x22 then
        (case remove_escaped_characters item of Inl e \<Rightarrow> Inl (as_parse_error e) | Inr s \<Rightarrow> Inr s)
      else Inr item)"

fun ml_lines :: "char \<Rightarrow> bool \<Rightarrow> bool \<Rightarrow> string \<Rightarrow> string list \<Rightarrow> (cli_exn + string) \<times> string list" where
  "ml_lines keyChar lineExtension firstLine item [] = (Inr item, [])"
| "ml_lines keyChar lineExtension firstLine item (l2 # lines) =
     (let line = rtrim l2;
          sep = (if lineExtension then [] else if firstLine \<and> item = [] then [] else [CHR 0x0A])
      in if hasMLString line keyChar then
           (let line3 = take (length line - 3) line;
                item1 = item @ sep @ (if lineExtension then ltrim line3 else line3);
                item2 = (if item1 \<noteq> [] \<and> last item1 = CHR 0x0A then butlast item1 else item1)
            in (ml_finish keyChar item2, lines))
         else
           (let l3 = (if lineExtension then trim l2 else l2);
                extended = (l3 \<noteq> [] \<and> last l3 = CHR 0x5C \<and> keyChar = CHR 0x22)
            in ml_lines keyChar extended False (item @ sep @ (if extended then butlast l3 else l3)) lines))"

definition ml_value :: "char \<Rightarrow> string \<Rightarrow> string list \<Rightarrow> (cli_exn + string) \<times> string list" where
  "ml_value keyChar text lines =
     (let item = drop 3 (ltrim text) in
      if item \<noteq> [] \<and> last item = CHR 0x5C \<and> keyChar = CHR 0x22 then
        ml_lines keyChar True True (butlast item) lines
      else if hasMLString item keyChar then (ml_finish keyChar (take (length item - 3) item), lines)
      else ml_lines keyChar False True item lines)"

text \<open>An array may go on over lines until its closing bracket.\<close>

fun array_lines :: "char \<Rightarrow> string \<Rightarrow> string list \<Rightarrow> string \<times> string list" where
  "array_lines close item [] = (item, [])"
| "array_lines close item (multiline # lines) =
     (if last item \<noteq> close then array_lines close (item @ trim multiline) lines else (item, multiline # lines))"

definition array_items :: "config_format \<Rightarrow> string \<Rightarrow> string list" where
  "array_items cf item =
     (if last item = aEnd cf then split_up (take (length item - 2) (tl item)) (aSep cf)
      else split_up (tl item) (aSep cf))"

text \<open>The values behind the delimiter at a position of the trimmed line, and the lines left.\<close>

definition read_value ::
  "config_format \<Rightarrow> string \<Rightarrow> string \<Rightarrow> nat \<Rightarrow> nat option \<Rightarrow> string list \<Rightarrow> (cli_exn + string list) \<times> string list" where
  "read_value cf buffer line delimiter_pos comment_pos lines =
     (let item0 = trim_copy (drop (delimiter_pos + 1) line);
          mlquote = (take 3 item0 = multiline_literal_quote \<or> take 3 item0 = multiline_string_quote);
          citems = split_up item0 (cf_commentChar cf)
      in if mlquote then
           (case ml_value (hd item0) (drop (delimiter_pos + 1) buffer) lines of
              (Inl e, lines') \<Rightarrow> (Inl e, lines')
            | (Inr item, lines') \<Rightarrow> (Inr [item], lines'))
         else if comment_pos \<noteq> None \<and> citems = [] then (Inl (Std (Undefined ''front of an empty vector'')), lines)
         else
           (let item = (if comment_pos \<noteq> None then trim_copy (hd citems) else item0) in
            if item \<noteq> [] \<and> hd item = aStart cf then
              (case array_lines (aEnd cf) item lines of (item', lines') \<Rightarrow> (Inr (array_items cf item'), lines'))
            else if (isDefaultArray cf \<or> isINIArray cf) \<and> aSep cf \<in> set item then
              (Inr (split_up item (aSep cf)), lines)
            else if (isDefaultArray cf \<or> isINIArray cf) \<and> CHR '' '' \<in> set item then
              (Inr (split_up item (CHR 0x00)), lines)
            else (Inr [item], lines)))"

text \<open>The quotes of the values.\<close>

fun unquote_all :: "config_format \<Rightarrow> string list \<Rightarrow> cli_exn + string list" where
  "unquote_all cf [] = Inr []"
| "unquote_all cf (it # its) =
     (case process_quoted_string it (cf_stringQuote cf) (cf_literalQuote cf) False of
        Inl e \<Rightarrow> Inl (as_parse_error e)
      | Inr (_, s) \<Rightarrow> map_sum id ((#) s) (unquote_all cf its))"

text \<open>An item with the name of one before adds its values to that one, with a separator if it is needed.\<close>

definition merge_inputs :: "bool \<Rightarrow> config_item \<Rightarrow> string list \<Rightarrow> cli_exn + config_item" where
  "merge_inputs allowMultiple match items_buffer =
     (let inputs = cfg_inputs match;
          joined = (\<lambda>sep. match\<lparr>cfg_inputs := inputs @ (if sep then [''%%''] else []) @ items_buffer,
                                cfg_multiline := (sep \<or> cfg_multiline match)\<rparr>)
      in if length inputs > 1 \<and> length items_buffer > 1 \<or> allowMultiple then
           if inputs = [] then Inl (Std (Undefined ''back of an empty vector''))
           else if last inputs = [] then Inr (joined False)
           else if items_buffer = [] then Inl (Std (Undefined ''front of an empty vector''))
           else Inr (joined (\<not> (hd items_buffer = [] \<or> last inputs = ''%%'' \<or> hd items_buffer = ''%%'')))
         else Inr (joined False))"

definition store_item :: "config_format \<Rightarrow> string list \<Rightarrow> string \<Rightarrow> string list \<Rightarrow> reader \<Rightarrow> cli_exn + reader" where
  "store_item cf parents name items_buffer rd =
     (let output = rd_output rd in
      (case find_matching_config output parents name (cf_allowMultipleDuplicateFields cf) of
         None \<Rightarrow> Inr (rd\<lparr>rd_output := output @ [item_of parents name items_buffer]\<rparr>)
       | Some i \<Rightarrow>
           (case merge_inputs (cf_allowMultipleDuplicateFields cf) (output ! i) items_buffer of
              Inl e \<Rightarrow> Inl e
            | Inr item \<Rightarrow> Inr (rd\<lparr>rd_output := output[i := item]\<rparr>))))"

text \<open>
  Only the items of the section \<^verbatim>\<open>configSection\<close> count when there is one. The name of the
  section is removed from the parents of the first item, and only of that.
\<close>

definition select_item :: "config_format \<Rightarrow> string list \<Rightarrow> string \<Rightarrow> string list \<Rightarrow> reader \<Rightarrow> cli_exn + reader" where
  "select_item cf parents name items_buffer rd =
     (if length parents > cf_maximumLayers cf then Inr rd
      else if cf_configSection cf \<noteq> [] \<and> \<not> rd_inSection rd then
        if parents = [] \<or> hd parents \<noteq> cf_configSection cf then Inr rd
        else if cf_configIndex cf \<ge> 0 \<and> rd_currentSectionIndex rd \<noteq> cf_configIndex cf then Inr rd
        else store_item cf (tl parents) name items_buffer (rd\<lparr>rd_inSection := True\<rparr>)
      else store_item cf parents name items_buffer rd)"

text \<open>A line with a name, and perhaps a value.\<close>

definition read_entry :: "config_format \<Rightarrow> string \<Rightarrow> string \<Rightarrow> reader \<Rightarrow> cli_exn + reader" where
  "read_entry cf buffer line rd =
     (let (delimiter_pos, comment_pos) = key_delimiter cf line;
          (name, values, lines) =
            (case delimiter_pos of
               Some d \<Rightarrow>
                 (case read_value cf buffer line d comment_pos (rd_lines rd) of
                    (values, lines) \<Rightarrow> (trim_copy (take d line), values, lines))
             | None \<Rightarrow>
                 (trim_copy (case comment_pos of Some c \<Rightarrow> take c line | None \<Rightarrow> line), Inr [''true''], rd_lines rd))
      in case values of
           Inl e \<Rightarrow> Inl e
         | Inr items_buffer \<Rightarrow>
             (case generate_parents (rd_currentSection rd) name (cf_parentSeparatorChar cf) of
                Inl e \<Rightarrow> Inl e
              | Inr (parents, name1) \<Rightarrow>
                  (case process_quoted_string name1 (CHR 0x22) (CHR 0x27) True of
                     Inl e \<Rightarrow> Inl (as_parse_error e)
                   | Inr (_, name2) \<Rightarrow>
                       (case unquote_all cf items_buffer of
                          Inl e \<Rightarrow> Inl e
                        | Inr items \<Rightarrow> select_item cf parents name2 items (rd\<lparr>rd_lines := lines\<rparr>)))))"

text \<open>A line with the name of a section.\<close>

definition close_current :: "config_format \<Rightarrow> reader \<Rightarrow> cli_exn + config_item list" where
  "close_current cf rd =
     (if rd_currentSection rd \<noteq> ''default'' then
        (case generate_parents (rd_currentSection rd) [] (cf_parentSeparatorChar cf) of
           Inl e \<Rightarrow> Inl e
         | Inr (parents, _) \<Rightarrow> Inr (rd_output rd @ [item_of parents ''--'' []]))
      else Inr (rd_output rd))"

definition section_name :: "string \<Rightarrow> string" where
  "section_name line =
     (let sec = butlast (tl line) in
      if length sec > 1 \<and> hd sec = CHR ''['' \<and> last sec = CHR '']'' then butlast (tl sec) else sec)"

definition read_section :: "config_format \<Rightarrow> string \<Rightarrow> reader \<Rightarrow> cli_exn + reader" where
  "read_section cf line rd =
     (case close_current cf rd of
        Inl e \<Rightarrow> Inl e
      | Inr output \<Rightarrow>
          (let sec = section_name line; default_section = (to_lower sec = ''default'');
               sec' = (if default_section then ''default'' else sec)
           in case (if default_section then Inr output
                    else checkParentSegments output sec' (cf_parentSeparatorChar cf)) of
                Inl e \<Rightarrow> Inl e
              | Inr output' \<Rightarrow>
                  Inr (rd\<lparr>rd_output := output', rd_currentSection := sec', rd_inSection := False,
                    rd_currentSectionIndex :=
                      (if sec' = rd_previousSection rd then rd_currentSectionIndex rd + 1 else 0),
                    rd_previousSection := sec'\<rparr>)))"

definition read_line :: "config_format \<Rightarrow> string \<Rightarrow> reader \<Rightarrow> cli_exn + reader" where
  "read_line cf buffer rd =
     (let line = trim_copy buffer in
      if length line < 3 then Inr rd
      else if take 3 line = multiline_string_quote \<or> take 3 line = multiline_literal_quote then
        Inr (rd\<lparr>rd_lines := skip_comment (hd line) (rd_lines rd)\<rparr>)
      else if hd line = CHR ''['' \<and> last line = CHR '']'' then read_section cf line rd
      else if hd line = CHR '';'' \<or> hd line = CHR 0x23 \<or> hd line = cf_commentChar cf then Inr rd
      else read_entry cf buffer line rd)"

text \<open>Every line is read once: what is left after one is no more than before.\<close>

lemma skip_comment_le: "length (skip_comment c lines) \<le> length lines"
  by (induction c lines rule: skip_comment.induct) auto

lemma ml_lines_le: "ml_lines k ext start item lines = (r, lines') \<Longrightarrow> length lines' \<le> length lines"
  by (induction lines arbitrary: ext start item) (auto simp: Let_def intro: le_SucI split: if_splits)

lemma array_lines_le: "array_lines c item lines = (r, lines') \<Longrightarrow> length lines' \<le> length lines"
  by (induction c item lines rule: array_lines.induct) (auto split: if_splits)

lemma read_value_le:
  "read_value cf buffer line d c lines = (r, lines') \<Longrightarrow> length lines' \<le> length lines"
  by (auto simp: read_value_def ml_value_def Let_def dest!: ml_lines_le array_lines_le
      split: if_splits prod.splits sum.splits)

lemma select_item_lines: "select_item cf parents name vs rd = Inr rd' \<Longrightarrow> rd_lines rd' = rd_lines rd"
  by (auto simp: select_item_def store_item_def Let_def split: if_splits option.splits sum.splits)

lemma read_entry_le: "read_entry cf buffer line rd = Inr rd' \<Longrightarrow> length (rd_lines rd') \<le> length (rd_lines rd)"
  by (auto simp: read_entry_def dest!: select_item_lines dest: read_value_le
      split: prod.splits option.splits sum.splits)

lemma read_section_lines: "read_section cf line rd = Inr rd' \<Longrightarrow> rd_lines rd' = rd_lines rd"
  by (auto simp: read_section_def Let_def split: if_splits sum.splits)

lemma read_line_le: "read_line cf buffer rd = Inr rd' \<Longrightarrow> length (rd_lines rd') \<le> length (rd_lines rd)"
  by (auto simp: read_line_def Let_def skip_comment_le dest: read_entry_le read_section_lines split: if_splits)

function read_lines :: "config_format \<Rightarrow> reader \<Rightarrow> cli_exn + reader" where
  "read_lines cf rd =
     (case rd_lines rd of
        [] \<Rightarrow> Inr rd
      | buffer # lines \<Rightarrow>
          (case read_line cf buffer (rd\<lparr>rd_lines := lines\<rparr>) of
             Inl e \<Rightarrow> Inl e
           | Inr rd' \<Rightarrow> read_lines cf rd'))"
  by pat_completeness auto
termination
  by (relation "measure (\<lambda>(cf, rd). length (rd_lines rd))") (auto dest!: read_line_le)

declare read_lines.simps [simp del]

definition from_config :: "config_format \<Rightarrow> string \<Rightarrow> cli_exn + config_item list" where
  "from_config cf text =
     (case read_lines cf
             \<lparr>rd_lines = getlines text (CHR 0x0A) [], rd_output = [], rd_currentSection = ''default'',
              rd_previousSection = ''default'', rd_currentSectionIndex = 0, rd_inSection = False\<rparr> of
        Inl e \<Rightarrow> Inl e
      | Inr rd \<Rightarrow>
          (case close_current cf rd of
             Inl e \<Rightarrow> Inl e
           | Inr output \<Rightarrow>
               Inr (if rd_currentSection rd \<noteq> ''default'' then output @ closings 2 (last output) else output)))"

text \<open>
  \<^verbatim>\<open>from_file\<close>: the text of the file, if it can be read.
\<close>

definition from_file :: "config_format \<Rightarrow> (string \<Rightarrow> string option) \<Rightarrow> string \<Rightarrow> cli_exn + config_item list" where
  "from_file cf files name =
     (case files name of None \<Rightarrow> Inl (FileError_Missing name) | Some text \<Rightarrow> from_config cf text)"

end
