(* ===== verification/Cli_App.thy ===== *)
theory Cli_App
  imports Cli_Results Cli_Config
begin

text \<open>
  The class \<^verbatim>\<open>App\<close> of \<^verbatim>\<open>CLI11.hpp\<close>: an application or subcommand with its options, its
  subcommands and the state of a parse. Applications and options live in a store, and pointers
  between them are numbers: an application knows its parent and its subcommands, an option its
  application, and several fields share them.
\<close>

section \<open>Data\<close>

datatype Classifier =
    CL_NONE | CL_POSITIONAL_MARK | CL_SHORT | CL_LONG | CL_WINDOWS_STYLE | CL_SUBCOMMAND
  | CL_SUBCOMMAND_TERMINATOR

datatype ExtrasMode =
    EM_Error | EM_ErrorImmediately | EM_Ignore | EM_AssumeSingleArgument | EM_AssumeMultipleArguments
  | EM_Capture

datatype ConfigExtrasMode = CM_Error | CM_Ignore | CM_IgnoreAll | CM_Capture

datatype PrefixCommandMode = PM_Off | PM_SeparatorOnly | PM_On

datatype startup_mode = Startup_stable | Startup_enabled | Startup_disabled

datatype NameMatch = NM_none | NM_exact | NM_prefix

text \<open>
  The settings of the formatters. The alignment ratio is a fraction; the code's is the
  \<^verbatim>\<open>float\<close> nearest to it.
\<close>

record formatter =
  f_column_width :: nat
  f_long_option_alignment_ratio :: "nat \<times> nat"
  f_right_column_width :: nat
  f_description_paragraph_width :: nat
  f_footer_paragraph_width :: nat
  f_enable_description_formatting :: bool
  f_enable_footer_formatting :: bool
  f_enable_option_defaults :: bool
  f_enable_option_type_names :: bool
  f_enable_default_flag_values :: bool
  f_labels :: "(string \<times> string) list"

definition formatter_default :: formatter where
  "formatter_default =
     \<lparr>f_column_width = 30, f_long_option_alignment_ratio = (1, 3), f_right_column_width = 65,
      f_description_paragraph_width = 80, f_footer_paragraph_width = 80,
      f_enable_description_formatting = True, f_enable_footer_formatting = True,
      f_enable_option_defaults = True, f_enable_option_type_names = True,
      f_enable_default_flag_values = True, f_labels = []\<rparr>"

text \<open>The two functions the library has for \<^verbatim>\<open>failure_message_\<close>, and one of the user.\<close>

datatype failure_message = FM_simple | FM_help | FM_user "cli_error \<Rightarrow> string"

text \<open>The fields of \<^verbatim>\<open>App\<close>, in the groups of the class: basics, options, help,\<close>

record 'v app_basics =
  a_name :: string
  a_description :: string
  a_allow_extras :: ExtrasMode
  a_allow_config_extras :: ConfigExtrasMode
  a_prefix_command :: PrefixCommandMode
  a_has_automatic_name :: bool
  a_required :: bool
  a_disabled :: bool
  a_pre_parse_called :: bool
  a_immediate_callback :: bool
  a_pre_parse_callback :: "(nat \<Rightarrow> 'v \<Rightarrow> (cli_exn + unit) \<times> 'v) option"
  a_parse_complete_callback :: "('v \<Rightarrow> (cli_exn + unit) \<times> 'v) option"
  a_final_callback :: "('v \<Rightarrow> (cli_exn + unit) \<times> 'v) option"
  a_option_defaults :: option_base
  a_options :: "opt_ptr list"

record 'v app_help = "'v app_basics" +
  a_usage :: string
  a_usage_callback :: "('v \<Rightarrow> string) option"
  a_footer :: string
  a_footer_callback :: "('v \<Rightarrow> string) option"
  a_help_ptr :: "opt_ptr option"
  a_help_all_ptr :: "opt_ptr option"
  a_version_ptr :: "opt_ptr option"
  a_formatter :: formatter
  a_failure_message :: "failure_message option"

text \<open>the parse,\<close>

record 'v app_parse = "'v app_help" +
  a_missing :: "(Classifier \<times> string) list"
  a_parse_order :: "opt_ptr list"
  a_parsed_subcommands :: "app_ptr list"
  a_exclude_subcommands :: "app_ptr list"
  a_exclude_options :: "opt_ptr list"
  a_need_subcommands :: "app_ptr list"
  a_need_options :: "opt_ptr list"

text \<open>subcommands, and the configuration file.\<close>

record 'v app = "'v app_parse" +
  a_subcommands :: "app_ptr list"
  a_ignore_case :: bool
  a_ignore_underscore :: bool
  a_fallthrough :: bool
  a_subcommand_fallthrough :: bool
  a_allow_windows_style_options :: bool
  a_positionals_at_end :: bool
  a_default_startup :: startup_mode
  a_configurable :: bool
  a_validate_positionals :: bool
  a_validate_optional_arguments :: bool
  a_silent :: bool
  a_allow_non_standard_options :: bool
  a_allow_prefix_matching :: bool
  a_parsed :: nat
  a_require_subcommand_min :: nat
  a_require_subcommand_max :: nat
  a_require_option_min :: nat
  a_require_option_max :: nat
  a_parent :: "app_ptr option"
  a_group :: string
  a_aliases :: "string list"
  a_config_ptr :: "opt_ptr option"
  a_config_formatter :: config_format

definition app_basics_default :: "'v app_basics" where
  "app_basics_default =
     \<lparr>a_name = [], a_description = [], a_allow_extras = EM_Error, a_allow_config_extras = CM_Ignore,
      a_prefix_command = PM_Off, a_has_automatic_name = False, a_required = False, a_disabled = False,
      a_pre_parse_called = False, a_immediate_callback = False, a_pre_parse_callback = None,
      a_parse_complete_callback = None, a_final_callback = None,
      a_option_defaults = option_base_default, a_options = []\<rparr>"

definition app_default :: "'v app" where
  "app_default =
     app_parse.extend (app_help.extend (app_basics.extend app_basics_default
       \<lparr>a_usage = [], a_usage_callback = None, a_footer = [], a_footer_callback = None,
        a_help_ptr = None, a_help_all_ptr = None, a_version_ptr = None,
        a_formatter = formatter_default, a_failure_message = Some FM_simple\<rparr>)
       \<lparr>a_missing = [], a_parse_order = [], a_parsed_subcommands = [], a_exclude_subcommands = [],
        a_exclude_options = [], a_need_subcommands = [], a_need_options = []\<rparr>)
       \<lparr>a_subcommands = [], a_ignore_case = False, a_ignore_underscore = False, a_fallthrough = False,
        a_subcommand_fallthrough = True, a_allow_windows_style_options = False,
        a_positionals_at_end = False, a_default_startup = Startup_stable, a_configurable = False,
        a_validate_positionals = False, a_validate_optional_arguments = False, a_silent = False,
        a_allow_non_standard_options = False, a_allow_prefix_matching = False, a_parsed = 0,
        a_require_subcommand_min = 0, a_require_subcommand_max = 0, a_require_option_min = 0,
        a_require_option_max = 0, a_parent = None, a_group = ''SUBCOMMANDS'', a_aliases = [],
        a_config_ptr = None, a_config_formatter = config_toml\<rparr>"

section \<open>The store\<close>

text \<open>
  What the library asks the system for: the environment, the kind of a path, the text of a
  file that can be read; and the sum of strings as floating-point numbers, a parameter here, since the arithmetic of
  numbers is one (\<open>with_sums\<close> of \<open>Cli_Floats\<close> gives it the function of the code).
\<close>

record environment =
  env_getenv :: "string \<Rightarrow> string option"
  env_check_path :: "string \<Rightarrow> path_type"
  env_read_file :: "string \<Rightarrow> string option"
  env_sum_strings :: "string list \<Rightarrow> string"

text \<open>
  The objects, the variables of the user, the environment, and the vector of arguments still to
  parse, which all parsing functions share by reference; it is reversed, the next argument is
  the last one.
\<close>

record 'v cli =
  w_apps :: "'v app list"
  w_opts :: "'v opt list"
  w_vars :: 'v
  w_env :: environment
  w_args :: "string list"

type_synonym ('v, 'a) cli_m = "('v cli, 'a) comp"

definition get_app :: "app_ptr \<Rightarrow> ('v, 'v app) cli_m" where
  "get_app a = m_gets (\<lambda>w. w_apps w ! a)"

definition upd_app :: "app_ptr \<Rightarrow> ('v app \<Rightarrow> 'v app) \<Rightarrow> ('v, unit) cli_m" where
  "upd_app a f = m_modify (\<lambda>w. w\<lparr>w_apps := (w_apps w)[a := f (w_apps w ! a)]\<rparr>)"

definition get_opt :: "opt_ptr \<Rightarrow> ('v, 'v opt) cli_m" where
  "get_opt p = m_gets (\<lambda>w. w_opts w ! p)"

definition upd_opt :: "opt_ptr \<Rightarrow> ('v opt \<Rightarrow> 'v opt) \<Rightarrow> ('v, unit) cli_m" where
  "upd_opt p f = m_modify (\<lambda>w. w\<lparr>w_opts := (w_opts w)[p := f (w_opts w ! p)]\<rparr>)"

definition get_opts :: "opt_ptr list \<Rightarrow> ('v, 'v opt list) cli_m" where
  "get_opts ps = m_gets (\<lambda>w. map ((!) (w_opts w)) ps)"

text \<open>The options of an application, with their pointers.\<close>

definition own_options :: "app_ptr \<Rightarrow> ('v, (opt_ptr \<times> 'v opt) list) cli_m" where
  "own_options a = m_gets (\<lambda>w. map (\<lambda>p. (p, w_opts w ! p)) (a_options (w_apps w ! a)))"

definition subcommands :: "app_ptr \<Rightarrow> ('v, (app_ptr \<times> 'v app) list) cli_m" where
  "subcommands a = m_gets (\<lambda>w. map (\<lambda>s. (s, w_apps w ! s)) (a_subcommands (w_apps w ! a)))"

definition on_opt :: "opt_ptr \<Rightarrow> ('v opt \<times> 'v, 'a) comp \<Rightarrow> ('v, 'a) cli_m" where
  "on_opt p m = (\<lambda>w.
     (case m (w_opts w ! p, w_vars w) of
        (r, (opt, vars)) \<Rightarrow> (r, w\<lparr>w_opts := (w_opts w)[p := opt], w_vars := vars\<rparr>)))"

definition on_vars :: "('v \<Rightarrow> (cli_exn + 'a) \<times> 'v) \<Rightarrow> ('v, 'a) cli_m" where
  "on_vars f = (\<lambda>w. (case f (w_vars w) of (r, vars) \<Rightarrow> (r, w\<lparr>w_vars := vars\<rparr>)))"

definition set_opt :: "opt_ptr \<Rightarrow> ('v opt \<Rightarrow> cli_exn + 'v opt) \<Rightarrow> ('v, unit) cli_m" where
  "set_opt p f = m_bind (get_opt p) (\<lambda>opt. m_bind (m_lift (f opt)) (\<lambda>opt'. upd_opt p (\<lambda>_. opt')))"

text \<open>\<^verbatim>\<open>opt->run_callback()\<close>.\<close>

definition run_option_callback :: "opt_ptr \<Rightarrow> ('v, unit) cli_m" where
  "run_option_callback p =
     m_bind (m_gets w_env) (\<lambda>env. on_opt p (option_run_callback (env_sum_strings env)))"

definition get_environment_value :: "string \<Rightarrow> ('v, string) cli_m" where
  "get_environment_value env_name =
     m_gets (\<lambda>w. case env_getenv (w_env w) env_name of Some v \<Rightarrow> v | None \<Rightarrow> [])"

lemmas store_defs [comp_simps] =
  get_app_def upd_app_def get_opt_def upd_opt_def get_opts_def own_options_def subcommands_def
  set_opt_def run_option_callback_def get_environment_value_def

lemma on_opt_run [comp_simps]:
  "on_opt p m w =
     (case m (w_opts w ! p, w_vars w) of
        (r, (opt, vars)) \<Rightarrow> (r, w\<lparr>w_opts := (w_opts w)[p := opt], w_vars := vars\<rparr>))"
  by (simp add: on_opt_def)

lemma on_vars_run [comp_simps]:
  "on_vars f w = (case f (w_vars w) of (r, vars) \<Rightarrow> (r, w\<lparr>w_vars := vars\<rparr>))"
  by (simp add: on_vars_def)

end
