(* ===== verification/Cli_Query.thy ===== *)
theory Cli_Query
  imports Cli_App
begin

text \<open>
  The questions an \<^verbatim>\<open>App\<close> answers without changing: its names, the search for options and
  subcommands in the tree of applications, the counts of what was parsed, and the
  classification of the next argument. The first argument of a recursive function bounds the
  depth of the recursion; when it is used up the result is \<^term>\<open>No_fuel\<close>.
\<close>

section \<open>Names\<close>

definition get_display_name :: "bool \<Rightarrow> 'v app \<Rightarrow> string" where
  "get_display_name with_aliases app =
     (if a_name app = [] then ''[Option Group: '' @ a_group app @ '']''
      else if a_aliases app = [] \<or> \<not> with_aliases then a_name app
      else a_name app @ concat (map (\<lambda>lalias. '', '' @ lalias) (a_aliases app)))"

text \<open>
  When both settings are on, the code lowers the name it has not removed the underscores from.
\<close>

fun alias_match :: "'v app \<Rightarrow> string \<Rightarrow> string list \<Rightarrow> NameMatch" where
  "alias_match app name_to_check [] = NM_none"
| "alias_match app name_to_check (les0 # aliases) =
     (let les1 = (if a_ignore_underscore app then remove_underscore les0 else les0);
          les = (if a_ignore_case app then to_lower les1 else les1)
      in if les = name_to_check then NM_exact
         else if a_allow_prefix_matching app \<and> length name_to_check < length les
             \<and> take (length name_to_check) les = name_to_check then NM_prefix
         else alias_match app name_to_check aliases)"

definition check_name_detail :: "'v app \<Rightarrow> string \<Rightarrow> NameMatch" where
  "check_name_detail app name_to_check0 =
     (let local_name1 = (if a_ignore_underscore app then remove_underscore (a_name app) else a_name app);
          name_to_check1 = (if a_ignore_underscore app then remove_underscore name_to_check0 else name_to_check0);
          local_name = (if a_ignore_case app then to_lower (a_name app) else local_name1);
          name_to_check = (if a_ignore_case app then to_lower name_to_check1 else name_to_check1)
      in if local_name = name_to_check then NM_exact
         else if a_allow_prefix_matching app \<and> length name_to_check < length local_name
             \<and> take (length name_to_check) local_name = name_to_check then NM_prefix
         else alias_match app name_to_check (a_aliases app))"

definition app_check_name :: "'v app \<Rightarrow> string \<Rightarrow> bool" where
  "app_check_name app name_to_check \<longleftrightarrow> check_name_detail app name_to_check \<noteq> NM_none"

section \<open>The tree of applications\<close>

text \<open>
  \<^verbatim>\<open>_get_fallthrough_parent\<close>: the nearest application above with a name, or the topmost one.
\<close>

primrec fallthrough_from :: "nat \<Rightarrow> app_ptr \<Rightarrow> ('v, app_ptr) cli_m" where
  "fallthrough_from 0 a = m_throw No_fuel"
| "fallthrough_from (Suc n) a =
     m_bind (get_app a) (\<lambda>app.
       (case a_parent app of
          Some p \<Rightarrow> if a_name app = [] then fallthrough_from n p else m_return a
        | None \<Rightarrow> m_return a))"

definition get_fallthrough_parent :: "nat \<Rightarrow> app_ptr \<Rightarrow> ('v, app_ptr option) cli_m" where
  "get_fallthrough_parent n a =
     m_bind (get_app a) (\<lambda>app.
       (case a_parent app of
          None \<Rightarrow> m_return None
        | Some p \<Rightarrow> m_bind (fallthrough_from n p) (\<lambda>q. m_return (Some q))))"

text \<open>
  \<^verbatim>\<open>_find_subcommand\<close>: the loop over the subcommands with the candidate found so far; nameless
  ones are searched inside. With prefix matching a second candidate makes the name ambiguous.
\<close>

fun find_subcommand_loop ::
  "(app_ptr \<Rightarrow> ('v, app_ptr option) cli_m) \<Rightarrow> bool \<Rightarrow> string \<Rightarrow> bool \<Rightarrow> bool \<Rightarrow> app_ptr option \<Rightarrow>
   (app_ptr \<times> 'v app) list \<Rightarrow> ('v, app_ptr option) cli_m" where
  "find_subcommand_loop inside prefix_ok subc_name ignore_disabled ignore_used bcom [] = m_return bcom"
| "find_subcommand_loop inside prefix_ok subc_name ignore_disabled ignore_used bcom ((com, app) # coms) =
     (let self =
        (\<lambda>bcom.
           let res = check_name_detail app subc_name in
           if res \<noteq> NM_none \<and> (a_parsed app = 0 \<or> \<not> ignore_used) then
             if res = NM_exact then m_return (Some com)
             else if bcom \<noteq> None then m_return None
             else if \<not> prefix_ok then m_return (Some com)
             else find_subcommand_loop inside prefix_ok subc_name ignore_disabled ignore_used (Some com) coms
           else find_subcommand_loop inside prefix_ok subc_name ignore_disabled ignore_used bcom coms)
      in
      if a_disabled app \<and> ignore_disabled then
        find_subcommand_loop inside prefix_ok subc_name ignore_disabled ignore_used bcom coms
      else if a_name app = [] then
        m_bind (inside com) (\<lambda>subc.
          if subc \<noteq> None then
            if bcom \<noteq> None then m_return None
            else if \<not> prefix_ok then m_return subc
            else self subc
          else self bcom)
      else self bcom)"

primrec find_subcommand :: "nat \<Rightarrow> app_ptr \<Rightarrow> string \<Rightarrow> bool \<Rightarrow> bool \<Rightarrow> ('v, app_ptr option) cli_m" where
  "find_subcommand 0 a subc_name ignore_disabled ignore_used = m_throw No_fuel"
| "find_subcommand (Suc n) a subc_name ignore_disabled ignore_used =
     m_bind (get_app a) (\<lambda>app. m_bind (subcommands a) (\<lambda>subs.
       find_subcommand_loop (\<lambda>com. find_subcommand n com subc_name ignore_disabled ignore_used)
         (a_allow_prefix_matching app) subc_name ignore_disabled ignore_used None subs))"

text \<open>\<^verbatim>\<open>get_option_no_throw\<close>: own options, nameless subcommands, then the parent to fall through to.\<close>

primrec get_option_no_throw :: "nat \<Rightarrow> app_ptr \<Rightarrow> string \<Rightarrow> ('v, opt_ptr option) cli_m" where
  "get_option_no_throw 0 a option_name = m_throw No_fuel"
| "get_option_no_throw (Suc n) a option_name =
     m_bind (own_options a) (\<lambda>opts.
       (case find (\<lambda>(p, opt). check_name opt option_name) opts of
          Some (p, _) \<Rightarrow> m_return (Some p)
        | None \<Rightarrow>
            m_bind (subcommands a) (\<lambda>subs.
            m_bind (m_first (\<lambda>(s, subc). get_option_no_throw n s option_name)
                      (filter (\<lambda>(s, subc). a_name subc = []) subs)) (\<lambda>found.
            (case found of
               Some p \<Rightarrow> m_return (Some p)
             | None \<Rightarrow>
                 m_bind (get_app a) (\<lambda>app.
                   if a_fallthrough app \<and> a_parent app \<noteq> None then
                     m_bind (get_fallthrough_parent n a) (\<lambda>parent.
                       get_option_no_throw n (the parent) option_name)
                   else m_return None))))))"

text \<open>
  The two versions of \<^verbatim>\<open>get_options\<close>: the constant one looks into a nameless subcommand only
  when its group starts with a plus sign, the other one into every nameless subcommand and into
  named ones of such a group.
\<close>

definition group_shown :: "'v app \<Rightarrow> bool" where
  "group_shown subc \<longleftrightarrow> a_group subc \<noteq> [] \<and> hd (a_group subc) = CHR ''+''"

definition add_missing_options :: "(opt_ptr \<times> 'v opt) list \<Rightarrow> (opt_ptr \<times> 'v opt) list \<Rightarrow> (opt_ptr \<times> 'v opt) list" where
  "add_missing_options options subcopts =
     fold (\<lambda>(p, opt) options.
        if find (\<lambda>(_, opt2). check_name opt (opt_name opt2)) options = None then options @ [(p, opt)] else options)
       subcopts options"

primrec get_options ::
  "bool \<Rightarrow> (opt_ptr \<Rightarrow> 'v opt \<Rightarrow> bool) \<Rightarrow> nat \<Rightarrow> app_ptr \<Rightarrow> ('v, (opt_ptr \<times> 'v opt) list) cli_m" where
  "get_options const flt 0 a = m_throw No_fuel"
| "get_options const flt (Suc n) a =
     m_bind (own_options a) (\<lambda>opts.
     m_bind (subcommands a) (\<lambda>subs.
     m_bind (m_map (\<lambda>(s, subc). get_options const flt n s)
               (filter (\<lambda>(s, subc). if const then a_name subc = [] \<and> group_shown subc
                                     else a_name subc = [] \<or> group_shown subc) subs)) (\<lambda>inner.
     m_bind (get_app a) (\<lambda>app.
       (let options = filter (\<lambda>(p, opt). flt p opt) opts @ concat inner in
        if a_fallthrough app \<and> a_parent app \<noteq> None then
          m_bind (get_fallthrough_parent n a) (\<lambda>parent.
          m_bind (get_options const flt n (the parent)) (\<lambda>subcopts.
            m_return (add_missing_options options subcopts)))
        else m_return options)))))"

text \<open>\<^verbatim>\<open>_compare_subcommand_names\<close>: a name under which both would be found; \<^term>\<open>None\<close> is the empty string.\<close>

definition name_conflict :: "'v app \<Rightarrow> 'v app \<Rightarrow> string option" where
  "name_conflict subcom subc =
     first_some
       [(if a_name subcom \<noteq> [] \<and> app_check_name subc (a_name subcom) then Some (a_name subcom) else None),
        (if a_name subc \<noteq> [] \<and> app_check_name subcom (a_name subc) then Some (a_name subc) else None),
        find (app_check_name subc) (a_aliases subcom),
        find (app_check_name subcom) (a_aliases subc)]"

primrec compare_subcommand_names :: "nat \<Rightarrow> app_ptr \<Rightarrow> app_ptr \<Rightarrow> ('v, string option) cli_m" where
  "compare_subcommand_names 0 subcom base = m_throw No_fuel"
| "compare_subcommand_names (Suc n) subcom base =
     m_bind (get_app subcom) (\<lambda>subcom_app.
       if a_disabled subcom_app then m_return None
       else
         m_bind (subcommands base) (\<lambda>subs.
           m_first (\<lambda>(s, subc).
              if s = subcom \<or> a_disabled subc then m_return None
              else
                (case name_conflict subcom_app subc of
                   Some name \<Rightarrow> m_return (Some name)
                 | None \<Rightarrow>
                     m_bind (if a_name subc = [] then compare_subcommand_names n subcom s else m_return None)
                       (\<lambda>cmpres. case cmpres of
                          Some name \<Rightarrow> m_return (Some name)
                        | None \<Rightarrow>
                            if a_name subcom_app = [] then compare_subcommand_names n s subcom
                            else m_return None))) subs))"

section \<open>Counts\<close>

primrec count_all :: "nat \<Rightarrow> app_ptr \<Rightarrow> ('v, nat) cli_m" where
  "count_all 0 a = m_throw No_fuel"
| "count_all (Suc n) a =
     m_bind (own_options a) (\<lambda>opts.
     m_bind (subcommands a) (\<lambda>subs.
     m_bind (m_map (\<lambda>(s, subc). count_all n s) subs) (\<lambda>cnts.
     m_bind (get_app a) (\<lambda>app.
       m_return (sum_list (map (\<lambda>(p, opt). option_count opt) opts) + sum_list cnts
         + (if a_name app \<noteq> [] then a_parsed app else 0))))))"

definition get_groups :: "app_ptr \<Rightarrow> ('v, string list) cli_m" where
  "get_groups a =
     m_bind (own_options a) (\<lambda>opts.
       m_return (fold (\<lambda>(p, opt) groups. if o_group opt \<in> set groups then groups else groups @ [o_group opt])
         opts []))"

text \<open>The arguments that were not expected, in this application and below.\<close>

primrec remaining :: "nat \<Rightarrow> bool \<Rightarrow> app_ptr \<Rightarrow> ('v, string list) cli_m" where
  "remaining 0 recurse a = m_throw No_fuel"
| "remaining (Suc n) recurse a =
     m_bind (get_app a) (\<lambda>app.
     m_bind (subcommands a) (\<lambda>subs.
       (let miss_list = map snd (a_missing app) in
        if recurse then
          (let groups =
             (if a_allow_extras app = EM_Error \<or> a_allow_extras app = EM_Ignore then
                concat (map (\<lambda>(s, sub). if a_name sub = [] then map snd (a_missing sub) else []) subs)
              else [])
           in m_bind (m_map (remaining n recurse) (a_parsed_subcommands app)) (\<lambda>outputs.
                m_return (miss_list @ groups @ concat outputs)))
        else m_return miss_list)))"

definition remaining_for_passthrough :: "nat \<Rightarrow> bool \<Rightarrow> app_ptr \<Rightarrow> ('v, string list) cli_m" where
  "remaining_for_passthrough n recurse a = m_bind (remaining n recurse a) (\<lambda>miss_list. m_return (rev miss_list))"

primrec remaining_size :: "nat \<Rightarrow> bool \<Rightarrow> app_ptr \<Rightarrow> ('v, nat) cli_m" where
  "remaining_size 0 recurse a = m_throw No_fuel"
| "remaining_size (Suc n) recurse a =
     m_bind (get_app a) (\<lambda>app.
       (let remaining_options = length (filter (\<lambda>val. fst val \<noteq> CL_POSITIONAL_MARK) (a_missing app)) in
        if recurse then
          m_bind (m_map (remaining_size n recurse) (a_subcommands app)) (\<lambda>sizes.
            m_return (remaining_options + sum_list sizes))
        else m_return remaining_options))"

definition count_remaining_positionals :: "bool \<Rightarrow> app_ptr \<Rightarrow> ('v, nat) cli_m" where
  "count_remaining_positionals required_only a =
     m_bind (own_options a) (\<lambda>opts.
       m_return (sum_list (map (\<lambda>(p, opt).
          if get_positional opt \<and> (\<not> required_only \<or> o_required opt)
             \<and> get_items_expected_min opt > 0 \<and> int (option_count opt) < get_items_expected_min opt
          then nat (get_items_expected_min opt) - option_count opt else 0) opts)))"

definition has_remaining_positionals :: "app_ptr \<Rightarrow> ('v, bool) cli_m" where
  "has_remaining_positionals a =
     m_bind (own_options a) (\<lambda>opts.
       m_return (list_ex (\<lambda>(p, opt). get_positional opt
          \<and> int (option_count opt) < get_items_expected_min opt) opts))"

section \<open>What the next argument is\<close>

primrec valid_subcommand :: "nat \<Rightarrow> app_ptr \<Rightarrow> string \<Rightarrow> bool \<Rightarrow> ('v, bool) cli_m" where
  "valid_subcommand 0 a current ignore_used = m_throw No_fuel"
| "valid_subcommand (Suc n) a current ignore_used =
     m_bind (get_app a) (\<lambda>app.
       (let ask_parent =
          (case a_parent app of
             None \<Rightarrow> m_return False
           | Some parent \<Rightarrow> valid_subcommand n parent current ignore_used)
        in
        if a_require_subcommand_max app \<noteq> 0
            \<and> length (a_parsed_subcommands app) \<ge> a_require_subcommand_max app \<and> a_subcommand_fallthrough app
        then ask_parent
        else
          m_bind (find_subcommand n a current True ignore_used) (\<lambda>com.
            if com \<noteq> None then m_return True
            else if a_subcommand_fallthrough app then ask_parent
            else m_return False)))"

definition is_digit :: "char \<Rightarrow> bool" where
  "is_digit c \<longleftrightarrow> (let n = of_char c :: nat in 48 \<le> n \<and> n \<le> 57)"

text \<open>\<^verbatim>\<open>_recognize\<close>; a short argument that looks like a number is one only when no option has that name.\<close>

primrec recognize :: "nat \<Rightarrow> app_ptr \<Rightarrow> string \<Rightarrow> bool \<Rightarrow> ('v, Classifier) cli_m" where
  "recognize 0 a current ignore_used_subcommands = m_throw No_fuel"
| "recognize (Suc n) a current ignore_used_subcommands =
     (if current = ''--'' then m_return CL_POSITIONAL_MARK
      else
        m_bind (valid_subcommand n a current ignore_used_subcommands) (\<lambda>valid.
        if valid then m_return CL_SUBCOMMAND
        else if split_long current \<noteq> None then m_return CL_LONG
        else
          (case split_short current of
             Some (dummy1, dummy2) \<Rightarrow>
               if is_digit (hd dummy1) \<or> hd dummy1 = CHR ''.'' \<and> dummy2 \<noteq> [] \<and> is_digit (hd dummy2) then
                 m_bind (get_option_no_throw n a [CHR ''-'', hd dummy1]) (\<lambda>op.
                   m_return (if op = None then CL_NONE else CL_SHORT))
               else m_return CL_SHORT
           | None \<Rightarrow>
               m_bind (get_app a) (\<lambda>app.
               if a_allow_windows_style_options app \<and> split_windows_style current \<noteq> None then
                 m_return CL_WINDOWS_STYLE
               else if current = ''++'' \<and> a_name app \<noteq> [] \<and> a_parent app \<noteq> None then
                 m_return CL_SUBCOMMAND_TERMINATOR
               else
                 (case find_first_of current ''.'' of
                    None \<Rightarrow> m_return CL_NONE
                  | Some dotloc \<Rightarrow>
                      m_bind (find_subcommand n a (take dotloc current) True ignore_used_subcommands) (\<lambda>cm.
                        (case cm of
                           None \<Rightarrow> m_return CL_NONE
                         | Some c \<Rightarrow>
                             m_bind (recognize n c (drop (dotloc + 1) current) ignore_used_subcommands) (\<lambda>res.
                               m_return (if res = CL_SUBCOMMAND then res else CL_NONE)))))))))"

end
