(* ===== verification/Cli_Build.thy ===== *)
theory Cli_Build
  imports Cli_Query
begin

text \<open>
  Building an \<^verbatim>\<open>App\<close>: its constructors, names and inherited settings, the operations that add,
  move and remove options, flags and subcommands, and the links between them. Fuel is passed on
  to the searches of the tree.
\<close>

section \<open>Settings of an option that look at its application\<close>

text \<open>\<^verbatim>\<open>omatch\<close>: the name some other option of the application shares with this one.\<close>

definition option_conflict :: "opt_ptr \<Rightarrow> ('v, string) cli_m" where
  "option_conflict p =
     m_bind (get_opt p) (\<lambda>opt.
     (case o_parent opt of
        None \<Rightarrow> m_return []
      | Some a \<Rightarrow>
          m_bind (own_options a) (\<lambda>opts.
            m_return (case find (\<lambda>(q, other). q \<noteq> p \<and> matching_name other opt \<noteq> []) opts of
                        Some (q, other) \<Rightarrow> matching_name other opt | None \<Rightarrow> []))))"

definition option_ignore_case :: "opt_ptr \<Rightarrow> bool \<Rightarrow> ('v, unit) cli_m" where
  "option_ignore_case p value =
     m_bind (get_opt p) (\<lambda>opt.
       if \<not> o_ignore_case opt \<and> value then
         m_seq (upd_opt p (\<lambda>opt. opt\<lparr>o_ignore_case := value\<rparr>))
         (m_bind (option_conflict p) (\<lambda>omatch.
            if omatch \<noteq> [] then
              m_seq (upd_opt p (\<lambda>opt. opt\<lparr>o_ignore_case := False\<rparr>))
                (m_throw (OptionAlreadyAdded (''adding ignore case caused a name conflict with '' @ omatch)))
            else m_return ()))
       else upd_opt p (\<lambda>opt. opt\<lparr>o_ignore_case := value\<rparr>))"

definition option_ignore_underscore :: "opt_ptr \<Rightarrow> bool \<Rightarrow> ('v, unit) cli_m" where
  "option_ignore_underscore p value =
     m_bind (get_opt p) (\<lambda>opt.
       if \<not> o_ignore_underscore opt \<and> value then
         m_seq (upd_opt p (\<lambda>opt. opt\<lparr>o_ignore_underscore := value\<rparr>))
         (m_bind (option_conflict p) (\<lambda>omatch.
            if omatch \<noteq> [] then
              m_seq (upd_opt p (\<lambda>opt. opt\<lparr>o_ignore_underscore := False\<rparr>))
                (m_throw (OptionAlreadyAdded (''adding ignore underscore caused a name conflict with '' @ omatch)))
            else m_return ()))
       else upd_opt p (\<lambda>opt. opt\<lparr>o_ignore_underscore := value\<rparr>))"

definition option_excludes :: "opt_ptr \<Rightarrow> opt_ptr \<Rightarrow> ('v, unit) cli_m" where
  "option_excludes this opt =
     (if opt = this then m_throw (IncorrectConstruction ''and option cannot exclude itself'')
      else
        m_seq (upd_opt this (\<lambda>o1. o1\<lparr>o_excludes := List.insert opt (o_excludes o1)\<rparr>))
        (upd_opt opt (\<lambda>o2. o2\<lparr>o_excludes := List.insert this (o_excludes o2)\<rparr>)))"

text \<open>The settings of \<^verbatim>\<open>OptionDefaults\<close> given to an option, in the order of the code.\<close>

definition copy_to :: "option_base \<Rightarrow> opt_ptr \<Rightarrow> ('v, unit) cli_m" where
  "copy_to defaults p =
     m_seq (set_opt p (set_group (o_group defaults)))
     (m_seq (upd_opt p (\<lambda>opt. opt\<lparr>o_required := o_required defaults\<rparr>))
     (m_seq (option_ignore_case p (o_ignore_case defaults))
     (m_seq (option_ignore_underscore p (o_ignore_underscore defaults))
     (upd_opt p (\<lambda>opt.
        (set_multi_option_policy (o_multi_option_policy defaults)
           (opt\<lparr>o_configurable := o_configurable defaults,
                o_disable_flag_override := o_disable_flag_override defaults,
                o_delimiter := o_delimiter defaults,
                o_always_capture_default := o_always_capture_default defaults\<rparr>))
        \<lparr>o_callback_priority := o_callback_priority defaults\<rparr>)))))"

definition capture_default_str :: "'v \<Rightarrow> 'v opt \<Rightarrow> 'v opt" where
  "capture_default_str vars opt =
     (case o_default_function opt of Some f \<Rightarrow> opt\<lparr>o_default_str := f vars\<rparr> | None \<Rightarrow> opt)"

text \<open>
  \<^verbatim>\<open>default_val\<close>, for a value given as its string. The results and the state of the option are
  put back in every case; the variable keeps what the callback wrote. An option that runs its callback
  on each result does not run it here, although a comment of the code says it already did.
\<close>

definition default_val_try :: "(string list \<Rightarrow> string) \<Rightarrow> string \<Rightarrow> option_state \<Rightarrow> ('v opt \<times> 'v, unit) comp" where
  "default_val_try sum_string_vector val_str old_option_state = (\<lambda>(opt0, vars).
     (let opt = add_result val_str opt0 in
      if o_run_callback_for_default opt \<and> \<not> o_trigger_on_result opt then
        (case option_run_callback sum_string_vector (opt, vars) of
           (Inl e, s) \<Rightarrow> (Inl e, s)
         | (Inr _, (opt', vars')) \<Rightarrow> (Inr (), (opt'\<lparr>o_state := Opt_parsing\<rparr>, vars')))
      else
        (case validate_results opt (o_results opt) of
           (Inl e, res) \<Rightarrow> (Inl e, (opt\<lparr>o_results := res\<rparr>, vars))
         | (Inr _, res) \<Rightarrow> (Inr (), (opt\<lparr>o_results := res, o_state := old_option_state\<rparr>, vars)))))"

definition default_val_error :: "'v opt \<Rightarrow> string \<Rightarrow> cli_exn \<Rightarrow> cli_exn" where
  "default_val_error opt val_str e =
     (case e of
        Cli err \<Rightarrow>
          if error_class err = C_ConversionError then
            ConversionError_value (opt_name opt)
              (''given default value('' @ [CHR 0x22] @ val_str @ [CHR 0x22] @ '') produces an error : '' @ what_msg err)
          else e
      | _ \<Rightarrow> e)"

definition option_default_val :: "(string list \<Rightarrow> string) \<Rightarrow> string \<Rightarrow> ('v opt \<times> 'v, unit) comp" where
  "option_default_val sum_string_vector val_str = (\<lambda>(opt, vars).
     (case default_val_try sum_string_vector val_str (o_state opt) (opt\<lparr>o_results := []\<rparr>, vars) of
        (Inr _, (opt', vars')) \<Rightarrow> (Inr (), (opt'\<lparr>o_results := o_results opt, o_default_str := val_str\<rparr>, vars'))
      | (Inl (Cli err), (opt', vars')) \<Rightarrow>
          (let back = opt'\<lparr>o_results := o_results opt, o_state := o_state opt\<rparr>
           in (Inl (default_val_error back val_str (Cli err)), (back, vars')))
      | (Inl e, s) \<Rightarrow> (Inl e, s)))"

section \<open>Adding an option\<close>

text \<open>The test all ambiguity checks are made of: a configurable option already has the name.\<close>

definition reject_configurable :: "nat \<Rightarrow> app_ptr \<Rightarrow> string \<Rightarrow> string \<Rightarrow> ('v, unit) cli_m" where
  "reject_configurable n topmost name message =
     m_bind (get_option_no_throw n topmost name) (\<lambda>op.
       (case op of
          None \<Rightarrow> m_return ()
        | Some p \<Rightarrow>
            m_bind (get_opt p) (\<lambda>opt.
              m_when (o_configurable opt) (m_throw (OptionAlreadyAdded (message @ name))))))"

definition reject_positional :: "nat \<Rightarrow> app_ptr \<Rightarrow> 'v opt \<Rightarrow> ('v, unit) cli_m" where
  "reject_positional n topmost myopt =
     (let test_name0 = ''--'' @ get_single_name myopt;
          test_name = (if length test_name0 = 3 then drop 1 test_name0 else test_name0)
      in m_seq (reject_configurable n topmost test_name ''added option positional name matches existing option: '')
         (m_bind (get_option_no_throw n topmost (get_single_name myopt)) (\<lambda>op.
            (case op of
               None \<Rightarrow> m_return ()
             | Some p \<Rightarrow>
                 m_bind (get_opt p) (\<lambda>opt.
                   m_when (o_lnames opt = [] \<and> o_snames opt = [])
                     (m_throw (OptionAlreadyAdded (''unable to disambiguate with existing option: '' @ test_name))))))))"

definition reject_names :: "nat \<Rightarrow> app_ptr \<Rightarrow> bool \<Rightarrow> 'v opt \<Rightarrow> ('v, unit) cli_m" where
  "reject_names n topmost non_standard myopt =
     m_seq (m_each (\<lambda>ln.
        m_seq (reject_configurable n topmost ln ''added option matches existing positional option: '')
        (m_seq (reject_configurable n topmost (''--'' @ ln) ''added option matches existing option: '')
        (m_when (length ln = 1 \<or> non_standard)
           (reject_configurable n topmost (''-'' @ ln) ''added option matches existing option: '')))) (o_lnames myopt))
     (m_each (\<lambda>sn.
        m_seq (reject_configurable n topmost sn ''added option matches existing positional option: '')
        (m_seq (reject_configurable n topmost (''-'' @ sn) ''added option matches existing option: '')
        (reject_configurable n topmost (''--'' @ sn) ''added option matches existing option: ''))) (o_snames myopt))"

definition reject_non_standard :: "nat \<Rightarrow> app_ptr \<Rightarrow> 'v opt \<Rightarrow> ('v, unit) cli_m" where
  "reject_non_standard n topmost myopt =
     m_seq (m_each (\<lambda>sname.
        if length sname > 1 then
          m_bind (get_option_no_throw n topmost [CHR ''-'', hd sname]) (\<lambda>op.
            m_when (op \<noteq> None)
              (m_throw (OptionAlreadyAdded (''added option interferes with existing short option: '' @ sname))))
        else m_return ()) (o_snames myopt))
     (m_bind (get_options True (\<lambda>p opt. True) n topmost) (\<lambda>opts.
        m_each (\<lambda>osn.
          m_when (length osn > 1 \<and> check_sname myopt [hd osn])
            (m_throw (OptionAlreadyAdded (''added option interferes with existing non standard option: '' @ osn))))
          (concat (map (\<lambda>(p, opt). o_snames opt) opts))))"

primrec top_level_parent :: "nat \<Rightarrow> app_ptr \<Rightarrow> ('v, app_ptr) cli_m" where
  "top_level_parent 0 a = m_throw No_fuel"
| "top_level_parent (Suc n) a =
     m_bind (get_app a) (\<lambda>app.
       (case a_parent app of
          Some parent \<Rightarrow> if a_name app = [] then top_level_parent n parent else m_return a
        | None \<Rightarrow> m_return a))"

definition alloc_opt :: "'v opt \<Rightarrow> ('v, opt_ptr) cli_m" where
  "alloc_opt opt = m_bind (m_gets (\<lambda>w. length (w_opts w)))
     (\<lambda>p. m_seq (m_modify (\<lambda>w. w\<lparr>w_opts := w_opts w @ [opt]\<rparr>)) (m_return p))"

definition add_option ::
  "nat \<Rightarrow> app_ptr \<Rightarrow> string \<Rightarrow> (results_t \<Rightarrow> 'v \<Rightarrow> (cli_exn + bool) \<times> 'v) option \<Rightarrow> string \<Rightarrow> bool \<Rightarrow>
   ('v \<Rightarrow> string) option \<Rightarrow> ('v, opt_ptr) cli_m" where
  "add_option n a option_name option_callback option_description defaulted func =
     m_bind (get_app a) (\<lambda>app.
     m_bind (m_lift (option_new option_name option_description option_callback a
                       (a_allow_non_standard_options app))) (\<lambda>myopt.
     m_bind (own_options a) (\<lambda>opts.
     m_seq (case find (\<lambda>(p, v). matching_name v myopt \<noteq> []) opts of
              Some (p, v) \<Rightarrow>
                m_throw (OptionAlreadyAdded (''added option matched existing option name: '' @ matching_name v myopt))
            | None \<Rightarrow> m_return ())
     (m_bind (top_level_parent n a) (\<lambda>topmost.
     m_bind (get_app topmost) (\<lambda>top_app.
     m_seq (if o_lnames myopt = [] \<and> o_snames myopt = [] then reject_positional n topmost myopt
            else if topmost \<noteq> a then reject_names n topmost (a_allow_non_standard_options top_app) myopt
            else m_return ())
     (m_seq (m_when (a_allow_non_standard_options app \<and> o_snames myopt \<noteq> []) (reject_non_standard n topmost myopt))
     (m_bind (alloc_opt (myopt\<lparr>o_default_function := func\<rparr>)) (\<lambda>p.
     m_seq (upd_app a (\<lambda>app. app\<lparr>a_options := a_options app @ [p]\<rparr>))
     (m_bind (m_gets w_vars) (\<lambda>vars.
     m_seq (m_when defaulted (upd_opt p (capture_default_str vars)))
     (m_seq (copy_to (a_option_defaults app) p)
     (m_bind (get_opt p) (\<lambda>opt.
     m_seq (m_when (\<not> defaulted \<and> o_always_capture_default opt) (upd_opt p (capture_default_str vars)))
       (m_return p)))))))))))))))"

text \<open>
  The template that binds an option to a variable of one assignable value: the conversion, and
  the text of the variable, are those of the type; \<open>get\<close> and \<open>put\<close> are the variable.
\<close>

definition variable_callback ::
  "(string \<Rightarrow> 'b \<Rightarrow> bool \<times> 'b) \<Rightarrow> ('v \<Rightarrow> 'b) \<Rightarrow> ('b \<Rightarrow> 'v \<Rightarrow> 'v) \<Rightarrow> results_t \<Rightarrow> 'v \<Rightarrow> (cli_exn + bool) \<times> 'v" where
  "variable_callback assign get put res vars =
     (case lexical_conversion assign res (get vars) of
        Inl e \<Rightarrow> (Inl (Std e), vars)
      | Inr (ok, value) \<Rightarrow> (Inr ok, put value vars))"

definition add_option_variable ::
  "nat \<Rightarrow> app_ptr \<Rightarrow> string \<Rightarrow> (string \<Rightarrow> 'b \<Rightarrow> bool \<times> 'b) \<Rightarrow> ('b \<Rightarrow> string) \<Rightarrow> string \<Rightarrow>
   ('v \<Rightarrow> 'b) \<Rightarrow> ('b \<Rightarrow> 'v \<Rightarrow> 'v) \<Rightarrow> string \<Rightarrow> ('v, opt_ptr) cli_m" where
  "add_option_variable n a option_name assign to_text type_name get put option_description =
     m_bind (add_option n a option_name (Some (variable_callback assign get put)) option_description False
               (Some (\<lambda>vars. to_text (get vars)))) (\<lambda>p.
     m_seq (upd_opt p (\<lambda>opt.
        (option_expected 1 (set_type_size_range 1 1 (opt\<lparr>o_type_name := (\<lambda>_. type_name)\<rparr>)))
        \<lparr>o_run_callback_for_default := True\<rparr>))
       (m_return p))"

section \<open>Removing an option\<close>

definition remove_option :: "app_ptr \<Rightarrow> opt_ptr \<Rightarrow> ('v, bool) cli_m" where
  "remove_option a p =
     m_bind (get_app a) (\<lambda>app.
     m_seq (m_each (\<lambda>q. upd_opt q (\<lambda>op. snd (option_remove_excludes p (snd (option_remove_needs p op)))))
              (a_options app))
     (m_seq (upd_app a (\<lambda>app. app
        \<lparr>a_help_ptr := (if a_help_ptr app = Some p then None else a_help_ptr app),
         a_help_all_ptr := (if a_help_all_ptr app = Some p then None else a_help_all_ptr app),
         a_config_ptr := (if a_config_ptr app = Some p then None else a_config_ptr app),
         a_options := remove1 p (a_options app)\<rparr>))
     (m_return (p \<in> set (a_options app)))))"

section \<open>Flags\<close>

definition add_flag_internal ::
  "nat \<Rightarrow> app_ptr \<Rightarrow> string \<Rightarrow> (results_t \<Rightarrow> 'v \<Rightarrow> (cli_exn + bool) \<times> 'v) option \<Rightarrow> string \<Rightarrow> ('v, opt_ptr) cli_m" where
  "add_flag_internal n a flag_name fun0 flag_description =
     m_bind
       (if has_default_flag_values flag_name then
          (let flag_defaults = get_default_flag_values flag_name in
           m_bind (add_option n a (remove_default_flag_values flag_name) fun0 flag_description False None) (\<lambda>p.
           m_seq (upd_opt p (\<lambda>opt. opt\<lparr>o_fnames := o_fnames opt @ map fst flag_defaults,
                                         o_default_flag_values := flag_defaults\<rparr>))
             (m_return p)))
        else add_option n a flag_name fun0 flag_description False None) (\<lambda>p.
     m_bind (get_opt p) (\<lambda>opt.
       if get_positional opt then
         m_bind (remove_option a p) (\<lambda>_. m_throw (PositionalFlag (get_name opt True False False)))
       else
         m_seq (upd_opt p (\<lambda>opt. (option_expected 0 (set_multi_option_policy TakeLast opt))\<lparr>o_required := False\<rparr>))
           (m_return p)))"

definition add_flag :: "nat \<Rightarrow> app_ptr \<Rightarrow> string \<Rightarrow> string \<Rightarrow> ('v, opt_ptr) cli_m" where
  "add_flag n a flag_name flag_description = add_flag_internal n a flag_name None flag_description"

text \<open>The version that writes a boolean variable.\<close>

definition add_flag_bool ::
  "nat \<Rightarrow> app_ptr \<Rightarrow> string \<Rightarrow> ('v \<Rightarrow> bool) \<Rightarrow> (bool \<Rightarrow> 'v \<Rightarrow> 'v) \<Rightarrow> string \<Rightarrow> ('v, opt_ptr) cli_m" where
  "add_flag_bool n a flag_name get put flag_description =
     m_bind (add_flag_internal n a flag_name (Some (variable_callback lexical_cast_bool get put)) flag_description)
       (\<lambda>p. m_seq (upd_opt p (\<lambda>opt. opt\<lparr>o_always_capture_default := True\<rparr>)) (m_return p))"

definition flag_callback :: "('v \<Rightarrow> (cli_exn + unit) \<times> 'v) \<Rightarrow> results_t \<Rightarrow> 'v \<Rightarrow> (cli_exn + bool) \<times> 'v" where
  "flag_callback f res vars =
     (case lexical_conversion lexical_cast_bool res False of
        Inl e \<Rightarrow> (Inl (Std e), vars)
      | Inr (result, trigger) \<Rightarrow>
          if result \<and> trigger then
            (case f vars of (Inl e, vars') \<Rightarrow> (Inl e, vars') | (Inr _, vars') \<Rightarrow> (Inr result, vars'))
          else (Inr result, vars))"

definition add_flag_callback ::
  "nat \<Rightarrow> app_ptr \<Rightarrow> string \<Rightarrow> ('v \<Rightarrow> (cli_exn + unit) \<times> 'v) \<Rightarrow> string \<Rightarrow> ('v, opt_ptr) cli_m" where
  "add_flag_callback n a flag_name f flag_description =
     add_flag_internal n a flag_name (Some (flag_callback f)) flag_description"

definition flag_count_callback ::
  "(64 word \<Rightarrow> 'v \<Rightarrow> (cli_exn + unit) \<times> 'v) \<Rightarrow> results_t \<Rightarrow> 'v \<Rightarrow> (cli_exn + bool) \<times> 'v" where
  "flag_count_callback f res vars =
     (case lexical_conversion integral_conversion_signed res 0 of
        Inl e \<Rightarrow> (Inl (Std e), vars)
      | Inr (_, flag_count) \<Rightarrow>
          (case f flag_count vars of (Inl e, vars') \<Rightarrow> (Inl e, vars') | (Inr _, vars') \<Rightarrow> (Inr True, vars')))"

definition add_flag_function ::
  "nat \<Rightarrow> app_ptr \<Rightarrow> string \<Rightarrow> (64 word \<Rightarrow> 'v \<Rightarrow> (cli_exn + unit) \<times> 'v) \<Rightarrow> string \<Rightarrow> ('v, opt_ptr) cli_m" where
  "add_flag_function n a flag_name f flag_description =
     m_bind (add_flag_internal n a flag_name (Some (flag_count_callback f)) flag_description)
       (\<lambda>p. m_seq (upd_opt p (set_multi_option_policy Sum)) (m_return p))"

section \<open>Help, version and configuration\<close>

text \<open>An existing option of the kind is removed first; an empty name only removes it.\<close>

definition drop_flag :: "app_ptr \<Rightarrow> opt_ptr option \<Rightarrow> ('v app \<Rightarrow> 'v app) \<Rightarrow> ('v, unit) cli_m" where
  "drop_flag a ptr reset =
     (case ptr of
        None \<Rightarrow> m_return ()
      | Some p \<Rightarrow> m_bind (remove_option a p) (\<lambda>_. upd_app a reset))"

definition special_flag :: "opt_ptr \<Rightarrow> ('v, unit) cli_m" where
  "special_flag p = upd_opt p (\<lambda>opt. opt\<lparr>o_configurable := False, o_callback_priority := First\<rparr>)"

definition set_help_flag :: "nat \<Rightarrow> app_ptr \<Rightarrow> string \<Rightarrow> string \<Rightarrow> ('v, unit) cli_m" where
  "set_help_flag n a flag_name help_description =
     m_bind (get_app a) (\<lambda>app.
     m_seq (drop_flag a (a_help_ptr app) (\<lambda>app. app\<lparr>a_help_ptr := None\<rparr>))
     (if flag_name \<noteq> [] then
        m_bind (add_flag n a flag_name help_description) (\<lambda>p.
        m_seq (upd_app a (\<lambda>app. app\<lparr>a_help_ptr := Some p\<rparr>)) (special_flag p))
      else m_return ()))"

definition set_help_all_flag :: "nat \<Rightarrow> app_ptr \<Rightarrow> string \<Rightarrow> string \<Rightarrow> ('v, unit) cli_m" where
  "set_help_all_flag n a help_name help_description =
     m_bind (get_app a) (\<lambda>app.
     m_seq (drop_flag a (a_help_all_ptr app) (\<lambda>app. app\<lparr>a_help_all_ptr := None\<rparr>))
     (if help_name \<noteq> [] then
        m_bind (add_flag n a help_name help_description) (\<lambda>p.
        m_seq (upd_app a (\<lambda>app. app\<lparr>a_help_all_ptr := Some p\<rparr>)) (special_flag p))
      else m_return ()))"

definition set_version_flag :: "nat \<Rightarrow> app_ptr \<Rightarrow> string \<Rightarrow> string \<Rightarrow> string \<Rightarrow> ('v, unit) cli_m" where
  "set_version_flag n a flag_name versionString version_help =
     m_bind (get_app a) (\<lambda>app.
     m_seq (drop_flag a (a_version_ptr app) (\<lambda>app. app\<lparr>a_version_ptr := None\<rparr>))
     (if flag_name \<noteq> [] then
        m_bind (add_flag_callback n a flag_name (\<lambda>vars. (Inl (CallForVersion versionString), vars)) version_help) (\<lambda>p.
        m_seq (upd_app a (\<lambda>app. app\<lparr>a_version_ptr := Some p\<rparr>)) (special_flag p))
      else m_return ()))"

definition set_version_flag_fn :: "nat \<Rightarrow> app_ptr \<Rightarrow> string \<Rightarrow> ('v \<Rightarrow> string) \<Rightarrow> string \<Rightarrow> ('v, unit) cli_m" where
  "set_version_flag_fn n a flag_name vfunc version_help =
     m_bind (get_app a) (\<lambda>app.
     m_seq (drop_flag a (a_version_ptr app) (\<lambda>app. app\<lparr>a_version_ptr := None\<rparr>))
     (if flag_name \<noteq> [] then
        m_bind (add_flag_callback n a flag_name (\<lambda>vars. (Inl (CallForVersion (vfunc vars)), vars)) version_help) (\<lambda>p.
        m_seq (upd_app a (\<lambda>app. app\<lparr>a_version_ptr := Some p\<rparr>)) (special_flag p))
      else m_return ()))"

definition set_config :: "nat \<Rightarrow> app_ptr \<Rightarrow> string \<Rightarrow> string \<Rightarrow> string \<Rightarrow> bool \<Rightarrow> ('v, unit) cli_m" where
  "set_config n a option_name default_filename help_message config_required =
     m_bind (get_app a) (\<lambda>app.
     m_seq (drop_flag a (a_config_ptr app) (\<lambda>app. app\<lparr>a_config_ptr := None\<rparr>))
     (if option_name \<noteq> [] then
        m_bind (add_option n a option_name None help_message False None) (\<lambda>p.
        m_seq (upd_app a (\<lambda>app. app\<lparr>a_config_ptr := Some p\<rparr>))
        (upd_opt p (\<lambda>opt.
           (let opt = (if config_required then opt\<lparr>o_required := True\<rparr> else opt);
                opt = (if default_filename \<noteq> []
                       then opt\<lparr>o_default_str := default_filename, o_force_callback := True\<rparr> else opt)
            in set_multi_option_policy Reverse (opt\<lparr>o_configurable := False\<rparr>)))))
      else m_return ()))"

section \<open>The application\<close>

definition alloc_app :: "'v app \<Rightarrow> ('v, app_ptr) cli_m" where
  "alloc_app app = m_bind (m_gets (\<lambda>w. length (w_apps w)))
     (\<lambda>a. m_seq (m_modify (\<lambda>w. w\<lparr>w_apps := w_apps w @ [app]\<rparr>)) (m_return a))"

text \<open>What a subcommand takes over from its parent, after the help flags were added.\<close>

definition inherit :: "'v app \<Rightarrow> 'v app \<Rightarrow> 'v app" where
  "inherit parent app = app
     \<lparr>a_option_defaults := a_option_defaults parent,
      a_failure_message := a_failure_message parent,
      a_allow_extras := a_allow_extras parent,
      a_allow_config_extras := a_allow_config_extras parent,
      a_prefix_command := a_prefix_command parent,
      a_immediate_callback := a_immediate_callback parent,
      a_ignore_case := a_ignore_case parent,
      a_ignore_underscore := a_ignore_underscore parent,
      a_fallthrough := a_fallthrough parent,
      a_validate_positionals := a_validate_positionals parent,
      a_validate_optional_arguments := a_validate_optional_arguments parent,
      a_configurable := a_configurable parent,
      a_allow_windows_style_options := a_allow_windows_style_options parent,
      a_group := a_group parent,
      a_usage := a_usage parent,
      a_footer := a_footer parent,
      a_formatter := a_formatter parent,
      a_config_formatter := a_config_formatter parent,
      a_require_subcommand_max := a_require_subcommand_max parent,
      a_allow_prefix_matching := a_allow_prefix_matching parent\<rparr>"

definition app_new_child :: "nat \<Rightarrow> string \<Rightarrow> string \<Rightarrow> app_ptr \<Rightarrow> ('v, app_ptr) cli_m" where
  "app_new_child n app_description app_name parent =
     m_bind (alloc_app (app_default\<lparr>a_name := app_name, a_description := app_description, a_parent := Some parent\<rparr>)) (\<lambda>a.
     m_bind (get_app parent) (\<lambda>papp.
     m_seq (case a_help_ptr papp of
              None \<Rightarrow> m_return ()
            | Some p \<Rightarrow> m_bind (get_opt p) (\<lambda>opt. set_help_flag n a (get_name opt False True False) (o_description opt)))
     (m_seq (case a_help_all_ptr papp of
              None \<Rightarrow> m_return ()
            | Some p \<Rightarrow> m_bind (get_opt p) (\<lambda>opt. set_help_all_flag n a (get_name opt False True False) (o_description opt)))
     (m_seq (upd_app a (inherit papp)) (m_return a)))))"

definition app_new :: "nat \<Rightarrow> string \<Rightarrow> string \<Rightarrow> ('v, app_ptr) cli_m" where
  "app_new n app_description app_name =
     m_bind (alloc_app (app_default\<lparr>a_name := app_name, a_description := app_description\<rparr>)) (\<lambda>a.
     m_seq (set_help_flag n a ''-h,--help'' ''Print this help message and exit'') (m_return a))"

definition set_name :: "nat \<Rightarrow> app_ptr \<Rightarrow> string \<Rightarrow> ('v, unit) cli_m" where
  "set_name n a app_name =
     m_bind (get_app a) (\<lambda>app.
     m_seq (upd_app a (\<lambda>app. app\<lparr>a_name := app_name\<rparr>))
     (m_seq
       (if a_parent app = None then m_return ()
        else
          m_bind (get_fallthrough_parent n a) (\<lambda>parent.
          m_bind (compare_subcommand_names n a (the parent)) (\<lambda>res.
            if res \<noteq> None then
              m_seq (upd_app a (\<lambda>app'. app'\<lparr>a_name := a_name app\<rparr>))
                (m_throw (OptionAlreadyAdded (app_name @ '' conflicts with existing subcommand names'')))
            else m_return ())))
     (upd_app a (\<lambda>app. app\<lparr>a_has_automatic_name := False\<rparr>))))"

definition set_alias :: "nat \<Rightarrow> app_ptr \<Rightarrow> string \<Rightarrow> ('v, unit) cli_m" where
  "set_alias n a app_name =
     (if app_name = [] \<or> \<not> valid_alias_name_string app_name then
        m_throw (IncorrectConstruction ''Aliases may not be empty or contain newlines or null characters'')
      else
     (m_bind (get_app a) (\<lambda>app.
      m_seq (upd_app a (\<lambda>app. app\<lparr>a_aliases := a_aliases app @ [app_name]\<rparr>))
      (if a_parent app = None then m_return ()
       else
         m_bind (get_fallthrough_parent n a) (\<lambda>parent.
         m_bind (compare_subcommand_names n a (the parent)) (\<lambda>res.
           if res \<noteq> None then
             m_seq (upd_app a (\<lambda>app. app\<lparr>a_aliases := butlast (a_aliases app)\<rparr>))
               (m_throw (OptionAlreadyAdded (''alias already matches an existing subcommand: '' @ app_name)))
           else m_return ()))))))"

definition set_callback :: "('v \<Rightarrow> (cli_exn + unit) \<times> 'v) \<Rightarrow> 'v app \<Rightarrow> 'v app" where
  "set_callback app_callback app =
     (if a_immediate_callback app then app\<lparr>a_parse_complete_callback := Some app_callback\<rparr>
      else app\<lparr>a_final_callback := Some app_callback\<rparr>)"

definition set_immediate_callback :: "bool \<Rightarrow> 'v app \<Rightarrow> 'v app" where
  "set_immediate_callback immediate app0 =
     (let app = app0\<lparr>a_immediate_callback := immediate\<rparr>;
          swapped = app\<lparr>a_final_callback := a_parse_complete_callback app,
                        a_parse_complete_callback := a_final_callback app\<rparr>
      in if immediate then
           if a_final_callback app \<noteq> None \<and> a_parse_complete_callback app = None then swapped else app
         else if a_final_callback app = None \<and> a_parse_complete_callback app \<noteq> None then swapped
         else app)"

definition disabled_by_default :: "bool \<Rightarrow> 'v app \<Rightarrow> 'v app" where
  "disabled_by_default disable app = app\<lparr>a_default_startup :=
     (if disable then Startup_disabled
      else if a_default_startup app = Startup_enabled then Startup_enabled else Startup_stable)\<rparr>"

definition enabled_by_default :: "bool \<Rightarrow> 'v app \<Rightarrow> 'v app" where
  "enabled_by_default enable app = app\<lparr>a_default_startup :=
     (if enable then Startup_enabled
      else if a_default_startup app = Startup_disabled then Startup_disabled else Startup_stable)\<rparr>"

text \<open>The two settings that may make names of subcommands equal; they are put back before the throw.\<close>

definition name_base :: "nat \<Rightarrow> app_ptr \<Rightarrow> ('v, app_ptr) cli_m" where
  "name_base n a = m_bind (get_fallthrough_parent n a) (\<lambda>p. m_return (case p of Some q \<Rightarrow> q | None \<Rightarrow> a))"

definition app_ignore_case :: "nat \<Rightarrow> app_ptr \<Rightarrow> bool \<Rightarrow> ('v, unit) cli_m" where
  "app_ignore_case n a value =
     m_bind (get_app a) (\<lambda>app.
     m_seq
       (if value \<and> \<not> a_ignore_case app then
          m_seq (upd_app a (\<lambda>app. app\<lparr>a_ignore_case := True\<rparr>))
          (m_bind (name_base n a) (\<lambda>p.
           m_bind (compare_subcommand_names n a p) (\<lambda>match.
             (case match of
                None \<Rightarrow> m_return ()
              | Some name \<Rightarrow>
                  m_seq (upd_app a (\<lambda>app. app\<lparr>a_ignore_case := False\<rparr>))
                    (m_throw (OptionAlreadyAdded (''ignore case would cause subcommand name conflicts: '' @ name)))))))
        else m_return ())
     (upd_app a (\<lambda>app. app\<lparr>a_ignore_case := value\<rparr>)))"

definition app_ignore_underscore :: "nat \<Rightarrow> app_ptr \<Rightarrow> bool \<Rightarrow> ('v, unit) cli_m" where
  "app_ignore_underscore n a value =
     m_bind (get_app a) (\<lambda>app.
     m_seq
       (if value \<and> \<not> a_ignore_underscore app then
          m_seq (upd_app a (\<lambda>app. app\<lparr>a_ignore_underscore := True\<rparr>))
          (m_bind (name_base n a) (\<lambda>p.
           m_bind (compare_subcommand_names n a p) (\<lambda>match.
             (case match of
                None \<Rightarrow> m_return ()
              | Some name \<Rightarrow>
                  m_seq (upd_app a (\<lambda>app. app\<lparr>a_ignore_underscore := False\<rparr>))
                    (m_throw (OptionAlreadyAdded (''ignore underscore would cause subcommand name conflicts: '' @ name)))))))
        else m_return ())
     (upd_app a (\<lambda>app. app\<lparr>a_ignore_underscore := value\<rparr>)))"

definition require_subcommand :: "int \<Rightarrow> 'v app \<Rightarrow> 'v app" where
  "require_subcommand value app =
     (if value < 0 then app\<lparr>a_require_subcommand_min := 0, a_require_subcommand_max := nat (- value)\<rparr>
      else app\<lparr>a_require_subcommand_min := nat value, a_require_subcommand_max := nat value\<rparr>)"

definition require_option :: "int \<Rightarrow> 'v app \<Rightarrow> 'v app" where
  "require_option value app =
     (if value < 0 then app\<lparr>a_require_option_min := 0, a_require_option_max := nat (- value)\<rparr>
      else app\<lparr>a_require_option_min := nat value, a_require_option_max := nat value\<rparr>)"

section \<open>Subcommands\<close>

definition add_subcommand_ptr :: "nat \<Rightarrow> app_ptr \<Rightarrow> app_ptr \<Rightarrow> ('v, unit) cli_m" where
  "add_subcommand_ptr n a subcom =
     m_bind (get_app a) (\<lambda>app.
     m_bind (if a_name app = [] \<and> a_parent app \<noteq> None then name_base n a else m_return a) (\<lambda>ckapp.
     m_bind (compare_subcommand_names n subcom ckapp) (\<lambda>mstrg.
       (case mstrg of
          Some name \<Rightarrow>
            m_throw (OptionAlreadyAdded (''subcommand name or alias matches existing subcommand: '' @ name))
        | None \<Rightarrow>
            m_seq (upd_app subcom (\<lambda>s. s\<lparr>a_parent := Some a\<rparr>))
              (upd_app a (\<lambda>app. app\<lparr>a_subcommands := a_subcommands app @ [subcom]\<rparr>))))))"

definition check_subcommand_name :: "string \<Rightarrow> cli_exn + unit" where
  "check_subcommand_name subcommand_name =
     (if subcommand_name \<noteq> [] \<and> \<not> valid_name_string subcommand_name then
        if \<not> valid_first_char (hd subcommand_name) then
          Inl (IncorrectConstruction
                 (''Subcommand name starts with invalid character, '' @ [CHR 0x27] @ ''!'' @ [CHR 0x27] @ '' and '' @
                  [CHR 0x27] @ ''-'' @ [CHR 0x27] @ '' and control characters''))
        else
          (case find (\<lambda>c. \<not> valid_later_char c) subcommand_name of
             Some c \<Rightarrow>
               Inl (IncorrectConstruction
                 (''Subcommand name contains invalid character ('' @ [CHR 0x27, c, CHR 0x27] @
                  ''), all characters are allowed except'' @
                  [CHR 0x27] @ ''='' @ [CHR 0x27] @ '','' @ [CHR 0x27] @ '':'' @ [CHR 0x27] @ '','' @
                  [CHR 0x27] @ ''{'' @ [CHR 0x27] @ '','' @ [CHR 0x27] @ ''}'' @ [CHR 0x27] @ '', '' @
                  [CHR 0x27] @ '' '' @ [CHR 0x27] @ '', and control characters''))
           | None \<Rightarrow> Inr ())
      else Inr ())"

definition add_subcommand :: "nat \<Rightarrow> app_ptr \<Rightarrow> string \<Rightarrow> string \<Rightarrow> ('v, app_ptr) cli_m" where
  "add_subcommand n a subcommand_name subcommand_description =
     m_bind (m_lift (check_subcommand_name subcommand_name)) (\<lambda>_.
     m_bind (app_new_child n subcommand_description subcommand_name a) (\<lambda>subcom.
     m_seq (add_subcommand_ptr n a subcom) (m_return subcom)))"

text \<open>\<^verbatim>\<open>Option_group\<close> and \<^verbatim>\<open>add_option_group\<close>.\<close>

definition option_group_new :: "nat \<Rightarrow> string \<Rightarrow> string \<Rightarrow> app_ptr \<Rightarrow> ('v, app_ptr) cli_m" where
  "option_group_new n group_description group_name parent =
     m_bind (app_new_child n group_description [] parent) (\<lambda>a.
     m_seq (upd_app a (\<lambda>app. app\<lparr>a_group := group_name\<rparr>))
     (m_seq (m_when (group_name = [] \<or> hd group_name = CHR ''+'')
               (m_seq (set_help_flag n a [] []) (set_help_all_flag n a [] [])))
     (m_return a)))"

definition add_option_group :: "nat \<Rightarrow> app_ptr \<Rightarrow> string \<Rightarrow> string \<Rightarrow> ('v, app_ptr) cli_m" where
  "add_option_group n a group_name group_description =
     (if \<not> valid_alias_name_string group_name then
        m_throw (IncorrectConstruction ''option group names may not contain newlines or null characters'')
      else
        m_bind (option_group_new n group_description group_name a) (\<lambda>g.
        m_seq (upd_app g (\<lambda>app. app\<lparr>a_footer := []\<rparr>))
        (m_seq (set_help_flag n g [] [])
        (m_seq (add_subcommand_ptr n a g) (m_return g)))))"

text \<open>Links between applications.\<close>

definition app_excludes_option :: "opt_ptr \<Rightarrow> 'v app \<Rightarrow> 'v app" where
  "app_excludes_option opt app = app\<lparr>a_exclude_options := List.insert opt (a_exclude_options app)\<rparr>"

definition app_excludes :: "app_ptr \<Rightarrow> app_ptr \<Rightarrow> ('v, unit) cli_m" where
  "app_excludes this other =
     (if other = this then m_throw (OptionNotFound ''cannot self reference in needs'')
      else
        m_bind (get_app this) (\<lambda>app.
          if other \<in> set (a_exclude_subcommands app) then m_return ()
          else
            m_seq (upd_app this (\<lambda>app. app\<lparr>a_exclude_subcommands := List.insert other (a_exclude_subcommands app)\<rparr>))
              (upd_app other (\<lambda>app. app\<lparr>a_exclude_subcommands := List.insert this (a_exclude_subcommands app)\<rparr>))))"

definition app_needs_option :: "opt_ptr \<Rightarrow> 'v app \<Rightarrow> 'v app" where
  "app_needs_option opt app = app\<lparr>a_need_options := List.insert opt (a_need_options app)\<rparr>"

definition app_needs :: "app_ptr \<Rightarrow> app_ptr \<Rightarrow> ('v, unit) cli_m" where
  "app_needs this other =
     (if other = this then m_throw (OptionNotFound ''cannot self reference in needs'')
      else upd_app this (\<lambda>app. app\<lparr>a_need_subcommands := List.insert other (a_need_subcommands app)\<rparr>))"

definition app_remove_excludes_option :: "opt_ptr \<Rightarrow> app_ptr \<Rightarrow> ('v, bool) cli_m" where
  "app_remove_excludes_option opt a =
     m_bind (get_app a) (\<lambda>app.
     m_seq (upd_app a (\<lambda>app. app\<lparr>a_exclude_options := remove1 opt (a_exclude_options app)\<rparr>))
       (m_return (opt \<in> set (a_exclude_options app))))"

text \<open>The removal of an exclusion calls itself on the other side, where the link back is gone then.\<close>

primrec app_remove_excludes :: "nat \<Rightarrow> app_ptr \<Rightarrow> app_ptr \<Rightarrow> ('v, bool) cli_m" where
  "app_remove_excludes 0 other a = m_throw No_fuel"
| "app_remove_excludes (Suc n) other a =
     m_bind (get_app a) (\<lambda>app.
       if other \<notin> set (a_exclude_subcommands app) then m_return False
       else
         m_seq (upd_app a (\<lambda>app. app\<lparr>a_exclude_subcommands := remove1 other (a_exclude_subcommands app)\<rparr>))
           (m_bind (app_remove_excludes n a other) (\<lambda>_. m_return True)))"

definition app_remove_needs_option :: "opt_ptr \<Rightarrow> app_ptr \<Rightarrow> ('v, bool) cli_m" where
  "app_remove_needs_option opt a =
     m_bind (get_app a) (\<lambda>app.
     m_seq (upd_app a (\<lambda>app. app\<lparr>a_need_options := remove1 opt (a_need_options app)\<rparr>))
       (m_return (opt \<in> set (a_need_options app))))"

definition app_remove_needs :: "app_ptr \<Rightarrow> app_ptr \<Rightarrow> ('v, bool) cli_m" where
  "app_remove_needs other a =
     m_bind (get_app a) (\<lambda>app.
     m_seq (upd_app a (\<lambda>app. app\<lparr>a_need_subcommands := remove1 other (a_need_subcommands app)\<rparr>))
       (m_return (other \<in> set (a_need_subcommands app))))"

definition remove_subcommand :: "nat \<Rightarrow> app_ptr \<Rightarrow> app_ptr \<Rightarrow> ('v, bool) cli_m" where
  "remove_subcommand n a subcom =
     m_bind (get_app a) (\<lambda>app.
     m_seq (m_each (\<lambda>sub. m_bind (app_remove_excludes n subcom sub) (\<lambda>_.
                          m_bind (app_remove_needs subcom sub) (\<lambda>_. m_return ()))) (a_subcommands app))
     (m_seq (upd_app a (\<lambda>app. app\<lparr>a_subcommands := remove1 subcom (a_subcommands app)\<rparr>))
     (m_return (subcom \<in> set (a_subcommands app)))))"

definition get_subcommand :: "nat \<Rightarrow> app_ptr \<Rightarrow> string \<Rightarrow> ('v, app_ptr) cli_m" where
  "get_subcommand n a subcom =
     m_bind (find_subcommand n a subcom False False) (\<lambda>subc.
       (case subc of Some s \<Rightarrow> m_return s | None \<Rightarrow> m_throw (OptionNotFound subcom)))"

definition get_subcommand_at :: "app_ptr \<Rightarrow> int \<Rightarrow> ('v, app_ptr) cli_m" where
  "get_subcommand_at a index =
     m_bind (get_app a) (\<lambda>app.
       if index \<ge> 0 \<and> nat index < length (a_subcommands app) then m_return (a_subcommands app ! nat index)
       else m_throw (OptionNotFound (int_string index)))"

definition get_subcommand_checked :: "app_ptr \<Rightarrow> app_ptr \<Rightarrow> ('v, app_ptr) cli_m" where
  "get_subcommand_checked a subcom =
     m_bind (get_app a) (\<lambda>app.
       if subcom \<in> set (a_subcommands app) then m_return subcom
       else m_bind (get_app subcom) (\<lambda>s. m_throw (OptionNotFound (a_name s))))"

definition get_subcommand_ptr :: "app_ptr \<Rightarrow> string \<Rightarrow> ('v, app_ptr) cli_m" where
  "get_subcommand_ptr a subcom =
     m_bind (subcommands a) (\<lambda>subs.
       (case find (\<lambda>(s, app). app_check_name app subcom) subs of
          Some (s, _) \<Rightarrow> m_return s
        | None \<Rightarrow> m_throw (OptionNotFound subcom)))"

definition get_option_group :: "app_ptr \<Rightarrow> string \<Rightarrow> ('v, app_ptr) cli_m" where
  "get_option_group a group_name =
     m_bind (subcommands a) (\<lambda>subs.
       (case find (\<lambda>(s, app). a_name app = [] \<and> a_group app = group_name) subs of
          Some (s, _) \<Rightarrow> m_return s
        | None \<Rightarrow> m_throw (OptionNotFound group_name)))"

text \<open>
  \<^verbatim>\<open>_move_option\<close> to a subcommand. The option keeps its parent field.
\<close>

definition move_option :: "app_ptr \<Rightarrow> opt_ptr \<Rightarrow> app_ptr \<Rightarrow> ('v, unit) cli_m" where
  "move_option a p target =
     m_bind (get_app a) (\<lambda>app.
       if target \<notin> set (a_subcommands app) then m_throw (OptionNotFound ''The Given app is not a subcommand'')
       else if a_help_ptr app = Some p \<or> a_help_all_ptr app = Some p then
         m_throw (OptionAlreadyAdded ''cannot move help options'')
       else if a_config_ptr app = Some p then m_throw (OptionAlreadyAdded ''cannot move config file options'')
       else if p \<in> set (a_options app) then
         m_bind (get_opt p) (\<lambda>opt.
         m_bind (own_options target) (\<lambda>opts.
           if list_all (\<lambda>(q, v). matching_name v opt = []) opts then
             m_seq (upd_app target (\<lambda>t. t\<lparr>a_options := a_options t @ [p]\<rparr>))
               (upd_app a (\<lambda>app. app\<lparr>a_options := remove1 p (a_options app)\<rparr>))
           else m_throw (OptionAlreadyAdded (''option was not located: '' @ opt_name opt))))
       else m_throw (OptionNotFound ''could not locate the given Option''))"

text \<open>\<^verbatim>\<open>Option_group::add_option\<close> of an existing option.\<close>

definition group_add_option :: "app_ptr \<Rightarrow> opt_ptr \<Rightarrow> ('v, unit) cli_m" where
  "group_add_option a p =
     m_bind (get_app a) (\<lambda>app.
       (case a_parent app of
          None \<Rightarrow> m_throw (OptionNotFound ''Unable to locate the specified option'')
        | Some parent \<Rightarrow> move_option parent p a))"

end
