(* ===== verification/Cli_Process.thy ===== *)
theory Cli_Process
  imports Cli_Build
begin

text \<open>
  What an \<^verbatim>\<open>App\<close> does around the reading of arguments: it resets, checks and prepares itself,
  runs callbacks by priority, looks for help flags, reads the configuration file and the
  environment, and checks the requirements. The functions that call themselves on subcommands
  take fuel.
\<close>

section \<open>Before a parse\<close>

primrec app_clear :: "nat \<Rightarrow> app_ptr \<Rightarrow> ('v, unit) cli_m" where
  "app_clear 0 a = m_throw No_fuel"
| "app_clear (Suc n) a =
     m_seq (upd_app a (\<lambda>app. app\<lparr>a_parsed := 0, a_pre_parse_called := False, a_missing := [],
                               a_parsed_subcommands := [], a_parse_order := []\<rparr>))
     (m_bind (get_app a) (\<lambda>app.
      m_seq (m_each (\<lambda>p. upd_opt p option_clear) (a_options app))
        (m_each (app_clear n) (a_subcommands app))))"

definition unlimited_positional :: "'v opt \<Rightarrow> bool" where
  "unlimited_positional opt \<longleftrightarrow> get_items_expected_max opt \<ge> expected_max_vector_size \<and> \<not> nonpositional opt"

primrec app_validate :: "nat \<Rightarrow> app_ptr \<Rightarrow> ('v, unit) cli_m" where
  "app_validate 0 a = m_throw No_fuel"
| "app_validate (Suc n) a =
     m_bind (get_app a) (\<lambda>app.
     m_bind (own_options a) (\<lambda>opts.
       (let pcount = length (filter (\<lambda>(p, opt). unlimited_positional opt) opts);
            pcount_req = length (filter (\<lambda>(p, opt). unlimited_positional opt \<and> o_required opt) opts)
        in
        m_seq (m_when (pcount > 1 \<and> pcount - pcount_req > 1) (m_throw (InvalidError (a_name app))))
        (m_seq (m_each (app_validate n) (a_subcommands app))
        (m_bind (subcommands a) (\<lambda>subs.
           (let nameless_subs = length (filter (\<lambda>(s, sub). a_name sub = []) subs) in
            if a_require_option_min app > 0 then
              if a_require_option_max app > 0 \<and> a_require_option_max app < a_require_option_min app then
                m_throw (InvalidError_msg ''Required min options greater than required max options'')
              else if a_require_option_min app > length opts + nameless_subs then
                m_throw (InvalidError_msg ''Required min options greater than number of available options'')
              else m_return ()
            else m_return ())))))))"

primrec app_configure :: "nat \<Rightarrow> app_ptr \<Rightarrow> ('v, unit) cli_m" where
  "app_configure 0 a = m_throw No_fuel"
| "app_configure (Suc n) a =
     m_seq (upd_app a (\<lambda>app.
        case a_default_startup app of
          Startup_enabled \<Rightarrow> app\<lparr>a_disabled := False\<rparr>
        | Startup_disabled \<Rightarrow> app\<lparr>a_disabled := True\<rparr>
        | Startup_stable \<Rightarrow> app))
     (m_bind (get_app a) (\<lambda>app.
        m_each (\<lambda>s.
          m_seq (upd_app s (\<lambda>sub. if a_has_automatic_name sub then sub\<lparr>a_name := []\<rparr> else sub))
          (m_seq (upd_app s (\<lambda>sub. if a_name sub = [] then sub\<lparr>a_fallthrough := False, a_prefix_command := PM_Off\<rparr>
                                    else sub))
          (m_seq (upd_app s (\<lambda>sub. sub\<lparr>a_parent := Some a\<rparr>))
            (app_configure n s)))) (a_subcommands app)))"

primrec increment_parsed :: "nat \<Rightarrow> app_ptr \<Rightarrow> ('v, unit) cli_m" where
  "increment_parsed 0 a = m_throw No_fuel"
| "increment_parsed (Suc n) a =
     m_seq (upd_app a (\<lambda>app. app\<lparr>a_parsed := a_parsed app + 1\<rparr>))
     (m_bind (get_app a) (\<lambda>app.
        m_each (\<lambda>s. m_bind (get_app s) (\<lambda>sub. m_when (a_name sub = []) (increment_parsed n s)))
          (a_subcommands app)))"

definition trigger_pre_parse :: "nat \<Rightarrow> app_ptr \<Rightarrow> nat \<Rightarrow> ('v, unit) cli_m" where
  "trigger_pre_parse n a remaining_args =
     m_bind (get_app a) (\<lambda>app.
       if \<not> a_pre_parse_called app then
         m_seq (upd_app a (\<lambda>app. app\<lparr>a_pre_parse_called := True\<rparr>))
           (case a_pre_parse_callback app of None \<Rightarrow> m_return () | Some f \<Rightarrow> on_vars (f remaining_args))
       else if a_immediate_callback app \<and> a_name app \<noteq> [] then
         m_seq (app_clear n a)
           (upd_app a (\<lambda>app'. app'\<lparr>a_parsed := a_parsed app, a_pre_parse_called := True,
                                  a_missing := a_missing app\<rparr>))
       else m_return ())"

section \<open>Callbacks\<close>

primrec run_callback :: "nat \<Rightarrow> app_ptr \<Rightarrow> bool \<Rightarrow> bool \<Rightarrow> ('v, unit) cli_m" where
  "run_callback 0 a final_mode suppress_final_callback = m_throw No_fuel"
| "run_callback (Suc n) a final_mode suppress_final_callback =
     m_bind (get_app a) (\<lambda>app.
     m_seq (case a_parse_complete_callback app of
              Some f \<Rightarrow> m_when (\<not> final_mode) (on_vars f) | None \<Rightarrow> m_return ())
     (m_seq (m_each (\<lambda>s. m_bind (get_app s) (\<lambda>subc.
               m_when (a_parent subc = Some a) (run_callback n s True suppress_final_callback)))
             (a_parsed_subcommands app))
     (m_seq (m_each (\<lambda>s. m_bind (get_app s) (\<lambda>subc.
               m_bind (if a_name subc = [] then count_all n s else m_return 0) (\<lambda>cnt.
                 m_when (cnt > 0) (run_callback n s True suppress_final_callback)))) (a_subcommands app))
     (case a_final_callback app of
        None \<Rightarrow> m_return ()
      | Some f \<Rightarrow>
          if a_parsed app > 0 \<and> \<not> suppress_final_callback then
            m_bind (count_all n a) (\<lambda>cnt.
              m_when (a_name app \<noteq> [] \<or> cnt > 0 \<or> a_parent app = None) (on_vars f))
          else m_return ()))))"

primrec process_callbacks :: "nat \<Rightarrow> app_ptr \<Rightarrow> CallbackPriority \<Rightarrow> ('v, unit) cli_m" where
  "process_callbacks 0 a priority = m_throw No_fuel"
| "process_callbacks (Suc n) a priority =
     m_bind (get_app a) (\<lambda>app.
     m_seq (m_each (\<lambda>s. m_bind (get_app s) (\<lambda>sub.
               if a_name sub = [] \<and> a_parse_complete_callback sub \<noteq> None then
                 m_bind (count_all n s) (\<lambda>cnt.
                   m_when (cnt > 0)
                     (m_seq (process_callbacks n s priority)
                       (m_when (priority = Normal) (run_callback n s False False))))
               else m_return ())) (a_subcommands app))
     (m_seq (m_each (\<lambda>p. m_bind (get_opt p) (\<lambda>opt.
               m_when (o_callback_priority opt = priority \<and> option_true opt \<and> o_state opt \<noteq> Opt_callback_run)
                 (run_option_callback p))) (a_options app))
     (m_each (\<lambda>s. m_bind (get_app s) (\<lambda>sub.
        m_when (a_parse_complete_callback sub = None) (process_callbacks n s priority))) (a_subcommands app))))"

text \<open>
  Help is thrown by the last parsed subcommand, which the flags of the applications above it
  reach as arguments; the help for all wins.
\<close>

definition triggered :: "opt_ptr option \<Rightarrow> CallbackPriority \<Rightarrow> ('v, bool) cli_m" where
  "triggered ptr priority =
     (case ptr of
        None \<Rightarrow> m_return False
      | Some p \<Rightarrow> m_bind (get_opt p) (\<lambda>opt. m_return (option_count opt > 0 \<and> o_callback_priority opt = priority)))"

primrec process_help_flags :: "nat \<Rightarrow> app_ptr \<Rightarrow> CallbackPriority \<Rightarrow> bool \<Rightarrow> bool \<Rightarrow> ('v, unit) cli_m" where
  "process_help_flags 0 a priority trigger_help trigger_all_help = m_throw No_fuel"
| "process_help_flags (Suc n) a priority trigger_help trigger_all_help =
     m_bind (get_app a) (\<lambda>app.
     m_bind (triggered (a_help_ptr app) priority) (\<lambda>help.
     m_bind (triggered (a_help_all_ptr app) priority) (\<lambda>help_all.
       (let trigger_help = (trigger_help \<or> help); trigger_all_help = (trigger_all_help \<or> help_all) in
        if a_parsed_subcommands app \<noteq> [] then
          m_each (\<lambda>s. process_help_flags n s priority trigger_help trigger_all_help) (a_parsed_subcommands app)
        else if trigger_all_help then m_throw CallForAllHelp
        else if trigger_help then m_throw CallForHelp
        else m_return ()))))"

section \<open>Environment\<close>

primrec process_env :: "nat \<Rightarrow> app_ptr \<Rightarrow> ('v, unit) cli_m" where
  "process_env 0 a = m_throw No_fuel"
| "process_env (Suc n) a =
     m_bind (get_app a) (\<lambda>app.
     m_seq (m_each (\<lambda>p. m_bind (get_opt p) (\<lambda>opt.
              if option_count opt = 0 \<and> o_envname opt \<noteq> [] then
                m_bind (get_environment_value (o_envname opt)) (\<lambda>ename_string.
                  if ename_string \<noteq> [] then
                    m_bind (m_lift (option_validate opt ename_string 0)) (\<lambda>(result, _).
                      m_when (result = []) (upd_opt p (add_result ename_string)))
                  else m_return ())
              else m_return ())) (a_options app))
     (m_each (\<lambda>s. m_bind (get_app s) (\<lambda>sub.
        if a_name sub = [] then process_env n s
        else
          m_bind (count_all n s) (\<lambda>cnt.
            m_when (cnt > 0 \<and> a_parse_complete_callback sub = None) (process_env n s)))) (a_subcommands app)))"

section \<open>Requirements\<close>

text \<open>
  The last of the given options and subcommands that counts as used, or as missing: an option
  with its name, an application with its display name.
\<close>

definition last_option :: "(nat \<Rightarrow> bool) \<Rightarrow> opt_ptr list \<Rightarrow> ('v, string option) cli_m" where
  "last_option hit ps =
     m_bind (get_opts ps) (\<lambda>opts.
       m_return (fold (\<lambda>opt found. if hit (option_count opt) then Some (opt_name opt) else found) opts None))"

definition last_app :: "nat \<Rightarrow> (nat \<Rightarrow> bool) \<Rightarrow> app_ptr list \<Rightarrow> ('v, string option) cli_m" where
  "last_app n hit as =
     m_bind (m_map (\<lambda>s. m_bind (count_all n s) (\<lambda>cnt. m_bind (get_app s) (\<lambda>app.
               m_return (cnt, get_display_name False app)))) as) (\<lambda>found.
       m_return (fold (\<lambda>(cnt, name) found. if hit cnt then Some name else found) found None))"

definition last_of :: "nat \<Rightarrow> (nat \<Rightarrow> bool) \<Rightarrow> opt_ptr list \<Rightarrow> app_ptr list \<Rightarrow> ('v, string option) cli_m" where
  "last_of n hit ps as =
     m_bind (last_option hit ps) (\<lambda>o1. m_bind (last_app n hit as) (\<lambda>a1.
       m_return (case a1 of Some name \<Rightarrow> Some name | None \<Rightarrow> o1)))"

text \<open>The checks of one option: it is required, and what it needs and excludes.\<close>

definition option_requirements :: "opt_ptr \<Rightarrow> ('v, unit) cli_m" where
  "option_requirements p =
     m_bind (get_opt p) (\<lambda>opt.
     m_seq (m_when (o_required opt \<and> option_count opt = 0) (m_throw (RequiredError (opt_name opt))))
     (m_seq (m_bind (get_opts (o_needs opt)) (\<lambda>reqs.
              m_each (\<lambda>opt_req. m_when (option_count opt > 0 \<and> option_count opt_req = 0)
                 (m_throw (RequiresError (opt_name opt) (opt_name opt_req)))) reqs))
     (m_bind (get_opts (o_excludes opt)) (\<lambda>exs.
        m_each (\<lambda>opt_ex. m_when (option_count opt > 0 \<and> option_count opt_ex \<noteq> 0)
          (m_throw (ExcludesError (opt_name opt) (opt_name opt_ex)))) exs))))"

text \<open>The number of options used, nameless subcommands included, against the limits.\<close>

definition used_groups :: "nat \<Rightarrow> app_ptr \<Rightarrow> ('v, nat) cli_m" where
  "used_groups n a =
     m_bind (subcommands a) (\<lambda>subs.
     m_bind (m_map (\<lambda>(s, sub). count_all n s) (filter (\<lambda>(s, sub). \<not> a_disabled sub \<and> a_name sub = []) subs)) (\<lambda>cnts.
       m_return (length (filter (\<lambda>cnt. cnt > 0) cnts))))"

definition option_number_error :: "app_ptr \<Rightarrow> nat \<Rightarrow> ('v, unit) cli_m" where
  "option_number_error a used_options =
     m_bind (get_app a) (\<lambda>app.
     m_bind (own_options a) (\<lambda>opts.
     m_bind (subcommands a) (\<lambda>subs.
       (let option_list = join_with opts (\<lambda>(p, opt).
              if a_help_ptr app = Some p \<or> a_help_all_ptr app = Some p then [] else get_name opt False True False) '','';
            subc_list = filter (\<lambda>(s, sub). a_name sub = [] \<and> \<not> a_disabled sub) subs;
            names = (if subc_list = [] then option_list
                     else option_list @ '','' @ join_with subc_list (\<lambda>(s, sub). get_display_name False sub) '','')
        in m_throw (RequiredError_Option (a_require_option_min app) (a_require_option_max app) used_options names)))))"

definition number_requirements :: "nat \<Rightarrow> app_ptr \<Rightarrow> nat \<Rightarrow> ('v, unit) cli_m" where
  "number_requirements n a used_options =
     m_bind (get_app a) (\<lambda>app.
       m_when (a_require_option_min app > used_options
               \<or> a_require_option_max app > 0 \<and> a_require_option_max app < used_options)
         (option_number_error a used_options))"

text \<open>A nameless subcommand that was not used is not checked when the limits are met without it.\<close>

definition skip_group :: "'v app \<Rightarrow> nat \<Rightarrow> 'v app \<Rightarrow> nat \<Rightarrow> bool" where
  "skip_group app used_options sub cnt \<longleftrightarrow>
     a_name sub = [] \<and> \<not> a_required sub \<and> cnt = 0
     \<and> (a_require_option_min app > 0 \<and> a_require_option_min app \<le> used_options
        \<or> a_require_option_max app > 0 \<and> used_options \<ge> a_require_option_min app)"

primrec process_requirements :: "nat \<Rightarrow> app_ptr \<Rightarrow> ('v, unit) cli_m" where
  "process_requirements 0 a = m_throw No_fuel"
| "process_requirements (Suc n) a =
     m_bind (get_app a) (\<lambda>app.
     m_bind (last_of n (\<lambda>cnt. cnt > 0) (a_exclude_options app) (a_exclude_subcommands app)) (\<lambda>excluder.
     m_bind (count_all n a) (\<lambda>total.
     (case excluder of
        Some name \<Rightarrow> m_when (total > 0) (m_throw (ExcludesError (get_display_name False app) name))
      | None \<Rightarrow>
     m_bind (last_of n (\<lambda>cnt. cnt = 0) (a_need_options app) (a_need_subcommands app)) (\<lambda>missing_need.
     (case missing_need of
        Some name \<Rightarrow> m_when (total > 0) (m_throw (RequiresError (get_display_name False app) name))
      | None \<Rightarrow>
     m_seq (m_each option_requirements (a_options app))
     (m_seq (m_when (a_require_subcommand_min app > length (a_parsed_subcommands app))
               (m_throw (RequiredError_Subcommand (a_require_subcommand_min app))))
     (m_bind (own_options a) (\<lambda>opts.
      m_bind (used_groups n a) (\<lambda>groups.
       (let used_options = length (filter (\<lambda>(p, opt). option_count opt \<noteq> 0) opts) + groups in
        m_seq (number_requirements n a used_options)
        (m_each (\<lambda>s. m_bind (get_app s) (\<lambda>sub. m_bind (count_all n s) (\<lambda>cnt.
           if a_disabled sub \<or> skip_group app used_options sub cnt then m_return ()
           else
             m_seq (m_when (a_parsed sub > 0 \<or> a_name sub = []) (process_requirements n s))
               (m_when (a_required sub \<and> cnt = 0) (m_throw (RequiredError (get_display_name False sub)))))))
           (a_subcommands app)))))))))))))"

section \<open>Configuration items\<close>

text \<open>
  \<^verbatim>\<open>_add_flag_like_result\<close>: whether the item was used up. Inputs with an unknown value stop
  after those before them were added.
\<close>

definition known_flag_value :: "'v opt \<Rightarrow> string \<Rightarrow> bool" where
  "known_flag_value opt res \<longleftrightarrow>
     (if o_default_flag_values opt = [] then res \<in> set [''true'', ''false'', ''1'', ''0'']
      else res \<in> set (map snd (o_default_flag_values opt)))"

definition single_flag_result :: "'v opt \<Rightarrow> config_item \<Rightarrow> cli_exn + string" where
  "single_flag_result opt item =
     (case to_flag item of
        Inl e \<Rightarrow> Inl e
      | Inr res \<Rightarrow>
          if o_disable_flag_override opt \<and> fst (to_flag_value res) = 1 then get_flag_value opt (cfg_name item) ''{}''
          else if res \<noteq> ''{}'' \<or> o_expected_max opt \<le> 1 then get_flag_value opt (cfg_name item) res
          else Inr res)"

definition add_flag_like_result :: "opt_ptr \<Rightarrow> config_item \<Rightarrow> string list \<Rightarrow> ('v, bool) cli_m" where
  "add_flag_like_result p item inputs =
     m_bind (get_opt p) (\<lambda>opt.
       if length (cfg_inputs item) \<le> 1 then
         m_bind (m_lift (single_flag_result opt item)) (\<lambda>res.
           m_seq (upd_opt p (add_result res)) (m_return True))
       else if int (length inputs) > get_items_expected_max opt
               \<and> o_multi_option_policy opt \<noteq> TakeAll \<and> o_multi_option_policy opt \<noteq> Join then
         if get_items_expected_max opt > 1 then
           m_throw (AtMost (fullname item) (get_items_expected_max opt) (length inputs))
         else if \<not> o_disable_flag_override opt then m_throw (TooManyInputsFlag (fullname item))
         else
           m_seq (m_each (\<lambda>res.
                    if known_flag_value opt res then upd_opt p (add_result res)
                    else m_throw (InvalidError ''invalid flag argument given'')) inputs)
             (m_return True)
       else m_return False)"

text \<open>The option an item of the configuration means.\<close>

definition config_option :: "nat \<Rightarrow> app_ptr \<Rightarrow> string \<Rightarrow> ('v, opt_ptr option) cli_m" where
  "config_option n a name =
     m_bind (get_option_no_throw n a (''--'' @ name)) (\<lambda>op1.
     m_bind (case op1 of
         None \<Rightarrow>
           m_bind (if length name = 1 then get_option_no_throw n a (''-'' @ name) else m_return None) (\<lambda>op2.
             if op2 \<noteq> None then m_return op2 else get_option_no_throw n a name)
       | Some p \<Rightarrow>
           m_bind (get_opt p) (\<lambda>opt.
             if \<not> o_configurable opt \<and> length name = 1 then
               m_bind (get_option_no_throw n a (''-'' @ name)) (\<lambda>testop.
                 (case testop of
                    None \<Rightarrow> m_return op1
                  | Some q \<Rightarrow> m_bind (get_opt q) (\<lambda>topt. m_return (if o_configurable topt then testop else op1))))
             else m_return op1)) (\<lambda>op3.
     m_bind (case op3 of None \<Rightarrow> m_return False | Some p \<Rightarrow> m_bind (get_opt p) (\<lambda>opt. m_return (o_configurable opt)))
       (\<lambda>usable.
        if usable then m_return op3
        else
          m_bind (get_options False (\<lambda>p opt. o_configurable opt
                    \<and> (check_name opt name \<or> check_lname opt name \<or> check_sname opt name)) n a) (\<lambda>options.
            m_return (if options \<noteq> [] then Some (fst (hd options)) else op3)))))"

text \<open>A section of a configuration file is a subcommand: its callbacks run when it is closed.\<close>

definition close_section :: "nat \<Rightarrow> app_ptr \<Rightarrow> ('v, unit) cli_m" where
  "close_section n a =
     m_seq (m_each (process_callbacks n a) [FirstPreHelp, First, PreRequirementsCheckPreHelp, PreRequirementsCheck])
     (m_seq (process_requirements n a)
     (m_seq (m_each (process_callbacks n a) [NormalPreHelp, Normal, LastPreHelp, Last])
     (run_callback n a False False)))"

definition config_result :: "opt_ptr \<Rightarrow> config_item \<Rightarrow> ('v, unit) cli_m" where
  "config_result p item =
     m_bind (get_opt p) (\<lambda>opt.
       if option_count opt = 0 then
         (let inputs = (if cfg_multiline item \<and> \<not> o_inject_separator opt
                        then filter (\<lambda>s. s \<noteq> ''%%'') (cfg_inputs item) else cfg_inputs item)
          in m_bind (if o_expected_min opt = 0 then add_flag_like_result p item inputs else m_return False) (\<lambda>added.
               if added then m_return ()
               else m_seq (upd_opt p (add_results inputs)) (run_option_callback p)))
       else m_return ())"

definition config_here :: "nat \<Rightarrow> app_ptr \<Rightarrow> config_item \<Rightarrow> ('v, bool) cli_m" where
  "config_here n a item =
     m_bind (get_app a) (\<lambda>app.
       if cfg_name item = ''++'' then
         if a_configurable app then
           m_seq (increment_parsed n a)
           (m_seq (trigger_pre_parse n a 2)
           (m_seq (case a_parent app of
                     None \<Rightarrow> m_return ()
                   | Some parent \<Rightarrow>
                       upd_app parent (\<lambda>p. p\<lparr>a_parsed_subcommands := a_parsed_subcommands p @ [a]\<rparr>))
             (m_return True)))
         else m_return True
       else if cfg_name item = ''--'' then
         m_seq (m_when (a_configurable app \<and> a_parse_complete_callback app \<noteq> None) (close_section n a))
           (m_return True)
       else
         m_bind (config_option n a (cfg_name item)) (\<lambda>op.
           (case op of
              None \<Rightarrow>
                m_seq (m_when (a_allow_config_extras app = CM_Capture)
                         (upd_app a (\<lambda>app. app\<lparr>a_missing := a_missing app @ (CL_NONE, fullname item)
                                                  # map (Pair CL_NONE) (cfg_inputs item)\<rparr>)))
                  (m_return False)
            | Some p \<Rightarrow>
                m_bind (get_opt p) (\<lambda>opt.
                  if \<not> o_configurable opt then
                    if a_allow_config_extras app = CM_IgnoreAll then m_return False
                    else m_throw (NotConfigurable (fullname item))
                  else m_seq (config_result p item) (m_return True)))))"

primrec parse_single_config :: "nat \<Rightarrow> app_ptr \<Rightarrow> config_item \<Rightarrow> nat \<Rightarrow> ('v, bool) cli_m" where
  "parse_single_config 0 a item level = m_throw No_fuel"
| "parse_single_config (Suc n) a item level =
     (if level < length (cfg_parents item) then
        m_bind (find_subcommand n a (cfg_parents item ! level) False False) (\<lambda>subcom.
          (case subcom of None \<Rightarrow> m_return False | Some s \<Rightarrow> parse_single_config n s item (level + 1)))
      else config_here n a item)"

definition parse_config :: "nat \<Rightarrow> app_ptr \<Rightarrow> config_item list \<Rightarrow> ('v, unit) cli_m" where
  "parse_config n a args =
     m_each (\<lambda>item.
       m_bind (parse_single_config n a item 0) (\<lambda>done.
       m_bind (get_app a) (\<lambda>app.
         m_when (\<not> done \<and> a_allow_config_extras app = CM_Error) (m_throw (ConfigError_Extras (fullname item)))))) args"

section \<open>The configuration file\<close>

definition is_FileError :: "cli_exn \<Rightarrow> bool" where
  "is_FileError e \<longleftrightarrow> (case e of Cli err \<Rightarrow> error_class err = C_FileError | _ \<Rightarrow> False)"

definition process_one_config_file :: "nat \<Rightarrow> app_ptr \<Rightarrow> string \<Rightarrow> bool \<Rightarrow> ('v, bool) cli_m" where
  "process_one_config_file n a config_file throw_error =
     m_bind (m_gets w_env) (\<lambda>env.
       if env_check_path env config_file = Path_file then
         m_catch
           (m_bind (get_app a) (\<lambda>app.
            m_bind (m_lift (from_file (a_config_formatter app) (env_read_file env) config_file)) (\<lambda>values.
            m_seq (parse_config n a values) (m_return True))))
           (\<lambda>e. if is_FileError e \<and> \<not> throw_error then m_return False else m_throw e)
       else if throw_error then m_throw (FileError_Missing config_file)
       else m_return False)"

definition as_strings :: "opt_ptr \<Rightarrow> ('v, string list) cli_m" where
  "as_strings p =
     m_bind (m_gets w_env) (\<lambda>env. m_bind (get_opt p) (\<lambda>opt.
     m_bind (m_lift (results_as (env_sum_strings env)
               (lexical_conversion_container (\<lambda>s. lexical_assign lexical_cast_string [] s [])) opt)) (\<lambda>(out, opt').
     m_seq (upd_opt p (\<lambda>_. opt')) (m_return out))))"

definition process_config_file :: "nat \<Rightarrow> app_ptr \<Rightarrow> ('v, unit) cli_m" where
  "process_config_file n a =
     m_bind (get_app a) (\<lambda>app.
     (case a_config_ptr app of
        None \<Rightarrow> m_return ()
      | Some p \<Rightarrow>
          m_bind (get_opt p) (\<lambda>opt.
            (let config_required = o_required opt; file_given = (option_count opt > 0) in
             m_seq (if file_given \<or> o_envname opt = [] then m_return ()
                    else
                      m_bind (get_environment_value (o_envname opt)) (\<lambda>ename_string.
                        m_when (ename_string \<noteq> []) (upd_opt p (add_result ename_string))))
             (m_seq (run_option_callback p)
             (m_bind (as_strings p) (\<lambda>config_files.
               if config_files = [] \<or> hd config_files = [] then
                 m_when config_required (m_throw (FileError ''config file is required but none was given''))
               else
                 m_bind (m_map (\<lambda>config_file.
                           process_one_config_file n a config_file (config_required \<or> file_given)) config_files) (\<lambda>used.
                   if file_given \<or> True \<in> set used then m_return ()
                   else
                     m_seq (upd_opt p option_clear)
                     (m_bind (get_opt p) (\<lambda>opt.
                      m_seq (upd_opt p (\<lambda>opt. opt\<lparr>o_force_callback := False\<rparr>))
                      (m_seq (run_option_callback p)
                      (upd_opt p (\<lambda>opt'. opt'\<lparr>o_force_callback := o_force_callback opt\<rparr>)))))))))))))"

section \<open>After the arguments\<close>

text \<open>
  \<^verbatim>\<open>_process\<close>: an error of the configuration file waits until help, version and the
  requirements had their turn.
\<close>

definition config_stage :: "nat \<Rightarrow> app_ptr \<Rightarrow> ('v, cli_exn option) cli_m" where
  "config_stage n a =
     m_catch (m_seq (process_config_file n a) (m_seq (process_env n a) (m_return None)))
       (\<lambda>e. if is_FileError e then m_return (Some e) else m_throw e)"

text \<open>The steps of one priority: callbacks, help flags, callbacks.\<close>

definition priority_steps :: "nat \<Rightarrow> app_ptr \<Rightarrow> CallbackPriority \<Rightarrow> CallbackPriority \<Rightarrow> ('v, unit) cli_m" where
  "priority_steps n a before priority =
     m_seq (process_callbacks n a before)
     (m_seq (process_help_flags n a priority False False)
     (process_callbacks n a priority))"

definition app_process :: "nat \<Rightarrow> app_ptr \<Rightarrow> ('v, unit) cli_m" where
  "app_process n a =
     m_seq (priority_steps n a FirstPreHelp First)
     (m_bind (config_stage n a) (\<lambda>config_exception.
     m_seq (priority_steps n a PreRequirementsCheckPreHelp PreRequirementsCheck)
     (m_seq (process_requirements n a)
     (m_seq (priority_steps n a NormalPreHelp Normal)
     (m_seq (case config_exception of Some e \<Rightarrow> m_throw e | None \<Rightarrow> m_return ())
     (priority_steps n a LastPreHelp Last))))))"

text \<open>The same for a subcommand that runs its callback as soon as it is complete.\<close>

definition complete_subcommand :: "nat \<Rightarrow> app_ptr \<Rightarrow> ('v, unit) cli_m" where
  "complete_subcommand n a =
     m_seq (priority_steps n a FirstPreHelp First)
     (m_seq (process_env n a)
     (m_seq (priority_steps n a PreRequirementsCheckPreHelp PreRequirementsCheck)
     (m_seq (process_requirements n a)
     (m_seq (priority_steps n a NormalPreHelp Normal)
     (m_seq (priority_steps n a LastPreHelp Last)
     (run_callback n a False True))))))"

primrec process_extras :: "nat \<Rightarrow> app_ptr \<Rightarrow> ('v, unit) cli_m" where
  "process_extras 0 a = m_throw No_fuel"
| "process_extras (Suc n) a =
     m_bind (get_app a) (\<lambda>app.
     m_seq (if a_allow_extras app = EM_Error \<and> a_prefix_command app \<noteq> PM_On then
              m_bind (remaining_size n False a) (\<lambda>num_left_over.
                if num_left_over > 0 then
                  m_bind (remaining n False a) (\<lambda>left.
                    m_when (a_prefix_command app = PM_Off \<or> hd left \<noteq> ''--'') (m_throw (ExtrasError_in (a_name app) left)))
                else m_return ())
            else m_return ())
     (m_each (\<lambda>s. m_bind (get_app s) (\<lambda>sub. m_when (a_parsed sub > 0) (process_extras n s))) (a_subcommands app)))"

section \<open>Arguments that are not expected\<close>

definition capture_extras :: "ExtrasMode \<Rightarrow> bool" where
  "capture_extras mode \<longleftrightarrow> mode = EM_Capture \<or> mode = EM_AssumeSingleArgument \<or> mode = EM_AssumeMultipleArguments"

definition add_missing :: "app_ptr \<Rightarrow> Classifier \<Rightarrow> string \<Rightarrow> ('v, unit) cli_m" where
  "add_missing a val_type val = upd_app a (\<lambda>app. app\<lparr>a_missing := a_missing app @ [(val_type, val)]\<rparr>)"

definition move_to_missing :: "app_ptr \<Rightarrow> Classifier \<Rightarrow> string \<Rightarrow> ('v, unit) cli_m" where
  "move_to_missing a val_type val =
     m_bind (get_app a) (\<lambda>app.
     m_bind (subcommands a) (\<lambda>subs.
       if a_allow_extras app = EM_ErrorImmediately then m_throw (ExtrasError_in (a_name app) [val])
       else if capture_extras (a_allow_extras app) \<or> subs = [] \<or> a_prefix_command app \<noteq> PM_Off then
         m_when (a_allow_extras app \<noteq> EM_Ignore) (add_missing a val_type val)
       else
         (case find (\<lambda>(s, subc). a_name subc = [] \<and> capture_extras (a_allow_extras subc)) subs of
            Some (s, _) \<Rightarrow> add_missing s val_type val
          | None \<Rightarrow> m_when (a_allow_extras app \<noteq> EM_Ignore) (add_missing a val_type val))))"

text \<open>All arguments that are left become extras.\<close>

definition drain_args :: "app_ptr \<Rightarrow> ('v, unit) cli_m" where
  "drain_args a =
     m_bind (m_gets w_args) (\<lambda>args.
     m_seq (m_each (add_missing a CL_NONE) (rev args)) (m_modify (\<lambda>w. w\<lparr>w_args := []\<rparr>)))"

end
