(* ===== verification/Cli_Parse.thy ===== *)
theory Cli_Parse
  imports Cli_Process
begin

text \<open>
  The parser of \<^verbatim>\<open>App\<close>: arguments are taken from the end of the shared vector until it is
  empty. The parsing functions call each other, on the same application, its subcommands and
  its parent; each is a definition that gets all of them as an argument, and \<open>run_call\<close> ties
  them together with fuel for the depth of the calls.
\<close>

section \<open>Calls\<close>

datatype call =
    Call_parse app_ptr
  | Call_loop app_ptr bool
  | Call_subcommand app_ptr
  | Call_positional app_ptr bool
  | Call_arg app_ptr Classifier bool

type_synonym 'v calls = "call \<Rightarrow> ('v, bool) cli_m"

text \<open>The vector of arguments; \<^verbatim>\<open>args.back()\<close> is only read when there is one.\<close>

definition args_size :: "('v, nat) cli_m" where
  "args_size = m_gets (\<lambda>w. length (w_args w))"

definition args_back :: "('v, string) cli_m" where
  "args_back = m_gets (\<lambda>w. last (w_args w))"

definition args_pop :: "('v, unit) cli_m" where
  "args_pop = m_modify (\<lambda>w. w\<lparr>w_args := butlast (w_args w)\<rparr>)"

definition args_push :: "string \<Rightarrow> ('v, unit) cli_m" where
  "args_push s = m_modify (\<lambda>w. w\<lparr>w_args := w_args w @ [s]\<rparr>)"

definition parsed_option :: "app_ptr \<Rightarrow> opt_ptr \<Rightarrow> ('v, unit) cli_m" where
  "parsed_option a p = upd_app a (\<lambda>app. app\<lparr>a_parse_order := a_parse_order app @ [p]\<rparr>)"

definition parsed_subcommand :: "app_ptr \<Rightarrow> app_ptr \<Rightarrow> ('v, unit) cli_m" where
  "parsed_subcommand a com =
     m_bind (get_app com) (\<lambda>capp.
       m_when (\<not> a_silent capp) (upd_app a (\<lambda>app. app\<lparr>a_parsed_subcommands := a_parsed_subcommands app @ [com]\<rparr>)))"

text \<open>A nameless subcommand took the argument.\<close>

definition group_took :: "nat \<Rightarrow> app_ptr \<Rightarrow> ('v, unit) cli_m" where
  "group_took n s =
     m_bind (get_app s) (\<lambda>subc. m_bind args_size (\<lambda>k.
       m_when (\<not> a_pre_parse_called subc) (trigger_pre_parse n s k)))"

text \<open>The nameless subcommands are asked in order, until one takes the argument.\<close>

definition groups_take :: "(app_ptr \<Rightarrow> ('v, bool) cli_m) \<Rightarrow> nat \<Rightarrow> app_ptr \<Rightarrow> ('v, bool) cli_m" where
  "groups_take ask n a =
     m_bind (subcommands a) (\<lambda>subs.
     m_bind (m_first (\<lambda>(s, subc).
               m_bind (ask s) (\<lambda>took. if took then m_seq (group_took n s) (m_return (Some ())) else m_return None))
              (filter (\<lambda>(s, subc). a_name subc = [] \<and> \<not> a_disabled subc) subs)) (\<lambda>found.
       m_return (found \<noteq> None)))"

section \<open>Positionals\<close>

text \<open>The positional option that takes the argument: a required one at the end, else the next with room.\<close>

definition accepts_positional :: "bool \<Rightarrow> string \<Rightarrow> opt_ptr \<times> 'v opt \<Rightarrow> ('v, opt_ptr option) cli_m" where
  "accepts_positional validate positional = (\<lambda>(p, opt).
     if validate then
       m_bind (m_lift (option_validate opt positional 0)) (\<lambda>(pos, _).
         m_return (if pos = [] then Some p else None))
     else m_return (Some p))"

definition required_positional :: "app_ptr \<Rightarrow> string \<Rightarrow> ('v, opt_ptr option) cli_m" where
  "required_positional a positional =
     m_bind (get_app a) (\<lambda>app. m_bind args_size (\<lambda>arg_rem. m_bind (count_remaining_positionals True a) (\<lambda>remreq.
       if a_positionals_at_end app \<and> arg_rem \<le> remreq then
         m_bind (own_options a) (\<lambda>opts.
           m_first (accepts_positional (a_validate_positionals app) positional)
             (filter (\<lambda>(p, opt). get_positional opt \<and> o_required opt
                                   \<and> int (option_count opt) < get_items_expected_min opt) opts))
       else m_return None)))"

definition next_positional :: "app_ptr \<Rightarrow> string \<Rightarrow> ('v, opt_ptr option) cli_m" where
  "next_positional a positional =
     m_bind (get_app a) (\<lambda>app. m_bind (own_options a) (\<lambda>opts.
       m_first (accepts_positional (a_validate_positionals app) positional)
         (filter (\<lambda>(p, opt). get_positional opt
                   \<and> (int (option_count opt) < get_items_expected_max opt \<or> o_allow_extra_args opt)) opts)))"

definition separate_results :: "opt_ptr \<Rightarrow> ('v, unit) cli_m" where
  "separate_results p =
     m_bind (get_opt p) (\<lambda>opt.
       m_when (o_inject_separator opt \<and> o_results opt \<noteq> [] \<and> last (o_results opt) \<noteq> []) (upd_opt p (add_result [])))"

definition take_positional :: "app_ptr \<Rightarrow> opt_ptr \<Rightarrow> string \<Rightarrow> ('v, unit) cli_m" where
  "take_positional a p positional =
     m_seq (parsed_option a p)
     (m_seq (separate_results p)
     (m_bind (get_opt p) (\<lambda>opt.
       (let again = (o_trigger_on_result opt \<and> o_state opt = Opt_callback_run);
            item = \<lparr>cfg_parents = [], cfg_name = o_pname opt, cfg_inputs = [positional], cfg_multiline = False\<rparr>
        in
        m_seq (m_when again (upd_opt p option_clear))
        (m_seq (if o_expected_min opt = 0 then m_bind (add_flag_like_result p item [positional]) (\<lambda>_. m_return ())
                else upd_opt p (add_result positional))
        (m_seq (m_bind (get_opt p) (\<lambda>opt'.
                  if o_trigger_on_result opt' then
                    if option_count opt' > 0 then run_option_callback p
                    else m_when (again \<and> o_results opt \<noteq> []) (upd_opt p (add_results (o_results opt)))
                  else m_return ()))
        args_pop))))))"

text \<open>No positional option takes it: groups, the parent, a repeated subcommand, and then the extras.\<close>

definition room_for_subcommand :: "'v app \<Rightarrow> bool" where
  "room_for_subcommand app \<longleftrightarrow>
     a_require_subcommand_max app = 0 \<or> a_require_subcommand_max app > length (a_parsed_subcommands app)"

definition broader_subcommand :: "nat \<Rightarrow> app_ptr \<Rightarrow> ('v, bool) cli_m" where
  "broader_subcommand n a =
     m_bind args_back (\<lambda>arg. m_bind (name_base n a) (\<lambda>parent_app.
     m_bind (find_subcommand n parent_app arg True False) (\<lambda>com.
       (case com of
          None \<Rightarrow> m_return False
        | Some c \<Rightarrow>
            m_bind (get_app c) (\<lambda>capp.
              (case a_parent capp of
                 None \<Rightarrow> m_throw (Std (Undefined ''parent of a subcommand is null''))
               | Some parent \<Rightarrow> m_bind (get_app parent) (\<lambda>papp. m_return (room_for_subcommand papp))))))))"

definition extra_positional :: "app_ptr \<Rightarrow> string \<Rightarrow> ('v, bool) cli_m" where
  "extra_positional a positional =
     m_bind (get_app a) (\<lambda>app.
       if a_positionals_at_end app then
         m_bind (m_gets w_args) (\<lambda>args. m_throw (ExtrasError_in (a_name app) (rev args)))
       else if a_parent app \<noteq> None \<and> a_name app = [] then m_return False
       else
         m_seq (move_to_missing a CL_NONE positional)
         (m_seq args_pop
         (m_seq (m_when (a_prefix_command app \<noteq> PM_Off) (drain_args a))
         (m_return True))))"

definition positional_elsewhere :: "'v calls \<Rightarrow> nat \<Rightarrow> app_ptr \<Rightarrow> bool \<Rightarrow> string \<Rightarrow> ('v, bool) cli_m" where
  "positional_elsewhere calls n a haltOnSubcommand positional =
     m_bind (groups_take (\<lambda>s. calls (Call_positional s False)) n a) (\<lambda>took.
     if took then m_return True
     else
     m_bind (get_app a) (\<lambda>app.
     if a_parent app \<noteq> None \<and> a_fallthrough app then
       m_bind (get_fallthrough_parent n a) (\<lambda>parent.
         calls (Call_positional (the parent) (a_parse_complete_callback app \<noteq> None)))
     else
     m_bind (find_subcommand n a positional True False) (\<lambda>com.
     if com \<noteq> None \<and> room_for_subcommand app then
       if haltOnSubcommand then m_return False
       else m_seq args_pop (m_bind (calls (Call_parse (the com))) (\<lambda>_. m_return True))
     else
     m_bind (if a_subcommand_fallthrough app then broader_subcommand n a else m_return False) (\<lambda>broader.
     if broader then m_return False else extra_positional a positional))))"

definition parse_positional :: "'v calls \<Rightarrow> nat \<Rightarrow> app_ptr \<Rightarrow> bool \<Rightarrow> ('v, bool) cli_m" where
  "parse_positional calls n a haltOnSubcommand =
     m_bind args_back (\<lambda>positional.
     m_bind (required_positional a positional) (\<lambda>req.
     m_bind (if req \<noteq> None then m_return req else next_positional a positional) (\<lambda>posOpt.
       (case posOpt of
          Some p \<Rightarrow> m_seq (take_positional a p positional) (m_return True)
        | None \<Rightarrow> positional_elsewhere calls n a haltOnSubcommand positional))))"

section \<open>Subcommands\<close>

text \<open>The subcommand was found in a nameless one: those in between have parsed it too.\<close>

primrec climb :: "nat \<Rightarrow> app_ptr \<Rightarrow> app_ptr \<Rightarrow> app_ptr option \<Rightarrow> nat \<Rightarrow> ('v, unit) cli_m" where
  "climb 0 this com parent_app k = m_throw No_fuel"
| "climb (Suc n) this com parent_app k =
     (case parent_app of
        None \<Rightarrow> m_throw (Std (Undefined ''no path to the application''))
      | Some q \<Rightarrow>
          if q = this then m_return ()
          else
            m_seq (trigger_pre_parse n q k)
            (m_seq (parsed_subcommand q com)
            (m_bind (get_app q) (\<lambda>qapp. climb n this com (a_parent qapp) k))))"

definition dotted_subcommand :: "nat \<Rightarrow> app_ptr \<Rightarrow> string \<Rightarrow> ('v, app_ptr option) cli_m" where
  "dotted_subcommand n a arg =
     (case find_first_of arg ''.'' of
        None \<Rightarrow> m_return None
      | Some dotloc \<Rightarrow>
          m_bind (find_subcommand n a (take dotloc arg) True True) (\<lambda>com.
            (case com of
               None \<Rightarrow> m_return None
             | Some c \<Rightarrow>
                 m_bind (get_app c) (\<lambda>capp.
                 m_seq args_pop
                 (m_seq (args_push (drop (dotloc + 1) arg))
                 (m_seq (args_push (get_display_name False capp)) (m_return com)))))))"

definition parse_subcommand :: "'v calls \<Rightarrow> nat \<Rightarrow> app_ptr \<Rightarrow> ('v, bool) cli_m" where
  "parse_subcommand calls n a =
     m_bind (count_remaining_positionals True a) (\<lambda>required_left.
     if required_left > 0 then m_bind (calls (Call_positional a False)) (\<lambda>_. m_return True)
     else
     m_bind args_back (\<lambda>arg.
     m_bind (find_subcommand n a arg True True) (\<lambda>com1.
     m_bind (if com1 \<noteq> None then m_return com1 else dotted_subcommand n a arg) (\<lambda>com.
       (case com of
          Some c \<Rightarrow>
            m_seq args_pop
            (m_seq (parsed_subcommand a c)
            (m_bind (calls (Call_parse c)) (\<lambda>_.
             m_bind (get_app c) (\<lambda>capp. m_bind args_size (\<lambda>k.
             m_seq (climb n a c (a_parent capp) k) (m_return True))))))
        | None \<Rightarrow>
            m_bind (get_app a) (\<lambda>app.
              if a_parent app = None then m_throw (HorribleError (''Subcommand '' @ arg @ '' missing''))
              else m_return False))))))"

section \<open>Options\<close>

text \<open>The argument taken apart: the name, the value after an equals sign, and what follows a short name.\<close>

definition split_arg :: "Classifier \<Rightarrow> string \<Rightarrow> cli_exn + (string \<times> string \<times> string)" where
  "split_arg current_type current =
     (case current_type of
        CL_LONG \<Rightarrow>
          (case split_long current of
             Some (arg_name, value) \<Rightarrow> Inr (arg_name, value, [])
           | None \<Rightarrow> Inl (HorribleError (''Long parsed but missing (you should not see this):'' @ current)))
      | CL_SHORT \<Rightarrow>
          (case split_short current of
             Some (arg_name, rest) \<Rightarrow> Inr (arg_name, [], rest)
           | None \<Rightarrow> Inl (HorribleError ''Short parsed but missing! You should not see this''))
      | CL_WINDOWS_STYLE \<Rightarrow>
          (case split_windows_style current of
             Some (arg_name, value) \<Rightarrow> Inr (arg_name, value, [])
           | None \<Rightarrow> Inl (HorribleError ''windows option parsed but missing! You should not see this''))
      | _ \<Rightarrow> Inl (HorribleError ''parsing got called with invalid option! You should not see this''))"

definition has_arg_name :: "Classifier \<Rightarrow> string \<Rightarrow> 'v opt \<Rightarrow> bool" where
  "has_arg_name current_type arg_name opt \<longleftrightarrow>
     (if current_type = CL_LONG then check_lname opt arg_name
      else if current_type = CL_SHORT then check_sname opt arg_name
      else check_lname opt arg_name \<or> check_sname opt arg_name)"

definition find_arg :: "app_ptr \<Rightarrow> ('v opt \<Rightarrow> bool) \<Rightarrow> ('v, opt_ptr option) cli_m" where
  "find_arg a named =
     m_bind (own_options a) (\<lambda>opts. m_return (map_option fst (find (\<lambda>(p, opt). named opt) opts)))"

text \<open>The numbers of strings an option takes.\<close>

definition arg_limits :: "'v opt \<Rightarrow> int \<times> int" where
  "arg_limits opt =
     (let max_num = get_items_expected_max opt in
      (min (o_type_size_min opt) (get_items_expected_min opt),
       if max_num \<ge> expected_max_vector_size div 16 \<and> \<not> o_allow_extra_args opt then
         (case checked_multiply (o_type_size_max opt) (o_expected_min opt) of
            (ok, tmax) \<Rightarrow> if ok then tmax else expected_max_vector_size)
       else max_num))"

definition add_counted :: "app_ptr \<Rightarrow> opt_ptr \<Rightarrow> string \<Rightarrow> ('v, int) cli_m" where
  "add_counted a p s =
     m_bind (get_opt p) (\<lambda>opt.
       (case add_result_count s opt of
          (result_count, opt') \<Rightarrow>
            m_seq (upd_opt p (\<lambda>_. opt')) (m_seq (parsed_option a p) (m_return result_count))))"

text \<open>The value in the argument itself: the number of results, and the rest that is left.\<close>

definition take_inline :: "app_ptr \<Rightarrow> opt_ptr \<Rightarrow> string \<Rightarrow> string \<Rightarrow> string \<Rightarrow> int \<Rightarrow> ('v, int \<times> string) cli_m" where
  "take_inline a p arg_name value rest max_num =
     (if max_num = 0 then
        m_bind (get_opt p) (\<lambda>opt.
        m_bind (m_lift (get_flag_value opt arg_name value)) (\<lambda>res.
        m_seq (upd_opt p (add_result res)) (m_seq (parsed_option a p) (m_return (0, rest)))))
      else if value \<noteq> [] then m_bind (add_counted a p value) (\<lambda>result_count. m_return (result_count, rest))
      else if rest \<noteq> [] then m_bind (add_counted a p rest) (\<lambda>result_count. m_return (result_count, []))
      else m_return (0, rest))"

text \<open>
  The loops over the arguments that follow; the first number is the length of the vector,
  which every step shortens.
\<close>

primrec gather_minimum :: "nat \<Rightarrow> app_ptr \<Rightarrow> opt_ptr \<Rightarrow> int \<Rightarrow> int \<Rightarrow> ('v, int) cli_m" where
  "gather_minimum 0 a p min_num collected = m_return collected"
| "gather_minimum (Suc k) a p min_num collected =
     (if min_num > collected then
        m_bind args_back (\<lambda>current.
        m_seq args_pop
        (m_bind (add_counted a p current) (\<lambda>result_count.
         gather_minimum k a p min_num (collected + result_count))))
      else m_return collected)"

primrec gather_optional :: "nat \<Rightarrow> nat \<Rightarrow> app_ptr \<Rightarrow> opt_ptr \<Rightarrow> int \<Rightarrow> nat \<Rightarrow> int \<Rightarrow> ('v, int) cli_m" where
  "gather_optional 0 n a p max_num remreqpos collected = m_return collected"
| "gather_optional (Suc k) n a p max_num remreqpos collected =
     m_bind (get_app a) (\<lambda>app. m_bind (get_opt p) (\<lambda>opt. m_bind args_back (\<lambda>arg.
       if collected < max_num \<or> o_allow_extra_args opt then
         m_bind (recognize n a arg False) (\<lambda>classifier.
           if classifier \<noteq> CL_NONE \<or> remreqpos \<ge> Suc k then m_return collected
           else
             m_bind (if a_validate_optional_arguments app then m_lift (option_validate opt arg 0)
                     else m_return ([], arg)) (\<lambda>(err, _).
               if err \<noteq> [] then m_return collected
               else
                 m_bind (add_counted a p arg) (\<lambda>result_count.
                 m_seq args_pop
                 (gather_optional k n a p max_num remreqpos (collected + result_count)))))
       else m_return collected)))"

definition eat_positional_mark :: "nat \<Rightarrow> app_ptr \<Rightarrow> ('v, unit) cli_m" where
  "eat_positional_mark n a =
     m_bind (m_gets w_args) (\<lambda>args.
       if args = [] then m_return ()
       else m_bind (recognize n a (last args) True) (\<lambda>classifier. m_when (classifier = CL_POSITIONAL_MARK) args_pop))"

definition take_following :: "nat \<Rightarrow> app_ptr \<Rightarrow> opt_ptr \<Rightarrow> string \<Rightarrow> int \<Rightarrow> int \<Rightarrow> int \<Rightarrow> ('v, int) cli_m" where
  "take_following n a p arg_name min_num max_num collected0 =
     m_bind args_size (\<lambda>k.
     m_bind (gather_minimum k a p min_num collected0) (\<lambda>collected.
     m_bind (get_opt p) (\<lambda>opt. m_bind (m_gets w_vars) (\<lambda>vars.
     m_seq (m_when (min_num > collected) (m_throw (TypedAtLeast (opt_name opt) min_num (get_type_name vars opt))))
     (if max_num > collected \<or> o_allow_extra_args opt then
        m_bind (count_remaining_positionals True a) (\<lambda>remreqpos.
        m_bind args_size (\<lambda>k'.
        m_bind (gather_optional k' n a p max_num remreqpos collected) (\<lambda>collected'.
        m_seq (eat_positional_mark n a)
        (m_seq (if min_num = 0 \<and> max_num > 0 \<and> collected' = 0 then
                  m_bind (get_opt p) (\<lambda>opt'.
                  m_bind (m_lift (get_flag_value opt' arg_name [])) (\<lambda>res.
                  m_seq (upd_opt p (add_result res)) (parsed_option a p)))
                else m_return ())
        (m_return collected')))))
      else m_return collected)))))"

definition close_partial :: "opt_ptr \<Rightarrow> int \<Rightarrow> int \<Rightarrow> ('v, unit) cli_m" where
  "close_partial p min_num collected =
     m_bind (get_opt p) (\<lambda>opt. m_bind (m_gets w_vars) (\<lambda>vars.
       if min_num > 0 \<and> collected mod o_type_size_max opt \<noteq> 0 then
         if o_type_size_max opt \<noteq> o_type_size_min opt then upd_opt p (add_result [])
         else m_throw (PartialType (opt_name opt) (o_type_size_min opt) (get_type_name vars opt))
       else m_return ()))"

definition arg_found :: "nat \<Rightarrow> app_ptr \<Rightarrow> opt_ptr \<Rightarrow> string \<Rightarrow> string \<Rightarrow> string \<Rightarrow> ('v, bool) cli_m" where
  "arg_found n a p arg_name value rest0 =
     m_seq args_pop
     (m_seq (separate_results p)
     (m_bind (get_opt p) (\<lambda>opt.
     m_seq (m_when (o_trigger_on_result opt \<and> o_state opt = Opt_callback_run) (upd_opt p option_clear))
     (case arg_limits opt of (min_num, max_num) \<Rightarrow>
        m_bind (take_inline a p arg_name value rest0 max_num) (\<lambda>(collected0, rest).
        m_bind (take_following n a p arg_name min_num max_num collected0) (\<lambda>collected.
        m_seq (close_partial p min_num collected)
        (m_seq (m_when (o_trigger_on_result opt) (run_option_callback p))
        (m_seq (m_when (rest \<noteq> []) (args_push (''-'' @ rest)))
        (m_return True)))))))))"

text \<open>
  Dot notation, \<^verbatim>\<open>--sub.name\<close>: the argument is rewritten for the subcommand. When that does not
  know it only one of the pushed strings is taken back, and the type stays the changed one.
\<close>

definition rewrite_dotted :: "string \<Rightarrow> nat \<Rightarrow> string \<Rightarrow> Classifier \<times> string list" where
  "rewrite_dotted v dotloc arg_name =
     (if length arg_name > 1 then (CL_LONG, [''--'' @ drop (dotloc + 3) v])
      else
        (let nval = CHR ''-'' # drop (dotloc + 3) v in
         if length nval > 2 then (CL_SHORT, [drop 3 nval, take 2 nval]) else (CL_SHORT, [nval])))"

definition second_char :: "string \<Rightarrow> char" where
  "second_char s = (if length s > 1 then s ! 1 else CHR 0x00)"

definition dotted_done :: "nat \<Rightarrow> app_ptr \<Rightarrow> app_ptr \<Rightarrow> ('v, unit) cli_m" where
  "dotted_done n a sub =
     m_seq (parsed_subcommand a sub)
     (m_seq (increment_parsed n a)
     (m_bind args_size (\<lambda>k.
      m_seq (trigger_pre_parse n a k)
      (m_bind (get_app sub) (\<lambda>sapp. m_when (a_parse_complete_callback sapp \<noteq> None) (complete_subcommand n sub))))))"

definition dot_notation :: "'v calls \<Rightarrow> nat \<Rightarrow> app_ptr \<Rightarrow> Classifier \<Rightarrow> string \<Rightarrow> ('v, bool \<times> Classifier) cli_m" where
  "dot_notation calls n a current_type arg_name =
     (case find_from (\<lambda>c. c = CHR ''.'') arg_name 1 of
        None \<Rightarrow> m_return (False, current_type)
      | Some dotloc \<Rightarrow>
          if \<not> dotloc < length arg_name - 1 then m_return (False, current_type)
          else
            m_bind (find_subcommand n a (take dotloc arg_name) True False) (\<lambda>sub.
              (case sub of
                 None \<Rightarrow> m_return (False, current_type)
               | Some s \<Rightarrow>
                   m_bind args_back (\<lambda>v.
                   (case rewrite_dotted v dotloc (drop (dotloc + 1) arg_name) of (new_type, pushed) \<Rightarrow>
                   m_seq args_pop
                   (m_seq (m_each args_push pushed)
                   (m_bind (if new_type = CL_SHORT \<and> valid_first_char (second_char (last pushed))
                               \<or> split_long (last pushed) \<noteq> None
                            then calls (Call_arg s new_type True) else m_return False) (\<lambda>val.
                      if val then m_seq (dotted_done n a s) (m_return (True, new_type))
                      else m_seq args_pop (m_seq (args_push v) (m_return (False, new_type)))))))))))"

text \<open>The extras a mode takes after an unknown option.\<close>

primrec assume_arguments :: "nat \<Rightarrow> nat \<Rightarrow> app_ptr \<Rightarrow> ('v, unit) cli_m" where
  "assume_arguments 0 n a = m_return ()"
| "assume_arguments (Suc k) n a =
     m_bind (m_gets w_args) (\<lambda>args.
       if args = [] then m_return ()
       else
         m_bind (recognize n a (last args) False) (\<lambda>classifier.
           if classifier = CL_NONE then
             m_seq (move_to_missing a CL_NONE (last args)) (m_seq args_pop (assume_arguments k n a))
           else m_return ()))"

definition extra_option :: "nat \<Rightarrow> app_ptr \<Rightarrow> Classifier \<Rightarrow> string \<Rightarrow> ('v, bool) cli_m" where
  "extra_option n a current_type current =
     m_seq args_pop
     (m_seq (move_to_missing a current_type current)
     (m_bind (get_app a) (\<lambda>app. m_bind args_size (\<lambda>k.
      m_seq (if a_prefix_command app = PM_On then drain_args a
             else if a_allow_extras app = EM_AssumeSingleArgument then assume_arguments 1 n a
             else if a_allow_extras app = EM_AssumeMultipleArguments then assume_arguments k n a
             else m_return ())
        (m_return True)))))"

definition arg_elsewhere :: "'v calls \<Rightarrow> nat \<Rightarrow> app_ptr \<Rightarrow> Classifier \<Rightarrow> bool \<Rightarrow> string \<Rightarrow> string \<Rightarrow> ('v, bool) cli_m" where
  "arg_elsewhere calls n a current_type local_processing_only arg_name current =
     m_bind (get_app a) (\<lambda>app.
     if a_parent app \<noteq> None \<and> a_name app = [] then m_return False
     else
     m_bind (dot_notation calls n a current_type arg_name) (\<lambda>(done, current_type).
     if done then m_return True
     else if local_processing_only then m_return False
     else if a_parent app \<noteq> None \<and> a_fallthrough app then
       m_bind (get_fallthrough_parent n a) (\<lambda>parent. calls (Call_arg (the parent) current_type False))
     else extra_option n a current_type current))"

definition non_standard_arg :: "app_ptr \<Rightarrow> Classifier \<Rightarrow> string \<Rightarrow> ('v, (opt_ptr \<times> string \<times> string) option) cli_m" where
  "non_standard_arg a current_type current =
     m_bind (get_app a) (\<lambda>app.
       if a_allow_non_standard_options app \<and> current_type = CL_SHORT \<and> length current > 2 then
         (case (case split_long (''-'' @ current) of Some nv \<Rightarrow> nv | None \<Rightarrow> ([], [])) of (narg_name, nvalue) \<Rightarrow>
            m_bind (find_arg a (\<lambda>opt. check_sname opt narg_name)) (\<lambda>op.
              m_return (map_option (\<lambda>p. (p, narg_name, nvalue)) op)))
       else m_return None)"

definition parse_arg :: "'v calls \<Rightarrow> nat \<Rightarrow> app_ptr \<Rightarrow> Classifier \<Rightarrow> bool \<Rightarrow> ('v, bool) cli_m" where
  "parse_arg calls n a current_type local_processing_only =
     m_bind args_back (\<lambda>current.
     m_bind (m_lift (split_arg current_type current)) (\<lambda>(arg_name, value, rest).
     m_bind (find_arg a (has_arg_name current_type arg_name)) (\<lambda>op.
       (case op of
          Some p \<Rightarrow> arg_found n a p arg_name value rest
        | None \<Rightarrow>
            m_bind (groups_take (\<lambda>s. calls (Call_arg s current_type local_processing_only)) n a) (\<lambda>took.
            if took then m_return True
            else
              m_bind (non_standard_arg a current_type current) (\<lambda>found.
                (case found of
                   Some (p, narg_name, nvalue) \<Rightarrow> arg_found n a p narg_name nvalue []
                 | None \<Rightarrow> arg_elsewhere calls n a current_type local_processing_only arg_name current)))))))"

section \<open>One argument, all arguments\<close>

text \<open>What \<^verbatim>\<open>_parse_single\<close> returns, and the flag it changes.\<close>

definition positional_mark :: "app_ptr \<Rightarrow> ('v, bool) cli_m" where
  "positional_mark a =
     m_seq args_pop
     (m_bind (get_app a) (\<lambda>app. m_bind (has_remaining_positionals a) (\<lambda>positionals_left.
        if a_prefix_command app \<noteq> PM_Off then
          m_seq (add_missing a CL_POSITIONAL_MARK ''--'') (m_seq (drain_args a) (m_return True))
        else if \<not> positionals_left \<and> a_parent app \<noteq> None then m_return False
        else m_seq (move_to_missing a CL_POSITIONAL_MARK ''--'') (m_return True))))"

definition parse_single :: "'v calls \<Rightarrow> nat \<Rightarrow> app_ptr \<Rightarrow> bool \<Rightarrow> ('v, bool \<times> bool) cli_m" where
  "parse_single calls n a positional_only =
     m_bind args_back (\<lambda>arg.
     m_bind (if positional_only then m_return CL_NONE else recognize n a arg True) (\<lambda>classifier.
       (let same = (\<lambda>m. m_bind m (\<lambda>retval. m_return (retval, positional_only))) in
        case classifier of
          CL_POSITIONAL_MARK \<Rightarrow> m_bind (positional_mark a) (\<lambda>retval. m_return (retval, True))
        | CL_SUBCOMMAND_TERMINATOR \<Rightarrow> m_seq args_pop (m_return (False, positional_only))
        | CL_SUBCOMMAND \<Rightarrow> same (calls (Call_subcommand a))
        | CL_LONG \<Rightarrow> same (calls (Call_arg a classifier False))
        | CL_SHORT \<Rightarrow> same (calls (Call_arg a classifier False))
        | CL_WINDOWS_STYLE \<Rightarrow> same (calls (Call_arg a classifier False))
        | CL_NONE \<Rightarrow>
            m_bind (calls (Call_positional a False)) (\<lambda>retval. m_bind (get_app a) (\<lambda>app.
              m_return (retval, positional_only \<or> retval \<and> a_positionals_at_end app))))))"

definition parse_loop :: "'v calls \<Rightarrow> nat \<Rightarrow> app_ptr \<Rightarrow> bool \<Rightarrow> ('v, bool) cli_m" where
  "parse_loop calls n a positional_only =
     m_bind (m_gets w_args) (\<lambda>args.
       if args = [] then m_return True
       else
         m_bind (parse_single calls n a positional_only) (\<lambda>(retval, positional_only').
           if retval then calls (Call_loop a positional_only') else m_return True))"

definition app_parse :: "'v calls \<Rightarrow> nat \<Rightarrow> app_ptr \<Rightarrow> ('v, bool) cli_m" where
  "app_parse calls n a =
     m_seq (increment_parsed n a)
     (m_bind args_size (\<lambda>k.
      m_seq (trigger_pre_parse n a k)
      (m_bind (calls (Call_loop a False)) (\<lambda>_.
       m_bind (get_app a) (\<lambda>app.
         if a_parent app = None then
           m_seq (app_process n a)
           (m_seq (process_extras n a)
           (m_bind (remaining_for_passthrough n False a) (\<lambda>args.
            m_seq (m_modify (\<lambda>w. w\<lparr>w_args := args\<rparr>)) (m_return True))))
         else
           m_seq (m_when (a_parse_complete_callback app \<noteq> None) (complete_subcommand n a)) (m_return True))))))"

primrec run_call :: "nat \<Rightarrow> 'v calls" where
  "run_call 0 = (\<lambda>c. m_throw No_fuel)"
| "run_call (Suc n) = (\<lambda>c.
     case c of
       Call_parse a \<Rightarrow> app_parse (run_call n) n a
     | Call_loop a positional_only \<Rightarrow> parse_loop (run_call n) n a positional_only
     | Call_subcommand a \<Rightarrow> parse_subcommand (run_call n) n a
     | Call_positional a haltOnSubcommand \<Rightarrow> parse_positional (run_call n) n a haltOnSubcommand
     | Call_arg a current_type local_processing_only \<Rightarrow> parse_arg (run_call n) n a current_type local_processing_only)"

section \<open>The entry points\<close>

text \<open>
  The top level goes on until the vector is empty, whatever the parse of one argument returns.
\<close>

primrec top_loop :: "nat \<Rightarrow> app_ptr \<Rightarrow> bool \<Rightarrow> ('v, unit) cli_m" where
  "top_loop 0 a positional_only = m_throw No_fuel"
| "top_loop (Suc n) a positional_only =
     m_bind (m_gets w_args) (\<lambda>args.
       if args = [] then m_return ()
       else m_bind (parse_single (run_call n) n a positional_only) (\<lambda>(_, positional_only'). top_loop n a positional_only'))"

definition parse_top :: "nat \<Rightarrow> app_ptr \<Rightarrow> ('v, unit) cli_m" where
  "parse_top n a =
     m_seq (increment_parsed n a)
     (m_bind args_size (\<lambda>k.
      m_seq (trigger_pre_parse n a k)
      (m_seq (top_loop n a False)
      (m_seq (app_process n a) (process_extras n a)))))"

definition prepare_parse :: "nat \<Rightarrow> app_ptr \<Rightarrow> ('v, unit) cli_m" where
  "prepare_parse n a =
     m_bind (get_app a) (\<lambda>app.
     m_seq (m_when (a_parsed app > 0) (app_clear n a))
     (m_seq (upd_app a (\<lambda>app. app\<lparr>a_parsed := 1\<rparr>))
     (m_seq (app_validate n a)
     (m_seq (app_configure n a)
     (upd_app a (\<lambda>app. app\<lparr>a_parent := None, a_parsed := 0\<rparr>))))))"

text \<open>The versions of \<^verbatim>\<open>parse\<close> for a vector to consume, and for one that gets the remaining arguments.\<close>

definition parse_args :: "nat \<Rightarrow> app_ptr \<Rightarrow> string list \<Rightarrow> ('v, unit) cli_m" where
  "parse_args n a args =
     m_seq (m_modify (\<lambda>w. w\<lparr>w_args := args\<rparr>))
     (m_seq (prepare_parse n a)
     (m_seq (parse_top n a)
     (run_callback n a False False)))"

definition parse_args_ref :: "nat \<Rightarrow> app_ptr \<Rightarrow> string list \<Rightarrow> ('v, string list) cli_m" where
  "parse_args_ref n a args =
     m_seq (m_modify (\<lambda>w. w\<lparr>w_args := args\<rparr>))
     (m_seq (prepare_parse n a)
     (m_bind (run_call n (Call_parse a)) (\<lambda>_.
     m_seq (run_callback n a False False) (m_gets w_args))))"

definition take_program_name :: "string \<Rightarrow> 'v app \<Rightarrow> 'v app" where
  "take_program_name name app =
     (if a_name app = [] \<or> a_has_automatic_name app then app\<lparr>a_has_automatic_name := True, a_name := name\<rparr> else app)"

definition parse_char_t :: "nat \<Rightarrow> app_ptr \<Rightarrow> string list \<Rightarrow> ('v, unit) cli_m" where
  "parse_char_t n a argv =
     m_seq (upd_app a (take_program_name (hd argv))) (parse_args n a (rev (tl argv)))"

definition parse_string :: "nat \<Rightarrow> app_ptr \<Rightarrow> string \<Rightarrow> bool \<Rightarrow> ('v, unit) cli_m" where
  "parse_string n a commandline0 program_name_included =
     m_bind (m_gets w_env) (\<lambda>env.
     m_bind (if program_name_included then
               (case split_program_name (env_check_path env) commandline0 of
                  (name, rest) \<Rightarrow> m_seq (upd_app a (take_program_name name)) (m_return rest))
             else m_return (trim commandline0)) (\<lambda>commandline1.
     m_bind (get_app a) (\<lambda>app.
       (let commandline2 = (if commandline1 \<noteq> [] then find_and_modify commandline1 (CHR ''='') 0 else commandline1);
            commandline = (if commandline1 \<noteq> [] \<and> a_allow_windows_style_options app
                           then find_and_modify commandline2 (CHR '':'') 0 else commandline2);
            args = filter (\<lambda>s. s \<noteq> []) (split_up commandline (CHR 0x00))
        in
        (case remove_quotes_all args of
           Inl (InvalidArgument msg) \<Rightarrow> m_throw (error_named C_ParseError ''ParseError'' msg EC_InvalidError)
         | Inl e \<Rightarrow> m_throw (Std e)
         | Inr args' \<Rightarrow> parse_args n a (rev args'))))))"

text \<open>From a configuration stream; the application is not reset.\<close>

definition parse_from_config :: "nat \<Rightarrow> app_ptr \<Rightarrow> config_item list \<Rightarrow> ('v, unit) cli_m" where
  "parse_from_config n a values =
     m_bind (get_app a) (\<lambda>app.
     m_seq (m_when (a_parsed app = 0) (m_seq (app_validate n a) (app_configure n a)))
     (m_seq (parse_config n a values)
     (m_seq (increment_parsed n a)
     (m_seq (trigger_pre_parse n a (length values))
     (m_seq (app_process n a)
     (m_seq (process_extras n a)
     (run_callback n a False False)))))))"

end
