(* ===== verification/Cli_Format.thy ===== *)
theory Cli_Format
  imports Cli_Parse
begin

text \<open>
  The help text: the class \<^verbatim>\<open>Formatter\<close>, \<^verbatim>\<open>App::help\<close>, the messages for a failed parse, and
  \<^verbatim>\<open>App::exit\<close>, which turns an error into output and an exit code.
\<close>

section \<open>Options\<close>

datatype AppFormatMode = Format_Normal | Format_All | Format_Sub

definition get_label :: "formatter \<Rightarrow> string \<Rightarrow> string" where
  "get_label fm key = (case map_of (f_labels fm) key of Some v \<Rightarrow> v | None \<Rightarrow> key)"

text \<open>\<^verbatim>\<open>long_option_alignment_ratio\<close> folds its argument, here a fraction with its sign, into [0,1].\<close>

definition set_alignment_ratio :: "int \<Rightarrow> nat \<Rightarrow> formatter \<Rightarrow> formatter" where
  "set_alignment_ratio num den fm =
     (let k = nat \<bar>num\<bar> in
      fm\<lparr>f_long_option_alignment_ratio := (if k \<le> den then (k, den) else (den, k))\<rparr>)"

definition make_option_name :: "formatter \<Rightarrow> 'v opt \<Rightarrow> bool \<Rightarrow> string" where
  "make_option_name fm opt is_positional =
     (if is_positional then get_name opt True False False
      else get_name opt False True (\<not> f_enable_default_flag_values fm))"

text \<open>The options of the option; \<open>reqs\<close> and \<open>exs\<close> are those it needs and excludes.\<close>

definition make_option_opts :: "formatter \<Rightarrow> 'v \<Rightarrow> 'v opt list \<Rightarrow> 'v opt list \<Rightarrow> 'v opt \<Rightarrow> string" where
  "make_option_opts fm vars reqs exs opt =
     (if o_option_text opt \<noteq> [] then '' '' @ o_option_text opt
      else
        (if o_type_size_min opt \<noteq> 0 then
           (if f_enable_option_type_names fm \<and> get_type_name vars opt \<noteq> []
            then '' '' @ get_label fm (get_type_name vars opt) else [])
           @ (if f_enable_option_defaults fm \<and> o_default_str opt \<noteq> [] then '' ['' @ o_default_str opt @ ''] '' else [])
           @ (if o_expected_max opt = expected_max_vector_size then '' ...''
              else if o_expected_min opt > 1 then '' x '' @ int_string (o_expected_min opt) else [])
           @ (if o_required opt then '' '' @ get_label fm ''REQUIRED'' else [])
         else [])
        @ (if o_envname opt \<noteq> [] then '' ('' @ get_label fm ''Env'' @ '':'' @ o_envname opt @ '')'' else [])
        @ (if reqs \<noteq> [] then '' '' @ get_label fm ''Needs'' @ '':'' @ concat (map (\<lambda>r. '' '' @ opt_name r) reqs) else [])
        @ (if exs \<noteq> [] then '' '' @ get_label fm ''Excludes'' @ '':'' @ concat (map (\<lambda>r. '' '' @ opt_name r) exs) else []))"

definition make_option_usage :: "formatter \<Rightarrow> 'v opt \<Rightarrow> string" where
  "make_option_usage fm opt =
     (let out = make_option_name fm opt True
            @ (if o_expected_max opt \<ge> expected_max_vector_size then ''...''
               else if o_expected_max opt > 1 then ''('' @ int_string (o_expected_min opt) @ ''x)'' else [])
      in if o_required opt then out else ''['' @ out @ '']'')"

text \<open>The description to the right of the names, on a new line when they are too long.\<close>

definition description_column :: "formatter \<Rightarrow> bool \<Rightarrow> string \<Rightarrow> string" where
  "description_column fm new_line desc =
     (if desc = [] then []
      else (if new_line then [CHR 0x0A] else [])
           @ streamOutAsParagraph desc (f_right_column_width fm) (replicate (f_column_width fm) (CHR '' '')) (\<not> new_line))"

definition make_positional_option :: "formatter \<Rightarrow> 'v \<Rightarrow> 'v opt list \<Rightarrow> 'v opt list \<Rightarrow> 'v opt \<Rightarrow> string" where
  "make_positional_option fm vars reqs exs opt =
     (let left = ''  '' @ make_option_name fm opt True @ make_option_opts fm vars reqs exs opt in
      setw_left (f_column_width fm) left
      @ description_column fm (length left \<ge> f_column_width fm) (o_description opt) @ [CHR 0x0A])"

text \<open>
  The names in two columns. A short column that is full gets one more blank, and what it is too
  wide is taken from the long one.
\<close>

definition long_name :: "string \<Rightarrow> bool" where
  "long_name name \<longleftrightarrow> find_str name ''--'' \<noteq> None"

definition short_column :: "nat \<Rightarrow> string \<Rightarrow> string \<Rightarrow> string \<Rightarrow> string \<times> nat" where
  "short_column wid shortNames longNames opts =
     (if shortNames = [] then (setw_left wid [], 0)
      else
        (let s1 = ''  '' @ shortNames @ (if longNames = [] \<and> opts \<noteq> [] then opts else [])
                  @ (if longNames \<noteq> [] then '','' else [])
         in if length s1 \<ge> wid then (setw_left wid (s1 @ '' ''), length (s1 @ '' '') - wid) else (setw_left wid s1, 0)))"

definition long_column :: "nat \<Rightarrow> string \<Rightarrow> string \<Rightarrow> string" where
  "long_column wid longNames opts =
     (if longNames = [] then setw_left wid []
      else (let l1 = longNames @ opts in setw_left wid (if length l1 \<ge> wid then l1 @ '' '' else l1)))"

definition make_named_option :: "formatter \<Rightarrow> 'v \<Rightarrow> 'v opt list \<Rightarrow> 'v opt list \<Rightarrow> 'v opt \<Rightarrow> string" where
  "make_named_option fm vars reqs exs opt =
     (let names = split_at (make_option_name fm opt False) (CHR '','');
          opts = make_option_opts fm vars reqs exs opt;
          shortNames = join (filter (\<lambda>name. \<not> long_name name) names) '', '';
          longNames = join (filter long_name names) '', '';
          (num, den) = f_long_option_alignment_ratio fm;
          shortWidth = f_column_width fm * num div den;
          longWidth = f_column_width fm - shortWidth;
          (short, over) = short_column shortWidth shortNames longNames opts;
          out = short @ long_column (longWidth - min over longWidth) longNames opts
      in out @ description_column fm (length out > f_column_width fm) (o_description opt) @ [CHR 0x0A])"

definition make_option :: "formatter \<Rightarrow> 'v opt \<Rightarrow> bool \<Rightarrow> ('v, string) cli_m" where
  "make_option fm opt is_positional =
     m_bind (m_gets w_vars) (\<lambda>vars. m_bind (get_opts (o_needs opt)) (\<lambda>reqs. m_bind (get_opts (o_excludes opt)) (\<lambda>exs.
       m_return (if is_positional then make_positional_option fm vars reqs exs opt
                 else make_named_option fm vars reqs exs opt))))"

definition make_group :: "formatter \<Rightarrow> string \<Rightarrow> bool \<Rightarrow> 'v opt list \<Rightarrow> ('v, string) cli_m" where
  "make_group fm grp is_positional opts =
     m_bind (m_map (\<lambda>opt. make_option fm opt is_positional) opts) (\<lambda>texts.
       m_return ([CHR 0x0A] @ grp @ '':'' @ [CHR 0x0A] @ concat texts))"

section \<open>Parts of the help\<close>

definition make_positionals :: "formatter \<Rightarrow> nat \<Rightarrow> app_ptr \<Rightarrow> ('v, string) cli_m" where
  "make_positionals fm n a =
     m_bind (get_options True (\<lambda>p opt. o_group opt \<noteq> [] \<and> get_positional opt) n a) (\<lambda>opts.
       if opts = [] then m_return [] else make_group fm (get_label fm ''POSITIONALS'') True (map snd opts))"

definition make_groups :: "formatter \<Rightarrow> nat \<Rightarrow> app_ptr \<Rightarrow> AppFormatMode \<Rightarrow> ('v, string) cli_m" where
  "make_groups fm n a mode =
     m_bind (get_app a) (\<lambda>app. m_bind (get_groups a) (\<lambda>groups.
     m_bind (m_map (\<lambda>grp.
        m_bind (get_options True (\<lambda>p opt. o_group opt = grp \<and> nonpositional opt
                  \<and> (mode \<noteq> Format_Sub \<or> a_help_ptr app \<noteq> Some p \<and> a_help_all_ptr app \<noteq> Some p)) n a) (\<lambda>opts.
          if grp \<noteq> [] \<and> opts \<noteq> [] then make_group fm grp False (map snd opts) else m_return [])) groups) (\<lambda>texts.
       m_return (concat texts))))"

definition make_description :: "formatter \<Rightarrow> 'v app \<Rightarrow> string" where
  "make_description fm app =
     (let min_options = a_require_option_min app; max_options = a_require_option_max app; nl = '' '' @ [CHR 0x0A];
          desc = a_description app
            @ (if a_required app then '' '' @ get_label fm ''REQUIRED'' @ '' '' else [])
            @ (if min_options > 0 then
                 if max_options = min_options then
                   nl @ ''[Exactly '' @ decimal min_options @ '' of the following options are required]''
                 else if max_options > 0 then
                   nl @ ''[Between '' @ decimal min_options @ '' and '' @ decimal max_options
                   @ '' of the following options are required]''
                 else nl @ ''[At least '' @ decimal min_options @ '' of the following options are required]''
               else if max_options > 0 then
                 nl @ ''[At most '' @ decimal max_options @ '' of the following options are allowed]''
               else [])
      in if desc \<noteq> [] then desc @ [CHR 0x0A, CHR 0x0A] else [])"

definition get_usage :: "'v \<Rightarrow> 'v app \<Rightarrow> string" where
  "get_usage vars app =
     (case a_usage_callback app of Some f \<Rightarrow> f vars @ [CHR 0x0A] @ a_usage app | None \<Rightarrow> a_usage app)"

definition get_footer :: "'v \<Rightarrow> 'v app \<Rightarrow> string" where
  "get_footer vars app =
     (case a_footer_callback app of Some f \<Rightarrow> f vars @ [CHR 0x0A] @ a_footer app | None \<Rightarrow> a_footer app)"

definition make_usage :: "formatter \<Rightarrow> nat \<Rightarrow> app_ptr \<Rightarrow> string \<Rightarrow> ('v, string) cli_m" where
  "make_usage fm n a name =
     m_bind (get_app a) (\<lambda>app. m_bind (m_gets w_vars) (\<lambda>vars.
     if get_usage vars app \<noteq> [] then m_return (get_usage vars app @ [CHR 0x0A, CHR 0x0A])
     else
     m_bind (get_options True (\<lambda>p opt. nonpositional opt) n a) (\<lambda>non_pos_options.
     m_bind (get_options True (\<lambda>p opt. get_positional opt) n a) (\<lambda>positionals.
     m_bind (subcommands a) (\<lambda>subs.
       (let optional = a_require_subcommand_min app = 0 in
        m_return ([CHR 0x0A] @ (if name = [] then get_label fm ''Usage'' @ '':'' else name)
          @ (if non_pos_options \<noteq> [] then '' ['' @ get_label fm ''OPTIONS'' @ '']'' else [])
          @ (if positionals \<noteq> []
             then '' '' @ join (map (\<lambda>(p, opt). make_option_usage fm opt) positionals) '' '' else [])
          @ (if list_ex (\<lambda>(s, subc). \<not> a_disabled subc \<and> a_name subc \<noteq> []) subs then
               '' '' @ (if optional then ''['' else [])
               @ get_label fm (if a_require_subcommand_max app = 1 then ''SUBCOMMAND'' else ''SUBCOMMANDS'')
               @ (if optional then '']'' else [])
             else [])
          @ [CHR 0x0A, CHR 0x0A])))))))"

definition make_footer :: "'v \<Rightarrow> 'v app \<Rightarrow> string" where
  "make_footer vars app =
     (let footer = get_footer vars app in if footer = [] then [] else [CHR 0x0A] @ footer @ [CHR 0x0A])"

definition footer_text :: "formatter \<Rightarrow> string \<Rightarrow> string" where
  "footer_text fm footer_string =
     (if f_enable_footer_formatting fm then streamOutAsParagraph footer_string (f_footer_paragraph_width fm) [] False
      else footer_string)"

definition description_text :: "formatter \<Rightarrow> string \<Rightarrow> 'v app \<Rightarrow> string" where
  "description_text fm linePrefix app =
     (if f_enable_description_formatting fm
      then streamOutAsParagraph (make_description fm app) (f_description_paragraph_width fm) linePrefix False
      else make_description fm app @ [CHR 0x0A])"

definition make_subcommand :: "formatter \<Rightarrow> 'v app \<Rightarrow> string" where
  "make_subcommand fm sub =
     setw_left (f_column_width fm)
       (''  '' @ get_display_name True sub @ (if a_required sub then '' '' @ get_label fm ''REQUIRED'' else []))
     @ streamOutAsParagraph (a_description sub) (f_right_column_width fm) (replicate (f_column_width fm) (CHR '' '')) True
     @ [CHR 0x0A]"

section \<open>The help of an application\<close>

text \<open>
  \<^verbatim>\<open>App::help\<close> and \<^verbatim>\<open>make_expanded\<close> call each other for the subcommands; as for the parser, the
  definitions get both as an argument, and fuel bounds the depth.
\<close>

datatype help_call = Help_of app_ptr string AppFormatMode | Help_expanded formatter app_ptr AppFormatMode

type_synonym 'v help_calls = "help_call \<Rightarrow> ('v, string) cli_m"

text \<open>The groups of the subcommands in the order they are first seen, whatever their case.\<close>

definition subcommand_groups :: "'v app list \<Rightarrow> string list" where
  "subcommand_groups subs =
     fold (\<lambda>com seen.
        if a_name com \<noteq> [] \<and> a_group com \<noteq> [] \<and> to_lower (a_group com) \<notin> set (map to_lower seen)
        then seen @ [a_group com] else seen) subs []"

definition make_subcommands :: "'v help_calls \<Rightarrow> formatter \<Rightarrow> app_ptr \<Rightarrow> AppFormatMode \<Rightarrow> ('v, string) cli_m" where
  "make_subcommands calls fm a mode =
     m_bind (subcommands a) (\<lambda>subs.
     m_bind (m_map (\<lambda>(s, com). calls (Help_expanded fm s mode))
        (filter (\<lambda>(s, com). a_name com = [] \<and> a_group com \<noteq> [] \<and> hd (a_group com) \<noteq> CHR ''+'') subs)) (\<lambda>expanded.
     m_bind (m_map (\<lambda>grp.
        m_bind (m_map (\<lambda>(s, com).
           if mode \<noteq> Format_All then m_return (make_subcommand fm com)
           else m_bind (calls (Help_of s (a_name com) Format_Sub)) (\<lambda>t. m_return (t @ [CHR 0x0A])))
             (filter (\<lambda>(s, com). to_lower (a_group com) = to_lower grp \<and> a_name com \<noteq> []) subs)) (\<lambda>texts.
          m_return ([CHR 0x0A] @ grp @ '':'' @ [CHR 0x0A] @ concat texts)))
        (subcommand_groups (map snd subs))) (\<lambda>listed.
       m_return (concat expanded @ concat listed))))"

definition make_expanded :: "'v help_calls \<Rightarrow> formatter \<Rightarrow> nat \<Rightarrow> app_ptr \<Rightarrow> AppFormatMode \<Rightarrow> ('v, string) cli_m" where
  "make_expanded calls fm n a mode =
     m_bind (get_app a) (\<lambda>sub. m_bind (m_gets w_vars) (\<lambda>vars.
     m_bind (make_positionals fm n a) (\<lambda>positionals.
     m_bind (make_groups fm n a mode) (\<lambda>groups.
     m_bind (make_subcommands calls fm a mode) (\<lambda>subs.
     m_bind (case a_parent sub of
                None \<Rightarrow> m_return []
              | Some p \<Rightarrow> m_bind (get_app p) (\<lambda>papp. m_return (make_footer vars papp))) (\<lambda>parent_footer.
        (let footer = make_footer vars sub;
             footer_string = (if mode = Format_Sub \<and> footer = parent_footer then [] else footer)
         in m_return (get_display_name True sub @ [CHR 0x0A]
              @ description_text fm ''  '' sub
              @ (if a_name sub = [] \<and> a_aliases sub \<noteq> [] then format_aliases (a_aliases sub) (f_column_width fm + 2) else [])
              @ positionals @ groups @ subs
              @ (if footer_string \<noteq> [] then footer_text fm footer_string else [])))))))))"

definition make_help :: "'v help_calls \<Rightarrow> nat \<Rightarrow> app_ptr \<Rightarrow> string \<Rightarrow> AppFormatMode \<Rightarrow> ('v, string) cli_m" where
  "make_help calls n a name mode =
     m_bind (get_app a) (\<lambda>app. m_bind (m_gets w_vars) (\<lambda>vars.
     (let fm = a_formatter app in
      if mode = Format_Sub then calls (Help_expanded fm a mode)
      else
         m_bind (make_usage fm n a name) (\<lambda>usage.
         m_bind (make_positionals fm n a) (\<lambda>positionals.
         m_bind (make_groups fm n a mode) (\<lambda>groups.
         m_bind (make_subcommands calls fm a mode) (\<lambda>subs.
           m_return ((if a_name app = [] \<and> a_parent app \<noteq> None \<and> a_group app \<noteq> ''SUBCOMMANDS''
                      then a_group app @ '':'' else [])
             @ description_text fm [] app
             @ usage @ positionals @ groups @ subs @ footer_text fm (make_footer vars app)))))))))"

text \<open>The last parsed subcommand gives the help, with the names on the way to it.\<close>

definition help_body :: "'v help_calls \<Rightarrow> nat \<Rightarrow> app_ptr \<Rightarrow> string \<Rightarrow> AppFormatMode \<Rightarrow> ('v, string) cli_m" where
  "help_body calls n a prev0 mode =
     m_bind (get_app a) (\<lambda>app.
       (let prev = (if prev0 = [] then a_name app else prev0 @ '' '' @ a_name app) in
        if a_parsed_subcommands app \<noteq> [] then calls (Help_of (last (a_parsed_subcommands app)) prev mode)
        else make_help calls n a prev mode))"

primrec run_help :: "nat \<Rightarrow> 'v help_calls" where
  "run_help 0 = (\<lambda>c. m_throw No_fuel)"
| "run_help (Suc n) = (\<lambda>c.
     case c of
       Help_of a prev mode \<Rightarrow> help_body (run_help n) n a prev mode
     | Help_expanded fm a mode \<Rightarrow> make_expanded (run_help n) fm n a mode)"

definition app_help_text :: "nat \<Rightarrow> app_ptr \<Rightarrow> string \<Rightarrow> AppFormatMode \<Rightarrow> ('v, string) cli_m" where
  "app_help_text n a prev mode = run_help n (Help_of a prev mode)"

section \<open>Version\<close>

text \<open>The callback of the version flag throws the text, which is caught here.\<close>

definition app_version :: "app_ptr \<Rightarrow> ('v, string) cli_m" where
  "app_version a =
     m_bind (get_app a) (\<lambda>app.
       (case a_version_ptr app of
          None \<Rightarrow> m_return []
        | Some p \<Rightarrow>
            m_bind (get_opt p) (\<lambda>opt.
            m_seq (upd_opt p option_clear)
            (m_seq (upd_opt p (add_result ''true''))
            (m_bind (m_catch (m_seq (run_option_callback p) (m_return []))
                       (\<lambda>e. case e of
                              Cli err \<Rightarrow> if error_class err = C_CallForVersion then m_return (what_msg err) else m_throw e
                            | _ \<Rightarrow> m_throw e)) (\<lambda>val.
             m_seq (upd_opt p option_clear)
             (m_seq (upd_opt p (add_results (o_results opt))) (m_return val))))))))"

section \<open>Failure\<close>

definition failure_simple :: "app_ptr \<Rightarrow> cli_error \<Rightarrow> ('v, string) cli_m" where
  "failure_simple a e =
     m_bind (get_app a) (\<lambda>app.
     m_bind (m_map (\<lambda>ptr. case ptr of
               None \<Rightarrow> m_return []
             | Some p \<Rightarrow> m_bind (get_opt p) (\<lambda>opt. m_return [opt_name opt])) [a_help_ptr app, a_help_all_ptr app]) (\<lambda>found.
       (let names = concat found in
        m_return (what_msg e @ [CHR 0x0A]
          @ (if names \<noteq> [] then ''Run with '' @ join names '' or '' @ '' for more information.'' @ [CHR 0x0A] else [])))))"

definition failure_help :: "nat \<Rightarrow> app_ptr \<Rightarrow> cli_error \<Rightarrow> ('v, string) cli_m" where
  "failure_help n a e =
     m_bind (app_help_text n a [] Format_Normal) (\<lambda>text.
       m_return (''ERROR: '' @ error_name e @ '': '' @ what_msg e @ [CHR 0x0A] @ text))"

definition run_failure_message :: "nat \<Rightarrow> app_ptr \<Rightarrow> failure_message \<Rightarrow> cli_error \<Rightarrow> ('v, string) cli_m" where
  "run_failure_message n a f e =
     (case f of
        FM_simple \<Rightarrow> failure_simple a e
      | FM_help \<Rightarrow> failure_help n a e
      | FM_user g \<Rightarrow> m_return (g e))"

text \<open>The exit code, what goes to standard output, and what goes to standard error.\<close>

definition app_exit :: "nat \<Rightarrow> app_ptr \<Rightarrow> cli_error \<Rightarrow> ('v, int \<times> string \<times> string) cli_m" where
  "app_exit n a e =
     (if error_name e = ''RuntimeError'' then m_return (actual_exit_code e, [], [])
      else if error_name e = ''CallForHelp'' then
        m_bind (app_help_text n a [] Format_Normal) (\<lambda>text. m_return (actual_exit_code e, text, []))
      else if error_name e = ''CallForAllHelp'' then
        m_bind (app_help_text n a [] Format_All) (\<lambda>text. m_return (actual_exit_code e, text, []))
      else if error_name e = ''CallForVersion'' then
        m_return (actual_exit_code e, what_msg e @ [CHR 0x0A], [])
      else if actual_exit_code e \<noteq> exit_code EC_Success then
        m_bind (get_app a) (\<lambda>app.
          (case a_failure_message app of
             Some f \<Rightarrow> m_bind (run_failure_message n a f e) (\<lambda>text. m_return (actual_exit_code e, [], text))
           | None \<Rightarrow> m_return (actual_exit_code e, [], [])))
      else m_return (actual_exit_code e, [], []))"

end
