(* ===== verification/Tcpchat_App.thy ===== *)
theory Tcpchat_App
  imports Cli_Format
begin

text \<open>
  The command line of \<^verbatim>\<open>src/tcpchat.cpp\<close>, built with the model of the library: the application
  with its subcommand \<^verbatim>\<open>run\<close> and the two subcommands of that, each with one option bound to a
  variable of \<^verbatim>\<open>main\<close>.
\<close>

record main_vars =
  mv_server_port :: "16 word"
  mv_client_host :: string

definition main_vars_init :: main_vars where
  "main_vars_init = \<lparr>mv_server_port = 9877, mv_client_host = ''127.0.0.1''\<rparr>"

text \<open>The two instances of the template \<^verbatim>\<open>add_option\<close> that \<^verbatim>\<open>main\<close> uses.\<close>

definition add_option_u16 ::
  "nat \<Rightarrow> app_ptr \<Rightarrow> string \<Rightarrow> ('v \<Rightarrow> 16 word) \<Rightarrow> (16 word \<Rightarrow> 'v \<Rightarrow> 'v) \<Rightarrow> string \<Rightarrow> ('v, opt_ptr) cli_m" where
  "add_option_u16 n a option_name get put option_description =
     add_option_variable n a option_name (lexical_assign integral_conversion_unsigned 0)
       (\<lambda>v. decimal (unat v)) ''UINT'' get put option_description"

definition add_option_string ::
  "nat \<Rightarrow> app_ptr \<Rightarrow> string \<Rightarrow> ('v \<Rightarrow> string) \<Rightarrow> (string \<Rightarrow> 'v \<Rightarrow> 'v) \<Rightarrow> string \<Rightarrow> ('v, opt_ptr) cli_m" where
  "add_option_string n a option_name get put option_description =
     add_option_variable n a option_name (lexical_assign lexical_cast_string [])
       (\<lambda>v. v) ''TEXT'' get put option_description"

text \<open>
  What \<^verbatim>\<open>main\<close> does before it parses: the pointers it gets for the application and the
  subcommands.
\<close>

definition build_fuel :: nat where
  "build_fuel = 5"

definition main_app :: "(main_vars, app_ptr \<times> app_ptr \<times> app_ptr \<times> app_ptr) cli_m" where
  "main_app =
     m_bind (app_new build_fuel ''tcpchat commandline tool'' []) (\<lambda>app.
     m_seq (upd_app app (require_subcommand 1))
     (m_bind (add_subcommand build_fuel app ''run'' ''Run server or client'') (\<lambda>run.
     m_bind (add_subcommand build_fuel run ''server'' ''Run server'') (\<lambda>server.
     m_bind (add_subcommand build_fuel run ''client'' ''Run client'') (\<lambda>client.
     m_bind (add_option_u16 build_fuel server ''-p,--port'' mv_server_port
               (\<lambda>x v. v\<lparr>mv_server_port := x\<rparr>) ''Port to listen on'') (\<lambda>_.
     m_bind (add_option_string build_fuel client ''--host'' mv_client_host
               (\<lambda>x v. v\<lparr>mv_client_host := x\<rparr>) ''Server host'') (\<lambda>_.
     m_return (app, run, server, client))))))))"

definition main_start :: "environment \<Rightarrow> main_vars cli" where
  "main_start env = \<lparr>w_apps = [], w_opts = [], w_vars = main_vars_init, w_env = env, w_args = []\<rparr>"

definition main_world :: "environment \<Rightarrow> main_vars cli" where
  "main_world env = snd (main_app (main_start env))"

text \<open>The text for \<^verbatim>\<open>argc == 1\<close>.\<close>

definition main_help :: "environment \<Rightarrow> cli_exn + string" where
  "main_help env = fst (app_help_text 5 0 [] Format_Normal (main_world env))"

text \<open>
  \<^verbatim>\<open>CLI11_PARSE\<close>: the flags of the two subcommands and the variables, or the exit code and what
  was printed on standard output and standard error; an exception the macro does not catch is
  the left value.
\<close>

definition main_parse ::
  "environment \<Rightarrow> nat \<Rightarrow> string list \<Rightarrow> cli_exn + ((int \<times> string \<times> string) + (bool \<times> bool \<times> main_vars))" where
  "main_parse env n argv =
     fst (m_catch
       (m_seq (parse_char_t n 0 argv)
         (m_gets (\<lambda>w. Inr (a_parsed (w_apps w ! 2) > 0, a_parsed (w_apps w ! 3) > 0, w_vars w))))
       (\<lambda>e. case e of
              Cli err \<Rightarrow>
                if is_parse_error err then m_bind (app_exit n 0 err) (\<lambda>r. m_return (Inl r)) else m_throw e
            | _ \<Rightarrow> m_throw e)
       (main_world env))"

end
