(* ===== verification/Tcpchat_Cli.thy ===== *)
theory Tcpchat_Cli
  imports Tcpchat_Main Tcpchat_App
begin

text \<open>
  \<^verbatim>\<open>main\<close> of \<^verbatim>\<open>src/src/tcpchat.cpp\<close>: the command line of \<open>Tcpchat_App\<close>, and then the server or
  the client of \<open>Tcpchat_Main\<close>.
\<close>

text \<open>
  How the program ends: after the server or the client, with an exit code and a text on
  standard error after a command line the parser refused (or only asked for help), or by an
  exception of the parser that \<^verbatim>\<open>CLI11_PARSE\<close> does not catch.
\<close>

datatype program_result =
    Ended main_result
  | Refused int string
  | Uncaught cli_exn

definition tcpchat_main ::
  "'w os \<Rightarrow> ('w \<Rightarrow> bytes list \<times> 'w) \<Rightarrow> environment \<Rightarrow> nat \<Rightarrow> string list \<Rightarrow> 'w proc \<Rightarrow>
   (program_result \<times> 'w proc) option" where
  "tcpchat_main os cin env n argv p =
     (if length argv = 1 then
        (case main_help env of
           Inl e \<Rightarrow> Some (Uncaught e, p)
         | Inr text \<Rightarrow> Some (Ended (Exited 0), emit (EvStdout (text @ [newline])) p))
      else
        (case main_parse env n argv of
           Inl e \<Rightarrow> Some (Uncaught e, p)
         | Inr (Inl (code, out, err)) \<Rightarrow> Some (Refused code err, if out = [] then p else emit (EvStdout out) p)
         | Inr (Inr (server, client, vars)) \<Rightarrow>
             if server then map_option (map_prod Ended id) (main_server os (mv_server_port vars) p)
             else if client then map_option (map_prod Ended id) (main_client os cin p)
             else Some (Ended (Exited 0), p)))"

end
