(* ===== verification/Cli_Frame.thy ===== *)
theory Cli_Frame
  imports Cli_Parse
begin

text \<open>
  What a parse may change. An application and an option have fields that define them and fields
  that hold the state of a parse; every function of the parser only touches the latter, the
  variables of the user and the vector of arguments. The functions are walked through once, in a
  locale whose parameter is any relation between stores that allows such changes.
\<close>

section \<open>The definition of an application\<close>

definition static_app :: "'v app \<Rightarrow> 'v app" where
  "static_app app =
     app\<lparr>a_pre_parse_called := False, a_missing := [], a_parse_order := [], a_parsed_subcommands := [],
         a_parsed := 0\<rparr>"

definition static_opt :: "'v opt \<Rightarrow> 'v opt" where
  "static_opt opt = opt\<lparr>o_results := [], o_proc_results := [], o_state := Opt_parsing, o_force_callback := False\<rparr>"

definition same_definition :: "'v cli \<Rightarrow> 'v cli \<Rightarrow> bool" where
  "same_definition w w' \<longleftrightarrow>
     map static_app (w_apps w') = map static_app (w_apps w)
     \<and> map static_opt (w_opts w') = map static_opt (w_opts w)
     \<and> w_env w' = w_env w"

section \<open>Rules\<close>

definition keeps :: "('s \<Rightarrow> 's \<Rightarrow> bool) \<Rightarrow> ('s, 'a) comp \<Rightarrow> bool" where
  "keeps R m \<longleftrightarrow> (\<forall>w. R w (snd (m w)))"

text \<open>The changes of single objects that are allowed.\<close>

definition app_change :: "('v app \<Rightarrow> 'v app) \<Rightarrow> bool" where
  "app_change f \<longleftrightarrow> (\<forall>app. static_app (f app) = static_app app)"

definition opt_change :: "('v opt \<Rightarrow> 'v opt) \<Rightarrow> bool" where
  "opt_change f \<longleftrightarrow> (\<forall>opt. static_opt (f opt) = static_opt opt)"

named_theorems frames \<open>computations that keep the definition\<close>

lemma app_changes [frames]:
  "app_change (\<lambda>app. app\<lparr>a_parsed := f app\<rparr>)"
  "app_change (\<lambda>app. app\<lparr>a_pre_parse_called := g app\<rparr>)"
  "app_change (\<lambda>app. app\<lparr>a_missing := h app\<rparr>)"
  "app_change (\<lambda>app. app\<lparr>a_parse_order := k app\<rparr>)"
  "app_change (\<lambda>app. app\<lparr>a_parsed_subcommands := l app\<rparr>)"
  "app_change (\<lambda>app. app\<lparr>a_parsed := f app, a_pre_parse_called := g app, a_missing := h app\<rparr>)"
  "app_change (\<lambda>app. app\<lparr>a_parsed := f app, a_pre_parse_called := g app, a_missing := h app,
                          a_parsed_subcommands := l app, a_parse_order := k app\<rparr>)"
  by (simp_all add: app_change_def static_app_def)

lemma static_add_result: "static_opt (snd (add_result_count s opt)) = static_opt opt"
  by (simp add: add_result_count_def static_opt_def split: prod.split)

lemma static_opt_state [simp]:
  "static_opt (opt\<lparr>o_results := rs\<rparr>) = static_opt opt"
  "static_opt (opt\<lparr>o_proc_results := rs\<rparr>) = static_opt opt"
  "static_opt (opt\<lparr>o_state := st\<rparr>) = static_opt opt"
  "static_opt (opt\<lparr>o_force_callback := b\<rparr>) = static_opt opt"
  by (simp_all add: static_opt_def)

lemma static_add_results:
  fixes opt :: "'v opt"
  shows "static_opt (add_results s opt) = static_opt opt"
proof -
  have "static_opt (fold (\<lambda>str opt. opt\<lparr>o_results := snd (add_result_to opt str (o_results opt))\<rparr>) s opt)
      = static_opt opt" for opt :: "'v opt"
    by (induction s arbitrary: opt) simp_all
  then show ?thesis by (simp add: add_results_def)
qed

lemma opt_changes [frames]:
  "opt_change option_clear"
  "opt_change (add_result s)"
  "opt_change (add_results ss)"
  "opt_change (\<lambda>opt. opt\<lparr>o_force_callback := b opt\<rparr>)"
  by (simp_all add: opt_change_def option_clear_def static_add_result static_add_results add_result_def)

lemma static_stages:
  "static_opt (force_default opt) = static_opt opt"
  "static_opt (snd (validate_stage opt)) = static_opt opt"
  "static_opt (snd (reduce_stage f opt)) = static_opt opt"
  "static_opt (fst (snd (callback_stage b (opt, vars)))) = static_opt opt"
  by (auto simp: force_default_def add_result_def static_add_result validate_stage_def reduce_stage_def
      callback_stage_def Let_def split: prod.split sum.split option.split)

lemma static_run_callback: "static_opt (fst (snd (option_run_callback f (opt, vars)))) = static_opt opt"
proof -
  obtain r1 opt1 r2 opt2 where stages: "validate_stage (force_default opt) = (r1, opt1)" "reduce_stage f opt1 = (r2, opt2)"
    by fastforce
  then have "static_opt opt1 = static_opt opt" "static_opt opt2 = static_opt opt"
    using static_stages(1) [of opt] static_stages(2) [of "force_default opt"] static_stages(3) [of f opt1] by simp_all
  with stages show ?thesis
    by (auto simp: option_run_callback_def static_stages split: sum.split)
qed

lemma case_InrE:
  assumes "(case r of Inl e \<Rightarrow> Inl e | Inr x \<Rightarrow> h x) = Inr y"
  obtains x where "r = Inr x" "h x = Inr y"
  using assms by (cases r) auto

lemma static_results_as:
  assumes "results_as f conversion opt = Inr (out, opt')"
  shows "static_opt opt' = static_opt opt"
  using assms unfolding results_as_def
proof (rule case_InrE, split if_split_asm, goal_cases)
  case (1 x)
  then show ?case by (auto simp: Let_def split: if_splits prod.splits)
next
  case (2 x)
  from 2(4) show ?case
    by (rule case_InrE) (use 2(2) in \<open>auto split: if_splits prod.splits\<close>)
qed

text \<open>The rules for the ways to put computations together.\<close>

locale preorder_frame =
  fixes R :: "'s \<Rightarrow> 's \<Rightarrow> bool"
  assumes refl: "R w w"
    and trans: "R w w' \<Longrightarrow> R w' w'' \<Longrightarrow> R w w''"
begin

lemma keeps_read:
  "keeps R (m_return x)" "keeps R (m_throw e)" "keeps R (m_gets f)" "keeps R (m_lift r)"
  by (simp_all add: keeps_def comp_simps refl)

lemma keeps_bind:
  assumes "keeps R m" "\<And>x. keeps R (f x)"
  shows "keeps R (m_bind m f)"
  unfolding keeps_def
proof
  fix w
  from assms(1) have "R w (snd (m w))" by (simp add: keeps_def)
  moreover have "R w' (snd (f x w'))" for x w' using assms(2) by (simp add: keeps_def)
  ultimately show "R w (snd (m_bind m f w))"
    by (auto simp: comp_simps split: prod.split sum.split intro: trans)
qed

lemma keeps_seq: "keeps R m \<Longrightarrow> keeps R n \<Longrightarrow> keeps R (m_seq m n)"
  by (simp add: m_seq_def keeps_bind)

lemma keeps_when: "(b \<Longrightarrow> keeps R m) \<Longrightarrow> keeps R (m_when b m)"
  by (auto simp: m_when_def keeps_read)

lemma keeps_each: "(\<And>x. keeps R (f x)) \<Longrightarrow> keeps R (m_each f xs)"
  by (induction xs) (auto intro: keeps_read keeps_seq)

lemma keeps_map: "(\<And>x. keeps R (f x)) \<Longrightarrow> keeps R (m_map f xs)"
  by (induction xs) (auto intro!: keeps_read keeps_bind)

lemma keeps_first: "(\<And>x. keeps R (f x)) \<Longrightarrow> keeps R (m_first f xs)"
  by (induction xs) (auto intro!: keeps_read keeps_bind split: option.split)

lemma keeps_catch:
  assumes "keeps R m" "\<And>e. keeps R (h e)"
  shows "keeps R (m_catch m h)"
  unfolding keeps_def
proof
  fix w
  from assms(1) have "R w (snd (m w))" by (simp add: keeps_def)
  moreover have "R w' (snd (h e w'))" for e w' using assms(2) by (simp add: keeps_def)
  ultimately show "R w (snd (m_catch m h w))"
    by (auto simp: m_catch_def split: prod.split sum.split intro: trans)
qed

lemma keeps_cases:
  "(b \<Longrightarrow> keeps R m) \<Longrightarrow> (\<not> b \<Longrightarrow> keeps R n) \<Longrightarrow> keeps R (if b then m else n)"
  "keeps R u \<Longrightarrow> (\<And>y. keeps R (f y)) \<Longrightarrow> keeps R (case v of None \<Rightarrow> u | Some y \<Rightarrow> f y)"
  "(\<And>x y. keeps R (g x y)) \<Longrightarrow> keeps R (case p of (x, y) \<Rightarrow> g x y)"
  "(\<And>l. keeps R (h l)) \<Longrightarrow> keeps R (Let k h)"
  by (auto split: option.split prod.split)

lemmas keeps_rules = keeps_read keeps_bind keeps_seq keeps_when keeps_each keeps_map keeps_first keeps_catch keeps_cases

end


section \<open>The parser\<close>

text \<open>The relations in question: preorders that allow the changes of a parse.\<close>

locale parse_frame = preorder_frame R
  for R :: "'v cli \<Rightarrow> 'v cli \<Rightarrow> bool" +
  assumes vars: "R (w :: 'v cli) (w\<lparr>w_vars := v\<rparr>)"
    and args: "R (w :: 'v cli) (w\<lparr>w_args := ss\<rparr>)"
    and app_state: "static_app app = static_app (w_apps (w :: 'v cli) ! a) \<Longrightarrow> R w (w\<lparr>w_apps := (w_apps w)[a := app]\<rparr>)"
    and opt_state: "static_opt opt = static_opt (w_opts (w :: 'v cli) ! p) \<Longrightarrow> R w (w\<lparr>w_opts := (w_opts w)[p := opt]\<rparr>)"
begin

lemma keeps_store:
  "keeps R (get_app a)" "keeps R (get_opt p)" "keeps R (get_opts ps)" "keeps R (own_options a)"
  "keeps R (subcommands a)" "keeps R (get_environment_value s)" "keeps R args_size" "keeps R args_back"
  by (simp_all add: store_defs args_size_def args_back_def keeps_read)

lemma keeps_updates:
  "app_change f \<Longrightarrow> keeps R (upd_app a f)"
  "opt_change g \<Longrightarrow> keeps R (upd_opt p g)"
  by (simp_all add: keeps_def comp_simps app_change_def opt_change_def app_state opt_state)

lemma keeps_args:
  "keeps R args_pop" "keeps R (args_push s)" "keeps R (m_modify (\<lambda>w. w\<lparr>w_args := ss\<rparr>))"
  by (simp_all add: args_pop_def args_push_def keeps_def comp_simps args)

lemma keeps_on_vars: "keeps R (on_vars f)"
  by (auto simp: keeps_def comp_simps vars split: prod.split)

lemma keeps_on_opt:
  assumes "\<And>opt vars. static_opt (fst (snd (m (opt, vars)))) = static_opt opt"
  shows "keeps R (on_opt p m)"
  unfolding keeps_def
proof
  fix w :: "'v cli"
  obtain r opt v where m: "m (w_opts w ! p, w_vars w) = (r, opt, v)" by (metis prod_cases3)
  have "R w (w\<lparr>w_opts := (w_opts w)[p := opt]\<rparr>)"
    using assms [of "w_opts w ! p" "w_vars w"] m by (intro opt_state) simp
  then have "R w (w\<lparr>w_opts := (w_opts w)[p := opt], w_vars := v\<rparr>)"
    using vars trans by blast
  then show "R w (snd (on_opt p m w))" by (simp add: comp_simps m)
qed

lemma keeps_run_option_callback: "keeps R (run_option_callback p)"
  unfolding run_option_callback_def by (intro keeps_rules keeps_on_opt) (rule static_run_callback)

lemmas keeps_basic = keeps_store keeps_args keeps_on_vars keeps_run_option_callback keeps_updates frames

subsection \<open>Questions\<close>

lemma keeps_fallthrough: "keeps R (fallthrough_from n a)"
  by (induction n arbitrary: a) (auto intro!: keeps_rules keeps_basic)

lemma keeps_find_subcommand: "keeps R (find_subcommand n a name b b')"
proof (induction n arbitrary: a b b')
  case (Suc n)
  have "keeps R (find_subcommand_loop (\<lambda>com. find_subcommand n com name b b') c name b b' bcom coms)" for c bcom coms
    by (induction coms arbitrary: bcom) (auto simp: Let_def intro!: keeps_rules Suc)
  then show ?case by (auto intro!: keeps_rules keeps_basic)
qed (simp add: keeps_read)

lemma keeps_get_fallthrough_parent: "keeps R (get_fallthrough_parent n a)"
  unfolding get_fallthrough_parent_def by (intro keeps_rules keeps_basic keeps_fallthrough)

lemma keeps_get_option_no_throw: "keeps R (get_option_no_throw n a name)"
  by (induction n arbitrary: a) (auto intro!: keeps_rules keeps_basic keeps_get_fallthrough_parent)

lemma keeps_get_options: "keeps R (get_options c flt n a)"
  by (induction n arbitrary: a) (auto simp: Let_def intro!: keeps_rules keeps_basic keeps_get_fallthrough_parent)

lemma keeps_count_all: "keeps R (count_all n a)"
  by (induction n arbitrary: a) (auto intro!: keeps_rules keeps_basic)

lemma keeps_remaining: "keeps R (remaining n b a)"
  by (induction n arbitrary: a) (auto simp: Let_def intro!: keeps_rules keeps_basic)

lemma keeps_remaining_size: "keeps R (remaining_size n b a)"
  by (induction n arbitrary: a) (auto simp: Let_def intro!: keeps_rules keeps_basic)

lemma keeps_positionals: "keeps R (count_remaining_positionals b a)" "keeps R (has_remaining_positionals a)"
  unfolding count_remaining_positionals_def has_remaining_positionals_def by (intro keeps_rules keeps_basic)+

lemma keeps_valid_subcommand: "keeps R (valid_subcommand n a s b)"
  by (induction n arbitrary: a) (auto simp: Let_def intro!: keeps_rules keeps_basic keeps_find_subcommand)

lemma keeps_recognize: "keeps R (recognize n a s b)"
  by (induction n arbitrary: a s)
    (auto intro!: keeps_rules keeps_basic keeps_find_subcommand keeps_valid_subcommand keeps_get_option_no_throw)

lemma keeps_name_base: "keeps R (name_base n a)"
  unfolding name_base_def by (intro keeps_rules keeps_get_fallthrough_parent)

lemmas keeps_queries = keeps_fallthrough keeps_find_subcommand keeps_get_fallthrough_parent keeps_get_option_no_throw
  keeps_get_options keeps_count_all keeps_remaining keeps_remaining_size keeps_positionals keeps_valid_subcommand
  keeps_recognize keeps_name_base

subsection \<open>Processing\<close>

lemma keeps_app_clear: "keeps R (app_clear n a)"
  by (induction n arbitrary: a) (auto intro!: keeps_rules keeps_basic)

lemma keeps_increment_parsed: "keeps R (increment_parsed n a)"
  by (induction n arbitrary: a) (auto intro!: keeps_rules keeps_basic)

lemma keeps_trigger_pre_parse: "keeps R (trigger_pre_parse n a k)"
  unfolding trigger_pre_parse_def by (intro keeps_rules keeps_basic keeps_app_clear)

lemma keeps_run_callback: "keeps R (run_callback n a b b')"
  by (induction n arbitrary: a b b') (auto intro!: keeps_rules keeps_basic keeps_count_all)

lemma keeps_process_callbacks: "keeps R (process_callbacks n a priority)"
  by (induction n arbitrary: a) (auto intro!: keeps_rules keeps_basic keeps_count_all keeps_run_callback)

lemma keeps_process_help_flags: "keeps R (process_help_flags n a priority b b')"
  by (induction n arbitrary: a b b') (auto simp: triggered_def Let_def intro!: keeps_rules keeps_basic)

lemma keeps_process_env: "keeps R (process_env n a)"
  by (induction n arbitrary: a) (auto intro!: keeps_rules keeps_basic keeps_count_all)

lemma keeps_process_requirements: "keeps R (process_requirements n a)"
  by (induction n arbitrary: a)
    (auto simp: Let_def last_of_def last_option_def last_app_def option_requirements_def used_groups_def
      number_requirements_def option_number_error_def
      intro!: keeps_rules keeps_basic keeps_count_all)

lemma keeps_add_flag_like_result: "keeps R (add_flag_like_result p item inputs)"
  unfolding add_flag_like_result_def by (intro keeps_rules keeps_basic)

lemma keeps_config_option: "keeps R (config_option n a name)"
  unfolding config_option_def by (intro keeps_rules keeps_basic keeps_queries)

lemma keeps_config_here: "keeps R (config_here n a item)"
  unfolding config_here_def close_section_def config_result_def
  by (intro keeps_rules keeps_basic keeps_queries keeps_increment_parsed keeps_trigger_pre_parse keeps_process_callbacks
      keeps_process_requirements keeps_run_callback keeps_add_flag_like_result keeps_config_option)

lemma keeps_parse_config: "keeps R (parse_config n a items)"
proof -
  have "keeps R (parse_single_config n a item level)" for n a item level
    by (induction n arbitrary: a level) (auto intro!: keeps_rules keeps_queries keeps_config_here)
  then show ?thesis
    unfolding parse_config_def by (intro keeps_rules keeps_basic)
qed

lemma keeps_as_strings: "keeps R (as_strings p)"
proof -
  have "R w (snd (as_strings p w))" for w :: "'v cli"
  proof (cases "results_as (env_sum_strings (w_env w))
            (lexical_conversion_container (\<lambda>s. lexical_assign lexical_cast_string [] s [])) (w_opts w ! p)")
    case (Inl e)
    then show ?thesis by (simp add: as_strings_def comp_simps refl)
  next
    case (Inr r)
    then obtain out opt' where r: "r = (out, opt')" by fastforce
    from static_results_as [OF Inr [unfolded r]] show ?thesis
      using Inr r by (simp add: as_strings_def comp_simps opt_state)
  qed
  then show ?thesis by (simp add: keeps_def)
qed

lemma keeps_process_config_file: "keeps R (process_config_file n a)"
  unfolding process_config_file_def process_one_config_file_def
  by (intro keeps_rules keeps_basic keeps_queries keeps_parse_config keeps_as_strings)

lemma keeps_priority_steps: "keeps R (priority_steps n a before priority)"
  unfolding priority_steps_def by (intro keeps_rules keeps_process_callbacks keeps_process_help_flags)

lemma keeps_app_process: "keeps R (app_process n a)"
  unfolding app_process_def config_stage_def
  by (intro keeps_rules keeps_basic keeps_priority_steps keeps_process_config_file keeps_process_env
      keeps_process_requirements)

lemma keeps_complete_subcommand: "keeps R (complete_subcommand n a)"
  unfolding complete_subcommand_def
  by (intro keeps_rules keeps_priority_steps keeps_process_env keeps_process_requirements keeps_run_callback)

lemma keeps_process_extras: "keeps R (process_extras n a)"
  by (induction n arbitrary: a) (auto intro!: keeps_rules keeps_basic keeps_queries)

lemma keeps_missing: "keeps R (add_missing a c s)" "keeps R (move_to_missing a c s)" "keeps R (drain_args a)"
proof -
  show add: "keeps R (add_missing a c s)" for a c s
    unfolding add_missing_def by (intro keeps_rules keeps_basic)
  show "keeps R (move_to_missing a c s)"
    unfolding move_to_missing_def by (intro keeps_rules keeps_basic add)
  show "keeps R (drain_args a)"
    unfolding drain_args_def by (intro keeps_rules keeps_basic add)
qed

lemmas keeps_steps = keeps_basic keeps_queries keeps_app_clear keeps_increment_parsed keeps_trigger_pre_parse
  keeps_add_flag_like_result keeps_app_process keeps_complete_subcommand keeps_process_extras keeps_missing

subsection \<open>Reading the arguments\<close>

lemma keeps_parsed: "keeps R (parsed_option a p)" "keeps R (parsed_subcommand a com)"
  unfolding parsed_option_def parsed_subcommand_def by (intro keeps_rules keeps_basic)+

lemma keeps_groups_take:
  assumes "\<And>s. keeps R (ask s)"
  shows "keeps R (groups_take ask n a)"
  unfolding groups_take_def group_took_def by (intro keeps_rules keeps_steps assms)

lemma keeps_take_positional: "keeps R (take_positional a p s)"
  unfolding take_positional_def separate_results_def
  by (intro keeps_rules keeps_steps keeps_parsed)

lemma keeps_parse_positional:
  assumes "\<And>c. keeps R (calls c)"
  shows "keeps R (parse_positional calls n a b)"
  unfolding parse_positional_def required_positional_def next_positional_def accepts_positional_def
    positional_elsewhere_def broader_subcommand_def extra_positional_def
  by (intro keeps_rules keeps_steps keeps_take_positional keeps_groups_take assms)

lemma keeps_climb: "keeps R (climb n a com q k)"
  by (induction n arbitrary: q) (auto intro!: keeps_rules keeps_steps keeps_parsed)

lemma keeps_parse_subcommand:
  assumes "\<And>c. keeps R (calls c)"
  shows "keeps R (parse_subcommand calls n a)"
  unfolding parse_subcommand_def dotted_subcommand_def
  by (intro keeps_rules keeps_steps keeps_parsed keeps_climb assms)

lemma keeps_add_counted: "keeps R (add_counted a p s)"
  unfolding keeps_def
proof
  fix w :: "'v cli"
  obtain c opt where count: "add_result_count s (w_opts w ! p) = (c, opt)" by fastforce
  define w1 where "w1 = w\<lparr>w_opts := (w_opts w)[p := opt]\<rparr>"
  define rest where "rest = m_seq (parsed_option a p) (m_return c :: ('v, int) cli_m)"
  have rest: "keeps R rest"
    unfolding rest_def by (intro keeps_rules keeps_parsed)
  have "R w w1"
    using static_add_result [of s "w_opts w ! p"] count unfolding w1_def by (intro opt_state) simp
  moreover have "R w1 (snd (rest w1))"
    using rest by (simp add: keeps_def)
  moreover have "add_counted a p s w = rest w1"
    by (simp add: add_counted_def comp_simps count w1_def rest_def)
  ultimately show "R w (snd (add_counted a p s w))" using trans by simp
qed

lemma keeps_arg_found: "keeps R (arg_found n a p arg_name value rest)"
proof -
  have "keeps R (gather_minimum k a p mn c)" for k a p mn c
    by (induction k arbitrary: c) (auto intro!: keeps_rules keeps_steps keeps_add_counted)
  moreover have "keeps R (gather_optional k n a p mx rem c)" for k n a p mx rem c
    by (induction k arbitrary: c) (auto intro!: keeps_rules keeps_steps keeps_add_counted)
  ultimately show ?thesis
    unfolding arg_found_def separate_results_def take_inline_def take_following_def eat_positional_mark_def close_partial_def
    by (intro keeps_rules keeps_steps keeps_add_counted keeps_parsed)
qed

lemma keeps_parse_arg:
  assumes "\<And>c. keeps R (calls c)"
  shows "keeps R (parse_arg calls n a type local)"
proof -
  have dots: "keeps R (dot_notation calls n a type arg_name)" for type arg_name
    unfolding dot_notation_def dotted_done_def by (intro keeps_rules keeps_steps keeps_parsed assms)
  have "keeps R (assume_arguments k n a)" for k
    by (induction k) (auto intro!: keeps_rules keeps_steps)
  then have "keeps R (extra_option n a type current)" for type current
    unfolding extra_option_def by (intro keeps_rules keeps_steps)
  with dots show ?thesis
    unfolding parse_arg_def find_arg_def non_standard_arg_def arg_elsewhere_def
    by (intro keeps_rules keeps_steps keeps_arg_found keeps_groups_take assms)
qed

lemma keeps_parse_single:
  assumes "\<And>c. keeps R (calls c)"
  shows "keeps R (parse_single calls n a b)"
  unfolding parse_single_def positional_mark_def
  by (auto intro!: keeps_rules keeps_steps assms split: Classifier.split)

lemma keeps_run_call: "keeps R (run_call n c)"
proof (induction n arbitrary: c)
  case (Suc n)
  have "keeps R (app_parse (run_call n) n a)" for a
    unfolding app_parse_def remaining_for_passthrough_def by (intro keeps_rules keeps_steps Suc)
  moreover have "keeps R (parse_loop (run_call n) n a b)" for a b
    unfolding parse_loop_def by (intro keeps_rules keeps_steps keeps_parse_single Suc)
  ultimately show ?case
    by (auto intro!: keeps_parse_subcommand keeps_parse_positional keeps_parse_arg Suc split: call.split)
qed (simp add: keeps_read)

lemma keeps_parse_top: "keeps R (parse_top n a)"
proof -
  have "keeps R (top_loop n a b)" for b
    by (induction n arbitrary: b) (auto intro!: keeps_rules keeps_parse_single keeps_run_call)
  then show ?thesis
    unfolding parse_top_def by (intro keeps_rules keeps_steps)
qed

end


section \<open>The definition is kept\<close>

lemma list_update_static: "f x = f (xs ! i) \<Longrightarrow> map f (xs[i := x]) = map f xs"
  by (metis list_update_id map_update)

interpretation parsing: parse_frame same_definition
  by unfold_locales (auto simp: same_definition_def list_update_static)

lemma parse_keeps_definition:
  "same_definition w (snd (parse_top n a w))" "same_definition w (snd (run_callback n a b b' w))"
  using parsing.keeps_parse_top parsing.keeps_run_callback unfolding keeps_def by blast+

end
