(* ===== verification/Cli_Text_Correct.thy ===== *)
theory Cli_Text_Correct
  imports Cli_Results
begin

text \<open>
  What the string functions of the library promise: escaping and unescaping are inverse, for the
  backslash sequences and for the binary form, and the conversions of decimal numbers to integers
  are exact: they succeed for the values of the type, with that value, and fail for all others.
\<close>

section \<open>Escape sequences\<close>

lemma char_pos_Some: "char_pos s c = Some i \<Longrightarrow> i < length s \<and> s ! i = c"
proof -
  have "find_pos P s = Some i \<Longrightarrow> i < length s \<and> P (s ! i)" for P :: "char \<Rightarrow> bool" and s i
    by (induction s arbitrary: i) (auto split: if_splits)
  then show "char_pos s c = Some i \<Longrightarrow> ?thesis" unfolding char_pos_def by blast
qed

lemma escape_codes: "i < 7 \<Longrightarrow> char_pos escapedCharsCode (escapedCharsCode ! i) = Some i"
  by (auto simp: less_Suc_eq eval_nat_numeral escapedCharsCode_def char_pos_def)

lemma unescape_escaped: "unescape_loop str (add_escaped_characters s) out = Inr (out @ s)"
proof (induction s arbitrary: out)
  case Nil then show ?case by (simp add: add_escaped_characters_def unescape_loop.simps)
next
  case (Cons c s)
  show ?case
  proof (cases "char_pos escapedChars c")
    case None
    then have "c \<noteq> CHR 0x5C" by (auto simp: char_pos_def escapedChars_def)
    with None Cons show ?thesis by (subst unescape_loop.simps) (simp add: add_escaped_characters_def)
  next
    case (Some i)
    from char_pos_Some [OF this] have i: "i < 7" "escapedChars ! i = c" by (simp_all add: escapedChars_def)
    with Some Cons escape_codes [OF i(1)] show ?thesis
      by (subst unescape_loop.simps) (simp add: add_escaped_characters_def)
  qed
qed

section \<open>Binary strings\<close>

text \<open>
  The text between the marks, as a function of the string: \<open>escaped\<close> says that the character before
  is a backslash.
\<close>

fun binary_body :: "bool \<Rightarrow> string \<Rightarrow> string" where
  "binary_body escaped [] = []"
| "binary_body escaped (c # cs) =
     (if \<not> isprint c \<or> c = CHR 0x27 \<or> escaped \<and> (c = CHR ''x'' \<or> c = CHR ''X'')
      then [CHR 0x5C, CHR ''x''] @ hex_byte c @ binary_body False cs
      else c # binary_body (c = CHR 0x5C) cs)"

lemma quote_escape_append: "quote_escape (a @ b) = quote_escape a @ quote_escape b"
  by (induction a) auto


lemma hex_digit:
  assumes "n < 16"
  shows "hexConvert (hex_digit n) = of_nat n" and "isprint (hex_digit n)" and "hex_digit n \<noteq> CHR 0x27"
    and "hex_digit n \<noteq> CHR 0x5C"
proof -
  let ?code = "if n < 10 then 48 + n else 87 + n"
  have nat_code: "(of_char (hex_digit n) :: nat) = ?code"
    using assms by (simp add: hex_digit_def of_char_of)
  have int_code: "(of_char (hex_digit n) :: int) = int ?code"
    unfolding nat_code [symmetric] by (simp add: of_char_def)
  show "hexConvert (hex_digit n) = of_nat n"
    unfolding hexConvert_def int_code Let_def using assms by simp
  show "isprint (hex_digit n)"
    unfolding isprint_def nat_code Let_def using assms by simp
  have "(of_char (CHR 0x27) :: nat) = 39" "(of_char (CHR 0x5C) :: nat) = 92" by simp_all
  with nat_code assms show "hex_digit n \<noteq> CHR 0x27" "hex_digit n \<noteq> CHR 0x5C"
    by (auto split: if_splits)
qed

lemma hex_byte:
  "make_char (hexConvert (hex_digit (of_char c div 16)) * 16 + hexConvert (hex_digit (of_char c mod 16))) = c"
  "hexConvert (hex_digit (of_char c div 16)) \<le> 0x0F" "hexConvert (hex_digit (of_char c mod 16)) \<le> 0x0F"
proof -
  have *: "(of_char c :: nat) div 16 < 16" "(of_char c :: nat) mod 16 < 16"
    by (simp_all add: less_mult_imp_div_less)
  have "(of_nat (of_char c div 16) * 16 + of_nat (of_char c mod 16) :: 32 word) = of_nat (of_char c)"
    by (metis div_mult_mod_eq of_nat_add of_nat_mult of_nat_numeral)
  moreover have "unat (of_nat (of_char c) :: 32 word) = of_char c"
  proof -
    have "(of_char c :: nat) < 256" by (metis mod_less_divisor of_char_mod_256 zero_less_numeral)
    then have "(of_char c :: nat) < 2 ^ LENGTH(32)" by (rule order_less_le_trans) simp
    then show ?thesis by (simp only: unat_of_nat mod_less)
  qed
  ultimately show "make_char (hexConvert (hex_digit (of_char c div 16)) * 16 + hexConvert (hex_digit (of_char c mod 16))) = c"
    using * by (simp add: hex_digit(1) make_char_def)
  show "hexConvert (hex_digit (of_char c div 16)) \<le> 0x0F" "hexConvert (hex_digit (of_char c mod 16)) \<le> 0x0F"
    using * by (simp_all add: hex_digit(1) word_le_nat_alt unat_of_nat take_bit_nat_eq_self)
qed

lemma quote_escape_hex: "quote_escape (hex_byte c) = hex_byte c"
proof -
  have "(of_char c :: nat) div 16 < 16" "(of_char c :: nat) mod 16 < 16"
    by (simp_all add: less_mult_imp_div_less)
  from this [THEN hex_digit(3)] show ?thesis by (simp add: hex_byte_def)
qed

lemma binary_body_eq:
  "quote_escape (binary_escape_chars cs out) = quote_escape out @ binary_body (out \<noteq> [] \<and> last out = CHR 0x5C) cs"
proof (induction cs arbitrary: out)
  case (Cons c cs)
  have "(of_char c :: nat) mod 16 < 16" by simp
  from hex_digit(4) [OF this] have last_hex: "last (hex_byte c) \<noteq> CHR 0x5C" by (simp add: hex_byte_def)
  have hex: "hex_byte (CHR ''x'') = ''78''" "hex_byte (CHR ''X'') = ''58''" "hex_byte (CHR 0x27) = ''27''"
     "isprint (CHR ''x'')" "isprint (CHR ''X'')" "isprint (CHR 0x27)"
    by code_simp+
  let ?special = "out \<noteq> [] \<and> last out = CHR 0x5C \<and> (c = CHR ''x'' \<or> c = CHR ''X'')"
  consider (hex) "\<not> isprint c" | (x) "isprint c" ?special | (quote) "isprint c" "\<not> ?special" "c = CHR 0x27"
    | (plain) "isprint c" "\<not> ?special" "c \<noteq> CHR 0x27" by blast
  then show ?case
  proof cases
    case hex_c: hex
    then have eq: "binary_escape_chars (c # cs) out = binary_escape_chars cs (out @ [CHR 0x5C, CHR ''x''] @ hex_byte c)"
      by simp
    with hex_c last_hex show ?thesis
      unfolding eq Cons by (simp add: quote_escape_append quote_escape_hex)
  next
    case x
    then have eq: "binary_escape_chars (c # cs) out = binary_escape_chars cs (out @ [CHR 0x5C, CHR ''x''] @ hex_byte c)"
      using hex by auto
    with x last_hex show ?thesis
      unfolding eq Cons by (simp add: quote_escape_append quote_escape_hex)
  next
    case quote
    then have eq: "binary_escape_chars (c # cs) out = binary_escape_chars cs (out @ [c])" by simp
    with quote hex show ?thesis unfolding eq Cons by (simp add: quote_escape_append)
  next
    case plain
    then have eq: "binary_escape_chars (c # cs) out = binary_escape_chars cs (out @ [c])" by auto
    with plain show ?thesis unfolding eq Cons by (auto simp: quote_escape_append)
  qed
qed simp

lemma extract_body:
  "extract_loop (pre @ binary_body escaped cs @ CHR '')'' # post) (length pre + length (binary_body escaped cs)) (length pre) out = out @ cs"
proof (induction escaped cs arbitrary: pre out rule: binary_body.induct)
  case (1 escaped)
  then show ?case by (simp add: extract_loop.simps)
next
  case (2 escaped c cs)
  show ?case
  proof (cases "\<not> isprint c \<or> c = CHR 0x27 \<or> escaped \<and> (c = CHR ''x'' \<or> c = CHR ''X'')")
    case True
    define str where "str = pre @ binary_body escaped (c # cs) @ CHR '')'' # post"
    define hi lo where "hi = hex_digit (of_char c div 16)" and "lo = hex_digit (of_char c mod 16)"
    have hex: "hex_byte c = [hi, lo]" by (simp add: hex_byte_def hi_def lo_def)
    have body: "binary_body escaped (c # cs) = [CHR 0x5C, CHR ''x'', hi, lo] @ binary_body False cs"
      using True unfolding binary_body.simps hex by simp
    then have len: "length (binary_body escaped (c # cs)) = 4 + length (binary_body False cs)" by simp
    from body have str: "str = (pre @ [CHR 0x5C, CHR ''x'', hi, lo]) @ binary_body False cs @ CHR '')'' # post"
      by (simp add: str_def)
    have nth: "str ! length pre = CHR 0x5C" "str ! (length pre + 1) = CHR ''x''" "str ! (length pre + 2) = hi"
        "str ! (length pre + 3) = lo"
      unfolding str by (simp_all add: nth_append)
    have step: "extract_loop str e (length pre) out = extract_loop str e (length pre + 4) (out @ [c])"
      if "length pre < e" for e
      by (subst extract_loop.simps) (use that nth hex_byte [of c, folded hi_def lo_def] in simp)
    show ?thesis
      using 2(1) [OF True, of "pre @ [CHR 0x5C, CHR ''x'', hi, lo]" "out @ [c]"] step
      unfolding str_def [symmetric] str [symmetric] len by (simp add: eval_nat_numeral)
  next
    case False
    have next_char: "hd (binary_body True cs @ CHR '')'' # post) \<noteq> CHR ''x'' \<and> hd (binary_body True cs @ CHR '')'' # post) \<noteq> CHR ''X''"
      by (cases cs) auto
    define str where "str = pre @ binary_body escaped (c # cs) @ CHR '')'' # post"
    define rest where "rest = binary_body (c = CHR 0x5C) cs @ CHR '')'' # post"
    have str: "str = (pre @ [c]) @ rest" using False by (auto simp: str_def rest_def)
    have "str ! Suc (length pre) = hd rest"
      unfolding str using nth_append_length [of "pre @ [c]" "hd rest" "tl rest"] by (simp add: rest_def)
    with next_char have nth: "str ! length pre = c"
      "c = CHR 0x5C \<longrightarrow> str ! (length pre + 1) \<noteq> CHR ''x'' \<and> str ! (length pre + 1) \<noteq> CHR ''X''"
      unfolding str by (auto simp: rest_def)
    from nth have step: "extract_loop str e (length pre) out = extract_loop str e (length pre + 1) (out @ [c])"
      if "length pre < e" for e
      by (subst extract_loop.simps) (use that in auto)
    have len: "length (binary_body escaped (c # cs)) = 1 + length (binary_body (c = CHR 0x5C) cs)"
      using False by auto
    show ?thesis
      using 2(2) [OF False, of "pre @ [c]" "out @ [c]"] step str
      unfolding str_def [symmetric] len rest_def by simp
  qed
qed

lemma extract_binary_escape: "extract_binary_string (binary_escape_string s True) = s"
proof -
  define body where "body = binary_body False s"
  have *: "binary_escape_string s True = [CHR 0x27, CHR ''B'', CHR 0x22, CHR ''(''] @ body @ [CHR '')'', CHR 0x22, CHR 0x27]"
    by (simp add: binary_escape_string_def binary_body_eq body_def)
  show ?thesis
    using extract_body [of "[CHR 0x27, CHR ''B'', CHR 0x22, CHR ''('']" False s "[CHR 0x22, CHR 0x27]" "[]"]
    unfolding extract_binary_string_def * compare_at_def Let_def
    by (simp add: body_def eval_nat_numeral)
qed

section \<open>Decimal numbers\<close>

lemma decimal_digit: "c \<in> set (decimal n) \<Longrightarrow> c \<in> set ''0123456789''"
  using digits_decimal by blast

lemma decimal_cases: "decimal n = (if n < 10 then [char_of (48 + n)] else decimal (n div 10) @ [char_of (48 + n mod 10)])"
  by (subst decimal.simps) simp

lemma decimal_zero: "decimal 0 = ''0''"
  by (subst decimal.simps) (simp add: char_of_def bit_0)

lemma decimal_head: "n \<noteq> 0 \<Longrightarrow> decimal n \<noteq> [] \<and> hd (decimal n) \<in> set ''123456789''"
proof (induction n rule: decimal.induct)
  case (1 n)
  show ?case
  proof (cases "n < 10")
    case True
    then have "n \<in> {1, 2, 3, 4, 5, 6, 7, 8, 9}" using 1(2) by auto
    with True show ?thesis by (subst (1 2) decimal_cases) (elim insertE emptyE; simp add: char_of_def bit_0)
  next
    case False
    with 1(1) [OF False] show ?thesis by (subst (1 2) decimal_cases) (simp add: div_eq_0_iff)
  qed
qed

lemma decimal_nonempty [simp]: "decimal n \<noteq> []"
  by (cases "n = 0") (simp_all add: decimal_zero decimal_head)

lemma digit_of_decimal: "k < 10 \<Longrightarrow> digit_of 10 (char_of (48 + k)) = Some k"
  using digit_char(1) [of k] by (simp add: digit_of_def Let_def)

lemma scan_decimal:
  "scan_digits 10 (decimal n @ cs) v k = scan_digits 10 cs (v * 10 ^ length (decimal n) + n) (k + length (decimal n))"
proof (induction n arbitrary: cs v k rule: decimal.induct)
  case (1 n)
  show ?case
  proof (cases "n < 10")
    case True
    then have "decimal n = [char_of (48 + n)]" by (subst decimal_cases) simp
    with True show ?thesis by (simp add: digit_of_decimal)
  next
    case False
    then have eq: "decimal n = decimal (n div 10) @ [char_of (48 + n mod 10)]" by (subst decimal_cases) simp
    have "(v * 10 ^ m + n div 10) * 10 + n mod 10 = v * 10 ^ (m + 1) + n" for m
      by (simp add: algebra_simps)
    with 1(1) [OF False] show ?thesis unfolding eq by (simp add: digit_of_decimal algebra_simps)
  qed
qed

lemma strto_decimal: "strto (decimal n) 0 = (False, n, length (decimal n))"
proof (cases "n = 0")
  case True
  then show ?thesis by (simp add: decimal_zero) code_simp
next
  case False
  from decimal_head [OF this] obtain d ds where dec: "decimal n = d # ds" and d: "d \<in> set ''123456789''"
    by (cases "decimal n") auto
  from d have d': "\<not> isspace d" "d \<noteq> CHR ''+''" "d \<noteq> CHR ''-''" "d \<noteq> CHR ''0''"
    by (auto simp: isspace_def)
  have "scan_digits 10 (d # ds) 0 0 = (n, Suc (length ds))"
    using scan_decimal [of n "[]" 0 0] unfolding dec by simp
  with d' show ?thesis by (simp add: strto_def dec Let_def del: scan_digits.simps)
qed

lemma strto_negative: "strto (CHR ''-'' # decimal n) 0 = (True, n, Suc (length (decimal n)))"
proof (cases "n = 0")
  case True
  then show ?thesis by (simp add: decimal_zero) code_simp
next
  case False
  from decimal_head [OF this] obtain d ds where dec: "decimal n = d # ds" and d: "d \<in> set ''123456789''"
    by (cases "decimal n") auto
  from d have d': "d \<noteq> CHR ''0''" "\<not> isspace (CHR ''-'')"
    by (auto simp: isspace_def)
  have "scan_digits 10 (d # ds) 0 0 = (n, Suc (length ds))"
    using scan_decimal [of n "[]" 0 0] unfolding dec by simp
  with d' show ?thesis by (simp add: strto_def dec Let_def del: scan_digits.simps)
qed


lemma strtoull_decimal:
  "strtoull (decimal n) 0 = (if n < 2 ^ 64 then (of_nat n, length (decimal n), False) else (- 1, length (decimal n), True))"
  by (simp add: strtoull_def strto_decimal)

lemma strtoll_decimal:
  "strtoll (decimal n) 0 =
     (if n < 2 ^ 63 then (of_nat n, length (decimal n), False)
      else (word_of_int (2 ^ 63 - 1), length (decimal n), True))"
  by (simp add: strtoll_def strto_decimal)

lemma strtoll_int_string:
  "strtoll (int_string i) 0 =
     (if - (2 ^ 63) \<le> i \<and> i < 2 ^ 63 then (word_of_int i, length (int_string i), False)
      else (word_of_int (if i < 0 then - (2 ^ 63) else 2 ^ 63 - 1), length (int_string i), True))"
proof (cases "i < 0")
  case True
  then have "- word_of_nat (nat (- i)) = (word_of_int i :: 64 word)"
    by (metis minus_minus neg_0_le_iff_le nat_0_le of_int_minus of_int_of_nat_eq order_less_imp_le)
  moreover have "9223372036854775808 < nat (- i) \<longleftrightarrow> \<not> - 9223372036854775808 \<le> i" using True by linarith
  ultimately show ?thesis using True
    by (simp add: strtoll_def int_string_def strto_negative del: of_nat_nat)
next
  case False
  then show ?thesis by (auto simp: strtoll_def int_string_def strto_decimal nat_less_iff)
qed

lemma convert_unsigned:
  fixes out :: "'a::len word"
  assumes "LENGTH('a) \<in> {8, 16, 32, 64}"
  shows "fst (integral_conversion_unsigned (decimal n) out) \<longleftrightarrow> n < 2 ^ LENGTH('a)"
    and "n < 2 ^ LENGTH('a) \<Longrightarrow> integral_conversion_unsigned (decimal n) out = (True, of_nat n)"
proof -
  let ?w = "LENGTH('a)"
  have w: "?w \<le> 64" "?w = 64 \<or> ?w < 63" using assms by auto
  have up: "(2 :: nat) ^ ?w \<le> 2 ^ 64" using w by (intro power_increasing) auto
  have cast: "ucast (of_nat n :: 64 word) = (of_nat n :: 'a word)"
    using w(1) by (simp add: word_eq_iff_unsigned [where 'a = nat] unsigned_ucast_eq unsigned_of_nat min_def)
  have again: "ucast (of_nat n :: 'a word) = (of_nat n :: 64 word) \<longleftrightarrow> n < 2 ^ ?w" if "n < 2 ^ 64"
  proof -
    have "ucast (of_nat n :: 'a word) = (of_nat n :: 64 word) \<longleftrightarrow> take_bit ?w n = take_bit 64 n"
      using w(1) by (simp add: word_eq_iff_unsigned [where 'a = nat] unsigned_ucast_eq unsigned_of_nat min_def)
    moreover have "take_bit 64 n = n" using that by (simp add: take_bit_nat_eq_self)
    ultimately show ?thesis by (simp only: take_bit_nat_eq_self_iff)
  qed
  have small_value: "unat (x :: 64 word) < 2 ^ ?w" if "ucast y = x" for y :: "'a word" and x
    using order.strict_trans1 [OF take_bit_nat_less_eq_self unsigned_less [where 'a = nat, of y]]
    by (simp add: that [symmetric] unsigned_ucast_eq)
  have head: "hd (decimal n) \<noteq> CHR ''-''"
    using decimal_digit [of "hd (decimal n)" n] by auto
  show small: "integral_conversion_unsigned (decimal n) out = (True, of_nat n)" if "n < 2 ^ ?w"
    using that up head by (subst integral_conversion_unsigned.simps) (simp add: strtoull_decimal cast again)
  have big: "\<not> fst (integral_conversion_unsigned (decimal n) out)" if n: "\<not> n < 2 ^ ?w"
  proof (cases "n < 2 ^ 64")
    case False
    then show ?thesis
      by (subst integral_conversion_unsigned.simps) (simp add: strtoull_decimal)
  next
    case True
    define x :: "64 word" where "x = fst (strtoll (decimal n) 0)"
    define err where "err = snd (snd (strtoll (decimal n) 0))"
    have ll: "strtoll (decimal n) 0 = (x, length (decimal n), err)"
      by (simp add: x_def err_def strtoll_decimal)
    have "?w < 63" using n True w(2) by auto
    then have "(2 :: nat) ^ ?w \<le> 2 ^ 62" by (intro power_increasing) auto
    then have "\<not> unat x < 2 ^ ?w"
      using n True by (auto simp: x_def strtoll_decimal unsigned_of_nat take_bit_nat_eq_self)
    then have "ucast y \<noteq> x" for y :: "'a word" using small_value by blast
    with n True head show ?thesis
      by (subst integral_conversion_unsigned.simps) (simp add: strtoull_decimal cast again ll)
  qed
  from small big show "fst (integral_conversion_unsigned (decimal n) out) \<longleftrightarrow> n < 2 ^ LENGTH('a)" by auto
qed

lemma convert_signed:
  fixes out :: "'a::len word"
  assumes "LENGTH('a) \<in> {8, 16, 32, 64}"
  shows "fst (integral_conversion_signed (int_string i) out) \<longleftrightarrow> - (2 ^ (LENGTH('a) - 1)) \<le> i \<and> i < 2 ^ (LENGTH('a) - 1)"
    and "- (2 ^ (LENGTH('a) - 1)) \<le> i \<Longrightarrow> i < 2 ^ (LENGTH('a) - 1) \<Longrightarrow>
      integral_conversion_signed (int_string i) out = (True, word_of_int i)"
proof -
  let ?w = "LENGTH('a)"
  let ?in = "- (2 ^ (?w - 1)) \<le> i \<and> i < 2 ^ (?w - 1)"
  let ?in64 = "- (2 ^ 63) \<le> i \<and> i < 2 ^ 63"
  have w: "?w \<le> 64" "1 \<le> ?w" using assms by auto
  then have up: "(2 :: int) ^ (?w - 1) \<le> 2 ^ 63" by (intro power_increasing) auto
  have cast: "ucast (word_of_int i :: 64 word) = (word_of_int i :: 'a word)"
    using w(1) by (simp add: word_eq_iff_unsigned [where 'a = int] unsigned_ucast_eq unsigned_of_int min_def)
  have again: "scast (word_of_int i :: 'a word) = (word_of_int i :: 64 word) \<longleftrightarrow> ?in" if ?in64
  proof -
    have "sint (scast (word_of_int i :: 'a word) :: 64 word) = signed_take_bit (?w - 1) i"
      using w by (cases "?w = 64") (auto simp: signed_scast_eq signed_of_int min_def)
    moreover have "sint (word_of_int i :: 64 word) = signed_take_bit 63 i"
      by (simp add: signed_of_int)
    moreover have "signed_take_bit 63 i = i" using that by (simp add: signed_take_bit_int_eq_self)
    ultimately have "sint (scast (word_of_int i :: 'a word) :: 64 word) = sint (word_of_int i :: 64 word) \<longleftrightarrow> ?in"
      by (simp only: signed_take_bit_int_eq_self_iff)
    moreover have "a = b \<longleftrightarrow> sint a = sint b" for a b :: "64 word" by (rule word_eq_iff_signed)
    ultimately show ?thesis by (simp only:)
  qed
  have chars: "c = CHR ''-'' \<or> c \<in> set ''0123456789''" if c: "c \<in> set (int_string i)" for c
  proof -
    from c have "c = CHR ''-'' \<or> c \<in> set (decimal (nat i)) \<or> c \<in> set (decimal (nat (- i)))"
      by (auto simp: int_string_def split: if_splits)
    then show ?thesis by (elim disjE) (blast dest: decimal_digit)+
  qed
  have ne: "int_string i \<noteq> []" by (simp add: int_string_def)
  have no_sep: "first_separator (int_string i) = None"
    using chars by (auto simp: first_separator_def find_None_iff get_group_separators_def)
  have no_blank: "\<not> isspace (last (int_string i))"
    using chars [OF last_in_set [OF ne]] by (auto simp: isspace_def)
  have no_true: "int_string i \<noteq> ''true''" using chars [of "CHR ''t''"] by auto
  have no_prefix: "take 2 (int_string i) \<noteq> [c, d]" if "d \<noteq> CHR ''-'' \<and> d \<notin> set ''0123456789''" for c d
    using chars [of d] that by (metis in_set_takeD list.set_intros(1,2))
  show small: "integral_conversion_signed (int_string i) out = (True, word_of_int i)" if "- (2 ^ (?w - 1)) \<le> i" "i < 2 ^ (?w - 1)"
    using that up ne by (subst integral_conversion_signed.simps) (simp add: strtoll_int_string cast again)
  have big: "\<not> fst (integral_conversion_signed (int_string i) out)" if n: "\<not> ?in"
    using n ne no_sep no_blank no_true no_prefix again
    by (subst integral_conversion_signed.simps) (auto simp: strtoll_int_string cast Let_def)
  from small big show "fst (integral_conversion_signed (int_string i) out) \<longleftrightarrow> ?in" by auto
qed

end
