(* ===== verification/Cli_Results_Correct.thy ===== *)
theory Cli_Results_Correct
  imports Cli_Text_Correct
begin

text \<open>
  The results of an option against a specification of the policies for multiple values, and the
  arithmetic of the limits: which results the callback of an option gets, and that the checked
  multiplication of the limits is exact.
\<close>

section \<open>Checked multiplication\<close>

definition in_int :: "int \<Rightarrow> bool" where
  "in_int k \<longleftrightarrow> int_min \<le> k \<and> k \<le> int_max"

lemma div_less_iff: "0 < c \<Longrightarrow> k div c < d \<longleftrightarrow> k < d * c" for c k d :: int
proof
  assume c: "0 < c" and "k div c < d"
  then have "(k div c + 1) * c \<le> d * c" by (intro mult_right_mono) auto
  moreover have "k div c * c + k mod c = k" "k mod c < c" using c by simp_all
  then have "k < (k div c + 1) * c" unfolding distrib_right mult_1 by linarith
  ultimately show "k < d * c" by simp
next
  assume c: "0 < c" and less: "k < d * c"
  show "k div c < d"
  proof (rule ccontr)
    assume "\<not> k div c < d"
    with c have "d * c \<le> k div c * c" by (intro mult_right_mono) auto
    also have "k div c * c \<le> k" using div_mult_mod_eq [of k c] pos_mod_sign [OF c, of k] by linarith
    finally show False using less by simp
  qed
qed

lemma overflowCheck_iff:
  assumes "a \<noteq> 0" "b \<noteq> 0"
  shows "overflowCheck a b \<longleftrightarrow> \<not> in_int (a * b)"
proof -
  have div_less: "k div \<bar>a\<bar> < \<bar>b\<bar> \<longleftrightarrow> k < \<bar>a * b\<bar>" for k
    using assms by (simp add: div_less_iff abs_mult mult.commute)
  show ?thesis
  proof (cases "(a > 0) = (b > 0)")
    case True
    then have "a * b > 0" using assms by (auto simp: zero_less_mult_iff not_less le_less)
    with True show ?thesis
      by (simp add: overflowCheck_def div_less in_int_def int_max_def int_min_def not_le)
  next
    case False
    then have "a * b < 0" using assms by (auto simp: mult_less_0_iff not_less le_less)
    then have "\<bar>a * b\<bar> = - (a * b)" by simp
    with False \<open>a * b < 0\<close> show ?thesis
      using div_less [of "- int_min"] by (simp add: overflowCheck_def in_int_def int_max_def int_min_def) linarith
  qed
qed

lemma int_min_product:
  assumes "b \<noteq> 0" "b \<noteq> 1"
  shows "\<not> in_int (int_min * b)"
proof (cases "b > 0")
  case True
  with assms have "b \<ge> 2" by simp
  then show ?thesis by (simp add: in_int_def int_min_def)
next
  case False
  with assms have "b \<le> - 1" by simp
  then show ?thesis by (simp add: in_int_def int_min_def int_max_def)
qed

lemma checked_multiply_exact:
  assumes "in_int a" "in_int b"
  shows "checked_multiply a b = (if in_int (a * b) then (True, a * b) else (False, a))"
proof -
  consider "a = 0 \<or> b = 0 \<or> a = 1 \<or> b = 1"
    | "a \<noteq> 0" "b \<noteq> 0" "a \<noteq> 1" "b \<noteq> 1" "a = int_min \<or> b = int_min"
    | "a \<noteq> 0" "b \<noteq> 0" "a \<noteq> 1" "b \<noteq> 1" "a \<noteq> int_min" "b \<noteq> int_min" by blast
  then show ?thesis
  proof cases
    case 1
    with assms have "in_int (a * b)" by (auto simp: in_int_def int_min_def int_max_def)
    with 1 show ?thesis by (simp add: checked_multiply_def)
  next
    case 2
    then have "\<not> in_int (a * b)"
      using int_min_product [of b] int_min_product [of a] by (auto simp: mult.commute)
    with 2 show ?thesis by (auto simp: checked_multiply_def)
  next
    case 3
    then show ?thesis by (simp add: checked_multiply_def overflowCheck_iff)
  qed
qed

lemma checked_multiply_unsigned_exact:
  "checked_multiply_unsigned a b =
     (if unat a * unat b < 2 ^ LENGTH('a) then (True, a * b) else (False, a :: 'a::len word))"
proof (cases "a = 0 \<or> b = 0 \<or> a = 1 \<or> b = 1")
  case True
  then have "unat a * unat b < 2 ^ LENGTH('a)" by auto
  with True show ?thesis by (simp add: checked_multiply_unsigned_def)
next
  case False
  then have pos: "unat a > 0" by (simp add: unat_gt_0)
  have "unat ((- 1) div a) = (2 ^ LENGTH('a) - 1) div unat a"
    by (simp add: unat_div unsigned_minus_1_eq_mask mask_eq_exp_minus_1)
  then have "overflowCheck_unsigned a b \<longleftrightarrow> (2 ^ LENGTH('a) - 1) div unat a < unat b"
    by (simp add: overflowCheck_unsigned_def word_less_nat_alt)
  also have "\<dots> \<longleftrightarrow> 2 ^ LENGTH('a) - 1 < unat a * unat b"
    using pos by (simp add: div_less_iff_less_mult mult.commute)
  also have "\<dots> \<longleftrightarrow> \<not> unat a * unat b < 2 ^ LENGTH('a)"
    using zero_less_power [of "2 :: nat" "LENGTH('a)"] by linarith
  finally show ?thesis using False by (simp add: checked_multiply_unsigned_def)
qed

section \<open>Policies\<close>

text \<open>
  What a policy makes of the results \<open>rs\<close>, with the limits of the option. An empty vector on the
  command line, when the option needs items, is followed by the separator.
\<close>

definition last_items :: "nat \<Rightarrow> 'a list \<Rightarrow> 'a list" where
  "last_items k rs = drop (length rs - k) rs"

definition policy_value :: "(string list \<Rightarrow> string) \<Rightarrow> 'v opt \<Rightarrow> results_t \<Rightarrow> cli_exn + results_t" where
  "policy_value sum_strings opt rs =
     (let lo = max 1 (get_items_expected_min opt); hi = max 1 (get_items_expected_max opt) in
      case o_multi_option_policy opt of
        TakeAll \<Rightarrow> Inr rs
      | TakeLast \<Rightarrow> Inr (last_items (nat hi) rs)
      | TakeFirst \<Rightarrow> Inr (take (nat hi) rs)
      | Reverse \<Rightarrow> Inr (rev (last_items (nat hi) rs))
      | Join \<Rightarrow>
          Inr (if length rs > 1
               then [join rs [if o_delimiter opt = CHR 0x00 then CHR 0x0A else o_delimiter opt]] else rs)
      | Sum \<Rightarrow> Inr [sum_strings rs]
      | Throw \<Rightarrow>
          if int (length rs) < lo then Inl (AtLeast (opt_name opt) lo (length rs))
          else if int (length rs) \<le> hi \<or> hi = 1 \<and> rs = [''{}'', ''%%''] then Inr rs
          else Inl (AtMost (opt_name opt) hi (length rs)))"

definition mark_empty :: "'v opt \<Rightarrow> results_t \<Rightarrow> results_t" where
  "mark_empty opt rs = (if rs = [''{}''] \<and> get_items_expected_min opt > 0 then [''{}'', ''%%''] else rs)"

definition policy_spec :: "(string list \<Rightarrow> string) \<Rightarrow> 'v opt \<Rightarrow> results_t \<Rightarrow> cli_exn + results_t" where
  "policy_spec sum_strings opt rs = map_sum id (mark_empty opt) (policy_value sum_strings opt rs)"

lemma single: "length xs = Suc 0 \<Longrightarrow> xs ! 0 = x \<longleftrightarrow> xs = [x]"
  by (cases xs) auto

lemma empty_marker: "(if empty_marker opt rs out = [] then rs else empty_marker opt rs out) =
    mark_empty opt (if out = [] then rs else out)"
  by (auto simp: empty_marker_def mark_empty_def single length_Suc_conv)

lemma drop_min: "drop (length rs - min k (length rs)) rs = drop (length rs - k) rs"
  by (cases "k \<le> length rs") simp_all

lemma rev_short: "\<not> Suc 0 < length rs \<Longrightarrow> rev rs = rs"
  by (cases rs) auto

lemma reduce_results_spec:
  assumes "length (o_results opt) = length rs" "0 \<le> get_items_expected_min opt" "0 \<le> get_items_expected_max opt"
  shows "map_sum id (\<lambda>out. if out = [] then rs else out) (reduce_results sum_strings opt rs)
    = policy_spec sum_strings opt rs"
proof -
  have *: "map_sum id (\<lambda>out. if out = [] then rs else out) (map_sum id (empty_marker opt rs) r)
      = map_sum id (mark_empty opt) (map_sum id (\<lambda>out. if out = [] then rs else out) r)" for r :: "cli_exn + results_t"
    by (cases r) (simp_all add: empty_marker)
  have two: "length rs = 2 \<and> rs ! 1 = ''%%'' \<and> rs ! 0 = ''{}'' \<longleftrightarrow> rs = [''{}'', ''%%'']"
    by (auto simp: length_Suc_conv numeral_2_eq_2)
  have hi: "nat (max (get_items_expected_max opt) 1) = max 1 (nat (get_items_expected_max opt))" by linarith
  have "map_sum id (\<lambda>out. if out = [] then rs else out) (reduce_results sum_strings opt rs) = 
    map_sum id (mark_empty opt) (policy_value sum_strings opt rs)"
  proof (cases "o_multi_option_policy opt")
    case Throw
    with assms two show ?thesis
      unfolding reduce_results_def * by (auto simp: policy_value_def Let_def)
  next
    case TakeLast
    then show ?thesis
      unfolding reduce_results_def * by (auto simp: policy_value_def Let_def trim_size_def last_items_def max.commute)
  next
    case TakeFirst
    then show ?thesis
      unfolding reduce_results_def * by (auto simp: policy_value_def Let_def trim_size_def max.commute)
  next
    case Reverse
    then show ?thesis
      unfolding reduce_results_def *
      by (auto simp: policy_value_def Let_def trim_size_def last_items_def max.commute drop_min rev_short)
  qed (use assms in \<open>unfold reduce_results_def *, simp_all add: policy_value_def\<close>)
  then show ?thesis by (simp add: policy_spec_def)
qed


section \<open>The callback\<close>

lemma length_validate_each: "length (snd (validate_each opt sized index done res)) = length done + length res"
  by (induction opt sized index "done" res rule: validate_each.induct)
    (auto split: sum.split)

lemma length_validate_results: "validate_results opt rs = (r, rs') \<Longrightarrow> length rs' = length rs"
  using length_validate_each [of opt] by (auto simp: validate_results_def Let_def split: if_splits dest: arg_cong [where f = "\<lambda>p. length (snd p)"])

lemma opt_name_fields:
  "opt_name opt = (if o_group opt = [] then [] else if o_lnames opt \<noteq> [] then ''--'' @ hd (o_lnames opt)
     else if o_snames opt \<noteq> [] then ''-'' @ hd (o_snames opt) else o_pname opt)"
  by (simp add: get_name_def)

text \<open>What is left of a run of the callback: its exception or answer, and the variables.\<close>

definition callback_outcome ::
  "'v opt \<Rightarrow> results_t \<Rightarrow> (cli_exn + bool) \<times> 'v \<Rightarrow> (cli_exn + unit) \<times> 'v" where
  "callback_outcome opt rs = map_prod (\<lambda>r. case r of
      Inl e \<Rightarrow> Inl e
    | Inr ok \<Rightarrow> if ok then Inr () else Inl (ConversionError_results (opt_name opt) rs)) id"

lemma run_callback_delivers:
  assumes "o_state opt = Opt_parsing" "o_results opt \<noteq> []" "o_callback opt = Some callback"
    and "validate_results opt (o_results opt) = (Inr (), rs)"
    and "0 \<le> get_items_expected_min opt" "0 \<le> get_items_expected_max opt"
    and "option_run_callback sum_strings (opt, vars) = (result, opt', vars')"
  shows "(result, vars') = (case policy_spec sum_strings opt rs of
            Inl e \<Rightarrow> (Inl e, vars)
          | Inr vs \<Rightarrow> callback_outcome opt rs (callback vs vars))"
    and "o_results opt' = rs"
    and "o_state opt' = (case policy_spec sum_strings opt rs of Inl e \<Rightarrow> Opt_validated | Inr vs \<Rightarrow> Opt_callback_run)"
proof -
  define opt1 where "opt1 = opt\<lparr>o_results := rs, o_state := Opt_validated\<rparr>"
  have stage1: "validate_stage (force_default opt) = (Inr (), opt1)"
    using assms(1-4) by (simp add: force_default_def validate_stage_def opt1_def)
  have limits: "get_items_expected_min opt1 = get_items_expected_min opt"
    "get_items_expected_max opt1 = get_items_expected_max opt"
    by (simp_all add: opt1_def get_items_expected_min_def get_items_expected_max_def)
  have same: "opt_name opt1 = opt_name opt" "o_multi_option_policy opt1 = o_multi_option_policy opt"
      "o_delimiter opt1 = o_delimiter opt"
    by (simp_all add: opt1_def opt_name_fields)
  have spec: "policy_spec sum_strings opt1 = policy_spec sum_strings opt"
    by (intro ext) (simp only: policy_spec_def mark_empty_def [abs_def] limits policy_value_def same)
  have "rs \<noteq> []" using length_validate_results [OF assms(4)] assms(2) by auto
  have reduced: "map_sum id (\<lambda>out. if out = [] then rs else out) (reduce_results sum_strings opt1 rs)
      = policy_spec sum_strings opt rs"
    using reduce_results_spec [of opt1 rs sum_strings] assms(5,6) by (simp add: limits spec) (simp add: opt1_def)
  define out where "out = reduce_results sum_strings opt1 rs"
  have "(result, vars') = (case policy_spec sum_strings opt rs of
            Inl e \<Rightarrow> (Inl e, vars)
          | Inr vs \<Rightarrow> callback_outcome opt rs (callback vs vars))
      \<and> o_results opt' = rs
      \<and> o_state opt' = (case policy_spec sum_strings opt rs of Inl e \<Rightarrow> Opt_validated | Inr vs \<Rightarrow> Opt_callback_run)"
  proof (cases out)
    case (Inl e)
    then have "policy_spec sum_strings opt rs = Inl e" using reduced by (simp add: out_def)
    with Inl assms(2,7) show ?thesis
      by (auto simp: option_run_callback_def stage1 reduce_stage_def out_def opt1_def)
  next
    case (Inr vs)
    define opt2 where "opt2 = opt1\<lparr>o_proc_results := vs\<rparr>"
    from Inr reduced have sent: "policy_spec sum_strings opt rs = Inr (if vs = [] then rs else vs)"
      by (simp add: out_def)
    have stage2: "reduce_stage sum_strings opt1 = (Inr (), opt2)"
      using Inr by (simp add: reduce_stage_def out_def opt1_def opt2_def)
    have opt2: "o_results opt2 = rs" "o_proc_results opt2 = vs" "o_callback opt2 = Some callback"
        "opt_name (opt2\<lparr>o_state := Opt_callback_run\<rparr>) = opt_name opt"
      using assms(3) by (simp_all add: opt2_def opt1_def opt_name_fields)
    have no_default: "\<not> (o_force_callback opt \<and> o_results opt = [])" using assms(2) by simp
    from assms(7) no_default have "callback_stage False (opt2, vars) = (result, opt', vars')"
      by (simp add: option_run_callback_def stage1 stage2)
    with \<open>rs \<noteq> []\<close> show ?thesis
      by (auto simp: callback_stage_def sent opt2 callback_outcome_def Let_def split: prod.splits sum.splits if_splits)
  qed
  then show "(result, vars') = (case policy_spec sum_strings opt rs of
            Inl e \<Rightarrow> (Inl e, vars)
          | Inr vs \<Rightarrow> callback_outcome opt rs (callback vs vars))"
    and "o_results opt' = rs"
    and "o_state opt' = (case policy_spec sum_strings opt rs of Inl e \<Rightarrow> Opt_validated | Inr vs \<Rightarrow> Opt_callback_run)"
    by blast+
qed

end
