(* ===== verification/Tcpchat_Tree.thy ===== *)
theory Tcpchat_Tree
  imports Tcpchat_App Cli_Frame Cli_Results_Correct
begin

text \<open>
  The application \<^verbatim>\<open>main\<close> builds, written out: four applications, 0 for the program, 1 for
  \<^verbatim>\<open>run\<close>, 2 for \<^verbatim>\<open>server\<close> and 3 for \<^verbatim>\<open>client\<close>, and their six options. The
  store after the calls of the library is shown to be this one.
\<close>

definition fresh_option ::
  "string list \<Rightarrow> string list \<Rightarrow> string \<Rightarrow> (results_t \<Rightarrow> 'v \<Rightarrow> (cli_exn + bool) \<times> 'v) option \<Rightarrow> app_ptr \<Rightarrow> 'v opt" where
  "fresh_option snames lnames description callback parent =
     option_base.extend option_base_default
       \<lparr>o_snames = snames, o_lnames = lnames, o_default_flag_values = [], o_fnames = [], o_pname = [],
        o_envname = [], o_description = description, o_default_str = [], o_option_text = [],
        o_type_name = (\<lambda>_. []), o_default_function = None,
        o_type_size_max = 1, o_type_size_min = 1, o_expected_min = 1, o_expected_max = 1,
        o_validators = [], o_needs = [], o_excludes = [], o_parent = Some parent, o_callback = callback,
        o_results = [], o_proc_results = [], o_state = Opt_parsing, o_allow_extra_args = False,
        o_flag_like = False, o_run_callback_for_default = False, o_inject_separator = False,
        o_trigger_on_result = False, o_force_callback = False\<rparr>"

definition help_option :: "app_ptr \<Rightarrow> 'v opt" where
  "help_option a = (fresh_option [''h''] [''help''] ''Print this help message and exit'' None a)
     \<lparr>o_multi_option_policy := TakeLast, o_expected_min := 0, o_expected_max := 0, o_flag_like := True,
      o_configurable := False, o_callback_priority := First\<rparr>"

definition port_callback :: "results_t \<Rightarrow> main_vars \<Rightarrow> (cli_exn + bool) \<times> main_vars" where
  "port_callback = variable_callback (lexical_assign integral_conversion_unsigned 0) mv_server_port
     (\<lambda>x v. v\<lparr>mv_server_port := x\<rparr>)"

definition host_callback :: "results_t \<Rightarrow> main_vars \<Rightarrow> (cli_exn + bool) \<times> main_vars" where
  "host_callback = variable_callback (lexical_assign lexical_cast_string []) mv_client_host
     (\<lambda>x v. v\<lparr>mv_client_host := x\<rparr>)"

definition port_option :: "main_vars opt" where
  "port_option = (fresh_option [''p''] [''port''] ''Port to listen on'' (Some port_callback) 2)
     \<lparr>o_default_function := Some (\<lambda>vars. decimal (unat (mv_server_port vars))),
      o_type_name := (\<lambda>_. ''UINT''), o_run_callback_for_default := True\<rparr>"

definition host_option :: "main_vars opt" where
  "host_option = (fresh_option [] [''host''] ''Server host'' (Some host_callback) 3)
     \<lparr>o_default_function := Some (\<lambda>vars. mv_client_host vars),
      o_type_name := (\<lambda>_. ''TEXT''), o_run_callback_for_default := True\<rparr>"

definition program_app :: "'v app" where
  "program_app = app_default
     \<lparr>a_description := ''tcpchat commandline tool'', a_options := [0], a_help_ptr := Some 0,
      a_subcommands := [1], a_require_subcommand_min := 1, a_require_subcommand_max := 1\<rparr>"

definition subcommand_app :: "string \<Rightarrow> string \<Rightarrow> app_ptr \<Rightarrow> opt_ptr list \<Rightarrow> opt_ptr \<Rightarrow> app_ptr list \<Rightarrow> 'v app" where
  "subcommand_app name description parent options help subs = app_default
     \<lparr>a_name := name, a_description := description, a_options := options, a_help_ptr := Some help,
      a_subcommands := subs, a_parent := Some parent, a_require_subcommand_max := 1\<rparr>"

definition run_app :: "'v app" where
  "run_app = subcommand_app ''run'' ''Run server or client'' 0 [1] 1 [2, 3]"

definition server_app :: "'v app" where
  "server_app = subcommand_app ''server'' ''Run server'' 1 [2, 4] 2 []"

definition client_app :: "'v app" where
  "client_app = subcommand_app ''client'' ''Run client'' 1 [3, 5] 3 []"

definition main_options :: "main_vars opt list" where
  "main_options = [help_option 0, help_option 1, help_option 2, help_option 3, port_option, host_option]"

lemma built_names:
  "get_names (split_names ''-h,--help'') False = Inr ([''h''], [''help''], [])"
  "get_names (split_names ''-p,--port'') False = Inr ([''p''], [''port''], [])"
  "get_names (split_names ''--host'') False = Inr ([], [''host''], [])"
  "has_default_flag_values ''-h,--help'' = False"
  "check_subcommand_name ''run'' = Inr ()" "check_subcommand_name ''server'' = Inr ()"
  "check_subcommand_name ''client'' = Inr ()" "valid_alias_name_string ''OPTIONS''"
  by code_simp+

lemmas app_parts = app_default_def app_basics_default_def option_base_default_def
  app_parse.defs app_help.defs app_basics.defs option_base.defs

lemmas building = comp_simps alloc_app_def set_help_flag_def drop_flag_def add_flag_def add_flag_internal_def
  add_option_def option_new_def built_names alloc_opt_def top_level_parent.simps copy_to_def set_group_def app_parts
  option_ignore_case_def option_ignore_underscore_def set_multi_option_policy_def get_positional_def special_flag_def
  option_expected_def expected_max_vector_size_def eval_nat_numeral

lemma new_program:
  "app_new build_fuel ''tcpchat commandline tool'' [] (main_start env) =
     (Inr 0, \<lparr>w_apps = [program_app\<lparr>a_subcommands := [], a_require_subcommand_min := 0, a_require_subcommand_max := 0\<rparr>],
              w_opts = [help_option 0], w_vars = main_vars_init, w_env = env, w_args = []\<rparr>)"
  by (simp add: app_new_def main_start_def build_fuel_def building Let_def program_app_def help_option_def fresh_option_def)

lemmas building_subcommand = add_subcommand_def app_new_child_def add_subcommand_ptr_def build_fuel_def building Let_def
  get_name_def join_def compare_subcommand_names.simps name_conflict_def app_check_name_def check_name_detail_def inherit_def
  program_app_def run_app_def server_app_def client_app_def subcommand_app_def help_option_def fresh_option_def

lemma new_run:
  "add_subcommand build_fuel 0 ''run'' ''Run server or client''
     \<lparr>w_apps = [program_app\<lparr>a_subcommands := []\<rparr>], w_opts = [help_option 0], w_vars = v, w_env = env, w_args = []\<rparr> =
   (Inr 1, \<lparr>w_apps = [program_app, run_app\<lparr>a_options := [1], a_subcommands := []\<rparr>],
            w_opts = [help_option 0, help_option 1], w_vars = v, w_env = env, w_args = []\<rparr>)"
  by (simp add: building_subcommand)

lemma new_server:
  "add_subcommand build_fuel 1 ''server'' ''Run server''
     \<lparr>w_apps = [program_app, run_app\<lparr>a_options := [1], a_subcommands := []\<rparr>],
      w_opts = [help_option 0, help_option 1], w_vars = v, w_env = env, w_args = []\<rparr> =
   (Inr 2, \<lparr>w_apps = [program_app, run_app\<lparr>a_subcommands := [2]\<rparr>, server_app\<lparr>a_options := [2]\<rparr>],
            w_opts = [help_option 0, help_option 1, help_option 2], w_vars = v, w_env = env, w_args = []\<rparr>)"
  by (simp add: building_subcommand)

lemma new_client:
  "add_subcommand build_fuel 1 ''client'' ''Run client''
     \<lparr>w_apps = [program_app, run_app\<lparr>a_subcommands := [2]\<rparr>, server_app\<lparr>a_options := [2]\<rparr>],
      w_opts = [help_option 0, help_option 1, help_option 2], w_vars = v, w_env = env, w_args = []\<rparr> =
   (Inr 3, \<lparr>w_apps = [program_app, run_app, server_app\<lparr>a_options := [2]\<rparr>, client_app\<lparr>a_options := [3]\<rparr>],
            w_opts = [help_option 0, help_option 1, help_option 2, help_option 3], w_vars = v, w_env = env, w_args = []\<rparr>)"
  by (simp add: building_subcommand)

definition main_apps :: "main_vars app list" where
  "main_apps = [program_app, run_app, server_app, client_app]"

lemma option_clashes:
  "matching_name (help_option 2) (fresh_option [''p''] [''port''] d c 2) = []"
  "matching_name (help_option 3) (fresh_option [] [''host''] d c' 3) = []"
  by (simp_all add: matching_name_def help_option_def fresh_option_def option_base_default_def option_base.defs check_sname_def
      check_lname_def find_member_def)

lemma new_port:
  "add_option_u16 build_fuel 2 ''-p,--port'' mv_server_port (\<lambda>x v. v\<lparr>mv_server_port := x\<rparr>) ''Port to listen on''
     \<lparr>w_apps = [program_app, run_app, server_app\<lparr>a_options := [2]\<rparr>, client_app\<lparr>a_options := [3]\<rparr>],
      w_opts = [help_option 0, help_option 1, help_option 2, help_option 3], w_vars = v, w_env = env, w_args = []\<rparr> =
   (Inr 4, \<lparr>w_apps = [program_app, run_app, server_app, client_app\<lparr>a_options := [3]\<rparr>],
            w_opts = [help_option 0, help_option 1, help_option 2, help_option 3, port_option], w_vars = v, w_env = env,
            w_args = []\<rparr>)"
  using option_clashes(1) unfolding fresh_option_def
  by (simp add: add_option_u16_def add_option_variable_def building_subcommand port_option_def port_callback_def
      set_type_size_range_def)

lemma new_host:
  "add_option_string build_fuel 3 ''--host'' mv_client_host (\<lambda>x v. v\<lparr>mv_client_host := x\<rparr>) ''Server host''
     \<lparr>w_apps = [program_app, run_app, server_app, client_app\<lparr>a_options := [3]\<rparr>],
      w_opts = [help_option 0, help_option 1, help_option 2, help_option 3, port_option], w_vars = v, w_env = env,
      w_args = []\<rparr> =
   (Inr 5, \<lparr>w_apps = main_apps, w_opts = main_options, w_vars = v, w_env = env, w_args = []\<rparr>)"
  using option_clashes(2) unfolding fresh_option_def
  by (simp add: add_option_string_def add_option_variable_def building_subcommand host_option_def host_callback_def
      set_type_size_range_def main_apps_def main_options_def)

lemma main_world_eq:
  "main_app (main_start env) = (Inr (0, 1, 2, 3),
     \<lparr>w_apps = main_apps, w_opts = main_options, w_vars = main_vars_init, w_env = env, w_args = []\<rparr>)"
proof -
  have required: "program_app\<lparr>a_subcommands := [], a_require_subcommand_min := Suc 0, a_require_subcommand_max := Suc 0\<rparr>
      = program_app\<lparr>a_subcommands := []\<rparr>"
    by (simp add: program_app_def)
  show ?thesis
    by (simp add: main_app_def comp_simps new_program new_run new_server new_client new_port new_host
        require_subcommand_def required del: One_nat_def)
qed

end
