(* ===== verification/Tcpchat_State.thy ===== *)
theory Tcpchat_State
  imports Tcpchat_Tree
begin

text \<open>
  The stores a parse of the program's command line runs through: the applications and options are
  those \<^verbatim>\<open>main\<close> built, with the name of the program filled in (the first
  part says whether it was), and only the state of the parse
  differs; a parsed subcommand is one of the subcommands. The values of the fields a parse reads
  are collected as rewrite rules.
\<close>

datatype naming = Naming (naming_automatic: bool) (naming_name: string)

definition prepared_apps :: "naming \<Rightarrow> main_vars app list" where
  "prepared_apps prog = [program_app\<lparr>a_has_automatic_name := naming_automatic prog, a_name := naming_name prog\<rparr>, run_app, server_app, client_app]"

definition app_is :: "naming \<Rightarrow> app_ptr \<Rightarrow> main_vars app \<Rightarrow> bool" where
  "app_is prog a app \<longleftrightarrow> static_app app = static_app (prepared_apps prog ! a)
     \<and> set (a_parsed_subcommands app) \<subseteq> set (a_subcommands app)"

definition opt_is :: "opt_ptr \<Rightarrow> main_vars opt \<Rightarrow> bool" where
  "opt_is p opt \<longleftrightarrow> static_opt opt = static_opt (main_options ! p)"

definition tcp_inv :: "naming \<Rightarrow> main_vars cli \<Rightarrow> bool" where
  "tcp_inv prog w \<longleftrightarrow> length (w_apps w) = 4 \<and> (\<forall>a < 4. app_is prog a (w_apps w ! a))
     \<and> length (w_opts w) = 6 \<and> (\<forall>p < 6. opt_is p (w_opts w ! p))"

lemma tcp_app: "tcp_inv prog w \<Longrightarrow> a < 4 \<Longrightarrow> app_is prog a (w_apps w ! a)"
  by (simp add: tcp_inv_def)

lemma tcp_opt: "tcp_inv prog w \<Longrightarrow> p < 6 \<Longrightarrow> opt_is p (w_opts w ! p)"
  by (simp add: tcp_inv_def)

section \<open>The fields\<close>

lemma static_appE:
  assumes "static_app app = static_app app0"
  obtains c m po ps k where "app = app0\<lparr>a_pre_parse_called := c, a_missing := m, a_parse_order := po,
    a_parsed_subcommands := ps, a_parsed := k\<rparr>"
proof
  have "app = (static_app app)\<lparr>a_pre_parse_called := a_pre_parse_called app, a_missing := a_missing app,
      a_parse_order := a_parse_order app, a_parsed_subcommands := a_parsed_subcommands app, a_parsed := a_parsed app\<rparr>"
    by (cases app) (simp add: static_app_def)
  also have "\<dots> = app0\<lparr>a_pre_parse_called := a_pre_parse_called app, a_missing := a_missing app,
      a_parse_order := a_parse_order app, a_parsed_subcommands := a_parsed_subcommands app, a_parsed := a_parsed app\<rparr>"
    unfolding assms by (simp add: static_app_def)
  finally show "app = app0\<lparr>a_pre_parse_called := a_pre_parse_called app, a_missing := a_missing app,
      a_parse_order := a_parse_order app, a_parsed_subcommands := a_parsed_subcommands app, a_parsed := a_parsed app\<rparr>" .
qed

lemma static_optE:
  assumes "static_opt opt = static_opt opt0"
  obtains rs ps st b where "opt = opt0\<lparr>o_results := rs, o_proc_results := ps, o_state := st, o_force_callback := b\<rparr>"
proof
  have "opt = (static_opt opt)\<lparr>o_results := o_results opt, o_proc_results := o_proc_results opt, o_state := o_state opt,
      o_force_callback := o_force_callback opt\<rparr>"
    by (cases opt) (simp add: static_opt_def)
  also have "\<dots> = opt0\<lparr>o_results := o_results opt, o_proc_results := o_proc_results opt, o_state := o_state opt,
      o_force_callback := o_force_callback opt\<rparr>"
    unfolding assms by (simp add: static_opt_def)
  finally show "opt = opt0\<lparr>o_results := o_results opt, o_proc_results := o_proc_results opt, o_state := o_state opt,
      o_force_callback := o_force_callback opt\<rparr>" .
qed

lemma less_four: "(a :: nat) < 4 \<longleftrightarrow> a = 0 \<or> a = 1 \<or> a = 2 \<or> a = 3"
  by auto

lemma less_six: "(p :: nat) < 6 \<longleftrightarrow> p = 0 \<or> p = 1 \<or> p = 2 \<or> p = 3 \<or> p = 4 \<or> p = 5"
  by auto

lemmas app_definitions = prepared_apps_def program_app_def run_app_def server_app_def client_app_def subcommand_app_def app_parts
lemmas opt_definitions = main_options_def help_option_def port_option_def host_option_def fresh_option_def app_parts

text \<open>The fields with the same value in every application, and those that differ.\<close>

lemma app_common:
  assumes "app_is prog a app" and "a < 4"
  shows
  "a_disabled app = False \<and> a_required app = False \<and> a_aliases app = [] \<and>
    a_ignore_case app = False \<and> a_ignore_underscore app = False \<and>
    a_allow_prefix_matching app = False \<and> a_fallthrough app = False \<and>
    a_subcommand_fallthrough app = True \<and> a_prefix_command app = PM_Off \<and>
    a_allow_extras app = EM_Error \<and> a_require_subcommand_max app = 1 \<and>
    a_require_option_min app = 0 \<and> a_require_option_max app = 0 \<and>
    a_immediate_callback app = False \<and> a_pre_parse_callback app = None \<and>
    a_parse_complete_callback app = None \<and> a_final_callback app = None \<and>
    a_positionals_at_end app = False \<and> a_validate_positionals app = False \<and>
    a_validate_optional_arguments app = False \<and> a_silent app = False \<and>
    a_allow_windows_style_options app = False \<and> a_allow_non_standard_options app = False \<and>
    a_exclude_subcommands app = [] \<and> a_exclude_options app = [] \<and> a_need_subcommands app = [] \<and>
    a_need_options app = [] \<and> a_config_ptr app = None \<and> a_help_all_ptr app = None \<and>
    a_version_ptr app = None \<and> a_failure_message app = Some FM_simple \<and>
    a_formatter app = formatter_default \<and> a_usage app = [] \<and> a_usage_callback app = None \<and>
    a_footer app = [] \<and> a_footer_callback app = None \<and> a_group app = ''SUBCOMMANDS'' \<and>
    a_default_startup app = Startup_stable"
proof -
  obtain c m po ps k where app: "app = (prepared_apps prog ! a)\<lparr>a_pre_parse_called := c, a_missing := m,
      a_parse_order := po, a_parsed_subcommands := ps, a_parsed := k\<rparr>"
    using assms(1) by (auto simp: app_is_def elim: static_appE)
  show ?thesis
    using assms(2) unfolding less_four app by (elim disjE; simp add: app_definitions)+
qed

lemma app_0:
  assumes "app_is prog 0 app"
  shows
  "a_name app = naming_name prog \<and> a_options app = [0] \<and> a_subcommands app = [1] \<and> a_parent app = None \<and>
    a_help_ptr app = Some 0 \<and> a_require_subcommand_min app = 1 \<and>
    a_description app = ''tcpchat commandline tool'' \<and> a_has_automatic_name app = naming_automatic prog"
proof -
  obtain c m po ps k where app: "app = (prepared_apps prog ! 0)\<lparr>a_pre_parse_called := c, a_missing := m,
      a_parse_order := po, a_parsed_subcommands := ps, a_parsed := k\<rparr>"
    using assms(1) by (auto simp: app_is_def elim: static_appE)
  show ?thesis
    unfolding app by (simp_all add: app_definitions)
qed

lemma app_1:
  assumes "app_is prog 1 app"
  shows
  "a_name app = ''run'' \<and> a_options app = [1] \<and> a_subcommands app = [2, 3] \<and>
    a_parent app = Some 0 \<and> a_help_ptr app = Some 1 \<and> a_require_subcommand_min app = 0 \<and>
    a_description app = ''Run server or client'' \<and> a_has_automatic_name app = False"
proof -
  obtain c m po ps k where app: "app = (prepared_apps prog ! 1)\<lparr>a_pre_parse_called := c, a_missing := m,
      a_parse_order := po, a_parsed_subcommands := ps, a_parsed := k\<rparr>"
    using assms(1) by (auto simp: app_is_def elim: static_appE)
  show ?thesis
    unfolding app by (simp_all add: app_definitions)
qed

lemma app_2:
  assumes "app_is prog 2 app"
  shows
  "a_name app = ''server'' \<and> a_options app = [2, 4] \<and> a_subcommands app = [] \<and>
    a_parent app = Some 1 \<and> a_help_ptr app = Some 2 \<and> a_require_subcommand_min app = 0 \<and>
    a_description app = ''Run server'' \<and> a_has_automatic_name app = False"
proof -
  obtain c m po ps k where app: "app = (prepared_apps prog ! 2)\<lparr>a_pre_parse_called := c, a_missing := m,
      a_parse_order := po, a_parsed_subcommands := ps, a_parsed := k\<rparr>"
    using assms(1) by (auto simp: app_is_def elim: static_appE)
  show ?thesis
    unfolding app by (simp_all add: app_definitions)
qed

lemma app_3:
  assumes "app_is prog 3 app"
  shows
  "a_name app = ''client'' \<and> a_options app = [3, 5] \<and> a_subcommands app = [] \<and>
    a_parent app = Some 1 \<and> a_help_ptr app = Some 3 \<and> a_require_subcommand_min app = 0 \<and>
    a_description app = ''Run client'' \<and> a_has_automatic_name app = False"
proof -
  obtain c m po ps k where app: "app = (prepared_apps prog ! 3)\<lparr>a_pre_parse_called := c, a_missing := m,
      a_parse_order := po, a_parsed_subcommands := ps, a_parsed := k\<rparr>"
    using assms(1) by (auto simp: app_is_def elim: static_appE)
  show ?thesis
    unfolding app by (simp_all add: app_definitions)
qed


lemmas app_fields = app_common app_0 app_1 app_2 app_3

text \<open>The options.\<close>

lemma opt_common:
  assumes "opt_is p opt" and "p < 6"
  shows
  "o_group opt = ''OPTIONS'' \<and> o_required opt = False \<and> o_ignore_case opt = False \<and>
    o_ignore_underscore opt = False \<and> o_disable_flag_override opt = False \<and>
    o_delimiter opt = CHR 0x00 \<and> o_default_flag_values opt = [] \<and> o_fnames opt = [] \<and>
    o_pname opt = [] \<and> o_envname opt = [] \<and> o_option_text opt = [] \<and>
    o_default_str opt = [] \<and> o_type_size_max opt = 1 \<and> o_type_size_min opt = 1 \<and>
    o_validators opt = [] \<and> o_needs opt = [] \<and> o_excludes opt = [] \<and>
    o_allow_extra_args opt = False \<and> o_inject_separator opt = False \<and> o_trigger_on_result opt = False"
proof -
  obtain rs ps st b where opt: "opt = (main_options ! p)\<lparr>o_results := rs, o_proc_results := ps, o_state := st,
      o_force_callback := b\<rparr>"
    using assms(1) by (auto simp: opt_is_def elim: static_optE)
  show ?thesis
    using assms(2) unfolding less_six opt by (elim disjE; simp add: opt_definitions)
qed


lemma opt_help:
  assumes "opt_is p opt" and "p < 4"
  shows
  "o_snames opt = [''h''] \<and> o_lnames opt = [''help''] \<and> o_expected_min opt = 0 \<and>
    o_expected_max opt = 0 \<and> o_flag_like opt = True \<and> o_callback opt = None \<and>
    o_callback_priority opt = First \<and> o_multi_option_policy opt = TakeLast \<and>
    o_description opt = ''Print this help message and exit'' \<and> o_configurable opt = False"
proof -
  obtain rs ps st b where opt: "opt = (main_options ! p)\<lparr>o_results := rs, o_proc_results := ps, o_state := st,
      o_force_callback := b\<rparr>"
    using assms(1) by (auto simp: opt_is_def elim: static_optE)
  show ?thesis
    using assms(2) unfolding less_four opt by (elim disjE; simp add: opt_definitions)
qed


lemma opt_4:
  assumes "opt_is 4 opt"
  shows
  "o_snames opt = [''p''] \<and> o_lnames opt = [''port''] \<and> o_expected_min opt = 1 \<and>
    o_expected_max opt = 1 \<and> o_flag_like opt = False \<and> o_callback opt = Some port_callback \<and>
    o_callback_priority opt = Normal \<and> o_multi_option_policy opt = Throw \<and>
    o_description opt = ''Port to listen on'' \<and> o_configurable opt = True"
proof -
  obtain rs ps st b where opt: "opt = (main_options ! 4)\<lparr>o_results := rs, o_proc_results := ps, o_state := st,
      o_force_callback := b\<rparr>"
    using assms(1) by (auto simp: opt_is_def elim: static_optE)
  show ?thesis
    unfolding opt by (simp add: opt_definitions)
qed


lemma opt_5:
  assumes "opt_is 5 opt"
  shows
  "o_snames opt = [] \<and> o_lnames opt = [''host''] \<and> o_expected_min opt = 1 \<and>
    o_expected_max opt = 1 \<and> o_flag_like opt = False \<and> o_callback opt = Some host_callback \<and>
    o_callback_priority opt = Normal \<and> o_multi_option_policy opt = Throw \<and>
    o_description opt = ''Server host'' \<and> o_configurable opt = True"
proof -
  obtain rs ps st b where opt: "opt = (main_options ! 5)\<lparr>o_results := rs, o_proc_results := ps, o_state := st,
      o_force_callback := b\<rparr>"
    using assms(1) by (auto simp: opt_is_def elim: static_optE)
  show ?thesis
    unfolding opt by (simp add: opt_definitions)
qed


lemmas opt_fields = opt_common opt_help opt_4 opt_5

end
