(* ===== verification/Tcpchat_Safe.thy ===== *)
theory Tcpchat_Safe
  imports Tcpchat_State
begin

text \<open>
  Rules to walk through the parser on the stores of the program: a computation is calm when it
  keeps the invariant \<^term>\<open>tcp_inv\<close> and the vector of arguments, its result has a property, and
  any exception is one of those allowed. The functions before and after the arguments are calm
  with the parse errors, which \<^verbatim>\<open>main\<close> catches; the help texts and the exit throw nothing.
\<close>

section \<open>Outcomes\<close>

definition handled :: "cli_exn \<Rightarrow> bool" where
  "handled e \<longleftrightarrow> (\<exists>err. e = Cli err \<and> is_parse_error err)"

definition wp :: "(cli_exn \<Rightarrow> bool) \<Rightarrow> naming \<Rightarrow> ('x \<Rightarrow> main_vars cli \<Rightarrow> bool) \<Rightarrow> (main_vars, 'x) cli_m \<Rightarrow> main_vars cli \<Rightarrow> bool" where
  "wp H prog Q m w \<longleftrightarrow>
     (case m w of (Inl e, w') \<Rightarrow> tcp_inv prog w' \<and> H e | (Inr x, w') \<Rightarrow> Q x w')"

definition calm :: "(cli_exn \<Rightarrow> bool) \<Rightarrow> naming \<Rightarrow> ('x \<Rightarrow> bool) \<Rightarrow> (main_vars, 'x) cli_m \<Rightarrow> bool" where
  "calm H prog P m \<longleftrightarrow>
     (\<forall>w. tcp_inv prog w \<longrightarrow> wp H prog (\<lambda>x w'. tcp_inv prog w' \<and> w_args w' = w_args w \<and> P x) m w)"

lemma handled_errors:
  "handled CallForHelp" "handled CallForAllHelp" "handled (RequiredError s)" "handled (RequiredError_Subcommand k)"
  "handled (RequiredError_Option i j k s)" "handled (ExcludesError s t)" "handled (RequiresError s t)"
  "handled (ExtrasError_in s ss)" "handled (HorribleError s)" "handled (TypedAtLeast s l t)" "handled (PartialType s l t)"
  "handled (FlagOverride s)" "handled (ConversionError_results s ss)" "handled (AtLeast s l k)" "handled (AtMost s l k)"
  "handled (ValidationError_of s t)"
  by (simp_all add: handled_def is_parse_error_def error_named_def CallForHelp_def CallForAllHelp_def
      RequiredError_def RequiredError_msg_def RequiredError_Subcommand_def RequiredError_Option_def ExcludesError_def
      RequiresError_def ExtrasError_in_def HorribleError_def TypedAtLeast_def PartialType_def FlagOverride_def
      ConversionError_results_def ConversionError_def AtLeast_def AtMost_def ArgumentMismatch_def ValidationError_of_def
      ValidationError_def)

section \<open>Rules\<close>

lemma wp_bind [simp]: "wp H prog Q (m_bind m f) w \<longleftrightarrow> wp H prog (\<lambda>x. wp H prog Q (f x)) m w"
  by (auto simp: wp_def m_bind_def split: prod.split sum.split)

lemma wp_seq [simp]: "wp H prog Q (m_seq m n) w \<longleftrightarrow> wp H prog (\<lambda>_. wp H prog Q n) m w"
  by (simp add: m_seq_def)

lemma wp_run [simp]:
  "wp H prog Q (m_return x) w \<longleftrightarrow> Q x w"
  "wp H prog Q (m_throw e) w \<longleftrightarrow> tcp_inv prog w \<and> H e"
  "wp H prog Q (m_gets f) w \<longleftrightarrow> Q (f w) w"
  "wp H prog R (m_modify g) w \<longleftrightarrow> R () (g w)"
  "wp H prog R (m_when b m) w \<longleftrightarrow> (if b then wp H prog R m w else R () w)"
  by (simp_all add: wp_def comp_run m_when_def)

lemma wp_mono: "wp H prog Q m w \<Longrightarrow> (\<And>x w'. Q x w' \<Longrightarrow> Q' x w') \<Longrightarrow> wp H prog Q' m w"
  by (auto simp: wp_def split: prod.splits sum.splits)

lemma wp_calm:
  "calm H prog P m \<Longrightarrow> tcp_inv prog w \<Longrightarrow>
   (\<And>x w'. tcp_inv prog w' \<Longrightarrow> w_args w' = w_args w \<Longrightarrow> P x \<Longrightarrow> Q x w') \<Longrightarrow> wp H prog Q m w"
  unfolding calm_def by (blast intro: wp_mono)

lemma calmI:
  "(\<And>w. tcp_inv prog w \<Longrightarrow> wp H prog (\<lambda>x w'. tcp_inv prog w' \<and> w_args w' = w_args w \<and> P x) m w) \<Longrightarrow> calm H prog P m"
  by (simp add: calm_def)

named_theorems calms \<open>computations that are calm\<close>

abbreviation anything :: "'x \<Rightarrow> bool" where
  "anything \<equiv> \<lambda>_. True"

lemma calm_weaken: "calm H prog P m \<Longrightarrow> (\<And>x. P x \<Longrightarrow> Q x) \<Longrightarrow> calm H prog Q m"
  unfolding calm_def by (blast intro: wp_mono)

lemma calm_basic [calms]:
  "P x \<Longrightarrow> calm H prog P (m_return x)"
  "H e \<Longrightarrow> calm H prog P (m_throw e)"
  "calm H prog anything (m_gets f)"
  by (auto intro: calmI)

lemma calm_bind [calms]:
  "calm H prog P m \<Longrightarrow> (\<And>x. P x \<Longrightarrow> calm H prog Q (f x)) \<Longrightarrow> calm H prog Q (m_bind m f)"
  unfolding calm_def wp_bind by (rule allI, rule impI, rule wp_mono, blast) (metis (mono_tags, lifting) wp_mono)

lemma calm_seq [calms]: "calm H prog anything m \<Longrightarrow> calm H prog Q n \<Longrightarrow> calm H prog Q (m_seq m n)"
  by (simp add: m_seq_def calm_bind)

lemma calm_when [calms]: "(b \<Longrightarrow> calm H prog anything m) \<Longrightarrow> calm H prog anything (m_when b m)"
  by (simp add: m_when_def calm_basic)

lemma calm_if [calms]: "(b \<Longrightarrow> calm H prog P m) \<Longrightarrow> (\<not> b \<Longrightarrow> calm H prog P m') \<Longrightarrow> calm H prog P (if b then m else m')"
  by simp

lemma calm_option [calms]:
  "(x = None \<Longrightarrow> calm H prog P m) \<Longrightarrow> (\<And>y. x = Some y \<Longrightarrow> calm H prog P (f y)) \<Longrightarrow>
   calm H prog P (case x of None \<Rightarrow> m | Some y \<Rightarrow> f y)"
  by (cases x) auto

lemma calm_prod [calms]: "(\<And>y z. x = (y, z) \<Longrightarrow> calm H prog P (f y z)) \<Longrightarrow> calm H prog P (case x of (y, z) \<Rightarrow> f y z)"
  by (cases x) auto

lemma calm_each [calms]: "(\<And>x. x \<in> set xs \<Longrightarrow> calm H prog anything (f x)) \<Longrightarrow> calm H prog anything (m_each f xs)"
  by (induction xs) (auto intro!: calms)

lemma calm_map [calms]: "(\<And>x. x \<in> set xs \<Longrightarrow> calm H prog anything (f x)) \<Longrightarrow> calm H prog anything (m_map f xs)"
  by (induction xs) (auto intro!: calm_bind [of H _ anything] calm_basic)

lemma calm_lift [calms]:
  "(\<And>e. r = Inl e \<Longrightarrow> H e) \<Longrightarrow> (\<And>x. r = Inr x \<Longrightarrow> P x) \<Longrightarrow> calm H prog P (m_lift r)"
  by (cases r) (auto intro!: calmI simp: wp_def comp_run)

section \<open>The store\<close>

lemma calm_get_app:
  "a < 4 \<Longrightarrow> (\<And>app. app_is prog a app \<Longrightarrow> calm H prog P (f app)) \<Longrightarrow> calm H prog P (m_bind (get_app a) f)"
  by (simp add: get_app_def calm_def tcp_app)

lemma calm_get_opt:
  "p < 6 \<Longrightarrow> (\<And>opt. opt_is p opt \<Longrightarrow> calm H prog P (f opt)) \<Longrightarrow> calm H prog P (m_bind (get_opt p) f)"
  by (simp add: get_opt_def calm_def tcp_opt)

text \<open>The numbers of the options and of the subcommands.\<close>

lemma app_pointers:
  assumes "app_is prog a app" and "a < 4"
  shows "set (a_options app) \<subseteq> {..<6}" and "set (a_subcommands app) \<subseteq> {..<4}"
    and "set (a_parsed_subcommands app) \<subseteq> set (a_subcommands app)"
    and "s \<in> set (a_subcommands app) \<Longrightarrow> a < s"
proof -
  have "a_options app = [0] \<and> a_subcommands app = [1] \<or> a_options app = [1] \<and> a_subcommands app = [2, 3]
      \<or> a_options app = [2, 4] \<and> a_subcommands app = [] \<or> a_options app = [3, 5] \<and> a_subcommands app = []"
    "\<forall>s \<in> set (a_subcommands app). a < s"
    using assms app_0 [of prog app] app_1 [of prog app] app_2 [of prog app] app_3 [of prog app]
    unfolding less_four by (elim disjE; simp)+
  then show "set (a_options app) \<subseteq> {..<6}" "set (a_subcommands app) \<subseteq> {..<4}"
    "s \<in> set (a_subcommands app) \<Longrightarrow> a < s" by auto
  show "set (a_parsed_subcommands app) \<subseteq> set (a_subcommands app)" using assms by (simp add: app_is_def)
qed

lemma calm_own_options:
  assumes "a < 4" and "\<And>opts. (\<And>p opt. (p, opt) \<in> set opts \<Longrightarrow> p < 6 \<and> opt_is p opt) \<Longrightarrow> calm H prog P (f opts)"
  shows "calm H prog P (m_bind (own_options a) f)"
proof (rule calmI)
  fix w assume w: "tcp_inv prog w"
  let ?opts = "map (\<lambda>p. (p, w_opts w ! p)) (a_options (w_apps w ! a))"
  have "p < 6 \<and> opt_is p opt" if "(p, opt) \<in> set ?opts" for p opt
    using that app_pointers(1) [OF tcp_app [OF w assms(1)] assms(1)] tcp_opt [OF w] by auto
  with assms(2) have "calm H prog P (f ?opts)" by blast
  with w show "wp H prog (\<lambda>x w'. tcp_inv prog w' \<and> w_args w' = w_args w \<and> P x) (m_bind (own_options a) f) w"
    by (simp add: own_options_def calm_def)
qed

lemma calm_subcommands:
  assumes "a < 4"
    and "\<And>subs. (\<And>s sub. (s, sub) \<in> set subs \<Longrightarrow> a < s \<and> s < 4 \<and> app_is prog s sub) \<Longrightarrow> calm H prog P (f subs)"
  shows "calm H prog P (m_bind (subcommands a) f)"
proof (rule calmI)
  fix w assume w: "tcp_inv prog w"
  let ?subs = "map (\<lambda>s. (s, w_apps w ! s)) (a_subcommands (w_apps w ! a))"
  have "a < s \<and> s < 4 \<and> app_is prog s sub" if "(s, sub) \<in> set ?subs" for s sub
    using that app_pointers(2,4) [OF tcp_app [OF w assms(1)] assms(1)] tcp_app [OF w] by auto
  with assms(2) have "calm H prog P (f ?subs)" by blast
  with w show "wp H prog (\<lambda>x w'. tcp_inv prog w' \<and> w_args w' = w_args w \<and> P x) (m_bind (subcommands a) f) w"
    by (simp add: subcommands_def calm_def)
qed

lemma calm_get_opts:
  assumes "set ps \<subseteq> {..<6}"
  shows "calm H prog (list_all2 opt_is ps) (get_opts ps)"
proof (rule calmI)
  fix w assume "tcp_inv prog w"
  then have "list_all2 opt_is ps (map ((!) (w_opts w)) ps)"
    using assms by (induction ps) (auto simp: tcp_opt)
  with \<open>tcp_inv prog w\<close> show "wp H prog (\<lambda>x w'. tcp_inv prog w' \<and> w_args w' = w_args w \<and> list_all2 opt_is ps x) (get_opts ps) w"
    by (simp add: get_opts_def)
qed

text \<open>Changes of the state of a parse.\<close>

lemma inv_upd_app:
  assumes "tcp_inv prog w" and "a < 4" and "app_is prog a (f (w_apps w ! a))"
  shows "tcp_inv prog (w\<lparr>w_apps := (w_apps w)[a := f (w_apps w ! a)]\<rparr>)"
  using assms by (auto simp: tcp_inv_def nth_list_update)

lemma calm_upd_app:
  "a < 4 \<Longrightarrow> (\<And>app. app_is prog a app \<Longrightarrow> app_is prog a (f app)) \<Longrightarrow> calm H prog anything (upd_app a f)"
  by (auto intro!: calmI inv_upd_app simp: upd_app_def tcp_app)

lemma inv_upd_opt:
  assumes "tcp_inv prog w" and "p < 6" and "opt_is p (f (w_opts w ! p))"
  shows "tcp_inv prog (w\<lparr>w_opts := (w_opts w)[p := f (w_opts w ! p)]\<rparr>)"
  using assms by (auto simp: tcp_inv_def nth_list_update)

lemma calm_upd_opt: "p < 6 \<Longrightarrow> opt_change f \<Longrightarrow> calm H prog anything (upd_opt p f)"
  by (rule calmI) (simp add: upd_opt_def inv_upd_opt opt_is_def opt_change_def tcp_opt [unfolded opt_is_def])

lemma calm_put_opt: "p < 6 \<Longrightarrow> opt_is p opt \<Longrightarrow> calm H prog anything (upd_opt p (\<lambda>_. opt))"
  by (auto intro!: calmI inv_upd_opt simp: upd_opt_def)

lemma app_is_state:
  assumes "app_is prog a app"
  shows "app_is prog a (app\<lparr>a_parsed := k\<rparr>)" "app_is prog a (app\<lparr>a_pre_parse_called := c\<rparr>)"
    "app_is prog a (app\<lparr>a_missing := m\<rparr>)" "app_is prog a (app\<lparr>a_parse_order := po\<rparr>)"
    "set ps \<subseteq> set (a_subcommands app) \<Longrightarrow> app_is prog a (app\<lparr>a_parsed_subcommands := ps\<rparr>)"
  using assms by (simp_all add: app_is_def static_app_def)

text \<open>The rules in the order they are to be tried.\<close>

lemmas calm_rules = calm_get_app calm_get_opt calm_own_options calm_subcommands calm_basic calm_when calm_if
  calm_option calm_prod calm_each calm_map calm_seq calm_bind

lemma calm_let [calms]: "calm H prog P (f x) \<Longrightarrow> calm H prog P (let y = x in f y)"
  by simp

section \<open>Counting and marking\<close>

text \<open>The functions that walk down the tree need as much fuel as there are applications below.\<close>

lemma calm_count_all: "a < 4 \<Longrightarrow> 4 - a \<le> n \<Longrightarrow> calm H prog anything (count_all n a)"
proof (induction n arbitrary: a)
  case (Suc n)
  show ?case
    unfolding count_all.simps
    by (insert Suc.prems, (rule calm_rules | (rule Suc.IH; fastforce) | (auto; fail))+)
qed simp

lemma calm_increment_parsed: "a < 4 \<Longrightarrow> 4 - a \<le> n \<Longrightarrow> calm H prog anything (increment_parsed n a)"
proof (induction n arbitrary: a)
  case (Suc n)
  have "s < 4 \<and> 4 - s \<le> n" if "app_is prog a app" "s \<in> set (a_subcommands app)" for s app
    using Suc.prems app_pointers(2,4) [OF that(1) Suc.prems(1)] that(2) by fastforce
  with Suc show ?case
    by (simp only: increment_parsed.simps)
      (rule calm_upd_app calm_rules app_is_state | assumption | blast)+
qed simp

lemma sub_less:
  assumes "app_is prog a app" "a < 4" "s \<in> set (a_subcommands app) \<or> s \<in> set (a_parsed_subcommands app)"
  shows "a < s" and "s < 4"
  using assms app_pointers [of prog a app] by auto

lemma opt_less: "app_is prog a app \<Longrightarrow> a < 4 \<Longrightarrow> p \<in> set (a_options app) \<Longrightarrow> p < 6"
  using app_pointers(1) [of prog a app] by auto

lemma calm_trigger_pre_parse: "a < 4 \<Longrightarrow> calm H prog anything (trigger_pre_parse n a k)"
proof -
  assume a: "a < 4"
  have "\<not> a_immediate_callback app \<and> a_pre_parse_callback app = None" if "app_is prog a app" for app
    using app_common [OF that a] by blast
  with a show ?thesis
    by (simp only: trigger_pre_parse_def)
      (rule calm_upd_app calm_rules app_is_state | assumption | (auto; fail))+
qed

section \<open>Callbacks and help\<close>

lemma option_callback_handled:
  assumes "opt_is p opt" and "p < 6" and "option_run_callback f (opt, vars) = (Inl e, r)"
  shows "handled e"
proof -
  obtain opt1 where stage1: "validate_stage (force_default opt) = (Inr (), opt1)"
    and static1: "static_opt opt1 = static_opt opt"
  proof -
    have "o_validators (force_default opt) = []"
      using opt_common [OF assms(1,2)] by (simp add: force_default_def add_result_def add_result_count_def split: prod.split)
    then have "fst (validate_stage (force_default opt)) = Inr ()" by (simp add: validate_stage_def validate_results_def)
    then show thesis
      using that static_stages(1,2) by (metis prod.collapse)
  qed
  then have opt1: "opt_is p opt1" using assms(1) by (simp add: opt_is_def)
  obtain r2 opt2 where stage2: "reduce_stage f opt1 = (r2, opt2)" by fastforce
  then have opt2: "opt_is p opt2" using opt1 static_stages(3) [of f opt1] by (simp add: opt_is_def)
  have cases: "o_callback opt2 = None \<or> o_callback opt2 = Some port_callback \<or> o_callback opt2 = Some host_callback"
    using opt_help [OF opt2] opt_4 opt_5 opt2 assms(2) unfolding less_six by (elim disjE; simp)
  have r2: "handled e'" if "r2 = Inl e'" for e'
  proof -
    have "o_multi_option_policy opt1 = TakeLast \<or> o_multi_option_policy opt1 = Throw"
      using opt_help [OF opt1] opt_4 opt_5 opt1 assms(2) unfolding less_six by (elim disjE; simp)
    with that stage2 show ?thesis
      by (auto simp: reduce_stage_def reduce_results_def Let_def handled_errors split: if_splits)
  qed
  show ?thesis
  proof (cases r2)
    case Inl
    with assms(3) stage1 stage2 r2 show ?thesis by (simp add: option_run_callback_def)
  next
    case Inr
    with assms(3) stage1 stage2 have "callback_stage (o_force_callback opt \<and> o_results opt = []) (opt2, vars) = (Inl e, r)"
      by (simp add: option_run_callback_def)
    then show ?thesis
      using cases
      by (auto simp: callback_stage_def Let_def port_callback_def host_callback_def variable_callback_def
          lexical_conversion_def handled_errors split: if_splits list.splits prod.splits)
  qed
qed

lemma calm_run_option_callback: "p < 6 \<Longrightarrow> calm handled prog anything (run_option_callback p)"
proof (rule calmI)
  fix w assume p: "p < 6" and w: "tcp_inv prog w"
  obtain r opt vars where run: "option_run_callback (env_sum_strings (w_env w)) (w_opts w ! p, w_vars w) = (r, opt, vars)"
    by (metis prod.collapse)
  have "opt_is p opt"
    using tcp_opt [OF w p] static_run_callback [of "env_sum_strings (w_env w)" "w_opts w ! p" "w_vars w"]
    by (simp add: run opt_is_def)
  then have "tcp_inv prog (w\<lparr>w_opts := (w_opts w)[p := opt], w_vars := vars\<rparr>)"
    using w p by (auto simp: tcp_inv_def nth_list_update)
  moreover have "r = Inl e \<Longrightarrow> handled e" for e
    using option_callback_handled [OF tcp_opt [OF w p] p] run by blast
  ultimately show "wp handled prog (\<lambda>x w'. tcp_inv prog w' \<and> w_args w' = w_args w \<and> True) (run_option_callback p) w"
    by (auto simp: wp_def run_option_callback_def comp_simps run split: sum.split)
qed

lemma calm_run_callback: "a < 4 \<Longrightarrow> 4 - a \<le> n \<Longrightarrow> calm handled prog anything (run_callback n a b c)"
proof (induction n arbitrary: a b c)
  case (Suc n)
  have step: "s < 4 \<and> 4 - s \<le> n"
    if "app_is prog a app" "s \<in> set (a_subcommands app) \<or> s \<in> set (a_parsed_subcommands app)" for s app
    using Suc.prems sub_less [OF that(1) Suc.prems(1) that(2)] by auto
  have none: "a_parse_complete_callback app = None \<and> a_final_callback app = None" if "app_is prog a app" for app
    using app_common [OF that Suc.prems(1)] by blast
  show ?case
    unfolding run_callback.simps
    by (insert Suc.prems, (rule calm_rules Suc.IH calm_count_all | assumption | (use step in blast) | (use none in auto; fail))+)
qed simp

lemma calm_process_callbacks: "a < 4 \<Longrightarrow> 4 - a \<le> n \<Longrightarrow> calm handled prog anything (process_callbacks n a priority)"
proof (induction n arbitrary: a)
  case (Suc n)
  have step: "s < 4 \<and> 4 - s \<le> n"
    if "app_is prog a app" "s \<in> set (a_subcommands app) \<or> s \<in> set (a_parsed_subcommands app)" for s app
    using Suc.prems sub_less [OF that(1) Suc.prems(1) that(2)] by auto
  show ?case
    unfolding process_callbacks.simps
    by (insert Suc.prems, (rule calm_rules Suc.IH calm_count_all calm_run_callback calm_run_option_callback
          | assumption | (use step opt_less in blast))+)
qed simp

lemma calm_triggered: "(\<And>p. ptr = Some p \<Longrightarrow> p < 6) \<Longrightarrow> calm handled prog anything (triggered ptr priority)"
  by (simp only: triggered_def) (rule calm_rules | assumption | blast)+

lemma help_ptr:
  assumes "app_is prog a app" and "a < 4"
  shows "a_help_ptr app = Some p \<Longrightarrow> p < 6" and "a_help_all_ptr app = None"
  using assms app_0 [of prog app] app_1 [of prog app] app_2 [of prog app] app_3 [of prog app] app_common [OF assms]
  unfolding less_four by auto

lemma calm_process_help_flags: "a < 4 \<Longrightarrow> 4 - a \<le> n \<Longrightarrow> calm handled prog anything (process_help_flags n a priority h ha)"
proof (induction n arbitrary: a h ha)
  case (Suc n)
  have step: "s < 4 \<and> 4 - s \<le> n"
    if "app_is prog a app" "s \<in> set (a_subcommands app) \<or> s \<in> set (a_parsed_subcommands app)" for s app
    using Suc.prems sub_less [OF that(1) Suc.prems(1) that(2)] by auto
  have ptrs: "a_help_ptr app = Some p \<Longrightarrow> p < 6" "a_help_all_ptr app = Some p \<Longrightarrow> p < 6" if "app_is prog a app" for p app
    using help_ptr [OF that Suc.prems(1)] by auto
  show ?case
    unfolding process_help_flags.simps Let_def
    by (insert Suc.prems, (rule calm_rules calm_triggered Suc.IH handled_errors | assumption | (use step ptrs in blast))+)
qed simp

section \<open>Environment and requirements\<close>

lemma calm_process_env: "a < 4 \<Longrightarrow> 4 - a \<le> n \<Longrightarrow> calm handled prog anything (process_env n a)"
proof (induction n arbitrary: a)
  case (Suc n)
  have step: "s < 4 \<and> 4 - s \<le> n"
    if "app_is prog a app" "s \<in> set (a_subcommands app) \<or> s \<in> set (a_parsed_subcommands app)" for s app
    using Suc.prems sub_less [OF that(1) Suc.prems(1) that(2)] by auto
  have none: "o_envname opt = []" if "opt_is p opt" "p < 6" for p opt
    using opt_common [OF that] by blast
  show ?case
    unfolding process_env.simps
    by (insert Suc.prems, (rule calm_rules Suc.IH calm_count_all | assumption | (use step opt_less none in blast))+)
qed simp

lemma calm_get_opts_any: "set ps \<subseteq> {..<6} \<Longrightarrow> calm handled prog anything (get_opts ps)"
  by (rule calm_weaken [OF calm_get_opts]) auto

lemma calm_option_requirements: "p < 6 \<Longrightarrow> calm handled prog anything (option_requirements p)"
proof -
  assume p: "p < 6"
  have empty: "o_needs opt = [] \<and> o_excludes opt = [] \<and> \<not> o_required opt" if "opt_is p opt" for opt
    using opt_common [OF that p] by blast
  with p show ?thesis
    by (simp only: option_requirements_def)
      (rule calm_rules calm_get_opts_any handled_errors | assumption | (use empty in auto; fail))+
qed

lemma calm_last_of: "calm handled prog anything (last_of n hit [] [])"
  by (rule calmI) (simp add: last_of_def last_option_def last_app_def get_opts_def)

lemma calm_subcommand_map:
  assumes "a < 4" and "\<And>s sub. a < s \<Longrightarrow> s < 4 \<Longrightarrow> app_is prog s sub \<Longrightarrow> calm handled prog anything (f s sub)"
    and "\<And>xs. calm handled prog P (g xs)"
  shows "calm handled prog P (m_bind (subcommands a) (\<lambda>subs. m_bind (m_map (\<lambda>(s, sub). f s sub) (filter h subs)) g))"
proof (rule calm_subcommands [OF assms(1)])
  fix subs :: "(app_ptr \<times> main_vars app) list"
  assume subs: "\<And>s sub. (s, sub) \<in> set subs \<Longrightarrow> a < s \<and> s < 4 \<and> app_is prog s sub"
  have "calm handled prog anything (m_map (\<lambda>(s, sub). f s sub) (filter h subs))"
    by (rule calm_map) (use subs assms(2) in auto)
  then show "calm handled prog P (m_bind (m_map (\<lambda>(s, sub). f s sub) (filter h subs)) g)"
    by (rule calm_bind) (rule assms(3))
qed

lemma calm_used_groups: "a < 4 \<Longrightarrow> 4 - a \<le> Suc n \<Longrightarrow> calm handled prog anything (used_groups n a)"
  unfolding used_groups_def by (rule calm_subcommand_map) (auto intro: calm_count_all calm_basic)

lemma calm_process_requirements: "a < 4 \<Longrightarrow> 4 - a < n \<Longrightarrow> calm handled prog anything (process_requirements n a)"
proof (induction n arbitrary: a)
  case (Suc n)
  have step: "s < 4 \<and> 4 - s < n \<and> 4 - s \<le> n"
    if "app_is prog a app" "s \<in> set (a_subcommands app) \<or> s \<in> set (a_parsed_subcommands app)" for s app
    using Suc.prems sub_less [OF that(1) Suc.prems(1) that(2)] by auto
  have a: "4 - a \<le> n" "4 - a \<le> Suc n" using Suc.prems by auto
  have plain: "a_exclude_options app = [] \<and> a_exclude_subcommands app = [] \<and> a_need_options app = []
      \<and> a_need_subcommands app = [] \<and> a_require_option_min app = 0 \<and> a_require_option_max app = 0"
    if "app_is prog a app" for app
    using app_common [OF that Suc.prems(1)] by blast
  show ?case
    unfolding process_requirements.simps
  proof (rule calm_get_app [OF Suc.prems(1)], goal_cases)
    case app: (1 app)
    have num: "calm handled prog anything (number_requirements n a k)" for k
      unfolding number_requirements_def
      by (rule calm_get_app [OF Suc.prems(1)], use plain in \<open>auto intro!: calm_basic simp: m_when_def\<close>)
    show ?case
      unfolding Let_def plain [OF app, THEN conjunct1]
        plain [OF app, THEN conjunct2, THEN conjunct1] plain [OF app, THEN conjunct2, THEN conjunct2, THEN conjunct1]
        plain [OF app, THEN conjunct2, THEN conjunct2, THEN conjunct2, THEN conjunct1]
      by (insert Suc.prems a app, (rule calm_last_of calm_rules num calm_count_all calm_used_groups
            calm_option_requirements Suc.IH handled_errors | assumption | (use step opt_less in blast))+)
  qed
qed simp

section \<open>After the arguments\<close>

text \<open>
  \<^verbatim>\<open>config_stage\<close> catches exceptions, after which the vector of arguments is not known; it does
  not matter any more.
\<close>

definition safe :: "naming \<Rightarrow> ('x \<Rightarrow> bool) \<Rightarrow> (main_vars, 'x) cli_m \<Rightarrow> bool" where
  "safe prog P m \<longleftrightarrow> (\<forall>w. tcp_inv prog w \<longrightarrow> wp handled prog (\<lambda>x w'. tcp_inv prog w' \<and> P x) m w)"

lemma safe_calm: "calm handled prog P m \<Longrightarrow> safe prog P m"
  unfolding calm_def safe_def by (blast intro: wp_mono)

lemma safe_bind: "safe prog P m \<Longrightarrow> (\<And>x. P x \<Longrightarrow> safe prog Q (f x)) \<Longrightarrow> safe prog Q (m_bind m f)"
  unfolding safe_def wp_bind by (rule allI, rule impI, rule wp_mono, blast) (metis (mono_tags, lifting))

lemma safe_seq: "safe prog anything m \<Longrightarrow> safe prog Q n \<Longrightarrow> safe prog Q (m_seq m n)"
  by (simp add: m_seq_def safe_bind)

lemma safe_catch:
  assumes "safe prog P m" and "\<And>e. handled e \<Longrightarrow> safe prog P (h e)"
  shows "safe prog P (m_catch m h)"
  unfolding safe_def
proof (rule allI, rule impI)
  fix w assume "tcp_inv prog w"
  with assms(1) have "wp handled prog (\<lambda>x w'. tcp_inv prog w' \<and> P x) m w" by (simp add: safe_def)
  moreover obtain r w' where run: "m w = (r, w')" by fastforce
  ultimately show "wp handled prog (\<lambda>x w'. tcp_inv prog w' \<and> P x) (m_catch m h) w"
    using assms(2) by (cases r) (simp_all add: safe_def wp_def m_catch_def)
qed

lemma safe_config_stage:
  assumes "a < 4" "4 - a \<le> n"
  shows "safe prog (\<lambda>r. \<forall>e. r = Some e \<longrightarrow> handled e) (config_stage n a)"
  unfolding config_stage_def
proof (rule safe_catch)
  have "calm handled prog anything (process_config_file n a)"
    unfolding process_config_file_def
  proof (rule calm_get_app [OF assms(1)], goal_cases)
    case (1 app)
    then show ?case using app_common [OF 1 assms(1)] by (auto intro: calm_basic)
  qed
  with assms show "safe prog (\<lambda>r. \<forall>e. r = Some e \<longrightarrow> handled e)
      (m_seq (process_config_file n a) (m_seq (process_env n a) (m_return None)))"
    by (intro safe_calm calm_seq calm_process_env calm_basic) auto
  show "safe prog (\<lambda>r. \<forall>e. r = Some e \<longrightarrow> handled e) (if is_FileError e then m_return (Some e) else m_throw e)"
    if "handled e" for e
    using that by (simp add: safe_def)
qed

lemma calm_priority_steps: "a < 4 \<Longrightarrow> 4 - a \<le> n \<Longrightarrow> calm handled prog anything (priority_steps n a p q)"
  unfolding priority_steps_def by (intro calm_seq calm_process_callbacks calm_process_help_flags)

lemma safe_app_process:
  assumes "a < 4" "4 - a < n"
  shows "safe prog anything (app_process n a)"
proof -
  have n: "4 - a \<le> n" using assms by simp
  note steps = calm_priority_steps [OF assms(1) n, THEN safe_calm]
  have "safe prog anything (case r of Some e \<Rightarrow> m_throw e | None \<Rightarrow> m_return ())" if "\<forall>e. r = Some e \<longrightarrow> handled e" for r
    using that by (intro safe_calm calm_option calm_basic) auto
  then show ?thesis
    unfolding app_process_def
    by (intro safe_seq steps safe_bind [OF safe_config_stage [OF assms(1) n]] calm_process_requirements [OF assms, THEN safe_calm])
qed

lemma calm_remaining: "a < 4 \<Longrightarrow> 0 < n \<Longrightarrow> calm handled prog anything (remaining n False a)"
  by (cases n) (simp_all, (rule calm_rules | assumption | simp)+)

lemma calm_remaining_size: "a < 4 \<Longrightarrow> 0 < n \<Longrightarrow> calm handled prog anything (remaining_size n False a)"
  by (cases n) (simp_all, (rule calm_rules | assumption | simp)+)

lemma calm_process_extras: "a < 4 \<Longrightarrow> 4 - a < n \<Longrightarrow> calm handled prog anything (process_extras n a)"
proof (induction n arbitrary: a)
  case (Suc n)
  have step: "s < 4 \<and> 4 - s < n"
    if "app_is prog a app" "s \<in> set (a_subcommands app) \<or> s \<in> set (a_parsed_subcommands app)" for s app
    using Suc.prems sub_less [OF that(1) Suc.prems(1) that(2)] by auto
  have n: "0 < n" using Suc.prems by simp
  show ?case
    unfolding process_extras.simps
    by (insert Suc.prems n, (rule calm_remaining calm_remaining_size calm_rules Suc.IH handled_errors
          | assumption | (use step in blast))+)
qed simp

section \<open>The help text and the exit code\<close>

lemma calm_then: "calm H prog anything m \<Longrightarrow> (\<And>x. calm H prog P (f x)) \<Longrightarrow> calm H prog P (m_bind m f)"
  by (rule calm_bind) auto

definition own_opts :: "(opt_ptr \<times> main_vars opt) list \<Rightarrow> bool" where
  "own_opts opts \<longleftrightarrow> (\<forall>(p, opt) \<in> set opts. p < 6 \<and> opt_is p opt)"

lemma sub_names:
  assumes "app_is prog s app" "0 < s" "s < 4"
  shows "a_name app \<noteq> []" and "\<not> group_shown app"
proof -
  have "s = 1 \<or> s = 2 \<or> s = 3" using assms by auto
  then show "a_name app \<noteq> []" using assms(1) app_1 [of prog app] app_2 [of prog app] app_3 [of prog app] by auto
  show "\<not> group_shown app" using app_common [OF assms(1,3)] by (simp add: group_shown_def)
qed

lemma calm_get_options:
  assumes "a < 4" "0 < n"
  shows "calm H prog own_opts (get_options const flt n a)"
proof -
  obtain k where n: "n = Suc k" using assms(2) by (cases n) auto
  show ?thesis
    unfolding n get_options.simps
  proof (rule calm_own_options [OF assms(1)], rule calm_subcommands [OF assms(1)], goal_cases)
    case (1 opts subs)
    have "filter (\<lambda>(s, subc). if const then a_name subc = [] \<and> group_shown subc
                                else a_name subc = [] \<or> group_shown subc) subs = []"
      using 1(2) sub_names by (fastforce simp: filter_empty_conv split: if_splits)
    moreover have "calm H prog own_opts (m_bind (get_app a) (\<lambda>app.
       (let options = filter (\<lambda>(p, opt). flt p opt) opts @ concat [] in
        if a_fallthrough app \<and> a_parent app \<noteq> None then
          m_bind (get_fallthrough_parent k a) (\<lambda>parent.
          m_bind (get_options const flt k (the parent)) (\<lambda>subcopts.
            m_return (add_missing_options options subcopts)))
        else m_return options)))"
    proof (rule calm_get_app [OF assms(1)], goal_cases)
      case (1 app)
      with app_common [OF 1 assms(1)] \<open>\<And>p opt. (p, opt) \<in> set opts \<Longrightarrow> p < 6 \<and> opt_is p opt\<close>
      show ?case by (auto intro!: calm_basic simp: own_opts_def Let_def)
    qed
    ultimately show ?case by simp
  qed
qed

lemma calm_make_option: "p < 6 \<Longrightarrow> opt_is p opt \<Longrightarrow> calm H prog anything (make_option fm opt b)"
proof -
  assume "p < 6" "opt_is p opt"
  then have "o_needs opt = [] \<and> o_excludes opt = []" using opt_common [of p opt] by blast
  then show ?thesis by (auto intro!: calmI simp: make_option_def get_opts_def)
qed

lemma calm_make_group: "own_opts opts \<Longrightarrow> calm H prog anything (make_group fm grp b (map snd opts))"
proof -
  assume "own_opts opts"
  then have "calm H prog anything (make_option fm opt b)" if "opt \<in> set (map snd opts)" for opt
    using that calm_make_option unfolding own_opts_def by fastforce
  then show ?thesis unfolding make_group_def by (intro calm_then calm_map calm_basic) auto
qed

lemma calm_get_groups: "a < 4 \<Longrightarrow> calm H prog anything (get_groups a)"
  unfolding get_groups_def by (rule calm_own_options) (auto intro: calm_basic)

lemma calm_make_positionals: "a < 4 \<Longrightarrow> 0 < n \<Longrightarrow> calm H prog anything (make_positionals fm n a)"
  unfolding make_positionals_def
  by (rule calm_bind [OF calm_get_options]) (auto intro: calm_make_group calm_basic)

lemma calm_make_groups: "a < 4 \<Longrightarrow> 0 < n \<Longrightarrow> calm H prog anything (make_groups fm n a mode)"
  unfolding make_groups_def
  by (rule calm_get_app calm_get_groups calm_get_options calm_make_group calm_rules | assumption | (auto; fail))+

lemma calm_make_usage: "a < 4 \<Longrightarrow> 0 < n \<Longrightarrow> calm H prog anything (make_usage fm n a name)"
  unfolding make_usage_def Let_def
  by (rule calm_get_app calm_subcommands calm_get_options calm_basic calm_if calm_bind | assumption | (auto; fail))+

text \<open>The calls for a subcommand are made only for the help of all.\<close>

lemma calm_make_subcommands:
  assumes "a < 4"
    and "\<And>s. mode = Format_All \<Longrightarrow> a < s \<Longrightarrow> s < 4 \<Longrightarrow> calm H prog anything (calls (Help_of s (a_name (prepared_apps prog ! s)) Format_Sub))"
  shows "calm H prog anything (make_subcommands calls fm a mode)"
  unfolding make_subcommands_def
proof (rule calm_subcommands [OF assms(1)], goal_cases)
  case subs: (1 subs)
  have none: "filter (\<lambda>(s, com). a_name com = [] \<and> a_group com \<noteq> [] \<and> hd (a_group com) \<noteq> CHR ''+'') subs = []"
    using subs sub_names(1) by (fastforce simp: filter_empty_conv)
  have call: "calm H prog anything (calls (Help_of s (a_name com) Format_Sub))"
    if "(s, com) \<in> set subs" "mode = Format_All" for s com
  proof -
    have *: "a < s" "s < 4" "app_is prog s com" using subs that(1) by auto
    then have "static_app com = static_app (prepared_apps prog ! s)" by (simp add: app_is_def)
    then have "a_name (static_app com) = a_name (static_app (prepared_apps prog ! s))" by simp
    then have "a_name com = a_name (prepared_apps prog ! s)" by (simp add: static_app_def)
    with assms(2) * that(2) show ?thesis by simp
  qed
  show ?case
    unfolding none by (auto intro!: calm_then calm_map calm_basic call)
qed

lemma calm_make_expanded:
  assumes "a < 4" "0 < n" "mode \<noteq> Format_All"
  shows "calm H prog anything (make_expanded calls fm n a mode)"
proof -
  have parent: "p < 4" if "app_is prog a app" "a_parent app = Some p" for app p
    using that assms(1) app_0 [of prog app] app_1 [of prog app] app_2 [of prog app] app_3 [of prog app]
    unfolding less_four by auto
  show ?thesis
    unfolding make_expanded_def Let_def
    by (insert assms, (rule calm_get_app calm_make_positionals calm_make_groups calm_make_subcommands
          calm_basic calm_option calm_then | assumption | (use parent in auto; fail))+)
qed

lemma calm_make_help:
  assumes "a < 4" "0 < n"
    and "mode = Format_Sub \<Longrightarrow> calm H prog anything (calls (Help_expanded formatter_default a mode))"
    and "\<And>s. mode = Format_All \<Longrightarrow> a < s \<Longrightarrow> s < 4 \<Longrightarrow> calm H prog anything (calls (Help_of s (a_name (prepared_apps prog ! s)) Format_Sub))"
  shows "calm H prog anything (make_help calls n a name mode)"
proof -
  have fm: "a_formatter app = formatter_default" if "app_is prog a app" for app using app_common [OF that assms(1)] by blast
  show ?thesis
    unfolding make_help_def Let_def
    by (insert assms, (rule calm_get_app calm_make_positionals calm_make_groups calm_make_subcommands calm_make_usage
          calm_basic calm_if calm_then | assumption | (use fm in auto; fail))+)
qed

lemma calm_help_sub: "a < 4 \<Longrightarrow> 4 - a + 3 \<le> n \<Longrightarrow> calm H prog anything (run_help n (Help_of a prev Format_Sub))"
proof (induction n arbitrary: a prev)
  case (Suc n)
  obtain m where m: "n = Suc m" "0 < m" using Suc.prems by (cases n) auto
  have expanded: "calm H prog anything (run_help n (Help_expanded fm a Format_Sub))" for fm
    using calm_make_expanded [OF Suc.prems(1) m(2), of Format_Sub] by (simp add: m)
  have step: "s < 4 \<and> 4 - s + 3 \<le> n" if "app_is prog a app" "a_parsed_subcommands app \<noteq> []" "s = last (a_parsed_subcommands app)"
    for s app
  proof -
    have "s \<in> set (a_parsed_subcommands app)" using that by simp
    with sub_less [OF that(1) Suc.prems(1)] Suc.prems show ?thesis by fastforce
  qed
  show ?case
    unfolding run_help.simps help_call.case help_body_def Let_def
    by (insert Suc.prems m, (rule calm_get_app calm_if Suc.IH calm_make_help expanded
          | assumption | (use step in blast) | (auto; fail))+)
qed simp

lemma calm_help:
  "a < 4 \<Longrightarrow> 4 - a + 4 \<le> n \<Longrightarrow> mode = Format_Normal \<or> mode = Format_All \<Longrightarrow>
   calm H prog anything (run_help n (Help_of a prev mode))"
proof (induction n arbitrary: a prev)
  case (Suc n)
  have n: "0 < n" using Suc.prems by simp
  have sub: "calm H prog anything (run_help n (Help_of s prev' Format_Sub))" if "a < s" "s < 4" for s prev'
    by (rule calm_help_sub) (use that Suc.prems in auto)
  have step: "s < 4 \<and> 4 - s + 4 \<le> n" if "app_is prog a app" "a_parsed_subcommands app \<noteq> []" "s = last (a_parsed_subcommands app)"
    for s app
  proof -
    have "s \<in> set (a_parsed_subcommands app)" using that by simp
    with sub_less [OF that(1) Suc.prems(1)] Suc.prems show ?thesis by fastforce
  qed
  show ?case
    unfolding run_help.simps help_call.case help_body_def Let_def
    by (insert Suc.prems n, (rule calm_get_app calm_if Suc.IH calm_make_help sub
          | assumption | (use step in blast) | (auto; fail))+)
qed simp

lemma calm_help_normal: "a < 4 \<Longrightarrow> 4 - a + 1 \<le> n \<Longrightarrow> calm H prog anything (run_help n (Help_of a prev Format_Normal))"
proof (induction n arbitrary: a prev)
  case (Suc n)
  have n: "0 < n" using Suc.prems by simp
  have step: "s < 4 \<and> 4 - s + 1 \<le> n" if "app_is prog a app" "a_parsed_subcommands app \<noteq> []" "s = last (a_parsed_subcommands app)"
    for s app
  proof -
    have "s \<in> set (a_parsed_subcommands app)" using that by simp
    with sub_less [OF that(1) Suc.prems(1)] Suc.prems show ?thesis by fastforce
  qed
  show ?case
    unfolding run_help.simps help_call.case help_body_def Let_def
    by (insert Suc.prems n, (rule calm_get_app calm_if Suc.IH calm_make_help
          | assumption | (use step in blast) | (auto; fail))+)
qed simp

lemma calm_failure_simple: "calm H prog anything (failure_simple 0 e)"
  unfolding failure_simple_def Let_def
proof (rule calm_get_app, goal_cases)
  case (2 app)
  then have ptrs: "a_help_ptr app = Some 0" "a_help_all_ptr app = None"
    using app_0 [of prog app] app_common [of prog 0 app] by auto
  show ?case
    unfolding ptrs by (auto intro!: calm_then calm_map calm_basic calm_get_opt)
qed simp

text \<open>Whatever the error is, its message or the help text is written and there is an exit code.\<close>

lemma calm_app_exit: "8 \<le> n \<Longrightarrow> calm H prog anything (app_exit n 0 err)"
proof -
  assume n: "8 \<le> n"
  have help_text: "calm H prog anything (app_help_text n 0 [] mode)" if "mode = Format_Normal \<or> mode = Format_All" for mode
    unfolding app_help_text_def by (rule calm_help) (use n that in auto)
  have message: "calm H prog anything (case a_failure_message app of
        Some f \<Rightarrow> m_bind (run_failure_message n 0 f err) (\<lambda>text. m_return (actual_exit_code err, [], text))
      | None \<Rightarrow> m_return (actual_exit_code err, [], []))" if "app_is prog 0 app" for app
    using app_common [OF that]
    by (auto intro!: calm_then calm_failure_simple calm_basic simp: run_failure_message_def)
  show ?thesis
    unfolding app_exit_def
    by (rule calm_if calm_basic calm_then help_text calm_get_app message | assumption | simp)+
qed

end
