(* ===== verification/Tcpchat_Queries.thy ===== *)
theory Tcpchat_Queries
  imports Tcpchat_Safe
begin

text \<open>
  What the questions the parser asks come to on the program's applications: a subcommand is
  found by its name among the direct ones, there are no positional options and no nameless
  subcommands, and every question returns.
\<close>

section \<open>Finding a subcommand\<close>

definition found :: "main_vars cli \<Rightarrow> app_ptr \<Rightarrow> string \<Rightarrow> bool \<Rightarrow> app_ptr option" where
  "found w a s u = find (\<lambda>c. a_name (w_apps w ! c) = s \<and> (a_parsed (w_apps w ! c) = 0 \<or> \<not> u)) (a_subcommands (w_apps w ! a))"

lemma plain_name:
  assumes "app_is prog c app" and "0 < c" and "c < 4"
  shows "check_name_detail app s = (if a_name app = s then NM_exact else NM_none)"
    and "\<not> a_disabled app" and "a_name app \<noteq> []"
  using app_common [OF assms(1,3)] sub_names(1) [OF assms(1,2,3)] by (simp_all add: check_name_detail_def)

lemma find_subcommand_loop_plain:
  assumes "\<And>c app. (c, app) \<in> set subs \<Longrightarrow> app_is prog c app \<and> 0 < c \<and> c < 4"
  shows "find_subcommand_loop inside False s d u None subs =
    m_return (map_option fst (find (\<lambda>(c, app). a_name app = s \<and> (a_parsed app = 0 \<or> \<not> u)) subs))"
  using assms
proof (induction subs)
  case (Cons x subs)
  obtain c app where x: "x = (c, app)" by force
  have "app_is prog c app" "0 < c" "c < 4" using Cons.prems [of c app] x by simp_all
  note plain = plain_name [OF this]
  have "find_subcommand_loop inside False s d u None subs =
      m_return (map_option fst (find (\<lambda>(c, app). a_name app = s \<and> (a_parsed app = 0 \<or> \<not> u)) subs))"
    by (rule Cons.IH, rule Cons.prems) simp
  then show ?case by (cases u) (auto simp: x plain)
qed simp

lemma find_subcommand_eq:
  assumes "tcp_inv prog w" and "a < 4"
  shows "find_subcommand (Suc n) a s d u w = (Inr (found w a s u), w)"
proof -
  let ?subs = "map (\<lambda>c. (c, w_apps w ! c)) (a_subcommands (w_apps w ! a))"
  have subs: "app_is prog c app \<and> 0 < c \<and> c < 4" if "(c, app) \<in> set ?subs" for c app
    using that sub_less [OF tcp_app [OF assms] assms(2)] tcp_app [OF assms(1)] by fastforce
  have loop: "find_subcommand_loop (\<lambda>com. find_subcommand n com s d u) False s d u None ?subs =
      m_return (map_option fst (find (\<lambda>(c, app). a_name app = s \<and> (a_parsed app = 0 \<or> \<not> u)) ?subs))"
    by (rule find_subcommand_loop_plain, rule subs)
  have "map_option fst (find (\<lambda>(c, app). a_name app = s \<and> (a_parsed app = 0 \<or> \<not> u)) (map (\<lambda>c. (c, w_apps w ! c)) cs)) =
      find (\<lambda>c. a_name (w_apps w ! c) = s \<and> (a_parsed (w_apps w ! c) = 0 \<or> \<not> u)) cs" for cs
    by (induction cs) auto
  moreover have "\<not> a_allow_prefix_matching (w_apps w ! a)" using app_common [OF tcp_app [OF assms] assms(2)] by blast
  ultimately show ?thesis
    by (simp add: comp_simps get_app_def subcommands_def loop found_def)
qed

lemma wp_find_subcommand:
  "tcp_inv prog w \<Longrightarrow> a < 4 \<Longrightarrow> 0 < n \<Longrightarrow>
   wp H prog Q (find_subcommand n a s d u) w \<longleftrightarrow> Q (found w a s u) w"
  by (cases n) (simp_all add: wp_def find_subcommand_eq del: find_subcommand.simps)

lemma found_sub:
  assumes "tcp_inv prog w" and "a < 4" and "found w a s u = Some c"
  shows "a < c" and "c < 4" and "a_name (w_apps w ! c) = s" and "a_parent (w_apps w ! c) = Some a"
proof -
  have c: "c \<in> set (a_subcommands (w_apps w ! a))" and name: "a_name (w_apps w ! c) = s"
    using assms(3) by (auto simp: found_def find_Some_iff)
  note app = tcp_app [OF assms(1,2)]
  show less: "a < c" "c < 4" using sub_less [OF app assms(2)] c by auto
  show "a_name (w_apps w ! c) = s" by (rule name)
  show "a_parent (w_apps w ! c) = Some a"
    using c assms(2) app app_0 [of prog] app_1 [of prog] app_2 [of prog] app_3 [of prog] tcp_app [OF assms(1) less(2)]
    unfolding less_four by (elim disjE) auto
qed

definition below :: "app_ptr \<Rightarrow> app_ptr option \<Rightarrow> bool" where
  "below a r \<longleftrightarrow> (\<forall>c. r = Some c \<longrightarrow> a < c \<and> c < 4)"

lemma calm_find_subcommand: "a < 4 \<Longrightarrow> 0 < n \<Longrightarrow> calm H prog (below a) (find_subcommand n a s d u)"
  by (rule calmI) (auto simp: wp_find_subcommand below_def dest: found_sub)

section \<open>Classification\<close>

lemma app_parent:
  assumes "app_is prog a app" and "a < 4" and "a_parent app = Some p"
  shows "p < a"
  using assms app_0 [of prog app] app_1 [of prog app] app_2 [of prog app] app_3 [of prog app]
  unfolding less_four by auto

lemma calm_valid_subcommand: "a < 4 \<Longrightarrow> a + 1 < n \<Longrightarrow> calm H prog anything (valid_subcommand n a s u)"
proof (induction n arbitrary: a)
  case (Suc n)
  have n: "0 < n" using Suc.prems by simp
  have step: "p < 4 \<and> p + 1 < n" if "app_is prog a app" "a_parent app = Some p" for app p
    using app_parent [OF that(1) Suc.prems(1) that(2)] Suc.prems by simp
  show ?case
    unfolding valid_subcommand.simps Let_def
    by (insert Suc.prems n, (rule calm_get_app calm_if calm_option calm_basic Suc.IH
          calm_then [OF calm_weaken [OF calm_find_subcommand]] | assumption | (use step in blast) | simp)+)
qed simp

lemma calm_get_option_no_throw: "a < 4 \<Longrightarrow> 0 < n \<Longrightarrow> calm H prog anything (get_option_no_throw n a s)"
proof -
  assume a: "a < 4" and "0 < n"
  then obtain m where n: "n = Suc m" by (cases n) auto
  have none: "filter (\<lambda>(s, subc). a_name subc = []) subs = []"
    if "\<And>s sub. (s, sub) \<in> set subs \<Longrightarrow> a < s \<and> s < 4 \<and> app_is prog s sub" for subs
    using that sub_names(1) by (fastforce simp: filter_empty_conv)
  have stay: "\<not> a_fallthrough app" if "app_is prog a app" for app
    using app_common [OF that a] by blast
  show ?thesis
    unfolding n get_option_no_throw.simps
  proof (rule calm_own_options [OF a], rule calm_option, goal_cases)
    case 1
    show ?case
      by (rule calm_subcommands [OF a]) (auto simp: none stay intro!: calm_get_app [OF a] calm_basic)
  qed (auto intro: calm_basic)
qed

lemma calm_recognize: "a < 4 \<Longrightarrow> 9 - a \<le> n \<Longrightarrow> calm H prog anything (recognize n a s u)"
proof (induction n arbitrary: a s)
  case (Suc n)
  have n: "0 < n" "a + 1 < n" using Suc.prems by auto
  have dotted: "calm H prog anything (m_bind (find_subcommand n a t True u) (\<lambda>cm.
      case cm of None \<Rightarrow> m_return CL_NONE
      | Some c \<Rightarrow> m_bind (recognize n c t' u) (\<lambda>res. m_return (if res = CL_SUBCOMMAND then res else CL_NONE))))" for t t'
  proof (rule calm_bind [OF calm_find_subcommand [OF Suc.prems(1) n(1)]], rule calm_option, goal_cases)
    case (2 r c)
    then have "c < 4" "9 - c \<le> n" using Suc.prems by (auto simp: below_def)
    then show ?case by (intro calm_then Suc.IH calm_basic) simp_all
  qed (simp add: calm_basic)
  show ?case
    unfolding recognize.simps
    by (insert Suc.prems n, (rule calm_if calm_then [OF calm_valid_subcommand] calm_then [OF calm_get_option_no_throw]
          calm_option calm_prod calm_get_app calm_basic dotted | assumption | (simp; fail))+)
qed simp

section \<open>Positionals and nameless subcommands\<close>

lemma not_positional: "opt_is p opt \<Longrightarrow> p < 6 \<Longrightarrow> \<not> get_positional opt"
  using opt_common [of p opt] by (simp add: get_positional_def)

lemma no_positionals:
  "(\<And>p opt. (p, opt) \<in> set opts \<Longrightarrow> p < 6 \<and> opt_is p opt) \<Longrightarrow> filter (\<lambda>(p, opt). get_positional opt \<and> R opt) opts = []"
  using not_positional by (fastforce simp: filter_empty_conv)

lemma calm_required_positional: "a < 4 \<Longrightarrow> calm H prog (\<lambda>r. r = None) (required_positional a s)"
  and calm_next_positional: "a < 4 \<Longrightarrow> calm H prog (\<lambda>r. r = None) (next_positional a s)"
  and calm_count_remaining: "a < 4 \<Longrightarrow> calm H prog (\<lambda>r. r = 0) (count_remaining_positionals b a)"
  and calm_has_remaining: "a < 4 \<Longrightarrow> calm H prog (\<lambda>r. \<not> r) (has_remaining_positionals a)"
proof -
  assume a: "a < 4"
  show count: "calm H prog (\<lambda>r. r = 0) (count_remaining_positionals b a)" for b
    unfolding count_remaining_positionals_def
    by (rule calm_own_options [OF a], rule calm_basic) (use not_positional in \<open>fastforce simp: sum_list_eq_0_iff\<close>)
  show "calm H prog (\<lambda>r. \<not> r) (has_remaining_positionals a)"
    unfolding has_remaining_positionals_def
    by (rule calm_own_options [OF a], rule calm_basic) (use not_positional in \<open>fastforce simp: list_ex_iff\<close>)
  show "calm H prog (\<lambda>r. r = None) (next_positional a s)"
    unfolding next_positional_def
    by (rule calm_get_app [OF a], rule calm_own_options [OF a]) (auto simp: no_positionals intro: calm_basic)
  show "calm H prog (\<lambda>r. r = None) (required_positional a s)"
    unfolding required_positional_def
  proof (rule calm_get_app [OF a], goal_cases)
    case (1 app)
    have "\<not> a_positionals_at_end app" using app_common [OF 1 a] by blast
    then show ?case
      by (auto simp: args_size_def intro!: calm_then calm_basic calm_weaken [OF count])
  qed
qed

lemma calm_groups_take: "a < 4 \<Longrightarrow> calm H prog (\<lambda>r. \<not> r) (groups_take ask n a)"
proof -
  assume a: "a < 4"
  have none: "filter (\<lambda>(s, subc). a_name subc = [] \<and> \<not> a_disabled subc) subs = []"
    if "\<And>s sub. (s, sub) \<in> set subs \<Longrightarrow> a < s \<and> s < 4 \<and> app_is prog s sub" for subs
    using that sub_names(1) by (fastforce simp: filter_empty_conv)
  show ?thesis
    unfolding groups_take_def
    by (rule calm_subcommands [OF a]) (auto simp: none intro: calm_basic)
qed

end
