(* ===== verification/Tcpchat_Total.thy ===== *)
theory Tcpchat_Total
  imports Tcpchat_Queries
begin

text \<open>
  The loops over the arguments end: each argument is either taken, or handed to the application
  above, and the program's own application always takes it. The measure is the length of the
  arguments that are left, each with one more for itself, since the parser pushes back what
  follows a short option and takes dotted names apart.
\<close>

section \<open>The measure\<close>

definition weight :: "string list \<Rightarrow> nat" where
  "weight args = sum_list (map (\<lambda>s. Suc (length s)) args)"

abbreviation work :: "main_vars cli \<Rightarrow> nat" where
  "work w \<equiv> weight (w_args w)"

lemma weight_simps [simp]:
  "weight [] = 0" "weight (s # args) = Suc (length s) + weight args" "weight (xs @ ys) = weight xs + weight ys"
  by (simp_all add: weight_def)

lemma weight_last: "args \<noteq> [] \<Longrightarrow> weight args = weight (butlast args) + Suc (length (last args))"
  by (metis append_butlast_last_id weight_simps add.right_neutral)

lemma weight_butlast: "weight (butlast args) \<le> weight args"
  by (cases "args = []") (simp_all add: weight_last)

section \<open>Computations that add little to the arguments\<close>

definition grows :: "naming \<Rightarrow> nat \<Rightarrow> ('x \<Rightarrow> bool) \<Rightarrow> (main_vars, 'x) cli_m \<Rightarrow> bool" where
  "grows prog k P m \<longleftrightarrow>
     (\<forall>w. tcp_inv prog w \<longrightarrow> wp handled prog (\<lambda>x w'. tcp_inv prog w' \<and> work w' \<le> work w + k \<and> P x) m w)"

abbreviation shrinks :: "naming \<Rightarrow> (main_vars, 'x) cli_m \<Rightarrow> bool" where
  "shrinks prog \<equiv> grows prog 0 anything"

lemma growsI:
  "(\<And>w. tcp_inv prog w \<Longrightarrow> wp handled prog (\<lambda>x w'. tcp_inv prog w' \<and> work w' \<le> work w + k \<and> P x) m w) \<Longrightarrow>
   grows prog k P m"
  by (simp add: grows_def)

lemma grows_wp:
  "grows prog k P m \<Longrightarrow> tcp_inv prog w \<Longrightarrow>
   (\<And>x w'. tcp_inv prog w' \<Longrightarrow> work w' \<le> work w + k \<Longrightarrow> P x \<Longrightarrow> Q x w') \<Longrightarrow> wp handled prog Q m w"
  unfolding grows_def by (blast intro: wp_mono)

lemma grows_calm: "calm handled prog P m \<Longrightarrow> grows prog k P m"
  by (rule growsI) (rule wp_calm, auto)

lemma grows_bind: "grows prog 0 P m \<Longrightarrow> (\<And>x. P x \<Longrightarrow> grows prog k Q (f x)) \<Longrightarrow> grows prog k Q (m_bind m f)"
proof (rule growsI)
  fix w assume m: "grows prog 0 P m" and f: "\<And>x. P x \<Longrightarrow> grows prog k Q (f x)" and w: "tcp_inv prog w"
  show "wp handled prog (\<lambda>x w'. tcp_inv prog w' \<and> work w' \<le> work w + k \<and> Q x) (m_bind m f) w"
    unfolding wp_bind
    by (rule grows_wp [OF m w], rule grows_wp [OF f]) auto
qed

lemma grows_then: "shrinks prog m \<Longrightarrow> (\<And>x. grows prog k Q (f x)) \<Longrightarrow> grows prog k Q (m_bind m f)"
  by (rule grows_bind) auto

lemma grows_seq: "shrinks prog m \<Longrightarrow> grows prog k Q n \<Longrightarrow> grows prog k Q (m_seq m n)"
  by (simp add: m_seq_def grows_then)

lemma grows_if: "(b \<Longrightarrow> grows prog k P m) \<Longrightarrow> (\<not> b \<Longrightarrow> grows prog k P m') \<Longrightarrow> grows prog k P (if b then m else m')"
  by simp

lemma grows_when: "(b \<Longrightarrow> grows prog k anything m) \<Longrightarrow> grows prog k anything (m_when b m)"
  by (auto simp: m_when_def intro: grows_calm calm_basic)

lemma grows_prod: "(\<And>y z. x = (y, z) \<Longrightarrow> grows prog k P (f y z)) \<Longrightarrow> grows prog k P (case x of (y, z) \<Rightarrow> f y z)"
  by (cases x) auto

lemma grows_return: "P x \<Longrightarrow> grows prog k P (m_return x)"
  by (rule grows_calm, rule calm_basic)

lemma grows_pop: "shrinks prog args_pop"
  by (rule growsI) (simp add: args_pop_def tcp_inv_def weight_butlast)

lemma grows_get_app: "a < 4 \<Longrightarrow> (\<And>app. app_is prog a app \<Longrightarrow> grows prog k P (f app)) \<Longrightarrow> grows prog k P (m_bind (get_app a) f)"
  by (simp add: get_app_def grows_def tcp_app)

lemma grows_get_opt: "p < 6 \<Longrightarrow> (\<And>opt. opt_is p opt \<Longrightarrow> grows prog k P (f opt)) \<Longrightarrow> grows prog k P (m_bind (get_opt p) f)"
  by (simp add: get_opt_def grows_def tcp_opt)

lemma grows_gets: "shrinks prog (m_gets f)"
  by (rule grows_calm, rule calm_basic)

lemma grows_args: "shrinks prog args_back" "shrinks prog args_size"
  by (simp_all add: args_back_def args_size_def grows_gets)

lemmas grows_rules = grows_get_app grows_get_opt grows_when grows_if grows_prod grows_return grows_pop
  grows_gets grows_args grows_seq grows_then

text \<open>Reading the vector changes nothing.\<close>

lemma wp_args [simp]:
  "wp H prog Q args_back w \<longleftrightarrow> Q (last (w_args w)) w"
  "wp H prog R args_size w \<longleftrightarrow> R (length (w_args w)) w"
  "wp H prog U args_pop w \<longleftrightarrow> U () (w\<lparr>w_args := butlast (w_args w)\<rparr>)"
  "wp H prog U (args_push s) w \<longleftrightarrow> U () (w\<lparr>w_args := w_args w @ [s]\<rparr>)"
  by (simp_all add: args_back_def args_size_def args_pop_def args_push_def)

lemma tcp_inv_args [simp]: "tcp_inv prog (w\<lparr>w_args := xs\<rparr>) \<longleftrightarrow> tcp_inv prog w"
  by (simp add: tcp_inv_def)

section \<open>An option and what follows it\<close>

lemma calm_parsed_option: "a < 4 \<Longrightarrow> calm H prog anything (parsed_option a p)"
  unfolding parsed_option_def by (rule calm_upd_app) (auto intro: app_is_state)

lemma opt_is_results: "opt_is p opt \<Longrightarrow> opt_is p (add_result s opt)"
  by (metis opt_changes(2) opt_change_def opt_is_def)

lemma calm_add_counted: "a < 4 \<Longrightarrow> p < 6 \<Longrightarrow> calm H prog anything (add_counted a p s)"
proof -
  assume a: "a < 4" and p: "p < 6"
  have "opt_is p opt'" if "opt_is p opt" "add_result_count s opt = (k, opt')" for opt opt' k
    using opt_is_results [OF that(1), of s] that(2) by (simp add: add_result_def)
  with a p show ?thesis
    unfolding add_counted_def
    by (rule_tac calm_get_opt) (auto intro!: calm_prod calm_seq calm_put_opt calm_parsed_option calm_basic)
qed

lemma calm_add_flag:
  "a < 4 \<Longrightarrow> p < 6 \<Longrightarrow> calm H prog P (g x) \<Longrightarrow>
   calm H prog P (m_bind (get_opt p) (\<lambda>opt. m_bind (m_lift (get_flag_value opt name value)) (\<lambda>res.
     m_seq (upd_opt p (add_result res)) (m_seq (parsed_option a p) (g x)))))"
proof (rule calm_get_opt, assumption)
  fix opt :: "main_vars opt"
  assume a: "a < 4" and p: "p < 6" and g: "calm H prog P (g x)" and opt: "opt_is p opt"
  obtain res where "get_flag_value opt name value = Inr res"
    using opt_common [OF opt p] by (cases "get_flag_value opt name value") (auto simp: get_flag_value_def find_member_def Let_def split: if_splits)
  with a p g show "calm H prog P (m_bind (m_lift (get_flag_value opt name value)) (\<lambda>res.
      m_seq (upd_opt p (add_result res)) (m_seq (parsed_option a p) (g x))))"
    by (auto intro!: calm_then calm_lift calm_seq calm_upd_opt opt_changes calm_parsed_option)
qed

lemma calm_take_inline:
  "a < 4 \<Longrightarrow> p < 6 \<Longrightarrow> calm H prog (\<lambda>(k, rest'). rest' = rest \<or> rest' = []) (take_inline a p name value rest max_num)"
  unfolding take_inline_def
  by (intro calm_if calm_add_flag calm_then [OF calm_add_counted] calm_basic) simp_all

lemma shrinks_gather_minimum: "a < 4 \<Longrightarrow> p < 6 \<Longrightarrow> shrinks prog (gather_minimum k a p min_num collected)"
  by (induction k arbitrary: collected) (auto intro!: grows_rules grows_calm [OF calm_add_counted])

lemma shrinks_recognize: "a < 4 \<Longrightarrow> 9 \<le> n \<Longrightarrow> shrinks prog (recognize n a s u)"
  by (rule grows_calm, rule calm_recognize) auto

lemma shrinks_gather_optional:
  "a < 4 \<Longrightarrow> p < 6 \<Longrightarrow> 9 \<le> n \<Longrightarrow> shrinks prog (gather_optional k n a p max_num remreqpos collected)"
proof (induction k arbitrary: collected)
  case (Suc k)
  have plain: "\<not> a_validate_optional_arguments app" if "app_is prog a app" for app
    using app_common [OF that Suc.prems(1)] by blast
  show ?case
    unfolding gather_optional.simps
    by (insert Suc.prems, (rule shrinks_recognize grows_rules grows_calm [OF calm_add_counted] Suc.IH
          | assumption | (use plain in blast) | simp)+)
qed (simp add: grows_return)

lemma shrinks_take_following:
  "a < 4 \<Longrightarrow> p < 6 \<Longrightarrow> 9 \<le> n \<Longrightarrow> shrinks prog (take_following n a p name min_num max_num collected)"
proof -
  assume a: "a < 4" and p: "p < 6" and n: "9 \<le> n"
  have count: "shrinks prog (count_remaining_positionals True a)"
    by (rule grows_calm, rule calm_weaken [OF calm_count_remaining [OF a]]) simp
  have mark: "shrinks prog (eat_positional_mark n a)"
    unfolding eat_positional_mark_def
    by (insert a n, (rule shrinks_recognize grows_rules | assumption | simp)+)
  have throw: "shrinks prog (m_when b (m_throw (TypedAtLeast s k t)))" for b s k t
    by (rule grows_when, rule grows_calm, rule calm_basic, rule handled_errors)
  have flag: "shrinks prog (m_bind (get_opt p) (\<lambda>opt. m_bind (m_lift (get_flag_value opt name [])) (\<lambda>res.
      m_seq (upd_opt p (add_result res)) (parsed_option a p))))"
  proof -
    have "calm handled prog anything (m_bind (get_opt p) (\<lambda>opt. m_bind (m_lift (get_flag_value opt name [])) (\<lambda>res.
      m_seq (upd_opt p (add_result res)) (m_seq (parsed_option a p) (m_return ())))))"
      by (rule calm_add_flag [OF a p]) (simp add: calm_basic)
    moreover have "m_seq m (m_return ()) = m" for m :: "(main_vars, unit) cli_m"
      by (rule ext) (simp add: comp_simps split: prod.split sum.split)
    ultimately show ?thesis by (simp add: grows_calm)
  qed
  show ?thesis
    unfolding take_following_def
    by (insert a p n, (rule shrinks_gather_minimum shrinks_gather_optional count mark throw flag grows_rules
          | assumption | simp)+)
qed

lemma calm_close_partial: "p < 6 \<Longrightarrow> calm handled prog anything (close_partial p min_num collected)"
  unfolding close_partial_def
  by (rule calm_get_opt calm_then calm_if calm_upd_opt opt_changes calm_basic handled_errors | assumption | simp)+

lemma calm_separate_results: "p < 6 \<Longrightarrow> calm H prog anything (separate_results p)"
  unfolding separate_results_def
  by (rule calm_get_opt calm_when calm_upd_opt opt_changes | assumption)+

text \<open>The option takes the argument; what it pushes back is shorter.\<close>

lemma arg_found_takes:
  assumes w: "tcp_inv prog w" and a: "a < 4" and p: "p < 6" and n: "9 \<le> n"
    and args: "w_args w \<noteq> []" and rest: "length rest + 2 \<le> length (last (w_args w))"
  shows "wp handled prog (\<lambda>r w'. tcp_inv prog w' \<and> work w' < work w \<and> r) (arg_found n a p name value rest) w"
proof -
  have closing: "grows prog (length rest + 2) (\<lambda>r. r) (m_seq (m_when (rest' \<noteq> []) (args_push (''-'' @ rest'))) (m_return True))"
    if "rest' = rest \<or> rest' = []" for rest'
    using that by (intro growsI) (auto simp del: append.simps)
  have "grows prog (length rest + 2) (\<lambda>r. r)
     (m_seq (separate_results p)
     (m_bind (get_opt p) (\<lambda>opt.
     m_seq (m_when (o_trigger_on_result opt \<and> o_state opt = Opt_callback_run) (upd_opt p option_clear))
     (case arg_limits opt of (min_num, max_num) \<Rightarrow>
        m_bind (take_inline a p name value rest max_num) (\<lambda>(collected0, rest').
        m_bind (take_following n a p name min_num max_num collected0) (\<lambda>collected.
        m_seq (close_partial p min_num collected)
        (m_seq (m_when (o_trigger_on_result opt) (run_option_callback p))
        (m_seq (m_when (rest' \<noteq> []) (args_push (''-'' @ rest')))
        (m_return True)))))))))"
    by (insert a p n, (rule grows_seq [OF grows_calm [OF calm_separate_results]] grows_get_opt grows_prod
          grows_bind [OF grows_calm [OF calm_take_inline]] grows_then [OF shrinks_take_following]
          grows_seq [OF grows_calm [OF calm_close_partial]] closing grows_seq grows_when
          grows_calm [OF calm_upd_opt] opt_changes grows_calm [OF calm_run_option_callback] | assumption | simp)+)
  moreover have "tcp_inv prog (w\<lparr>w_args := butlast (w_args w)\<rparr>)" using w by simp
  ultimately show ?thesis
    unfolding arg_found_def
    by (subst wp_seq, simp only: wp_args, rule grows_wp) (use args rest in \<open>simp add: weight_last\<close>)
qed

section \<open>What the calls do\<close>

fun call_app :: "call \<Rightarrow> app_ptr" where
  "call_app (Call_parse a) = a"
| "call_app (Call_loop a _) = a"
| "call_app (Call_subcommand a) = a"
| "call_app (Call_positional a _) = a"
| "call_app (Call_arg a _ _) = a"

fun call_level :: "call \<Rightarrow> nat" where
  "call_level (Call_parse _) = 2"
| "call_level (Call_loop _ _) = 1"
| "call_level _ = 0"

text \<open>
  An argument the application does not take after dotted names were tried: parts of it may have
  been left in front of it.
\<close>

definition put_back :: "main_vars cli \<Rightarrow> main_vars cli \<Rightarrow> bool" where
  "put_back w w' \<longleftrightarrow> (\<exists>extra. w_args w' = butlast (w_args w) @ extra @ [last (w_args w)]
     \<and> weight extra \<le> length (last (w_args w)))"

fun call_result :: "call \<Rightarrow> main_vars cli \<Rightarrow> bool \<Rightarrow> main_vars cli \<Rightarrow> bool" where
  "call_result (Call_parse a) w r w' \<longleftrightarrow> work w' \<le> work w"
| "call_result (Call_loop a b) w r w' \<longleftrightarrow> work w' \<le> work w"
| "call_result (Call_subcommand a) w r w' \<longleftrightarrow> work w' \<le> work w \<and> (r \<or> a = 0 \<longrightarrow> work w' < work w)"
| "call_result (Call_positional a h) w r w' \<longleftrightarrow> work w' \<le> work w \<and> (r \<or> a = 0 \<longrightarrow> work w' < work w)"
| "call_result (Call_arg a t l) w r w' \<longleftrightarrow> (if l \<and> \<not> r then put_back w w' else work w' < work w)"

fun call_possible :: "call \<Rightarrow> main_vars cli \<Rightarrow> bool" where
  "call_possible (Call_parse a) w \<longleftrightarrow> a \<noteq> 0"
| "call_possible (Call_loop a b) w \<longleftrightarrow> a \<noteq> 0"
| "call_possible (Call_subcommand a) w \<longleftrightarrow> w_args w \<noteq> []"
| "call_possible (Call_positional a h) w \<longleftrightarrow> w_args w \<noteq> [] \<and> \<not> h"
| "call_possible (Call_arg a t l) w \<longleftrightarrow> w_args w \<noteq> []"

definition call_fuel :: "call \<Rightarrow> main_vars cli \<Rightarrow> nat" where
  "call_fuel c w = 3 * work w + call_level c + 12"

definition good :: "naming \<Rightarrow> nat \<Rightarrow> main_vars calls \<Rightarrow> bool" where
  "good prog k calls \<longleftrightarrow>
     (\<forall>c w. tcp_inv prog w \<and> call_app c < 4 \<and> call_possible c w \<and> call_fuel c w \<le> k \<longrightarrow>
        wp handled prog (\<lambda>r w'. tcp_inv prog w' \<and> call_result c w r w') (calls c) w)"

lemma good_call:
  "good prog k calls \<Longrightarrow> tcp_inv prog w \<Longrightarrow> call_app c < 4 \<Longrightarrow> call_possible c w \<Longrightarrow> call_fuel c w \<le> k \<Longrightarrow>
   (\<And>r w'. tcp_inv prog w' \<Longrightarrow> call_result c w r w' \<Longrightarrow> Q r w') \<Longrightarrow> wp handled prog Q (calls c) w"
  unfolding good_def by (blast intro: wp_mono)

lemma wp_return: "wp H prog Q (m_return x) = Q x"
  by (rule ext) simp

lemma wp_bind_get_app: "wp H prog Q (m_bind (get_app a) (\<lambda>app. m_return (f app))) = (\<lambda>w. Q (f (w_apps w ! a)) w)"
  by (rule ext) (simp add: get_app_def)

lemma wp_lift: "wp H prog Q (m_lift (Inr x)) = Q x" "wp H prog Q (m_lift (Inl e)) w \<longleftrightarrow> tcp_inv prog w \<and> H e"
  by (auto simp: wp_def comp_run fun_eq_iff)

lemma wp_get_app [simp]: "wp H prog Q (get_app a) w \<longleftrightarrow> Q (w_apps w ! a) w"
  by (simp add: get_app_def)

section \<open>Positional arguments\<close>

lemma wp_name_base:
  "tcp_inv prog w \<Longrightarrow> a < 4 \<Longrightarrow> 0 < n \<Longrightarrow> wp H prog Q (name_base n a) w \<longleftrightarrow> Q (if a \<le> 1 then 0 else 1) w"
  using app_0 [OF tcp_app, of prog w] app_1 [OF tcp_app, of prog w] app_2 [OF tcp_app, of prog w] app_3 [OF tcp_app, of prog w]
  unfolding less_four
  by (cases n; elim disjE) (simp_all add: name_base_def get_fallthrough_parent_def)

lemma wp_broader_subcommand:
  assumes w: "tcp_inv prog w" and a: "a < 4" and n: "0 < n"
  defines "b \<equiv> if a \<le> 1 then 0 else 1"
  shows "wp H prog Q (broader_subcommand n a) w \<longleftrightarrow>
    Q (found w b (last (w_args w)) False \<noteq> None \<and> room_for_subcommand (w_apps w ! b)) w"
proof -
  have b: "b < 4" by (simp add: b_def)
  have "a_parent (w_apps w ! c) = Some b" if "found w b s u = Some c" for s u c
    using found_sub(4) [OF w b that] .
  then show ?thesis
    by (auto simp: broader_subcommand_def wp_name_base [OF w a n, folded b_def] wp_find_subcommand [OF w b n] split: option.split)
qed

lemma calm_move_to_missing: "a < 4 \<Longrightarrow> calm handled prog anything (move_to_missing a t s)"
proof -
  assume a: "a < 4"
  have missing: "calm handled prog anything (add_missing b t s)" if "b < 4" for b
    unfolding add_missing_def by (rule calm_upd_app [OF that]) (simp add: app_is_state)
  have member: "(b, sub) \<in> set subs" if "find P subs = Some (b, sub)" for P and subs :: "(app_ptr \<times> main_vars app) list" and b sub
    using that unfolding find_Some_iff by (metis nth_mem)
  show ?thesis
    unfolding move_to_missing_def
  proof (rule calm_get_app [OF a], rule calm_subcommands [OF a], goal_cases)
    case (1 app subs)
    have "calm handled prog anything (case find (\<lambda>(s, subc). a_name subc = [] \<and> capture_extras (a_allow_extras subc)) subs of
        Some (b, _) \<Rightarrow> add_missing b t s | None \<Rightarrow> m_when (a_allow_extras app \<noteq> EM_Ignore) (add_missing a t s))"
      using missing a member 1(2) by (auto split: option.split intro!: calm_when) blast
    then show ?case
      by (intro calm_if calm_when calm_basic handled_errors missing a)
  qed
qed

definition takes :: "naming \<Rightarrow> app_ptr \<Rightarrow> main_vars cli \<Rightarrow> bool \<Rightarrow> main_vars cli \<Rightarrow> bool" where
  "takes prog a w r w' \<longleftrightarrow> tcp_inv prog w' \<and> work w' \<le> work w \<and> (r \<or> a = 0 \<longrightarrow> work w' < work w)"

lemma takes_less: "tcp_inv prog w' \<Longrightarrow> work w' < work w \<Longrightarrow> takes prog a w r w'"
  by (simp add: takes_def)

lemma extra_positional_takes:
  assumes w: "tcp_inv prog w" and a: "a < 4" and args: "w_args w \<noteq> []"
  shows "wp handled prog (takes prog a w) (extra_positional a s) w"
proof -
  note app = tcp_app [OF w a]
  have plain: "\<not> a_positionals_at_end (w_apps w ! a)" "a_prefix_command (w_apps w ! a) = PM_Off"
    using app_common [OF app a] by auto
  have named: "\<not> (a_parent (w_apps w ! a) \<noteq> None \<and> a_name (w_apps w ! a) = [])"
    using a app sub_names(1) [OF app] app_0 [of prog "w_apps w ! a"] by (cases "a = 0") auto
  show ?thesis
    unfolding extra_positional_def
    by (simp only: wp_bind wp_get_app wp_seq [of _ _ _ "move_to_missing a CL_NONE s"] plain named if_False, rule wp_calm [OF calm_move_to_missing [OF a] w])
      (use args plain in \<open>auto intro!: takes_less simp: weight_last wp_return\<close>)
qed

lemma positional_elsewhere_takes:
  assumes w: "tcp_inv prog w" and a: "a < 4" and args: "w_args w \<noteq> []" and n: "0 < n"
    and calls: "good prog k calls" and k: "3 * work w + 11 \<le> k"
  shows "wp handled prog (takes prog a w) (positional_elsewhere calls n a False (last (w_args w))) w"
  unfolding positional_elsewhere_def
proof (subst wp_bind, rule wp_calm [OF calm_groups_take [OF a] w])
  fix took w1
  assume w1: "tcp_inv prog w1" and same: "w_args w1 = w_args w" and "\<not> took"
  note app = tcp_app [OF w1 a]
  have plain: "\<not> a_fallthrough (w_apps w1 ! a)" "a_subcommand_fallthrough (w_apps w1 ! a)"
    using app_common [OF app a] by auto
  have takes_w1: "takes prog a w1 = takes prog a w" by (simp add: takes_def same fun_eq_iff)
  define com where "com = found w1 a (last (w_args w)) False"
  show "wp handled prog (takes prog a w)
     (if took then m_return True
      else m_bind (get_app a) (\<lambda>app.
        if a_parent app \<noteq> None \<and> a_fallthrough app then
          m_bind (get_fallthrough_parent n a) (\<lambda>parent.
            calls (Call_positional (the parent) (a_parse_complete_callback app \<noteq> None)))
        else m_bind (find_subcommand n a (last (w_args w)) True False) (\<lambda>com.
          if com \<noteq> None \<and> room_for_subcommand app then
            if False then m_return False
            else m_seq args_pop (m_bind (calls (Call_parse (the com))) (\<lambda>_. m_return True))
          else m_bind (if a_subcommand_fallthrough app then broader_subcommand n a else m_return False) (\<lambda>broader.
            if broader then m_return False else extra_positional a (last (w_args w)))))) w1"
  proof (cases "com \<noteq> None \<and> room_for_subcommand (w_apps w1 ! a)")
    case True
    then obtain c where c: "com = Some c" by blast
    then have "a < c" "c < 4" using found_sub [OF w1 a] by (auto simp: com_def)
    have less: "weight (butlast (w_args w)) < work w" using args by (simp add: weight_last)
    have "wp handled prog (\<lambda>_ w'. takes prog a w True w') (calls (Call_parse c)) (w1\<lparr>w_args := butlast (w_args w)\<rparr>)"
      by (rule good_call [OF calls])
        (use w1 \<open>a < c\<close> \<open>c < 4\<close> less k in \<open>auto simp: call_fuel_def intro!: takes_less\<close>)
    then show ?thesis
      using \<open>\<not> took\<close> True c by (simp add: wp_return plain wp_find_subcommand [OF w1 a n] com_def [symmetric] same)
  next
    case False
    have stay: "takes prog a w False w1" if "a \<noteq> 0" using that w1 by (simp add: takes_def same)
    have last: "wp handled prog (takes prog a w) (extra_positional a (last (w_args w))) w1"
      using extra_positional_takes [OF w1 a, of "last (w_args w)"] args by (simp add: same takes_w1)
    define b :: nat where "b = (if a \<le> 1 then 0 else 1)"
    have "\<not> (found w1 b (last (w_args w)) False \<noteq> None \<and> room_for_subcommand (w_apps w1 ! b))" if "a = 0"
      using False that by (simp add: com_def b_def)
    with stay have broader: "takes prog a w False w1"
      if "found w1 b (last (w_args w)) False \<noteq> None" "room_for_subcommand (w_apps w1 ! b)"
      using that by blast
    show ?thesis
      using \<open>\<not> took\<close> False broader last
      by (auto simp: plain wp_find_subcommand [OF w1 a n] wp_broader_subcommand [OF w1 a n, folded b_def] com_def [symmetric]
          same)
  qed
qed

lemma parse_positional_takes:
  assumes w: "tcp_inv prog w" and a: "a < 4" and args: "w_args w \<noteq> []" and n: "0 < n"
    and calls: "good prog k calls" and k: "3 * work w + 11 \<le> k"
  shows "wp handled prog (takes prog a w) (parse_positional calls n a False) w"
  unfolding parse_positional_def wp_bind wp_args
proof (rule wp_calm [OF calm_required_positional [OF a] w], goal_cases)
  case (1 req w1)
  have "wp handled prog (takes prog a w1) (positional_elsewhere calls n a False (last (w_args w1))) w2"
    if "tcp_inv prog w2" "w_args w2 = w_args w1" for w2
    using positional_elsewhere_takes [OF that(1) a _ n calls] args k that(2) 1(2) by (simp add: takes_def [abs_def])
  then show ?case
    using 1 by (auto intro!: wp_calm [OF calm_next_positional [OF a] 1(1)] simp: takes_def [abs_def])
qed

section \<open>Subcommands\<close>

lemma calm_parsed_subcommand:
  assumes "a < 4" and "c \<in> set (a_subcommands (prepared_apps prog ! a))" and "c < 4"
  shows "calm H prog anything (parsed_subcommand a c)"
proof -
  have "app_is prog a (app\<lparr>a_parsed_subcommands := a_parsed_subcommands app @ [c]\<rparr>)" if "app_is prog a app" for app
  proof -
    have "static_app app = static_app (prepared_apps prog ! a)" using that by (simp add: app_is_def)
    then have "a_subcommands (static_app app) = a_subcommands (static_app (prepared_apps prog ! a))" by simp
    then have "a_subcommands app = a_subcommands (prepared_apps prog ! a)" by (simp add: static_app_def)
    with that assms(2) show ?thesis by (intro app_is_state) (auto simp: app_is_def)
  qed
  with assms show ?thesis
    unfolding parsed_subcommand_def by (intro calm_get_app calm_when calm_upd_app)
qed

lemma found_prepared:
  assumes "tcp_inv prog w" and "a < 4" and "found w a s u = Some c"
  shows "c \<in> set (a_subcommands (prepared_apps prog ! a))"
proof -
  have "static_app (w_apps w ! a) = static_app (prepared_apps prog ! a)" using tcp_app [OF assms(1,2)] by (simp add: app_is_def)
  then have "a_subcommands (static_app (w_apps w ! a)) = a_subcommands (static_app (prepared_apps prog ! a))" by simp
  then have "a_subcommands (w_apps w ! a) = a_subcommands (prepared_apps prog ! a)" by (simp add: static_app_def)
  with assms(3) show ?thesis by (auto simp: found_def find_Some_iff)
qed

text \<open>A dotted name is replaced by the name of the subcommand and what follows the dot.\<close>

lemma find_first_of_bounds: "find_first_of s cs = Some i \<Longrightarrow> i < length s"
  by (auto simp: find_first_of_def dest: find_pos_less)

lemma subcommand_parsed:
  assumes w: "tcp_inv prog w" and a: "a < 4" and n: "0 < n" and c: "c \<in> set (a_subcommands (prepared_apps prog ! a))"
    and less: "a < c" "c < 4" and parent: "\<And>app. app_is prog c app \<Longrightarrow> a_parent app = Some a"
    and calls: "good prog k calls" and k: "3 * weight (butlast (w_args w)) + 14 \<le> k"
    and smaller: "weight (butlast (w_args w)) < u"
  shows "wp handled prog (\<lambda>r w'. tcp_inv prog w' \<and> work w' < u)
    (m_seq args_pop
      (m_seq (parsed_subcommand a c)
        (m_bind (calls (Call_parse c)) (\<lambda>_.
          m_bind (get_app c) (\<lambda>capp. m_bind args_size (\<lambda>j.
            m_seq (climb n a c (a_parent capp) j) (m_return True))))))) w"
proof -
  have "wp handled prog (\<lambda>r w'. tcp_inv prog w' \<and> work w' < u)
      (m_bind (calls (Call_parse c)) (\<lambda>_. m_bind (get_app c) (\<lambda>capp. m_bind args_size (\<lambda>j.
          m_seq (climb n a c (a_parent capp) j) (m_return True))))) w1"
    if w1: "tcp_inv prog w1" and args: "w_args w1 = butlast (w_args w)" for w1
    unfolding wp_bind
  proof (rule good_call [OF calls w1], goal_cases)
    case (4 r w')
    then have w': "tcp_inv prog w'" and r: "call_result (Call_parse c) w1 r w'" by simp_all
    have up: "a_parent (w_apps w' ! c) = Some a" using parent tcp_app [OF w' less(2)] by simp
    obtain m where "n = Suc m" using n by (cases n) auto
    with w' r up smaller args
    show ?case
      by simp
  qed (use less args k in \<open>auto simp: call_fuel_def\<close>)
  then show ?thesis
    by (subst wp_seq, simp only: wp_args, subst wp_seq)
      (rule wp_calm [OF calm_parsed_subcommand [OF a c less(2)]], use w in simp_all)
qed

lemma parse_subcommand_takes:
  assumes w: "tcp_inv prog w" and a: "a < 4" and args: "w_args w \<noteq> []" and n: "0 < n"
    and calls: "good prog k calls" and k: "3 * work w + 11 \<le> k"
  shows "wp handled prog (takes prog a w) (parse_subcommand calls n a) w"
  unfolding parse_subcommand_def
proof (subst wp_bind, rule wp_calm [OF calm_count_remaining [OF a] w], goal_cases)
  case (1 required_left w1)
  then have w1: "tcp_inv prog w1" and same: "w_args w1 = w_args w" and "required_left = 0" by simp_all
  define arg where "arg = last (w_args w1)"
  have parsed: "wp handled prog (takes prog a w)
      (m_seq args_pop
        (m_seq (parsed_subcommand a c)
          (m_bind (calls (Call_parse c)) (\<lambda>_.
            m_bind (get_app c) (\<lambda>capp. m_bind args_size (\<lambda>j.
              m_seq (climb n a c (a_parent capp) j) (m_return True))))))) w2"
    if w2: "tcp_inv prog w2" and c: "found w1 a s u = Some c" and less: "weight (butlast (w_args w2)) < work w" for w2 c s u
  proof (rule wp_mono, rule subcommand_parsed [OF w2 a n found_prepared [OF w1 a c] _ _ _ calls _ less])
    show "a < c" "c < 4" using found_sub [OF w1 a c] by auto
    show "a_parent app = Some a" if "app_is prog c app" for app
    proof -
      have "static_app app = static_app (w_apps w1 ! c)"
        using that tcp_app [OF w1 \<open>c < 4\<close>] by (simp add: app_is_def)
      then have "a_parent (static_app app) = a_parent (static_app (w_apps w1 ! c))" by simp
      then show ?thesis using found_sub(4) [OF w1 a c] by (simp add: static_app_def)
    qed
  qed (use k less in \<open>auto intro: takes_less\<close>)
  show ?case
  proof (cases "found w1 a arg True")
    case (Some c)
    have "weight (butlast (w_args w1)) < work w" using args by (simp add: same weight_last)
    from parsed [OF w1 Some this] show ?thesis
      using \<open>required_left = 0\<close> by (simp add: arg_def [symmetric] wp_find_subcommand [OF w1 a n] Some)
  next
    case none: None
    have stay: "wp handled prog (takes prog a w) (m_bind (get_app a) (\<lambda>app.
        if a_parent app = None then m_throw (HorribleError msg) else m_return False)) w1" for msg
    proof -
      have "0 < a" if "a_parent (w_apps w1 ! a) = Some p" for p
        using that app_0 [OF tcp_app [OF w1]] by (cases "a = 0") auto
      then show ?thesis using w1 same by (auto simp: takes_def handled_errors)
    qed
    have dotted: "wp handled prog (takes prog a w) (m_bind (dotted_subcommand n a arg) (\<lambda>com.
        case com of Some c \<Rightarrow> m_seq args_pop
          (m_seq (parsed_subcommand a c)
            (m_bind (calls (Call_parse c)) (\<lambda>_.
              m_bind (get_app c) (\<lambda>capp. m_bind args_size (\<lambda>j.
                m_seq (climb n a c (a_parent capp) j) (m_return True))))))
        | None \<Rightarrow> m_bind (get_app a) (\<lambda>app.
            if a_parent app = None then m_throw (HorribleError msg) else m_return False))) w1" for msg
    proof (cases "find_first_of arg ''.''")
      case None
      then show ?thesis using stay by (simp add: dotted_subcommand_def)
    next
      case (Some dotloc)
      show ?thesis
      proof (cases "found w1 a (take dotloc arg) True")
        case None
        then show ?thesis using stay Some by (simp add: dotted_subcommand_def wp_find_subcommand [OF w1 a n])
      next
        case c: (Some c)
        have name: "a_name (w_apps w1 ! c) = take dotloc arg" "a_name (w_apps w1 ! c) \<noteq> []"
          using found_sub [OF w1 a c] sub_names(1) [OF tcp_app [OF w1 found_sub(2) [OF w1 a c]]] by auto
        have "dotloc < length arg" using Some by (rule find_first_of_bounds)
        then have less: "weight (butlast (butlast (w_args w1) @ [drop (dotloc + 1) arg] @ [a_name (w_apps w1 ! c)])) < work w"
          using args by (simp add: same weight_last arg_def butlast_append)
        show ?thesis
          using parsed [OF _ c, of "w1\<lparr>w_args := butlast (w_args w1) @ [drop (dotloc + 1) arg] @ [a_name (w_apps w1 ! c)]\<rparr>"] less w1
          by (simp add: dotted_subcommand_def Some c wp_find_subcommand [OF w1 a n] get_display_name_def name(2))
      qed
    qed
    from dotted show ?thesis
      using \<open>required_left = 0\<close> none by (simp add: arg_def [symmetric] wp_find_subcommand [OF w1 a n])
  qed
qed

section \<open>Options\<close>

lemma split_arg_lengths:
  "split_arg t current = Inr (name, value, rest) \<Longrightarrow> length name + 1 \<le> length current \<and> length rest + 2 \<le> length current"
  by (auto simp: split_arg_def split_long_def split_short_def split_windows_style_def split: Classifier.splits option.splits if_splits)

lemma split_arg_handled: "split_arg t current = Inl e \<Longrightarrow> handled e"
  by (auto simp: split_arg_def handled_errors split: Classifier.splits option.splits)

lemma rewrite_dotted_weight:
  assumes "rewrite_dotted v dotloc name = (t, pushed)" and "1 \<le> dotloc" and "dotloc + 3 \<le> length v"
  shows "pushed \<noteq> []" and "weight pushed \<le> length v"
  using assms by (auto simp: rewrite_dotted_def Let_def split: if_splits)

lemma wp_push_all: "wp H prog Q (m_each args_push ss) w \<longleftrightarrow> Q () (w\<lparr>w_args := w_args w @ ss\<rparr>)"
  by (induction ss arbitrary: w) (simp_all add: wp_args)

lemma calm_dotted_done:
  assumes a: "a < 4" and n: "9 \<le> n" and s: "s \<in> set (a_subcommands (prepared_apps prog ! a))" "s < 4"
  shows "calm handled prog anything (dotted_done n a s)"
proof -
  have no_callback: "a_parse_complete_callback app = None" if "app_is prog s app" for app
    using app_common [OF that s(2)] by blast
  have completed: "calm handled prog anything (m_bind (get_app s) (\<lambda>sapp. m_when (a_parse_complete_callback sapp \<noteq> None) (complete_subcommand n s)))"
    by (rule calm_get_app [OF s(2)]) (simp add: no_callback m_when_def calm_basic)
  show ?thesis
    unfolding dotted_done_def args_size_def
    by (rule completed calm_parsed_subcommand [OF a s] calm_increment_parsed [OF a] calm_trigger_pre_parse [OF a]
        calm_basic calm_seq calm_then | use n in simp)+
qed

lemma put_back_split:
  "w_args w' = butlast (w_args w) @ extra @ [last (w_args w)] \<Longrightarrow> weight extra \<le> length (last (w_args w)) \<Longrightarrow> put_back w w'"
  unfolding put_back_def by blast

definition dotted :: "naming \<Rightarrow> main_vars cli \<Rightarrow> bool \<times> Classifier \<Rightarrow> main_vars cli \<Rightarrow> bool" where
  "dotted prog w = (\<lambda>(taken, t) w'. tcp_inv prog w' \<and> (if taken then work w' < work w else put_back w w'))"

lemma dot_notation_result:
  assumes w: "tcp_inv prog w" and a: "a < 4" and args: "w_args w \<noteq> []" and n: "9 \<le> n"
    and calls: "good prog k calls" and k: "3 * work w + 11 \<le> k"
    and name: "length name + 1 \<le> length (last (w_args w))"
  shows "wp handled prog (dotted prog w) (dot_notation calls n a t name) w"
proof (cases "find_from (\<lambda>c. c = CHR ''.'') name 1")
  case None
  have "put_back w w" using args by (intro put_back_split [of _ _ "[]"]) simp_all
  with None w show ?thesis by (simp add: dot_notation_def dotted_def)
next
  case (Some dotloc)
  have same: "put_back w w" using args by (intro put_back_split [of _ _ "[]"]) simp_all
  show ?thesis
  proof (cases "dotloc < length name - 1 \<and> found w a (take dotloc name) False \<noteq> None")
    case False
    with Some w same n show ?thesis by (auto simp: dot_notation_def dotted_def wp_find_subcommand [OF w a])
  next
    case True
    then obtain s where s: "found w a (take dotloc name) False = Some s" by blast
    note sub = found_sub [OF w a s]
    define v where "v = last (w_args w)"
    obtain t' pushed where rewritten: "rewrite_dotted v dotloc (drop (dotloc + 1) name) = (t', pushed)" by fastforce
    have bounds: "1 \<le> dotloc" "dotloc + 3 \<le> length v"
      using find_from_ge [OF Some] True name by (auto simp: v_def)
    note weights = rewrite_dotted_weight [OF rewritten bounds]
    define w2 where "w2 = w\<lparr>w_args := butlast (w_args w) @ pushed\<rparr>"
    have w2: "tcp_inv prog w2" "w_args w2 \<noteq> []" "work w2 < work w"
      using w weights args by (simp_all add: w2_def weight_last v_def)
    have restored: "put_back w (w3\<lparr>w_args := butlast (w_args w3) @ [v]\<rparr>)" if "put_back w2 w3" for w3
    proof -
      from that obtain extra where extra: "w_args w3 = butlast (w_args w2) @ extra @ [last (w_args w2)]"
        "weight extra \<le> length (last (w_args w2))"
        unfolding put_back_def by blast
      have "weight pushed = weight (butlast pushed) + Suc (length (last pushed))" using weights(1) by (rule weight_last)
      moreover have "last (w_args w2) = last pushed" "butlast (w_args w2) = butlast (w_args w) @ butlast pushed"
        using weights(1) by (simp_all add: w2_def butlast_append)
      ultimately show ?thesis
        using extra weights(2)
        by (intro put_back_split [of _ _ "butlast pushed @ extra"]) (simp_all add: v_def butlast_append)
    qed
    have same2: "put_back w2 w2" using w2(2) by (intro put_back_split [of _ _ "[]"]) simp_all
    have call: "wp handled prog (\<lambda>r w3. tcp_inv prog w3 \<and> (if r then work w3 < work w2 else put_back w2 w3))
        (calls (Call_arg s t' True)) w2"
      by (rule good_call [OF calls w2(1)]) (use sub w2 k in \<open>auto simp: call_fuel_def\<close>)
    have rest: "wp handled prog (dotted prog w)
        (if val then m_seq (dotted_done n a s) (m_return (True, t'))
         else m_seq args_pop (m_seq (args_push v) (m_return (False, t')))) w3"
      if "tcp_inv prog w3" "if val then work w3 < work w2 else put_back w2 w3" for val w3
    proof (cases val)
      case True
      with that w2(3) show ?thesis
        by (auto intro!: wp_calm [OF calm_dotted_done [OF a n found_prepared [OF w a s] sub(2)] that(1)] simp: wp_return dotted_def)
    next
      case False
      with that restored show ?thesis by (simp add: dotted_def)
    qed
    have asked: "wp handled prog (\<lambda>r w3. tcp_inv prog w3 \<and> (if r then work w3 < work w2 else put_back w2 w3))
        (if ask then calls (Call_arg s t' True) else m_return False) w2" for ask
      using call same2 w2(1) by simp
    show ?thesis
      using True Some n s
      by (simp add: dot_notation_def wp_find_subcommand [OF w a] v_def [symmetric] rewritten [simplified] wp_push_all w2_def [symmetric]
          split del: if_split)
        (rule wp_mono [OF asked], rule rest [unfolded v_def]; simp)
  qed
qed

lemma calm_find_arg: "a < 4 \<Longrightarrow> calm H prog (\<lambda>r. \<forall>p. r = Some p \<longrightarrow> p < 6) (find_arg a named)"
  unfolding find_arg_def
  by (rule calm_own_options, assumption, rule calm_basic) (auto simp: find_Some_iff, metis nth_mem)

lemma calm_non_standard: "a < 4 \<Longrightarrow> calm H prog (\<lambda>r. r = None) (non_standard_arg a t s)"
proof -
  assume a: "a < 4"
  have "\<not> a_allow_non_standard_options app" if "app_is prog a app" for app
    using app_common [OF that a] by blast
  with a show ?thesis
    unfolding non_standard_arg_def by (intro calm_get_app) (auto intro: calm_basic)
qed

lemma extra_option_takes:
  assumes w: "tcp_inv prog w" and a: "a < 4"
  shows "wp handled prog (\<lambda>r w'. tcp_inv prog w' \<and> r \<and> work w' = weight (butlast (w_args w))) (extra_option n a t s) w"
  unfolding extra_option_def
proof (simp only: wp_seq wp_args, rule wp_calm [OF calm_move_to_missing [OF a]], goal_cases)
  case (2 x w')
  have "a_prefix_command (w_apps w' ! a) = PM_Off" "a_allow_extras (w_apps w' ! a) = EM_Error"
    using app_common [OF tcp_app [OF 2(1) a] a] by auto
  with 2 show ?case by simp
qed (use w in simp)

definition arg_result :: "naming \<Rightarrow> bool \<Rightarrow> main_vars cli \<Rightarrow> bool \<Rightarrow> main_vars cli \<Rightarrow> bool" where
  "arg_result prog l w r w' \<longleftrightarrow> tcp_inv prog w' \<and> (if l \<and> \<not> r then put_back w w' else work w' < work w)"

lemma arg_elsewhere_result:
  assumes w: "tcp_inv prog w" and a: "a < 4" and args: "w_args w \<noteq> []" and n: "9 \<le> n"
    and calls: "good prog k calls" and k: "3 * work w + 11 \<le> k"
    and name: "length name + 1 \<le> length (last (w_args w))"
  shows "wp handled prog (arg_result prog l w)
    (arg_elsewhere calls n a t l name current) w"
proof -
  note app = tcp_app [OF w a]
  have named: "\<not> (a_parent (w_apps w ! a) \<noteq> None \<and> a_name (w_apps w ! a) = [])"
    using a app sub_names(1) [OF app] app_0 [of prog "w_apps w ! a"] by (cases "a = 0") auto
  have stay: "\<not> a_fallthrough (w_apps w ! a)" using app_common [OF app a] by blast
  have extras: "wp handled prog (arg_result prog l w)
      (extra_option n a t' current) w'" if "tcp_inv prog w'" "put_back w w'" for t' w'
  proof -
    have "weight (butlast (w_args w')) < work w"
      using that(2) args by (auto simp: put_back_def weight_last butlast_append)
    then show ?thesis by (intro wp_mono [OF extra_option_takes [OF that(1) a]]) (auto simp: arg_result_def)
  qed
  show ?thesis
    unfolding arg_elsewhere_def
    by (simp only: wp_bind wp_get_app named stay if_False simp_thms,
        rule wp_mono [OF dot_notation_result [OF w a args n calls k name]])
      (use extras in \<open>auto simp: dotted_def arg_result_def wp_return split: if_splits prod.splits\<close>)
qed

lemma parse_arg_result:
  assumes w: "tcp_inv prog w" and a: "a < 4" and args: "w_args w \<noteq> []" and n: "9 \<le> n"
    and calls: "good prog k calls" and k: "3 * work w + 11 \<le> k"
  shows "wp handled prog (arg_result prog l w)
    (parse_arg calls n a t l) w"
proof (cases "split_arg t (last (w_args w))")
  case (Inl e)
  then show ?thesis
    using w split_arg_handled by (auto simp: parse_arg_def wp_def comp_run m_bind_def args_back_def)
next
  case (Inr parts)
  then obtain name val rest where parts: "split_arg t (last (w_args w)) = Inr (name, val, rest)" by (cases parts) auto
  note lengths = split_arg_lengths [OF parts]
  have same: "arg_result prog l w1 = arg_result prog l w" if "w_args w1 = w_args w" for w1
    using that by (intro ext) (simp add: arg_result_def put_back_def)
  have takes: "wp handled prog (arg_result prog l w) (arg_found n a p name val rest) w1"
    if "tcp_inv prog w1" "w_args w1 = w_args w" "p < 6" for w1 p
    by (rule wp_mono [OF arg_found_takes [OF that(1) a that(3) n]])
      (use that args lengths in \<open>auto simp: arg_result_def\<close>)
  have elsewhere: "wp handled prog (arg_result prog l w) (arg_elsewhere calls n a t l name (last (w_args w))) w1"
    if "tcp_inv prog w1" "w_args w1 = w_args w" for w1
    using arg_elsewhere_result [OF that(1) a _ n calls, of name l t "last (w_args w)"] that args k lengths
    by (simp add: same [OF that(2)])
  show ?thesis
    unfolding parse_arg_def wp_bind wp_args
  proof (simp add: wp_lift parts, rule wp_calm [OF calm_find_arg [OF a] w], goal_cases)
    case (1 op w1)
    show ?case
    proof (cases op)
      case None
      show ?thesis
        unfolding None option.case wp_bind
      proof (rule wp_calm [OF calm_groups_take [OF a] 1(1)], simp, rule wp_calm [OF calm_non_standard [OF a]], goal_cases)
        case (2 took w2 found w3)
        then show ?case using elsewhere 1(2) by simp
      qed simp
    next
      case (Some p)
      then show ?thesis using takes 1 by simp
    qed
  qed
qed

section \<open>All arguments\<close>

text \<open>One argument: what it returns, and the flag for positionals only.\<close>

lemma positional_mark_takes:
  assumes w: "tcp_inv prog w" and a: "a < 4" and args: "w_args w \<noteq> []"
  shows "wp handled prog (\<lambda>r w'. tcp_inv prog w' \<and> work w' < work w) (positional_mark a) w"
proof -
  have off: "a_prefix_command app = PM_Off" if "app_is prog a app" for app
    using app_common [OF that a] by blast
  have "grows prog 0 anything (m_bind (get_app a) (\<lambda>app. m_bind (has_remaining_positionals a) (\<lambda>positionals_left.
        if a_prefix_command app \<noteq> PM_Off then
          m_seq (add_missing a CL_POSITIONAL_MARK ''--'') (m_seq (drain_args a) (m_return True))
        else if \<not> positionals_left \<and> a_parent app \<noteq> None then m_return False
        else m_seq (move_to_missing a CL_POSITIONAL_MARK ''--'') (m_return True))))"
  proof (rule grows_get_app [OF a], goal_cases)
    case (1 app)
    show ?case
      by (rule grows_bind [OF grows_calm [OF calm_has_remaining [OF a]]])
        (auto simp: off [OF 1] intro!: grows_return grows_seq grows_calm [OF calm_move_to_missing [OF a]])
  qed
  moreover have "tcp_inv prog (w\<lparr>w_args := butlast (w_args w)\<rparr>)" using w by simp
  ultimately show ?thesis
    unfolding positional_mark_def
    by (subst wp_seq, simp only: wp_args, rule grows_wp) (use args in \<open>simp add: weight_last\<close>)
qed

lemma parse_single_takes:
  assumes w: "tcp_inv prog w" and a: "a < 4" and args: "w_args w \<noteq> []" and n: "9 \<le> n"
    and calls: "good prog k calls" and k: "3 * work w + 12 \<le> k"
  shows "wp handled prog (\<lambda>(r, _) w'. takes prog a w r w') (parse_single calls n a po) w"
proof -
  have called: "wp handled prog (takes prog a w) (calls c) w1"
    if "tcp_inv prog w1" "w_args w1 = w_args w" "c = Call_subcommand a \<or> c = Call_positional a False \<or> c = Call_arg a t False"
    for w1 c t
    by (rule good_call [OF calls that(1)]) (use that a args k in \<open>auto simp: call_fuel_def takes_def\<close>)
  have classified: "calm handled prog anything (if po then m_return CL_NONE else recognize n a s True)" for s
    by (rule calm_if, rule calm_basic, simp, rule calm_recognize) (use a n in auto)
  show ?thesis
    unfolding parse_single_def Let_def wp_bind wp_args
  proof (rule wp_calm [OF classified w], goal_cases)
    case (1 cl w1)
    have mark: "wp handled prog (\<lambda>r w'. takes prog a w r w') (positional_mark a) w1"
      by (rule wp_mono [OF positional_mark_takes [OF 1(1) a]]) (use args 1 in \<open>auto intro: takes_less\<close>)
    have pop: "takes prog a w False (w1\<lparr>w_args := butlast (w_args w1)\<rparr>)"
      by (rule takes_less) (use args 1 in \<open>simp_all add: weight_last\<close>)
    note calls' = called [OF 1(1,2)]
    show ?case
      by (cases cl)
        (use mark pop calls' [of "Call_subcommand a"] calls' [of "Call_positional a False"] calls' [of "Call_arg a cl False" cl]
          in \<open>simp_all add: wp_return wp_bind_get_app\<close>)
  qed
qed

lemma parse_loop_shrinks:
  assumes w: "tcp_inv prog w" and a: "a \<noteq> 0" "a < 4" and n: "9 \<le> n"
    and calls: "good prog k calls" and k: "3 * work w + 12 \<le> k"
  shows "wp handled prog (\<lambda>r w'. tcp_inv prog w' \<and> work w' \<le> work w) (parse_loop calls n a po) w"
proof (cases "w_args w = []")
  case True
  with w show ?thesis by (simp add: parse_loop_def)
next
  case False
  have again: "wp handled prog (\<lambda>r w'. tcp_inv prog w' \<and> work w' \<le> work w) (if r then calls (Call_loop a po') else m_return True) w1"
    if "takes prog a w r w1" for r po' w1
    using that a k by (auto simp: takes_def call_fuel_def intro!: good_call [OF calls])
  from False show ?thesis
    unfolding parse_loop_def
  proof (simp, rule_tac wp_mono [OF parse_single_takes [OF w a(2) False n calls k]], goal_cases)
    case (1 x w1)
    then show ?case using again [of "fst x" w1 "snd x"] by (simp add: case_prod_beta)
  qed
qed

lemma app_parse_shrinks:
  assumes w: "tcp_inv prog w" and a: "a \<noteq> 0" "a < 4" and n: "9 \<le> n"
    and calls: "good prog k calls" and k: "3 * work w + 13 \<le> k"
  shows "wp handled prog (\<lambda>r w'. tcp_inv prog w' \<and> work w' \<le> work w) (app_parse calls n a) w"
proof -
  have sub: "a_parent app \<noteq> None" "a_parse_complete_callback app = None" if "app_is prog a app" for app
    using that a app_1 [of prog app] app_2 [of prog app] app_3 [of prog app] app_common [OF that a(2)]
    unfolding less_four by auto
  note sub' = sub [OF tcp_app [OF _ a(2)]]
  have parsed: "wp handled prog (\<lambda>r w'. tcp_inv prog w' \<and> work w' \<le> work w)
      (m_bind (calls (Call_loop a False)) (\<lambda>_. m_bind (get_app a) (\<lambda>app.
        if a_parent app = None then
          m_seq (app_process n a) (m_seq (process_extras n a) (m_bind (remaining_for_passthrough n False a) (\<lambda>args.
            m_seq (m_modify (\<lambda>w. w\<lparr>w_args := args\<rparr>)) (m_return True))))
        else m_seq (m_when (a_parse_complete_callback app \<noteq> None) (complete_subcommand n a)) (m_return True)))) w1"
    if "tcp_inv prog w1" "w_args w1 = w_args w" for w1
    unfolding wp_bind
    by (rule good_call [OF calls that(1)])
      (use that a k in \<open>simp_all add: call_fuel_def m_when_def sub'\<close>)
  show ?thesis
    unfolding app_parse_def
    by (subst wp_seq, rule wp_calm [OF calm_increment_parsed [OF a(2)] w], use n in simp, subst wp_bind, simp only: wp_args,
        subst wp_seq, rule wp_calm [OF calm_trigger_pre_parse [OF a(2)]], assumption, rule parsed) simp_all
qed

text \<open>The calls tied together keep the contract, with fuel for three calls for each character.\<close>

lemma run_call_good: "good prog n (run_call n)"
proof (induction n)
  case 0
  show ?case by (simp add: good_def call_fuel_def)
next
  case (Suc n)
  have "wp handled prog (\<lambda>r w'. tcp_inv prog w' \<and> call_result c w r w') (run_call (Suc n) c) w"
    if w: "tcp_inv prog w" and a: "call_app c < 4" and c: "call_possible c w" and fuel: "call_fuel c w \<le> Suc n" for c w
  proof -
    have n: "9 \<le> n" "0 < n" and k: "3 * work w + 11 \<le> n" using fuel by (simp_all add: call_fuel_def)
    show ?thesis
    proof (cases c)
      case (Call_parse b)
      then show ?thesis
        using app_parse_shrinks [OF w _ _ n(1) Suc] a c fuel by (simp add: call_fuel_def)
    next
      case (Call_loop b po)
      then show ?thesis
        using parse_loop_shrinks [OF w _ _ n(1) Suc] a c fuel by (simp add: call_fuel_def)
    next
      case (Call_subcommand b)
      then show ?thesis
        using parse_subcommand_takes [OF w _ _ n(2) Suc k] a c by (simp add: takes_def [abs_def])
    next
      case (Call_positional b h)
      then show ?thesis
        using parse_positional_takes [OF w _ _ n(2) Suc k] a c by (simp add: takes_def [abs_def])
    next
      case (Call_arg b t l)
      then show ?thesis
        using parse_arg_result [OF w _ _ n(1) Suc k] a c by (simp add: arg_result_def [abs_def])
    qed
  qed
  then show ?case by (simp add: good_def)
qed

end
