(* ===== verification/Tcpchat_Handled.thy ===== *)
theory Tcpchat_Handled
  imports Tcpchat_Total
begin

text \<open>
  The command line as a whole: the stores before the first argument is read are those \<^verbatim>\<open>main\<close>
  built, and from there every vector of arguments is parsed to an end, whatever it holds.
\<close>

lemma top_loop_ends:
  "tcp_inv prog w \<Longrightarrow> 3 * work w + 13 \<le> n \<Longrightarrow> wp handled prog (\<lambda>_ w'. tcp_inv prog w') (top_loop n 0 po) w"
proof (induction n arbitrary: w po)
  case (Suc n)
  show ?case
  proof (cases "w_args w = []")
    case True
    with Suc.prems show ?thesis by simp
  next
    case False
    have single: "wp handled prog (\<lambda>(r, _) w'. takes prog 0 w r w') (parse_single (run_call n) n 0 po) w"
      by (rule parse_single_takes [OF Suc.prems(1) _ False _ run_call_good]) (use Suc.prems(2) in simp_all)
    from False show ?thesis
    proof (simp, rule_tac wp_mono [OF single], goal_cases)
      case (1 x w')
      then have "tcp_inv prog w'" "work w' < work w" by (auto simp: takes_def)
      with Suc.prems show ?case by (auto simp: case_prod_beta intro: Suc.IH)
    qed
  qed
qed simp

definition ready_world :: "environment \<Rightarrow> string list \<Rightarrow> main_vars cli" where
  "ready_world env argv = \<lparr>w_apps = prepared_apps (Naming True (hd argv)), w_opts = main_options, w_vars = main_vars_init, w_env = env,
     w_args = rev (tl argv)\<rparr>"

lemma ready_inv: "tcp_inv (Naming True (hd argv)) (ready_world env argv)"
proof -
  have "app_is (Naming True (hd argv)) a (prepared_apps (Naming True (hd argv)) ! a)" if "a < 4" for a
    using that unfolding less_four app_is_def by (auto simp: app_definitions)
  then show ?thesis by (simp add: tcp_inv_def ready_world_def opt_is_def prepared_apps_def main_options_def)
qed

lemma main_options_length: "length main_options = 6"
  by (simp add: main_options_def)

lemma prepared:
  assumes "4 \<le> n"
  shows "m_seq (upd_app 0 (take_program_name (hd argv)))
      (m_seq (m_modify (\<lambda>w. w\<lparr>w_args := rev (tl argv)\<rparr>)) (prepare_parse n 0)) (main_world env) =
    (Inr (), ready_world env argv)"
proof -
  define m where "m = n - 4"
  have n: "n = Suc (Suc (Suc (Suc m)))" using assms by (simp add: m_def)
  have positional: "\<not> unlimited_positional opt" if "opt \<in> set main_options" for opt
    using that by (auto simp: unlimited_positional_def nonpositional_def opt_definitions)
  then have limits: "\<not> unlimited_positional (main_options ! p)" if "p < 6" for p
    using that by (metis nth_mem main_options_length)
  have world: "main_world env = \<lparr>w_apps = main_apps, w_opts = main_options, w_vars = main_vars_init, w_env = env, w_args = []\<rparr>"
    by (simp add: main_world_def main_world_eq)
  show ?thesis
    unfolding n world prepare_parse_def
    by (simp add: comp_simps get_app_def upd_app_def subcommands_def own_options_def take_program_name_def main_apps_def
        limits app_definitions ready_world_def)
qed

lemma parse_handled:
  assumes "3 * weight (tl argv) + 13 \<le> n"
  shows "wp handled (Naming True (hd argv)) (\<lambda>_ w'. tcp_inv (Naming True (hd argv)) w') (parse_char_t n 0 argv) (main_world env)"
proof -
  have n: "13 \<le> n" using assms by simp
  have weight: "work (ready_world env argv) = weight (tl argv)"
    by (simp add: ready_world_def weight_def rev_map [symmetric])
  have last: "wp handled (Naming True (hd argv)) (\<lambda>_. wp handled (Naming True (hd argv)) (\<lambda>_. tcp_inv (Naming True (hd argv))) (run_callback n 0 False False))
      (parse_top n 0) (ready_world env argv)"
    unfolding parse_top_def
  proof (subst wp_seq, rule wp_calm [OF calm_increment_parsed ready_inv], simp, use n in simp, subst wp_bind, simp only: wp_args,
      subst wp_seq, rule wp_calm [OF calm_trigger_pre_parse], simp, assumption, goal_cases)
    case (1 x w1 y w2)
    have "wp handled (Naming True (hd argv)) (\<lambda>_ w'. tcp_inv (Naming True (hd argv)) w') (top_loop n 0 False) w2"
      by (rule top_loop_ends [OF 1(4)]) (use 1 weight assms in simp)
    moreover have "wp handled (Naming True (hd argv)) (\<lambda>_. wp handled (Naming True (hd argv)) (\<lambda>_. tcp_inv (Naming True (hd argv))) (run_callback n 0 False False))
        (m_seq (app_process n 0) (process_extras n 0)) w3" if "tcp_inv (Naming True (hd argv)) w3" for w3
    proof -
      have "safe (Naming True (hd argv)) anything (m_bind (m_seq (app_process n 0) (process_extras n 0)) (\<lambda>_. run_callback n 0 False False))"
        by (intro safe_bind [where P = anything] safe_seq safe_app_process safe_calm [OF calm_process_extras] safe_calm [OF calm_run_callback])
          (use n in simp_all)
      with that show ?thesis by (simp add: safe_def)
    qed
    ultimately show ?case by (subst wp_seq) (rule wp_mono)
  qed
  have run: "parse_char_t n 0 argv (main_world env) =
      m_seq (parse_top n 0) (run_callback n 0 False False) (ready_world env argv)"
    using prepared [of n argv env] n
    by (auto simp: parse_char_t_def parse_args_def comp_simps split: prod.splits sum.splits)
  from last have "wp handled (Naming True (hd argv)) (\<lambda>_ w'. tcp_inv (Naming True (hd argv)) w')
      (m_seq (parse_top n 0) (run_callback n 0 False False)) (ready_world env argv)"
    by (simp only: wp_seq)
  then show ?thesis by (simp only: wp_def run)
qed

lemma main_parse_handled:
  assumes "3 * weight (tl argv) + 13 \<le> n"
  shows "\<exists>r. main_parse env n argv = Inr r"
proof -
  obtain res w where run: "parse_char_t n 0 argv (main_world env) = (res, w)" by fastforce
  note parsed = parse_handled [OF assms, of env, unfolded wp_def run]
  show ?thesis
  proof (cases res)
    case (Inl e)
    with parsed obtain err where e: "e = Cli err" "is_parse_error err" and w: "tcp_inv (Naming True (hd argv)) w"
      by (auto simp: handled_def)
    have "calm (\<lambda>_. False) (Naming True (hd argv)) anything (app_exit n 0 err)" by (rule calm_app_exit) (use assms in simp)
    from this w have "wp (\<lambda>_. False) (Naming True (hd argv)) (\<lambda>_ _. True) (app_exit n 0 err) w" by (rule wp_calm) simp
    with e Inl run show ?thesis
      by (auto simp: main_parse_def m_catch_def comp_simps wp_def split: prod.splits sum.splits)
  next
    case (Inr u)
    with run show ?thesis by (simp add: main_parse_def m_catch_def comp_simps)
  qed
qed

text \<open>The help text that \<^verbatim>\<open>main\<close> prints when there are no arguments.\<close>

lemma main_help_text: "\<exists>text. main_help env = Inr text"
proof -
  have "app_is (Naming False []) a (main_apps ! a)" if "a < 4" for a
    using that unfolding less_four app_is_def by (auto simp: main_apps_def app_definitions)
  then have w: "tcp_inv (Naming False []) (main_world env)"
    by (simp add: main_world_def main_world_eq tcp_inv_def opt_is_def main_apps_def main_options_def)
  have "calm (\<lambda>_. False) (Naming False []) anything (app_help_text 5 0 [] Format_Normal)"
    unfolding app_help_text_def by (rule calm_help_normal) simp_all
  from this w have "wp (\<lambda>_. False) (Naming False []) (\<lambda>_ _. True) (app_help_text 5 0 [] Format_Normal) (main_world env)"
    by (rule wp_calm) simp
  then show ?thesis by (auto simp: main_help_def wp_def split: prod.splits sum.splits)
qed

end
