(* ===== verification/Tcpchat_Port.thy ===== *)
theory Tcpchat_Port
  imports Tcpchat_Handled
begin

text \<open>
  The command line \<^verbatim>\<open>tcpchat run server -p N\<close> followed step by step through the parser: the two
  subcommands are entered, the option takes its argument, the callbacks of the options run in
  the order of their priorities, and the port is stored or the conversion refused. Each lemma
  computes one handler of \<open>Cli_Parse\<close> or \<open>Cli_Process\<close> on a world whose four applications are
  written out (\<open>tree_world\<close>), and \<open>server_line_result\<close> puts them together.
\<close>

section \<open>The port option taken and recognised\<close>

lemmas world_simps = comp_simps get_app_def get_opt_def upd_app_def upd_opt_def args_back_def args_size_def
  args_pop_def args_push_def

definition tree_world :: "environment \<Rightarrow> main_vars \<Rightarrow> main_vars app \<Rightarrow> main_vars app \<Rightarrow> main_vars app \<Rightarrow> main_vars app \<Rightarrow> main_vars opt list \<Rightarrow> string list \<Rightarrow> main_vars cli" where
  "tree_world env vars r run sv cl opts args = \<lparr>w_apps = [r, run, sv, cl], w_opts = opts, w_vars = vars, w_env = env, w_args = args\<rparr>"

lemma add_port: "take 2 v \<noteq> ''[['' \<Longrightarrow> opt_is 4 opt \<Longrightarrow> add_result_to opt v [] = (1, [v])"
proof -
  assume v: "take 2 v \<noteq> ''[[''" and opt: "opt_is 4 opt"
  have "\<not> (4 \<le> length v \<and> v ! 0 = CHR ''['' \<and> v ! Suc 0 = CHR ''['')"
    using v by (auto simp: numeral_eq_Suc neq_Nil_conv Suc_le_length_iff)
  then show ?thesis using opt_common [OF opt] opt_4 [OF opt] by (subst add_result_to.simps) (auto simp: Let_def)
qed

lemma port_taken:
  assumes "opt_is 4 port" "o_results port = []" "opt_is 2 h2" "take 2 v \<noteq> ''[[''" "app_is prog 2 sv"
  shows "parse_arg calls (Suc n) 2 CL_SHORT False (tree_world env vars r run sv cl [h0, h1, h2, h3, port, host] [v, ''-p'']) =
    (Inr True, tree_world env vars r run (sv\<lparr>a_parse_order := a_parse_order sv @ [4]\<rparr>) cl [h0, h1, h2, h3, port\<lparr>o_results := [v], o_state := Opt_parsing\<rparr>, host] [])"
  using assms opt_common [OF assms(1)] opt_4 [OF assms(1)] opt_common [OF assms(3)] opt_help [OF assms(3)] app_common [OF assms(5)] app_2 [OF assms(5)]
  by (simp add: parse_arg_def tree_world_def split_arg_def split_short_def valid_first_char_def find_arg_def has_arg_name_def world_simps
     check_sname_def check_lname_def arg_found_def separate_results_def arg_limits_def get_items_expected_max_def get_items_expected_min_def
     take_inline_def take_following_def add_counted_def close_partial_def find_member_def checked_multiply_def expected_max_vector_size_def
     own_options_def add_port add_result_count_def parsed_option_def)

lemma four: "(0 :: nat) < 4" "(1 :: nat) < 4" "(2 :: nat) < 4" "(3 :: nat) < 4"
  by simp_all

lemmas fields_0 = app_common [OF _ four(1)] app_0
lemmas fields_1 = app_common [OF _ four(2)] app_1
lemmas fields_2 = app_common [OF _ four(3)] app_2
lemmas fields_3 = app_common [OF _ four(4)] app_3

lemma port_recognized:
  assumes "app_is prog 0 r" "app_is prog 1 run" "app_is prog 2 sv" "app_is prog 3 cl"
    and "a_parsed_subcommands r = [1]" "a_parsed_subcommands run = [2]" "a_parsed_subcommands sv = []"
  shows "recognize (Suc (Suc (Suc (Suc (Suc n))))) 2 ''-p'' True (tree_world env vars r run sv cl opts args) = (Inr CL_SHORT, tree_world env vars r run sv cl opts args)"
  using fields_0(1) [OF assms(1)] fields_0(2) [OF assms(1)] fields_1(1) [OF assms(2)] fields_1(2) [OF assms(2)] fields_2(1) [OF assms(3)] fields_2(2) [OF assms(3)] fields_3(1) [OF assms(4)] fields_3(2) [OF assms(4)] assms(5-)
  by (simp add: tree_world_def world_simps subcommands_def check_name_detail_def split_long_def split_short_def valid_first_char_def is_digit_def Let_def)

lemma tree_run [simp]:
  "w_args (tree_world env vars r run sv cl opts args) = args"
  "w_apps (tree_world env vars r run sv cl opts args) = [r, run, sv, cl]"
  "w_opts (tree_world env vars r run sv cl opts args) = opts"
  "(tree_world env vars r run sv cl opts args)\<lparr>w_apps := [r', run', sv', cl']\<rparr> = tree_world env vars r' run' sv' cl' opts args"
  "(tree_world env vars r run sv cl opts args)\<lparr>w_args := args'\<rparr> = tree_world env vars r run sv cl opts args'"
  "(tree_world env vars r run sv cl opts args)\<lparr>w_opts := opts'\<rparr> = tree_world env vars r run sv cl opts' args"
  "(tree_world env vars r run sv cl opts args)\<lparr>w_vars := vars'\<rparr> = tree_world env vars' r run sv cl opts args"
  "w_vars (tree_world env vars r run sv cl opts args) = vars" "w_env (tree_world env vars r run sv cl opts args) = env"
  by (simp_all add: tree_world_def)

lemma server_parsed:
  assumes "app_is prog 0 r" "app_is prog 1 run" "app_is prog 2 sv" "app_is prog 3 cl"
    and "a_parsed_subcommands r = [1]" "a_parsed_subcommands run = [2]" "a_parsed_subcommands sv = []"
    and "opt_is 4 port" "o_results port = []" "opt_is 2 h2" "take 2 v \<noteq> ''[[''" "\<not> a_pre_parse_called sv"
    and m: "12 \<le> m"
  shows "run_call m (Call_parse 2) (tree_world env vars r run sv cl [h0, h1, h2, h3, port, host] [v, ''-p'']) =
    (Inr True, tree_world env vars r run (sv\<lparr>a_parsed := a_parsed sv + 1, a_pre_parse_called := True, a_parse_order := a_parse_order sv @ [4]\<rparr>) cl
       [h0, h1, h2, h3, port\<lparr>o_results := [v], o_state := Opt_parsing\<rparr>, host] [])"
proof -
  let ?sv = "sv\<lparr>a_parsed := a_parsed sv + 1, a_pre_parse_called := True\<rparr>"
  have sv: "app_is prog 2 ?sv" using assms(3) by (intro app_is_state)
  have subs: "a_parsed_subcommands ?sv = []" using assms(7) by simp
  note single = port_recognized [OF assms(1,2) sv assms(4-6) subs] port_taken [OF assms(8-11) sv]
  define n where "n = m - 12"
  have k: "m = Suc (Suc (Suc (Suc (Suc (Suc (Suc (Suc (Suc (Suc (Suc (Suc n)))))))))))" using m by (simp add: n_def)
  show ?thesis
    using fields_2(1) [OF assms(3)] fields_2(2) [OF assms(3)] assms(12)
    by (simp del: recognize.simps find_subcommand.simps add: k app_parse_def parse_loop_def parse_single_def world_simps trigger_pre_parse_def single [simplified] Let_def )
qed

lemma server_recognized:
  assumes "app_is prog 0 r" "app_is prog 1 run" "app_is prog 2 sv" "app_is prog 3 cl"
    and "a_parsed_subcommands run = []" "a_parsed sv = 0"
  shows "3 \<le> m \<Longrightarrow> recognize m 1 ''server'' True (tree_world env vars r run sv cl opts args) = (Inr CL_SUBCOMMAND, tree_world env vars r run sv cl opts args)"
    and "1 \<le> m \<Longrightarrow> find_subcommand m 1 ''server'' True True (tree_world env vars r run sv cl opts args) = (Inr (Some 2), tree_world env vars r run sv cl opts args)"
proof -
  note fields = fields_1(1) [OF assms(2)] fields_1(2) [OF assms(2)] fields_2(1) [OF assms(3)] fields_2(2) [OF assms(3)] assms(5-)
  have found: "find_subcommand (Suc n) 1 ''server'' True True (tree_world env vars r run sv cl opts args) = (Inr (Some 2), tree_world env vars r run sv cl opts args)" for n
    using fields by (simp add: tree_world_def world_simps subcommands_def check_name_detail_def Let_def)
  then show "find_subcommand m 1 ''server'' True True (tree_world env vars r run sv cl opts args) = (Inr (Some 2), tree_world env vars r run sv cl opts args)"
    if "1 \<le> m" using that by (cases m) auto
  have "recognize (Suc (Suc (Suc n))) 1 ''server'' True (tree_world env vars r run sv cl opts args) = (Inr CL_SUBCOMMAND, tree_world env vars r run sv cl opts args)" for n
    using fields found [of n] by (simp add: world_simps Let_def del: find_subcommand.simps)
  from this [of "m - 3"] show "recognize m 1 ''server'' True (tree_world env vars r run sv cl opts args) = (Inr CL_SUBCOMMAND, tree_world env vars r run sv cl opts args)"
    if "3 \<le> m" using that by (simp add: numeral_eq_Suc Suc_diff_Suc del: recognize.simps)
qed

lemma climb_done: "0 < n \<Longrightarrow> climb n a c (Some a) k = m_return ()"
  by (cases n) simp_all

lemma run_parsed:
  assumes "app_is prog 0 r" "app_is prog 1 run" "app_is prog 2 sv" "app_is prog 3 cl"
    and "a_parsed_subcommands r = [1]" "a_parsed_subcommands run = []" "a_parsed_subcommands sv = []"
    and "opt_is 4 port" "o_results port = []" "opt_is 2 h2" "take 2 v \<noteq> ''[[''" "\<not> a_pre_parse_called sv" "\<not> a_pre_parse_called run"
    and "a_parsed sv = 0" "opt_is 1 h1"
    and m: "15 \<le> m"
  shows "run_call m (Call_parse 1) (tree_world env vars r run sv cl [h0, h1, h2, h3, port, host] [v, ''-p'', ''server'']) =
    (Inr True, tree_world env vars r (run\<lparr>a_parsed := a_parsed run + 1, a_pre_parse_called := True, a_parsed_subcommands := [2]\<rparr>)
       (sv\<lparr>a_parsed := 1, a_pre_parse_called := True, a_parse_order := a_parse_order sv @ [4]\<rparr>) cl
       [h0, h1, h2, h3, port\<lparr>o_results := [v], o_state := Opt_parsing\<rparr>, host] [])"
proof -
  let ?run = "run\<lparr>a_parsed := a_parsed run + 1, a_pre_parse_called := True\<rparr>"
  have run: "app_is prog 1 ?run" "app_is prog 1 (?run\<lparr>a_parsed_subcommands := [2]\<rparr>)"
    using assms(2) fields_1(2) [OF assms(2)] by (auto intro!: app_is_state)
  have subs: "a_parsed_subcommands ?run = []" "a_parsed_subcommands (?run\<lparr>a_parsed_subcommands := [2]\<rparr>) = [2]" using assms(6) by simp_all
  define n where "n = m - 3"
  have k: "m = Suc (Suc (Suc n))" and n: "12 \<le> n" using m by (simp_all add: n_def)
  note single = server_recognized [OF assms(1) run(1) assms(3,4) subs(1) assms(14)] server_parsed [OF assms(1) run(2) assms(3,4,5) subs(2) assms(7-12) n]
  show ?thesis
    using fields_1(1) [OF assms(2)] fields_1(2) [OF assms(2)] assms(5-) n fields_2(1) [OF assms(3)] fields_2(2) [OF assms(3)] fields_3(1) [OF assms(4)] fields_3(2) [OF assms(4)] not_positional [OF assms(15)]
    by (simp del: recognize.simps find_subcommand.simps add: k app_parse_def parse_loop_def parse_single_def world_simps trigger_pre_parse_def  Let_def parse_subcommand_def count_remaining_positionals_def own_options_def parsed_subcommand_def climb_done single [simplified])
qed

lemma run_recognized:
  assumes "app_is prog 0 r" "app_is prog 1 run"
    and "a_parsed_subcommands r = []" "a_parsed run = 0"
  shows "3 \<le> m \<Longrightarrow> recognize m 0 ''run'' True (tree_world env vars r run sv cl opts args) = (Inr CL_SUBCOMMAND, tree_world env vars r run sv cl opts args)"
    and "1 \<le> m \<Longrightarrow> find_subcommand m 0 ''run'' True True (tree_world env vars r run sv cl opts args) = (Inr (Some 1), tree_world env vars r run sv cl opts args)"
proof -
  note fields = fields_0(1) [OF assms(1)] fields_0(2) [OF assms(1)] fields_1(1) [OF assms(2)] fields_1(2) [OF assms(2)] assms(3-)
  have found: "find_subcommand (Suc n) 0 ''run'' True True (tree_world env vars r run sv cl opts args) = (Inr (Some 1), tree_world env vars r run sv cl opts args)" for n
    using fields by (simp add: tree_world_def world_simps subcommands_def check_name_detail_def Let_def)
  then show "find_subcommand m 0 ''run'' True True (tree_world env vars r run sv cl opts args) = (Inr (Some 1), tree_world env vars r run sv cl opts args)"
    if "1 \<le> m" using that by (cases m) auto
  have "recognize (Suc (Suc (Suc n))) 0 ''run'' True (tree_world env vars r run sv cl opts args) = (Inr CL_SUBCOMMAND, tree_world env vars r run sv cl opts args)" for n
    using fields found [of n] by (simp add: world_simps Let_def del: find_subcommand.simps)
  from this [of "m - 3"] show "recognize m 0 ''run'' True (tree_world env vars r run sv cl opts args) = (Inr CL_SUBCOMMAND, tree_world env vars r run sv cl opts args)"
    if "3 \<le> m" using that by (simp add: numeral_eq_Suc Suc_diff_Suc del: recognize.simps)
qed

lemma root_parsed:
  assumes "app_is prog 0 r" "app_is prog 1 run" "app_is prog 2 sv" "app_is prog 3 cl"
    and "a_parsed_subcommands r = []" "a_parsed_subcommands run = []" "a_parsed_subcommands sv = []"
    and "opt_is 4 port" "o_results port = []" "opt_is 2 h2" "take 2 v \<noteq> ''[[''" "\<not> a_pre_parse_called sv" "\<not> a_pre_parse_called run"
    and "a_parsed sv = 0" "opt_is 1 h1" "opt_is 0 h0" "a_parsed run = 0"
    and m: "18 \<le> m"
  shows "top_loop m 0 False (tree_world env vars r run sv cl [h0, h1, h2, h3, port, host] [v, ''-p'', ''server'', ''run'']) =
    (Inr (), tree_world env vars (r\<lparr>a_parsed_subcommands := [1]\<rparr>) (run\<lparr>a_parsed := 1, a_pre_parse_called := True, a_parsed_subcommands := [2]\<rparr>)
       (sv\<lparr>a_parsed := 1, a_pre_parse_called := True, a_parse_order := a_parse_order sv @ [4]\<rparr>) cl
       [h0, h1, h2, h3, port\<lparr>o_results := [v], o_state := Opt_parsing\<rparr>, host] [])"
proof -
  have r: "app_is prog 0 (r\<lparr>a_parsed_subcommands := [1]\<rparr>)"
    using assms(1) fields_0(2) [OF assms(1)] by (auto intro!: app_is_state)
  have subs: "a_parsed_subcommands (r\<lparr>a_parsed_subcommands := [1]\<rparr>) = [1]" by simp
  define n where "n = m - 2"
  have k: "m = Suc (Suc n)" and n: "15 \<le> n" using m by (simp_all add: n_def)
  note single = run_recognized [OF assms(1,2,5,17)] run_parsed [OF r assms(2-4) subs assms(6-15) n]
  show ?thesis
    using fields_0(1) [OF assms(1)] fields_0(2) [OF assms(1)] assms(5-) n fields_1(1) [OF assms(2)] fields_1(2) [OF assms(2)] not_positional [OF assms(16)]
    by (simp del: recognize.simps find_subcommand.simps add: k parse_single_def world_simps Let_def parse_subcommand_def count_remaining_positionals_def own_options_def parsed_subcommand_def climb_done single [simplified])
qed

section \<open>Processing\<close>

lemma callbacks_quiet:
  assumes apps: "app_is prog 0 r" "app_is prog 1 run" "app_is prog 2 sv" "app_is prog 3 cl"
    and quiet: "\<forall>opt \<in> {h0, h1, h2, h3, port, host}. \<not> (o_callback_priority opt = prio \<and> option_true opt \<and> o_state opt \<noteq> Opt_callback_run)"
    and m: "3 \<le> m"
  shows "process_callbacks m 0 prio (tree_world env vars r run sv cl [h0, h1, h2, h3, port, host] args) =
    (Inr (), tree_world env vars r run sv cl [h0, h1, h2, h3, port, host] args)"
proof -
  define n where "n = m - 3"
  have k: "m = Suc (Suc (Suc n))" using m by (simp_all add: n_def)
  have waits: "(o_callback_priority opt = prio \<and> option_true opt \<and> o_state opt \<noteq> Opt_callback_run) = False"
    if "opt \<in> {h0, h1, h2, h3, port, host}" for opt
    using quiet that by blast
  show ?thesis
    unfolding k
    using fields_0(1) [OF apps(1)] fields_0(2) [OF apps(1)] fields_1(1) [OF apps(2)] fields_1(2) [OF apps(2)]
      fields_2(1) [OF apps(3)] fields_2(2) [OF apps(3)] fields_3(1) [OF apps(4)] fields_3(2) [OF apps(4)]
    by (simp add: world_simps waits)
qed

definition port_of :: "string \<Rightarrow> main_vars \<Rightarrow> bool \<times> 16 word" where
  "port_of v vars = lexical_assign integral_conversion_unsigned 0 v (mv_server_port vars)"

lemma port_callback_run:
  assumes "opt_is 4 port" "o_results port = [v]" "o_state port = Opt_parsing" "v \<noteq> ''{}''"
  shows "option_run_callback f (port, vars) =
    (if fst (port_of v vars) then Inr () else Inl (ConversionError_results ''--port'' [v]),
     port\<lparr>o_proc_results := [], o_state := Opt_callback_run\<rparr>, vars\<lparr>mv_server_port := snd (port_of v vars)\<rparr>)"
proof -
  obtain ok x where conv: "port_of v vars = (ok, x)" by fastforce
  show ?thesis
    using assms opt_4 [OF assms(1)] opt_common [OF assms(1)] conv [unfolded port_of_def]
    by (simp add: conv option_run_callback_def force_default_def validate_stage_def validate_results_def reduce_stage_def
        reduce_results_def get_items_expected_min_def get_items_expected_max_def checked_multiply_def empty_marker_def callback_stage_def
        port_callback_def variable_callback_def lexical_conversion_def get_name_def Let_def)
qed

definition port_done :: "main_vars opt \<Rightarrow> main_vars opt" where
  "port_done port = port\<lparr>o_proc_results := [], o_state := Opt_callback_run\<rparr>"

lemma port_callback_processed:
  assumes apps: "app_is prog 0 r" "app_is prog 1 run" "app_is prog 2 sv" "app_is prog 3 cl"
    and quiet: "\<forall>opt \<in> {h0, h1, h2, h3, host}. \<not> option_true opt"
    and port: "opt_is 4 port" "o_results port = [v]" "o_state port = Opt_parsing" "v \<noteq> ''{}''"
    and m: "3 \<le> m"
  shows "process_callbacks m 0 Normal (tree_world env vars r run sv cl [h0, h1, h2, h3, port, host] args) =
      (if fst (port_of v vars) then Inr () else Inl (ConversionError_results ''--port'' [v]),
       tree_world env (vars\<lparr>mv_server_port := snd (port_of v vars)\<rparr>) r run sv cl
         [h0, h1, h2, h3, port_done port, host] args)"
proof -
  define n where "n = m - 3"
  have k: "m = Suc (Suc (Suc n))" using m by (simp_all add: n_def)
  have waits: "option_true opt = False" if "opt \<in> {h0, h1, h2, h3, host}" for opt
    using quiet that by blast
  have "option_true port" using port by (simp add: option_true_def)
  note facts = fields_0(1) [OF apps(1)] fields_0(2) [OF apps(1)] fields_1(1) [OF apps(2)] fields_1(2) [OF apps(2)]
      fields_2(1) [OF apps(3)] fields_2(2) [OF apps(3)] fields_3(1) [OF apps(4)] fields_3(2) [OF apps(4)] port
      opt_4 [OF port(1)] \<open>option_true port\<close>
  show ?thesis
    unfolding k port_done_def
    using facts by (simp add: world_simps waits run_option_callback_def port_callback_run)
qed

lemma help_quiet:
  assumes apps: "app_is prog 0 r" "app_is prog 1 run" "app_is prog 2 sv" "app_is prog 3 cl"
    and subs: "a_parsed_subcommands r = [1]" "a_parsed_subcommands run = [2]" "a_parsed_subcommands sv = []"
    and quiet: "o_results h0 = []" "o_results h1 = []" "o_results h2 = []"
    and m: "3 \<le> m"
  shows "process_help_flags m 0 prio False False (tree_world env vars r run sv cl [h0, h1, h2, h3, port, host] args) =
      (Inr (), tree_world env vars r run sv cl [h0, h1, h2, h3, port, host] args)"
proof -
  define n where "n = m - 3"
  have k: "m = Suc (Suc (Suc n))" using m by (simp_all add: n_def)
  show ?thesis
    unfolding k
    using fields_0(1) [OF apps(1)] fields_0(2) [OF apps(1)] fields_1(1) [OF apps(2)] fields_1(2) [OF apps(2)]
      fields_2(1) [OF apps(3)] fields_2(2) [OF apps(3)] subs quiet
    by (simp add: world_simps triggered_def option_count_def Let_def)
qed

lemma env_quiet:
  assumes apps: "app_is prog 0 r" "app_is prog 1 run" "app_is prog 2 sv" "app_is prog 3 cl"
    and opts: "opt_is 0 h0" "opt_is 1 h1" "opt_is 2 h2" "opt_is 3 h3" "opt_is 4 port" "opt_is 5 host"
    and m: "4 \<le> m"
  shows "config_stage m 0 (tree_world env vars r run sv cl [h0, h1, h2, h3, port, host] args) =
      (Inr None, tree_world env vars r run sv cl [h0, h1, h2, h3, port, host] args)"
proof -
  define n where "n = m - 4"
  have k: "m = Suc (Suc (Suc (Suc n)))" using m by (simp_all add: n_def)
  have env: "o_envname opt = []" if "opt \<in> {h0, h1, h2, h3, port, host}" for opt
    using that opts opt_common by auto
  show ?thesis
    unfolding k
    using fields_0(1) [OF apps(1)] fields_0(2) [OF apps(1)] fields_1(1) [OF apps(2)] fields_1(2) [OF apps(2)]
      fields_2(1) [OF apps(3)] fields_2(2) [OF apps(3)] fields_3(1) [OF apps(4)] fields_3(2) [OF apps(4)]
    by (simp add: world_simps env config_stage_def process_config_file_def subcommands_def own_options_def m_catch_def)
qed

lemma requirements_met:
  assumes apps: "app_is prog 0 r" "app_is prog 1 run" "app_is prog 2 sv" "app_is prog 3 cl"
    and subs: "a_parsed_subcommands r = [1]" "a_parsed_subcommands run = [2]" "a_parsed_subcommands sv = []"
    and opts: "opt_is 0 h0" "opt_is 1 h1" "opt_is 2 h2" "opt_is 3 h3" "opt_is 4 port" "opt_is 5 host"
    and m: "5 \<le> m"
  shows "process_requirements m 0 (tree_world env vars r run sv cl [h0, h1, h2, h3, port, host] args) =
      (Inr (), tree_world env vars r run sv cl [h0, h1, h2, h3, port, host] args)"
proof -
  define n where "n = m - 5"
  have k: "m = Suc (Suc (Suc (Suc (Suc n))))" using m by (simp_all add: n_def)
  have opt: "o_required opt = False" "o_needs opt = []" "o_excludes opt = []" if "opt \<in> {h0, h1, h2, h3, port, host}" for opt
    using that opts opt_common by auto
  show ?thesis
    unfolding k
    using fields_0(1) [OF apps(1)] fields_0(2) [OF apps(1)] fields_1(1) [OF apps(2)] fields_1(2) [OF apps(2)]
      fields_2(1) [OF apps(3)] fields_2(2) [OF apps(3)] fields_3(1) [OF apps(4)] fields_3(2) [OF apps(4)] subs
    by (simp add: world_simps opt subcommands_def own_options_def last_of_def last_option_def last_app_def get_opts_def
       option_requirements_def used_groups_def number_requirements_def skip_group_def Let_def)
qed

lemma extras_quiet:
  assumes apps: "app_is prog 0 r" "app_is prog 1 run" "app_is prog 2 sv" "app_is prog 3 cl"
    and missing: "a_missing r = []" "a_missing run = []" "a_missing sv = []" "a_parsed cl = 0"
    and m: "4 \<le> m"
  shows "process_extras m 0 (tree_world env vars r run sv cl opts args) = (Inr (), tree_world env vars r run sv cl opts args)"
proof -
  define n where "n = m - 4"
  have k: "m = Suc (Suc (Suc (Suc n)))" using m by (simp_all add: n_def)
  show ?thesis
    unfolding k
    using fields_0(1) [OF apps(1)] fields_0(2) [OF apps(1)] fields_1(1) [OF apps(2)] fields_1(2) [OF apps(2)]
      fields_2(1) [OF apps(3)] fields_2(2) [OF apps(3)] fields_3(1) [OF apps(4)] fields_3(2) [OF apps(4)] missing
    by (simp add: world_simps Let_def)
qed

lemma callback_quiet:
  assumes apps: "app_is prog 0 r" "app_is prog 1 run" "app_is prog 2 sv" "app_is prog 3 cl"
    and subs: "a_parsed_subcommands r = [1]" "a_parsed_subcommands run = [2]" "a_parsed_subcommands sv = []"
    and m: "4 \<le> m"
  shows "run_callback m 0 False False (tree_world env vars r run sv cl opts args) = (Inr (), tree_world env vars r run sv cl opts args)"
proof -
  define n where "n = m - 4"
  have k: "m = Suc (Suc (Suc (Suc n)))" using m by (simp_all add: n_def)
  show ?thesis
    unfolding k
    using fields_0(1) [OF apps(1)] fields_0(2) [OF apps(1)] fields_1(1) [OF apps(2)] fields_1(2) [OF apps(2)]
      fields_2(1) [OF apps(3)] fields_2(2) [OF apps(3)] fields_3(1) [OF apps(4)] fields_3(2) [OF apps(4)] subs
    by (simp add: world_simps)
qed

lemma port_processed:
  assumes apps: "app_is prog 0 r" "app_is prog 1 run" "app_is prog 2 sv" "app_is prog 3 cl"
    and subs: "a_parsed_subcommands r = [1]" "a_parsed_subcommands run = [2]" "a_parsed_subcommands sv = []"
    and opts: "opt_is 0 h0" "opt_is 1 h1" "opt_is 2 h2" "opt_is 3 h3" "opt_is 4 port" "opt_is 5 host"
    and quiet: "\<forall>opt \<in> {h0, h1, h2, h3, host}. \<not> option_true opt"
    and port: "o_results port = [v]" "o_state port = Opt_parsing" "v \<noteq> ''{}''"
    and m: "5 \<le> m"
  shows "app_process m 0 (tree_world env vars r run sv cl [h0, h1, h2, h3, port, host] args) =
      (if fst (port_of v vars) then Inr () else Inl (ConversionError_results ''--port'' [v]),
       tree_world env (vars\<lparr>mv_server_port := snd (port_of v vars)\<rparr>) r run sv cl
         [h0, h1, h2, h3, port_done port, host] args)"
proof -
  have "opt_is 4 (port_done port)" using opts(5) by (simp add: port_done_def opt_is_def)
  have no_results: "o_results h0 = []" "o_results h1 = []" "o_results h2 = []"
    using quiet by (simp_all add: option_true_def)
  have before: "\<forall>opt \<in> {h0, h1, h2, h3, port, host}. \<not> (o_callback_priority opt = prio \<and> option_true opt \<and> o_state opt \<noteq> Opt_callback_run)"
    if "prio \<noteq> Normal" for prio
    using that quiet opt_4 [OF opts(5)] by auto
  have after: "\<forall>opt \<in> {h0, h1, h2, h3, port_done port, host}. \<not> (o_callback_priority opt = prio \<and> option_true opt \<and> o_state opt \<noteq> Opt_callback_run)"
    for prio
    using quiet by (auto simp: port_done_def)
  have m': "3 \<le> m" "4 \<le> m" using m by simp_all
  note steps = callbacks_quiet [OF apps before m'(1)] callbacks_quiet [OF apps after m'(1)]
    help_quiet [OF apps subs no_results m'(1)] env_quiet [OF apps opts m'(2)] requirements_met [OF apps subs opts m]
    port_callback_processed [OF apps quiet opts(5) port m'(1)]
  show ?thesis
    by (simp add: app_process_def priority_steps_def comp_bind comp_run steps)
qed

section \<open>The command line of a server\<close>

abbreviation server_line :: "string \<Rightarrow> string \<Rightarrow> string list" where
  "server_line prog v \<equiv> [prog, ''run'', ''server'', ''-p'', v]"

definition named_program :: "string \<Rightarrow> main_vars app" where
  "named_program prog = program_app\<lparr>a_has_automatic_name := True, a_name := prog\<rparr>"

lemma started_apps:
  "app_is (Naming True prog) 0 (named_program prog)" "app_is (Naming True prog) 1 run_app"
  "app_is (Naming True prog) 2 server_app" "app_is (Naming True prog) 3 client_app"
  by (simp_all add: app_is_def named_program_def app_definitions)

lemma started_options:
  "opt_is 0 (help_option 0)" "opt_is 1 (help_option 1)" "opt_is 2 (help_option 2)" "opt_is 3 (help_option 3)"
  "opt_is 4 port_option" "opt_is 5 host_option"
  by (simp_all add: opt_is_def main_options_def)

lemma started_state:
  "a_parsed_subcommands (named_program prog) = []" "a_parsed (named_program prog) = 0" "\<not> a_pre_parse_called (named_program prog)"
  "a_missing (named_program prog) = []"
  "a_parsed_subcommands run_app = []" "a_parsed run_app = 0" "\<not> a_pre_parse_called run_app" "a_missing run_app = []"
  "a_parsed_subcommands server_app = []" "a_parsed server_app = 0" "\<not> a_pre_parse_called server_app" "a_missing server_app = []"
  "a_parsed client_app = 0" "o_results port_option = []"
  "\<not> option_true (help_option a)" "\<not> option_true host_option"
  by (simp_all add: named_program_def app_definitions opt_definitions option_true_def)

lemma server_line_started:
  assumes "5 \<le> m"
  shows "m_seq (increment_parsed m 0) (m_bind args_size (\<lambda>k. trigger_pre_parse m 0 k)) (ready_world env (server_line prog v)) =
    (Inr (), tree_world env main_vars_init ((named_program prog)\<lparr>a_parsed := 1, a_pre_parse_called := True\<rparr>) run_app server_app client_app
       [help_option 0, help_option 1, help_option 2, help_option 3, port_option, host_option] [v, ''-p'', ''server'', ''run''])"
proof -
  define n where "n = m - 2"
  have k: "m = Suc (Suc n)" using assms by (simp_all add: n_def)
  have world: "ready_world env (server_line prog v) = tree_world env main_vars_init (named_program prog) run_app server_app client_app
       [help_option 0, help_option 1, help_option 2, help_option 3, port_option, host_option] [v, ''-p'', ''server'', ''run'']"
    by (simp add: ready_world_def tree_world_def prepared_apps_def named_program_def main_options_def)
  show ?thesis
    unfolding k world
    using fields_0(1) [OF started_apps(1)] fields_0(2) [OF started_apps(1)] fields_1(1) [OF started_apps(2)] fields_1(2) [OF started_apps(2)]
      started_state
    by (simp add: world_simps trigger_pre_parse_def)
qed

lemma all_less_four: "(\<forall>a < 4 :: nat. P a) \<longleftrightarrow> P 0 \<and> P 1 \<and> P 2 \<and> P 3"
  and all_less_six: "(\<forall>a < 6 :: nat. P a) \<longleftrightarrow> P 0 \<and> P 1 \<and> P 2 \<and> P 3 \<and> P 4 \<and> P 5"
  by (simp_all add: eval_nat_numeral All_less_Suc conj_ac)

lemma server_line_parsed:
  assumes m: "18 \<le> m" and v: "take 2 v \<noteq> ''[[''" "v \<noteq> ''{}''"
  shows "\<exists>w. tcp_inv (Naming True prog) w \<and> a_parsed (w_apps w ! 2) = 1 \<and> a_parsed (w_apps w ! 3) = 0
      \<and> w_vars w = main_vars_init\<lparr>mv_server_port := snd (port_of v main_vars_init)\<rparr>
      \<and> parse_char_t m 0 (server_line prog v) (main_world env) =
         (if fst (port_of v main_vars_init) then Inr () else Inl (ConversionError_results ''--port'' [v]), w)"
proof -
  let ?r = "(named_program prog)\<lparr>a_parsed := 1, a_pre_parse_called := True\<rparr>"
  let ?r' = "?r\<lparr>a_parsed_subcommands := [1]\<rparr>"
  let ?run = "(run_app :: main_vars app)\<lparr>a_parsed := 1, a_pre_parse_called := True, a_parsed_subcommands := [2]\<rparr>"
  let ?sv = "(server_app :: main_vars app)\<lparr>a_parsed := 1, a_pre_parse_called := True, a_parse_order := a_parse_order (server_app :: main_vars app) @ [4]\<rparr>"
  let ?port = "port_option\<lparr>o_results := [v], o_state := Opt_parsing\<rparr>"
  let ?w = "\<lambda>vars port. tree_world env vars ?r' ?run ?sv client_app
    [help_option 0, help_option 1, help_option 2, help_option 3, port, host_option] []"
  let ?vars = "main_vars_init\<lparr>mv_server_port := snd (port_of v main_vars_init)\<rparr>"
  have r: "app_is (Naming True prog) 0 ?r"
    using started_apps(1) by (intro app_is_state)
  have apps: "app_is (Naming True prog) 0 ?r'" "app_is (Naming True prog) 1 ?run" "app_is (Naming True prog) 2 ?sv"
    "app_is (Naming True prog) 3 client_app"
    using started_apps fields_0(2) [OF r] fields_1(2) [OF started_apps(2)] r by (auto intro!: app_is_state)
  have opts: "opt_is 0 (help_option 0)" "opt_is 1 (help_option 1)" "opt_is 2 (help_option 2)" "opt_is 3 (help_option 3)"
    "opt_is 4 ?port" "opt_is 5 host_option" "opt_is 4 (port_done ?port)"
    using started_options by (simp_all add: opt_is_def port_done_def)
  have subs: "a_parsed_subcommands ?r' = [1]" "a_parsed_subcommands ?run = [2]" "a_parsed_subcommands ?sv = []"
    by (simp_all add: started_state)
  have quiet: "\<forall>opt \<in> {help_option 0, help_option 1, help_option 2, help_option 3, host_option}. \<not> option_true opt"
    by (simp add: started_state)
  have loop: "top_loop m 0 False (tree_world env main_vars_init ?r run_app server_app client_app
      [help_option 0, help_option 1, help_option 2, help_option 3, port_option, host_option] [v, ''-p'', ''server'', ''run'']) =
      (Inr (), ?w main_vars_init ?port)"
    by (rule root_parsed [OF r started_apps(2-4) _ _ _ started_options(5)]) (use m v started_state started_options in simp_all)
  have processed: "app_process m 0 (?w main_vars_init ?port) =
      (if fst (port_of v main_vars_init) then Inr () else Inl (ConversionError_results ''--port'' [v]), ?w ?vars (port_done ?port))"
    by (rule port_processed [OF apps subs opts(1-6) quiet]) (use m v in simp_all)
  have extras: "process_extras m 0 (?w vars port) = (Inr (), ?w vars port)" for vars port
    by (rule extras_quiet [OF apps]) (use m started_state in simp_all)
  have callback: "run_callback m 0 False False (?w vars port) = (Inr (), ?w vars port)" for vars port
    by (rule callback_quiet [OF apps subs]) (use m in simp)
  have started: "parse_top m 0 (ready_world env (server_line prog v)) =
      m_seq (top_loop m 0 False) (m_seq (app_process m 0) (process_extras m 0))
        (tree_world env main_vars_init ?r run_app server_app client_app
          [help_option 0, help_option 1, help_option 2, help_option 3, port_option, host_option] [v, ''-p'', ''server'', ''run''])"
    using server_line_started [of m env prog v] m
    by (auto simp: parse_top_def comp_bind split: prod.splits sum.splits)
  have "parse_char_t m 0 (server_line prog v) (main_world env) =
      m_seq (parse_top m 0) (run_callback m 0 False False) (ready_world env (server_line prog v))"
    using prepared [of m "server_line prog v" env] m
    by (auto simp: parse_char_t_def parse_args_def comp_simps split: prod.splits sum.splits)
  also have "\<dots> = (if fst (port_of v main_vars_init) then Inr () else Inl (ConversionError_results ''--port'' [v]), ?w ?vars (port_done ?port))"
    by (simp add: comp_bind started loop processed extras callback del: One_nat_def)
  finally have run: "parse_char_t m 0 (server_line prog v) (main_world env) =
      (if fst (port_of v main_vars_init) then Inr () else Inl (ConversionError_results ''--port'' [v]), ?w ?vars (port_done ?port))" .
  have "tcp_inv (Naming True prog) (?w ?vars (port_done ?port))"
    using apps opts by (simp add: tcp_inv_def all_less_four all_less_six)
  with run show ?thesis
    by (intro exI [of _ "?w ?vars (port_done ?port)"]) (simp add: started_state)
qed

lemma port_of_decimal: "port_of (decimal k) vars = (k < 65536, snd (port_of (decimal k) vars))"
  and port_of_decimal_small: "k < 65536 \<Longrightarrow> port_of (decimal k) vars = (True, of_nat k)"
proof -
  have port: "port_of (decimal k) vars = integral_conversion_unsigned (decimal k) (mv_server_port vars)"
    by (simp add: port_of_def lexical_assign_def decimal_nonempty)
  show "port_of (decimal k) vars = (k < 65536, snd (port_of (decimal k) vars))"
    using convert_unsigned(1) [where 'a = 16, of k "mv_server_port vars"] by (simp add: port prod_eq_iff)
  show "port_of (decimal k) vars = (True, of_nat k)" if "k < 65536"
    using convert_unsigned(2) [where 'a = 16, of k "mv_server_port vars"] that by (simp add: port)
qed

lemma decimal_plain: "take 2 (decimal k) \<noteq> ''[[''" "decimal k \<noteq> ''{}''" "last (decimal k) \<noteq> CHR '',''"
proof -
  have "hd (decimal k) \<noteq> CHR ''[''" "hd (decimal k) \<noteq> CHR ''{''"
    using decimal_head [of k] by (cases "k = 0"; auto simp: decimal_zero)+
  then show "take 2 (decimal k) \<noteq> ''[[''" "decimal k \<noteq> ''{}''"
    by (cases "decimal k"; auto)+
  show "last (decimal k) \<noteq> CHR '',''"
    using decimal_digit [OF last_in_set [OF decimal_nonempty], of k] by auto
qed

definition port_refused :: "string \<Rightarrow> int \<times> string \<times> string" where
  "port_refused v = (104, [], ''Could not convert: --port = '' @ v @ [CHR 0x0A]
     @ ''Run with --help for more information.'' @ [CHR 0x0A])"

lemma failure_text:
  assumes "tcp_inv prog w"
  shows "failure_simple 0 e w =
    (Inr (what_msg e @ [CHR 0x0A] @ ''Run with --help for more information.'' @ [CHR 0x0A]), w)"
proof -
  note app = tcp_app [OF assms, of 0, simplified]
  note opt = tcp_opt [OF assms, of 0, simplified]
  have ptrs: "a_help_ptr (w_apps w ! 0) = Some 0" "a_help_all_ptr (w_apps w ! 0) = None"
    using app_0 [OF app] app_common [OF app, simplified] by simp_all
  have name: "opt_name (w_opts w ! 0) = ''--help''"
    using opt_help [OF opt, simplified] opt_common [OF opt, simplified] by (simp add: get_name_def)
  show ?thesis
    by (simp add: failure_simple_def comp_simps get_app_def get_opt_def ptrs name join_def)
qed

lemma port_refused_exit:
  assumes "tcp_inv prog w" and "last v \<noteq> CHR '',''"
  shows "ConversionError_results ''--port'' [v] = Cli err \<Longrightarrow> is_parse_error err \<and> app_exit m 0 err w = (Inr (port_refused v), w)"
proof -
  have message: "a_failure_message (w_apps w ! 0) = Some FM_simple"
    using app_common [OF tcp_app [OF assms(1), of 0, simplified], simplified] by simp
  assume "ConversionError_results ''--port'' [v] = Cli err"
  then have err: "err = \<lparr>error_class = C_ConversionError, error_name = ''ConversionError'',
      what_msg = ''Could not convert: --port = '' @ v, actual_exit_code = 104\<rparr>"
    using assms(2) by (simp add: ConversionError_results_def ConversionError_def error_named_def join_def)
  show "is_parse_error err \<and> app_exit m 0 err w = (Inr (port_refused v), w)"
    by (simp add: err is_parse_error_def app_exit_def comp_simps get_app_def message run_failure_message_def
        failure_text [OF assms(1)] port_refused_def)
qed

lemma server_line_result:
  assumes "18 \<le> m"
  shows "main_parse env m (server_line prog (decimal k)) =
    Inr (if k < 65536 then Inr (True, False, main_vars_init\<lparr>mv_server_port := of_nat k\<rparr>) else Inl (port_refused (decimal k)))"
proof -
  obtain w where w: "tcp_inv (Naming True prog) w" "a_parsed (w_apps w ! 2) = 1" "a_parsed (w_apps w ! 3) = 0"
      "w_vars w = main_vars_init\<lparr>mv_server_port := snd (port_of (decimal k) main_vars_init)\<rparr>"
    and run: "parse_char_t m 0 (server_line prog (decimal k)) (main_world env) =
        (if fst (port_of (decimal k) main_vars_init) then Inr () else Inl (ConversionError_results ''--port'' [decimal k]), w)"
    using server_line_parsed [OF assms decimal_plain(1,2)] by blast
  show ?thesis
  proof (cases "k < 65536")
    case True
    then show ?thesis
      using w run port_of_decimal_small [OF True] by (simp add: main_parse_def m_catch_def comp_simps)
  next
    case False
    then have "\<not> fst (port_of (decimal k) main_vars_init)" using port_of_decimal by (metis fst_conv)
    moreover obtain err where err: "ConversionError_results ''--port'' [decimal k] = Cli err"
      by (simp add: ConversionError_results_def ConversionError_def error_named_def)
    ultimately show ?thesis
      using w run False port_refused_exit [OF w(1) decimal_plain(3) err, of m] by (simp add: main_parse_def m_catch_def comp_simps)
  qed
qed
end
