(* ===== verification/Cli_Config_Correct.thy ===== *)
theory Cli_Config_Correct
  imports Cli_Config Cli_Results_Correct
begin

text \<open>
  Reading back what was written: a line with the name of an option and its values, quoted by
  \<^verbatim>\<open>ini_join\<close>, gives an item whose inputs are the values again when an option takes them.
\<close>

section \<open>Texts the writer makes of a value\<close>

text \<open>
  A text in quotes closes at its last character; any other text consists of letters, digits and
  the characters of a number.
\<close>

definition bare_char :: "char \<Rightarrow> bool" where
  "bare_char c \<longleftrightarrow> isalpha_char c \<or> float_char c"

definition quoted_text :: "char \<Rightarrow> string \<Rightarrow> bool" where
  "quoted_text q t \<longleftrightarrow>
     q = CHR 0x22 \<and> (\<exists>s. t = [q] @ add_escaped_characters s @ [q])
     \<or> q = CHR 0x27 \<and> (\<exists>b. q \<notin> set b \<and> t = [q] @ b @ [q])"

definition written_text :: "string \<Rightarrow> bool" where
  "written_text t \<longleftrightarrow> newline \<notin> set t \<and> (quoted_text (hd t) t \<or> t \<noteq> [] \<and> list_all bare_char t)"

lemma close_string_escaped:
  "close_string_from (pre @ add_escaped_characters s @ CHR 0x22 # post) (CHR 0x22) (length pre) =
     length pre + length (add_escaped_characters s)"
proof (induction s arbitrary: pre)
  case Nil
  then show ?case by (subst close_string_from.simps) (simp add: add_escaped_characters_def nth_append)
next
  case (Cons c s)
  show ?case
  proof (cases "char_pos escapedChars c")
    case None
    then have "c \<noteq> CHR 0x5C" "c \<noteq> CHR 0x22" by (auto simp: char_pos_def escapedChars_def)
    with None Cons [of "pre @ [c]"] show ?thesis
      by (subst close_string_from.simps) (simp add: add_escaped_characters_def nth_append)
  next
    case (Some i)
    with Cons [of "pre @ [CHR 0x5C, escapedCharsCode ! i]"] show ?thesis
      by (subst close_string_from.simps) (simp add: add_escaped_characters_def nth_append)
  qed
qed

lemma find_pos_append_not: "\<forall>c \<in> set xs. \<not> P c \<Longrightarrow> find_pos P (xs @ ys) = map_option ((+) (length xs)) (find_pos P ys)"
  by (induction xs) (cases "find_pos P ys"; simp add: option.map_comp comp_def)+

lemma close_quoted:
  assumes "quoted_text q t"
  shows "close_sequence (pre @ t @ post) (length pre) q = length pre + (length t - 1)"
  using assms unfolding quoted_text_def
proof (elim disjE conjE exE)
  fix s assume "q = CHR 0x22" and "t = [q] @ add_escaped_characters s @ [q]"
  with close_string_escaped [of "pre @ [q]" s post] show ?thesis
    by (simp add: close_sequence_def char_pos_def matchBracketChars_def close_string_quote_def)
next
  fix b assume b: "q = CHR 0x27" "q \<notin> set b" and t: "t = [q] @ b @ [q]"
  then have "find_pos (\<lambda>c. c = q) (b @ q # post) = Some (length b)"
    by (subst find_pos_append_not) auto
  with b t show ?thesis
    by (simp add: close_sequence_def char_pos_def matchBracketChars_def close_literal_quote_def
        find_from_def)
qed

lemma quoted_shape:
  assumes "quoted_text q t"
  shows "\<exists>b. t = q # b @ [q]" and "q = CHR 0x22 \<or> q = CHR 0x27"
  using assms by (auto simp: quoted_text_def)

lemma not_bare: "list_all (\<lambda>c. \<not> bare_char c)
    (bracketChars @ [CHR '','', CHR 0x23, CHR ''='', CHR '']'', CHR '' '', CHR 0x5C, CHR '';'', CHR 0x00, newline])"
  by code_simp

lemma bare_facts:
  assumes "bare_char c"
  shows "\<not> isspace c" and "char_pos bracketChars c = None" and "c \<notin> set bracketChars"
proof -
  have "of_char (CHR ''.'') = (46 :: nat)" "of_char (CHR ''-'') = (45 :: nat)" "of_char (CHR ''+'') = (43 :: nat)"
    "of_char (CHR ''e'') = (101 :: nat)" "of_char (CHR ''E'') = (69 :: nat)" by simp_all
  with assms show "\<not> isspace c"
    by (auto simp: bare_char_def isalpha_char_def float_char_def decimal_char_def isspace_def Let_def)
  show *: "c \<notin> set bracketChars" using not_bare assms by (auto simp: list_all_iff)
  then show "char_pos bracketChars c = None" by (auto simp: char_pos_def find_pos_None)
qed

lemma trim_id: "s \<noteq> [] \<Longrightarrow> \<not> isspace (hd s) \<Longrightarrow> \<not> isspace (last s) \<Longrightarrow> trim s = s"
proof -
  assume s: "s \<noteq> []" "\<not> isspace (hd s)" "\<not> isspace (last s)"
  then have "dropWhile isspace (List.rev s) = List.rev s" by (cases s rule: rev_cases) auto
  with s show ?thesis by (cases s) (auto simp: trim_def ltrim_def rtrim_def)
qed

lemma quote_not_space: "\<not> isspace (CHR 0x22)" "\<not> isspace (CHR 0x27)"
  by (simp_all add: isspace_def)

lemma written_ends:
  assumes "written_text t"
  shows "t \<noteq> []" and "\<not> isspace (hd t)" and "\<not> isspace (last t)" and "hd t \<noteq> CHR ''[''"
proof -
  have "t \<noteq> [] \<and> \<not> isspace (hd t) \<and> \<not> isspace (last t) \<and> hd t \<noteq> CHR ''[''"
  proof (cases "quoted_text (hd t) t")
    case True
    from quoted_shape(1) [OF True] obtain b where t: "t = hd t # b @ [hd t]" by blast
    then have l: "last t = hd t" by (rule ssubst) simp
    have ne: "t \<noteq> []" using t by (rule ssubst) simp
    from quoted_shape(2) [OF True] show ?thesis
      by (elim disjE) (simp_all add: l ne quote_not_space)
  next
    case False
    with assms have t: "t \<noteq> []" "\<forall>c \<in> set t. bare_char c" by (auto simp: written_text_def list_all_iff)
    then have "bare_char (hd t)" "bare_char (last t)" by auto
    from bare_facts(1) [OF this(1)] bare_facts(1) [OF this(2)] bare_facts(3) [OF this(1)] t show ?thesis
      by (auto simp: bracketChars_def)
  qed
  then show "t \<noteq> []" "\<not> isspace (hd t)" "\<not> isspace (last t)" "hd t \<noteq> CHR ''[''" by blast+
qed

section \<open>Splitting written texts\<close>

text \<open>A delimiter that does not occur in texts without quotes.\<close>

definition outer_char :: "char \<Rightarrow> bool" where
  "outer_char d \<longleftrightarrow> \<not> bare_char d"

lemma quoted_bracket:
  assumes "q = CHR 0x22 \<or> q = CHR 0x27"
  obtains b where "char_pos bracketChars q = Some b" "matchBracketChars ! b = q"
  using assms by (auto simp: char_pos_def bracketChars_def matchBracketChars_def)

lemma split_written:
  assumes t: "written_text t" and d: "outer_char d" and "d = CHR 0x00 \<or> \<not> isspace d"
  shows "split_up_loop t d = [t]"
    and "d \<noteq> CHR 0x00 \<Longrightarrow> split_up_loop (t @ d # rest) d = t # split_up_loop (trim rest) d"
proof -
  consider (quoted) "quoted_text (hd t) t" | (bare) "t \<noteq> []" "list_all bare_char t"
    using t by (auto simp: written_text_def)
  then have "split_up_loop t d = [t]
      \<and> (d \<noteq> CHR 0x00 \<longrightarrow> split_up_loop (t @ d # rest) d = t # split_up_loop (trim rest) d)"
  proof cases
    case quoted
    from quoted_shape(1) [OF quoted] obtain b where b: "t = hd t # b @ [hd t]" by blast
    from quoted_shape(2) [OF quoted] obtain k where
      k: "char_pos bracketChars (hd t) = Some k" "matchBracketChars ! k = hd t" by (rule quoted_bracket)
    have len: "length t = length b + 2" by (subst b) simp
    have "split_up_loop (t @ more) d =
        t # split_up_loop (trim (if length t + 1 < length (t @ more) then drop (length t + 1) (t @ more) else [])) d" for more
    proof -
      have "t \<noteq> []" using len by auto
      then show ?thesis
        using close_quoted [OF quoted, of "[]" more] k len
        by (subst split_up_loop.simps) (simp add: Let_def hd_append)
    qed
    from this [of "[]"] this [of "d # rest"] show ?thesis
      by (simp add: split_up_loop.simps [of "[]"] trim_def ltrim_def rtrim_def)
  next
    case bare
    have none: "\<forall>c \<in> set t. \<not> (if d = CHR 0x00 then isspace c else c = d)"
      using bare d by (auto simp: list_all_iff outer_char_def dest: bare_facts)
    have "char_pos bracketChars (hd t) = None"
      using bare by (auto simp: list_all_iff intro!: bare_facts)
    then show ?thesis
      using bare(1) none find_pos_append_not [OF none, of "[]"]
      by (auto simp: split_up_loop.simps [of t] split_up_loop.simps [of "t @ d # rest"] find_pos_append_not hd_append
          split: if_splits)
  qed
  then show "split_up_loop t d = [t]"
    "d \<noteq> CHR 0x00 \<Longrightarrow> split_up_loop (t @ d # rest) d = t # split_up_loop (trim rest) d" by blast+
qed

lemma join_ends:
  assumes "ts \<noteq> []" and "\<forall>t \<in> set ts. written_text t"
  shows "join_parts ts sep \<noteq> []" and "hd (join_parts ts sep) = hd (hd ts)"
    and "last (join_parts ts sep) = last (last ts)"
  using assms
  by (induction ts sep rule: join_parts.induct) (auto simp: written_ends hd_append)

lemma trim_blank: "trim (CHR '' '' # s) = trim s"
proof -
  have "rtrim (CHR '' '' # s) = (if rtrim s = [] then [] else CHR '' '' # rtrim s)"
    by (simp add: rtrim_def dropWhile_append isspace_def)
  then show ?thesis by (simp add: trim_def ltrim_def isspace_def)
qed

lemma split_joined:
  assumes "ts \<noteq> []" and "\<forall>t \<in> set ts. written_text t"
  shows "split_up (join_parts ts '', '') (CHR '','') = ts"
proof -
  have comma: "outer_char (CHR '','')" "\<not> isspace (CHR '','')"
    using not_bare by (simp_all add: outer_char_def isspace_def)
  have trimmed: "us \<noteq> [] \<Longrightarrow> \<forall>t \<in> set us. written_text t \<Longrightarrow> trim (join_parts us '', '') = join_parts us '', ''" for us
    by (rule trim_id) (simp_all add: join_ends written_ends)
  have "split_up_loop (join_parts ts '', '') (CHR '','') = ts"
    using assms
  proof (induction ts rule: induct_list012)
    case (2 t)
    then show ?case using split_written(1) [of t "CHR '',''"] comma by simp
  next
    case (3 t u us)
    then show ?case
      using split_written(2) [of t "CHR '',''" "CHR '' '' # join_parts (u # us) '', ''"] comma trimmed [of "u # us"]
      by (simp add: trim_blank)
  qed simp
  then show ?thesis by (simp add: split_up_def trimmed [OF assms])
qed

text \<open>The bracket behind joined texts closes the array they are in.\<close>

lemma close_plain_step:
  assumes "str ! loc \<noteq> CHR '']''" and "loc < length str" and "char_pos bracketChars (str ! loc) = None"
  shows "close_sequence_loop str loc '']'' = close_sequence_loop str (loc + 1) '']''"
  using assms by (subst close_sequence_loop.simps) simp

lemma close_over_text:
  assumes "written_text t"
  shows "close_sequence_loop (pre @ t @ post) (length pre) '']'' =
    close_sequence_loop (pre @ t @ post) (length pre + length t) '']''"
proof (cases "quoted_text (hd t) t")
  case True
  from quoted_shape(1) [OF True] obtain b where t: "t = hd t # b @ [hd t]" by blast
  have len: "length t = length b + 2" by (subst t) simp
  have "(pre @ t @ post) ! length pre = hd t" by (subst t) (simp add: nth_append)
  with quoted_shape(2) [OF True] close_quoted [OF True, of pre post] len show ?thesis
    by (subst close_sequence_loop.simps)
      (auto simp: close_sequence_def char_pos_def matchBracketChars_def bracketChars_def)
next
  case False
  with assms have "\<forall>c \<in> set t. bare_char c" by (auto simp: written_text_def list_all_iff)
  then show ?thesis
  proof (induction t arbitrary: pre)
    case (Cons c t)
    then have "c \<noteq> CHR '']''" using not_bare by auto
    with Cons.prems Cons.IH [of "pre @ [c]"] bare_facts(2) [of c] show ?case
      by (subst close_plain_step) (auto simp: nth_append)
  qed simp
qed

lemma close_over_joined:
  assumes "ts \<noteq> []" and "\<forall>t \<in> set ts. written_text t"
  shows "close_sequence_loop (pre @ join_parts ts '', '' @ CHR '']'' # post) (length pre) '']'' =
    length pre + length (join_parts ts '', '')"
  using assms
proof (induction ts arbitrary: pre rule: induct_list012)
  case (2 t)
  then show ?case
    using close_over_text [of t pre "CHR '']'' # post"]
    by (simp add: close_sequence_loop.simps [of _ "length pre + length t"] nth_append)
next
  case (3 t u us)
  let ?rest = "join_parts (u # us) '', '' @ CHR '']'' # post"
  have step: "close_sequence_loop ((pre @ t @ '', '') @ ?rest) (length pre + length t) '']''
      = close_sequence_loop ((pre @ t @ '', '') @ ?rest) (length (pre @ t @ '', '')) '']''"
    by (subst close_plain_step, simp_all add: nth_append char_pos_def bracketChars_def)
      (subst close_plain_step, simp_all add: nth_append char_pos_def bracketChars_def)
  show ?case
    using close_over_text [of t pre "'', '' @ ?rest"] step 3(2) [of "pre @ t @ '', ''"] 3 by simp
qed simp

lemma split_array:
  assumes "ts \<noteq> []" and "\<forall>t \<in> set ts. written_text t"
  shows "split_up (''['' @ join_parts ts '', '' @ '']'') (CHR 0x23) = [''['' @ join_parts ts '', '' @ '']'']"
proof -
  have "trim (''['' @ join_parts ts '', '' @ '']'') = ''['' @ join_parts ts '', '' @ '']''"
    by (rule trim_id) (simp_all add: isspace_def)
  then show ?thesis
    using close_over_joined [OF assms, of "''[''" "[]"]
    by (simp add: split_up_def)
      (subst split_up_loop.simps,
        simp add: char_pos_def bracketChars_def matchBracketChars_def close_sequence_def
          split_up_loop.simps [of "[]"] trim_def ltrim_def rtrim_def)
qed

section \<open>The text of a value\<close>

abbreviation written_value :: "string \<Rightarrow> bool \<Rightarrow> string" where
  "written_value arg dis \<equiv> convert_arg_for_ini arg (CHR 0x22) (CHR 0x27) dis"

definition reads_back :: "string \<Rightarrow> string \<Rightarrow> bool" where
  "reads_back t arg \<longleftrightarrow>
     written_text t
     \<and> (\<exists>b. process_quoted_string t (CHR 0x22) (CHR 0x27) False = Inr (b, handle_secondary_array arg))"

lemma bare_reads_back:
  assumes "list_all bare_char t" and "t \<noteq> []"
  shows "reads_back t t"
proof -
  have not_in: "c \<notin> set t" if "\<not> bare_char c" for c using assms(1) that by (auto simp: list_all_iff)
  have quotes: "CHR 0x22 \<notin> set t" "CHR 0x27 \<notin> set t" "CHR 0x60 \<notin> set t" "CHR ''['' \<notin> set t" "newline \<notin> set t"
    using not_bare by (auto intro!: not_in simp: bracketChars_def)
  have hd: "hd t \<in> set t" using assms(2) by simp
  have "CHR 0x22 \<notin> set (take n t)" for n using quotes(1) in_set_takeD by metis
  then have "\<not> is_binary_escaped_string t"
    by (auto simp: is_binary_escaped_string_def compare_at_def) (metis list.set_intros)+
  moreover have "hd t \<noteq> CHR 0x22" "hd t \<noteq> CHR 0x27" "hd t \<noteq> CHR 0x60" "hd t \<noteq> CHR ''[''"
    using quotes hd by metis+
  ultimately show ?thesis
    using assms quotes(5)
    by (auto simp: reads_back_def written_text_def process_quoted_string_def handle_secondary_array_def)
qed

lemma newline_not_escaped: "newline \<notin> set (add_escaped_characters s)"
proof -
  have "newline \<notin> set (case char_pos escapedChars c of Some i \<Rightarrow> [CHR 0x5C, escapedCharsCode ! i] | None \<Rightarrow> [c])" for c
  proof (cases "char_pos escapedChars c")
    case None
    then have "c \<noteq> newline" by (auto simp: char_pos_def escapedChars_def)
    with None show ?thesis by simp
  next
    case (Some i)
    then have "i < length escapedCharsCode"
      using char_pos_Some [OF Some] by (simp add: escapedChars_def escapedCharsCode_def)
    then have "escapedCharsCode ! i \<in> set escapedCharsCode" by (rule nth_mem)
    moreover have "newline \<notin> set escapedCharsCode" by (simp add: escapedCharsCode_def)
    ultimately have "escapedCharsCode ! i \<noteq> newline" by metis
    with Some show ?thesis by simp
  qed
  then show ?thesis by (auto simp: add_escaped_characters_def)
qed

lemma not_escapable:
  "\<not> has_escapable_character s \<Longrightarrow> add_escaped_characters s = s"
  "\<not> has_escapable_character s \<Longrightarrow> CHR 0x5C \<notin> set s"
proof -
  assume "\<not> has_escapable_character s"
  then have none: "\<forall>c \<in> set s. c \<notin> set escapedChars"
    by (auto simp: has_escapable_character_def find_first_of_None)
  then show "CHR 0x5C \<notin> set s" by (auto simp: escapedChars_def)
  show "add_escaped_characters s = s"
    using none by (induction s) (auto simp: add_escaped_characters_def char_pos_def find_pos_None split: option.split)
qed

lemma escapable_backslash:
  assumes "has_escapable_character s"
  shows "CHR 0x5C \<in> set (add_escaped_characters s)"
proof -
  from assms obtain c where "c \<in> set s" "c \<in> set escapedChars"
    by (auto simp: has_escapable_character_def find_first_of_None)
  then have "char_pos escapedChars c \<noteq> None" by (auto simp: char_pos_def find_pos_None)
  with \<open>c \<in> set s\<close> show ?thesis by (force simp: add_escaped_characters_def)
qed

lemma string_reads_back: "reads_back ([CHR 0x22] @ add_escaped_characters s @ [CHR 0x22]) s"
proof -
  let ?t = "[CHR 0x22] @ add_escaped_characters s @ [CHR 0x22]"
  have "\<not> is_binary_escaped_string ?t" by (simp add: is_binary_escaped_string_def compare_at_def)
  moreover have "remove_outer ?t (CHR 0x22) = add_escaped_characters s"
    by (simp add: remove_outer_def butlast_append)
  moreover have "find_first_of (add_escaped_characters s) [CHR 0x5C] = None \<Longrightarrow> add_escaped_characters s = s"
    using not_escapable(1) escapable_backslash by (auto simp: find_first_of_None)
  ultimately have "\<exists>b. process_quoted_string ?t (CHR 0x22) (CHR 0x27) False = Inr (b, handle_secondary_array s)"
    by (auto simp: process_quoted_string_def Let_def remove_escaped_characters_def
        unescape_escaped [where out = "[]", simplified])
  then show ?thesis
    by (auto simp: reads_back_def written_text_def quoted_text_def newline_not_escaped)
qed

lemma binary_printable: "c \<in> set (binary_body e s) \<Longrightarrow> isprint c \<and> c \<noteq> CHR 0x27"
proof (induction e s rule: binary_body.induct)
  case (2 escaped d cs)
  have "(of_char d :: nat) div 16 < 16" "(of_char d :: nat) mod 16 < 16"
    by (simp_all add: less_mult_imp_div_less)
  note hex_digit(2,3) [OF this(1)] hex_digit(2,3) [OF this(2)]
  with 2 show ?case by (auto simp: hex_byte_def isprint_def split: if_splits)
qed simp

lemma binary_reads_back:
  assumes "\<not> list_all isprint s"
  shows "reads_back (binary_escape_string s False) s"
proof -
  have "list_all isprint (quote_escape (binary_escape_chars s []))"
    by (auto simp: binary_body_eq list_all_iff dest: binary_printable)
  moreover have "\<not> list_all isprint (quote_escape s)"
    using assms by (induction s) (auto simp: isprint_def)
  ultimately have "binary_escape_chars s [] \<noteq> s" by metis
  then have "binary_escape_string s False = binary_escape_string s True" by (simp add: binary_escape_string_def)
  moreover have t: "binary_escape_string s True =
      [CHR 0x27] @ ([CHR ''B'', CHR 0x22, CHR ''(''] @ binary_body False s @ [CHR '')'', CHR 0x22]) @ [CHR 0x27]"
    by (simp add: binary_escape_string_def binary_body_eq)
  moreover have "CHR 0x27 \<notin> set (binary_body False s)" "newline \<notin> set (binary_body False s)"
    using binary_printable [of _ False s] by (auto simp: isprint_def dest: binary_printable)
  moreover have "is_binary_escaped_string (binary_escape_string s True)"
    by (simp add: is_binary_escaped_string_def binary_escape_string_def compare_at_def)
  moreover have "length (binary_escape_string s True) > 1" by (simp add: binary_escape_string_def)
  moreover note extract_binary_escape [of s]
  ultimately show ?thesis
    unfolding reads_back_def written_text_def quoted_text_def process_quoted_string_def Let_def by auto
qed

lemma literal_reads_back:
  assumes "isprint c" and "c \<noteq> CHR 0x27"
  shows "reads_back [CHR 0x27, c, CHR 0x27] [c]"
  using assms
  by (auto simp: reads_back_def written_text_def quoted_text_def process_quoted_string_def isprint_def
      is_binary_escaped_string_def compare_at_def remove_outer_def handle_secondary_array_def)

lemma digit_bare: "digit_of base x \<noteq> None \<Longrightarrow> base \<le> 16 \<Longrightarrow> bare_char x"
  by (auto simp: digit_of_def bare_char_def isalpha_char_def float_char_def decimal_char_def Let_def split: if_splits)

lemma based_bare:
  assumes "is_based_number arg" and "length arg > 1"
  shows "list_all bare_char arg"
proof -
  obtain c d ds where arg: "arg = c # d # ds" using assms(2) by (cases arg; cases "tl arg") auto
  have "bare_char (CHR ''0'')" "bare_char (CHR ''x'')" "bare_char (CHR ''o'')" "bare_char (CHR ''b'')" by code_simp+
  with assms(1) show ?thesis
    by (auto simp: arg is_based_number_def list_all_iff intro!: digit_bare)
qed

text \<open>Only a string that is written on several lines does not give the value back.\<close>

lemma convert_reads_back:
  assumes "length arg \<le> 100 \<or> dis \<or> \<not> has_escapable_character arg"
  shows "reads_back (written_value arg dis) arg"
proof -
  have words: "list_all bare_char ''true''" "list_all bare_char ''false''" "list_all bare_char ''nan''"
    "list_all bare_char ''inf''" by code_simp+
  have number: "is_number_text arg \<Longrightarrow> list_all bare_char arg"
    by (auto simp: is_number_text_def bare_char_def list_all_iff)
  have escaped_quote: "add_escaped_characters [CHR 0x27] = [CHR 0x27]"
    by (simp add: add_escaped_characters_def char_pos_def escapedChars_def)
  have single: "length arg = 1 \<Longrightarrow> arg = [hd arg]" by (cases arg) auto
  have unprintable: "\<not> is_printable arg \<Longrightarrow> \<not> list_all isprint arg"
    by (auto simp: is_printable_def list_all_iff)
  let ?number = "take 2 arg \<noteq> ''0x'' \<and> take 2 arg \<noteq> ''0X'' \<and> is_number_text arg"
  consider "arg = []" | "arg \<in> {''true'', ''false'', ''nan'', ''inf''}"
    | (rest) "arg \<noteq> []" "arg \<notin> {''true'', ''false'', ''nan'', ''inf''}" by blast
  then show ?thesis
  proof cases
    case 1
    then show ?thesis using string_reads_back [of "[]"] by (simp add: convert_arg_for_ini_def add_escaped_characters_def)
  next
    case 2
    then show ?thesis using words bare_reads_back [of arg] by (auto simp: convert_arg_for_ini_def)
  next
    case rest
    consider ?number | (one) "\<not> ?number" "length arg = 1" | (based) "\<not> ?number" "length arg \<noteq> 1" "is_based_number arg"
      | (binary) "\<not> ?number" "length arg \<noteq> 1" "\<not> is_based_number arg" "\<not> is_printable arg"
      | (plain) "\<not> ?number" "length arg \<noteq> 1" "\<not> is_based_number arg" "is_printable arg" by blast
    then show ?thesis
    proof cases
      case 1
      with rest number bare_reads_back [of arg] show ?thesis by (simp add: convert_arg_for_ini_def)
    next
      case one
      then obtain c where c: "arg = [c]" by (metis single)
      with one rest have "written_value arg dis =
          (if \<not> isprint c then binary_escape_string arg False
           else if c = CHR 0x27 then [CHR 0x22] @ add_escaped_characters arg @ [CHR 0x22] else [CHR 0x27, c, CHR 0x27])"
        by (simp add: convert_arg_for_ini_def escaped_quote)
      with c binary_reads_back [of arg] string_reads_back [of arg] literal_reads_back [of c] show ?thesis by auto
    next
      case based
      with rest have "list_all bare_char arg" by (intro based_bare) (cases arg; cases "tl arg"; simp)+
      with based rest bare_reads_back [of arg] show ?thesis by (simp add: convert_arg_for_ini_def)
    next
      case binary
      with rest have "written_value arg dis = binary_escape_string arg False" by (auto simp: convert_arg_for_ini_def)
      with binary unprintable binary_reads_back show ?thesis by simp
    next
      case plain
      with rest have "written_value arg dis = [CHR 0x22] @ add_escaped_characters arg @ [CHR 0x22]"
        using assms not_escapable(1) [of arg] by (auto simp: convert_arg_for_ini_def)
      with string_reads_back show ?thesis by simp
    qed
  qed
qed

section \<open>A line with a name and values\<close>

lemma toml_fields:
  "cf_commentChar config_toml = CHR 0x23" "cf_valueDelimiter config_toml = CHR ''=''"
  "cf_parentSeparatorChar config_toml = CHR ''.''" "cf_maximumLayers config_toml = 255"
  "cf_configSection config_toml = []" "cf_allowMultipleDuplicateFields config_toml = False"
  "cf_stringQuote config_toml = CHR 0x22" "cf_literalQuote config_toml = CHR 0x27"
  "aStart config_toml = CHR ''[''" "aEnd config_toml = CHR '']''" "aSep config_toml = CHR '',''"
  "isDefaultArray config_toml"
  by (simp_all add: config_toml_def aStart_def aEnd_def aSep_def isDefaultArray_def isINIArray_def)

definition key_char :: "char \<Rightarrow> bool" where
  "key_char c \<longleftrightarrow> isalpha_char c \<or> decimal_char c \<or> c = CHR ''-'' \<or> c = CHR ''_''"

definition plain_key :: "string \<Rightarrow> bool" where
  "plain_key key \<longleftrightarrow> key \<noteq> [] \<and> list_all key_char key"

lemma not_key: "list_all (\<lambda>c. \<not> key_char c)
    (bracketChars @ [CHR ''.'', CHR 0x23, CHR ''='', CHR '';'', CHR '' '', CHR 0x09, newline])"
  by code_simp

lemma plain_key_not_in: "plain_key key \<Longrightarrow> \<not> key_char c \<Longrightarrow> c \<notin> set key"
  by (auto simp: plain_key_def list_all_iff)

lemma plain_key_facts:
  assumes "plain_key key"
  shows "set key \<inter> set [CHR 0x22, CHR 0x27, CHR 0x60, CHR ''['', CHR ''.'', CHR 0x23, CHR ''='', CHR '';'', CHR '' '',
      CHR 0x09, newline] = {}"
  using plain_key_not_in [OF assms] not_key by (auto simp: bracketChars_def)

lemma key_not_space: "key_char c \<Longrightarrow> \<not> isspace c"
proof -
  have "of_char (CHR ''-'') = (45 :: nat)" "of_char (CHR ''_'') = (95 :: nat)" by simp_all
  then show "key_char c \<Longrightarrow> \<not> isspace c"
    by (auto simp: key_char_def isalpha_char_def decimal_char_def isspace_def Let_def)
qed

lemma trim_key: "plain_key key \<Longrightarrow> trim key = key"
  by (rule trim_id) (auto simp: plain_key_def list_all_iff intro!: key_not_space)

lemma key_position:
  fixes v :: string
  assumes key: "plain_key key"
  defines "line \<equiv> key @ CHR ''='' # v"
  shows "\<exists>c. key_delimiter config_toml line = (Some (length key), c)"
proof -
  note facts = plain_key_facts [OF key]
  have ne: "key \<noteq> []" using key by (simp add: plain_key_def)
  have sep: "find_from (\<lambda>c. c \<in> set [CHR ''.'', CHR 0x23, CHR ''='']) line 0 = Some (length key)"
    unfolding line_def find_from_def using facts by (subst drop0, subst find_pos_append_not) auto
  have first: "line ! 0 = hd key" "hd key \<in> set key" "line ! length key = CHR ''=''" "length key < length line"
    using ne by (auto simp: line_def nth_append hd_conv_nth)
  have "hd key \<notin> set [CHR 0x22, CHR 0x27, CHR 0x60, CHR ''.'', CHR 0x23, CHR ''='', CHR '' '', CHR 0x09]"
    using facts first(2) by auto
  moreover have "key_scan config_toml line (length key) = Some (length key - 1)"
    using first ne by (subst key_scan.simps) (simp add: toml_fields)
  moreover have "0 < length line" using first(4) by linarith
  ultimately have "key_scan config_toml line 0 = Some (length key - 1)"
    using sep first(1) by (subst key_scan.simps) (simp add: toml_fields Let_def)
  then obtain s where s: "key_start config_toml line = Some s" "s + 1 \<le> length key"
    using ne by (cases "find_first_of line [CHR 0x22, CHR 0x27, CHR 0x60] \<noteq> None")
      (auto simp: key_start_def Suc_le_eq)
  have "drop (s + 1) line = drop (s + 1) key @ CHR ''='' # v" using s(2) by (simp add: line_def)
  moreover have "CHR ''='' \<notin> set (drop (s + 1) key)" using facts in_set_dropD by fastforce
  moreover from this have "find_pos (\<lambda>c. c = CHR ''='') (drop (s + 1) key @ CHR ''='' # v)
      = Some (length (drop (s + 1) key))"
    by (subst find_pos_append_not) auto
  ultimately have delim: "find_from (\<lambda>c. c = CHR ''='') line (s + 1) = Some (length key)"
    unfolding find_from_def using s(2) by simp
  have comment: "\<not> c < length key" if "find_from (\<lambda>c. c = CHR 0x23) line s = Some c" for c
  proof
    assume "c < length key"
    then have "line ! c \<in> set key" by (simp add: line_def nth_append)
    moreover have "line ! c = CHR 0x23" using find_from_split [OF that] by blast
    ultimately show False using facts by simp
  qed
  show ?thesis
    using s(1) delim comment
    by (cases "find_from (\<lambda>c. c = CHR 0x23) line s")
      (auto simp: key_delimiter_def toml_fields Let_def)
qed

lemma getlines_one: "newline \<notin> set line \<Longrightarrow> getlines (line @ [newline]) newline acc = [acc @ line]"
  by (induction line arbitrary: acc) auto

text \<open>What a text behind the delimiter must be like: no blanks around it, not several lines.\<close>

definition value_text :: "string \<Rightarrow> bool" where
  "value_text v \<longleftrightarrow>
     v \<noteq> [] \<and> \<not> isspace (hd v) \<and> \<not> isspace (last v) \<and> newline \<notin> set v \<and> split_up v (CHR 0x23) = [v]
     \<and> take 3 v \<noteq> multiline_literal_quote \<and> take 3 v \<noteq> multiline_string_quote"

definition value_items :: "string \<Rightarrow> string list" where
  "value_items v =
     (if hd v = CHR ''['' then array_items config_toml v
      else if CHR '','' \<in> set v then split_up v (CHR '','')
      else if CHR '' '' \<in> set v then split_up v (CHR 0x00)
      else [v])"

lemma read_value_text:
  assumes v: "value_text v" and closed: "hd v = CHR ''['' \<Longrightarrow> last v = CHR '']''"
  shows "read_value config_toml buffer (key @ CHR ''='' # v) (length key) c lines = (Inr (value_items v), lines)"
proof -
  have "trim_copy v = v" using v by (simp add: trim_copy_def trim_id value_text_def)
  moreover have "hd v = CHR ''['' \<Longrightarrow> array_lines (CHR '']'') v lines = (v, lines)"
    using closed by (cases lines) auto
  ultimately show ?thesis
    using v
    by (auto simp: read_value_def value_text_def value_items_def toml_fields Let_def)
qed

lemma read_key_value:
  assumes key: "plain_key key" and v: "value_text v" and closed: "hd v = CHR ''['' \<Longrightarrow> last v = CHR '']''"
    and vs: "unquote_all config_toml (value_items v) = Inr vs"
  shows "from_config config_toml (key @ [CHR ''=''] @ v @ [newline]) = Inr [item_of [] key vs]"
proof -
  let ?line = "key @ CHR ''='' # v"
  note facts = plain_key_facts [OF key]
  have ne: "key \<noteq> []" and hd: "hd key \<in> set key" using key by (auto simp: plain_key_def)
  have "newline \<notin> set ?line" using facts v by (auto simp: value_text_def)
  then have lines: "getlines (key @ CHR ''='' # v @ [newline]) newline [] = [?line]"
    using getlines_one [of ?line "[]"] by simp
  have trimmed: "trim_copy ?line = ?line"
    unfolding trim_copy_def using key v hd key_not_space ne
    by (intro trim_id) (auto simp: plain_key_def value_text_def list_all_iff)
  have name: "process_quoted_string key (CHR 0x22) (CHR 0x27) True = Inr (False, key)"
  proof -
    have "CHR 0x22 \<notin> set (take n key)" for n using facts in_set_takeD by fastforce
    then have "\<not> is_binary_escaped_string key"
      by (auto simp: is_binary_escaped_string_def compare_at_def) (metis list.set_intros)+
    with facts hd show ?thesis by (auto simp: process_quoted_string_def)
  qed
  have parents: "generate_parents ''default'' key (CHR ''.'') = Inr ([], key)"
    using facts by (auto simp: generate_parents_def to_lower_def tolower_def)
  obtain c where delim: "key_delimiter config_toml ?line = (Some (length key), c)" using key_position [OF key] by blast
  have entry: "read_entry config_toml ?line ?line rd = Inr (rd\<lparr>rd_output := [item_of [] key vs]\<rparr>)"
    if "rd_currentSection rd = ''default''" "rd_output rd = []" for rd
    using that parents name vs trim_key [OF key] read_value_text [OF v closed, of ?line key c "rd_lines rd"]
    by (simp add: read_entry_def delim trim_copy_def toml_fields select_item_def store_item_def
        find_matching_config_def)
  have "hd ?line = hd key" using ne by simp
  moreover have "take 3 ?line \<noteq> multiline_string_quote" "take 3 ?line \<noteq> multiline_literal_quote"
    using facts hd ne by (cases key; auto simp: multiline_string_quote_def multiline_literal_quote_def numeral_3_eq_3)+
  moreover have "length ?line \<ge> 3" using ne v by (cases key; cases v) (auto simp: value_text_def)
  ultimately have line: "read_line config_toml ?line rd = Inr (rd\<lparr>rd_output := [item_of [] key vs]\<rparr>)"
    if "rd_currentSection rd = ''default''" "rd_output rd = []" for rd
    using entry [OF that] trimmed facts hd by (auto simp: read_line_def Let_def toml_fields)
  show ?thesis
    by (simp add: from_config_def lines read_lines.simps line close_current_def)
qed

section \<open>Writing and reading back\<close>

lemma escaped_head: "add_escaped_characters s = c # cs \<Longrightarrow> c \<noteq> CHR 0x22"
  by (cases s)
    (auto simp: add_escaped_characters_def char_pos_def escapedChars_def split: option.splits if_splits)

lemma written_not_multiline:
  assumes "written_text t"
  shows "take 3 t \<noteq> multiline_literal_quote" and "take 3 t \<noteq> multiline_string_quote"
proof -
  have "take 3 t \<noteq> replicate 3 q" if q: "q = CHR 0x22 \<or> q = CHR 0x27" for q
  proof
    assume *: "take 3 t = replicate 3 q"
    then obtain r where t: "t = q # q # q # r"
      by (cases t; cases "tl t"; cases "tl (tl t)") (auto simp: eval_nat_numeral)
    show False
    proof (cases "quoted_text (hd t) t")
      case True
      with t q escaped_head show False
        by (auto simp: quoted_text_def) (metis append_Cons append_Nil list.exhaust list.inject list.sel(1) list.set_intros(1))+
    next
      case False
      with assms have "bare_char q" by (simp add: t written_text_def)
      with not_bare q show False by (auto simp: bracketChars_def)
    qed
  qed
  then show "take 3 t \<noteq> multiline_literal_quote" "take 3 t \<noteq> multiline_string_quote"
    by (simp_all add: multiline_literal_quote_def multiline_string_quote_def)
qed

lemma value_single:
  assumes t: "written_text t"
  shows "value_text t" and "value_items t = [t]" and "hd t \<noteq> CHR ''[''"
proof -
  have outer: "outer_char (CHR 0x23)" "outer_char (CHR '','')" "outer_char (CHR 0x00)" "\<not> isspace (CHR 0x23)"
    "\<not> isspace (CHR '','')"
    using not_bare by (simp_all add: outer_char_def isspace_def)
  have "trim t = t" using written_ends [OF t] by (intro trim_id)
  then have "split_up t d = [t]" if "d \<in> {CHR 0x23, CHR '','', CHR 0x00}" for d
    using split_written(1) [OF t, of d] outer that by (auto simp: split_up_def)
  with written_ends [OF t] written_not_multiline [OF t] t
  show "value_text t" "value_items t = [t]" "hd t \<noteq> CHR ''[''"
    by (auto simp: value_text_def value_items_def written_text_def)
qed

lemma set_join_parts: "set (join_parts ts sep) \<subseteq> (\<Union>t \<in> set ts. set t) \<union> set sep"
  by (induction ts sep rule: join_parts.induct) auto

lemma value_array:
  assumes ts: "ts \<noteq> []" "\<forall>t \<in> set ts. written_text t"
  defines "v \<equiv> ''['' @ join_parts ts '', '' @ '']''"
  shows "value_text v" and "value_items v = ts" and "last v = CHR '']''"
proof -
  have "newline \<notin> set v" using set_join_parts [of ts "'', ''"] ts by (auto simp: v_def written_text_def)
  then show "value_text v"
    using split_array [OF ts]
    by (auto simp: value_text_def v_def isspace_def multiline_literal_quote_def multiline_string_quote_def
        numeral_3_eq_3)
  show "last v = CHR '']''" by (simp add: v_def)
  then show "value_items v = ts"
    using split_joined [OF ts] by (simp add: value_items_def array_items_def toml_fields v_def)
qed

lemma unquote_written:
  assumes "\<forall>arg \<in> set args. reads_back (f arg) arg"
  shows "unquote_all config_toml (map f args) = Inr (map handle_secondary_array args)"
  using assms by (induction args) (auto simp: reads_back_def toml_fields)

lemma line_reads_back:
  assumes key: "plain_key key" and ne: "args \<noteq> []"
    and short: "length args > 1 \<or> length (hd args) \<le> 100 \<or> \<not> has_escapable_character (hd args)"
  shows "from_config config_toml
      (key @ [CHR ''=''] @ ini_join args (CHR '','') (CHR ''['') (CHR '']'') (CHR 0x22) (CHR 0x27) @ [newline])
    = Inr [item_of [] key (map handle_secondary_array args)]"
proof (cases "length args > 1")
  case True
  have restored: "reads_back (written_value arg True) arg" for arg by (simp add: convert_reads_back)
  then have written: "\<forall>t \<in> set (map (\<lambda>arg. written_value arg True) args). written_text t"
    by (simp add: reads_back_def)
  note array = value_array [OF _ written]
  have "ini_join args (CHR '','') (CHR ''['') (CHR '']'') (CHR 0x22) (CHR 0x27) =
      ''['' @ join_parts (map (\<lambda>arg. written_value arg True) args) '', '' @ '']''"
    using True by (simp add: ini_join_def ini_separator_def isspace_def)
  then show ?thesis
    using read_key_value [OF key array(1,3)] array(2) ne unquote_written [of args "\<lambda>arg. written_value arg True"] restored
    by simp
next
  case False
  with ne obtain arg where args: "args = [arg]" by (cases args; cases "tl args") auto
  with short have restored: "reads_back (written_value arg False) arg" by (simp add: convert_reads_back)
  then have "written_text (written_value arg False)" by (simp add: reads_back_def)
  note single = value_single [OF this]
  have "ini_join args (CHR '','') (CHR ''['') (CHR '']'') (CHR 0x22) (CHR 0x27) = written_value arg False"
    by (simp add: ini_join_def args)
  then show ?thesis
    using read_key_value [OF key single(1)] single(2,3) unquote_written [of args "\<lambda>arg. written_value arg False"] restored
    by (simp add: args)
qed

lemma undouble_doubled: "undouble (concat (map (\<lambda>c. [c, c]) s)) = Some s"
  by (induction s) auto

text \<open>An option that takes the inputs of the item has the values again, brackets included.\<close>

lemma add_doubled:
  assumes "o_delimiter opt = CHR 0x00"
  shows "add_result_to opt (handle_secondary_array arg) res = (1, res @ [arg])"
proof (cases "length arg \<ge> 2 \<and> hd arg = CHR ''['' \<and> last arg = CHR '']''")
  case True
  then obtain mid where arg: "arg = ''['' @ mid @ '']''"
    by (cases arg; cases "tl arg" rule: rev_cases) auto

  let ?d = "concat (map (\<lambda>c. [c, c]) mid)"
  have "handle_secondary_array arg = ''[['' @ ?d @ '']]''" by (simp add: handle_secondary_array_def arg)
  then show ?thesis by (subst add_result_to.simps) (simp add: undouble_doubled arg nth_append)
next
  case False
  then have plain: "handle_secondary_array arg = arg" by (auto simp: handle_secondary_array_def)
  have "\<not> (arg \<noteq> [] \<and> hd arg = CHR ''['' \<and> last arg = CHR '']'')"
    using False by (cases arg; cases "tl arg") auto
  moreover from this have "\<not> (length arg \<ge> 4 \<and> arg ! 0 = CHR ''['' \<and> last arg = CHR '']'')"
    by (cases arg) auto
  ultimately show ?thesis
    unfolding plain using assms by (subst add_result_to.simps) auto
qed

lemma add_doubled_all:
  assumes "o_delimiter opt = CHR 0x00"
  shows "o_results (add_results (map handle_secondary_array args) opt) = o_results opt @ args"
proof -
  have "o_results (fold (\<lambda>str opt. opt\<lparr>o_results := snd (add_result_to opt str (o_results opt))\<rparr>)
      (map handle_secondary_array args) opt) = o_results opt @ args" if "o_delimiter opt = CHR 0x00" for opt :: "'a opt"
    using that by (induction args arbitrary: opt) (auto simp: add_doubled)
  from this [of "opt\<lparr>o_state := Opt_parsing\<rparr>"] assms show ?thesis by (simp add: add_results_def Let_def)
qed

section \<open>Files that are not read as they mean\<close>

text \<open>
  The value of several lines is taken from the line before trimming, at the position of the
  delimiter in the trimmed line: with an indented name it starts too early.
\<close>

lemma indented_multiline_value:
  "from_config config_toml (''a = '' @ multiline_string_quote @ ''hi'' @ multiline_string_quote) =
     Inr [item_of [] ''a'' [''hi'']]"
  "from_config config_toml (''  a = '' @ multiline_string_quote @ ''hi'' @ multiline_string_quote) =
     Inr [item_of [] ''a'' [[CHR 0x22, CHR 0x22] @ ''hi'']]"
  by code_simp+

text \<open>A section without a name makes the reader look at the first character of an empty string.\<close>

lemma empty_section_name:
  "from_config config_toml ''[[]]'' = Inl (Std (Undefined ''front of an empty string''))"
  by code_simp

text \<open>Of a selected section only the first item loses the name of the section.\<close>

lemma selected_section_first_item:
  "from_config (config_toml\<lparr>cf_configSection := ''s''\<rparr>) (''[s]'' @ [newline] @ ''abc=1'' @ [newline] @ ''def=2'') =
     Inr [item_of [''s''] ''++'' [], item_of [] ''abc'' [''1''], item_of [''s''] ''def'' [''2''], item_of [''s''] ''--'' []]"
  by code_simp

end
