(* ===== verification/Cli_Config_Write.thy ===== *)
theory Cli_Config_Write
  imports Cli_Process
begin

text \<open>
  The writer of configuration files of \<^verbatim>\<open>CLI11.hpp\<close>, \<^verbatim>\<open>ConfigBase::to_config\<close>: a line for
  every option that can be set in a file, then the same for the subcommands, each in a section
  of its own or with its name in front. The results of an option that was not given are
  computed on the way, which changes the results the option keeps.
\<close>

section \<open>The characters of a file\<close>

definition commentLead :: "config_format \<Rightarrow> string" where
  "commentLead cf = [cf_commentChar cf, CHR '' '']"

definition keyChars :: "config_format \<Rightarrow> string" where
  "keyChars cf =
     [CHR 0x23, CHR '';'', cf_commentChar cf, cf_parentSeparatorChar cf, cf_literalQuote cf, cf_stringQuote cf,
      cf_arrayStart cf, cf_arrayEnd cf, cf_valueDelimiter cf, cf_arraySeparator cf]"

definition join_values :: "config_format \<Rightarrow> string list \<Rightarrow> string" where
  "join_values cf values =
     ini_join values (cf_arraySeparator cf) (cf_arrayStart cf) (cf_arrayEnd cf) (cf_stringQuote cf)
       (cf_literalQuote cf)"

text \<open>The leader of a comment ends with a blank, so that \<^verbatim>\<open>fix_newlines\<close> always ends.\<close>

definition comment_text :: "string \<Rightarrow> string \<Rightarrow> string" where
  "comment_text leader text = leader @ the (fix_newlines leader text) @ [CHR 0x0A]"

section \<open>The value of an option\<close>

text \<open>
  The results to write. The validators check a sum once more, and may change it; a sum they reject, and a joined
  string that could not be split again, are replaced by the results as they were given.
\<close>

definition sum_results :: "'v opt \<Rightarrow> results_t \<Rightarrow> cli_exn + results_t" where
  "sum_results opt results =
     (if o_multi_option_policy opt = Sum \<and> option_count opt \<ge> 1 \<and> length results = 1 then
        map_sum id (\<lambda>(pos, result). if pos \<noteq> [] then o_results opt else [result])
          (option_validate opt (hd results) 0)
      else Inr results)"

definition join_unreadable :: "'v opt \<Rightarrow> results_t \<Rightarrow> cli_exn + bool" where
  "join_unreadable opt results =
     (if o_multi_option_policy opt = Join \<and> option_count opt > 1 then
        (let delim = o_delimiter opt in
         if delim = CHR 0x00 then Inr True
         else if results = [] then Inl (Std (Undefined ''element of an empty vector''))
         else if hd results = [] then Inl (Std (Undefined ''back of an empty string''))
         else
           (let delim_count = count_list (hd results) delim in
            Inr (last (hd results) = delim \<or> int (option_count opt) < int delim_count - 1
                 \<or> find_str (hd results) [delim, delim] \<noteq> None)))
      else Inr False)"

definition config_results :: "(string list \<Rightarrow> string) \<Rightarrow> 'v opt \<Rightarrow> cli_exn + results_t" where
  "config_results sum_string_vector opt =
     (case reduced_results sum_string_vector opt of
        Inl e \<Rightarrow> Inl e
      | Inr results0 \<Rightarrow>
          (let results1 = (if length results0 > 1 \<and> o_multi_option_policy opt = Reverse then rev results0
                           else results0) in
           case sum_results opt results1 of
             Inl e \<Rightarrow> Inl e
           | Inr results2 \<Rightarrow>
               map_sum id (\<lambda>joined. if joined then o_results opt else results2) (join_unreadable opt results2)))"

definition config_value :: "config_format \<Rightarrow> 'v opt \<Rightarrow> results_t \<Rightarrow> string" where
  "config_value cf opt results =
     (if option_count opt = 1 \<and> length results = 2 \<and> hd results = ''{}'' \<and> last results = ''%%'' then
        [CHR 0x22] @ ''{}'' @ [CHR 0x22]
      else join_values cf results)"

text \<open>The value of an option that has none.\<close>

definition config_default :: "config_format \<Rightarrow> opt_ptr \<Rightarrow> ('v, string) cli_m" where
  "config_default cf p =
     m_bind (get_opt p) (\<lambda>opt.
       if o_default_str opt \<noteq> [] then m_bind (as_strings p) (\<lambda>res. m_return (join_values cf res))
       else if o_expected_min opt = 0 then m_return ''false''
       else if o_run_callback_for_default opt \<or> \<not> o_required opt then m_return [CHR 0x22, CHR 0x22]
       else m_return ([CHR 0x22] @ ''<REQUIRED>'' @ [CHR 0x22]))"

text \<open>
  The value of a flag by its name, or by the last of its names that accepts the value; names
  after the first try the value the one before gave.
\<close>

definition is_ArgumentMismatch :: "cli_exn \<Rightarrow> bool" where
  "is_ArgumentMismatch e \<longleftrightarrow> (case e of Cli err \<Rightarrow> error_class err = C_ArgumentMismatch | _ \<Rightarrow> False)"

fun try_flag_names :: "'v opt \<Rightarrow> string list \<Rightarrow> string \<Rightarrow> string option \<Rightarrow> cli_exn + (string \<times> string option)" where
  "try_flag_names opt [] value found = Inr (value, found)"
| "try_flag_names opt (test_name # names) value found =
     (case get_flag_value opt test_name value of
        Inr value' \<Rightarrow> try_flag_names opt names value' (Some test_name)
      | Inl e \<Rightarrow> if is_ArgumentMismatch e then try_flag_names opt names value found else Inl e)"

definition flag_text :: "config_format \<Rightarrow> 'v opt \<Rightarrow> string \<Rightarrow> string \<Rightarrow> cli_exn + (string \<times> string)" where
  "flag_text cf opt single_name value =
     (if o_fnames opt = [] then Inr (single_name, value)
      else
        (case get_flag_value opt single_name value of
           Inr value' \<Rightarrow> Inr (single_name, value')
         | Inl e \<Rightarrow>
             if is_ArgumentMismatch e then
               (case try_flag_names opt (o_fnames opt) value None of
                  Inl e' \<Rightarrow> Inl e'
                | Inr (value', Some name) \<Rightarrow> Inr (name, value')
                | Inr (value', None) \<Rightarrow> Inr (single_name, join_values cf (o_results opt)))
             else Inl e))"

section \<open>The lines of an application\<close>

definition option_line ::
  "config_format \<Rightarrow> bool \<Rightarrow> bool \<Rightarrow> string \<Rightarrow> opt_ptr \<Rightarrow> string \<Rightarrow> ('v, string) cli_m" where
  "option_line cf default_also write_description prefix0 p out =
     m_bind (get_opt p) (\<lambda>opt.
     m_bind (m_gets w_env) (\<lambda>env.
     m_bind (m_lift (config_results (env_sum_strings env) opt)) (\<lambda>results.
       (let value0 = config_value cf opt results; isDefault = (value0 = [] \<and> default_also) in
        m_bind (if isDefault then config_default cf p else m_return value0) (\<lambda>value.
          if value = [] then m_return out
          else
            m_bind (m_lift (flag_text cf opt (get_single_name opt) value)) (\<lambda>(single_name, value').
            m_bind (m_lift (clean_name_string single_name (keyChars cf))) (\<lambda>clean.
              (let described =
                     (if write_description \<and> o_description opt \<noteq> [] then
                        out @ (if out \<noteq> [] then [CHR 0x0A] else []) @ comment_text (commentLead cf) (o_description opt)
                      else out);
                   commented = (if cf_commentDefaultsBool cf \<and> isDefault then [cf_commentChar cf] else [])
               in m_return (described @ commented @ prefix0 @ clean @ [cf_valueDelimiter cf] @ value' @ [CHR 0x0A]))))))))) "

definition in_config_group :: "string \<Rightarrow> 'v opt \<Rightarrow> bool" where
  "in_config_group grp opt \<longleftrightarrow>
     o_configurable opt \<and> (o_group opt = grp \<or> grp = ''OPTIONS'' \<and> o_group opt = []) \<and> get_single_name opt \<noteq> []"

primrec option_lines ::
  "config_format \<Rightarrow> bool \<Rightarrow> bool \<Rightarrow> string \<Rightarrow> string \<Rightarrow> opt_ptr list \<Rightarrow> string \<Rightarrow> ('v, string) cli_m" where
  "option_lines cf default_also write_description prefix0 grp [] out = m_return out"
| "option_lines cf default_also write_description prefix0 grp (p # ps) out =
     m_bind (get_opt p) (\<lambda>opt.
     m_bind (if in_config_group grp opt then option_line cf default_also write_description prefix0 p out
             else m_return out)
       (option_lines cf default_also write_description prefix0 grp ps))"

text \<open>
  The groups, in the order of the options: \<^verbatim>\<open>OPTIONS\<close> comes first and stands for the empty
  group, and both are done once.
\<close>

definition group_header :: "config_format \<Rightarrow> bool \<Rightarrow> string \<Rightarrow> string" where
  "group_header cf write_description grp =
     (if write_description \<and> grp \<noteq> ''OPTIONS'' \<and> grp \<noteq> [] then
        [CHR 0x0A, cf_commentChar cf] @ commentLead cf @ grp @ '' Options'' @ [CHR 0x0A]
      else [])"

primrec group_lines ::
  "config_format \<Rightarrow> bool \<Rightarrow> bool \<Rightarrow> string \<Rightarrow> nat \<Rightarrow> app_ptr \<Rightarrow> string list \<Rightarrow> string \<Rightarrow> ('v, string) cli_m" where
  "group_lines cf default_also write_description prefix0 n a [] out = m_return out"
| "group_lines cf default_also write_description prefix0 n a (grp # grps) out =
     m_bind (get_options True (\<lambda>_ _. True) n a) (\<lambda>options.
     m_bind (option_lines cf default_also write_description prefix0 grp (map fst options)
               (out @ group_header cf write_description grp))
       (group_lines cf default_also write_description prefix0 n a grps))"

definition config_groups :: "app_ptr \<Rightarrow> ('v, string list) cli_m" where
  "config_groups a =
     m_bind (get_groups a) (\<lambda>grps. m_return (''OPTIONS'' # filter (\<lambda>g. g \<noteq> ''OPTIONS'' \<and> g \<noteq> []) grps))"

section \<open>The lines of the subcommands\<close>

text \<open>The names of the parents in front of the name of a section, but the one of the root.\<close>

primrec section_path :: "nat \<Rightarrow> config_format \<Rightarrow> app_ptr \<Rightarrow> string \<Rightarrow> ('v, string) cli_m" where
  "section_path 0 cf p subname = m_throw No_fuel"
| "section_path (Suc n) cf p subname =
     m_bind (get_app p) (\<lambda>app.
       (case a_parent app of
          None \<Rightarrow> m_return subname
        | Some parent \<Rightarrow>
            m_bind (m_lift (clean_name_string (a_name app) (keyChars cf))) (\<lambda>pname.
              section_path n cf parent (pname @ [cf_parentSeparatorChar cf] @ subname))))"

definition section_title :: "config_format \<Rightarrow> app_ptr \<Rightarrow> string \<Rightarrow> string \<Rightarrow> ('v, string) cli_m" where
  "section_title cf a prefix0 subname =
     m_bind (get_app a) (\<lambda>app.
     m_bind (m_gets (\<lambda>w. length (w_apps w))) (\<lambda>k.
     m_bind (if prefix0 \<noteq> [] \<or> a_parent app = None then m_return (prefix0 @ subname)
             else section_path (Suc k) cf a subname) (\<lambda>title.
       m_return (''['' @ title @ '']'' @ [CHR 0x0A]))))"

text \<open>
  First the groups of options, which have no name, then the subcommands; \<open>self\<close> is
  \<^verbatim>\<open>to_config\<close> for a subcommand and a prefix.
\<close>

definition unnamed_lines ::
  "(app_ptr \<Rightarrow> string \<Rightarrow> ('v, string) cli_m) \<Rightarrow> config_format \<Rightarrow> bool \<Rightarrow> string \<Rightarrow> app_ptr \<Rightarrow> ('v, string) cli_m" where
  "unnamed_lines self cf write_description prefix0 s =
     m_bind (get_app s) (\<lambda>subcom.
     m_bind (self s prefix0) (\<lambda>text.
       m_return ((if write_description \<and> a_group subcom \<noteq> [] then
                    [CHR 0x0A] @ commentLead cf @ a_group subcom @ '' Options'' @ [CHR 0x0A] else []) @ text)))"

definition named_lines ::
  "(app_ptr \<Rightarrow> string \<Rightarrow> ('v, string) cli_m) \<Rightarrow> config_format \<Rightarrow> bool \<Rightarrow> string \<Rightarrow> app_ptr \<Rightarrow> app_ptr \<Rightarrow>
     ('v, string) cli_m" where
  "named_lines self cf default_also prefix0 a s =
     m_bind (get_app s) (\<lambda>subcom.
     m_bind (m_lift (clean_name_string (a_name subcom) (keyChars cf))) (\<lambda>subname.
       if a_configurable subcom \<and> (default_also \<or> a_parsed subcom > 0) then
         m_bind (section_title cf a prefix0 subname) (\<lambda>title.
         m_bind (self s []) (\<lambda>text. m_return (title @ text)))
       else self s (prefix0 @ subname @ [cf_parentSeparatorChar cf])))"

definition written_subcommand :: "nat \<Rightarrow> bool \<Rightarrow> app_ptr \<Rightarrow> ('v, bool) cli_m" where
  "written_subcommand n default_also s =
     m_bind (count_all n s) (\<lambda>cnt. m_return (default_also \<or> cnt \<noteq> 0))"

primrec to_config ::
  "nat \<Rightarrow> config_format \<Rightarrow> bool \<Rightarrow> bool \<Rightarrow> app_ptr \<Rightarrow> string \<Rightarrow> ('v, string) cli_m" where
  "to_config 0 cf default_also write_description a prefix0 = m_throw No_fuel"
| "to_config (Suc n) cf default_also write_description a prefix0 =
     m_bind (config_groups a) (\<lambda>grps.
     m_bind (group_lines cf default_also write_description prefix0 n a grps []) (\<lambda>own.
     m_bind (subcommands a) (\<lambda>subs.
     m_bind (m_map (\<lambda>(s, subcom). m_bind (written_subcommand n default_also s) (\<lambda>written.
               if written then unnamed_lines (to_config n cf default_also write_description) cf write_description prefix0 s
               else m_return [])) (filter (\<lambda>(s, subcom). a_name subcom = []) subs)) (\<lambda>unnamed.
     m_bind (m_map (\<lambda>(s, subcom). m_bind (written_subcommand n default_also s) (\<lambda>written.
               if written then named_lines (to_config n cf default_also write_description) cf default_also prefix0 a s
               else m_return [])) (filter (\<lambda>(s, subcom). a_name subcom \<noteq> []) subs)) (\<lambda>named.
     m_bind (get_app a) (\<lambda>app.
       (let out = own @ concat unnamed @ concat named in
        m_return ((if write_description \<and> out \<noteq> [] then
                     comment_text ([cf_commentChar cf] @ commentLead cf) (a_description app) else []) @ out)))))))) "

definition config_to_str :: "nat \<Rightarrow> app_ptr \<Rightarrow> bool \<Rightarrow> bool \<Rightarrow> ('v, string) cli_m" where
  "config_to_str n a default_also write_description =
     m_bind (get_app a) (\<lambda>app. to_config n (a_config_formatter app) default_also write_description a [])"

end
