(* ===== verification/Cli_Types.thy ===== *)
theory Cli_Types
  imports Cli_Option
begin

text \<open>
  The types a variable of the user may have, as the templates of \<^verbatim>\<open>CLI11.hpp\<close> see them. A value
  of \<open>cpp_type\<close> stands for a type argument, and each type trait is a function of it: the overload or
  specialisation whose \<^verbatim>\<open>enable_if\<close> holds for the type gives its equation. \<open>T_enum\<close> is an
  \<^verbatim>\<open>enum class\<close>, \<open>T_tuple\<close> a \<^verbatim>\<open>std::tuple\<close> or \<^verbatim>\<open>std::pair\<close>, \<open>T_vector\<close> a
  \<^verbatim>\<open>std::vector\<close>, \<open>T_optional\<close> a wrapper such as \<^verbatim>\<open>std::optional\<close>. Floating-point numbers are
  values of an abstract type, and what the C++ library does with them is a parameter.
\<close>

section \<open>Types and values\<close>

datatype int_width = W8 | W16 | W32 | W64

datatype cpp_type =
    T_bool
  | T_char
  | T_signed int_width
  | T_unsigned int_width
  | T_enum bool int_width
  | T_float
  | T_complex
  | T_string
  | T_optional cpp_type
  | T_vector cpp_type
  | T_tuple "cpp_type list"

datatype 'f cpp_value =
    V_bool bool
  | V_char char
  | V_int int
  | V_float 'f
  | V_complex 'f 'f
  | V_string string
  | V_optional "'f cpp_value option"
  | V_vector "'f cpp_value list"
  | V_tuple "'f cpp_value list"

text \<open>
  \<^verbatim>\<open>strtold\<close> (the number, cast to the type, and how many characters it took), the operators
  \<^verbatim>\<open>>>\<close> and \<^verbatim>\<open><<\<close> of the streams, and \<^verbatim>\<open>std::to_string\<close>.
\<close>

record 'f float_lib =
  fl_strtold :: "string \<Rightarrow> 'f \<times> nat"
  fl_zero :: 'f
  fl_read_complex :: "string \<Rightarrow> 'f \<times> 'f \<Rightarrow> bool \<times> 'f \<times> 'f"
  fl_show :: "'f \<Rightarrow> string"
  fl_to_string :: "'f \<Rightarrow> string"
  fl_show_complex :: "'f \<Rightarrow> 'f \<Rightarrow> string"

section \<open>Traits\<close>

fun is_mutable_container :: "cpp_type \<Rightarrow> bool" where
  "is_mutable_container (T_vector t) = True"
| "is_mutable_container _ = False"

fun is_tuple_like :: "cpp_type \<Rightarrow> bool" where
  "is_tuple_like (T_tuple ts) = True"
| "is_tuple_like _ = False"

text \<open>A \<^verbatim>\<open>value_type\<close>, which strings have too.\<close>

fun is_wrapper :: "cpp_type \<Rightarrow> bool" where
  "is_wrapper T_string = True"
| "is_wrapper T_complex = True"
| "is_wrapper (T_optional t) = True"
| "is_wrapper (T_vector t) = True"
| "is_wrapper _ = False"

fun type_count_base :: "cpp_type \<Rightarrow> int" where
  "type_count_base (T_tuple ts) = int (length ts)"
| "type_count_base (T_vector t) = type_count_base t"
| "type_count_base _ = 1"

text \<open>The size of a type, and of its use inside another one; the sum over the elements of a tuple.\<close>

fun type_count :: "cpp_type \<Rightarrow> int" and tuple_type_size :: "cpp_type list \<Rightarrow> int" where
  "type_count T_complex = 2"
| "type_count (T_vector t) = (if is_mutable_container t then expected_max_vector_size else type_count t)"
| "type_count (T_optional t) = type_count t"
| "type_count (T_tuple ts) = tuple_type_size ts"
| "type_count _ = 1"
| "tuple_type_size [] = 0"
| "tuple_type_size (t # ts) =
     (if is_mutable_container t then expected_max_vector_size else type_count t) + tuple_type_size ts"

definition subtype_count :: "cpp_type \<Rightarrow> int" where
  "subtype_count t = (if is_mutable_container t then expected_max_vector_size else type_count t)"

fun type_count_min :: "cpp_type \<Rightarrow> int" and tuple_type_size_min :: "cpp_type list \<Rightarrow> int" where
  "type_count_min (T_optional t) =
     (if is_mutable_container t then (if type_count t < expected_max_vector_size then type_count t else 0)
      else type_count_min t)"
| "type_count_min (T_vector t) =
     (if is_mutable_container t then (if type_count t < expected_max_vector_size then type_count t else 0)
      else type_count_min t)"
| "type_count_min (T_tuple ts) = tuple_type_size_min ts"
| "type_count_min _ = 1"
| "tuple_type_size_min [] = 0"
| "tuple_type_size_min (t # ts) =
     (if is_mutable_container t then (if type_count t < expected_max_vector_size then type_count t else 0)
      else type_count_min t) + tuple_type_size_min ts"

definition subtype_count_min :: "cpp_type \<Rightarrow> int" where
  "subtype_count_min t =
     (if is_mutable_container t then (if type_count t < expected_max_vector_size then type_count t else 0)
      else type_count_min t)"

fun expected_count :: "cpp_type \<Rightarrow> int" where
  "expected_count (T_vector t) = expected_max_vector_size"
| "expected_count (T_optional t) = expected_count t"
| "expected_count _ = 1"

lemma size_sums [simp]:
  "type_count (T_vector t) = subtype_count t"
  "tuple_type_size ts = sum_list (map subtype_count ts)"
  "type_count_min (T_vector t) = subtype_count_min t"
  "type_count_min (T_optional t) = subtype_count_min t"
  "tuple_type_size_min ts = sum_list (map subtype_count_min ts)"
  by (induction ts) (simp_all add: subtype_count_def subtype_count_min_def)

declare type_count.simps(2) [simp del] tuple_type_size.simps(2) [simp del]
  type_count_min.simps(1,2) [simp del] tuple_type_size_min.simps(2) [simp del]

section \<open>Categories and names\<close>

datatype object_category =
    OC_char_value | OC_integral_value | OC_unsigned_integral | OC_enumeration | OC_boolean_value
  | OC_floating_point | OC_string_assignable | OC_wrapper_value | OC_complex_number | OC_tuple_value
  | OC_container_value

text \<open>An optional string is itself assignable from a string.\<close>

fun assignable_from_string :: "cpp_type \<Rightarrow> bool" where
  "assignable_from_string T_string = True"
| "assignable_from_string (T_optional t) = assignable_from_string t"
| "assignable_from_string _ = False"

fun classify_object :: "cpp_type \<Rightarrow> object_category" where
  "classify_object T_bool = OC_boolean_value"
| "classify_object T_char = OC_char_value"
| "classify_object (T_signed w) = OC_integral_value"
| "classify_object (T_unsigned w) = OC_unsigned_integral"
| "classify_object (T_enum neg w) = OC_enumeration"
| "classify_object T_float = OC_floating_point"
| "classify_object T_complex = OC_complex_number"
| "classify_object T_string = OC_string_assignable"
| "classify_object (T_optional t) =
     (if assignable_from_string t then OC_string_assignable else OC_wrapper_value)"
| "classify_object (T_vector t) = OC_container_value"
| "classify_object (T_tuple ts) = OC_tuple_value"

text \<open>The name shown in a help text: one trailing comma is removed at each element of a tuple.\<close>

fun type_name :: "cpp_type \<Rightarrow> string" and tuple_name :: "cpp_type list \<Rightarrow> string" where
  "type_name T_bool = ''BOOLEAN''"
| "type_name T_char = ''CHAR''"
| "type_name (T_signed w) = ''INT''"
| "type_name (T_unsigned w) = ''UINT''"
| "type_name (T_enum neg w) = ''ENUM''"
| "type_name T_float = ''FLOAT''"
| "type_name T_complex = ''COMPLEX''"
| "type_name T_string = ''TEXT''"
| "type_name (T_optional t) = (if assignable_from_string t then ''TEXT'' else type_name t)"
| "type_name (T_vector t) = type_name t"
| "type_name (T_tuple ts) = ''['' @ tuple_name ts @ '']''"
| "tuple_name [] = []"
| "tuple_name (t # ts) =
     (let str = type_name t @ '','' @ tuple_name ts
      in if last str = CHR '','' then butlast str else str)"

section \<open>Values as strings\<close>

text \<open>What a value of the type holds; the other cases do not occur for a value of the type.\<close>

fun the_bool :: "'f cpp_value \<Rightarrow> bool" where "the_bool (V_bool b) = b" | "the_bool _ = False"
fun the_char :: "'f cpp_value \<Rightarrow> char" where "the_char (V_char c) = c" | "the_char _ = CHR 0x00"
fun the_int :: "'f cpp_value \<Rightarrow> int" where "the_int (V_int i) = i" | "the_int _ = 0"
fun the_string :: "'f cpp_value \<Rightarrow> string" where "the_string (V_string s) = s" | "the_string _ = []"
fun the_float :: "'f float_lib \<Rightarrow> 'f cpp_value \<Rightarrow> 'f" where
  "the_float L (V_float x) = x" | "the_float L _ = fl_zero L"
fun the_complex :: "'f float_lib \<Rightarrow> 'f cpp_value \<Rightarrow> 'f \<times> 'f" where
  "the_complex L (V_complex x y) = (x, y)" | "the_complex L _ = (fl_zero L, fl_zero L)"
fun the_list :: "'f cpp_value \<Rightarrow> 'f cpp_value list" where
  "the_list (V_vector vs) = vs" | "the_list (V_tuple vs) = vs" | "the_list _ = []"

text \<open>
  \<^verbatim>\<open>to_string\<close>, for the default shown in a help text. Integers of 8 bits are characters to a
  stream; an \<^verbatim>\<open>enum class\<close> and a wrapper have no output and give the empty string.
\<close>

definition stream_int :: "int_width \<Rightarrow> int \<Rightarrow> string" where
  "stream_int w i = (if w = W8 then [char_of (nat (i mod 256))] else int_string i)"

fun to_string :: "'f float_lib \<Rightarrow> cpp_type \<Rightarrow> 'f cpp_value \<Rightarrow> string"
  and tuple_value_string :: "'f float_lib \<Rightarrow> cpp_type list \<Rightarrow> 'f cpp_value list \<Rightarrow> string" where
  "to_string L T_bool v = (if the_bool v then ''1'' else ''0'')"
| "to_string L T_char v = [the_char v]"
| "to_string L (T_signed w) v = stream_int w (the_int v)"
| "to_string L (T_unsigned w) v = stream_int w (the_int v)"
| "to_string L (T_enum neg w) v = []"
| "to_string L T_float v = fl_show L (the_float L v)"
| "to_string L T_complex v = (case the_complex L v of (x, y) \<Rightarrow> fl_show_complex L x y)"
| "to_string L T_string v = the_string v"
| "to_string L (T_optional t) v = []"
| "to_string L (T_vector t) v =
     (if the_list v = [] then ''{}'' else ''['' @ join (map (to_string L t) (the_list v)) '','' @ '']'')"
| "to_string L (T_tuple ts) v = ''['' @ tuple_value_string L ts (the_list v) @ '']''"
| "tuple_value_string L [] vs = []"
| "tuple_value_string L (t # ts) vs =
     (let str = to_string L t (hd vs) @ '','' @ tuple_value_string L ts (tl vs)
      in if last str = CHR '','' then butlast str else str)"

text \<open>\<^verbatim>\<open>value_string\<close>: the numbers by \<^verbatim>\<open>std::to_string\<close>, everything else as above.\<close>

fun value_string :: "'f float_lib \<Rightarrow> cpp_type \<Rightarrow> 'f cpp_value \<Rightarrow> string" where
  "value_string L T_char v = int_string (sint (of_nat (of_char (the_char v)) :: 8 word))"
| "value_string L (T_signed w) v = int_string (the_int v)"
| "value_string L (T_unsigned w) v = int_string (the_int v)"
| "value_string L (T_enum neg w) v = int_string (the_int v)"
| "value_string L T_float v = fl_to_string L (the_float L v)"
| "value_string L t v = to_string L t v"

end
