(* ===== verification/Cli_Typed_Convert.thy ===== *)
theory Cli_Typed_Convert
  imports Cli_Types
begin

text \<open>
  The conversion of strings to a value of any of the types of \<open>Cli_Types\<close>: \<^verbatim>\<open>lexical_cast\<close> and
  \<^verbatim>\<open>lexical_assign\<close> for one string, \<^verbatim>\<open>lexical_conversion\<close> for the results of an option, with
  the type to assign and the type to convert to the same. A conversion takes the value of the
  variable and returns whether it succeeded and the value then; an access outside a container or
  a read of a variable that was never set is the left value \<^term>\<open>Undefined\<close>.
\<close>

section \<open>Numbers\<close>

fun unsigned_conversion :: "int_width \<Rightarrow> string \<Rightarrow> int \<Rightarrow> bool \<times> int" where
  "unsigned_conversion W8 inp out = map_prod id uint (integral_conversion_unsigned inp (word_of_int out :: 8 word))"
| "unsigned_conversion W16 inp out = map_prod id uint (integral_conversion_unsigned inp (word_of_int out :: 16 word))"
| "unsigned_conversion W32 inp out = map_prod id uint (integral_conversion_unsigned inp (word_of_int out :: 32 word))"
| "unsigned_conversion W64 inp out = map_prod id uint (integral_conversion_unsigned inp (word_of_int out :: 64 word))"

fun signed_conversion :: "int_width \<Rightarrow> string \<Rightarrow> int \<Rightarrow> bool \<times> int" where
  "signed_conversion W8 inp out = map_prod id sint (integral_conversion_signed inp (word_of_int out :: 8 word))"
| "signed_conversion W16 inp out = map_prod id sint (integral_conversion_signed inp (word_of_int out :: 16 word))"
| "signed_conversion W32 inp out = map_prod id sint (integral_conversion_signed inp (word_of_int out :: 32 word))"
| "signed_conversion W64 inp out = map_prod id sint (integral_conversion_signed inp (word_of_int out :: 64 word))"

text \<open>An enumeration is set only when its number was converted.\<close>

definition enum_conversion :: "bool \<Rightarrow> int_width \<Rightarrow> string \<Rightarrow> int \<Rightarrow> bool \<times> int" where
  "enum_conversion neg w inp out =
     (case (if neg then signed_conversion w inp 0 else unsigned_conversion w inp 0) of
        (ok, val) \<Rightarrow> if ok then (True, val) else (False, out))"

text \<open>
  Floating point: the number may be followed by blanks, and group separators are taken out one
  kind after the other.
\<close>

function lexical_cast_float :: "'f float_lib \<Rightarrow> string \<Rightarrow> 'f \<Rightarrow> bool \<times> 'f" where
  "lexical_cast_float L inp out =
     (if inp = [] then (False, out)
      else
        (case fl_strtold L inp of (val, n) \<Rightarrow>
           if n = length inp then (True, val)
           else if n < length inp \<and> list_all isspace (drop n inp) then (True, val)
           else
             (case first_separator inp of
                Some separator \<Rightarrow> lexical_cast_float L (without separator inp) val
              | None \<Rightarrow> (False, val))))"
  by pat_completeness auto
termination
  by (relation "measure (\<lambda>(L, inp, out). length inp)")
    (auto simp: first_separator_def find_Some_iff intro: length_without)

declare lexical_cast_float.simps [simp del]

definition drop_imaginary_unit :: "string \<Rightarrow> string" where
  "drop_imaginary_unit str = (if str \<noteq> [] \<and> last str \<in> set ''ij'' then butlast str else str)"

text \<open>A complex number: split before the last sign that is not at the front.\<close>

definition lexical_cast_complex :: "'f float_lib \<Rightarrow> string \<Rightarrow> 'f \<times> 'f \<Rightarrow> bool \<times> 'f \<times> 'f" where
  "lexical_cast_complex L inp out =
     (let real = (\<lambda>s. lexical_cast_float L s (fl_zero L));
          (worked, xy) =
            (case find_last_of inp ''+-'' of
               Some (Suc k) \<Rightarrow>
                 (let (ok, x) = real (take (Suc k) inp);
                      (ok', y) = real (drop_imaginary_unit (drop (Suc k) inp))
                  in (ok \<and> ok', (x, y)))
             | _ \<Rightarrow>
                 if inp \<noteq> [] \<and> last inp \<in> set ''ij''
                 then (let (ok, y) = real (butlast inp) in (ok, (fl_zero L, y)))
                 else (let (ok, x) = real inp in (ok, (x, fl_zero L))))
      in if worked then (True, xy) else fl_read_complex L inp out)"

section \<open>One string\<close>

text \<open>The value \<^verbatim>\<open>T{}\<close>.\<close>

fun default_value :: "'f float_lib \<Rightarrow> cpp_type \<Rightarrow> 'f cpp_value" where
  "default_value L T_bool = V_bool False"
| "default_value L T_char = V_char (CHR 0x00)"
| "default_value L (T_signed w) = V_int 0"
| "default_value L (T_unsigned w) = V_int 0"
| "default_value L (T_enum neg w) = V_int 0"
| "default_value L T_float = V_float (fl_zero L)"
| "default_value L T_complex = V_complex (fl_zero L) (fl_zero L)"
| "default_value L T_string = V_string []"
| "default_value L (T_optional t) = V_optional None"
| "default_value L (T_vector t) = V_vector []"
| "default_value L (T_tuple ts) = V_tuple (map (default_value L) ts)"

text \<open>A string assigned to a type that takes it.\<close>

fun assign_string :: "cpp_type \<Rightarrow> string \<Rightarrow> 'f cpp_value" where
  "assign_string (T_optional t) s = V_optional (Some (assign_string t s))"
| "assign_string t s = V_string s"

text \<open>
  \<^verbatim>\<open>lexical_cast\<close>. A wrapper is not readable from a stream, so a value that is not converted
  fails; containers and tuples have no overload.
\<close>

fun lexical_cast_type :: "'f float_lib \<Rightarrow> cpp_type \<Rightarrow> string \<Rightarrow> 'f cpp_value \<Rightarrow> bool \<times> 'f cpp_value" where
  "lexical_cast_type L T_bool inp out = map_prod id V_bool (lexical_cast_bool inp (the_bool out))"
| "lexical_cast_type L T_char inp out = map_prod id V_char (lexical_cast_char inp (the_char out))"
| "lexical_cast_type L (T_signed w) inp out = map_prod id V_int (signed_conversion w inp (the_int out))"
| "lexical_cast_type L (T_unsigned w) inp out = map_prod id V_int (unsigned_conversion w inp (the_int out))"
| "lexical_cast_type L (T_enum neg w) inp out = map_prod id V_int (enum_conversion neg w inp (the_int out))"
| "lexical_cast_type L T_float inp out = map_prod id V_float (lexical_cast_float L inp (the_float L out))"
| "lexical_cast_type L T_complex inp out =
     (case lexical_cast_complex L inp (the_complex L out) of (ok, x, y) \<Rightarrow> (ok, V_complex x y))"
| "lexical_cast_type L T_string inp out = (True, V_string inp)"
| "lexical_cast_type L (T_optional t) inp out =
     (if assignable_from_string t then (True, V_optional (Some (assign_string t inp)))
      else
        (case lexical_cast_type L t inp (default_value L t) of
           (ok, val) \<Rightarrow> if ok then (True, V_optional (Some val)) else (False, out)))"
| "lexical_cast_type L _ inp out = (False, out)"

definition lexical_assign_type :: "'f float_lib \<Rightarrow> cpp_type \<Rightarrow> string \<Rightarrow> 'f cpp_value \<Rightarrow> bool \<times> 'f cpp_value" where
  "lexical_assign_type L t inp out =
     (if classify_object t = OC_string_assignable then lexical_cast_type L t inp out
      else if inp = [] then (True, default_value L t)
      else lexical_cast_type L t inp out)"

section \<open>The pieces of larger types\<close>

type_synonym 'f conversion = "string list \<Rightarrow> 'f cpp_value \<Rightarrow> exn + (bool \<times> 'f cpp_value)"

text \<open>
  \<^verbatim>\<open>tuple_type_conversion\<close>: an element takes its strings from the front. One of a varying
  number of strings takes them up to the next separator, which it also removes; without a
  separator it stops before the last string, and removes that one.
\<close>

function separator_index :: "string list \<Rightarrow> nat \<Rightarrow> nat \<Rightarrow> nat" where
  "separator_index strings index mx =
     (if index < mx \<and> \<not> is_separator (strings ! index) then separator_index strings (index + 1) mx else index)"
  by pat_completeness auto
termination by (relation "measure (\<lambda>(strings, index, mx). mx - index)") auto

declare separator_index.simps [simp del]

definition tuple_type_conversion ::
  "'f float_lib \<Rightarrow> cpp_type \<Rightarrow> 'f conversion \<Rightarrow> string list \<Rightarrow> 'f cpp_value \<Rightarrow>
   exn + (bool \<times> 'f cpp_value \<times> string list)" where
  "tuple_type_conversion L t conv strings out =
     (if \<not> is_mutable_container t \<and> type_count t = 1 then
        (case lexical_assign_type L t (hd strings) out of (ok, val) \<Rightarrow> Inr (ok, val, tl strings))
      else if \<not> is_mutable_container t \<and> type_count t = type_count_min t then
        (case conv strings out of
           Inl e \<Rightarrow> Inl e
         | Inr (ok, val) \<Rightarrow>
             if nat (type_count t) \<le> length strings then Inr (ok, val, drop (nat (type_count t)) strings)
             else Inl (Undefined ''erase past the end of a vector''))
      else
        (let mx = min (nat (subtype_count t)) (length strings - 1);
             index = separator_index strings (nat (subtype_count_min t)) mx
         in if index > length strings then Inl (Undefined ''range past the end of a vector'')
            else
              (case conv (take index strings) out of
                 Inl e \<Rightarrow> Inl e
               | Inr (ok, val) \<Rightarrow>
                   Inr (ok, val, if length strings > index then drop (index + 1) strings else []))))"

text \<open>A local variable without an initialiser has no value when its type is a scalar.\<close>

fun scalar_type :: "cpp_type \<Rightarrow> bool" where
  "scalar_type T_bool = True"
| "scalar_type T_char = True"
| "scalar_type (T_signed w) = True"
| "scalar_type (T_unsigned w) = True"
| "scalar_type (T_enum neg w) = True"
| "scalar_type T_float = True"
| "scalar_type _ = False"

text \<open>
  A container of pairs: two elements of the pair at a time. Every round removes a string, so as
  many rounds as there are strings are enough.
\<close>

fun pairs_loop ::
  "'f float_lib \<Rightarrow> cpp_type \<Rightarrow> (string list \<Rightarrow> 'f cpp_value \<Rightarrow> exn + (bool \<times> 'f cpp_value \<times> string list)) \<Rightarrow>
   cpp_type \<Rightarrow> (string list \<Rightarrow> 'f cpp_value \<Rightarrow> exn + (bool \<times> 'f cpp_value \<times> string list)) \<Rightarrow>
   nat \<Rightarrow> string list \<Rightarrow> 'f cpp_value list \<Rightarrow> exn + (bool \<times> 'f cpp_value list)" where
  "pairs_loop L t1 first t2 second n [] output = Inr (output \<noteq> [], output)"
| "pairs_loop L t1 first t2 second 0 (s # strings) output = Inl (Undefined ''no progress'')"
| "pairs_loop L t1 first t2 second (Suc n) (s # strings) output =
     (case first (s # strings) (default_value L t1) of
        Inl e \<Rightarrow> Inl e
      | Inr (ok, v1, rest) \<Rightarrow>
          if \<not> ok then Inr (False, output)
          else if rest = [] then
            (if scalar_type t2 then Inl (Undefined ''a variable that was never set'')
             else pairs_loop L t1 first t2 second n [] (output @ [V_tuple [v1, default_value L t2]]))
          else
            (case second rest (default_value L t2) of
               Inl e \<Rightarrow> Inl e
             | Inr (ok', v2, rest') \<Rightarrow>
                 if \<not> ok' then Inr (False, output)
                 else pairs_loop L t1 first t2 second n rest' (output @ [V_tuple [v1, v2]])))"

text \<open>
  A container of larger elements: the strings are gathered in \<open>temp\<close> until there are as many as
  an element can have, a separator, or the end.
\<close>

fun chunks_loop ::
  "'f conversion \<Rightarrow> 'f cpp_value \<Rightarrow> nat \<Rightarrow> bool \<Rightarrow> string list \<Rightarrow> string list \<Rightarrow> 'f cpp_value list \<Rightarrow>
   exn + (bool \<times> 'f cpp_value list)" where
  "chunks_loop conv init xcm varying [] temp output = Inr (True, output)"
| "chunks_loop conv init xcm varying (s # strings) temp output =
     (if Suc (length temp) = xcm \<or> is_separator s \<or> strings = [] then
        (case conv (if varying \<and> is_separator s then temp else temp @ [s]) init of
           Inl e \<Rightarrow> Inl e
         | Inr (ok, val) \<Rightarrow>
             if \<not> ok then Inr (False, output)
             else chunks_loop conv init xcm varying strings [] (output @ [val]))
      else chunks_loop conv init xcm varying strings (temp @ [s]) output)"

section \<open>The results of an option\<close>

text \<open>The overload for a complex number looks at the first two strings.\<close>

definition complex_conversion :: "'f float_lib \<Rightarrow> 'f conversion" where
  "complex_conversion L strings out =
     (case strings of
        [] \<Rightarrow> Inl (Undefined ''element of an empty vector'')
      | s # rest \<Rightarrow>
          (case rest of
             (c # s1) # _ \<Rightarrow>
               (let (ok, x) = lexical_cast_float L s (fl_zero L);
                    (ok', y) = lexical_cast_float L (drop_imaginary_unit (c # s1)) (fl_zero L)
                in Inr (if ok \<and> ok' then (True, V_complex x y) else (False, out)))
           | _ \<Rightarrow> Inr (lexical_assign_type L T_complex s out)))"

text \<open>The overload for a pair of single values; a second string that is missing is empty.\<close>

definition pair_conversion :: "'f float_lib \<Rightarrow> cpp_type \<Rightarrow> cpp_type \<Rightarrow> 'f conversion" where
  "pair_conversion L t1 t2 strings out =
     (case strings of
        [] \<Rightarrow> Inl (Undefined ''element of an empty vector'')
      | s # rest \<Rightarrow>
          (let (ok, v1) = lexical_assign_type L t1 s (default_value L t1);
               (ok', v2) = lexical_assign_type L t2 (case rest of [] \<Rightarrow> [] | s2 # _ \<Rightarrow> s2) (default_value L t2)
           in Inr (if ok \<and> ok' then (True, V_tuple [v1, v2]) else (False, out))))"

text \<open>
  \<^verbatim>\<open>lexical_conversion\<close> and \<^verbatim>\<open>tuple_conversion\<close>, whose index is the part of the tuple that is
  left.
\<close>

function (sequential) lexical_conversion_type :: "'f float_lib \<Rightarrow> cpp_type \<Rightarrow> 'f conversion"
  and tuple_conversion ::
    "'f float_lib \<Rightarrow> cpp_type list \<Rightarrow> string list \<Rightarrow> 'f cpp_value list \<Rightarrow> exn + (bool \<times> 'f cpp_value list)" where
  "lexical_conversion_type L T_complex strings out = complex_conversion L strings out"
| "lexical_conversion_type L (T_vector t) strings out =
     (if \<not> is_mutable_container t \<and> type_count t = 1 then
        Inr (map_prod id V_vector
          (lexical_conversion_container (\<lambda>s. lexical_assign_type L t s (default_value L t)) strings))
      else
        (case (case t of
                 T_tuple [t1, t2] \<Rightarrow>
                   pairs_loop L
                     t1 (tuple_type_conversion L t1 (\<lambda>strings out. lexical_conversion_type L t1 strings out))
                     t2 (tuple_type_conversion L t2 (\<lambda>strings out. lexical_conversion_type L t2 strings out))
                     (length strings) strings []
               | _ \<Rightarrow>
                   chunks_loop (\<lambda>strings out. lexical_conversion_type L t strings out) (default_value L t)
                     (nat (type_count (T_vector t)))
                     (type_count (T_vector t) > type_count_min (T_vector t)) strings [] []) of
           Inl e \<Rightarrow> Inl e
         | Inr (ok, vs) \<Rightarrow> Inr (ok, V_vector vs)))"
| "lexical_conversion_type L (T_tuple ts) strings out =
     (case ts of
        [t1, t2] \<Rightarrow>
          if type_count (T_tuple [t1, t2]) \<le> 2 then pair_conversion L t1 t2 strings out
          else map_sum id (map_prod id V_tuple) (tuple_conversion L ts strings (the_list out))
      | _ \<Rightarrow> map_sum id (map_prod id V_tuple) (tuple_conversion L ts strings (the_list out)))"
| "lexical_conversion_type L (T_optional t) strings out =
     (if assignable_from_string t then
        (case strings of
           [] \<Rightarrow> Inl (Undefined ''element of an empty vector'')
         | s # _ \<Rightarrow> Inr (lexical_assign_type L (T_optional t) s out))
      else if strings = [] \<or> hd strings = [] then Inr (True, V_optional None)
      else
        (case lexical_conversion_type L t strings (default_value L t) of
           Inl e \<Rightarrow> Inl e
         | Inr (ok, val) \<Rightarrow> Inr (if ok then (True, V_optional (Some val)) else (False, out))))"
| "lexical_conversion_type L t strings out =
     (case strings of
        [] \<Rightarrow> Inl (Undefined ''element of an empty vector'')
      | s # _ \<Rightarrow> Inr (lexical_assign_type L t s out))"
| "tuple_conversion L [] strings vs = Inr (True, vs)"
| "tuple_conversion L (t # ts) strings vs =
     (case (if strings = [] then Inr (True, hd vs, [])
            else tuple_type_conversion L t (\<lambda>strings out. lexical_conversion_type L t strings out) strings (hd vs)) of
        Inl e \<Rightarrow> Inl e
      | Inr (ok, val, rest) \<Rightarrow>
          if \<not> ok then Inr (False, val # tl vs)
          else map_sum id (map_prod id (Cons val)) (tuple_conversion L ts rest (tl vs)))"
  by pat_completeness auto
termination
  by (relation "measure (\<lambda>x. case x of Inl (L, t, _) \<Rightarrow> size t | Inr (L, ts, _) \<Rightarrow> size_list size ts)") auto

declare lexical_conversion_type.simps(2,3) [simp del]

end
