(* ===== verification/Cli_Typed_Correct.thy ===== *)
theory Cli_Typed_Correct
  imports Cli_Typed_Convert
begin

text \<open>
  What the conversions of \<open>Cli_Typed_Convert\<close> promise: the value is one of the type, whatever the
  strings are, and for a type of a fixed size, or a container of such, nothing is read or erased
  past the end of the results.
\<close>

section \<open>Values of a type\<close>

fun bits :: "int_width \<Rightarrow> nat" where
  "bits W8 = 8" | "bits W16 = 16" | "bits W32 = 32" | "bits W64 = 64"

definition in_width :: "bool \<Rightarrow> int_width \<Rightarrow> int \<Rightarrow> bool" where
  "in_width neg w i \<longleftrightarrow>
     (if neg then - (2 ^ (bits w - 1)) \<le> i \<and> i < 2 ^ (bits w - 1) else 0 \<le> i \<and> i < 2 ^ bits w)"

fun has_type :: "cpp_type \<Rightarrow> 'f cpp_value \<Rightarrow> bool" and have_types :: "cpp_type list \<Rightarrow> 'f cpp_value list \<Rightarrow> bool" where
  "has_type T_bool v \<longleftrightarrow> (\<exists>b. v = V_bool b)"
| "has_type T_char v \<longleftrightarrow> (\<exists>c. v = V_char c)"
| "has_type (T_signed w) v \<longleftrightarrow> (\<exists>i. v = V_int i \<and> in_width True w i)"
| "has_type (T_unsigned w) v \<longleftrightarrow> (\<exists>i. v = V_int i \<and> in_width False w i)"
| "has_type (T_enum neg w) v \<longleftrightarrow> (\<exists>i. v = V_int i \<and> in_width neg w i)"
| "has_type T_float v \<longleftrightarrow> (\<exists>x. v = V_float x)"
| "has_type T_complex v \<longleftrightarrow> (\<exists>x y. v = V_complex x y)"
| "has_type T_string v \<longleftrightarrow> (\<exists>s. v = V_string s)"
| "has_type (T_optional t) v \<longleftrightarrow> v = V_optional None \<or> (\<exists>u. v = V_optional (Some u) \<and> has_type t u)"
| "has_type (T_vector t) v \<longleftrightarrow> (\<exists>vs. v = V_vector vs \<and> (\<forall>u \<in> set vs. has_type t u))"
| "has_type (T_tuple ts) v \<longleftrightarrow> (\<exists>vs. v = V_tuple vs \<and> have_types ts vs)"
| "have_types [] vs \<longleftrightarrow> vs = []"
| "have_types (t # ts) vs \<longleftrightarrow> (\<exists>u us. vs = u # us \<and> has_type t u \<and> have_types ts us)"

lemma have_types_iff: "have_types ts vs \<longleftrightarrow> list_all2 has_type ts vs"
  by (induction ts arbitrary: vs) (auto simp: list_all2_Cons1)

lemma default_typed: "has_type t (default_value L t)"
  by (induction t) (auto simp: in_width_def have_types_iff list_all2_conv_all_nth)

section \<open>Numbers and single strings\<close>

lemma word_in_width:
  "in_width False W8 (uint (a :: 8 word))" "in_width False W16 (uint (b :: 16 word))"
  "in_width False W32 (uint (c :: 32 word))" "in_width False W64 (uint (d :: 64 word))"
  "in_width True W8 (sint (a :: 8 word))" "in_width True W16 (sint (b :: 16 word))"
  "in_width True W32 (sint (c :: 32 word))" "in_width True W64 (sint (d :: 64 word))"
  using uint_lt2p [of a] uint_lt2p [of b] uint_lt2p [of c] uint_lt2p [of d]
    sint_greater_eq [of a] sint_greater_eq [of b] sint_greater_eq [of c] sint_greater_eq [of d]
    sint_less [of a] sint_less [of b] sint_less [of c] sint_less [of d]
  by (simp_all add: in_width_def)

lemma conversions_typed:
  "in_width False w (snd (unsigned_conversion w inp out))"
  "in_width True w (snd (signed_conversion w inp out))"
  by (cases w; simp add: word_in_width)+

lemma enum_typed: "in_width neg w out \<Longrightarrow> in_width neg w (snd (enum_conversion neg w inp out))"
  using conversions_typed(1) [of w inp 0] conversions_typed(2) [of w inp 0]
  by (auto simp: enum_conversion_def split: prod.split)

lemma assign_string_typed: "assignable_from_string t \<Longrightarrow> has_type t (assign_string t s)"
  by (induction t) simp_all

lemma cast_typed: "has_type t out \<Longrightarrow> has_type t (snd (lexical_cast_type L t inp out))"
proof (induction L t inp out rule: lexical_cast_type.induct)
  case (9 L t inp out)
  then show ?case by (auto simp: assign_string_typed default_typed split: prod.split)
qed (auto simp: conversions_typed enum_typed split: prod.split)

lemma assign_typed: "has_type t out \<Longrightarrow> has_type t (snd (lexical_assign_type L t inp out))"
  by (simp add: lexical_assign_type_def cast_typed default_typed)

lemma assign_typed_default: "has_type t (snd (lexical_assign_type L t inp (default_value L t)))"
  by (rule assign_typed [OF default_typed])

section \<open>Type soundness\<close>

definition typed :: "cpp_type \<Rightarrow> 'f conversion \<Rightarrow> bool" where
  "typed t conv \<longleftrightarrow> (\<forall>strings out ok v. has_type t out \<longrightarrow> conv strings out = Inr (ok, v) \<longrightarrow> has_type t v)"

lemma typedD: "typed t conv \<Longrightarrow> has_type t out \<Longrightarrow> conv strings out = Inr (ok, v) \<Longrightarrow> has_type t v"
  by (auto simp: typed_def)

lemma container_loop_typed:
  assumes "\<forall>s. has_type t (snd (assign s))"
  shows "list_all (has_type t) acc \<Longrightarrow> list_all (has_type t) (snd (container_loop assign skip strings acc))"
proof (induction strings arbitrary: acc)
  case (Cons s strings)
  have "has_type t (snd (assign s))" using assms by simp
  with Cons show ?case by (auto split: prod.split)
qed simp

lemma container_typed:
  assumes "lexical_conversion_container (\<lambda>s. lexical_assign_type L t s (default_value L t)) strings = (ok, vs)"
  shows "list_all (has_type t) vs"
  using assms container_loop_typed [of t "\<lambda>s. lexical_assign_type L t s (default_value L t)" "[]"]
  by (auto simp: lexical_conversion_container_def assign_typed_default split: if_splits) (metis snd_conv)+

lemma element_typed:
  assumes "typed t conv" and "has_type t out" and "tuple_type_conversion L t conv strings out = Inr (ok, v, rest)"
  shows "has_type t v"
  using assms assign_typed [OF assms(2), of L "hd strings"]
  by (auto simp: tuple_type_conversion_def typed_def Let_def split: if_splits prod.splits sum.splits)

lemma pairs_typed:
  fixes L :: "'f float_lib"
  assumes "typed t1 conv1" and "typed t2 conv2"
    and "list_all (has_type (T_tuple [t1, t2])) acc"
    and "pairs_loop L t1 (tuple_type_conversion L t1 conv1) t2 (tuple_type_conversion L t2 conv2) n strings acc = Inr (ok, vs)"
  shows "list_all (has_type (T_tuple [t1, t2])) vs"
  using assms(3,4)
proof (induction n arbitrary: strings acc)
  case 0
  then show ?case by (cases strings) auto
next
  case (Suc n)
  show ?case
  proof (cases strings)
    case (Cons s ss)
    have first: "has_type t1 v" if "tuple_type_conversion L t1 conv1 (s # ss) (default_value L t1) = Inr (b, v, rest)" for b v rest
      using element_typed [OF assms(1) default_typed that] .
    have second: "has_type t2 v" if "tuple_type_conversion L t2 conv2 strings' (default_value L t2) = Inr (b, v, rest)" for b v strings' rest
      using element_typed [OF assms(2) default_typed that] .
    have pair: "has_type (T_tuple [t1, t2]) (V_tuple [v1, v2])" if "has_type t1 v1" "has_type t2 v2" for v1 v2 :: "'f cpp_value"
      using that by simp
    have pair_default: "has_type (T_tuple [t1, t2]) (V_tuple [v1, default_value L t2])" if "has_type t1 v1" for v1
      by (rule pair [OF that default_typed])
    have round: "list_all (has_type (T_tuple [t1, t2])) vs"
      if "has_type t1 v1" "has_type t2 v2"
        "pairs_loop L t1 (tuple_type_conversion L t1 conv1) t2 (tuple_type_conversion L t2 conv2) n strings' (acc @ [V_tuple [v1, v2]]) = Inr (ok, vs)"
      for v1 v2 strings'
      by (rule Suc.IH [OF _ that(3)]) (use that(1,2) Suc.prems(1) pair in \<open>simp del: has_type.simps\<close>)
    show ?thesis
      using Suc.prems(2) Suc.prems(1) unfolding Cons
      by (auto split: sum.splits prod.splits if_splits simp: pair_default simp del: has_type.simps dest!: first second intro: round)
  qed (use Suc.prems in simp)
qed

lemma chunks_typed:
  assumes "typed t conv" and "has_type t init"
  shows "list_all (has_type t) acc \<Longrightarrow> chunks_loop conv init xcm varying strings temp acc = Inr (ok, vs)
    \<Longrightarrow> list_all (has_type t) vs"
proof (induction strings arbitrary: temp acc)
  case (Cons s strings)
  have step: "has_type t v" if "conv temp' init = Inr (b, v)" for temp' b v
    using typedD [OF assms that] .
  have round: "list_all (has_type t) vs"
    if "has_type t v" "chunks_loop conv init xcm varying strings [] (acc @ [v]) = Inr (ok, vs)" for v
    by (rule Cons.IH [OF _ that(2)]) (use that(1) Cons.prems(1) in simp)
  show ?case
    using Cons.prems by (auto split: if_splits sum.splits prod.splits dest!: step intro: round Cons.IH)
qed simp

lemma tuple_typed:
  assumes "\<forall>t \<in> set ts. typed t (lexical_conversion_type L t)"
  shows "have_types ts vs \<Longrightarrow> tuple_conversion L ts strings vs = Inr (ok, us) \<Longrightarrow> have_types ts us"
  using assms
proof (induction ts arbitrary: strings vs ok us)
  case (Cons t ts)
  obtain w ws where vs: "vs = w # ws" "has_type t w" "have_types ts ws" using Cons.prems(1) by auto
  have conv: "typed t (\<lambda>strings out. lexical_conversion_type L t strings out)" using Cons.prems(3) by (simp add: typed_def)
  have head: "has_type t v" if "tuple_type_conversion L t (\<lambda>strings out. lexical_conversion_type L t strings out) strings w = Inr (b, v, rest)" for b v rest
    by (rule element_typed [OF conv vs(2) that])
  show ?case
  proof (cases "if strings = [] then Inr (True, w, []) else tuple_type_conversion L t (\<lambda>strings out. lexical_conversion_type L t strings out) strings w")
    case (Inl e)
    with Cons.prems(2) vs show ?thesis by (auto split: if_splits)
  next
    case (Inr r)
    obtain b v rest where r: "r = (b, v, rest)" by (cases r)
    have v: "has_type t v" using Inr r vs(2) head by (auto split: if_splits)
    show ?thesis
    proof (cases b)
      case True
      then obtain us' where us: "us = v # us'" "tuple_conversion L ts rest ws = Inr (ok, us')"
        using Cons.prems(2) Inr r vs(1) by (cases "tuple_conversion L ts rest ws") (auto split: if_splits)
      then show ?thesis using Cons.IH [OF vs(3) us(2)] Cons.prems(3) v by simp
    next
      case False
      then show ?thesis using Cons.prems(2) Inr r vs v by (auto split: if_splits)
    qed
  qed
qed simp

lemma single_typed:
  assumes "has_type t out" and "(case strings of [] \<Rightarrow> Inl e | s # _ \<Rightarrow> Inr (lexical_assign_type L t s out)) = Inr (ok, v)"
  shows "has_type t v"
  using assms assign_typed [OF assms(1)] by (cases strings) (auto simp: prod_eq_iff)

lemma complex_typed: "typed T_complex (complex_conversion L)"
proof -
  have "has_type T_complex v"
    if "has_type T_complex out" "complex_conversion L strings out = Inr (ok, v)" for strings out ok v
  proof -
    have "has_type T_complex (V_complex x y)" for x y :: 'a by simp
    then show ?thesis
      using that assign_typed [OF that(1), of L "hd strings"]
      by (auto simp: complex_conversion_def prod_eq_iff simp del: has_type.simps split: list.splits if_splits prod.splits)
  qed
  then show ?thesis by (auto simp: typed_def)
qed

lemma pair_typed: "typed (T_tuple [t1, t2]) (pair_conversion L t1 t2)"
proof -
  have "has_type (T_tuple [t1, t2]) v"
    if "has_type (T_tuple [t1, t2]) out" "pair_conversion L t1 t2 strings out = Inr (ok, v)" for strings out ok v
    using that assign_typed_default [of t1 L "hd strings"]
      assign_typed_default [of t2 L "case tl strings of [] \<Rightarrow> [] | s # _ \<Rightarrow> s"]
    by (cases strings) (auto simp: pair_conversion_def prod_eq_iff split: if_splits prod.splits)
  then show ?thesis by (auto simp: typed_def)
qed

lemma tuple_case_typed:
  assumes "\<forall>t \<in> set ts. typed t (lexical_conversion_type L t)" and "has_type (T_tuple ts) out"
    and "map_sum id (map_prod id V_tuple) (tuple_conversion L ts strings (the_list out)) = Inr (ok, v)"
  shows "has_type (T_tuple ts) v"
proof -
  obtain us where "v = V_tuple us" "tuple_conversion L ts strings (the_list out) = Inr (ok, us)"
    using assms(3) by (cases "tuple_conversion L ts strings (the_list out)") auto
  with tuple_typed [OF assms(1) _ this(2)] assms(2) show ?thesis by auto
qed

lemma conversion_typed: "typed t (lexical_conversion_type (L :: 'a float_lib) t)"
proof (induction t rule: measure_induct_rule [where f = size])
  case (less t)
  show ?case
  proof (cases t)
    case T_complex
    then show ?thesis using complex_typed [of L] by (simp add: typed_def)
  next
    case (T_optional u)
    have u: "typed u (lexical_conversion_type L u)" using less T_optional by simp
    show ?thesis
      unfolding T_optional typed_def
    proof (intro allI impI)
      fix strings out ok v
      assume out: "has_type (T_optional u) out"
        and run: "lexical_conversion_type L (T_optional u) strings out = Inr (ok, v)"
      show "has_type (T_optional u) v"
      proof (cases "assignable_from_string u")
        case True
        with run show ?thesis by (intro single_typed [OF out]) (simp del: has_type.simps)
      next
        case False
        with run out typedD [OF u default_typed, of strings L] show ?thesis
          by (auto split: if_splits sum.splits prod.splits)
      qed
    qed
  next
    case (T_vector u)
    have u: "typed u (\<lambda>strings out. lexical_conversion_type L u strings out)" using less T_vector by (simp add: typed_def)
    have parts: "typed t1 (\<lambda>strings out. lexical_conversion_type L t1 strings out)"
        "typed t2 (\<lambda>strings out. lexical_conversion_type L t2 strings out)" if "u = T_tuple [t1, t2]" for t1 t2
      using less.IH [of t1] less.IH [of t2] T_vector that by (simp_all add: typed_def)
    show ?thesis
    proof (cases "\<not> is_mutable_container u \<and> type_count u = 1")
      case True
      then show ?thesis
        unfolding T_vector typed_def lexical_conversion_type.simps(2)
        by (auto simp: map_prod_def split: prod.splits dest!: container_typed simp flip: list_all_iff)
    next
      case False
      show ?thesis
      proof (cases "\<exists>t1 t2. u = T_tuple [t1, t2]")
        case True
        then obtain t1 t2 where u': "u = T_tuple [t1, t2]" by blast
        show ?thesis
          using False pairs_typed [OF parts(1) [OF u'] parts(2) [OF u'], where acc = "[]"]
          unfolding T_vector typed_def lexical_conversion_type.simps(2) u'
          by (auto simp: list_all_iff simp del: has_type.simps(11) split: sum.splits)
      next
        case other: False
        then have shape: "(case u of T_tuple [t1, t2] \<Rightarrow> x t1 t2 | _ \<Rightarrow> y) = y" for x :: "cpp_type \<Rightarrow> cpp_type \<Rightarrow> exn + (bool \<times> 'a cpp_value list)" and y
          by (auto split: cpp_type.split list.split)
        show ?thesis
          using False chunks_typed [OF u default_typed, where acc = "[]"]
          unfolding T_vector typed_def lexical_conversion_type.simps(2) shape
          by (auto simp: list_all_iff split: sum.splits)
      qed
    qed
  next
    case (T_tuple ts)
    have elements: "\<forall>u \<in> set ts. typed u (lexical_conversion_type L u)"
      using less T_tuple by (auto simp: less_Suc_eq_le dest: size_list_estimation')
    show ?thesis
      unfolding T_tuple typed_def
    proof (intro allI impI)
      fix strings out ok v
      assume out: "has_type (T_tuple ts) out"
        and run: "lexical_conversion_type L (T_tuple ts) strings out = Inr (ok, v)"
      show "has_type (T_tuple ts) v"
      proof (cases "\<exists>t1 t2. ts = [t1, t2] \<and> type_count (T_tuple [t1, t2]) \<le> 2")
        case True
        then obtain t1 t2 where ts: "ts = [t1, t2]" and small: "type_count (T_tuple [t1, t2]) \<le> 2" by blast
        have "pair_conversion L t1 t2 strings out = Inr (ok, v)"
          using run small by (simp add: ts lexical_conversion_type.simps(3) del: size_sums)
        then show ?thesis using typedD [OF pair_typed] out by (simp only: ts)
      next
        case False
        then have "map_sum id (map_prod id V_tuple) (tuple_conversion L ts strings (the_list out)) = Inr (ok, v)"
          using run by (simp add: lexical_conversion_type.simps(3) del: size_sums tuple_conversion.simps split: list.splits if_splits)
        then show ?thesis by (rule tuple_case_typed [OF elements out])
      qed
    qed
  qed (simp_all add: typed_def del: has_type.simps, (blast intro: single_typed)+)
qed

section \<open>No access outside the results\<close>

text \<open>
  Types of a fixed size: those of one string, and tuples of such. Each takes as many strings as
  its size says, and needs no more to be defined.
\<close>

fun single_type :: "cpp_type \<Rightarrow> bool" where
  "single_type T_complex = False"
| "single_type (T_optional t) = single_type t"
| "single_type (T_vector t) = False"
| "single_type (T_tuple ts) = False"
| "single_type _ = True"

fun fixed_type :: "cpp_type \<Rightarrow> bool" where
  "fixed_type (T_tuple ts) \<longleftrightarrow> 2 \<le> length ts \<and> (\<forall>t \<in> set ts. fixed_type t)"
| "fixed_type t \<longleftrightarrow> single_type t"

lemma single_counts: "single_type t \<Longrightarrow> type_count t = 1 \<and> type_count_min t = 1 \<and> \<not> is_mutable_container t"
  by (induction t) (auto simp: subtype_count_min_def)

lemma sum_of_counts: "\<forall>t \<in> set ts. 1 \<le> subtype_count t \<Longrightarrow> int (length ts) \<le> sum_list (map subtype_count ts)"
  by (induction ts) auto

lemma fixed_counts: "fixed_type t \<Longrightarrow> type_count_min t = type_count t \<and> 1 \<le> type_count t \<and> \<not> is_mutable_container t"
proof (induction t)
  case (T_tuple ts)
  then have each: "\<forall>t \<in> set ts. subtype_count_min t = subtype_count t \<and> 1 \<le> subtype_count t"
    by (simp add: subtype_count_min_def subtype_count_def)
  then have "sum_list (map subtype_count_min ts) = sum_list (map subtype_count ts)" by (simp cong: map_cong)
  moreover have "1 \<le> sum_list (map subtype_count ts)"
    using each T_tuple.prems sum_of_counts [of ts] by simp
  ultimately show ?case by simp
qed (auto simp: subtype_count_min_def dest: single_counts)

lemma fixed_subtype: "fixed_type t \<Longrightarrow> subtype_count t = type_count t"
  using fixed_counts by (simp add: subtype_count_def)

definition defined_from :: "int \<Rightarrow> 'f conversion \<Rightarrow> bool" where
  "defined_from n conv \<longleftrightarrow> (\<forall>strings out. n \<le> int (length strings) \<longrightarrow> (\<exists>ok v. conv strings out = Inr (ok, v)))"

lemma defined_fromD: "defined_from n conv \<Longrightarrow> n \<le> int (length strings) \<Longrightarrow> \<exists>ok v. conv strings out = Inr (ok, v)"
  by (simp add: defined_from_def)

lemma element_defined:
  assumes "fixed_type t" and "defined_from (type_count t) conv" and "type_count t \<le> int (length strings)"
  shows "\<exists>ok v. tuple_type_conversion L t conv strings out = Inr (ok, v, drop (nat (type_count t)) strings)"
proof -
  obtain ok v where "conv strings out = Inr (ok, v)" using defined_fromD [OF assms(2,3)] by blast
  with assms(3) fixed_counts [OF assms(1)] show ?thesis
    by (auto simp: tuple_type_conversion_def drop_Suc split: prod.split)
qed

lemma tuple_defined:
  assumes "\<forall>t \<in> set ts. fixed_type t \<and> defined_from (type_count t) (lexical_conversion_type L t)"
  shows "sum_list (map subtype_count ts) \<le> int (length strings) \<Longrightarrow> \<exists>ok us. tuple_conversion L ts strings vs = Inr (ok, us)"
  using assms
proof (induction ts arbitrary: strings vs)
  case (Cons t ts)
  have t: "fixed_type t" "defined_from (type_count t) (\<lambda>strings out. lexical_conversion_type L t strings out)"
    using Cons.prems(2) by (simp_all add: defined_from_def)
  have "0 \<le> sum_list (map subtype_count ts)"
    using Cons.prems(2) sum_of_counts [of ts] fixed_counts fixed_subtype by fastforce
  then have enough: "type_count t \<le> int (length strings)"
      "sum_list (map subtype_count ts) \<le> int (length (drop (nat (type_count t)) strings))"
    using Cons.prems(1) fixed_subtype [OF t(1)] fixed_counts [OF t(1)] by auto
  obtain ok v where v: "tuple_type_conversion L t (\<lambda>strings out. lexical_conversion_type L t strings out) strings (hd vs)
      = Inr (ok, v, drop (nat (type_count t)) strings)"
    using element_defined [OF t enough(1)] by blast
  obtain ok' us where "tuple_conversion L ts (drop (nat (type_count t)) strings) (tl vs) = Inr (ok', us)"
    using Cons.IH [OF enough(2)] Cons.prems(2) by fastforce
  moreover have "strings \<noteq> []" using enough(1) fixed_counts [OF t(1)] by auto
  ultimately show ?case using v by (cases ok) auto
qed (simp; blast)

lemma pair_defined: "strings \<noteq> [] \<Longrightarrow> \<exists>ok v. pair_conversion L t1 t2 strings out = Inr (ok, v)"
  by (cases strings) (simp_all add: pair_conversion_def split: prod.split)

lemma fixed_defined: "fixed_type t \<Longrightarrow> defined_from (type_count t) (lexical_conversion_type L t)"
proof (induction t)
  case (T_tuple ts)
  have "\<exists>ok v. lexical_conversion_type L (T_tuple ts) strings out = Inr (ok, v)"
    if enough: "type_count (T_tuple ts) \<le> int (length strings)" for strings out
  proof -
    obtain ok us where tuple: "tuple_conversion L ts strings (the_list out) = Inr (ok, us)"
      using tuple_defined [of ts L strings "the_list out"] T_tuple.IH T_tuple.prems enough by auto
    moreover have "strings \<noteq> []" using enough fixed_counts [OF T_tuple.prems] by auto
    note pair_defined [OF this, of L _ _ out]
    ultimately show ?thesis
      by (auto simp: lexical_conversion_type.simps(3) simp del: size_sums tuple_conversion.simps split: list.split)
  qed
  then show ?case by (simp add: defined_from_def)
next
  case (T_optional t)
  have single: "single_type t" using T_optional.prems by simp
  then have "fixed_type t" by (cases t) simp_all
  note t = T_optional.IH [OF this]
  have "\<exists>ok v. lexical_conversion_type L (T_optional t) strings out = Inr (ok, v)"
    if enough: "1 \<le> int (length strings)" for strings out
  proof -
    have "type_count t \<le> int (length strings)" using single_counts [OF single] enough by simp
    then obtain ok v where "lexical_conversion_type L t strings (default_value L t) = Inr (ok, v)"
      using defined_fromD [OF t] by blast
    with enough show ?thesis by (auto split: list.split)
  qed
  then show ?case using single_counts [OF single] by (simp add: defined_from_def del: lexical_conversion_type.simps)
qed (auto simp: defined_from_def split: list.split)

text \<open>Containers of these, when the number of results is a multiple of the size and none is a separator.\<close>

lemma chunks_defined:
  assumes "defined_from (int n) conv" and "0 < n"
  shows "\<forall>s \<in> set strings. \<not> is_separator s \<Longrightarrow> length temp < n \<Longrightarrow> n dvd length temp + length strings
    \<Longrightarrow> \<exists>ok vs. chunks_loop conv init n varying strings temp acc = Inr (ok, vs)"
proof (induction strings arbitrary: temp acc)
  case (Cons s strings)
  show ?case
  proof (cases "Suc (length temp) = n")
    case True
    obtain ok v where "conv (temp @ [s]) init = Inr (ok, v)"
      using defined_fromD [OF assms(1), of "temp @ [s]" init] True by auto
    moreover have "n dvd length strings"
      using Cons.prems(3) True by (simp add: dvd_add_right_iff flip: add_Suc)
    then obtain ok' vs where "chunks_loop conv init n varying strings [] (acc @ [v]) = Inr (ok', vs)"
      using Cons.IH [of "[]" "acc @ [v]"] Cons.prems(1) assms(2) by auto
    ultimately show ?thesis using Cons.prems(1) True by (cases ok) auto
  next
    case False
    have "strings \<noteq> []" using Cons.prems(2,3) False by (auto dest: dvd_imp_le)
    moreover obtain ok vs where "chunks_loop conv init n varying strings (temp @ [s]) acc = Inr (ok, vs)"
      using Cons.IH [of "temp @ [s]" acc] Cons.prems False by auto
    ultimately show ?thesis using Cons.prems(1) False by auto
  qed
qed auto

lemma pairs_defined:
  assumes "fixed_type t1" "defined_from (type_count t1) conv1" and "fixed_type t2" "defined_from (type_count t2) conv2"
  shows "nat (type_count t1 + type_count t2) dvd length strings \<Longrightarrow> length strings \<le> n
    \<Longrightarrow> \<exists>ok vs. pairs_loop L t1 (tuple_type_conversion L t1 conv1) t2 (tuple_type_conversion L t2 conv2) n strings acc = Inr (ok, vs)"
proof (induction n arbitrary: strings acc)
  case (Suc n)
  show ?case
  proof (cases strings)
    case (Cons s ss)
    define rest where "rest = drop (nat (type_count t1)) strings"
    define rest' where "rest' = drop (nat (type_count t2)) rest"
    note counts = fixed_counts [OF assms(1)] fixed_counts [OF assms(3)]
    have "nat (type_count t1 + type_count t2) \<le> length strings"
      using Suc.prems(1) Cons by (intro dvd_imp_le) simp_all
    then have enough: "type_count t1 \<le> int (length strings)" "type_count t2 \<le> int (length rest)" "rest \<noteq> []"
      and length: "length rest' = length strings - nat (type_count t1 + type_count t2)"
      using counts by (auto simp: rest_def rest'_def nat_add_distrib)
    obtain ok v where v: "tuple_type_conversion L t1 conv1 (s # ss) (default_value L t1) = Inr (ok, v, rest)"
      using element_defined [OF assms(1,2) enough(1)] unfolding rest_def Cons by blast
    obtain ok' v' where v': "tuple_type_conversion L t2 conv2 rest (default_value L t2) = Inr (ok', v', rest')"
      using element_defined [OF assms(3,4) enough(2)] unfolding rest'_def by blast
    have "nat (type_count t1 + type_count t2) dvd length rest'" "length rest' \<le> n"
      using Suc.prems counts Cons by (simp_all add: length del: nat_le_iff, linarith)
    then obtain ok'' vs where
      "pairs_loop L t1 (tuple_type_conversion L t1 conv1) t2 (tuple_type_conversion L t2 conv2) n rest' (acc @ [V_tuple [v, v']]) = Inr (ok'', vs)"
      using Suc.IH by blast
    then show ?thesis using v v' enough(3) by (cases ok; cases ok') (auto simp: Cons)
  qed auto
qed auto

lemma vector_defined:
  assumes "fixed_type t" and "\<forall>s \<in> set strings. \<not> is_separator s" and "nat (type_count t) dvd length strings"
  shows "\<exists>ok v. lexical_conversion_type L (T_vector t) strings out = Inr (ok, v)"
proof (cases "type_count t = 1")
  case True
  then show ?thesis
    using fixed_counts [OF assms(1)] by (simp add: lexical_conversion_type.simps(2) map_prod_def split: prod.split)
next
  case False
  have t: "defined_from (type_count t) (\<lambda>strings out. lexical_conversion_type L t strings out)"
    using fixed_defined [OF assms(1)] by (simp add: defined_from_def)
  have size: "type_count (T_vector t) = type_count t" using fixed_counts [OF assms(1)] by (simp add: fixed_subtype assms(1))
  show ?thesis
  proof (cases "\<exists>t1 t2. t = T_tuple [t1, t2]")
    case True
    then obtain t1 t2 where t': "t = T_tuple [t1, t2]" by blast
    have parts: "fixed_type t1" "fixed_type t2" using assms(1) t' by simp_all
    have convs: "defined_from (type_count t1) (\<lambda>strings out. lexical_conversion_type L t1 strings out)"
        "defined_from (type_count t2) (\<lambda>strings out. lexical_conversion_type L t2 strings out)"
      using fixed_defined [OF parts(1)] fixed_defined [OF parts(2)] by (simp_all add: defined_from_def)
    have "nat (type_count t1 + type_count t2) dvd length strings"
      using assms(3) t' parts by (simp add: fixed_subtype)
    from pairs_defined [OF parts(1) convs(1) parts(2) convs(2) this order_refl, of L "[]"]
    show ?thesis using False fixed_counts [OF assms(1)] unfolding t'
      by (auto simp: lexical_conversion_type.simps(2) simp del: size_sums)
  next
    case other: False
    then have shape: "(case t of T_tuple [t1, t2] \<Rightarrow> x t1 t2 | _ \<Rightarrow> y) = y"
      for x :: "cpp_type \<Rightarrow> cpp_type \<Rightarrow> exn + (bool \<times> 'a cpp_value list)" and y
      by (auto split: cpp_type.split list.split)
    have "\<exists>ok vs. chunks_loop (\<lambda>strings out. lexical_conversion_type L t strings out) (default_value L t)
        (nat (type_count t)) varying strings [] [] = Inr (ok, vs)" for varying
      by (rule chunks_defined) (use t assms fixed_counts [OF assms(1)] in auto)
    from this [of "type_count_min (T_vector t) < type_count t"] obtain ok vs where
      "chunks_loop (\<lambda>strings out. lexical_conversion_type L t strings out) (default_value L t)
        (nat (type_count t)) (type_count_min (T_vector t) < type_count t) strings [] [] = Inr (ok, vs)" by blast
    then show ?thesis
      using False fixed_counts [OF assms(1)] by (simp add: lexical_conversion_type.simps(2) shape size del: size_sums)
  qed
qed

section \<open>Two shapes that go wrong\<close>

text \<open>
  A complex number in a tuple takes a varying number of strings, so the conversion removes one
  more string as if it were a separator: the value after the number is lost.
\<close>

lemma value_after_complex_lost:
  assumes "\<And>s. s \<noteq> [] \<Longrightarrow> fl_strtold L s = (x s, length s)"
    and "a \<noteq> []" "b \<noteq> []" "\<not> is_separator b" "last b \<notin> set ''ij''"
  shows "lexical_conversion_type L (T_tuple [T_complex, T_string]) [a, b, c] (V_tuple [u, V_string []])
    = Inr (True, V_tuple [V_complex (x a) (x b), V_string []])"
proof -
  have "separator_index [a, b, c] (Suc 0) (Suc (Suc 0)) = Suc (Suc 0)"
    using assms(4) by (simp add: separator_index.simps)
  moreover obtain e b' where "b = e # b'" using assms(3) by (cases b) auto
  ultimately show ?thesis
    using assms by (simp add: lexical_conversion_type.simps(3) tuple_type_conversion_def subtype_count_def
        subtype_count_min_def complex_conversion_def lexical_cast_float.simps drop_imaginary_unit_def Let_def lexical_assign_type_def)
qed

text \<open>
  An empty argument counts as a separator, so an element of a container may get too few strings:
  a pair inside it then erases strings that are not there.
\<close>

lemma empty_argument_undefined:
  assumes "\<not> is_separator a"
  shows "lexical_conversion_type L (T_vector (T_tuple [T_string, T_tuple [T_string, T_string], T_string])) [a, [], c, d] out
    = Inl (Undefined ''erase past the end of a vector'')"
proof -
  have "is_separator []" by (simp add: is_separator_def)
  with assms show ?thesis
    by (simp add: lexical_conversion_type.simps(2,3) tuple_type_conversion_def subtype_count_def
        subtype_count_min_def pair_conversion_def lexical_assign_type_def expected_max_vector_size_def)
qed

end
