(* ===== verification/Cli_Settings.thy ===== *)
theory Cli_Settings
  imports Cli_Build "HOL-Library.AList"
begin

text \<open>
  The operations that only store a setting or read one, class by class: validators, formatters,
  configuration formats, option defaults, options and applications. A setter returns the object
  updated; a setter with a default argument takes the argument. Getters that return a field as
  it is are the fields of the records.
\<close>

section \<open>Validators\<close>

definition validator_operation :: "(string \<Rightarrow> cli_exn + (string \<times> string)) \<Rightarrow> validator \<Rightarrow> validator" where
  "validator_operation opn v = v\<lparr>v_func := opn\<rparr>"

definition validator_describe :: "string \<Rightarrow> validator \<Rightarrow> validator" where
  "validator_describe validator_desc v = v\<lparr>v_desc := validator_desc\<rparr>"

definition validator_rename :: "string \<Rightarrow> validator \<Rightarrow> validator" where
  "validator_rename validator_name v = v\<lparr>v_name := validator_name\<rparr>"

definition validator_active :: "bool \<Rightarrow> validator \<Rightarrow> validator" where
  "validator_active active_val v = v\<lparr>v_active := active_val\<rparr>"

definition validator_set_non_modifying :: "bool \<Rightarrow> validator \<Rightarrow> validator" where
  "validator_set_non_modifying no_modify v = v\<lparr>v_non_modifying := no_modify\<rparr>"

definition validator_application_index :: "int \<Rightarrow> validator \<Rightarrow> validator" where
  "validator_application_index app_index v = v\<lparr>v_application_index := app_index\<rparr>"

text \<open>Filters given one after the other nest.\<close>

definition nested_filter :: "(string \<Rightarrow> string) \<Rightarrow> (string \<Rightarrow> string) \<Rightarrow> string \<Rightarrow> string" where
  "nested_filter filter_fn_1 filter_fn_2 a = filter_fn_2 (filter_fn_1 a)"

section \<open>Formatters\<close>

definition set_label :: "string \<Rightarrow> string \<Rightarrow> formatter \<Rightarrow> formatter" where
  "set_label key val fm = fm\<lparr>f_labels := AList.update key val (f_labels fm)\<rparr>"

definition set_column_width :: "nat \<Rightarrow> formatter \<Rightarrow> formatter" where
  "set_column_width val fm = fm\<lparr>f_column_width := val\<rparr>"

text \<open>
  The ratio is a fraction with a sign, and is brought into the range from 0 to 1: a negative
  one loses its sign, a larger one is inverted.
\<close>

definition set_long_option_alignment_ratio :: "int \<times> nat \<Rightarrow> formatter \<Rightarrow> formatter" where
  "set_long_option_alignment_ratio ratio fm =
     (case ratio of (p, q) \<Rightarrow>
        fm\<lparr>f_long_option_alignment_ratio :=
             (if p \<ge> 0 then (if p \<le> int q then (nat p, q) else (q, nat p))
              else if p < - int q then (q, nat (- p)) else (nat (- p), q))\<rparr>)"

definition set_right_column_width :: "nat \<Rightarrow> formatter \<Rightarrow> formatter" where
  "set_right_column_width val fm = fm\<lparr>f_right_column_width := val\<rparr>"

definition set_description_paragraph_width :: "nat \<Rightarrow> formatter \<Rightarrow> formatter" where
  "set_description_paragraph_width val fm = fm\<lparr>f_description_paragraph_width := val\<rparr>"

definition set_footer_paragraph_width :: "nat \<Rightarrow> formatter \<Rightarrow> formatter" where
  "set_footer_paragraph_width val fm = fm\<lparr>f_footer_paragraph_width := val\<rparr>"

definition enable_description_formatting :: "bool \<Rightarrow> formatter \<Rightarrow> formatter" where
  "enable_description_formatting value fm = fm\<lparr>f_enable_description_formatting := value\<rparr>"

definition enable_footer_formatting :: "bool \<Rightarrow> formatter \<Rightarrow> formatter" where
  "enable_footer_formatting value fm = fm\<lparr>f_enable_footer_formatting := value\<rparr>"

definition enable_option_defaults :: "bool \<Rightarrow> formatter \<Rightarrow> formatter" where
  "enable_option_defaults value fm = fm\<lparr>f_enable_option_defaults := value\<rparr>"

definition enable_option_type_names :: "bool \<Rightarrow> formatter \<Rightarrow> formatter" where
  "enable_option_type_names value fm = fm\<lparr>f_enable_option_type_names := value\<rparr>"

definition enable_default_flag_values :: "bool \<Rightarrow> formatter \<Rightarrow> formatter" where
  "enable_default_flag_values value fm = fm\<lparr>f_enable_default_flag_values := value\<rparr>"

section \<open>Configuration formats\<close>

definition config_comment :: "char \<Rightarrow> config_format \<Rightarrow> config_format" where
  "config_comment cchar cf = cf\<lparr>cf_commentChar := cchar\<rparr>"

definition config_arrayBounds :: "char \<Rightarrow> char \<Rightarrow> config_format \<Rightarrow> config_format" where
  "config_arrayBounds start_char end_char cf = cf\<lparr>cf_arrayStart := start_char, cf_arrayEnd := end_char\<rparr>"

definition config_arrayDelimiter :: "char \<Rightarrow> config_format \<Rightarrow> config_format" where
  "config_arrayDelimiter sep_char cf = cf\<lparr>cf_arraySeparator := sep_char\<rparr>"

definition config_valueSeparator :: "char \<Rightarrow> config_format \<Rightarrow> config_format" where
  "config_valueSeparator value_sep cf = cf\<lparr>cf_valueDelimiter := value_sep\<rparr>"

definition config_quoteCharacter :: "char \<Rightarrow> char \<Rightarrow> config_format \<Rightarrow> config_format" where
  "config_quoteCharacter qString literalChar cf = cf\<lparr>cf_stringQuote := qString, cf_literalQuote := literalChar\<rparr>"

definition config_maxLayers :: "8 word \<Rightarrow> config_format \<Rightarrow> config_format" where
  "config_maxLayers layers cf = cf\<lparr>cf_maximumLayers := unat layers\<rparr>"

definition config_parentSeparator :: "char \<Rightarrow> config_format \<Rightarrow> config_format" where
  "config_parentSeparator sep cf = cf\<lparr>cf_parentSeparatorChar := sep\<rparr>"

definition config_commentDefaults :: "bool \<Rightarrow> config_format \<Rightarrow> config_format" where
  "config_commentDefaults comDef cf = cf\<lparr>cf_commentDefaultsBool := comDef\<rparr>"

definition config_section :: "string \<Rightarrow> config_format \<Rightarrow> config_format" where
  "config_section sectionName cf = cf\<lparr>cf_configSection := sectionName\<rparr>"

definition config_index :: "16 word \<Rightarrow> config_format \<Rightarrow> config_format" where
  "config_index sectionIndex cf = cf\<lparr>cf_configIndex := sint sectionIndex\<rparr>"

definition config_allowDuplicateFields :: "bool \<Rightarrow> config_format \<Rightarrow> config_format" where
  "config_allowDuplicateFields value cf = cf\<lparr>cf_allowMultipleDuplicateFields := value\<rparr>"

section \<open>Options and their defaults\<close>

text \<open>
  \<^verbatim>\<open>OptionBase\<close>, at any record that extends it: an option or \<^verbatim>\<open>OptionDefaults\<close>.
\<close>

definition base_required :: "bool \<Rightarrow> 'a option_base_scheme \<Rightarrow> 'a option_base_scheme" where
  "base_required value opt = opt\<lparr>o_required := value\<rparr>"

definition base_always_capture_default :: "bool \<Rightarrow> 'a option_base_scheme \<Rightarrow> 'a option_base_scheme" where
  "base_always_capture_default value opt = opt\<lparr>o_always_capture_default := value\<rparr>"

definition base_configurable :: "bool \<Rightarrow> 'a option_base_scheme \<Rightarrow> 'a option_base_scheme" where
  "base_configurable value opt = opt\<lparr>o_configurable := value\<rparr>"

definition base_delimiter :: "char \<Rightarrow> 'a option_base_scheme \<Rightarrow> 'a option_base_scheme" where
  "base_delimiter value opt = opt\<lparr>o_delimiter := value\<rparr>"

text \<open>The shortcuts for the policies go through the setter of the class, here that of an option.\<close>

definition option_take_last :: "'v opt \<Rightarrow> 'v opt" where
  "option_take_last opt = set_multi_option_policy TakeLast opt"

definition option_take_first :: "'v opt \<Rightarrow> 'v opt" where
  "option_take_first opt = set_multi_option_policy TakeFirst opt"

definition option_take_all :: "'v opt \<Rightarrow> 'v opt" where
  "option_take_all opt = set_multi_option_policy TakeAll opt"

definition option_join :: "'v opt \<Rightarrow> 'v opt" where
  "option_join opt = set_multi_option_policy Join opt"

definition option_join_with :: "char \<Rightarrow> 'v opt \<Rightarrow> 'v opt" where
  "option_join_with delim opt = set_multi_option_policy Join (opt\<lparr>o_delimiter := delim\<rparr>)"

text \<open>\<^verbatim>\<open>OptionDefaults\<close> has setters without checks for what an option checks.\<close>

definition defaults_callback_priority :: "CallbackPriority \<Rightarrow> option_base \<Rightarrow> option_base" where
  "defaults_callback_priority value d = d\<lparr>o_callback_priority := value\<rparr>"

definition defaults_multi_option_policy :: "MultiOptionPolicy \<Rightarrow> option_base \<Rightarrow> option_base" where
  "defaults_multi_option_policy value d = d\<lparr>o_multi_option_policy := value\<rparr>"

definition defaults_ignore_case :: "bool \<Rightarrow> option_base \<Rightarrow> option_base" where
  "defaults_ignore_case value d = d\<lparr>o_ignore_case := value\<rparr>"

definition defaults_ignore_underscore :: "bool \<Rightarrow> option_base \<Rightarrow> option_base" where
  "defaults_ignore_underscore value d = d\<lparr>o_ignore_underscore := value\<rparr>"

definition defaults_disable_flag_override :: "bool \<Rightarrow> option_base \<Rightarrow> option_base" where
  "defaults_disable_flag_override value d = d\<lparr>o_disable_flag_override := value\<rparr>"

definition defaults_delimiter :: "char \<Rightarrow> option_base \<Rightarrow> option_base" where
  "defaults_delimiter value d = d\<lparr>o_delimiter := value\<rparr>"

text \<open>\<^verbatim>\<open>Option\<close>.\<close>

definition option_allow_extra_args :: "bool \<Rightarrow> 'v opt \<Rightarrow> 'v opt" where
  "option_allow_extra_args value opt = opt\<lparr>o_allow_extra_args := value\<rparr>"

definition option_trigger_on_parse :: "bool \<Rightarrow> 'v opt \<Rightarrow> 'v opt" where
  "option_trigger_on_parse value opt = opt\<lparr>o_trigger_on_result := value\<rparr>"

definition option_force_callback :: "bool \<Rightarrow> 'v opt \<Rightarrow> 'v opt" where
  "option_force_callback value opt = opt\<lparr>o_force_callback := value\<rparr>"

definition option_run_callback_for_default :: "bool \<Rightarrow> 'v opt \<Rightarrow> 'v opt" where
  "option_run_callback_for_default value opt = opt\<lparr>o_run_callback_for_default := value\<rparr>"

definition option_callback_priority :: "CallbackPriority \<Rightarrow> 'v opt \<Rightarrow> 'v opt" where
  "option_callback_priority value opt = opt\<lparr>o_callback_priority := value\<rparr>"

definition option_check_shared :: "validator \<Rightarrow> 'v opt \<Rightarrow> 'v opt" where
  "option_check_shared v opt = opt\<lparr>o_validators := o_validators opt @ [validator_set_non_modifying True v]\<rparr>"

definition option_check_fn :: "(string \<Rightarrow> string) \<Rightarrow> string \<Rightarrow> string \<Rightarrow> 'v opt \<Rightarrow> 'v opt" where
  "option_check_fn validator_func desc validator_name opt =
     opt\<lparr>o_validators := o_validators opt
       @ [(validator_of (\<lambda>s. Inr (validator_func s, s)) desc validator_name)\<lparr>v_non_modifying := True\<rparr>]\<rparr>"

text \<open>The function given to \<^verbatim>\<open>each\<close> is run for its effects, which are left out.\<close>

definition option_each :: "'v opt \<Rightarrow> 'v opt" where
  "option_each opt = opt\<lparr>o_validators := o_validators opt @ [validator_of (\<lambda>s. Inr ([], s)) [] []]\<rparr>"

definition option_envname :: "string \<Rightarrow> 'v opt \<Rightarrow> 'v opt" where
  "option_envname name opt = opt\<lparr>o_envname := name\<rparr>"

definition option_disable_flag_override :: "bool \<Rightarrow> 'v opt \<Rightarrow> 'v opt" where
  "option_disable_flag_override value opt = opt\<lparr>o_disable_flag_override := value\<rparr>"

definition option_set_description :: "string \<Rightarrow> 'v opt \<Rightarrow> 'v opt" where
  "option_set_description option_description opt = opt\<lparr>o_description := option_description\<rparr>"

definition option_has_description :: "'v opt \<Rightarrow> bool" where
  "option_has_description opt \<longleftrightarrow> o_description opt \<noteq> []"

definition option_set_text :: "string \<Rightarrow> 'v opt \<Rightarrow> 'v opt" where
  "option_set_text txt opt = opt\<lparr>o_option_text := txt\<rparr>"

definition option_get_callback_run :: "'v opt \<Rightarrow> bool" where
  "option_get_callback_run opt \<longleftrightarrow> o_state opt = Opt_callback_run"

definition option_type_name_fn :: "('v \<Rightarrow> string) \<Rightarrow> 'v opt \<Rightarrow> 'v opt" where
  "option_type_name_fn typefun opt = opt\<lparr>o_type_name := typefun\<rparr>"

definition option_type_name :: "string \<Rightarrow> 'v opt \<Rightarrow> 'v opt" where
  "option_type_name typeval opt = option_type_name_fn (\<lambda>_. typeval) opt"

definition option_inject_separator :: "bool \<Rightarrow> 'v opt \<Rightarrow> 'v opt" where
  "option_inject_separator value opt = opt\<lparr>o_inject_separator := value\<rparr>"

definition option_default_function :: "('v \<Rightarrow> string) \<Rightarrow> 'v opt \<Rightarrow> 'v opt" where
  "option_default_function func opt = opt\<lparr>o_default_function := Some func\<rparr>"

definition option_set_default_str :: "string \<Rightarrow> 'v opt \<Rightarrow> 'v opt" where
  "option_set_default_str val opt = opt\<lparr>o_default_str := val\<rparr>"

text \<open>The two links by name look the other option up from the application of this one.\<close>

definition option_by_name :: "nat \<Rightarrow> opt_ptr \<Rightarrow> string \<Rightarrow> ('v, opt_ptr) cli_m" where
  "option_by_name n this name =
     m_bind (get_opt this) (\<lambda>opt.
     (case o_parent opt of
        None \<Rightarrow> m_throw (Std (Undefined ''null pointer''))
      | Some a \<Rightarrow>
          m_bind (get_option_no_throw n a name) (\<lambda>found.
            (case found of
               None \<Rightarrow> m_throw (MissingOption name)
             | Some p \<Rightarrow> m_return p))))"

definition option_needs_name :: "nat \<Rightarrow> opt_ptr \<Rightarrow> string \<Rightarrow> ('v, unit) cli_m" where
  "option_needs_name n this name =
     m_bind (option_by_name n this name) (\<lambda>p. upd_opt this (option_needs this p))"

definition option_excludes_name :: "nat \<Rightarrow> opt_ptr \<Rightarrow> string \<Rightarrow> ('v, unit) cli_m" where
  "option_excludes_name n this name = m_bind (option_by_name n this name) (option_excludes this)"

section \<open>Applications\<close>

definition app_final_callback :: "('v \<Rightarrow> (cli_exn + unit) \<times> 'v) \<Rightarrow> 'v app \<Rightarrow> 'v app" where
  "app_final_callback app_callback app = app\<lparr>a_final_callback := Some app_callback\<rparr>"

definition app_parse_complete_callback :: "('v \<Rightarrow> (cli_exn + unit) \<times> 'v) \<Rightarrow> 'v app \<Rightarrow> 'v app" where
  "app_parse_complete_callback pc_callback app = app\<lparr>a_parse_complete_callback := Some pc_callback\<rparr>"

definition app_preparse_callback :: "(nat \<Rightarrow> 'v \<Rightarrow> (cli_exn + unit) \<times> 'v) \<Rightarrow> 'v app \<Rightarrow> 'v app" where
  "app_preparse_callback pp_callback app = app\<lparr>a_pre_parse_callback := Some pp_callback\<rparr>"

definition app_allow_extras :: "bool \<Rightarrow> 'v app \<Rightarrow> 'v app" where
  "app_allow_extras allow app = app\<lparr>a_allow_extras := (if allow then EM_Capture else EM_Error)\<rparr>"

definition app_allow_extras_mode :: "ExtrasMode \<Rightarrow> 'v app \<Rightarrow> 'v app" where
  "app_allow_extras_mode allow app = app\<lparr>a_allow_extras := allow\<rparr>"

definition app_required :: "bool \<Rightarrow> 'v app \<Rightarrow> 'v app" where
  "app_required require app = app\<lparr>a_required := require\<rparr>"

definition app_disabled :: "bool \<Rightarrow> 'v app \<Rightarrow> 'v app" where
  "app_disabled disable app = app\<lparr>a_disabled := disable\<rparr>"

definition app_silent :: "bool \<Rightarrow> 'v app \<Rightarrow> 'v app" where
  "app_silent silence app = app\<lparr>a_silent := silence\<rparr>"

definition app_allow_non_standard_option_names :: "bool \<Rightarrow> 'v app \<Rightarrow> 'v app" where
  "app_allow_non_standard_option_names allowed app = app\<lparr>a_allow_non_standard_options := allowed\<rparr>"

definition app_allow_subcommand_prefix_matching :: "bool \<Rightarrow> 'v app \<Rightarrow> 'v app" where
  "app_allow_subcommand_prefix_matching allowed app = app\<lparr>a_allow_prefix_matching := allowed\<rparr>"

definition app_validate_positionals :: "bool \<Rightarrow> 'v app \<Rightarrow> 'v app" where
  "app_validate_positionals validate app = app\<lparr>a_validate_positionals := validate\<rparr>"

definition app_validate_optional_arguments :: "bool \<Rightarrow> 'v app \<Rightarrow> 'v app" where
  "app_validate_optional_arguments validate app = app\<lparr>a_validate_optional_arguments := validate\<rparr>"

text \<open>Allowing extras of a configuration file allows those of the command line too, but not back.\<close>

definition app_allow_config_extras :: "bool \<Rightarrow> 'v app \<Rightarrow> 'v app" where
  "app_allow_config_extras allow app =
     (if allow then app\<lparr>a_allow_config_extras := CM_Capture, a_allow_extras := EM_Capture\<rparr>
      else app\<lparr>a_allow_config_extras := CM_Error\<rparr>)"

definition app_allow_config_extras_mode :: "ConfigExtrasMode \<Rightarrow> 'v app \<Rightarrow> 'v app" where
  "app_allow_config_extras_mode mode app = app\<lparr>a_allow_config_extras := mode\<rparr>"

definition app_prefix_command :: "bool \<Rightarrow> 'v app \<Rightarrow> 'v app" where
  "app_prefix_command is_prefix app = app\<lparr>a_prefix_command := (if is_prefix then PM_On else PM_Off)\<rparr>"

definition app_prefix_command_mode :: "PrefixCommandMode \<Rightarrow> 'v app \<Rightarrow> 'v app" where
  "app_prefix_command_mode mode app = app\<lparr>a_prefix_command := mode\<rparr>"

definition app_allow_windows_style_options :: "bool \<Rightarrow> 'v app \<Rightarrow> 'v app" where
  "app_allow_windows_style_options value app = app\<lparr>a_allow_windows_style_options := value\<rparr>"

definition app_positionals_at_end :: "bool \<Rightarrow> 'v app \<Rightarrow> 'v app" where
  "app_positionals_at_end value app = app\<lparr>a_positionals_at_end := value\<rparr>"

definition app_configurable :: "bool \<Rightarrow> 'v app \<Rightarrow> 'v app" where
  "app_configurable value app = app\<lparr>a_configurable := value\<rparr>"

definition app_formatter :: "formatter \<Rightarrow> 'v app \<Rightarrow> 'v app" where
  "app_formatter fmt app = app\<lparr>a_formatter := fmt\<rparr>"

definition app_config_formatter :: "config_format \<Rightarrow> 'v app \<Rightarrow> 'v app" where
  "app_config_formatter fmt app = app\<lparr>a_config_formatter := fmt\<rparr>"

definition app_group :: "string \<Rightarrow> 'v app \<Rightarrow> 'v app" where
  "app_group group_name app = app\<lparr>a_group := group_name\<rparr>"

definition app_require_a_subcommand :: "'v app \<Rightarrow> 'v app" where
  "app_require_a_subcommand app = app\<lparr>a_require_subcommand_min := 1, a_require_subcommand_max := 0\<rparr>"

definition app_require_subcommand_range :: "nat \<Rightarrow> nat \<Rightarrow> 'v app \<Rightarrow> 'v app" where
  "app_require_subcommand_range lo hi app = app\<lparr>a_require_subcommand_min := lo, a_require_subcommand_max := hi\<rparr>"

definition app_require_an_option :: "'v app \<Rightarrow> 'v app" where
  "app_require_an_option app = app\<lparr>a_require_option_min := 1, a_require_option_max := 0\<rparr>"

definition app_require_option_range :: "nat \<Rightarrow> nat \<Rightarrow> 'v app \<Rightarrow> 'v app" where
  "app_require_option_range lo hi app = app\<lparr>a_require_option_min := lo, a_require_option_max := hi\<rparr>"

definition app_set_fallthrough :: "bool \<Rightarrow> 'v app \<Rightarrow> 'v app" where
  "app_set_fallthrough value app = app\<lparr>a_fallthrough := value\<rparr>"

definition app_set_subcommand_fallthrough :: "bool \<Rightarrow> 'v app \<Rightarrow> 'v app" where
  "app_set_subcommand_fallthrough value app = app\<lparr>a_subcommand_fallthrough := value\<rparr>"

definition app_set_failure_message :: "(cli_error \<Rightarrow> string) \<Rightarrow> 'v app \<Rightarrow> 'v app" where
  "app_set_failure_message message_of app = app\<lparr>a_failure_message := Some (FM_user message_of)\<rparr>"

definition app_set_usage :: "string \<Rightarrow> 'v app \<Rightarrow> 'v app" where
  "app_set_usage usage_string app = app\<lparr>a_usage := usage_string\<rparr>"

definition app_set_usage_fn :: "('v \<Rightarrow> string) \<Rightarrow> 'v app \<Rightarrow> 'v app" where
  "app_set_usage_fn usage_function app = app\<lparr>a_usage_callback := Some usage_function\<rparr>"

definition app_set_footer :: "string \<Rightarrow> 'v app \<Rightarrow> 'v app" where
  "app_set_footer footer_string app = app\<lparr>a_footer := footer_string\<rparr>"

definition app_set_footer_fn :: "('v \<Rightarrow> string) \<Rightarrow> 'v app \<Rightarrow> 'v app" where
  "app_set_footer_fn footer_function app = app\<lparr>a_footer_callback := Some footer_function\<rparr>"

definition app_set_description :: "string \<Rightarrow> 'v app \<Rightarrow> 'v app" where
  "app_set_description app_description app = app\<lparr>a_description := app_description\<rparr>"

definition app_clear_aliases :: "'v app \<Rightarrow> 'v app" where
  "app_clear_aliases app = app\<lparr>a_aliases := []\<rparr>"

text \<open>The getters that compute something.\<close>

definition app_was_parsed :: "'v app \<Rightarrow> bool" where
  "app_was_parsed app \<longleftrightarrow> a_parsed app > 0"

definition get_prefix_command :: "'v app \<Rightarrow> bool" where
  "get_prefix_command app \<longleftrightarrow> a_prefix_command app \<noteq> PM_Off"

fun extras_rank :: "ExtrasMode \<Rightarrow> nat" where
  "extras_rank EM_Error = 0"
| "extras_rank EM_ErrorImmediately = 1"
| "extras_rank EM_Ignore = 2"
| "extras_rank EM_AssumeSingleArgument = 3"
| "extras_rank EM_AssumeMultipleArguments = 4"
| "extras_rank EM_Capture = 5"

definition get_allow_extras :: "'v app \<Rightarrow> bool" where
  "get_allow_extras app \<longleftrightarrow> extras_rank (a_allow_extras app) > extras_rank EM_Ignore"

definition get_disabled_by_default :: "'v app \<Rightarrow> bool" where
  "get_disabled_by_default app \<longleftrightarrow> a_default_startup app = Startup_disabled"

definition get_enabled_by_default :: "'v app \<Rightarrow> bool" where
  "get_enabled_by_default app \<longleftrightarrow> a_default_startup app = Startup_enabled"

text \<open>Options and subcommands by name.\<close>

definition get_option :: "nat \<Rightarrow> app_ptr \<Rightarrow> string \<Rightarrow> ('v, opt_ptr) cli_m" where
  "get_option n a option_name =
     m_bind (get_option_no_throw n a option_name) (\<lambda>found.
       (case found of None \<Rightarrow> m_throw (OptionNotFound option_name) | Some p \<Rightarrow> m_return p))"

definition app_count :: "nat \<Rightarrow> app_ptr \<Rightarrow> string \<Rightarrow> ('v, nat) cli_m" where
  "app_count n a option_name =
     m_bind (get_option n a option_name) (\<lambda>p. m_bind (get_opt p) (\<lambda>opt. m_return (option_count opt)))"

definition get_subcommand_no_throw :: "nat \<Rightarrow> app_ptr \<Rightarrow> string \<Rightarrow> ('v, app_ptr option) cli_m" where
  "get_subcommand_no_throw n a subcom = find_subcommand n a subcom False False"

definition got_subcommand :: "app_ptr \<Rightarrow> app_ptr \<Rightarrow> ('v, bool) cli_m" where
  "got_subcommand a subcom =
     m_bind (get_subcommand_checked a subcom) (\<lambda>s. m_bind (get_app s) (\<lambda>app. m_return (a_parsed app > 0)))"

definition got_subcommand_name :: "nat \<Rightarrow> app_ptr \<Rightarrow> string \<Rightarrow> ('v, bool) cli_m" where
  "got_subcommand_name n a subcommand_name =
     m_bind (get_subcommand_no_throw n a subcommand_name) (\<lambda>found.
       (case found of
          None \<Rightarrow> m_return False
        | Some s \<Rightarrow> m_bind (get_app s) (\<lambda>app. m_return (a_parsed app > 0))))"

definition get_subcommands :: "app_ptr \<Rightarrow> (app_ptr \<Rightarrow> 'v app \<Rightarrow> bool) option \<Rightarrow> ('v, app_ptr list) cli_m" where
  "get_subcommands a flt =
     m_bind (subcommands a) (\<lambda>subs.
       m_return (map fst (case flt of None \<Rightarrow> subs | Some f \<Rightarrow> filter (\<lambda>(s, app). f s app) subs)))"

text \<open>
  \<^verbatim>\<open>Option_group::add_subcommand\<close>: an existing subcommand is taken out of its parent, and then
  added to the group; when that throws it belongs to neither.
\<close>

definition group_add_subcommand :: "nat \<Rightarrow> app_ptr \<Rightarrow> app_ptr \<Rightarrow> ('v, unit) cli_m" where
  "group_add_subcommand n a subcom =
     m_bind (get_app subcom) (\<lambda>app.
     (case a_parent app of
        None \<Rightarrow> m_throw (Std (Undefined ''null pointer''))
      | Some parent \<Rightarrow>
          m_bind (get_subcommand_checked parent subcom) (\<lambda>subc.
          m_bind (remove_subcommand n parent subcom) (\<lambda>_.
          add_subcommand_ptr n a subc))))"

section \<open>Deprecated and retired options\<close>

text \<open>The validators only print a warning, which is left out.\<close>

definition warning_validator :: "string \<Rightarrow> validator" where
  "warning_validator desc = validator_application_index 0 (validator_of (\<lambda>s. Inr ([], s)) desc [])"

definition deprecate_option :: "opt_ptr \<Rightarrow> string \<Rightarrow> ('v, unit) cli_m" where
  "deprecate_option p replacement =
     m_seq (upd_opt p (option_check (warning_validator ''DEPRECATED'') []))
     (m_when (replacement \<noteq> [])
        (upd_opt p (\<lambda>opt. option_set_description
           (o_description opt @ '' DEPRECATED: please use '' @ [CHR 0x27] @ replacement @ [CHR 0x27] @ '' instead'') opt)))"

definition deprecate_option_name :: "nat \<Rightarrow> app_ptr \<Rightarrow> string \<Rightarrow> string \<Rightarrow> ('v, unit) cli_m" where
  "deprecate_option_name n a option_name replacement =
     m_bind (get_option n a option_name) (\<lambda>p. deprecate_option p replacement)"

text \<open>
  An option is retired by replacing it by one with its names and sizes. The names are first
  given to an option of a temporary application, which here stays in the store.
\<close>

definition retired_option :: "nat \<Rightarrow> app_ptr \<Rightarrow> string \<Rightarrow> ('v, opt_ptr) cli_m" where
  "retired_option n a option_name =
     add_option n a option_name None ''option has been retired and has no effect'' False None"

definition same_sizes :: "'v opt \<Rightarrow> 'v opt \<Rightarrow> 'v opt" where
  "same_sizes opt opt2 =
     option_allow_extra_args (o_allow_extra_args opt)
       (option_expected_range (o_expected_min opt) (o_expected_max opt)
         (set_type_size_range (o_type_size_min opt) (o_type_size_max opt) opt2))"

definition retire_option :: "nat \<Rightarrow> app_ptr \<Rightarrow> opt_ptr \<Rightarrow> ('v, unit) cli_m" where
  "retire_option n a p =
     m_bind (app_new n [] []) (\<lambda>temp.
     m_bind (get_opt p) (\<lambda>opt.
     m_bind (add_option n temp (get_name opt False True False) None [] False None) (\<lambda>copy.
     m_seq (upd_opt copy (same_sizes opt))
     (m_bind (get_opt copy) (\<lambda>option_copy.
     m_bind (remove_option a p) (\<lambda>_.
     m_bind (retired_option n a (get_name option_copy False True False)) (\<lambda>p2.
     upd_opt p2 (\<lambda>opt2.
       option_check (warning_validator []) []
         (same_sizes option_copy (option_set_default_str ''RETIRED'' (option_type_name ''RETIRED'' opt2)))))))))))"

definition retire_option_name :: "nat \<Rightarrow> app_ptr \<Rightarrow> string \<Rightarrow> ('v, unit) cli_m" where
  "retire_option_name n a option_name =
     m_bind (get_option_no_throw n a option_name) (\<lambda>found.
       (case found of
          Some p \<Rightarrow> retire_option n a p
        | None \<Rightarrow>
            m_bind (retired_option n a option_name) (\<lambda>p2.
            upd_opt p2 (\<lambda>opt2.
              option_check (warning_validator []) []
                (option_set_default_str ''RETIRED'' (option_expected_range 0 1 (option_type_name ''RETIRED'' opt2)))))))"

end
