(* ===== verification/Cli_Typed_Options.thy ===== *)
theory Cli_Typed_Options
  imports Cli_Settings Cli_Typed_Convert
begin

text \<open>
  The templates of the class \<^verbatim>\<open>App\<close> that bind an option or a flag to a variable or a function of
  one of the types of \<open>Cli_Types\<close>, and the validators that are templates. A variable of the user
  is a pair of functions on the variables, \<open>get\<close> and \<open>put\<close>.
\<close>

section \<open>Options\<close>

definition typed_callback ::
  "'f float_lib \<Rightarrow> cpp_type \<Rightarrow> ('v \<Rightarrow> 'f cpp_value) \<Rightarrow> ('f cpp_value \<Rightarrow> 'v \<Rightarrow> 'v) \<Rightarrow>
   results_t \<Rightarrow> 'v \<Rightarrow> (cli_exn + bool) \<times> 'v" where
  "typed_callback L t get put res vars =
     (case lexical_conversion_type L t res (get vars) of
        Inl e \<Rightarrow> (Inl (Std e), vars)
      | Inr (ok, value) \<Rightarrow> (Inr ok, put value vars))"

text \<open>What all of them do to the new option: its type and its sizes.\<close>

definition typed_option :: "cpp_type \<Rightarrow> 'v opt \<Rightarrow> 'v opt" where
  "typed_option t opt =
     option_expected (expected_count t)
       (set_type_size_range (type_count_min t) (type_count t) (option_type_name (type_name t) opt))"

definition add_option_typed ::
  "'f float_lib \<Rightarrow> cpp_type \<Rightarrow> nat \<Rightarrow> app_ptr \<Rightarrow> string \<Rightarrow> ('v \<Rightarrow> 'f cpp_value) \<Rightarrow> ('f cpp_value \<Rightarrow> 'v \<Rightarrow> 'v) \<Rightarrow>
   string \<Rightarrow> ('v, opt_ptr) cli_m" where
  "add_option_typed L t n a option_name get put option_description =
     m_bind (add_option n a option_name (Some (typed_callback L t get put)) option_description False
               (Some (\<lambda>vars. to_string L t (get vars)))) (\<lambda>p.
     m_seq (upd_opt p (\<lambda>opt. option_run_callback_for_default True (typed_option t opt)))
       (m_return p))"

definition add_option_no_stream ::
  "'f float_lib \<Rightarrow> cpp_type \<Rightarrow> nat \<Rightarrow> app_ptr \<Rightarrow> string \<Rightarrow> ('v \<Rightarrow> 'f cpp_value) \<Rightarrow> ('f cpp_value \<Rightarrow> 'v \<Rightarrow> 'v) \<Rightarrow>
   string \<Rightarrow> ('v, opt_ptr) cli_m" where
  "add_option_no_stream L t n a option_name get put option_description =
     m_bind (add_option n a option_name (Some (typed_callback L t get put)) option_description False
               (Some (\<lambda>_. []))) (\<lambda>p.
     m_seq (upd_opt p (\<lambda>opt. option_run_callback_for_default True (typed_option t opt)))
       (m_return p))"

text \<open>A function of the user gets a value converted into a new variable, when that succeeds.\<close>

definition function_callback ::
  "'f float_lib \<Rightarrow> cpp_type \<Rightarrow> ('f cpp_value \<Rightarrow> 'v \<Rightarrow> (cli_exn + unit) \<times> 'v) \<Rightarrow>
   results_t \<Rightarrow> 'v \<Rightarrow> (cli_exn + bool) \<times> 'v" where
  "function_callback L t func res vars =
     (case lexical_conversion_type L t res (default_value L t) of
        Inl e \<Rightarrow> (Inl (Std e), vars)
      | Inr (result, variable) \<Rightarrow>
          if result then
            (case func variable vars of (Inl e, vars') \<Rightarrow> (Inl e, vars') | (Inr _, vars') \<Rightarrow> (Inr result, vars'))
          else (Inr result, vars))"

definition add_option_function ::
  "'f float_lib \<Rightarrow> cpp_type \<Rightarrow> nat \<Rightarrow> app_ptr \<Rightarrow> string \<Rightarrow> ('f cpp_value \<Rightarrow> 'v \<Rightarrow> (cli_exn + unit) \<times> 'v) \<Rightarrow>
   string \<Rightarrow> ('v, opt_ptr) cli_m" where
  "add_option_function L t n a option_name func option_description =
     m_bind (add_option n a option_name (Some (function_callback L t func)) option_description False None) (\<lambda>p.
     m_seq (upd_opt p (typed_option t)) (m_return p))"

text \<open>The versions without a variable.\<close>

definition add_option_plain :: "nat \<Rightarrow> app_ptr \<Rightarrow> string \<Rightarrow> ('v, opt_ptr) cli_m" where
  "add_option_plain n a option_name = add_option n a option_name None [] False None"

definition add_option_described :: "nat \<Rightarrow> app_ptr \<Rightarrow> string \<Rightarrow> string \<Rightarrow> ('v, opt_ptr) cli_m" where
  "add_option_described n a option_name option_description =
     add_option n a option_name None option_description False None"

section \<open>Flags\<close>

text \<open>Integers of more than one byte count how often the flag is given.\<close>

fun counts_flags :: "cpp_type \<Rightarrow> bool" where
  "counts_flags (T_signed w) \<longleftrightarrow> w \<noteq> W8"
| "counts_flags (T_unsigned w) \<longleftrightarrow> w \<noteq> W8"
| "counts_flags _ \<longleftrightarrow> False"

definition default_flag_modifiers :: "cpp_type \<Rightarrow> 'v opt \<Rightarrow> 'v opt" where
  "default_flag_modifiers t opt =
     (if counts_flags t then
        option_force_callback True (option_set_default_str ''0'' (set_multi_option_policy Sum opt))
      else base_always_capture_default True opt)"

definition flag_variable_callback ::
  "'f float_lib \<Rightarrow> cpp_type \<Rightarrow> ('v \<Rightarrow> 'f cpp_value) \<Rightarrow> ('f cpp_value \<Rightarrow> 'v \<Rightarrow> 'v) \<Rightarrow>
   results_t \<Rightarrow> 'v \<Rightarrow> (cli_exn + bool) \<times> 'v" where
  "flag_variable_callback L t get put res vars =
     (case res of
        [] \<Rightarrow> (Inl (Std (Undefined ''element of an empty vector'')), vars)
      | s # _ \<Rightarrow> (case lexical_cast_type L t s (get vars) of (ok, value) \<Rightarrow> (Inr ok, put value vars)))"

definition add_flag_typed ::
  "'f float_lib \<Rightarrow> cpp_type \<Rightarrow> nat \<Rightarrow> app_ptr \<Rightarrow> string \<Rightarrow> ('v \<Rightarrow> 'f cpp_value) \<Rightarrow> ('f cpp_value \<Rightarrow> 'v \<Rightarrow> 'v) \<Rightarrow>
   string \<Rightarrow> ('v, opt_ptr) cli_m" where
  "add_flag_typed L t n a flag_name get put flag_description =
     m_bind (add_flag_internal n a flag_name (Some (flag_variable_callback L t get put)) flag_description) (\<lambda>p.
     m_seq (upd_opt p (default_flag_modifiers t)) (m_return p))"

text \<open>A vector gets a value for each result; it is not emptied first, and a failure leaves a default.\<close>

definition flag_vector_values ::
  "'f float_lib \<Rightarrow> cpp_type \<Rightarrow> results_t \<Rightarrow> 'f cpp_value list \<Rightarrow> bool \<times> 'f cpp_value list" where
  "flag_vector_values L t res flag_results =
     (let values = map (\<lambda>elem. lexical_cast_type L t elem (default_value L t)) res
      in (list_all fst values, flag_results @ map snd values))"

definition add_flag_vector ::
  "'f float_lib \<Rightarrow> cpp_type \<Rightarrow> nat \<Rightarrow> app_ptr \<Rightarrow> string \<Rightarrow> ('v \<Rightarrow> 'f cpp_value list) \<Rightarrow>
   ('f cpp_value list \<Rightarrow> 'v \<Rightarrow> 'v) \<Rightarrow> string \<Rightarrow> ('v, opt_ptr) cli_m" where
  "add_flag_vector L t n a flag_name get put flag_description =
     m_bind (add_flag_internal n a flag_name
               (Some (\<lambda>res vars. case flag_vector_values L t res (get vars) of
                  (retval, values) \<Rightarrow> (Inr retval, put values vars))) flag_description) (\<lambda>p.
     m_seq (upd_opt p (\<lambda>opt. option_run_callback_for_default True (option_take_all opt)))
       (m_return p))"

section \<open>Validators\<close>

definition TypeValidator :: "'f float_lib \<Rightarrow> cpp_type \<Rightarrow> string \<Rightarrow> validator" where
  "TypeValidator L t validator_name =
     validator_of (\<lambda>input_string.
       if fst (lexical_cast_type L t input_string (default_value L t)) then Inr ([], input_string)
       else Inr (''Failed parsing '' @ input_string @ '' as a '' @ type_name t, input_string)) validator_name []"

text \<open>The members of a set, and the keys of a mapping from strings; neither with a filter.\<close>

definition IsMember_type :: "'f float_lib \<Rightarrow> cpp_type \<Rightarrow> 'f cpp_value list \<Rightarrow> validator" where
  "IsMember_type L t elems =
     (let shown = ''{'' @ join_with elems (to_string L t) '','' @ ''}'' in
      validator_default\<lparr>v_desc := shown,
        v_func := (\<lambda>inp.
          (case lexical_cast_type L t inp (default_value L t) of
             (converted, b) \<Rightarrow>
               if \<not> converted then Inl (ValidationError inp)
               else if b \<in> set elems then Inr ([], inp)
               else Inr (inp @ '' not in '' @ shown, inp)))\<rparr>)"

definition mapping_text :: "'f float_lib \<Rightarrow> cpp_type \<Rightarrow> (string \<times> 'f cpp_value) list \<Rightarrow> string" where
  "mapping_text L t mapping =
     ''{'' @ join_with mapping (\<lambda>(k, v). k @ ''->'' @ to_string L t v) '','' @ ''}''"

definition Transformer_type ::
  "'f float_lib \<Rightarrow> cpp_type \<Rightarrow> (string \<times> 'f cpp_value) list \<Rightarrow> (string \<Rightarrow> string) option \<Rightarrow> validator" where
  "Transformer_type L t mapping filter_fn =
     validator_default\<lparr>v_desc := mapping_text L t mapping,
       v_func := (\<lambda>inp.
         (case search (map fst mapping) (apply_filter filter_fn inp) filter_fn of
            Some i \<Rightarrow> Inr ([], value_string L t (snd (mapping ! i)))
          | None \<Rightarrow> Inr ([], inp)))\<rparr>"

definition CheckedTransformer_type ::
  "'f float_lib \<Rightarrow> cpp_type \<Rightarrow> (string \<times> 'f cpp_value) list \<Rightarrow> (string \<Rightarrow> string) option \<Rightarrow> validator" where
  "CheckedTransformer_type L t mapping filter_fn =
     (let outputs = map (\<lambda>(k, v). value_string L t v) mapping;
          tfunc = ''value in '' @ mapping_text L t mapping @ '' OR {'' @ join_with outputs id '','' @ ''}'' in
      validator_default\<lparr>v_desc := tfunc,
        v_func := (\<lambda>inp.
          (case search (map fst mapping) (apply_filter filter_fn inp) filter_fn of
             Some i \<Rightarrow> Inr ([], value_string L t (snd (mapping ! i)))
           | None \<Rightarrow>
               if inp \<in> set outputs then Inr ([], inp)
               else Inr (''Check '' @ inp @ '' '' @ tfunc @ '' FAILED'', inp)))\<rparr>)"

text \<open>
  \<^verbatim>\<open>PermissionValidator\<close>: what the file system says of a path, that it is not there, or that
  one of the permissions asked for is set, is a parameter.
\<close>

datatype permission = Perm_none | Perm_read | Perm_write | Perm_exec

fun permission_name :: "permission \<Rightarrow> string" where
  "permission_name Perm_none = []"
| "permission_name Perm_read = ''read''"
| "permission_name Perm_write = ''write''"
| "permission_name Perm_exec = ''exec''"

definition PermissionValidator :: "(string \<Rightarrow> bool) \<Rightarrow> (string \<Rightarrow> permission \<Rightarrow> bool) \<Rightarrow> permission \<Rightarrow> validator" where
  "PermissionValidator exists permitted permission =
     validator_default\<lparr>v_desc := ''Path with '' @ permission_name permission @ '' permission'',
       v_func := (\<lambda>path.
         (if \<not> exists path then Inr (''Path does not exist: '' @ path, path)
          else if permission = Perm_none then Inr ([], path)
          else if \<not> permitted path permission then Inr (''Path does not have required permissions: '' @ path, path)
          else Inr ([], path)))\<rparr>"

section \<open>What the option takes and what its callback needs\<close>

text \<open>
  The sizes an option of a type gets are those its conversion counts on: at least one string for
  each value of fixed size, and the separator between values of a varying size.
\<close>

lemma typed_option_sizes:
  assumes "0 \<le> type_count_min t" and "type_count_min t \<le> type_count t" and "type_count t < expected_max_vector_size"
  shows "o_type_size_min (typed_option t opt) = type_count_min t" "o_type_size_max (typed_option t opt) = type_count t"
    "o_inject_separator (typed_option t opt) = o_inject_separator opt"
  using assms by (simp_all add: typed_option_def option_expected_def set_type_size_range_def option_type_name_def
      option_type_name_fn_def Let_def)

text \<open>The variable of a 16 bit port and of a string are instances.\<close>

lemma typed_callback_string:
  "typed_callback L T_string (\<lambda>vars. V_string (get vars)) (\<lambda>v. put (the_string v)) res vars
    = variable_callback (lexical_assign lexical_cast_string []) get put res vars"
  by (cases res) (simp_all add: typed_callback_def variable_callback_def lexical_conversion_def lexical_assign_type_def
      lexical_assign_def lexical_cast_string_def)

lemma typed_callback_port:
  "typed_callback L (T_unsigned W16) (\<lambda>vars. V_int (uint (get vars))) (\<lambda>v. put (word_of_int (the_int v))) res vars
    = variable_callback (lexical_assign integral_conversion_unsigned (0 :: 16 word)) get put res vars"
  by (cases res) (simp_all add: typed_callback_def variable_callback_def lexical_conversion_def lexical_assign_type_def
      lexical_assign_def split: prod.split)

end
