(* ===== verification/Cli_Floats.thy ===== *)
theory Cli_Floats
  imports Cli_Typed_Options
begin

text \<open>
  What the library computes with floating-point numbers: the sum of the results of an option with
  the policy \<open>Sum\<close>, the ranges and bounds at \<^verbatim>\<open>double\<close>, and the checked multiplication. The
  arithmetic and the order of the numbers are a parameter; nothing is assumed of them.
\<close>

record 'f double_lib = "'f float_lib" +
  fl_less :: "'f \<Rightarrow> 'f \<Rightarrow> bool"
  fl_plus :: "'f \<Rightarrow> 'f \<Rightarrow> 'f"
  fl_times :: "'f \<Rightarrow> 'f \<Rightarrow> 'f"
  fl_is_inf :: "'f \<Rightarrow> bool"
  fl_of_int :: "int \<Rightarrow> 'f"
  fl_show16 :: "'f \<Rightarrow> string"
  fl_smallest :: 'f
  fl_largest :: 'f

abbreviation cast_double :: "'f double_lib \<Rightarrow> string \<Rightarrow> bool \<times> 'f" where
  "cast_double L s \<equiv> lexical_cast_float (float_lib.truncate L) s (fl_zero L)"

section \<open>The sum of strings\<close>

text \<open>One value: a number, or else a flag; \<^term>\<open>None\<close> when it is neither.\<close>

definition summand :: "'f double_lib \<Rightarrow> string \<Rightarrow> 'f option" where
  "summand L arg =
     (case cast_double L arg of (ok, tv) \<Rightarrow>
        if ok then Some tv
        else (case to_flag_value arg of (fv, err) \<Rightarrow> if err \<noteq> None then None else Some (fl_of_int L (sint fv))))"

fun sum_loop :: "'f double_lib \<Rightarrow> string list \<Rightarrow> 'f \<Rightarrow> 'f option" where
  "sum_loop L [] val = Some val"
| "sum_loop L (arg # args) val =
     (case summand L arg of None \<Rightarrow> None | Some tv \<Rightarrow> sum_loop L args (fl_plus L val tv))"

definition sum_string_vector :: "'f double_lib \<Rightarrow> string list \<Rightarrow> string" where
  "sum_string_vector L strings =
     (case sum_loop L strings (fl_zero L) of None \<Rightarrow> concat strings | Some val \<Rightarrow> fl_show16 L val)"

text \<open>The environment of the parser, with the sum computed as the code does.\<close>

definition with_sums :: "'f double_lib \<Rightarrow> environment \<Rightarrow> environment" where
  "with_sums L env = env\<lparr>env_sum_strings := sum_string_vector L\<rparr>"

lemma sum_loop_spec:
  "sum_loop L args val =
     (if None \<in> summand L ` set args then None else Some (foldl (fl_plus L) val (map (the \<circ> summand L) args)))"
  by (induction args arbitrary: val) (auto split: option.split)

text \<open>The order of the values matters only for the rounding: one that is no number stops the sum.\<close>

lemma sum_is_total_or_text:
  "sum_string_vector L strings =
     (if \<exists>s \<in> set strings. summand L s = None then concat strings
      else fl_show16 L (foldl (fl_plus L) (fl_zero L) (map (the \<circ> summand L) strings)))"
  by (auto simp: sum_string_vector_def sum_loop_spec image_iff dest: sym)

section \<open>Ranges and bounds\<close>

definition double_range :: "'f double_lib \<Rightarrow> 'f \<Rightarrow> 'f \<Rightarrow> string" where
  "double_range L min_val max_val = ''['' @ fl_show L min_val @ '' - '' @ fl_show L max_val @ '']''"

definition Range_double :: "'f double_lib \<Rightarrow> 'f \<Rightarrow> 'f \<Rightarrow> string \<Rightarrow> validator" where
  "Range_double L min_val max_val validator_name =
     validator_default\<lparr>
       v_desc := (if validator_name = [] then type_name T_float @ '' in '' @ double_range L min_val max_val
                  else validator_name),
       v_func := (\<lambda>inp.
         (case cast_double L inp of (converted, val) \<Rightarrow>
            Inr (if \<not> converted \<or> (fl_less L val min_val \<or> fl_less L max_val val)
                 then ''Value '' @ inp @ '' not in range '' @ double_range L min_val max_val
                 else [], inp)))\<rparr>"

definition Range_upto :: "'f double_lib \<Rightarrow> 'f \<Rightarrow> string \<Rightarrow> validator" where
  "Range_upto L max_val validator_name = Range_double L (fl_zero L) max_val validator_name"

definition NonNegativeNumber :: "'f double_lib \<Rightarrow> validator" where
  "NonNegativeNumber L = Range_upto L (fl_largest L) ''NONNEGATIVE''"

definition PositiveNumber :: "'f double_lib \<Rightarrow> validator" where
  "PositiveNumber L = Range_double L (fl_smallest L) (fl_largest L) ''POSITIVE''"

definition Number :: "'f double_lib \<Rightarrow> validator" where
  "Number L = TypeValidator (float_lib.truncate L) T_float ''NUMBER''"

definition Bound_double :: "'f double_lib \<Rightarrow> 'f \<Rightarrow> 'f \<Rightarrow> validator" where
  "Bound_double L min_val max_val =
     validator_default\<lparr>
       v_desc := type_name T_float @ '' bounded to '' @ double_range L min_val max_val,
       v_func := (\<lambda>inp.
         (case cast_double L inp of (converted, val) \<Rightarrow>
            if \<not> converted then Inr (''Value '' @ inp @ '' could not be converted'', inp)
            else Inr ([], if fl_less L val min_val then fl_show L min_val
                          else if fl_less L max_val val then fl_show L max_val
                          else inp)))\<rparr>"

text \<open>
  A value that compares with neither bound, as NaN does, is in every range and within every
  bound.
\<close>

lemma unordered_in_range:
  assumes "cast_double L inp = (True, val)" and "\<And>x. \<not> fl_less L val x \<and> \<not> fl_less L x val"
  shows "v_func (Range_double L lo hi name) inp = Inr ([], inp)" and "v_func (Bound_double L lo hi) inp = Inr ([], inp)"
  using assms by (simp_all add: Range_double_def Bound_double_def)

section \<open>Checked multiplication\<close>

definition checked_multiply_double :: "'f double_lib \<Rightarrow> 'f \<Rightarrow> 'f \<Rightarrow> bool \<times> 'f" where
  "checked_multiply_double L a b =
     (let c = fl_times L a b in
      if fl_is_inf L c \<and> \<not> fl_is_inf L a \<and> \<not> fl_is_inf L b then (False, a) else (True, c))"

end
