(* ===== verification/Spec2Isabelle.thy ===== *)
theory Spec2Isabelle
  imports Scripted_Kernel Tcpchat_Cli Tcpchat_Handled Tcpchat_Port Cli_Config_Correct Cli_Config_Write
    Cli_Typed_Correct Cli_Floats
begin

unbundle bit_operations_syntax

text \<open>
  A verification development for \<^verbatim>\<open>tcpchat\<close>, a TCP chat program: a server that relays lines
  between clients, a client, and a command line read with the header-only library
  \<^verbatim>\<open>CLI11\<close>, which the repository holds as \<^verbatim>\<open>src/include/CLI11.hpp\<close>.

  The parts of the program, from the bottom up, and the theories that model them:

  \<^item> System calls. \<^verbatim>\<open>Sys_Calls\<close> describes the kernel as a parameter: a record of functions, one
  for each call the program makes, over a state of the kernel that stays abstract; a process is
  that state with a trace of what it did. \<^verbatim>\<open>Effects\<close> has the lemmas on traces (what was read,
  written, opened and closed). What the program relies on is stated as named hypotheses: documented
  behaviour such as \<open>reads_bounded\<close> (a read returns at most as many bytes as asked), and
  assumptions of fairness such as \<open>interrupts_finite\<close> (signals do not interrupt a write for ever).
  \<^verbatim>\<open>Scripted_Kernel\<close> is an instance, a kernel that plays back a script; every witness runs on it.

  \<^item> \<^verbatim>\<open>src/net_unix.cpp\<close>, \<^verbatim>\<open>src/net_io.cpp\<close>, \<^verbatim>\<open>src/net_socket.cpp\<close> and
  \<^verbatim>\<open>include/net_utils.hpp\<close>: the theories \<^verbatim>\<open>Net_Unix\<close>, \<^verbatim>\<open>Net_Io\<close>, \<^verbatim>\<open>Net_Socket\<close> and
  \<^verbatim>\<open>Net_Utils\<close>. Exceptions are the left values of a sum. The loops of \<^verbatim>\<open>readn\<close> and
  \<^verbatim>\<open>writen\<close> may repeat for ever when a call is interrupted for ever, so they are partial
  functions whose value is \<^term>\<open>None\<close> then.

  \<^item> \<^verbatim>\<open>ProtocolBuffer\<close>: \<^verbatim>\<open>Protocol_Buffer\<close> models it with its 1024 bytes, every memory
  access with its bounds; \<^verbatim>\<open>Line_Framing\<close> is the abstract view, a sequence of bytes and the
  lines in it; \<^verbatim>\<open>Buffer_Correct\<close> proves the operations against that view.

  \<^item> \<^verbatim>\<open>ChatServer\<close>: \<^verbatim>\<open>Chat_Server\<close> and \<^verbatim>\<open>Server_Loop\<close> model the operations and the
  event loop; \<^verbatim>\<open>Server_Ops_Correct\<close>, \<^verbatim>\<open>Server_Turn_Correct\<close>, \<^verbatim>\<open>Server_Invariants\<close>,
  \<^verbatim>\<open>Server_Life\<close> and \<^verbatim>\<open>Server_Delivery\<close> prove the turn of a client, the invariant that
  ties clients to poll entries, the life of the descriptors, and what is delivered to whom.

  \<^item> \<^verbatim>\<open>ChatClient\<close>: \<^verbatim>\<open>Chat_Client\<close>, with \<^verbatim>\<open>Client_Correct\<close> and \<^verbatim>\<open>Client_Life\<close>.
  \<^verbatim>\<open>Chat_Protocol\<close> puts client and server together.

  \<^item> \<^verbatim>\<open>CLI11.hpp\<close>, in the order of the file: strings (\<^verbatim>\<open>Cli_Text\<close>), escapes
  (\<^verbatim>\<open>Cli_Escape\<close>), quotes and brackets (\<^verbatim>\<open>Cli_Quotes\<close>), errors (\<^verbatim>\<open>Cli_Error\<close>), conversions
  (\<^verbatim>\<open>Cli_Convert\<close>), validators (\<^verbatim>\<open>Cli_Validators\<close>), names (\<^verbatim>\<open>Cli_Names\<close>), the class
  \<^verbatim>\<open>Option\<close> (\<^verbatim>\<open>Cli_Option\<close>, \<^verbatim>\<open>Cli_Results\<close>), the class \<^verbatim>\<open>App\<close> (\<^verbatim>\<open>Cli_App\<close> for the data,
  \<^verbatim>\<open>Cli_Query\<close> for the functions that do not change it, \<^verbatim>\<open>Cli_Build\<close> for its construction,
  \<^verbatim>\<open>Cli_Process\<close> and \<^verbatim>\<open>Cli_Parse\<close> for a parse), and the help texts (\<^verbatim>\<open>Cli_Format\<close>).
  \<^verbatim>\<open>Cli_Monad\<close> has the computations these are written in: functions of a state that return a
  value or an exception and the changed state.

  \<^item> Its templates: \<^verbatim>\<open>Cli_Types\<close> has the types a variable may have and the type traits as
  functions of them, \<^verbatim>\<open>Cli_Typed_Convert\<close> the conversion of strings to a value of any such type,
  \<^verbatim>\<open>Cli_Typed_Options\<close> the options, flags and validators made for a type, \<^verbatim>\<open>Cli_Floats\<close> what is
  computed with floating-point numbers. \<^verbatim>\<open>Cli_Settings\<close> has the setters and getters of all
  classes, and the deprecated and retired options.

  \<^item> Its configuration files: \<^verbatim>\<open>Cli_Config\<close> reads and joins the values, \<^verbatim>\<open>Cli_Config_Write\<close>
  writes the text of an application.

  \<^item> \<^verbatim>\<open>src/tcpchat.cpp\<close>: \<^verbatim>\<open>Tcpchat_App\<close> builds and parses the command line of \<^verbatim>\<open>main\<close>,
  \<^verbatim>\<open>Tcpchat_Main\<close> runs the server or the client, \<^verbatim>\<open>Tcpchat_Cli\<close> is \<^verbatim>\<open>main\<close>. What the parse of this
  application does is proved in steps: its tree of subcommands (\<^verbatim>\<open>Tcpchat_Tree\<close>), the invariant
  of its state (\<^verbatim>\<open>Tcpchat_State\<close>), that every step keeps it (\<^verbatim>\<open>Tcpchat_Safe\<close>), what the queries
  answer (\<^verbatim>\<open>Tcpchat_Queries\<close>), that the parse comes to an end (\<^verbatim>\<open>Tcpchat_Total\<close>), that every
  exception is handled (\<^verbatim>\<open>Tcpchat_Handled\<close>), and one command line in full (\<^verbatim>\<open>Tcpchat_Port\<close>).

  How the model stands for the code. Applications and options are objects that point to each
  other; here they live in a store, two lists, and a pointer is a position in its list. The sets
  of pointers are lists without repetition, in the order of insertion: the order of addresses is
  not modelled. The variables of the user, which callbacks write, are a type parameter. The vector
  of arguments is shared by all parsing functions and reversed, as in the code. A function stored
  in an object (a validator, a callback, the text of a type) is a function value. Character
  classes are those of the C locale; \<^verbatim>\<open>strtoull\<close> and \<^verbatim>\<open>strtoll\<close> are the functions of the C
  standard, with \<^verbatim>\<open>errno\<close> as a part of the result. Integers that can overflow are words.

  Fuel. The parsing functions call each other on the application, its subcommands and its parent,
  so each is a definition that gets the others as an argument, and \<open>run_call\<close> ties them together;
  its first argument bounds the depth of the calls, and the exception \<^term>\<open>No_fuel\<close>, which the
  code does not have, says it was too small. The functions that walk down the tree of
  applications are bounded in the same way. For the command line of this program
  \<open>3 * weight args + 13\<close> is enough for any arguments, where \<open>weight\<close> counts their characters
  (C38), and 18 for the line of C39. Other
  theorems that say a parse gives a result say so for every large enough fuel.

  What the lemmas show. The properties C1 to C30 are about the chat: relaying, the handshake, the
  limits, removal and release of descriptors, delivery from keyboard to screen, and the loops
  under them. The
  others are about the command line: what parsing may change (C31, the frame of \<^verbatim>\<open>Cli_Frame\<close>), what
  a callback receives (C32, \<^verbatim>\<open>Cli_Results_Correct\<close>), the conversions and escapes
  (C33 to C36, \<^verbatim>\<open>Cli_Text_Correct\<close>), the round trip of a configuration file (C37,
  \<^verbatim>\<open>Cli_Config_Correct\<close>), that the program deals with every command line (C38) and serves on the
  port it is given (C39), and that the conversion to any type gives values of that type and reads
  nothing past the end of the results (C40, \<^verbatim>\<open>Cli_Typed_Correct\<close>).

  Interfaces. The contracts between components are locales, interpreted on the model where it
  provides them: \<open>data_effect\<close> and \<open>control_effect\<close> for system calls
  (\<^verbatim>\<open>Effects\<close>), \<open>framer\<close> for a buffer of lines (\<^verbatim>\<open>Line_Framing\<close>, provided by
  \<^verbatim>\<open>Buffer_Correct\<close>), \<open>block_writer\<close> for \<^verbatim>\<open>writen\<close> (\<^verbatim>\<open>Net_Io\<close>), and
  \<open>preorder_frame\<close> with its extension \<open>parse_frame\<close> for what an operation of the parser may
  change (\<^verbatim>\<open>Cli_Frame\<close>).

  Not modelled: the signal \<^verbatim>\<open>SIGPIPE\<close>, which the program does not ignore, so that a write to a
  closed connection may end the process where the model has a failed call; how much
  \<^verbatim>\<open>std::cin\<close> reads ahead, a parameter; the arithmetic of floating-point numbers and their texts, which are parameters
  (\<open>float_lib\<close>, \<open>double_lib\<close>), and so is the sum of strings inside the parser
  (\<open>env_sum_strings\<close>, for which \<open>with_sums\<close> puts the function of the code); wide strings and
  the encodings, the Windows
  command line and other code for Windows; formatters of the user; callbacks that change the
  application (\<^verbatim>\<open>TriggerOn\<close>, \<^verbatim>\<open>TriggerOff\<close>); the warnings of deprecated options, which go to the
  standard output. The tests and build files
  are not part of the program.
\<close>

section \<open>The server\<close>

text \<open>
  C1. A connected client with nothing waiting sends whole lines: its turn ends with the session
  unchanged, and every other client, and nobody else, has been sent the lines with the
  sender's name in front. If a write fails, the exception is a system error, and each of the
  others has been sent some prefix of that message.
\<close>

theorem server_relays_lines:
  assumes "clients_wf cs" and "aligned cs pfs" and "i < length cs" and "distinct (client_fds cs)"
    and "reads_bounded os" and "writes_bounded os" and "interrupts_finite os m"
    and "pfd_revents (pfs ! (i + 2)) AND (POLLERR OR POLLHUP OR POLLNVAL) = 0"
    and "pfd_revents (pfs ! (i + 2)) AND POLLIN \<noteq> 0"
    and "session (cs ! i) = (True, name, [])"
    and "os_read os (client_fds cs ! i) 1024 (kern p) = (Inr lines, w)"
    and "lines \<noteq> []" and "last lines = newline"
  shows "\<exists>c' r q. client_turn os i nready cs pfs p = Some (r, cs[i := c'], pfs, q)
    \<and> session c' = (True, name, []) \<and> ci_fd c' = ci_fd (cs ! i)
    \<and> (case r of
         Inr x \<Rightarrow> x = (nready - 1 \<le> 0, i + 1, nready - 1) \<and> delivered (''['' @ name @ '']: '' @ lines) cs i p q
       | Inl e \<Rightarrow> io_error e \<and> delivered_part (''['' @ name @ '']: '' @ lines) cs i p q)"
proof -
  have s: "content (ci_buffer (cs ! i)) = []" "ci_connected (cs ! i)" "ci_name (cs ! i) = name"
    using assms(10) by (simp_all add: session_def)
  then have room: "1024 - length (content (ci_buffer (cs ! i))) = 1024" by simp
  from client_turn_input [OF assms(1-9), unfolded room, OF assms(11,12)] obtain c' out r q
    where a: "absorbed (cs ! i) lines c' out"
      and t: "client_turn os i nready cs pfs p = Some (r, cs[i := c'], pfs, q)"
        "case r of Inr x \<Rightarrow> x = (nready - 1 \<le> 0, i + 1, nready - 1) \<and> delivered out cs i p q
         | Inl e \<Rightarrow> io_error e \<and> delivered_part out cs i p q" by blast
  have "ci_fd c' = ci_fd (cs ! i)" using a by (simp add: absorbed_def)
  with absorbed_lines [OF a clients_wf_nth [OF assms(1,3)] s(1,2) assms(12,13)] s(3) t show ?thesis
    by (intro exI [of _ c'] exI [of _ r] exI [of _ q]) (auto simp: tagged_def split: sum.splits)
qed

theorem server_relays_lines_witness:
  "\<exists>c' r q. client_turn script_os 0 1 demo_clients demo_pollfds (demo_proc [''hi'' @ [newline]] []) =
      Some (r, demo_clients[0 := c'], demo_pollfds, q)
    \<and> session c' = (True, ''amy'', []) \<and> ci_fd c' = ci_fd (demo_clients ! 0)
    \<and> (case r of
         Inr x \<Rightarrow> x = ((1 :: int) - 1 \<le> 0, 0 + 1, 1 - 1)
           \<and> delivered (''['' @ ''amy'' @ '']: '' @ ''hi'' @ [newline]) demo_clients 0 (demo_proc [''hi'' @ [newline]] []) q
       | Inl e \<Rightarrow> io_error e
           \<and> delivered_part (''['' @ ''amy'' @ '']: '' @ ''hi'' @ [newline]) demo_clients 0 (demo_proc [''hi'' @ [newline]] []) q)"
  by (rule server_relays_lines [of demo_clients demo_pollfds 0 script_os "\<lambda>_. 0" "''amy''"]) (simp_all add: only_def)

text \<open>
  C2. An iteration of the event loop returns, whatever happens, as long as signals do not
  interrupt a write for ever and connections are not aborted for ever, and keeps the server well
  formed: at most 62 clients, every buffer within its bounds, every descriptor the process
  holds owned by one member and every other closed once. The only exceptions that leave it are
  failed calls; no access to a vector or an array is out of bounds. It leaves the loop with
  \<^verbatim>\<open>break\<close> exactly when the server has been stopped.
\<close>

theorem server_iteration_safe:
  assumes "server_wf sv" and "sv_running sv" and "accounts p (h + server_held sv)"
    and "reads_bounded os" and "writes_bounded os" and "interrupts_finite os m" and "aborts_finite os a"
  shows "\<exists>r sv' q. server_iter os sv p = Some (r, sv', q) \<and> server_wf sv' \<and> length (sv_clients sv') \<le> 62
    \<and> accounts q (h + server_held sv')
    \<and> (case r of Inl e \<Rightarrow> io_error e \<and> sv_running sv' | Inr fl \<Rightarrow> sv_running sv' \<longleftrightarrow> fl = Continue)"
proof -
  obtain r sv' q where it: "server_iter os sv p = Some (r, sv', q)"
    using server_iter_returns [OF assms(1,2,4-7), of p] by (metis option.exhaust prod_cases3)
  with server_iter_ok [OF it assms(1-4)] show ?thesis
    by (intro exI [of _ r] exI [of _ sv'] exI [of _ q])
      (auto simp: iter_ok_def server_wf_def split: sum.splits flow.splits)
qed

theorem server_iteration_safe_witness:
  "\<exists>r sv' q. server_iter script_os demo_server (demo_proc [''hi''] [only 2 POLLIN]) = Some (r, sv', q)
    \<and> server_wf sv' \<and> length (sv_clients sv') \<le> 62 \<and> accounts q ({#} + server_held sv')
    \<and> (case r of Inl e \<Rightarrow> io_error e \<and> sv_running sv' | Inr fl \<Rightarrow> sv_running sv' \<longleftrightarrow> fl = Continue)"
  by (rule server_iteration_safe [where m = "\<lambda>_. 0" and a = "\<lambda>_. 0"]) simp_all

text \<open>
  C3. No ready client is passed over, though the code removes clients by swapping the last one
  into the gap while it walks the vector: when an iteration ends without an exception, every
  client whose entry \<^verbatim>\<open>poll\<close> reported was read from or closed.
\<close>

theorem server_serves_all_ready:
  assumes "server_wf sv" and "reads_bounded os" and "poll_counts os" and "poll_reports_requested os"
    and "os_poll os (poll_set sv) (- 1) (kern p) = (Inr (n, rv), w)"
    and "j < length (sv_clients sv)" and "rv (j + 2) \<noteq> 0"
  shows "case server_iter os sv p of
      Some (Inr _, sv', q) \<Rightarrow> served_since p (fd_get (ci_fd (sv_clients sv ! j))) q
    | _ \<Rightarrow> True"
  using server_iter_fair [OF _ assms(5,1,2,3,4,6,7)] by (auto split: option.splits sum.splits)

theorem server_serves_all_ready_witness:
  "case server_iter script_os demo_server (demo_proc [''hi''] [only 3 POLLIN]) of
      Some (Inr _, sv', q) \<Rightarrow>
        served_since (demo_proc [''hi''] [only 3 POLLIN]) (fd_get (ci_fd (sv_clients demo_server ! 1))) q
    | _ \<Rightarrow> True"
  by (rule server_serves_all_ready [OF _ _ _ _ script_polls [OF demo_proc_facts(3)]])
    (simp_all add: seen_poll_set, simp add: only_def)

text \<open>
  C4. In every state a server can reach from its construction, by any sequence of runs,
  iterations and stops with any results, the class invariant holds and the descriptors are
  accounted for; no two clients share one, as long as the kernel hands out only closed ones.
\<close>

theorem server_lifetime:
  assumes "server_reach os sv p" and "reads_bounded os" and "fresh_opens std_open (trace p)"
  shows "server_wf sv \<and> accounts p (server_held sv) \<and> distinct (client_fds (sv_clients sv))"
  using server_reach_ok [OF assms(1,2)] server_reach_distinct [OF assms] by blast

theorem server_lifetime_witness:
  "server_wf (fst (snd (server_run script_os server_default (script_start [] []))))
    \<and> accounts (snd (snd (server_run script_os server_default (script_start [] []))))
        (server_held (fst (snd (server_run script_os server_default (script_start [] [])))))
    \<and> distinct (client_fds (sv_clients (fst (snd (server_run script_os server_default (script_start [] []))))))"
proof (rule server_lifetime [where os = script_os])
  show "fresh_opens std_open (trace (snd (snd (server_run script_os server_default (script_start [] [])))))"
    by code_simp
qed (simp_all add: server_reach_run server_reach.constructed)

text \<open>
  C5. When the event loop ends, either an exception left it, and the server is still running
  with all its descriptors accounted for, or the server is stopped and everything is closed.
\<close>

theorem server_event_loop_end:
  assumes "server_reach os sv p" and "sv_running sv" and "reads_bounded os"
  shows "case server_event_loop os sv p of
      None \<Rightarrow> True
    | Some (r, sv', q) \<Rightarrow> server_wf sv' \<and> accounts q (server_held sv') \<and>
        (case r of Inl e \<Rightarrow> io_error e \<and> sv_running sv' | Inr _ \<Rightarrow> \<not> sv_running sv' \<and> accounts q {#})"
proof (cases "server_event_loop os sv p")
  case (Some res)
  then obtain r sv' q where res: "server_event_loop os sv p = Some (r, sv', q)" by (metis prod_cases3)
  from server_event_loop_ok [OF res assms] server_reach_ok [OF _ assms(3), of sv' q] res show ?thesis by simp
qed simp

theorem server_event_loop_end_witness:
  "case server_event_loop script_os (fst (snd (server_run script_os server_default (script_start [] []))))
        (snd (snd (server_run script_os server_default (script_start [] [])))) of
      None \<Rightarrow> True
    | Some (r, sv', q) \<Rightarrow> server_wf sv' \<and> accounts q (server_held sv') \<and>
        (case r of Inl e \<Rightarrow> io_error e \<and> sv_running sv' | Inr _ \<Rightarrow> \<not> sv_running sv' \<and> accounts q {#})"
proof (rule server_event_loop_end)
  show "server_reach script_os (fst (snd (server_run script_os server_default (script_start [] []))))
      (snd (snd (server_run script_os server_default (script_start [] []))))"
    by (simp add: server_reach_run server_reach.constructed)
  show "sv_running (fst (snd (server_run script_os server_default (script_start [] []))))"
    by code_simp
qed simp

text \<open>
  C6. Start: on a stopped server a successful run opens exactly two descriptors, which the
  server holds; a failed one changes nothing and closes the socket it made; a second run on a
  running server is refused.
\<close>

theorem server_run_spec:
  assumes "server_wf sv" and "accounts p (h + server_held sv)"
  shows "case server_run os sv p of (r, sv', q) \<Rightarrow>
    accounts q (h + server_held sv') \<and> server_wf sv' \<and>
    (if sv_running sv then r = Inl (LogicError ''server is already running'') \<and> sv' = sv \<and> q = p
     else case r of
       Inl e \<Rightarrow> io_error e \<and> sv' = sv
     | Inr _ \<Rightarrow> sv_running sv' \<and> sv_clients sv' = [] \<and>
         server_held sv' = {#fd_get (sv_listenfd sv'), fd_get (sv_signalfd sv')#})"
proof -
  obtain r sv' q where run: "server_run os sv p = (r, sv', q)" by (metis prod_cases3)
  note ok = server_run_ok [OF run assms]
  show ?thesis
  proof (cases "sv_running sv")
    case True
    with run ok show ?thesis by (simp add: server_run_def)
  next
    case off: False
    have "accounts p h" using assms(2) server_held_off [OF assms(1) off] by simp
    note owned = server_run_owned [OF run off assms(1) this]
    show ?thesis
    proof (cases r)
      case (Inl e)
      with owned ok run off show ?thesis by (auto simp: io_error_def)
    next
      case (Inr u)
      with owned ok run off assms(1) show ?thesis
        by (auto simp: server_wf_def server_held_def fds_of_def client_fds_def fd_valid_def add_mset_commute)
    qed
  qed
qed

theorem server_run_spec_witness:
  "case server_run script_os server_default (script_start [] []) of (r, sv', q) \<Rightarrow>
    accounts q ({#} + server_held sv') \<and> server_wf sv' \<and>
    (if sv_running server_default then r = Inl (LogicError ''server is already running'') \<and> sv' = server_default
       \<and> q = script_start [] []
     else case r of
       Inl e \<Rightarrow> io_error e \<and> sv' = server_default
     | Inr _ \<Rightarrow> sv_running sv' \<and> sv_clients sv' = [] \<and>
         server_held sv' = {#fd_get (sv_listenfd sv'), fd_get (sv_signalfd sv')#})"
  by (rule server_run_spec) (simp_all add: accounts_init)

text \<open>C7. Stop and destruction close every descriptor the server holds, each once, and nothing else.\<close>

theorem server_stop_closes_all:
  assumes "server_wf sv" and "accounts p (h + server_held sv)"
  shows "(case server_stop os sv p of (sv', q) \<Rightarrow>
      accounts q h \<and> server_wf sv' \<and> \<not> sv_running sv' \<and> server_held sv' = {#})
    \<and> accounts (server_destroy os sv p) h"
proof -
  have cw: "clients_wf (sv_clients sv)" using assms(1) by (simp add: server_wf_def)
  from server_stop_owned [OF cw assms(2), of os] server_destroy_owned [OF cw assms(2), of os] assms(1)
  show ?thesis by (auto simp: server_wf_def server_held_def clients_wf_def client_fds_def)
qed

theorem server_stop_closes_all_witness:
  "(case server_stop script_os demo_server (demo_proc [] []) of (sv', q) \<Rightarrow>
      accounts q {#} \<and> server_wf sv' \<and> \<not> sv_running sv' \<and> server_held sv' = {#})
    \<and> accounts (server_destroy script_os demo_server (demo_proc [] [])) {#}"
  by (rule server_stop_closes_all) simp_all

text \<open>
  C8. The turn of a client that sent bytes refines the session machine \<open>absorb\<close>: the session
  afterwards, and the message to the others, are what the machine makes of the buffer the read
  left, whether the name is known or not and whether the lines are complete or not.
\<close>

theorem server_turn_refines_session:
  assumes "clients_wf cs" and "aligned cs pfs" and "i < length cs" and "distinct (client_fds cs)"
    and "reads_bounded os" and "writes_bounded os" and "interrupts_finite os m"
    and "pfd_revents (pfs ! (i + 2)) AND (POLLERR OR POLLHUP OR POLLNVAL) = 0"
    and "pfd_revents (pfs ! (i + 2)) AND POLLIN \<noteq> 0"
    and "os_read os (client_fds cs ! i) (1024 - length (content (ci_buffer (cs ! i)))) (kern p) = (Inr bs, w)"
    and "bs \<noteq> []"
  shows "\<exists>c' out r q. client_turn os i nready cs pfs p = Some (r, cs[i := c'], pfs, q)
    \<and> absorb (ci_connected (cs ! i), ci_name (cs ! i), content (recv_at_start (ci_buffer (cs ! i)) bs)) = (session c', out)
    \<and> client_wf c' \<and> ci_fd c' = ci_fd (cs ! i)
    \<and> (case r of Inr _ \<Rightarrow> delivered out cs i p q | Inl e \<Rightarrow> io_error e \<and> delivered_part out cs i p q)"
proof -
  from client_turn_input [OF assms] obtain c' out r q where
    "absorbed (cs ! i) bs c' out" "client_turn os i nready cs pfs p = Some (r, cs[i := c'], pfs, q)"
    "case r of Inr x \<Rightarrow> x = (nready - 1 \<le> 0, i + 1, nready - 1) \<and> delivered out cs i p q
     | Inl e \<Rightarrow> io_error e \<and> delivered_part out cs i p q" by blast
  then show ?thesis
    by (intro exI [of _ c'] exI [of _ out] exI [of _ r] exI [of _ q]) (auto simp: absorbed_def split: sum.splits)
qed

theorem server_turn_refines_session_witness:
  "\<exists>c' out r q. client_turn script_os 0 1 demo_clients demo_pollfds (demo_proc [''h''] []) =
      Some (r, demo_clients[0 := c'], demo_pollfds, q)
    \<and> absorb (ci_connected (demo_clients ! 0), ci_name (demo_clients ! 0),
        content (recv_at_start (ci_buffer (demo_clients ! 0)) ''h'')) = (session c', out)
    \<and> client_wf c' \<and> ci_fd c' = ci_fd (demo_clients ! 0)
    \<and> (case r of Inr _ \<Rightarrow> delivered out demo_clients 0 (demo_proc [''h''] []) q
       | Inl e \<Rightarrow> io_error e \<and> delivered_part out demo_clients 0 (demo_proc [''h''] []) q)"
  by (rule server_turn_refines_session [where m = "\<lambda>_. 0"]) (simp_all add: only_def)

text \<open>
  C9. The handshake: in the turn of a client whose name is not known, which sends a name, a
  newline and then whole lines (or nothing), the server takes the name without its newline, and
  every other client, and nobody else, is sent the lines under it. If a write fails, the
  exception is a system error, and each of the others has been sent some prefix of that message.
\<close>

theorem server_learns_name:
  assumes "clients_wf cs" and "aligned cs pfs" and "i < length cs" and "distinct (client_fds cs)"
    and "reads_bounded os" and "writes_bounded os" and "interrupts_finite os m"
    and "pfd_revents (pfs ! (i + 2)) AND (POLLERR OR POLLHUP OR POLLNVAL) = 0"
    and "pfd_revents (pfs ! (i + 2)) AND POLLIN \<noteq> 0"
    and "session (cs ! i) = (False, old_name, [])"
    and "os_read os (client_fds cs ! i) 1024 (kern p) = (Inr (name @ newline # lines), w)"
    and "newline \<notin> set name" and "lines = [] \<or> last lines = newline"
    and "message = (if lines = [] then [] else ''['' @ name @ '']: '' @ lines)"
  shows "\<exists>c' r q. client_turn os i nready cs pfs p = Some (r, cs[i := c'], pfs, q)
    \<and> session c' = (True, name, []) \<and> ci_fd c' = ci_fd (cs ! i)
    \<and> (case r of
         Inr x \<Rightarrow> x = (nready - 1 \<le> 0, i + 1, nready - 1) \<and> delivered message cs i p q
       | Inl e \<Rightarrow> io_error e \<and> delivered_part message cs i p q)"
proof -
  have s: "content (ci_buffer (cs ! i)) = []" "\<not> ci_connected (cs ! i)"
    using assms(10) by (simp_all add: session_def)
  then have room: "1024 - length (content (ci_buffer (cs ! i))) = 1024" by simp
  from client_turn_input [OF assms(1-9), unfolded room, OF assms(11)] obtain c' out r q
    where a: "absorbed (cs ! i) (name @ newline # lines) c' out"
      and t: "client_turn os i nready cs pfs p = Some (r, cs[i := c'], pfs, q)"
        "case r of Inr x \<Rightarrow> x = (nready - 1 \<le> 0, i + 1, nready - 1) \<and> delivered out cs i p q
         | Inl e \<Rightarrow> io_error e \<and> delivered_part out cs i p q" by blast
  have "ci_fd c' = ci_fd (cs ! i)" using a by (simp add: absorbed_def)
  with absorbed_name [OF a clients_wf_nth [OF assms(1,3)] s assms(12,13)] t assms(14) show ?thesis
    by (intro exI [of _ c'] exI [of _ r] exI [of _ q]) (auto simp: tagged_def split: sum.splits)
qed

theorem server_learns_name_witness:
  "\<exists>c' r q. client_turn script_os 0 1 (demo_clients[0 := (demo_info 5 ''NoName'')\<lparr>ci_connected := False\<rparr>]) demo_pollfds
      (demo_proc [''amy'' @ newline # ''hi'' @ [newline]] []) =
      Some (r, (demo_clients[0 := (demo_info 5 ''NoName'')\<lparr>ci_connected := False\<rparr>])[0 := c'], demo_pollfds, q)
    \<and> session c' = (True, ''amy'', []) \<and> ci_fd c' = ScopedFd 5
    \<and> (case r of
         Inr x \<Rightarrow> x = ((1 :: int) - 1 \<le> 0, 0 + 1, 1 - 1)
           \<and> delivered (''[amy]: hi'' @ [newline]) (demo_clients[0 := (demo_info 5 ''NoName'')\<lparr>ci_connected := False\<rparr>]) 0
               (demo_proc [''amy'' @ newline # ''hi'' @ [newline]] []) q
       | Inl e \<Rightarrow> io_error e
           \<and> delivered_part (''[amy]: hi'' @ [newline]) (demo_clients[0 := (demo_info 5 ''NoName'')\<lparr>ci_connected := False\<rparr>]) 0
               (demo_proc [''amy'' @ newline # ''hi'' @ [newline]] []) q)"
proof -
  let ?c = "(demo_info 5 ''NoName'')\<lparr>ci_connected := False\<rparr>"
  have c: "client_wf ?c" "session ?c = (False, ''NoName'', [])" "client_fds (demo_clients[0 := ?c]) = [5, 6]"
    "ci_fd ?c = ScopedFd 5"
    by (simp_all add: client_wf_def session_def demo_clients_def client_fds_def)
  moreover have "clients_wf (demo_clients[0 := ?c])" "aligned (demo_clients[0 := ?c]) demo_pollfds"
    using c(1) demo_aligned by (simp_all add: demo_clients_def clients_wf_def client_wf_def aligned_def client_fds_def)
  ultimately show ?thesis
    using server_learns_name [of "demo_clients[0 := ?c]" demo_pollfds 0 script_os "\<lambda>_. 0" "''NoName''"
        "demo_proc [''amy'' @ newline # ''hi'' @ [newline]] []" "''amy''" "''hi'' @ [newline]" _ "''[amy]: hi'' @ [newline]" 1]
    by (simp add: only_def)
qed

text \<open>
  C10. A new connection: below the limit of 62 the server appends an unnamed client with an
  empty buffer and a poll entry for its descriptor; at the limit it closes the connection at
  once and changes nothing.
\<close>

theorem server_accepts_up_to_limit:
  assumes "sv_max_clients sv = 62" and "os_accept os (fd_get (sv_listenfd sv)) (kern p) = (Inr n, w)"
  shows "if length (sv_clients sv) < 62
    then \<exists>c. accept_client os sv pfs p =
        Some (Inr (), sv\<lparr>sv_clients := sv_clients sv @ [c]\<rparr>,
          pfs @ [\<lparr>pfd_fd = int n, pfd_events = POLLIN, pfd_revents = 0\<rparr>],
          p\<lparr>trace := trace p @ [EvOpen (int n)], kern := w\<rparr>)
      \<and> client_wf c \<and> fd_get (ci_fd c) = int n \<and> session c = (False, ''NoName'', [])
    else \<exists>r q. accept_client os sv pfs p = Some (r, sv, pfs, q)
      \<and> trace q = trace p @ [EvOpen (int n), EvClose (int n)]"
proof (cases "length (sv_clients sv) < 62")
  case True
  let ?p1 = "p\<lparr>trace := trace p @ [EvOpen (int n)], kern := w\<rparr>"
  obtain b where "client_info_move (os_mem os (kern ?p1)) (client_info_init (int n) ''NoName'')
      = Inr (\<lparr>ci_fd = ScopedFd (int n), ci_name = ''NoName'', ci_buffer = b, ci_connected = False\<rparr>, ScopedFd (- 1))"
    "buf_wf b" "content b = []"
    using client_info_move_init by blast
  with True accept_first [OF assms(2)] assms(1) show ?thesis
    by (auto simp: accept_client_def client_wf_def session_def)
next
  case False
  then show ?thesis
    using accept_first [OF assms(2)] assms(1)
    by (auto simp: accept_client_def close_fd_def c_close_def c_call_def emit_def split: sum.splits prod.splits)
qed

theorem server_accepts_up_to_limit_witness:
  "if length (sv_clients demo_server) < 62
    then \<exists>c. accept_client script_os demo_server [] (demo_proc [] []) =
        Some (Inr (), demo_server\<lparr>sv_clients := sv_clients demo_server @ [c]\<rparr>,
          [] @ [\<lparr>pfd_fd = int 7, pfd_events = POLLIN, pfd_revents = 0\<rparr>],
          (demo_proc [] [])\<lparr>trace := trace (demo_proc [] []) @ [EvOpen (int 7)],
            kern := \<lparr>sc_reads = [], sc_polls = [], sc_next = 8\<rparr>\<rparr>)
      \<and> client_wf c \<and> fd_get (ci_fd c) = int 7 \<and> session c = (False, ''NoName'', [])
    else \<exists>r q. accept_client script_os demo_server [] (demo_proc [] []) = Some (r, demo_server, [], q)
      \<and> trace q = trace (demo_proc [] []) @ [EvOpen (int 7), EvClose (int 7)]"
  by (rule server_accepts_up_to_limit)
    (simp_all add: demo_server_def server_default_def script_os_def new_fd_def)

text \<open>
  C11. Removing client \<open>i\<close>: no access is out of bounds, the client's descriptor is closed,
  the vectors stay aligned, and the other clients' descriptors are the ones held before.
\<close>

theorem server_removes_client:
  assumes "clients_wf cs" and "aligned cs pfs" and "i < length cs"
    and "accounts p (h + mset (client_fds cs))"
  shows "\<exists>cs' pfs' q. drop_client os i cs pfs p = (Inr (cs', pfs'), q)
    \<and> clients_wf cs' \<and> aligned cs' pfs'
    \<and> mset (client_fds cs') = mset (client_fds cs) - {#client_fds cs ! i#}
    \<and> accounts q (h + mset (client_fds cs')) \<and> served_since p (client_fds cs ! i) q"
proof -
  have len: "length pfs = length cs + 2" using assms(2) by (simp add: aligned_def)
  have valid: "0 \<le> fd_get (ci_fd (cs ! i))" using clients_wf_nth [OF assms(1,3)] by (simp add: client_wf_def)
  have fd: "client_fds cs ! i = fd_get (ci_fd (cs ! i))" using assms(3) by (simp add: client_fds_def)
  have held: "mset (client_fds (after_drop i cs)) = mset (client_fds cs) - {#client_fds cs ! i#}"
    using held_after_drop [OF assms(1,3)] valid fd by (simp add: fds_of_def flip: held_after_drop [OF assms(1,3)])
  have "loop_inv h (length cs) cs pfs p" using assms by (simp add: loop_inv_def)
  from loop_inv_drop [OF this assms(3), of os] show ?thesis
    using drop_client_ok [OF assms(3) len, of os p] held served_destroy [OF valid, of p os] fd
    by (auto simp: loop_inv_def)
qed

theorem server_removes_client_witness:
  "\<exists>cs' pfs' q. drop_client script_os 0 demo_clients demo_pollfds (demo_proc [] []) = (Inr (cs', pfs'), q)
    \<and> clients_wf cs' \<and> aligned cs' pfs'
    \<and> mset (client_fds cs') = mset (client_fds demo_clients) - {#client_fds demo_clients ! 0#}
    \<and> accounts q ({#3, 4#} + mset (client_fds cs')) \<and> served_since (demo_proc [] []) (client_fds demo_clients ! 0) q"
  by (rule server_removes_client) (simp_all add: accounts_def)

text \<open>
  C12. A finding: the removal moves the last client's descriptor into the gap, but not its
  name, its buffer or its flag. The client behind that descriptor continues the session of the
  one that left.
\<close>

theorem server_removal_mixes_sessions:
  assumes "i < length cs - 1" and "length pfs = length cs + 2"
    and "drop_client os i cs pfs p = (Inr (cs', pfs'), q)"
  shows "fd_get (ci_fd (cs' ! i)) = fd_get (ci_fd (last cs)) \<and> session (cs' ! i) = session (cs ! i)"
proof -
  have "i < length cs" using assms(1) by simp
  from drop_client_ok [OF this assms(2), of os p] assms(3) have "cs' = after_drop i cs" by simp
  with after_drop_slot [OF assms(1)] show ?thesis by (simp add: session_def)
qed

theorem server_removal_mixes_sessions_witness:
  "\<exists>cs' pfs' q. drop_client script_os 0 demo_clients demo_pollfds (demo_proc [] []) = (Inr (cs', pfs'), q)
    \<and> fd_get (ci_fd (cs' ! 0)) = fd_get (ci_fd (last demo_clients)) \<and> session (cs' ! 0) = session (demo_clients ! 0)
    \<and> fd_get (ci_fd (cs' ! 0)) = 6 \<and> ci_name (cs' ! 0) = ''amy''"
proof -
  have len: "length demo_pollfds = length demo_clients + 2" using demo_aligned by (simp only: aligned_def)
  obtain cs' pfs' q where d: "drop_client script_os 0 demo_clients demo_pollfds (demo_proc [] []) = (Inr (cs', pfs'), q)"
    using drop_client_ok [of 0 demo_clients demo_pollfds script_os] len by simp
  have "0 < length demo_clients - 1" by simp
  from server_removal_mixes_sessions [OF this len d] d show ?thesis
    by (auto simp: session_def demo_clients_def)
qed

text \<open>
  C13. A finding: the server stores each read at the start of a client's buffer, not behind the
  bytes that wait there. In the turn of a named client with an incomplete line \<open>old\<close> waiting, which
  sends \<open>bs\<close>, the server goes on with \<open>now\<close>: the new bytes, and then as many bytes of the array
  as were waiting. The others are sent the complete lines of that, and the first one, when the new
  bytes have a newline, is the end of the line alone.
\<close>

theorem server_forgets_partial_lines:
  assumes "clients_wf cs" and "aligned cs pfs" and "i < length cs" and "distinct (client_fds cs)"
    and "reads_bounded os" and "writes_bounded os" and "interrupts_finite os m"
    and "pfd_revents (pfs ! (i + 2)) AND (POLLERR OR POLLHUP OR POLLNVAL) = 0"
    and "pfd_revents (pfs ! (i + 2)) AND POLLIN \<noteq> 0"
    and "session (cs ! i) = (True, name, old)"
    and "os_read os (client_fds cs ! i) (1024 - length old) (kern p) = (Inr bs, w)" and "bs \<noteq> []"
    and "now = bs @ take (length old) (drop (length bs) (bf_mem (ci_buffer (cs ! i))))"
    and "message = (if newline \<in> set now then ''['' @ name @ '']: '' @ complete newline now else [])"
  shows "\<exists>c' r q. client_turn os i nready cs pfs p = Some (r, cs[i := c'], pfs, q)
    \<and> session c' = (True, name, rest newline now)
    \<and> (newline \<in> set bs \<longrightarrow> prefix (''['' @ name @ '']: '' @ first_line newline bs) message)
    \<and> (case r of
         Inr x \<Rightarrow> x = (nready - 1 \<le> 0, i + 1, nready - 1) \<and> delivered message cs i p q
       | Inl e \<Rightarrow> io_error e \<and> delivered_part message cs i p q)"
proof -
  have old: "content (ci_buffer (cs ! i)) = old" using assms(10) by (simp add: session_def)
  from client_turn_input [OF assms(1-9), unfolded old, OF assms(11,12)] obtain c' out r q
    where a: "absorbed (cs ! i) bs c' out"
      and t: "client_turn os i nready cs pfs p = Some (r, cs[i := c'], pfs, q)"
        "case r of Inr x \<Rightarrow> x = (nready - 1 \<le> 0, i + 1, nready - 1) \<and> delivered out cs i p q
         | Inl e \<Rightarrow> io_error e \<and> delivered_part out cs i p q" by blast
  have b: "session c' = (True, name, rest newline now)" "out = message"
    using absorbed_connected [OF a clients_wf_nth [OF assms(1,3)] assms(10,13)] assms(14) by (simp_all add: tagged_def)
  have "prefix (''['' @ name @ '']: '' @ first_line newline bs) message" if "newline \<in> set bs"
    using complete_begins [OF that, of "take (length old) (drop (length bs) (bf_mem (ci_buffer (cs ! i))))"] that assms(13,14)
    by simp
  with b(1) t [unfolded b(2)] show ?thesis by (intro exI [of _ c'] exI [of _ r] exI [of _ q]) simp
qed

theorem server_forgets_partial_lines_witness:
  "\<exists>cs c' r q. session (cs ! 0) = (True, ''amy'', ''he'')
    \<and> client_turn script_os 0 1 cs demo_pollfds (demo_proc [''y!'' @ [newline]] []) = Some (r, cs[0 := c'], demo_pollfds, q)
    \<and> (case r of
         Inr x \<Rightarrow> x = ((1 :: int) - 1 \<le> 0, 0 + 1, 1 - 1)
           \<and> delivered (''[amy]: y!'' @ [newline]) cs 0 (demo_proc [''y!'' @ [newline]] []) q
       | Inl e \<Rightarrow> io_error e
           \<and> delivered_part (''[amy]: y!'' @ [newline]) cs 0 (demo_proc [''y!'' @ [newline]] []) q)"
proof -
  let ?c = "(demo_info 5 ''amy'')\<lparr>ci_buffer := recv_at_start buf_default ''he''\<rparr>"
  let ?cs = "demo_clients[0 := ?c]" and ?p = "demo_proc [''y!'' @ [newline]] []"
  have b: "buf_wf (recv_at_start buf_default ''he'')" "content (recv_at_start buf_default ''he'') = ''he''"
    by (auto intro: recv_at_start_wf simp: content_recv_empty)
  have mem: "bf_mem (recv_at_start buf_default ''he'') = ''he'' @ replicate 1022 (CHR 0x00)"
    by (simp add: recv_at_start_def buf_default_def)
  have c: "client_wf ?c" "session ?c = (True, ''amy'', ''he'')" "client_fds ?cs = [5, 6]"
    using b by (simp_all add: client_wf_def session_def demo_clients_def client_fds_def)
  moreover have "clients_wf ?cs" "aligned ?cs demo_pollfds"
    using c(1) demo_aligned by (simp_all add: demo_clients_def clients_wf_def client_wf_def aligned_def client_fds_def)
  moreover have "take 2 (drop 3 (''he'' @ replicate 1022 (CHR 0x00))) = [CHR 0x00, CHR 0x00]"
    by (simp add: numeral_eq_Suc)
  ultimately have "\<exists>c' r q. client_turn script_os 0 1 ?cs demo_pollfds ?p = Some (r, ?cs[0 := c'], demo_pollfds, q)
    \<and> (case r of
         Inr x \<Rightarrow> x = ((1 :: int) - 1 \<le> 0, 0 + 1, 1 - 1) \<and> delivered (''[amy]: y!'' @ [newline]) ?cs 0 ?p q
       | Inl e \<Rightarrow> io_error e \<and> delivered_part (''[amy]: y!'' @ [newline]) ?cs 0 ?p q)"
    using server_forgets_partial_lines [of ?cs demo_pollfds 0 script_os "\<lambda>_. 0" "''amy''" "''he''" ?p
        "''y!'' @ [newline]" _ "''y!'' @ [newline, CHR 0x00, CHR 0x00]" "''[amy]: y!'' @ [newline]" 1]
    by (simp add: only_def mem) blast
  with c(2) show ?thesis by (intro exI [of _ ?cs]) simp
qed

text \<open>
  C14. A finding: the code tests for \<^verbatim>\<open>ECONNRESET\<close> after a wrapper that throws on every
  failed read, so that branch is dead. When \<^verbatim>\<open>poll\<close> reports a client as readable, with none of the
  error events (with one of those the client is removed before any read), and no earlier client and
  neither of the server's own descriptors, and the read from it fails, the event loop ends
  with the exception, whatever the error: the client is not removed and the server is left
  running with nobody in its loop.
\<close>

theorem server_dies_on_read_error:
  assumes "server_wf sv" and "sv_running sv"
    and "os_poll os (poll_set sv) (- 1) (kern p) = (Inr (n, rv), w)"
    and "rv 0 AND POLLIN = 0" and "rv 1 AND POLLIN = 0"
    and "j < length (sv_clients sv)" and "\<forall>k < j. rv (k + 2) = 0"
    and "rv (j + 2) AND (POLLERR OR POLLHUP OR POLLNVAL) = 0" and "rv (j + 2) AND POLLIN \<noteq> 0"
    and "os_read os (fd_get (ci_fd (sv_clients sv ! j)))
      (1024 - length (content (ci_buffer (sv_clients sv ! j)))) w = (Inl e, w')"
  shows "server_event_loop os sv p =
    Some (Inl (SystemError e ''read() failed''), sv, p\<lparr>errno_of := e, kern := w'\<rparr>)"
  using server_event_loop_read_error [OF server_iter_read_error [OF assms(1,3-10)] assms(2)] .

theorem server_dies_on_read_error_witness:
  "server_event_loop script_os demo_server (demo_proc [] [only 3 POLLIN]) =
    Some (Inl (SystemError ECONNRESET ''read() failed''), demo_server,
      (demo_proc [] [only 3 POLLIN])\<lparr>errno_of := ECONNRESET, kern := \<lparr>sc_reads = [], sc_polls = [], sc_next = 7\<rparr>\<rparr>)"
proof -
  have "os_poll script_os (poll_set demo_server) (- 1) (kern (demo_proc [] [only 3 POLLIN])) =
      (Inr (length (filter (\<lambda>k. seen (poll_set demo_server) (only 3 POLLIN) k \<noteq> 0) [0..<length (poll_set demo_server)]),
        seen (poll_set demo_server) (only 3 POLLIN)), \<lparr>sc_reads = [], sc_polls = [], sc_next = 7\<rparr>)"
    by (rule script_polls) simp
  from server_dies_on_read_error [OF demo_server_facts(1,2) this, of 1] show ?thesis
    by (simp add: seen_poll_set, simp add: only_def)
qed

text \<open>
  C15. \<^verbatim>\<open>endpoint\<close>: when it succeeds its text is the address the server binds to, as
  \<^verbatim>\<open>inet_ntop\<close> writes it, and after the last colon the port, in a form the command line reads back:
  the program started with that text for the option \<^verbatim>\<open>-p\<close> runs a server on the same port.
\<close>

theorem server_endpoint_spec:
  assumes "server_endpoint os sv = Inr t"
  shows "\<exists>host ptext. t = host @ '':'' @ ptext \<and> CHR '':'' \<notin> set ptext
    \<and> os_inet_ntop os (family (sv_address sv)) (s_addr (to_sockaddr os (sv_address sv))) = Some host
    \<and> tcpchat_main os cin env (n + 18) [prog, ''run'', ''server'', ''-p'', ptext] p =
        map_option (map_prod Ended id) (main_server os (server_get_port sv) p)"
proof -
  obtain host where host: "os_inet_ntop os (family (sv_address sv)) (s_addr (to_sockaddr os (sv_address sv))) = Some host"
    and t: "t = host @ '':'' @ decimal (unat (server_get_port sv))"
    using assms by (auto simp: server_endpoint_def to_sockaddr_def server_get_port_def split: option.splits)
  have "unat (server_get_port sv) < 2 ^ LENGTH(16)" by (rule unsigned_less)
  then have "unat (server_get_port sv) < 65536" by simp
  then have "tcpchat_main os cin env (n + 18) [prog, ''run'', ''server'', ''-p'', decimal (unat (server_get_port sv))] p =
      map_option (map_prod Ended id) (main_server os (server_get_port sv) p)"
    using server_line_result [of "n + 18" env prog "unat (server_get_port sv)"]
    by (simp add: tcpchat_main_def)
  moreover have "CHR '':'' \<notin> set (decimal (unat (server_get_port sv)))"
    using digits_decimal [of "unat (server_get_port sv)"] by auto
  ultimately show ?thesis using host t by blast
qed

theorem server_endpoint_spec_witness:
  "\<forall>env. \<exists>host ptext. ''0.0.0.0:80'' = host @ '':'' @ ptext \<and> CHR '':'' \<notin> set ptext
    \<and> tcpchat_main script_os (\<lambda>s. ([], s)) env (0 + 18) [''tcpchat'', ''run'', ''server'', ''-p'', ptext] (script_start [] []) =
        map_option (map_prod Ended id) (main_server script_os 80 (script_start [] []))"
proof
  fix env
  have "decimal 80 = ''80''" by code_simp
  then have "server_endpoint script_os (server_with_port 80) = Inr ''0.0.0.0:80''"
    by (simp add: server_endpoint_def server_with_port_def server_default_def default_address_def INADDR_ANY_def
        script_os_def swap32_def)
  moreover have "server_get_port (server_with_port 80) = 80" by (simp add: server_get_port_def server_with_port_def)
  ultimately show "\<exists>host ptext. ''0.0.0.0:80'' = host @ '':'' @ ptext \<and> CHR '':'' \<notin> set ptext
    \<and> tcpchat_main script_os (\<lambda>s. ([], s)) env (0 + 18) [''tcpchat'', ''run'', ''server'', ''-p'', ptext] (script_start [] []) =
        map_option (map_prod Ended id) (main_server script_os 80 (script_start [] []))"
    using server_endpoint_spec [of script_os "server_with_port 80" "''0.0.0.0:80''" "\<lambda>s. ([], s)" env 0 "''tcpchat''"
        "script_start [] []"] by auto
qed

section \<open>The client\<close>

text \<open>
  C16. The client's event loop is a relay: the complete lines of the standard input, after
  what waited in the write buffer, went to the server, and the complete lines from the server
  to the screen; what is left of each stream waits in its buffer. After an exception the
  output to the server is whole lines and perhaps part of the next, and nothing is lost: the
  lines not written are still in the buffer.
\<close>

theorem client_loop_relays:
  assumes "cl_ready fd cl" and "reads_bounded os" and "writes_bounded os"
  shows "case client_event_loop os cl p of
      None \<Rightarrow> True
    | Some (r, cl', q) \<Rightarrow> \<exists>typed sent received shown.
        received_on STDIN_FILENO (trace q) = received_on STDIN_FILENO (trace p) @ typed
      \<and> sent_on fd (trace q) = sent_on fd (trace p) @ sent
      \<and> received_on fd (trace q) = received_on fd (trace p) @ received
      \<and> printed (trace q) = printed (trace p) @ shown
      \<and> shown = complete newline (content (cl_read_buffer cl) @ received)
      \<and> content (cl_read_buffer cl') = rest newline (content (cl_read_buffer cl) @ received)
      \<and> (case r of
           Inr _ \<Rightarrow> sent = complete newline (content (cl_write_buffer cl) @ typed)
             \<and> content (cl_write_buffer cl') = rest newline (content (cl_write_buffer cl) @ typed)
         | Inl e \<Rightarrow> io_error e
             \<and> cut_short (content (cl_write_buffer cl)) typed sent (content (cl_write_buffer cl')))"
proof (cases "client_event_loop os cl p")
  case (Some res)
  then obtain r cl' q where res: "client_event_loop os cl p = Some (r, cl', q)" by (metis prod_cases3)
  have "client_post fd cl p (map_sum id (\<lambda>_. Break) r) cl' q"
    using client_event_loop_ok [OF res assms] .
  then show ?thesis
    unfolding res option.case prod.case
    by (cases r) (auto simp: client_post_def client_relay_def client_relay_cut_def client_io_def relayed_def)
qed simp

theorem client_loop_relays_witness:
  "case client_event_loop script_os demo_client (demo_proc [''hi'' @ [newline]] [only 0 POLLIN, only 2 POLLIN]) of
      None \<Rightarrow> True
    | Some (r, cl', q) \<Rightarrow> \<exists>typed sent received shown.
        received_on STDIN_FILENO (trace q) =
          received_on STDIN_FILENO (trace (demo_proc [''hi'' @ [newline]] [only 0 POLLIN, only 2 POLLIN])) @ typed
      \<and> sent_on 3 (trace q) = sent_on 3 (trace (demo_proc [''hi'' @ [newline]] [only 0 POLLIN, only 2 POLLIN])) @ sent
      \<and> received_on 3 (trace q) =
          received_on 3 (trace (demo_proc [''hi'' @ [newline]] [only 0 POLLIN, only 2 POLLIN])) @ received
      \<and> printed (trace q) = printed (trace (demo_proc [''hi'' @ [newline]] [only 0 POLLIN, only 2 POLLIN])) @ shown
      \<and> shown = complete newline (content (cl_read_buffer demo_client) @ received)
      \<and> content (cl_read_buffer cl') = rest newline (content (cl_read_buffer demo_client) @ received)
      \<and> (case r of
           Inr _ \<Rightarrow> sent = complete newline (content (cl_write_buffer demo_client) @ typed)
             \<and> content (cl_write_buffer cl') = rest newline (content (cl_write_buffer demo_client) @ typed)
         | Inl e \<Rightarrow> io_error e
             \<and> cut_short (content (cl_write_buffer demo_client)) typed sent (content (cl_write_buffer cl')))"
  by (rule client_loop_relays) simp_all

text \<open>
  C17. An iteration of the client's loop returns and keeps the object well formed and its
  descriptors accounted for; only failed calls raise exceptions, and the loop is left exactly
  when the client has been stopped.
\<close>

theorem client_iteration_safe:
  assumes "cl_ready fd cl" and "length pfs = 3" and "accounts p (h + client_held cl)"
    and "reads_bounded os" and "writes_bounded os" and "interrupts_finite os m"
  shows "\<exists>r cl' pfs' q. client_iter os cl pfs p = Some (r, cl', pfs', q) \<and> cl_wf cl'
    \<and> accounts q (h + client_held cl')
    \<and> (case r of Inl e \<Rightarrow> io_error e \<and> cl_connected cl' | Inr fl \<Rightarrow> cl_connected cl' \<longleftrightarrow> fl = Continue)"
proof -
  have "cl_wf cl" using assms(1) by (simp add: cl_ready_def)
  from client_iter_returns [OF this assms(4-6), of pfs p] obtain r cl' pfs' q
    where it: "client_iter os cl pfs p = Some (r, cl', pfs', q)" by (metis option.exhaust prod_cases4)
  with client_iter_ok [OF it assms(1,2,4,5)] assms(3) show ?thesis
    by (intro exI [of _ r] exI [of _ cl'] exI [of _ pfs'] exI [of _ q])
      (auto simp: client_post_def split: sum.splits)
qed

theorem client_iteration_safe_witness:
  "\<exists>r cl' pfs' q. client_iter script_os demo_client (client_poll_set demo_client) (demo_proc [''hi''] [only 0 POLLIN]) =
      Some (r, cl', pfs', q) \<and> cl_wf cl' \<and> accounts q ({#5, 6#} + client_held cl')
    \<and> (case r of Inl e \<Rightarrow> io_error e \<and> cl_connected cl' | Inr fl \<Rightarrow> cl_connected cl' \<longleftrightarrow> fl = Continue)"
  by (rule client_iteration_safe [where fd = 3 and m = "\<lambda>_. 0"]) (simp_all add: client_poll_set_def accounts_def)

text \<open>
  C18. Connecting: a run of an unconnected client returns. If it succeeds, it opened a socket,
  connected it to the client's address (the event is in the trace only when the call succeeded),
  and after that sent on it the name and a newline, and nothing else to anybody; if it fails,
  the client is not connected. Either way the descriptors are accounted for.
\<close>

theorem client_run_spec:
  assumes "cl_wf cl" and "\<not> cl_connected cl" and "accounts p (h + client_held cl)"
    and "writes_bounded os" and "interrupts_finite os m"
  shows "\<exists>r cl' q. client_run os cl p = Some (r, cl', q) \<and> cl_wf cl' \<and> accounts q (h + client_held cl')
    \<and> (case r of
         Inl e \<Rightarrow> io_error e \<and> \<not> cl_connected cl'
       | Inr _ \<Rightarrow> cl_connected cl'
           \<and> (\<exists>fd evs. fd = fd_get (cl_fd cl')
               \<and> trace q = trace p @ [EvOpen fd, EvConnect fd (to_sockaddr os (cl_address cl))] @ evs
               \<and> (\<forall>f. sent_on f evs = (if f = fd then cl_name cl @ [newline] else []))))"
proof -
  obtain r cl' q where run: "client_run os cl p = Some (r, cl', q)"
    using client_run_returns [OF assms(1,4,5), of p] by (metis option.exhaust prod_cases3)
  note ok = client_run_ok [OF run assms(2,1,3,4)]
  have "\<exists>evs. trace q = trace p @ [EvOpen (fd_get (cl_fd cl')), EvConnect (fd_get (cl_fd cl')) (to_sockaddr os (cl_address cl))] @ evs
      \<and> (\<forall>f. sent_on f evs = (if f = fd_get (cl_fd cl') then cl_name cl @ [newline] else []))" if "r = Inr u" for u
  proof -
    note ok = ok [unfolded that] and connects = client_run_connects [OF run [unfolded that] assms(1)]
    obtain evs where "trace q = trace p @
        [EvOpen (fd_get (cl_fd cl')), EvConnect (fd_get (cl_fd cl')) (to_sockaddr os (cl_address cl))] @ evs"
      using connects by blast
    with ok show ?thesis by (intro exI [of _ evs]) auto
  qed
  with run ok show ?thesis
    by (intro exI [of _ r] exI [of _ cl'] exI [of _ q]) (auto split: sum.splits)
qed

theorem client_run_spec_witness:
  "\<exists>r cl' q. client_run script_os client_default (script_start [] []) = Some (r, cl', q) \<and> cl_wf cl'
    \<and> accounts q ({#} + client_held cl')
    \<and> (case r of
         Inl e \<Rightarrow> io_error e \<and> \<not> cl_connected cl'
       | Inr _ \<Rightarrow> cl_connected cl'
           \<and> (\<exists>fd evs. fd = fd_get (cl_fd cl')
               \<and> trace q = trace (script_start [] []) @ [EvOpen fd, EvConnect fd (to_sockaddr script_os (cl_address client_default))] @ evs
               \<and> (\<forall>f. sent_on f evs = (if f = fd then cl_name client_default @ [newline] else []))))"
  by (rule client_run_spec [where m = "\<lambda>_. 0"]) (simp_all add: accounts_init, simp add: client_default_def)

text \<open>
  C19. A finding: a read of no bytes from the server, which is what a closed connection and a
  full buffer without a newline look like, is no event for the client. As long as every \<^verbatim>\<open>poll\<close>
  reports the server's socket alone and the read from it gives nothing, an iteration leaves the
  client as it was and does nothing but that read, and the event loop never returns: the client
  of a server that has ended spins.
\<close>

theorem client_ignores_end_of_server:
  assumes "cl_wf cl" and "cl_idle cl" and "cl_connected cl" and "reads_bounded os"
    and "server_silent os cl S" and "kern p \<in> S"
  shows "client_event_loop os cl p = None
    \<and> (\<exists>pfs' q. client_iter os cl (client_poll_set cl) p = Some (Inr Continue, cl, pfs', q) \<and> kern q \<in> S
         \<and> trace q = trace p @ [EvRead (fd_get (cl_fd cl)) []])"
  using silent_iterations [OF assms refl] silent_iteration [OF assms(1,2,4-6) refl] assms(3)
  by (auto simp: client_event_loop_def)

theorem client_ignores_end_of_server_witness:
  "client_event_loop (script_os\<lparr>os_read := \<lambda>fd n s. (Inr [], s), os_poll := \<lambda>fds t s. (Inr (1, only 1 POLLIN), s)\<rparr>)
      demo_client (demo_proc [] []) = None"
proof -
  let ?os = "script_os\<lparr>os_read := \<lambda>fd n s. (Inr [], s), os_poll := \<lambda>fds t s. (Inr (1, only 1 POLLIN), s)\<rparr>"
  have "reads_bounded ?os" by (simp add: reads_bounded_def)
  moreover have "server_silent ?os demo_client UNIV" by (simp add: server_silent_def only_def)
  ultimately show ?thesis
    using client_ignores_end_of_server [of demo_client ?os UNIV "demo_proc [] []"] by simp
qed

text \<open>
  C20. A finding: a line of the standard input that fills the write buffer before its newline
  leaves no room, the next read returns no bytes, and the client takes that for the end of the
  input: it stops, though the input has not ended.
\<close>

theorem client_stops_on_long_line:
  assumes "cl_wf cl" and "reads_bounded os" and "length (content (cl_write_buffer cl)) = 1024"
    and "os_read os STDIN_FILENO 0 (kern p) = (Inr bs, w)"
  shows "case client_stdin os cl p of
      Some (r, cl', q) \<Rightarrow> r = Inr Break \<and> \<not> cl_connected cl'
    | None \<Rightarrow> False"
proof -
  have bwf: "buf_wf (cl_write_buffer cl)" using assms(1) by (simp add: cl_wf_def)
  have "client_stdin os cl p \<noteq> None"
  proof -
    have read: "read_fd os STDIN_FILENO (size_of_int (buf_free_space (cl_write_buffer cl))) p =
        (Inr (int (length bs), bs), p\<lparr>trace := trace p @ [EvRead STDIN_FILENO bs], kern := w\<rparr>)"
      using assms(4) full_no_room [OF bwf assms(3)]
      by (cases rule: read_fd_cases [of os STDIN_FILENO 0 p]) auto
    have "bs = []" using reads_boundedD [OF assms(2,4)] by simp
    with read read_behind [OF bwf assms(2) read] show ?thesis
      by (auto simp: client_stdin_def Let_def split: prod.splits)
  qed
  then obtain r cl' q where "client_stdin os cl p = Some (r, cl', q)" by (metis option.exhaust prod_cases3)
  with client_stdin_overlong [OF assms(1-3) this] assms(4) show ?thesis by simp
qed

theorem client_stops_on_long_line_witness:
  "\<exists>cl. length (content (cl_write_buffer cl)) = 1024
    \<and> (case client_stdin script_os cl (demo_proc [''''] []) of
         Some (r, cl', q) \<Rightarrow> r = Inr Break \<and> \<not> cl_connected cl'
       | None \<Rightarrow> False)"
proof -
  define b where "b = recv_at_start buf_default (replicate 1024 (CHR ''x''))"
  have wf: "buf_wf b" unfolding b_def by (rule recv_at_start_wf) simp_all
  have full: "length (content b) = 1024" unfolding b_def by (simp add: content_recv_empty)
  have "cl_wf (demo_client\<lparr>cl_write_buffer := b\<rparr>)" using demo_client_facts(1) wf by (auto simp: cl_wf_def)
  from client_stops_on_long_line [OF this, of script_os "demo_proc [''''] []"] full show ?thesis
    by (intro exI [of _ "demo_client\<lparr>cl_write_buffer := b\<rparr>"]) simp
qed

text \<open>
  C21. A finding: the constructor stores what \<^verbatim>\<open>inet_pton\<close> gives, which is in
  network order already, and \<^verbatim>\<open>to_sockaddr\<close> swaps it again. The address used is the
  given one exactly when the swap does not change it.
\<close>

theorem client_swaps_address:
  assumes "client_with_ip os ip p = (Inr cl, q)"
  shows "s_addr (to_sockaddr os (cl_address cl)) = os_htonl os (snd (os_inet_pton os AF_INET ip))
    \<and> (s_addr (to_sockaddr os (cl_address cl)) = snd (os_inet_pton os AF_INET ip) \<longleftrightarrow>
       os_htonl os (snd (os_inet_pton os AF_INET ip)) = snd (os_inet_pton os AF_INET ip))"
proof -
  have low: "ucast (store_in_addr a 0) = a" for a :: "32 word"
    unfolding store_in_addr_def by (rule bit_word_eqI) (simp add: bit_simps)
  from assms have "cl_address cl = default_address\<lparr>ip_address :=
      store_in_addr (snd (os_inet_pton os AF_INET ip)) (ip_address default_address)\<rparr>"
    by (auto simp: client_with_ip_def inet_pton_socket_def c_inet_pton_def split: sum.splits prod.splits if_splits)
  then show ?thesis by (simp add: to_sockaddr_def default_address_def INADDR_ANY_def low)
qed

theorem client_swaps_address_witness:
  "\<exists>cl q. client_with_ip script_os ''127.0.0.1'' (script_start [] []) = (Inr cl, q)
    \<and> s_addr (to_sockaddr script_os (cl_address cl)) = 0x7F000001
    \<and> snd (os_inet_pton script_os AF_INET ''127.0.0.1'') = 0x0100007F"
proof -
  obtain cl q where c: "client_with_ip script_os ''127.0.0.1'' (script_start [] []) = (Inr cl, q)"
    by (simp add: client_with_ip_def inet_pton_socket_def c_inet_pton_def script_os_def)
  moreover have "snd (os_inet_pton script_os AF_INET ''127.0.0.1'') = 0x0100007F" by (simp add: script_os_def)
  moreover have "os_htonl script_os 0x0100007F = 0x7F000001" by (simp add: script_os_def swap32_def)
  ultimately show ?thesis using client_swaps_address [OF c] by simp
qed


section \<open>The programs\<close>

text \<open>
  C23. The client program, when it ends by itself: it printed the prompt and read what
  \<^verbatim>\<open>std::cin\<close> takes for the name, opened a socket and connected it to the default address, and on
  that socket the server got the name and then the complete lines the event loop read from the
  standard input, the screen showed the server's complete lines, and every descriptor is closed.
  Of what \<^verbatim>\<open>std::cin\<close> read past the name nothing is sent.
\<close>

theorem client_program:
  assumes "main_client os cin p = Some (Exited c, q)" and "trace p = []"
    and "reads_bounded os" and "writes_bounded os" and "fresh_opens std_open (trace q)"
  shows "c = 0 \<and> accounts q {#} \<and> (\<exists>fd evs.
    trace q = [EvStdout (''Enter your name: '' @ [newline])] @ map (EvRead STDIN_FILENO) (fst (cin (kern p)))
      @ [EvOpen fd, EvConnect fd (to_sockaddr os default_address)] @ evs \<and>
    sent_on fd evs = first_word (concat (fst (cin (kern p)))) @ [newline] @ complete newline (received_on STDIN_FILENO evs) \<and>
    printed evs = complete newline (received_on fd evs))"
  using main_client_exit [OF assms] .

theorem client_program_witness:
  "\<exists>q. main_client script_os (\<lambda>s. ([''amy'' @ [newline] @ ''hi'' @ [newline]], s)) (script_start [[]] [only 0 POLLIN]) = Some (Exited 0, q)
    \<and> accounts q {#} \<and> (\<exists>fd evs.
    trace q = [EvStdout (''Enter your name: '' @ [newline]), EvRead STDIN_FILENO (''amy'' @ [newline] @ ''hi'' @ [newline]),
      EvOpen fd, EvConnect fd (to_sockaddr script_os default_address)] @ evs \<and>
    sent_on fd evs = ''amy'' @ [newline] @ complete newline (received_on STDIN_FILENO evs) \<and>
    printed evs = complete newline (received_on fd evs))"
proof -
  let ?p = "script_start [[]] [only 0 POLLIN]" and ?cin = "\<lambda>s :: script. ([''amy'' @ [newline] @ ''hi'' @ [newline]], s)"
  have "case main_client script_os ?cin ?p of
      Some (Exited c, q) \<Rightarrow> c = 0 \<and> fresh_opens std_open (trace q) | _ \<Rightarrow> False"
    by code_simp
  then obtain q where run: "main_client script_os ?cin ?p = Some (Exited 0, q)"
    and fresh: "fresh_opens std_open (trace q)"
    by (auto split: option.splits prod.splits main_result.splits)
  have "first_word (''amy'' @ [newline] @ ''hi'' @ [newline]) = ''amy''" by code_simp
  with client_program [OF run script_start_trace script_lawful(1,2) fresh] run show ?thesis by auto
qed

text \<open>C24. The server program: when it returns, it returns 0 with every descriptor closed; else it was a failed call.\<close>

theorem server_program:
  assumes "trace p = []" and "reads_bounded os"
  shows "case main_server os n p of
      None \<Rightarrow> True
    | Some (Exited c, q) \<Rightarrow> c = 0 \<and> accounts q {#}
    | Some (Terminated e, q) \<Rightarrow> io_error e"
  using main_server_exit [OF _ assms] by (fastforce split: option.splits main_result.splits)

theorem server_program_witness:
  "case main_server script_os 9877 (script_start [] []) of
      None \<Rightarrow> True
    | Some (Exited c, q) \<Rightarrow> c = 0 \<and> accounts q {#}
    | Some (Terminated e, q) \<Rightarrow> io_error e"
  by (rule server_program) simp_all

section \<open>The buffer\<close>

text \<open>
  C25. However a stream is cut into chunks, as long as each fits, the buffer hands out the
  complete lines of the stream and keeps the rest: the same for two ways to cut one stream,
  and for both ways to fill the buffer.
\<close>

theorem buffer_stream_any_chunks:
  assumes "chunks_fit 1024 d [] cs" and "chunks_fit 1024 d [] cs'" and "concat cs = concat cs'"
  shows "\<exists>b b'. feed put_receive (buf_consume_full d) buf_default cs = Inr (complete d (concat cs), b)
    \<and> feed put_append (buf_consume_full d) buf_default cs' = Inr (complete d (concat cs), b')
    \<and> content b = rest d (concat cs) \<and> content b' = rest d (concat cs)"
  using received.feed_chunks [of buf_default d cs] appended.feed_chunks [of buf_default d cs'] assms by auto

theorem buffer_stream_any_chunks_witness:
  "\<exists>b b'. feed put_receive (buf_consume_full newline) buf_default [''a'', [newline] @ ''b''] =
      Inr (complete newline (concat [''a'', [newline] @ ''b'']), b)
    \<and> feed put_append (buf_consume_full newline) buf_default [''a'' @ [newline] @ ''b''] =
      Inr (complete newline (concat [''a'', [newline] @ ''b'']), b')
    \<and> content b = rest newline (concat [''a'', [newline] @ ''b''])
    \<and> content b' = rest newline (concat [''a'', [newline] @ ''b''])"
  by (rule buffer_stream_any_chunks) simp_all

text \<open>
  C26. \<^verbatim>\<open>consume_full\<close> to a descriptor returns; on success exactly the complete part
  of the content was written, on an exception whole lines of it and part of the next, and
  every line not fully written is still in the buffer.
\<close>

theorem buffer_consume_to_descriptor:
  assumes "buf_wf b" and "writes_bounded os" and "interrupts_finite os m"
  shows "\<exists>r b' q lines part. buf_consume_full_fd (write_full os) fd d b p = Some (r, b', q)
    \<and> wrote fd (lines @ part) p q \<and> buf_wf b' \<and> lines @ content b' = content b
    \<and> (case r of
         Inr _ \<Rightarrow> lines = complete d (content b) \<and> part = [] \<and> content b' = rest d (content b)
       | Inl e \<Rightarrow> io_error e \<and> strict_prefix part (first_line d (content b')) \<and> d \<in> set (content b'))"
proof -
  have "buf_consume_full_fd (write_full os) fd d b p \<noteq> None"
    using assms by (intro full.consume_full_fd_returns) blast+
  then obtain r b' q where run: "buf_consume_full_fd (write_full os) fd d b p = Some (r, b', q)"
    by (metis option.exhaust prod_cases3)
  from full.consume_full_fd_writes [OF assms(2,1) run] obtain lines part where
    "wrote fd (lines @ part) p q" "buf_wf b'" "lines @ content b' = content b"
    "case r of
       Inr _ \<Rightarrow> lines = complete d (content b) \<and> part = [] \<and> content b' = rest d (content b)
     | Inl e \<Rightarrow> (\<exists>c. e = SystemError c ''write() failed'') \<and>
         strict_prefix part (first_line d (content b')) \<and> d \<in> set (content b')" by blast
  with run show ?thesis
    by (intro exI [of _ r] exI [of _ b'] exI [of _ q] exI [of _ lines] exI [of _ part])
      (auto split: sum.splits)
qed

theorem buffer_consume_to_descriptor_witness:
  "\<exists>r b' q lines part. buf_consume_full_fd (write_full script_os) 3 newline (recv_at_start buf_default (''a'' @ [newline])) (demo_proc [] [])
      = Some (r, b', q)
    \<and> wrote 3 (lines @ part) (demo_proc [] []) q \<and> buf_wf b' \<and> lines @ content b' = content (recv_at_start buf_default (''a'' @ [newline]))
    \<and> (case r of
         Inr _ \<Rightarrow> lines = complete newline (content (recv_at_start buf_default (''a'' @ [newline]))) \<and> part = []
           \<and> content b' = rest newline (content (recv_at_start buf_default (''a'' @ [newline])))
       | Inl e \<Rightarrow> io_error e \<and> strict_prefix part (first_line newline (content b')) \<and> newline \<in> set (content b'))"
  by (rule buffer_consume_to_descriptor [where m = "\<lambda>_. 0"]) (simp_all add: recv_at_start_wf)

text \<open>
  C27. \<^verbatim>\<open>append\<close> on every branch: a negative length and one beyond the free space
  are refused, each with its exception; otherwise the bytes stand behind the content.
\<close>

theorem buffer_append_spec:
  assumes "buf_wf b" and "len \<le> int (length bs)"
  shows "case buf_append bs len b of
      Inl e \<Rightarrow> (if len < 0 then e = InvalidArgument ''Buffer::append(): len must be non-negative''
        else e = LengthError ''Buffer::append(): not enough free space'' \<and> 1024 < int (length (content b)) + len)
    | Inr b' \<Rightarrow> 0 \<le> len \<and> buf_wf b' \<and> content b' = content b @ take (nat len) bs"
proof (cases "0 \<le> len \<and> len \<le> buf_free_space b")
  case True
  with buf_append_ok [OF assms(1) _ _ assms(2)] show ?thesis by auto
next
  case False
  then show ?thesis
    using buf_free_space_content [OF assms(1)] by (auto simp: buf_append_def)
qed

theorem buffer_append_spec_witness:
  "case buf_append ''ab'' 2 buf_default of
      Inl e \<Rightarrow> (if (2 :: int) < 0 then e = InvalidArgument ''Buffer::append(): len must be non-negative''
        else e = LengthError ''Buffer::append(): not enough free space'' \<and> 1024 < int (length (content buf_default)) + 2)
    | Inr b' \<Rightarrow> (0 :: int) \<le> 2 \<and> buf_wf b' \<and> content b' = content buf_default @ take (nat 2) ''ab''"
  by (rule buffer_append_spec) simp_all

section \<open>Writing and reading blocks\<close>

text \<open>
  C28. \<^verbatim>\<open>write_full\<close> returns, over as many partial and interrupted writes as it
  takes: on success the descriptor accepted exactly the block, on an exception a proper prefix
  of it, and no other descriptor saw anything.
\<close>

theorem write_full_all_or_prefix:
  assumes "writes_bounded os" and "interrupts_finite os m" and "unat n \<le> length ptr" and "unat n < 2 ^ 63"
  shows "\<exists>r q k. write_full os fd ptr n p = Some (r, q) \<and> wrote fd (take k ptr) p q
    \<and> (case r of Inr _ \<Rightarrow> k = unat n | Inl e \<Rightarrow> k < unat n \<and> e = SystemError (errno_of q) ''write() failed'')"
proof -
  have "write_full os fd ptr n p \<noteq> None" using assms by (intro full.wr_returns) blast+
  then obtain r q where run: "write_full os fd ptr n p = Some (r, q)" by (metis option.exhaust prod.exhaust)
  show ?thesis
  proof (cases r)
    case (Inl e)
    with write_full_cut [OF assms(1,3), of fd p e q] run show ?thesis by auto
  next
    case (Inr u)
    with write_full_ok [OF assms(1,3,4), of fd p u q] run show ?thesis by auto
  qed
qed

theorem write_full_all_or_prefix_witness:
  "\<exists>r q k. write_full script_os 3 ''abc'' 2 (demo_proc [] []) = Some (r, q) \<and> wrote 3 (take k ''abc'') (demo_proc [] []) q
    \<and> (case r of Inr _ \<Rightarrow> k = unat (2 :: size_t) | Inl e \<Rightarrow> k < unat (2 :: size_t) \<and> e = SystemError (errno_of q) ''write() failed'')"
  by (rule write_full_all_or_prefix [where m = "\<lambda>_. 0"]) simp_all

text \<open>
  C29. \<^verbatim>\<open>read_full\<close> returns, if reads are not interrupted for ever. On success the bytes stored
  are those its reads delivered, in order, their number is the result, and it stopped for one of
  two reasons: there are as many as asked, or the last read, and no other, met the end of the file. On
  failure a read failed with an error other than an interruption, before either.
\<close>

theorem read_full_collects:
  assumes "reads_bounded os" and "read_interrupts_finite os m" and "unat n < 2 ^ 63"
  shows "\<exists>r q chunks. read_full os fd n p = Some (r, q) \<and> trace q = trace p @ map (EvRead fd) chunks
    \<and> (case r of
         Inr (k, bs) \<Rightarrow> bs = concat chunks \<and> unat k = length bs
           \<and> (if length bs = unat n then [] \<notin> set chunks
               else length bs < unat n \<and> (\<exists>before. chunks = before @ [[]] \<and> [] \<notin> set before))
       | Inl e \<Rightarrow> e = SystemError (errno_of q) ''read() failed'' \<and> errno_of q \<noteq> EINTR
           \<and> [] \<notin> set chunks \<and> length (concat chunks) < unat n)"
proof -
  obtain r q chunks where "read_full os fd n p = Some (r, q)" "trace q = trace p @ map (EvRead fd) chunks"
    "case r of
       Inr (k, bs) \<Rightarrow> bs = concat chunks \<and> unat k = length bs \<and> all_or_eof (unat n) chunks
     | Inl e \<Rightarrow> e = SystemError (errno_of q) ''read() failed'' \<and> errno_of q \<noteq> EINTR
         \<and> [] \<notin> set chunks \<and> length (concat chunks) < unat n"
    using read_full_reads [OF assms] by blast
  then show ?thesis
    by (intro exI [of _ r] exI [of _ q] exI [of _ chunks]) (auto simp: all_or_eof_def split: sum.splits if_splits)
qed

theorem read_full_collects_witness:
  "\<exists>r q chunks. read_full script_os 3 4 (demo_proc [''ab'', ''c'', []] []) = Some (r, q)
    \<and> trace q = trace (demo_proc [''ab'', ''c'', []] []) @ map (EvRead 3) chunks
    \<and> (case r of
         Inr (k, bs) \<Rightarrow> bs = concat chunks \<and> unat k = length bs
           \<and> (if length bs = unat (4 :: size_t) then [] \<notin> set chunks
               else length bs < unat (4 :: size_t) \<and> (\<exists>before. chunks = before @ [[]] \<and> [] \<notin> set before))
       | Inl e \<Rightarrow> e = SystemError (errno_of q) ''read() failed'' \<and> errno_of q \<noteq> EINTR
           \<and> [] \<notin> set chunks \<and> length (concat chunks) < unat (4 :: size_t))"
  by (rule read_full_collects [where m = "\<lambda>_. 0"]) simp_all

text \<open>
  C30. Ownership: a move assignment of a descriptor wrapper closes what the target held and
  nothing else, hands over the source's descriptor, and assigning a wrapper to itself does
  nothing.
\<close>

theorem scoped_fd_move_assign_spec:
  "fd_move_assign os same this other p =
    (if same then ((this, other), p)
     else ((other, ScopedFd (- 1)), fd_destroy os this p))
   \<and> opened (trace (fd_destroy os this p)) = opened (trace p)
   \<and> closed (trace (fd_destroy os this p)) = closed (trace p) @ (if fd_valid this then [fd_get this] else [])"
  by (cases other) (auto simp: fd_move_assign_def fd_release_def fd_destroy_def fd_reset_def fd_valid_def
      c_close_fds case_prod_beta)

section \<open>The library of the command line\<close>

text \<open>
  C31. Parsing does not touch the definition of an application: whatever the arguments, and
  whether it succeeds or throws, the reading of arguments and the callbacks after it leave every
  application and every option of the store as they were, except for the fields that hold the
  state of a parse, and leave the environment.
\<close>

theorem parse_only_changes_parse_state:
  "same_definition w (snd (m_seq (parse_top n a) (run_callback n a final suppress) w))"
  using parsing.keeps_seq [OF parsing.keeps_parse_top parsing.keeps_run_callback] unfolding keeps_def by blast

text \<open>
  C32. An option delivers to its callback what the policy for multiple values specifies: the
  last, the first, the last in reverse order, all, joined or summed results, or an error
  exactly when their number is out of range; and the answer of the callback decides between
  success and a conversion error.
\<close>

theorem callback_gets_policy_value:
  assumes "o_state opt = Opt_parsing" "o_results opt \<noteq> []" "o_callback opt = Some callback"
    and "validate_results opt (o_results opt) = (Inr (), rs)"
    and "0 \<le> get_items_expected_min opt" "0 \<le> get_items_expected_max opt"
    and "option_run_callback sum_strings (opt, vars) = (result, opt', vars')"
  shows "(result, vars') = (case policy_spec sum_strings opt rs of
            Inl e \<Rightarrow> (Inl e, vars)
          | Inr vs \<Rightarrow> callback_outcome opt rs (callback vs vars))
    \<and> o_results opt' = rs
    \<and> o_state opt' = (case policy_spec sum_strings opt rs of Inl e \<Rightarrow> Opt_validated | Inr vs \<Rightarrow> Opt_callback_run)"
  using run_callback_delivers [OF assms] by blast

theorem callback_gets_policy_value_witness:
  "\<exists>opt'. option_run_callback concat
      ((fresh_option [''p''] [''port''] [] (Some (\<lambda>rs v. (Inr (v = []), rs))) 0)
         \<lparr>o_multi_option_policy := TakeLast, o_results := [''1'', ''2'']\<rparr>, []) = (Inr (), opt', [''2''])"
proof -
  define opt :: "string list opt" where
    "opt = (fresh_option [''p''] [''port''] [] (Some (\<lambda>rs v. (Inr (v = []), rs))) 0)
      \<lparr>o_multi_option_policy := TakeLast, o_results := [''1'', ''2'']\<rparr>"
  obtain result opt' vars' where run: "option_run_callback concat (opt, []) = (result, opt', vars')"
    by (cases "option_run_callback concat (opt, [])") auto
  have opt: "o_state opt = Opt_parsing" "o_results opt = [''1'', ''2'']" "o_results opt \<noteq> []"
    "o_callback opt = Some (\<lambda>rs v. (Inr (v = []), rs))" "o_validators opt = []"
    "get_items_expected_min opt = 1" "get_items_expected_max opt = 1" "o_multi_option_policy opt = TakeLast"
    by (simp_all add: opt_def fresh_option_def option_base_default_def option_base.defs get_items_expected_min_def
        get_items_expected_max_def checked_multiply_def)
  have valid: "validate_results opt (o_results opt) = (Inr (), [''1'', ''2''])"
    by (simp add: validate_results_def opt)
  have "policy_spec concat opt [''1'', ''2''] = Inr [''2'']"
    by (simp add: policy_spec_def policy_value_def mark_empty_def last_items_def opt)
  moreover have "0 \<le> get_items_expected_min opt" "0 \<le> get_items_expected_max opt" by (simp_all add: opt)
  note callback_gets_policy_value [OF opt(1,3,4) valid this run]
  ultimately have "result = Inr ()" "vars' = [''2'']" by (simp_all add: callback_outcome_def)
  with run show ?thesis unfolding opt_def by blast
qed

text \<open>
  C33. Conversions are exact: the decimal text of a number converts to an integer type exactly
  when the number is in the range of the type, and then to that number; a text whose number is
  too large is refused, it does not wrap.
\<close>

theorem integer_conversions_exact:
  fixes out :: "'a::len word" and out' :: "'b::len word"
  assumes "LENGTH('a) \<in> {8, 16, 32, 64}" and "LENGTH('b) \<in> {8, 16, 32, 64}"
  shows "fst (integral_conversion_unsigned (decimal n) out) = (n < 2 ^ LENGTH('a))
    \<and> (n < 2 ^ LENGTH('a) \<longrightarrow> unat (snd (integral_conversion_unsigned (decimal n) out)) = n)
    \<and> fst (integral_conversion_signed (int_string i) out')
        = (- (2 ^ (LENGTH('b) - 1)) \<le> i \<and> i < 2 ^ (LENGTH('b) - 1))
    \<and> (- (2 ^ (LENGTH('b) - 1)) \<le> i \<and> i < 2 ^ (LENGTH('b) - 1) \<longrightarrow>
        sint (snd (integral_conversion_signed (int_string i) out')) = i)"
proof -
  have "unat (of_nat n :: 'a word) = n" if "n < 2 ^ LENGTH('a)"
    using that by (simp add: unsigned_of_nat take_bit_nat_eq_self)
  moreover have "sint (word_of_int i :: 'b word) = i"
    if "- (2 ^ (LENGTH('b) - 1)) \<le> i" "i < 2 ^ (LENGTH('b) - 1)"
    using that by (simp add: signed_of_int signed_take_bit_int_eq_self)
  ultimately show ?thesis
    using convert_unsigned [OF assms(1), of n out] convert_signed [OF assms(2), of i out'] by simp
qed

theorem integer_conversions_exact_witness:
  "fst (integral_conversion_unsigned (decimal 65535) (0 :: 16 word))
    \<and> \<not> fst (integral_conversion_unsigned (decimal 65536) (0 :: 16 word))
    \<and> fst (integral_conversion_signed (int_string (- 128)) (0 :: 8 word))
    \<and> \<not> fst (integral_conversion_signed (int_string 128) (0 :: 8 word))"
  using integer_conversions_exact [where out = "0 :: 16 word" and out' = "0 :: 8 word" and n = 65535 and i = "- 128"]
    integer_conversions_exact [where out = "0 :: 16 word" and out' = "0 :: 8 word" and n = 65536 and i = 128] by simp

text \<open>
  C34. The checked multiplication of limits is exact, signed at 32 bits and unsigned at any
  width: it succeeds with the product exactly when that fits, and else leaves the first factor.
\<close>

theorem checked_multiply_in_range:
  fixes x y :: "'a::len word"
  assumes "in_int a" "in_int b"
  shows "checked_multiply a b = (if in_int (a * b) then (True, a * b) else (False, a))
    \<and> checked_multiply_unsigned x y = (if unat x * unat y < 2 ^ LENGTH('a) then (True, x * y) else (False, x))"
  using checked_multiply_exact [OF assms] checked_multiply_unsigned_exact by blast

theorem checked_multiply_in_range_witness:
  "checked_multiply 65536 (- 32768) = (True, - 2147483648) \<and> checked_multiply 65536 32768 = (False, 65536)
    \<and> checked_multiply_unsigned (16 :: 8 word) 16 = (False, 16)"
  using checked_multiply_in_range [of 65536 "- 32768" "16 :: 8 word" 16]
    checked_multiply_in_range [of 65536 32768 "16 :: 8 word" 16]
  by (simp add: in_int_def int_min_def int_max_def)

text \<open>
  C35. Round trip: removing the escape sequences from an escaped string gives the string back,
  without an error, whatever bytes it holds.
\<close>

theorem escape_round_trip:
  "remove_escaped_characters (add_escaped_characters s) = Inr s"
  by (simp add: remove_escaped_characters_def unescape_escaped)

text \<open>
  C36. Round trip: extracting a string from its binary form gives it back, whatever bytes it
  holds, among them quotes, backslashes and sequences that look like escapes.
\<close>

theorem binary_round_trip:
  "is_binary_escaped_string (binary_escape_string s True) \<and> extract_binary_string (binary_escape_string s True) = s"
proof -
  have "is_binary_escaped_string (binary_escape_string s True)"
    by (simp add: is_binary_escaped_string_def binary_escape_string_def compare_at_def)
  with extract_binary_escape show ?thesis by blast
qed



text \<open>
  C38. Every command line is dealt with: the parse of any arguments, in any environment, comes
  to an end with the flags of the subcommands or with an exit code and a text, and the program
  does not end with an exception of the parser that nobody catches. The depth of the calls is
  bounded by three for each character of the arguments.
\<close>

theorem command_line_handled:
  assumes "3 * weight (tl argv) + 13 \<le> n"
  shows "(\<exists>r. main_parse env n argv = Inr r) \<and> (\<forall>e q. tcpchat_main os cin env n argv p \<noteq> Some (Uncaught e, q))"
proof -
  obtain r where r: "main_parse env n argv = Inr r" using main_parse_handled [OF assms] by blast
  obtain text_of where "main_help env = Inr text_of" using main_help_text by blast
  with r show ?thesis by (auto simp: tcpchat_main_def split: sum.splits if_splits)
qed

theorem command_line_handled_witness:
  "\<forall>env. (\<exists>r. main_parse env 100 [''tcpchat'', ''run'', ''server'', ''-p'', ''80''] = Inr r)
    \<and> (\<forall>e q. tcpchat_main script_os (\<lambda>w. ([], w)) env 100 [''tcpchat'', ''run'', ''server'', ''-p'', ''80''] (demo_proc [] [])
          \<noteq> Some (Uncaught e, q))"
  by (intro allI command_line_handled) (simp add: weight_def)

text \<open>
  C39. The port of the server: \<^verbatim>\<open>tcpchat run server -p N\<close>, under whatever name and in whatever
  environment, runs the server on port N when N is below 65536, and otherwise prints that the
  value could not be converted and ends with the exit code 104, with no system call made.
\<close>

theorem server_port_option:
  "tcpchat_main os cin env (n + 18) [prog, ''run'', ''server'', ''-p'', decimal k] p =
    (if k < 65536 then map_option (map_prod Ended id) (main_server os (of_nat k) p)
     else Some (Refused 104 (''Could not convert: --port = '' @ decimal k @ [newline]
                  @ ''Run with --help for more information.'' @ [newline]), p))"
  using server_line_result [of "n + 18" env prog k]
  by (simp add: tcpchat_main_def port_refused_def)

text \<open>
  C40. Type soundness: whatever the strings are, the conversion to a type gives a value of that
  type; and for a type that takes a fixed number of strings, given as many, or a container of
  such, given a multiple of them and no separator, it comes to a result, with no read or erase
  past the end of the results.
\<close>

theorem typed_conversion:
  assumes "has_type t out"
  shows "(\<forall>ok v. lexical_conversion_type L t strings out = Inr (ok, v) \<longrightarrow> has_type t v)
    \<and> (fixed_type t \<and> type_count t \<le> int (length strings) \<longrightarrow>
         (\<exists>ok v. lexical_conversion_type L t strings out = Inr (ok, v)))
    \<and> (\<forall>u. t = T_vector u \<and> fixed_type u \<and> (\<forall>s \<in> set strings. \<not> is_separator s)
           \<and> nat (type_count u) dvd length strings \<longrightarrow>
         (\<exists>ok v. lexical_conversion_type L t strings out = Inr (ok, v)))"
  using typedD [OF conversion_typed assms] defined_fromD [OF fixed_defined] vector_defined by blast

theorem typed_conversion_witness:
  "\<exists>ok v. lexical_conversion_type \<lparr>fl_strtold = \<lambda>s. (0 :: int, 0), fl_zero = 0, fl_read_complex = \<lambda>s xy. (False, xy),
        fl_show = \<lambda>x. [], fl_to_string = \<lambda>x. [], fl_show_complex = \<lambda>x y. []\<rparr>
      (T_vector (T_tuple [T_unsigned W16, T_string])) [''80'', ''a'', ''81'', ''b''] (V_vector []) = Inr (ok, v)
    \<and> has_type (T_vector (T_tuple [T_unsigned W16, T_string])) v"
proof -
  let ?L = "\<lparr>fl_strtold = \<lambda>s. (0 :: int, 0), fl_zero = 0, fl_read_complex = \<lambda>s xy. (False, xy),
        fl_show = \<lambda>x. [], fl_to_string = \<lambda>x. [], fl_show_complex = \<lambda>x y. []\<rparr>"
  have "has_type (T_vector (T_tuple [T_unsigned W16, T_string])) (V_vector ([] :: int cpp_value list))" by simp
  from typed_conversion [OF this, of ?L "[''80'', ''a'', ''81'', ''b'']"] show ?thesis
    by (simp add: is_separator_def subtype_count_def del: has_type.simps) blast
qed

end
